(* ===== verification/StructMeta.thy ===== *)
theory StructMeta
  imports Main
begin

text \<open>
  \<open>src/src/vulkan_structs_meta.hpp\<close>, generated from the Vulkan headers: for each
  structure the names of its members in declaration order, as \<open>VISITABLE_STRUCT\<close> records
  them. A member's position in its list is the index \<open>visit_struct::for_each\<close> passes.
  \<open>NullWrapper\<close> is made visitable by \<open>src/src/StructFieldExtractor.inl\<close>.
\<close>

type_synonym struct_meta = "(string \<times> string list) list"

definition struct_meta_1 :: struct_meta where
  "struct_meta_1 = [
    (''VkApplicationInfo'', [''sType'', ''pNext'', ''pApplicationName'', ''applicationVersion'',
      ''pEngineName'', ''engineVersion'', ''apiVersion'']),
    (''VkInstanceCreateInfo'', [''sType'', ''pNext'', ''flags'', ''pApplicationInfo'',
      ''enabledLayerCount'', ''ppEnabledLayerNames'', ''enabledExtensionCount'',
      ''ppEnabledExtensionNames'']),
    (''VkAllocationCallbacks'', [''pUserData'', ''pfnAllocation'', ''pfnReallocation'',
      ''pfnFree'', ''pfnInternalAllocation'', ''pfnInternalFree'']),
    (''VkPhysicalDeviceFeatures'', [''robustBufferAccess'', ''fullDrawIndexUint32'',
      ''imageCubeArray'', ''independentBlend'', ''geometryShader'', ''tessellationShader'',
      ''sampleRateShading'', ''dualSrcBlend'', ''logicOp'', ''multiDrawIndirect'',
      ''drawIndirectFirstInstance'', ''depthClamp'', ''depthBiasClamp'', ''fillModeNonSolid'',
      ''depthBounds'', ''wideLines'', ''largePoints'', ''alphaToOne'', ''multiViewport'',
      ''samplerAnisotropy'', ''textureCompressionETC2'', ''textureCompressionASTC_LDR'',
      ''textureCompressionBC'', ''occlusionQueryPrecise'', ''pipelineStatisticsQuery'',
      ''vertexPipelineStoresAndAtomics'', ''fragmentStoresAndAtomics'',
      ''shaderTessellationAndGeometryPointSize'', ''shaderImageGatherExtended'',
      ''shaderStorageImageExtendedFormats'', ''shaderStorageImageMultisample'',
      ''shaderStorageImageReadWithoutFormat'', ''shaderStorageImageWriteWithoutFormat'',
      ''shaderUniformBufferArrayDynamicIndexing'', ''shaderSampledImageArrayDynamicIndexing'',
      ''shaderStorageBufferArrayDynamicIndexing'', ''shaderStorageImageArrayDynamicIndexing'',
      ''shaderClipDistance'', ''shaderCullDistance'', ''shaderFloat64'', ''shaderInt64'',
      ''shaderInt16'', ''shaderResourceResidency'', ''shaderResourceMinLod'', ''sparseBinding'',
      ''sparseResidencyBuffer'', ''sparseResidencyImage2D'', ''sparseResidencyImage3D'',
      ''sparseResidency2Samples'', ''sparseResidency4Samples'', ''sparseResidency8Samples'',
      ''sparseResidency16Samples'', ''sparseResidencyAliased'', ''variableMultisampleRate'',
      ''inheritedQueries'']),
    (''VkFormatProperties'', [''linearTilingFeatures'', ''optimalTilingFeatures'',
      ''bufferFeatures'']),
    (''VkExtent3D'', [''width'', ''height'', ''depth'']),
    (''VkImageFormatProperties'', [''maxExtent'', ''maxMipLevels'', ''maxArrayLayers'',
      ''sampleCounts'', ''maxResourceSize'']),
    (''VkPhysicalDeviceLimits'', [''maxImageDimension1D'', ''maxImageDimension2D'',
      ''maxImageDimension3D'', ''maxImageDimensionCube'', ''maxImageArrayLayers'',
      ''maxTexelBufferElements'', ''maxUniformBufferRange'', ''maxStorageBufferRange'',
      ''maxPushConstantsSize'', ''maxMemoryAllocationCount'', ''maxSamplerAllocationCount'',
      ''bufferImageGranularity'', ''sparseAddressSpaceSize'', ''maxBoundDescriptorSets'',
      ''maxPerStageDescriptorSamplers'', ''maxPerStageDescriptorUniformBuffers'',
      ''maxPerStageDescriptorStorageBuffers'', ''maxPerStageDescriptorSampledImages'',
      ''maxPerStageDescriptorStorageImages'', ''maxPerStageDescriptorInputAttachments'',
      ''maxPerStageResources'', ''maxDescriptorSetSamplers'', ''maxDescriptorSetUniformBuffers'',
      ''maxDescriptorSetUniformBuffersDynamic'', ''maxDescriptorSetStorageBuffers'',
      ''maxDescriptorSetStorageBuffersDynamic'', ''maxDescriptorSetSampledImages'',
      ''maxDescriptorSetStorageImages'', ''maxDescriptorSetInputAttachments'',
      ''maxVertexInputAttributes'', ''maxVertexInputBindings'',
      ''maxVertexInputAttributeOffset'', ''maxVertexInputBindingStride'',
      ''maxVertexOutputComponents'', ''maxTessellationGenerationLevel'',
      ''maxTessellationPatchSize'', ''maxTessellationControlPerVertexInputComponents'',
      ''maxTessellationControlPerVertexOutputComponents'',
      ''maxTessellationControlPerPatchOutputComponents'',
      ''maxTessellationControlTotalOutputComponents'',
      ''maxTessellationEvaluationInputComponents'',
      ''maxTessellationEvaluationOutputComponents'', ''maxGeometryShaderInvocations'',
      ''maxGeometryInputComponents'', ''maxGeometryOutputComponents'',
      ''maxGeometryOutputVertices'', ''maxGeometryTotalOutputComponents'',
      ''maxFragmentInputComponents'', ''maxFragmentOutputAttachments'',
      ''maxFragmentDualSrcAttachments'', ''maxFragmentCombinedOutputResources'',
      ''maxComputeSharedMemorySize'', ''maxComputeWorkGroupCount'',
      ''maxComputeWorkGroupInvocations'', ''maxComputeWorkGroupSize'', ''subPixelPrecisionBits'',
      ''subTexelPrecisionBits'', ''mipmapPrecisionBits'', ''maxDrawIndexedIndexValue'',
      ''maxDrawIndirectCount'', ''maxSamplerLodBias'', ''maxSamplerAnisotropy'',
      ''maxViewports'', ''maxViewportDimensions'', ''viewportBoundsRange'',
      ''viewportSubPixelBits'', ''minMemoryMapAlignment'', ''minTexelBufferOffsetAlignment'',
      ''minUniformBufferOffsetAlignment'', ''minStorageBufferOffsetAlignment'',
      ''minTexelOffset'', ''maxTexelOffset'', ''minTexelGatherOffset'', ''maxTexelGatherOffset'',
      ''minInterpolationOffset'', ''maxInterpolationOffset'',
      ''subPixelInterpolationOffsetBits'', ''maxFramebufferWidth'', ''maxFramebufferHeight'',
      ''maxFramebufferLayers'', ''framebufferColorSampleCounts'',
      ''framebufferDepthSampleCounts'', ''framebufferStencilSampleCounts'',
      ''framebufferNoAttachmentsSampleCounts'', ''maxColorAttachments'',
      ''sampledImageColorSampleCounts'', ''sampledImageIntegerSampleCounts'',
      ''sampledImageDepthSampleCounts'', ''sampledImageStencilSampleCounts'',
      ''storageImageSampleCounts'', ''maxSampleMaskWords'', ''timestampComputeAndGraphics'',
      ''timestampPeriod'', ''maxClipDistances'', ''maxCullDistances'',
      ''maxCombinedClipAndCullDistances'', ''discreteQueuePriorities'', ''pointSizeRange'',
      ''lineWidthRange'', ''pointSizeGranularity'', ''lineWidthGranularity'', ''strictLines'',
      ''standardSampleLocations'', ''optimalBufferCopyOffsetAlignment'',
      ''optimalBufferCopyRowPitchAlignment'', ''nonCoherentAtomSize'']),
    (''VkPhysicalDeviceSparseProperties'', [''residencyStandard2DBlockShape'',
      ''residencyStandard2DMultisampleBlockShape'', ''residencyStandard3DBlockShape'',
      ''residencyAlignedMipSize'', ''residencyNonResidentStrict'']),
    (''VkPhysicalDeviceProperties'', [''apiVersion'', ''driverVersion'', ''vendorID'',
      ''deviceID'', ''deviceType'', ''deviceName'', ''pipelineCacheUUID'', ''limits'',
      ''sparseProperties'']),
    (''VkQueueFamilyProperties'', [''queueFlags'', ''queueCount'', ''timestampValidBits'',
      ''minImageTransferGranularity'']),
    (''VkMemoryType'', [''propertyFlags'', ''heapIndex'']),
    (''VkMemoryHeap'', [''size'', ''flags'']),
    (''VkPhysicalDeviceMemoryProperties'', [''memoryTypeCount'', ''memoryTypes'',
      ''memoryHeapCount'', ''memoryHeaps'']),
    (''VkDeviceQueueCreateInfo'', [''sType'', ''pNext'', ''flags'', ''queueFamilyIndex'',
      ''queueCount'', ''pQueuePriorities'']),
    (''VkDeviceCreateInfo'', [''sType'', ''pNext'', ''flags'', ''queueCreateInfoCount'',
      ''pQueueCreateInfos'', ''enabledLayerCount'', ''ppEnabledLayerNames'',
      ''enabledExtensionCount'', ''ppEnabledExtensionNames'', ''pEnabledFeatures'']),
    (''VkExtensionProperties'', [''extensionName'', ''specVersion'']),
    (''VkLayerProperties'', [''layerName'', ''specVersion'', ''implementationVersion'',
      ''description'']),
    (''VkSubmitInfo'', [''sType'', ''pNext'', ''waitSemaphoreCount'', ''pWaitSemaphores'',
      ''pWaitDstStageMask'', ''commandBufferCount'', ''pCommandBuffers'',
      ''signalSemaphoreCount'', ''pSignalSemaphores'']),
    (''VkMemoryAllocateInfo'', [''sType'', ''pNext'', ''allocationSize'', ''memoryTypeIndex'']),
    (''VkMappedMemoryRange'', [''sType'', ''pNext'', ''memory'', ''offset'', ''size'']),
    (''VkMemoryRequirements'', [''size'', ''alignment'', ''memoryTypeBits'']),
    (''VkSparseImageFormatProperties'', [''aspectMask'', ''imageGranularity'', ''flags'']),
    (''VkSparseImageMemoryRequirements'', [''formatProperties'', ''imageMipTailFirstLod'',
      ''imageMipTailSize'', ''imageMipTailOffset'', ''imageMipTailStride'']),
    (''VkSparseMemoryBind'', [''resourceOffset'', ''size'', ''memory'', ''memoryOffset'',
      ''flags'']),
    (''VkSparseBufferMemoryBindInfo'', [''buffer'', ''bindCount'', ''pBinds'']),
    (''VkSparseImageOpaqueMemoryBindInfo'', [''image'', ''bindCount'', ''pBinds'']),
    (''VkImageSubresource'', [''aspectMask'', ''mipLevel'', ''arrayLayer'']),
    (''VkOffset3D'', [''x'', ''y'', ''z'']),
    (''VkSparseImageMemoryBind'', [''subresource'', ''offset'', ''extent'', ''memory'',
      ''memoryOffset'', ''flags'']),
    (''VkSparseImageMemoryBindInfo'', [''image'', ''bindCount'', ''pBinds'']),
    (''VkBindSparseInfo'', [''sType'', ''pNext'', ''waitSemaphoreCount'', ''pWaitSemaphores'',
      ''bufferBindCount'', ''pBufferBinds'', ''imageOpaqueBindCount'', ''pImageOpaqueBinds'',
      ''imageBindCount'', ''pImageBinds'', ''signalSemaphoreCount'', ''pSignalSemaphores'']),
    (''VkFenceCreateInfo'', [''sType'', ''pNext'', ''flags'']),
    (''VkSemaphoreCreateInfo'', [''sType'', ''pNext'', ''flags'']),
    (''VkEventCreateInfo'', [''sType'', ''pNext'', ''flags'']),
    (''VkQueryPoolCreateInfo'', [''sType'', ''pNext'', ''flags'', ''queryType'', ''queryCount'',
      ''pipelineStatistics'']),
    (''VkBufferCreateInfo'', [''sType'', ''pNext'', ''flags'', ''size'', ''usage'',
      ''sharingMode'', ''queueFamilyIndexCount'', ''pQueueFamilyIndices'']),
    (''VkBufferViewCreateInfo'', [''sType'', ''pNext'', ''flags'', ''buffer'', ''format'',
      ''offset'', ''range'']),
    (''VkImageCreateInfo'', [''sType'', ''pNext'', ''flags'', ''imageType'', ''format'',
      ''extent'', ''mipLevels'', ''arrayLayers'', ''samples'', ''tiling'', ''usage'',
      ''sharingMode'', ''queueFamilyIndexCount'', ''pQueueFamilyIndices'', ''initialLayout'']),
    (''VkSubresourceLayout'', [''offset'', ''size'', ''rowPitch'', ''arrayPitch'',
      ''depthPitch'']),
    (''VkComponentMapping'', [''r'', ''g'', ''b'', ''a'']),
    (''VkImageSubresourceRange'', [''aspectMask'', ''baseMipLevel'', ''levelCount'',
      ''baseArrayLayer'', ''layerCount'']),
    (''VkImageViewCreateInfo'', [''sType'', ''pNext'', ''flags'', ''image'', ''viewType'',
      ''format'', ''components'', ''subresourceRange'']),
    (''VkShaderModuleCreateInfo'', [''sType'', ''pNext'', ''flags'', ''codeSize'', ''pCode'']),
    (''VkPipelineCacheCreateInfo'', [''sType'', ''pNext'', ''flags'', ''initialDataSize'',
      ''pInitialData'']),
    (''VkSpecializationMapEntry'', [''constantID'', ''offset'', ''size'']),
    (''VkSpecializationInfo'', [''mapEntryCount'', ''pMapEntries'', ''dataSize'', ''pData'']),
    (''VkPipelineShaderStageCreateInfo'', [''sType'', ''pNext'', ''flags'', ''stage'',
      ''module'', ''pName'', ''pSpecializationInfo'']),
    (''VkVertexInputBindingDescription'', [''binding'', ''stride'', ''inputRate'']),
    (''VkVertexInputAttributeDescription'', [''location'', ''binding'', ''format'', ''offset'']),
    (''VkPipelineVertexInputStateCreateInfo'', [''sType'', ''pNext'', ''flags'',
      ''vertexBindingDescriptionCount'', ''pVertexBindingDescriptions'',
      ''vertexAttributeDescriptionCount'', ''pVertexAttributeDescriptions'']),
    (''VkPipelineInputAssemblyStateCreateInfo'', [''sType'', ''pNext'', ''flags'', ''topology'',
      ''primitiveRestartEnable'']),
    (''VkPipelineTessellationStateCreateInfo'', [''sType'', ''pNext'', ''flags'',
      ''patchControlPoints'']),
    (''VkViewport'', [''x'', ''y'', ''width'', ''height'', ''minDepth'', ''maxDepth'']),
    (''VkOffset2D'', [''x'', ''y'']),
    (''VkExtent2D'', [''width'', ''height'']),
    (''VkRect2D'', [''offset'', ''extent'']),
    (''VkPipelineViewportStateCreateInfo'', [''sType'', ''pNext'', ''flags'', ''viewportCount'',
      ''pViewports'', ''scissorCount'', ''pScissors'']),
    (''VkPipelineRasterizationStateCreateInfo'', [''sType'', ''pNext'', ''flags'',
      ''depthClampEnable'', ''rasterizerDiscardEnable'', ''polygonMode'', ''cullMode'',
      ''frontFace'', ''depthBiasEnable'', ''depthBiasConstantFactor'', ''depthBiasClamp'',
      ''depthBiasSlopeFactor'', ''lineWidth'']),
    (''VkPipelineMultisampleStateCreateInfo'', [''sType'', ''pNext'', ''flags'',
      ''rasterizationSamples'', ''sampleShadingEnable'', ''minSampleShading'', ''pSampleMask'',
      ''alphaToCoverageEnable'', ''alphaToOneEnable'']),
    (''VkStencilOpState'', [''failOp'', ''passOp'', ''depthFailOp'', ''compareOp'',
      ''compareMask'', ''writeMask'', ''reference'']),
    (''VkPipelineDepthStencilStateCreateInfo'', [''sType'', ''pNext'', ''flags'',
      ''depthTestEnable'', ''depthWriteEnable'', ''depthCompareOp'', ''depthBoundsTestEnable'',
      ''stencilTestEnable'', ''front'', ''back'', ''minDepthBounds'', ''maxDepthBounds'']),
    (''VkPipelineColorBlendAttachmentState'', [''blendEnable'', ''srcColorBlendFactor'',
      ''dstColorBlendFactor'', ''colorBlendOp'', ''srcAlphaBlendFactor'',
      ''dstAlphaBlendFactor'', ''alphaBlendOp'', ''colorWriteMask'']),
    (''VkPipelineColorBlendStateCreateInfo'', [''sType'', ''pNext'', ''flags'',
      ''logicOpEnable'', ''logicOp'', ''attachmentCount'', ''pAttachments'', ''blendConstants'']),
    (''VkPipelineDynamicStateCreateInfo'', [''sType'', ''pNext'', ''flags'',
      ''dynamicStateCount'', ''pDynamicStates'']),
    (''VkGraphicsPipelineCreateInfo'', [''sType'', ''pNext'', ''flags'', ''stageCount'',
      ''pStages'', ''pVertexInputState'', ''pInputAssemblyState'', ''pTessellationState'',
      ''pViewportState'', ''pRasterizationState'', ''pMultisampleState'', ''pDepthStencilState'',
      ''pColorBlendState'', ''pDynamicState'', ''layout'', ''renderPass'', ''subpass'',
      ''basePipelineHandle'', ''basePipelineIndex'']),
    (''VkComputePipelineCreateInfo'', [''sType'', ''pNext'', ''flags'', ''stage'', ''layout'',
      ''basePipelineHandle'', ''basePipelineIndex'']),
    (''VkPushConstantRange'', [''stageFlags'', ''offset'', ''size'']),
    (''VkPipelineLayoutCreateInfo'', [''sType'', ''pNext'', ''flags'', ''setLayoutCount'',
      ''pSetLayouts'', ''pushConstantRangeCount'', ''pPushConstantRanges'']),
    (''VkSamplerCreateInfo'', [''sType'', ''pNext'', ''flags'', ''magFilter'', ''minFilter'',
      ''mipmapMode'', ''addressModeU'', ''addressModeV'', ''addressModeW'', ''mipLodBias'',
      ''anisotropyEnable'', ''maxAnisotropy'', ''compareEnable'', ''compareOp'', ''minLod'',
      ''maxLod'', ''borderColor'', ''unnormalizedCoordinates'']),
    (''VkDescriptorSetLayoutBinding'', [''binding'', ''descriptorType'', ''descriptorCount'',
      ''stageFlags'', ''pImmutableSamplers'']),
    (''VkDescriptorSetLayoutCreateInfo'', [''sType'', ''pNext'', ''flags'', ''bindingCount'',
      ''pBindings'']),
    (''VkDescriptorPoolSize'', [''type'', ''descriptorCount'']),
    (''VkDescriptorPoolCreateInfo'', [''sType'', ''pNext'', ''flags'', ''maxSets'',
      ''poolSizeCount'', ''pPoolSizes'']),
    (''VkDescriptorSetAllocateInfo'', [''sType'', ''pNext'', ''descriptorPool'',
      ''descriptorSetCount'', ''pSetLayouts''])]"

definition struct_meta_2 :: struct_meta where
  "struct_meta_2 = [
    (''VkDescriptorImageInfo'', [''sampler'', ''imageView'', ''imageLayout'']),
    (''VkDescriptorBufferInfo'', [''buffer'', ''offset'', ''range'']),
    (''VkWriteDescriptorSet'', [''sType'', ''pNext'', ''dstSet'', ''dstBinding'',
      ''dstArrayElement'', ''descriptorCount'', ''descriptorType'', ''pImageInfo'',
      ''pBufferInfo'', ''pTexelBufferView'']),
    (''VkCopyDescriptorSet'', [''sType'', ''pNext'', ''srcSet'', ''srcBinding'',
      ''srcArrayElement'', ''dstSet'', ''dstBinding'', ''dstArrayElement'', ''descriptorCount'']),
    (''VkFramebufferCreateInfo'', [''sType'', ''pNext'', ''flags'', ''renderPass'',
      ''attachmentCount'', ''pAttachments'', ''width'', ''height'', ''layers'']),
    (''VkAttachmentDescription'', [''flags'', ''format'', ''samples'', ''loadOp'', ''storeOp'',
      ''stencilLoadOp'', ''stencilStoreOp'', ''initialLayout'', ''finalLayout'']),
    (''VkAttachmentReference'', [''attachment'', ''layout'']),
    (''VkSubpassDescription'', [''flags'', ''pipelineBindPoint'', ''inputAttachmentCount'',
      ''pInputAttachments'', ''colorAttachmentCount'', ''pColorAttachments'',
      ''pResolveAttachments'', ''pDepthStencilAttachment'', ''preserveAttachmentCount'',
      ''pPreserveAttachments'']),
    (''VkSubpassDependency'', [''srcSubpass'', ''dstSubpass'', ''srcStageMask'',
      ''dstStageMask'', ''srcAccessMask'', ''dstAccessMask'', ''dependencyFlags'']),
    (''VkRenderPassCreateInfo'', [''sType'', ''pNext'', ''flags'', ''attachmentCount'',
      ''pAttachments'', ''subpassCount'', ''pSubpasses'', ''dependencyCount'',
      ''pDependencies'']),
    (''VkCommandPoolCreateInfo'', [''sType'', ''pNext'', ''flags'', ''queueFamilyIndex'']),
    (''VkCommandBufferAllocateInfo'', [''sType'', ''pNext'', ''commandPool'', ''level'',
      ''commandBufferCount'']),
    (''VkCommandBufferInheritanceInfo'', [''sType'', ''pNext'', ''renderPass'', ''subpass'',
      ''framebuffer'', ''occlusionQueryEnable'', ''queryFlags'', ''pipelineStatistics'']),
    (''VkCommandBufferBeginInfo'', [''sType'', ''pNext'', ''flags'', ''pInheritanceInfo'']),
    (''VkBufferCopy'', [''srcOffset'', ''dstOffset'', ''size'']),
    (''VkImageSubresourceLayers'', [''aspectMask'', ''mipLevel'', ''baseArrayLayer'',
      ''layerCount'']),
    (''VkImageCopy'', [''srcSubresource'', ''srcOffset'', ''dstSubresource'', ''dstOffset'',
      ''extent'']),
    (''VkImageBlit'', [''srcSubresource'', ''srcOffsets'', ''dstSubresource'', ''dstOffsets'']),
    (''VkBufferImageCopy'', [''bufferOffset'', ''bufferRowLength'', ''bufferImageHeight'',
      ''imageSubresource'', ''imageOffset'', ''imageExtent'']),
    (''VkClearDepthStencilValue'', [''depth'', ''stencil'']),
    (''VkClearAttachment'', [''aspectMask'', ''colorAttachment'', ''clearValue'']),
    (''VkClearRect'', [''rect'', ''baseArrayLayer'', ''layerCount'']),
    (''VkImageResolve'', [''srcSubresource'', ''srcOffset'', ''dstSubresource'', ''dstOffset'',
      ''extent'']),
    (''VkMemoryBarrier'', [''sType'', ''pNext'', ''srcAccessMask'', ''dstAccessMask'']),
    (''VkBufferMemoryBarrier'', [''sType'', ''pNext'', ''srcAccessMask'', ''dstAccessMask'',
      ''srcQueueFamilyIndex'', ''dstQueueFamilyIndex'', ''buffer'', ''offset'', ''size'']),
    (''VkImageMemoryBarrier'', [''sType'', ''pNext'', ''srcAccessMask'', ''dstAccessMask'',
      ''oldLayout'', ''newLayout'', ''srcQueueFamilyIndex'', ''dstQueueFamilyIndex'', ''image'',
      ''subresourceRange'']),
    (''VkRenderPassBeginInfo'', [''sType'', ''pNext'', ''renderPass'', ''framebuffer'',
      ''renderArea'', ''clearValueCount'', ''pClearValues'']),
    (''VkDispatchIndirectCommand'', [''x'', ''y'', ''z'']),
    (''VkDrawIndexedIndirectCommand'', [''indexCount'', ''instanceCount'', ''firstIndex'',
      ''vertexOffset'', ''firstInstance'']),
    (''VkDrawIndirectCommand'', [''vertexCount'', ''instanceCount'', ''firstVertex'',
      ''firstInstance'']),
    (''VkBaseOutStructure'', [''sType'', ''pNext'']),
    (''VkBaseInStructure'', [''sType'', ''pNext'']),
    (''VkPhysicalDeviceSubgroupProperties'', [''sType'', ''pNext'', ''subgroupSize'',
      ''supportedStages'', ''supportedOperations'', ''quadOperationsInAllStages'']),
    (''VkBindBufferMemoryInfo'', [''sType'', ''pNext'', ''buffer'', ''memory'',
      ''memoryOffset'']),
    (''VkBindImageMemoryInfo'', [''sType'', ''pNext'', ''image'', ''memory'', ''memoryOffset'']),
    (''VkPhysicalDevice16BitStorageFeatures'', [''sType'', ''pNext'',
      ''storageBuffer16BitAccess'', ''uniformAndStorageBuffer16BitAccess'',
      ''storagePushConstant16'', ''storageInputOutput16'']),
    (''VkMemoryDedicatedRequirements'', [''sType'', ''pNext'', ''prefersDedicatedAllocation'',
      ''requiresDedicatedAllocation'']),
    (''VkMemoryDedicatedAllocateInfo'', [''sType'', ''pNext'', ''image'', ''buffer'']),
    (''VkMemoryAllocateFlagsInfo'', [''sType'', ''pNext'', ''flags'', ''deviceMask'']),
    (''VkDeviceGroupRenderPassBeginInfo'', [''sType'', ''pNext'', ''deviceMask'',
      ''deviceRenderAreaCount'', ''pDeviceRenderAreas'']),
    (''VkDeviceGroupCommandBufferBeginInfo'', [''sType'', ''pNext'', ''deviceMask'']),
    (''VkDeviceGroupSubmitInfo'', [''sType'', ''pNext'', ''waitSemaphoreCount'',
      ''pWaitSemaphoreDeviceIndices'', ''commandBufferCount'', ''pCommandBufferDeviceMasks'',
      ''signalSemaphoreCount'', ''pSignalSemaphoreDeviceIndices'']),
    (''VkDeviceGroupBindSparseInfo'', [''sType'', ''pNext'', ''resourceDeviceIndex'',
      ''memoryDeviceIndex'']),
    (''VkBindBufferMemoryDeviceGroupInfo'', [''sType'', ''pNext'', ''deviceIndexCount'',
      ''pDeviceIndices'']),
    (''VkBindImageMemoryDeviceGroupInfo'', [''sType'', ''pNext'', ''deviceIndexCount'',
      ''pDeviceIndices'', ''splitInstanceBindRegionCount'', ''pSplitInstanceBindRegions'']),
    (''VkPhysicalDeviceGroupProperties'', [''sType'', ''pNext'', ''physicalDeviceCount'',
      ''physicalDevices'', ''subsetAllocation'']),
    (''VkDeviceGroupDeviceCreateInfo'', [''sType'', ''pNext'', ''physicalDeviceCount'',
      ''pPhysicalDevices'']),
    (''VkBufferMemoryRequirementsInfo2'', [''sType'', ''pNext'', ''buffer'']),
    (''VkImageMemoryRequirementsInfo2'', [''sType'', ''pNext'', ''image'']),
    (''VkImageSparseMemoryRequirementsInfo2'', [''sType'', ''pNext'', ''image'']),
    (''VkMemoryRequirements2'', [''sType'', ''pNext'', ''memoryRequirements'']),
    (''VkSparseImageMemoryRequirements2'', [''sType'', ''pNext'', ''memoryRequirements'']),
    (''VkPhysicalDeviceFeatures2'', [''sType'', ''pNext'', ''features'']),
    (''VkPhysicalDeviceProperties2'', [''sType'', ''pNext'', ''properties'']),
    (''VkFormatProperties2'', [''sType'', ''pNext'', ''formatProperties'']),
    (''VkImageFormatProperties2'', [''sType'', ''pNext'', ''imageFormatProperties'']),
    (''VkPhysicalDeviceImageFormatInfo2'', [''sType'', ''pNext'', ''format'', ''type'',
      ''tiling'', ''usage'', ''flags'']),
    (''VkQueueFamilyProperties2'', [''sType'', ''pNext'', ''queueFamilyProperties'']),
    (''VkPhysicalDeviceMemoryProperties2'', [''sType'', ''pNext'', ''memoryProperties'']),
    (''VkSparseImageFormatProperties2'', [''sType'', ''pNext'', ''properties'']),
    (''VkPhysicalDeviceSparseImageFormatInfo2'', [''sType'', ''pNext'', ''format'', ''type'',
      ''samples'', ''usage'', ''tiling'']),
    (''VkPhysicalDevicePointClippingProperties'', [''sType'', ''pNext'',
      ''pointClippingBehavior'']),
    (''VkInputAttachmentAspectReference'', [''subpass'', ''inputAttachmentIndex'',
      ''aspectMask'']),
    (''VkRenderPassInputAttachmentAspectCreateInfo'', [''sType'', ''pNext'',
      ''aspectReferenceCount'', ''pAspectReferences'']),
    (''VkImageViewUsageCreateInfo'', [''sType'', ''pNext'', ''usage'']),
    (''VkPipelineTessellationDomainOriginStateCreateInfo'', [''sType'', ''pNext'',
      ''domainOrigin'']),
    (''VkRenderPassMultiviewCreateInfo'', [''sType'', ''pNext'', ''subpassCount'',
      ''pViewMasks'', ''dependencyCount'', ''pViewOffsets'', ''correlationMaskCount'',
      ''pCorrelationMasks'']),
    (''VkPhysicalDeviceMultiviewFeatures'', [''sType'', ''pNext'', ''multiview'',
      ''multiviewGeometryShader'', ''multiviewTessellationShader'']),
    (''VkPhysicalDeviceMultiviewProperties'', [''sType'', ''pNext'', ''maxMultiviewViewCount'',
      ''maxMultiviewInstanceIndex'']),
    (''VkPhysicalDeviceVariablePointersFeatures'', [''sType'', ''pNext'',
      ''variablePointersStorageBuffer'', ''variablePointers'']),
    (''VkPhysicalDeviceProtectedMemoryFeatures'', [''sType'', ''pNext'', ''protectedMemory'']),
    (''VkPhysicalDeviceProtectedMemoryProperties'', [''sType'', ''pNext'', ''protectedNoFault'']),
    (''VkDeviceQueueInfo2'', [''sType'', ''pNext'', ''flags'', ''queueFamilyIndex'',
      ''queueIndex'']),
    (''VkProtectedSubmitInfo'', [''sType'', ''pNext'', ''protectedSubmit'']),
    (''VkSamplerYcbcrConversionCreateInfo'', [''sType'', ''pNext'', ''format'', ''ycbcrModel'',
      ''ycbcrRange'', ''components'', ''xChromaOffset'', ''yChromaOffset'', ''chromaFilter'',
      ''forceExplicitReconstruction''])]"

definition struct_meta_3 :: struct_meta where
  "struct_meta_3 = [
    (''VkSamplerYcbcrConversionInfo'', [''sType'', ''pNext'', ''conversion'']),
    (''VkBindImagePlaneMemoryInfo'', [''sType'', ''pNext'', ''planeAspect'']),
    (''VkImagePlaneMemoryRequirementsInfo'', [''sType'', ''pNext'', ''planeAspect'']),
    (''VkPhysicalDeviceSamplerYcbcrConversionFeatures'', [''sType'', ''pNext'',
      ''samplerYcbcrConversion'']),
    (''VkSamplerYcbcrConversionImageFormatProperties'', [''sType'', ''pNext'',
      ''combinedImageSamplerDescriptorCount'']),
    (''VkDescriptorUpdateTemplateEntry'', [''dstBinding'', ''dstArrayElement'',
      ''descriptorCount'', ''descriptorType'', ''offset'', ''stride'']),
    (''VkDescriptorUpdateTemplateCreateInfo'', [''sType'', ''pNext'', ''flags'',
      ''descriptorUpdateEntryCount'', ''pDescriptorUpdateEntries'', ''templateType'',
      ''descriptorSetLayout'', ''pipelineBindPoint'', ''pipelineLayout'', ''set'']),
    (''VkExternalMemoryProperties'', [''externalMemoryFeatures'',
      ''exportFromImportedHandleTypes'', ''compatibleHandleTypes'']),
    (''VkPhysicalDeviceExternalImageFormatInfo'', [''sType'', ''pNext'', ''handleType'']),
    (''VkExternalImageFormatProperties'', [''sType'', ''pNext'', ''externalMemoryProperties'']),
    (''VkPhysicalDeviceExternalBufferInfo'', [''sType'', ''pNext'', ''flags'', ''usage'',
      ''handleType'']),
    (''VkExternalBufferProperties'', [''sType'', ''pNext'', ''externalMemoryProperties'']),
    (''VkPhysicalDeviceIDProperties'', [''sType'', ''pNext'', ''deviceUUID'', ''driverUUID'',
      ''deviceLUID'', ''deviceNodeMask'', ''deviceLUIDValid'']),
    (''VkExternalMemoryImageCreateInfo'', [''sType'', ''pNext'', ''handleTypes'']),
    (''VkExternalMemoryBufferCreateInfo'', [''sType'', ''pNext'', ''handleTypes'']),
    (''VkExportMemoryAllocateInfo'', [''sType'', ''pNext'', ''handleTypes'']),
    (''VkPhysicalDeviceExternalFenceInfo'', [''sType'', ''pNext'', ''handleType'']),
    (''VkExternalFenceProperties'', [''sType'', ''pNext'', ''exportFromImportedHandleTypes'',
      ''compatibleHandleTypes'', ''externalFenceFeatures'']),
    (''VkExportFenceCreateInfo'', [''sType'', ''pNext'', ''handleTypes'']),
    (''VkExportSemaphoreCreateInfo'', [''sType'', ''pNext'', ''handleTypes'']),
    (''VkPhysicalDeviceExternalSemaphoreInfo'', [''sType'', ''pNext'', ''handleType'']),
    (''VkExternalSemaphoreProperties'', [''sType'', ''pNext'', ''exportFromImportedHandleTypes'',
      ''compatibleHandleTypes'', ''externalSemaphoreFeatures'']),
    (''VkPhysicalDeviceMaintenance3Properties'', [''sType'', ''pNext'', ''maxPerSetDescriptors'',
      ''maxMemoryAllocationSize'']),
    (''VkDescriptorSetLayoutSupport'', [''sType'', ''pNext'', ''supported'']),
    (''VkPhysicalDeviceShaderDrawParametersFeatures'', [''sType'', ''pNext'',
      ''shaderDrawParameters'']),
    (''VkSurfaceCapabilitiesKHR'', [''minImageCount'', ''maxImageCount'', ''currentExtent'',
      ''minImageExtent'', ''maxImageExtent'', ''maxImageArrayLayers'', ''supportedTransforms'',
      ''currentTransform'', ''supportedCompositeAlpha'', ''supportedUsageFlags'']),
    (''VkSurfaceFormatKHR'', [''format'', ''colorSpace'']),
    (''VkSwapchainCreateInfoKHR'', [''sType'', ''pNext'', ''flags'', ''surface'',
      ''minImageCount'', ''imageFormat'', ''imageColorSpace'', ''imageExtent'',
      ''imageArrayLayers'', ''imageUsage'', ''imageSharingMode'', ''queueFamilyIndexCount'',
      ''pQueueFamilyIndices'', ''preTransform'', ''compositeAlpha'', ''presentMode'',
      ''clipped'', ''oldSwapchain'']),
    (''VkPresentInfoKHR'', [''sType'', ''pNext'', ''waitSemaphoreCount'', ''pWaitSemaphores'',
      ''swapchainCount'', ''pSwapchains'', ''pImageIndices'', ''pResults'']),
    (''VkImageSwapchainCreateInfoKHR'', [''sType'', ''pNext'', ''swapchain'']),
    (''VkBindImageMemorySwapchainInfoKHR'', [''sType'', ''pNext'', ''swapchain'',
      ''imageIndex'']),
    (''VkAcquireNextImageInfoKHR'', [''sType'', ''pNext'', ''swapchain'', ''timeout'',
      ''semaphore'', ''fence'', ''deviceMask'']),
    (''VkDeviceGroupPresentCapabilitiesKHR'', [''sType'', ''pNext'', ''presentMask'', ''modes'']),
    (''VkDeviceGroupPresentInfoKHR'', [''sType'', ''pNext'', ''swapchainCount'',
      ''pDeviceMasks'', ''mode'']),
    (''VkDeviceGroupSwapchainCreateInfoKHR'', [''sType'', ''pNext'', ''modes'']),
    (''VkDisplayPropertiesKHR'', [''display'', ''displayName'', ''physicalDimensions'',
      ''physicalResolution'', ''supportedTransforms'', ''planeReorderPossible'',
      ''persistentContent'']),
    (''VkDisplayModeParametersKHR'', [''visibleRegion'', ''refreshRate'']),
    (''VkDisplayModePropertiesKHR'', [''displayMode'', ''parameters'']),
    (''VkDisplayModeCreateInfoKHR'', [''sType'', ''pNext'', ''flags'', ''parameters'']),
    (''VkDisplayPlaneCapabilitiesKHR'', [''supportedAlpha'', ''minSrcPosition'',
      ''maxSrcPosition'', ''minSrcExtent'', ''maxSrcExtent'', ''minDstPosition'',
      ''maxDstPosition'', ''minDstExtent'', ''maxDstExtent'']),
    (''VkDisplayPlanePropertiesKHR'', [''currentDisplay'', ''currentStackIndex'']),
    (''VkDisplaySurfaceCreateInfoKHR'', [''sType'', ''pNext'', ''flags'', ''displayMode'',
      ''planeIndex'', ''planeStackIndex'', ''transform'', ''globalAlpha'', ''alphaMode'',
      ''imageExtent'']),
    (''VkDisplayPresentInfoKHR'', [''sType'', ''pNext'', ''srcRect'', ''dstRect'',
      ''persistent'']),
    (''VkImportMemoryFdInfoKHR'', [''sType'', ''pNext'', ''handleType'', ''fd'']),
    (''VkMemoryFdPropertiesKHR'', [''sType'', ''pNext'', ''memoryTypeBits'']),
    (''VkMemoryGetFdInfoKHR'', [''sType'', ''pNext'', ''memory'', ''handleType'']),
    (''VkImportSemaphoreFdInfoKHR'', [''sType'', ''pNext'', ''semaphore'', ''flags'',
      ''handleType'', ''fd'']),
    (''VkSemaphoreGetFdInfoKHR'', [''sType'', ''pNext'', ''semaphore'', ''handleType'']),
    (''VkPhysicalDevicePushDescriptorPropertiesKHR'', [''sType'', ''pNext'',
      ''maxPushDescriptors'']),
    (''VkPhysicalDeviceShaderFloat16Int8FeaturesKHR'', [''sType'', ''pNext'', ''shaderFloat16'',
      ''shaderInt8'']),
    (''VkRectLayerKHR'', [''offset'', ''extent'', ''layer'']),
    (''VkPresentRegionKHR'', [''rectangleCount'', ''pRectangles'']),
    (''VkPresentRegionsKHR'', [''sType'', ''pNext'', ''swapchainCount'', ''pRegions'']),
    (''VkPhysicalDeviceImagelessFramebufferFeaturesKHR'', [''sType'', ''pNext'',
      ''imagelessFramebuffer'']),
    (''VkFramebufferAttachmentImageInfoKHR'', [''sType'', ''pNext'', ''flags'', ''usage'',
      ''width'', ''height'', ''layerCount'', ''viewFormatCount'', ''pViewFormats'']),
    (''VkFramebufferAttachmentsCreateInfoKHR'', [''sType'', ''pNext'',
      ''attachmentImageInfoCount'', ''pAttachmentImageInfos'']),
    (''VkRenderPassAttachmentBeginInfoKHR'', [''sType'', ''pNext'', ''attachmentCount'',
      ''pAttachments'']),
    (''VkAttachmentDescription2KHR'', [''sType'', ''pNext'', ''flags'', ''format'', ''samples'',
      ''loadOp'', ''storeOp'', ''stencilLoadOp'', ''stencilStoreOp'', ''initialLayout'',
      ''finalLayout'']),
    (''VkAttachmentReference2KHR'', [''sType'', ''pNext'', ''attachment'', ''layout'',
      ''aspectMask'']),
    (''VkSubpassDescription2KHR'', [''sType'', ''pNext'', ''flags'', ''pipelineBindPoint'',
      ''viewMask'', ''inputAttachmentCount'', ''pInputAttachments'', ''colorAttachmentCount'',
      ''pColorAttachments'', ''pResolveAttachments'', ''pDepthStencilAttachment'',
      ''preserveAttachmentCount'', ''pPreserveAttachments'']),
    (''VkSubpassDependency2KHR'', [''sType'', ''pNext'', ''srcSubpass'', ''dstSubpass'',
      ''srcStageMask'', ''dstStageMask'', ''srcAccessMask'', ''dstAccessMask'',
      ''dependencyFlags'', ''viewOffset'']),
    (''VkRenderPassCreateInfo2KHR'', [''sType'', ''pNext'', ''flags'', ''attachmentCount'',
      ''pAttachments'', ''subpassCount'', ''pSubpasses'', ''dependencyCount'', ''pDependencies'',
      ''correlatedViewMaskCount'', ''pCorrelatedViewMasks'']),
    (''VkSubpassBeginInfoKHR'', [''sType'', ''pNext'', ''contents'']),
    (''VkSubpassEndInfoKHR'', [''sType'', ''pNext'']),
    (''VkSharedPresentSurfaceCapabilitiesKHR'', [''sType'', ''pNext'',
      ''sharedPresentSupportedUsageFlags'']),
    (''VkImportFenceFdInfoKHR'', [''sType'', ''pNext'', ''fence'', ''flags'', ''handleType'',
      ''fd'']),
    (''VkFenceGetFdInfoKHR'', [''sType'', ''pNext'', ''fence'', ''handleType'']),
    (''VkPhysicalDeviceSurfaceInfo2KHR'', [''sType'', ''pNext'', ''surface'']),
    (''VkSurfaceCapabilities2KHR'', [''sType'', ''pNext'', ''surfaceCapabilities'']),
    (''VkSurfaceFormat2KHR'', [''sType'', ''pNext'', ''surfaceFormat'']),
    (''VkDisplayProperties2KHR'', [''sType'', ''pNext'', ''displayProperties'']),
    (''VkDisplayPlaneProperties2KHR'', [''sType'', ''pNext'', ''displayPlaneProperties'']),
    (''VkDisplayModeProperties2KHR'', [''sType'', ''pNext'', ''displayModeProperties'']),
    (''VkDisplayPlaneInfo2KHR'', [''sType'', ''pNext'', ''mode'', ''planeIndex'']),
    (''VkDisplayPlaneCapabilities2KHR'', [''sType'', ''pNext'', ''capabilities''])]"

definition struct_meta_4 :: struct_meta where
  "struct_meta_4 = [
    (''VkImageFormatListCreateInfoKHR'', [''sType'', ''pNext'', ''viewFormatCount'',
      ''pViewFormats'']),
    (''VkPhysicalDeviceShaderSubgroupExtendedTypesFeaturesKHR'', [''sType'', ''pNext'',
      ''shaderSubgroupExtendedTypes'']),
    (''VkPhysicalDevice8BitStorageFeaturesKHR'', [''sType'', ''pNext'',
      ''storageBuffer8BitAccess'', ''uniformAndStorageBuffer8BitAccess'',
      ''storagePushConstant8'']),
    (''VkPhysicalDeviceShaderAtomicInt64FeaturesKHR'', [''sType'', ''pNext'',
      ''shaderBufferInt64Atomics'', ''shaderSharedInt64Atomics'']),
    (''VkPhysicalDeviceShaderClockFeaturesKHR'', [''sType'', ''pNext'', ''shaderSubgroupClock'',
      ''shaderDeviceClock'']),
    (''VkConformanceVersionKHR'', [''major'', ''minor'', ''subminor'', ''patch'']),
    (''VkPhysicalDeviceDriverPropertiesKHR'', [''sType'', ''pNext'', ''driverID'',
      ''driverName'', ''driverInfo'', ''conformanceVersion'']),
    (''VkPhysicalDeviceFloatControlsPropertiesKHR'', [''sType'', ''pNext'',
      ''denormBehaviorIndependence'', ''roundingModeIndependence'',
      ''shaderSignedZeroInfNanPreserveFloat16'', ''shaderSignedZeroInfNanPreserveFloat32'',
      ''shaderSignedZeroInfNanPreserveFloat64'', ''shaderDenormPreserveFloat16'',
      ''shaderDenormPreserveFloat32'', ''shaderDenormPreserveFloat64'',
      ''shaderDenormFlushToZeroFloat16'', ''shaderDenormFlushToZeroFloat32'',
      ''shaderDenormFlushToZeroFloat64'', ''shaderRoundingModeRTEFloat16'',
      ''shaderRoundingModeRTEFloat32'', ''shaderRoundingModeRTEFloat64'',
      ''shaderRoundingModeRTZFloat16'', ''shaderRoundingModeRTZFloat32'',
      ''shaderRoundingModeRTZFloat64'']),
    (''VkSubpassDescriptionDepthStencilResolveKHR'', [''sType'', ''pNext'', ''depthResolveMode'',
      ''stencilResolveMode'', ''pDepthStencilResolveAttachment'']),
    (''VkPhysicalDeviceDepthStencilResolvePropertiesKHR'', [''sType'', ''pNext'',
      ''supportedDepthResolveModes'', ''supportedStencilResolveModes'',
      ''independentResolveNone'', ''independentResolve'']),
    (''VkPhysicalDeviceTimelineSemaphoreFeaturesKHR'', [''sType'', ''pNext'',
      ''timelineSemaphore'']),
    (''VkPhysicalDeviceTimelineSemaphorePropertiesKHR'', [''sType'', ''pNext'',
      ''maxTimelineSemaphoreValueDifference'']),
    (''VkSemaphoreTypeCreateInfoKHR'', [''sType'', ''pNext'', ''semaphoreType'',
      ''initialValue'']),
    (''VkTimelineSemaphoreSubmitInfoKHR'', [''sType'', ''pNext'', ''waitSemaphoreValueCount'',
      ''pWaitSemaphoreValues'', ''signalSemaphoreValueCount'', ''pSignalSemaphoreValues'']),
    (''VkSemaphoreWaitInfoKHR'', [''sType'', ''pNext'', ''flags'', ''semaphoreCount'',
      ''pSemaphores'', ''pValues'']),
    (''VkSemaphoreSignalInfoKHR'', [''sType'', ''pNext'', ''semaphore'', ''value'']),
    (''VkPhysicalDeviceVulkanMemoryModelFeaturesKHR'', [''sType'', ''pNext'',
      ''vulkanMemoryModel'', ''vulkanMemoryModelDeviceScope'',
      ''vulkanMemoryModelAvailabilityVisibilityChains'']),
    (''VkSurfaceProtectedCapabilitiesKHR'', [''sType'', ''pNext'', ''supportsProtected'']),
    (''VkPhysicalDeviceUniformBufferStandardLayoutFeaturesKHR'', [''sType'', ''pNext'',
      ''uniformBufferStandardLayout'']),
    (''VkPhysicalDevicePipelineExecutablePropertiesFeaturesKHR'', [''sType'', ''pNext'',
      ''pipelineExecutableInfo'']),
    (''VkPipelineInfoKHR'', [''sType'', ''pNext'', ''pipeline'']),
    (''VkPipelineExecutablePropertiesKHR'', [''sType'', ''pNext'', ''stages'', ''name'',
      ''description'', ''subgroupSize'']),
    (''VkPipelineExecutableInfoKHR'', [''sType'', ''pNext'', ''pipeline'', ''executableIndex'']),
    (''VkPipelineExecutableStatisticKHR'', [''sType'', ''pNext'', ''name'', ''description'',
      ''format'', ''value'']),
    (''VkPipelineExecutableInternalRepresentationKHR'', [''sType'', ''pNext'', ''name'',
      ''description'', ''isText'', ''dataSize'', ''pData'']),
    (''VkDebugReportCallbackCreateInfoEXT'', [''sType'', ''pNext'', ''flags'', ''pfnCallback'',
      ''pUserData'']),
    (''VkPipelineRasterizationStateRasterizationOrderAMD'', [''sType'', ''pNext'',
      ''rasterizationOrder'']),
    (''VkDebugMarkerObjectNameInfoEXT'', [''sType'', ''pNext'', ''objectType'', ''object'',
      ''pObjectName'']),
    (''VkDebugMarkerObjectTagInfoEXT'', [''sType'', ''pNext'', ''objectType'', ''object'',
      ''tagName'', ''tagSize'', ''pTag'']),
    (''VkDebugMarkerMarkerInfoEXT'', [''sType'', ''pNext'', ''pMarkerName'', ''color'']),
    (''VkDedicatedAllocationImageCreateInfoNV'', [''sType'', ''pNext'', ''dedicatedAllocation'']),
    (''VkDedicatedAllocationBufferCreateInfoNV'', [''sType'', ''pNext'',
      ''dedicatedAllocation'']),
    (''VkDedicatedAllocationMemoryAllocateInfoNV'', [''sType'', ''pNext'', ''image'',
      ''buffer'']),
    (''VkPhysicalDeviceTransformFeedbackFeaturesEXT'', [''sType'', ''pNext'',
      ''transformFeedback'', ''geometryStreams'']),
    (''VkPhysicalDeviceTransformFeedbackPropertiesEXT'', [''sType'', ''pNext'',
      ''maxTransformFeedbackStreams'', ''maxTransformFeedbackBuffers'',
      ''maxTransformFeedbackBufferSize'', ''maxTransformFeedbackStreamDataSize'',
      ''maxTransformFeedbackBufferDataSize'', ''maxTransformFeedbackBufferDataStride'',
      ''transformFeedbackQueries'', ''transformFeedbackStreamsLinesTriangles'',
      ''transformFeedbackRasterizationStreamSelect'', ''transformFeedbackDraw'']),
    (''VkPipelineRasterizationStateStreamCreateInfoEXT'', [''sType'', ''pNext'', ''flags'',
      ''rasterizationStream'']),
    (''VkImageViewHandleInfoNVX'', [''sType'', ''pNext'', ''imageView'', ''descriptorType'',
      ''sampler'']),
    (''VkTextureLODGatherFormatPropertiesAMD'', [''sType'', ''pNext'',
      ''supportsTextureGatherLODBiasAMD'']),
    (''VkShaderResourceUsageAMD'', [''numUsedVgprs'', ''numUsedSgprs'',
      ''ldsSizePerLocalWorkGroup'', ''ldsUsageSizeInBytes'', ''scratchMemUsageInBytes'']),
    (''VkShaderStatisticsInfoAMD'', [''shaderStageMask'', ''resourceUsage'',
      ''numPhysicalVgprs'', ''numPhysicalSgprs'', ''numAvailableVgprs'', ''numAvailableSgprs'',
      ''computeWorkGroupSize'']),
    (''VkPhysicalDeviceCornerSampledImageFeaturesNV'', [''sType'', ''pNext'',
      ''cornerSampledImage'']),
    (''VkExternalImageFormatPropertiesNV'', [''imageFormatProperties'',
      ''externalMemoryFeatures'', ''exportFromImportedHandleTypes'', ''compatibleHandleTypes'']),
    (''VkExternalMemoryImageCreateInfoNV'', [''sType'', ''pNext'', ''handleTypes'']),
    (''VkExportMemoryAllocateInfoNV'', [''sType'', ''pNext'', ''handleTypes'']),
    (''VkValidationFlagsEXT'', [''sType'', ''pNext'', ''disabledValidationCheckCount'',
      ''pDisabledValidationChecks'']),
    (''VkPhysicalDeviceTextureCompressionASTCHDRFeaturesEXT'', [''sType'', ''pNext'',
      ''textureCompressionASTC_HDR'']),
    (''VkImageViewASTCDecodeModeEXT'', [''sType'', ''pNext'', ''decodeMode'']),
    (''VkPhysicalDeviceASTCDecodeFeaturesEXT'', [''sType'', ''pNext'',
      ''decodeModeSharedExponent'']),
    (''VkConditionalRenderingBeginInfoEXT'', [''sType'', ''pNext'', ''buffer'', ''offset'',
      ''flags'']),
    (''VkPhysicalDeviceConditionalRenderingFeaturesEXT'', [''sType'', ''pNext'',
      ''conditionalRendering'', ''inheritedConditionalRendering'']),
    (''VkCommandBufferInheritanceConditionalRenderingInfoEXT'', [''sType'', ''pNext'',
      ''conditionalRenderingEnable'']),
    (''VkDeviceGeneratedCommandsFeaturesNVX'', [''sType'', ''pNext'',
      ''computeBindingPointSupport'']),
    (''VkDeviceGeneratedCommandsLimitsNVX'', [''sType'', ''pNext'',
      ''maxIndirectCommandsLayoutTokenCount'', ''maxObjectEntryCounts'',
      ''minSequenceCountBufferOffsetAlignment'', ''minSequenceIndexBufferOffsetAlignment'',
      ''minCommandsTokenBufferOffsetAlignment'']),
    (''VkIndirectCommandsTokenNVX'', [''tokenType'', ''buffer'', ''offset'']),
    (''VkIndirectCommandsLayoutTokenNVX'', [''tokenType'', ''bindingUnit'', ''dynamicCount'',
      ''divisor'']),
    (''VkIndirectCommandsLayoutCreateInfoNVX'', [''sType'', ''pNext'', ''pipelineBindPoint'',
      ''flags'', ''tokenCount'', ''pTokens'']),
    (''VkCmdProcessCommandsInfoNVX'', [''sType'', ''pNext'', ''objectTable'',
      ''indirectCommandsLayout'', ''indirectCommandsTokenCount'', ''pIndirectCommandsTokens'',
      ''maxSequencesCount'', ''targetCommandBuffer'', ''sequencesCountBuffer'',
      ''sequencesCountOffset'', ''sequencesIndexBuffer'', ''sequencesIndexOffset'']),
    (''VkCmdReserveSpaceForCommandsInfoNVX'', [''sType'', ''pNext'', ''objectTable'',
      ''indirectCommandsLayout'', ''maxSequencesCount'']),
    (''VkObjectTableCreateInfoNVX'', [''sType'', ''pNext'', ''objectCount'',
      ''pObjectEntryTypes'', ''pObjectEntryCounts'', ''pObjectEntryUsageFlags'',
      ''maxUniformBuffersPerDescriptor'', ''maxStorageBuffersPerDescriptor'',
      ''maxStorageImagesPerDescriptor'', ''maxSampledImagesPerDescriptor'',
      ''maxPipelineLayouts'']),
    (''VkObjectTableEntryNVX'', [''type'', ''flags'']),
    (''VkObjectTablePipelineEntryNVX'', [''type'', ''flags'', ''pipeline'']),
    (''VkObjectTableDescriptorSetEntryNVX'', [''type'', ''flags'', ''pipelineLayout'',
      ''descriptorSet'']),
    (''VkObjectTableVertexBufferEntryNVX'', [''type'', ''flags'', ''buffer'']),
    (''VkObjectTableIndexBufferEntryNVX'', [''type'', ''flags'', ''buffer'', ''indexType'']),
    (''VkObjectTablePushConstantEntryNVX'', [''type'', ''flags'', ''pipelineLayout'',
      ''stageFlags'']),
    (''VkViewportWScalingNV'', [''xcoeff'', ''ycoeff'']),
    (''VkPipelineViewportWScalingStateCreateInfoNV'', [''sType'', ''pNext'',
      ''viewportWScalingEnable'', ''viewportCount'', ''pViewportWScalings'']),
    (''VkSurfaceCapabilities2EXT'', [''sType'', ''pNext'', ''minImageCount'', ''maxImageCount'',
      ''currentExtent'', ''minImageExtent'', ''maxImageExtent'', ''maxImageArrayLayers'',
      ''supportedTransforms'', ''currentTransform'', ''supportedCompositeAlpha'',
      ''supportedUsageFlags'', ''supportedSurfaceCounters'']),
    (''VkDisplayPowerInfoEXT'', [''sType'', ''pNext'', ''powerState'']),
    (''VkDeviceEventInfoEXT'', [''sType'', ''pNext'', ''deviceEvent'']),
    (''VkDisplayEventInfoEXT'', [''sType'', ''pNext'', ''displayEvent'']),
    (''VkSwapchainCounterCreateInfoEXT'', [''sType'', ''pNext'', ''surfaceCounters'']),
    (''VkRefreshCycleDurationGOOGLE'', [''refreshDuration'']),
    (''VkPastPresentationTimingGOOGLE'', [''presentID'', ''desiredPresentTime'',
      ''actualPresentTime'', ''earliestPresentTime'', ''presentMargin'']),
    (''VkPresentTimeGOOGLE'', [''presentID'', ''desiredPresentTime''])]"

definition struct_meta_5 :: struct_meta where
  "struct_meta_5 = [
    (''VkPresentTimesInfoGOOGLE'', [''sType'', ''pNext'', ''swapchainCount'', ''pTimes'']),
    (''VkPhysicalDeviceMultiviewPerViewAttributesPropertiesNVX'', [''sType'', ''pNext'',
      ''perViewPositionAllComponents'']),
    (''VkViewportSwizzleNV'', [''x'', ''y'', ''z'', ''w'']),
    (''VkPipelineViewportSwizzleStateCreateInfoNV'', [''sType'', ''pNext'', ''flags'',
      ''viewportCount'', ''pViewportSwizzles'']),
    (''VkPhysicalDeviceDiscardRectanglePropertiesEXT'', [''sType'', ''pNext'',
      ''maxDiscardRectangles'']),
    (''VkPipelineDiscardRectangleStateCreateInfoEXT'', [''sType'', ''pNext'', ''flags'',
      ''discardRectangleMode'', ''discardRectangleCount'', ''pDiscardRectangles'']),
    (''VkPhysicalDeviceConservativeRasterizationPropertiesEXT'', [''sType'', ''pNext'',
      ''primitiveOverestimationSize'', ''maxExtraPrimitiveOverestimationSize'',
      ''extraPrimitiveOverestimationSizeGranularity'', ''primitiveUnderestimation'',
      ''conservativePointAndLineRasterization'', ''degenerateTrianglesRasterized'',
      ''degenerateLinesRasterized'', ''fullyCoveredFragmentShaderInputVariable'',
      ''conservativeRasterizationPostDepthCoverage'']),
    (''VkPipelineRasterizationConservativeStateCreateInfoEXT'', [''sType'', ''pNext'', ''flags'',
      ''conservativeRasterizationMode'', ''extraPrimitiveOverestimationSize'']),
    (''VkPhysicalDeviceDepthClipEnableFeaturesEXT'', [''sType'', ''pNext'', ''depthClipEnable'']),
    (''VkPipelineRasterizationDepthClipStateCreateInfoEXT'', [''sType'', ''pNext'', ''flags'',
      ''depthClipEnable'']),
    (''VkXYColorEXT'', [''x'', ''y'']),
    (''VkHdrMetadataEXT'', [''sType'', ''pNext'', ''displayPrimaryRed'', ''displayPrimaryGreen'',
      ''displayPrimaryBlue'', ''whitePoint'', ''maxLuminance'', ''minLuminance'',
      ''maxContentLightLevel'', ''maxFrameAverageLightLevel'']),
    (''VkDebugUtilsObjectNameInfoEXT'', [''sType'', ''pNext'', ''objectType'', ''objectHandle'',
      ''pObjectName'']),
    (''VkDebugUtilsObjectTagInfoEXT'', [''sType'', ''pNext'', ''objectType'', ''objectHandle'',
      ''tagName'', ''tagSize'', ''pTag'']),
    (''VkDebugUtilsLabelEXT'', [''sType'', ''pNext'', ''pLabelName'', ''color'']),
    (''VkDebugUtilsMessengerCallbackDataEXT'', [''sType'', ''pNext'', ''flags'',
      ''pMessageIdName'', ''messageIdNumber'', ''pMessage'', ''queueLabelCount'',
      ''pQueueLabels'', ''cmdBufLabelCount'', ''pCmdBufLabels'', ''objectCount'', ''pObjects'']),
    (''VkDebugUtilsMessengerCreateInfoEXT'', [''sType'', ''pNext'', ''flags'',
      ''messageSeverity'', ''messageType'', ''pfnUserCallback'', ''pUserData'']),
    (''VkSamplerReductionModeCreateInfoEXT'', [''sType'', ''pNext'', ''reductionMode'']),
    (''VkPhysicalDeviceSamplerFilterMinmaxPropertiesEXT'', [''sType'', ''pNext'',
      ''filterMinmaxSingleComponentFormats'', ''filterMinmaxImageComponentMapping'']),
    (''VkPhysicalDeviceInlineUniformBlockFeaturesEXT'', [''sType'', ''pNext'',
      ''inlineUniformBlock'', ''descriptorBindingInlineUniformBlockUpdateAfterBind'']),
    (''VkPhysicalDeviceInlineUniformBlockPropertiesEXT'', [''sType'', ''pNext'',
      ''maxInlineUniformBlockSize'', ''maxPerStageDescriptorInlineUniformBlocks'',
      ''maxPerStageDescriptorUpdateAfterBindInlineUniformBlocks'',
      ''maxDescriptorSetInlineUniformBlocks'',
      ''maxDescriptorSetUpdateAfterBindInlineUniformBlocks'']),
    (''VkWriteDescriptorSetInlineUniformBlockEXT'', [''sType'', ''pNext'', ''dataSize'',
      ''pData'']),
    (''VkDescriptorPoolInlineUniformBlockCreateInfoEXT'', [''sType'', ''pNext'',
      ''maxInlineUniformBlockBindings'']),
    (''VkSampleLocationEXT'', [''x'', ''y'']),
    (''VkSampleLocationsInfoEXT'', [''sType'', ''pNext'', ''sampleLocationsPerPixel'',
      ''sampleLocationGridSize'', ''sampleLocationsCount'', ''pSampleLocations'']),
    (''VkAttachmentSampleLocationsEXT'', [''attachmentIndex'', ''sampleLocationsInfo'']),
    (''VkSubpassSampleLocationsEXT'', [''subpassIndex'', ''sampleLocationsInfo'']),
    (''VkRenderPassSampleLocationsBeginInfoEXT'', [''sType'', ''pNext'',
      ''attachmentInitialSampleLocationsCount'', ''pAttachmentInitialSampleLocations'',
      ''postSubpassSampleLocationsCount'', ''pPostSubpassSampleLocations'']),
    (''VkPipelineSampleLocationsStateCreateInfoEXT'', [''sType'', ''pNext'',
      ''sampleLocationsEnable'', ''sampleLocationsInfo'']),
    (''VkPhysicalDeviceSampleLocationsPropertiesEXT'', [''sType'', ''pNext'',
      ''sampleLocationSampleCounts'', ''maxSampleLocationGridSize'',
      ''sampleLocationCoordinateRange'', ''sampleLocationSubPixelBits'',
      ''variableSampleLocations'']),
    (''VkMultisamplePropertiesEXT'', [''sType'', ''pNext'', ''maxSampleLocationGridSize'']),
    (''VkPhysicalDeviceBlendOperationAdvancedFeaturesEXT'', [''sType'', ''pNext'',
      ''advancedBlendCoherentOperations'']),
    (''VkPhysicalDeviceBlendOperationAdvancedPropertiesEXT'', [''sType'', ''pNext'',
      ''advancedBlendMaxColorAttachments'', ''advancedBlendIndependentBlend'',
      ''advancedBlendNonPremultipliedSrcColor'', ''advancedBlendNonPremultipliedDstColor'',
      ''advancedBlendCorrelatedOverlap'', ''advancedBlendAllOperations'']),
    (''VkPipelineColorBlendAdvancedStateCreateInfoEXT'', [''sType'', ''pNext'',
      ''srcPremultiplied'', ''dstPremultiplied'', ''blendOverlap'']),
    (''VkPipelineCoverageToColorStateCreateInfoNV'', [''sType'', ''pNext'', ''flags'',
      ''coverageToColorEnable'', ''coverageToColorLocation'']),
    (''VkPipelineCoverageModulationStateCreateInfoNV'', [''sType'', ''pNext'', ''flags'',
      ''coverageModulationMode'', ''coverageModulationTableEnable'',
      ''coverageModulationTableCount'', ''pCoverageModulationTable'']),
    (''VkPhysicalDeviceShaderSMBuiltinsPropertiesNV'', [''sType'', ''pNext'', ''shaderSMCount'',
      ''shaderWarpsPerSM'']),
    (''VkPhysicalDeviceShaderSMBuiltinsFeaturesNV'', [''sType'', ''pNext'',
      ''shaderSMBuiltins'']),
    (''VkDrmFormatModifierPropertiesEXT'', [''drmFormatModifier'',
      ''drmFormatModifierPlaneCount'', ''drmFormatModifierTilingFeatures'']),
    (''VkDrmFormatModifierPropertiesListEXT'', [''sType'', ''pNext'', ''drmFormatModifierCount'',
      ''pDrmFormatModifierProperties'']),
    (''VkPhysicalDeviceImageDrmFormatModifierInfoEXT'', [''sType'', ''pNext'',
      ''drmFormatModifier'', ''sharingMode'', ''queueFamilyIndexCount'',
      ''pQueueFamilyIndices'']),
    (''VkImageDrmFormatModifierListCreateInfoEXT'', [''sType'', ''pNext'',
      ''drmFormatModifierCount'', ''pDrmFormatModifiers'']),
    (''VkImageDrmFormatModifierExplicitCreateInfoEXT'', [''sType'', ''pNext'',
      ''drmFormatModifier'', ''drmFormatModifierPlaneCount'', ''pPlaneLayouts'']),
    (''VkImageDrmFormatModifierPropertiesEXT'', [''sType'', ''pNext'', ''drmFormatModifier'']),
    (''VkValidationCacheCreateInfoEXT'', [''sType'', ''pNext'', ''flags'', ''initialDataSize'',
      ''pInitialData'']),
    (''VkShaderModuleValidationCacheCreateInfoEXT'', [''sType'', ''pNext'', ''validationCache'']),
    (''VkDescriptorSetLayoutBindingFlagsCreateInfoEXT'', [''sType'', ''pNext'', ''bindingCount'',
      ''pBindingFlags'']),
    (''VkPhysicalDeviceDescriptorIndexingFeaturesEXT'', [''sType'', ''pNext'',
      ''shaderInputAttachmentArrayDynamicIndexing'',
      ''shaderUniformTexelBufferArrayDynamicIndexing'',
      ''shaderStorageTexelBufferArrayDynamicIndexing'',
      ''shaderUniformBufferArrayNonUniformIndexing'',
      ''shaderSampledImageArrayNonUniformIndexing'',
      ''shaderStorageBufferArrayNonUniformIndexing'',
      ''shaderStorageImageArrayNonUniformIndexing'',
      ''shaderInputAttachmentArrayNonUniformIndexing'',
      ''shaderUniformTexelBufferArrayNonUniformIndexing'',
      ''shaderStorageTexelBufferArrayNonUniformIndexing'',
      ''descriptorBindingUniformBufferUpdateAfterBind'',
      ''descriptorBindingSampledImageUpdateAfterBind'',
      ''descriptorBindingStorageImageUpdateAfterBind'',
      ''descriptorBindingStorageBufferUpdateAfterBind'',
      ''descriptorBindingUniformTexelBufferUpdateAfterBind'',
      ''descriptorBindingStorageTexelBufferUpdateAfterBind'',
      ''descriptorBindingUpdateUnusedWhilePending'', ''descriptorBindingPartiallyBound'',
      ''descriptorBindingVariableDescriptorCount'', ''runtimeDescriptorArray'']),
    (''VkPhysicalDeviceDescriptorIndexingPropertiesEXT'', [''sType'', ''pNext'',
      ''maxUpdateAfterBindDescriptorsInAllPools'',
      ''shaderUniformBufferArrayNonUniformIndexingNative'',
      ''shaderSampledImageArrayNonUniformIndexingNative'',
      ''shaderStorageBufferArrayNonUniformIndexingNative'',
      ''shaderStorageImageArrayNonUniformIndexingNative'',
      ''shaderInputAttachmentArrayNonUniformIndexingNative'',
      ''robustBufferAccessUpdateAfterBind'', ''quadDivergentImplicitLod'',
      ''maxPerStageDescriptorUpdateAfterBindSamplers'',
      ''maxPerStageDescriptorUpdateAfterBindUniformBuffers'',
      ''maxPerStageDescriptorUpdateAfterBindStorageBuffers'',
      ''maxPerStageDescriptorUpdateAfterBindSampledImages'',
      ''maxPerStageDescriptorUpdateAfterBindStorageImages'',
      ''maxPerStageDescriptorUpdateAfterBindInputAttachments'',
      ''maxPerStageUpdateAfterBindResources'', ''maxDescriptorSetUpdateAfterBindSamplers'',
      ''maxDescriptorSetUpdateAfterBindUniformBuffers'',
      ''maxDescriptorSetUpdateAfterBindUniformBuffersDynamic'',
      ''maxDescriptorSetUpdateAfterBindStorageBuffers'',
      ''maxDescriptorSetUpdateAfterBindStorageBuffersDynamic'',
      ''maxDescriptorSetUpdateAfterBindSampledImages'',
      ''maxDescriptorSetUpdateAfterBindStorageImages'',
      ''maxDescriptorSetUpdateAfterBindInputAttachments'']),
    (''VkDescriptorSetVariableDescriptorCountAllocateInfoEXT'', [''sType'', ''pNext'',
      ''descriptorSetCount'', ''pDescriptorCounts'']),
    (''VkDescriptorSetVariableDescriptorCountLayoutSupportEXT'', [''sType'', ''pNext'',
      ''maxVariableDescriptorCount'']),
    (''VkShadingRatePaletteNV'', [''shadingRatePaletteEntryCount'',
      ''pShadingRatePaletteEntries'']),
    (''VkPipelineViewportShadingRateImageStateCreateInfoNV'', [''sType'', ''pNext'',
      ''shadingRateImageEnable'', ''viewportCount'', ''pShadingRatePalettes'']),
    (''VkPhysicalDeviceShadingRateImageFeaturesNV'', [''sType'', ''pNext'', ''shadingRateImage'',
      ''shadingRateCoarseSampleOrder'']),
    (''VkPhysicalDeviceShadingRateImagePropertiesNV'', [''sType'', ''pNext'',
      ''shadingRateTexelSize'', ''shadingRatePaletteSize'', ''shadingRateMaxCoarseSamples'']),
    (''VkCoarseSampleLocationNV'', [''pixelX'', ''pixelY'', ''sample'']),
    (''VkCoarseSampleOrderCustomNV'', [''shadingRate'', ''sampleCount'', ''sampleLocationCount'',
      ''pSampleLocations'']),
    (''VkPipelineViewportCoarseSampleOrderStateCreateInfoNV'', [''sType'', ''pNext'',
      ''sampleOrderType'', ''customSampleOrderCount'', ''pCustomSampleOrders'']),
    (''VkRayTracingShaderGroupCreateInfoNV'', [''sType'', ''pNext'', ''type'', ''generalShader'',
      ''closestHitShader'', ''anyHitShader'', ''intersectionShader'']),
    (''VkRayTracingPipelineCreateInfoNV'', [''sType'', ''pNext'', ''flags'', ''stageCount'',
      ''pStages'', ''groupCount'', ''pGroups'', ''maxRecursionDepth'', ''layout'',
      ''basePipelineHandle'', ''basePipelineIndex'']),
    (''VkGeometryTrianglesNV'', [''sType'', ''pNext'', ''vertexData'', ''vertexOffset'',
      ''vertexCount'', ''vertexStride'', ''vertexFormat'', ''indexData'', ''indexOffset'',
      ''indexCount'', ''indexType'', ''transformData'', ''transformOffset'']),
    (''VkGeometryAABBNV'', [''sType'', ''pNext'', ''aabbData'', ''numAABBs'', ''stride'',
      ''offset'']),
    (''VkGeometryDataNV'', [''triangles'', ''aabbs'']),
    (''VkGeometryNV'', [''sType'', ''pNext'', ''geometryType'', ''geometry'', ''flags'']),
    (''VkAccelerationStructureInfoNV'', [''sType'', ''pNext'', ''type'', ''flags'',
      ''instanceCount'', ''geometryCount'', ''pGeometries'']),
    (''VkAccelerationStructureCreateInfoNV'', [''sType'', ''pNext'', ''compactedSize'',
      ''info'']),
    (''VkBindAccelerationStructureMemoryInfoNV'', [''sType'', ''pNext'',
      ''accelerationStructure'', ''memory'', ''memoryOffset'', ''deviceIndexCount'',
      ''pDeviceIndices'']),
    (''VkWriteDescriptorSetAccelerationStructureNV'', [''sType'', ''pNext'',
      ''accelerationStructureCount'', ''pAccelerationStructures'']),
    (''VkAccelerationStructureMemoryRequirementsInfoNV'', [''sType'', ''pNext'', ''type'',
      ''accelerationStructure'']),
    (''VkPhysicalDeviceRayTracingPropertiesNV'', [''sType'', ''pNext'',
      ''shaderGroupHandleSize'', ''maxRecursionDepth'', ''maxShaderGroupStride'',
      ''shaderGroupBaseAlignment'', ''maxGeometryCount'', ''maxInstanceCount'',
      ''maxTriangleCount'', ''maxDescriptorSetAccelerationStructures'']),
    (''VkPhysicalDeviceRepresentativeFragmentTestFeaturesNV'', [''sType'', ''pNext'',
      ''representativeFragmentTest'']),
    (''VkPipelineRepresentativeFragmentTestStateCreateInfoNV'', [''sType'', ''pNext'',
      ''representativeFragmentTestEnable'']),
    (''VkPhysicalDeviceImageViewImageFormatInfoEXT'', [''sType'', ''pNext'', ''imageViewType'']),
    (''VkFilterCubicImageViewImageFormatPropertiesEXT'', [''sType'', ''pNext'', ''filterCubic'',
      ''filterCubicMinmax'']),
    (''VkDeviceQueueGlobalPriorityCreateInfoEXT'', [''sType'', ''pNext'', ''globalPriority''])]"

definition struct_meta_6 :: struct_meta where
  "struct_meta_6 = [
    (''VkImportMemoryHostPointerInfoEXT'', [''sType'', ''pNext'', ''handleType'',
      ''pHostPointer'']),
    (''VkMemoryHostPointerPropertiesEXT'', [''sType'', ''pNext'', ''memoryTypeBits'']),
    (''VkPhysicalDeviceExternalMemoryHostPropertiesEXT'', [''sType'', ''pNext'',
      ''minImportedHostPointerAlignment'']),
    (''VkPipelineCompilerControlCreateInfoAMD'', [''sType'', ''pNext'',
      ''compilerControlFlags'']),
    (''VkCalibratedTimestampInfoEXT'', [''sType'', ''pNext'', ''timeDomain'']),
    (''VkPhysicalDeviceShaderCorePropertiesAMD'', [''sType'', ''pNext'', ''shaderEngineCount'',
      ''shaderArraysPerEngineCount'', ''computeUnitsPerShaderArray'', ''simdPerComputeUnit'',
      ''wavefrontsPerSimd'', ''wavefrontSize'', ''sgprsPerSimd'', ''minSgprAllocation'',
      ''maxSgprAllocation'', ''sgprAllocationGranularity'', ''vgprsPerSimd'',
      ''minVgprAllocation'', ''maxVgprAllocation'', ''vgprAllocationGranularity'']),
    (''VkDeviceMemoryOverallocationCreateInfoAMD'', [''sType'', ''pNext'',
      ''overallocationBehavior'']),
    (''VkPhysicalDeviceVertexAttributeDivisorPropertiesEXT'', [''sType'', ''pNext'',
      ''maxVertexAttribDivisor'']),
    (''VkVertexInputBindingDivisorDescriptionEXT'', [''binding'', ''divisor'']),
    (''VkPipelineVertexInputDivisorStateCreateInfoEXT'', [''sType'', ''pNext'',
      ''vertexBindingDivisorCount'', ''pVertexBindingDivisors'']),
    (''VkPhysicalDeviceVertexAttributeDivisorFeaturesEXT'', [''sType'', ''pNext'',
      ''vertexAttributeInstanceRateDivisor'', ''vertexAttributeInstanceRateZeroDivisor'']),
    (''VkPipelineCreationFeedbackEXT'', [''flags'', ''duration'']),
    (''VkPipelineCreationFeedbackCreateInfoEXT'', [''sType'', ''pNext'',
      ''pPipelineCreationFeedback'', ''pipelineStageCreationFeedbackCount'',
      ''pPipelineStageCreationFeedbacks'']),
    (''VkPhysicalDeviceComputeShaderDerivativesFeaturesNV'', [''sType'', ''pNext'',
      ''computeDerivativeGroupQuads'', ''computeDerivativeGroupLinear'']),
    (''VkPhysicalDeviceMeshShaderFeaturesNV'', [''sType'', ''pNext'', ''taskShader'',
      ''meshShader'']),
    (''VkPhysicalDeviceMeshShaderPropertiesNV'', [''sType'', ''pNext'',
      ''maxDrawMeshTasksCount'', ''maxTaskWorkGroupInvocations'', ''maxTaskWorkGroupSize'',
      ''maxTaskTotalMemorySize'', ''maxTaskOutputCount'', ''maxMeshWorkGroupInvocations'',
      ''maxMeshWorkGroupSize'', ''maxMeshTotalMemorySize'', ''maxMeshOutputVertices'',
      ''maxMeshOutputPrimitives'', ''maxMeshMultiviewViewCount'',
      ''meshOutputPerVertexGranularity'', ''meshOutputPerPrimitiveGranularity'']),
    (''VkDrawMeshTasksIndirectCommandNV'', [''taskCount'', ''firstTask'']),
    (''VkPhysicalDeviceFragmentShaderBarycentricFeaturesNV'', [''sType'', ''pNext'',
      ''fragmentShaderBarycentric'']),
    (''VkPhysicalDeviceShaderImageFootprintFeaturesNV'', [''sType'', ''pNext'',
      ''imageFootprint'']),
    (''VkPipelineViewportExclusiveScissorStateCreateInfoNV'', [''sType'', ''pNext'',
      ''exclusiveScissorCount'', ''pExclusiveScissors'']),
    (''VkPhysicalDeviceExclusiveScissorFeaturesNV'', [''sType'', ''pNext'',
      ''exclusiveScissor'']),
    (''VkQueueFamilyCheckpointPropertiesNV'', [''sType'', ''pNext'',
      ''checkpointExecutionStageMask'']),
    (''VkCheckpointDataNV'', [''sType'', ''pNext'', ''stage'', ''pCheckpointMarker'']),
    (''VkPhysicalDeviceShaderIntegerFunctions2FeaturesINTEL'', [''sType'', ''pNext'',
      ''shaderIntegerFunctions2'']),
    (''VkPerformanceValueINTEL'', [''type'', ''data'']),
    (''VkInitializePerformanceApiInfoINTEL'', [''sType'', ''pNext'', ''pUserData'']),
    (''VkQueryPoolCreateInfoINTEL'', [''sType'', ''pNext'', ''performanceCountersSampling'']),
    (''VkPerformanceMarkerInfoINTEL'', [''sType'', ''pNext'', ''marker'']),
    (''VkPerformanceStreamMarkerInfoINTEL'', [''sType'', ''pNext'', ''marker'']),
    (''VkPerformanceOverrideInfoINTEL'', [''sType'', ''pNext'', ''type'', ''enable'',
      ''parameter'']),
    (''VkPerformanceConfigurationAcquireInfoINTEL'', [''sType'', ''pNext'', ''type'']),
    (''VkPhysicalDevicePCIBusInfoPropertiesEXT'', [''sType'', ''pNext'', ''pciDomain'',
      ''pciBus'', ''pciDevice'', ''pciFunction'']),
    (''VkDisplayNativeHdrSurfaceCapabilitiesAMD'', [''sType'', ''pNext'',
      ''localDimmingSupport'']),
    (''VkSwapchainDisplayNativeHdrCreateInfoAMD'', [''sType'', ''pNext'',
      ''localDimmingEnable'']),
    (''VkPhysicalDeviceFragmentDensityMapFeaturesEXT'', [''sType'', ''pNext'',
      ''fragmentDensityMap'', ''fragmentDensityMapDynamic'',
      ''fragmentDensityMapNonSubsampledImages'']),
    (''VkPhysicalDeviceFragmentDensityMapPropertiesEXT'', [''sType'', ''pNext'',
      ''minFragmentDensityTexelSize'', ''maxFragmentDensityTexelSize'',
      ''fragmentDensityInvocations'']),
    (''VkRenderPassFragmentDensityMapCreateInfoEXT'', [''sType'', ''pNext'',
      ''fragmentDensityMapAttachment'']),
    (''VkPhysicalDeviceScalarBlockLayoutFeaturesEXT'', [''sType'', ''pNext'',
      ''scalarBlockLayout'']),
    (''VkPhysicalDeviceSubgroupSizeControlFeaturesEXT'', [''sType'', ''pNext'',
      ''subgroupSizeControl'', ''computeFullSubgroups'']),
    (''VkPhysicalDeviceSubgroupSizeControlPropertiesEXT'', [''sType'', ''pNext'',
      ''minSubgroupSize'', ''maxSubgroupSize'', ''maxComputeWorkgroupSubgroups'',
      ''requiredSubgroupSizeStages'']),
    (''VkPipelineShaderStageRequiredSubgroupSizeCreateInfoEXT'', [''sType'', ''pNext'',
      ''requiredSubgroupSize'']),
    (''VkPhysicalDeviceShaderCoreProperties2AMD'', [''sType'', ''pNext'', ''shaderCoreFeatures'',
      ''activeComputeUnitCount'']),
    (''VkPhysicalDeviceCoherentMemoryFeaturesAMD'', [''sType'', ''pNext'',
      ''deviceCoherentMemory'']),
    (''VkPhysicalDeviceMemoryBudgetPropertiesEXT'', [''sType'', ''pNext'', ''heapBudget'',
      ''heapUsage'']),
    (''VkPhysicalDeviceMemoryPriorityFeaturesEXT'', [''sType'', ''pNext'', ''memoryPriority'']),
    (''VkMemoryPriorityAllocateInfoEXT'', [''sType'', ''pNext'', ''priority'']),
    (''VkPhysicalDeviceDedicatedAllocationImageAliasingFeaturesNV'', [''sType'', ''pNext'',
      ''dedicatedAllocationImageAliasing'']),
    (''VkPhysicalDeviceBufferDeviceAddressFeaturesEXT'', [''sType'', ''pNext'',
      ''bufferDeviceAddress'', ''bufferDeviceAddressCaptureReplay'',
      ''bufferDeviceAddressMultiDevice'']),
    (''VkBufferDeviceAddressInfoEXT'', [''sType'', ''pNext'', ''buffer'']),
    (''VkBufferDeviceAddressCreateInfoEXT'', [''sType'', ''pNext'', ''deviceAddress'']),
    (''VkImageStencilUsageCreateInfoEXT'', [''sType'', ''pNext'', ''stencilUsage'']),
    (''VkValidationFeaturesEXT'', [''sType'', ''pNext'', ''enabledValidationFeatureCount'',
      ''pEnabledValidationFeatures'', ''disabledValidationFeatureCount'',
      ''pDisabledValidationFeatures'']),
    (''VkCooperativeMatrixPropertiesNV'', [''sType'', ''pNext'', ''MSize'', ''NSize'', ''KSize'',
      ''AType'', ''BType'', ''CType'', ''DType'', ''scope'']),
    (''VkPhysicalDeviceCooperativeMatrixFeaturesNV'', [''sType'', ''pNext'',
      ''cooperativeMatrix'', ''cooperativeMatrixRobustBufferAccess'']),
    (''VkPhysicalDeviceCooperativeMatrixPropertiesNV'', [''sType'', ''pNext'',
      ''cooperativeMatrixSupportedStages'']),
    (''VkPhysicalDeviceCoverageReductionModeFeaturesNV'', [''sType'', ''pNext'',
      ''coverageReductionMode'']),
    (''VkPipelineCoverageReductionStateCreateInfoNV'', [''sType'', ''pNext'', ''flags'',
      ''coverageReductionMode'']),
    (''VkFramebufferMixedSamplesCombinationNV'', [''sType'', ''pNext'',
      ''coverageReductionMode'', ''rasterizationSamples'', ''depthStencilSamples'',
      ''colorSamples'']),
    (''VkPhysicalDeviceFragmentShaderInterlockFeaturesEXT'', [''sType'', ''pNext'',
      ''fragmentShaderSampleInterlock'', ''fragmentShaderPixelInterlock'',
      ''fragmentShaderShadingRateInterlock'']),
    (''VkPhysicalDeviceYcbcrImageArraysFeaturesEXT'', [''sType'', ''pNext'',
      ''ycbcrImageArrays'']),
    (''VkHeadlessSurfaceCreateInfoEXT'', [''sType'', ''pNext'', ''flags'']),
    (''VkPhysicalDeviceLineRasterizationFeaturesEXT'', [''sType'', ''pNext'',
      ''rectangularLines'', ''bresenhamLines'', ''smoothLines'', ''stippledRectangularLines'',
      ''stippledBresenhamLines'', ''stippledSmoothLines'']),
    (''VkPhysicalDeviceLineRasterizationPropertiesEXT'', [''sType'', ''pNext'',
      ''lineSubPixelPrecisionBits'']),
    (''VkPipelineRasterizationLineStateCreateInfoEXT'', [''sType'', ''pNext'',
      ''lineRasterizationMode'', ''stippledLineEnable'', ''lineStippleFactor'',
      ''lineStipplePattern'']),
    (''VkPhysicalDeviceHostQueryResetFeaturesEXT'', [''sType'', ''pNext'', ''hostQueryReset'']),
    (''VkPhysicalDeviceIndexTypeUint8FeaturesEXT'', [''sType'', ''pNext'', ''indexTypeUint8'']),
    (''VkPhysicalDeviceShaderDemoteToHelperInvocationFeaturesEXT'', [''sType'', ''pNext'',
      ''shaderDemoteToHelperInvocation'']),
    (''VkPhysicalDeviceTexelBufferAlignmentFeaturesEXT'', [''sType'', ''pNext'',
      ''texelBufferAlignment'']),
    (''VkPhysicalDeviceTexelBufferAlignmentPropertiesEXT'', [''sType'', ''pNext'',
      ''storageTexelBufferOffsetAlignmentBytes'',
      ''storageTexelBufferOffsetSingleTexelAlignment'',
      ''uniformTexelBufferOffsetAlignmentBytes'',
      ''uniformTexelBufferOffsetSingleTexelAlignment'']),
    (''VkXcbSurfaceCreateInfoKHR'', [''sType'', ''pNext'', ''flags'', ''connection'',
      ''window''])]"

definition null_wrapper_meta :: struct_meta where
  "null_wrapper_meta = [(''configuration::Configurator::NullWrapper'', [''dummy''])]"

definition struct_fields :: "string \<Rightarrow> string list option" where
  "struct_fields t = map_of (null_wrapper_meta @ struct_meta_1 @ struct_meta_2 @ struct_meta_3 @
     struct_meta_4 @ struct_meta_5 @ struct_meta_6) t"

end
