(* ===== verification/Prelude.thy ===== *)
theory Prelude
  imports Main "HOL-Library.Word" "HOL-Library.Sublist"
begin

text \<open>
  Shared vocabulary of the development: the faults a C++ operation can run into
  (values of a sum type, never hidden in an unspecified result), checked access to
  raw character buffers, NUL-terminated strings, and the generic list lemmas the
  components use. The collection \<open>cpp_simps\<close> holds the equations that unfold
  the fault monad and the checked buffer accesses.
\<close>

unbundle bit_operations_syntax

named_theorems cpp_simps
  \<comment> \<open>equations that unfold checked memory accesses and the fault monad\<close>

section \<open>Faults\<close>

text \<open>
  What the C++ abstract machine does not survive: an access outside the storage of an
  object, a null pointer passed where the callee reads through it, a failed
  \<open>std::any_cast\<close> outside any handler, an explicit exception or failed check that
  ends the program.
\<close>

datatype fault =
    OutOfBounds
  | NullDeref
  | BadAnyCast
  | Fatal

type_synonym 'a res = "fault + 'a"

definition bindE :: "'a res \<Rightarrow> ('a \<Rightarrow> 'b res) \<Rightarrow> 'b res" where
  "bindE m f = (case m of Inl e \<Rightarrow> Inl e | Inr x \<Rightarrow> f x)"

lemma bindE_Inr [simp, cpp_simps]: "bindE (Inr x) f = f x"
  by (simp add: bindE_def)

lemma bindE_Inl [simp, cpp_simps]: "bindE (Inl e) f = Inl e"
  by (simp add: bindE_def)

lemma bindE_eq_Inr: "bindE m f = Inr y \<longleftrightarrow> (\<exists>x. m = Inr x \<and> f x = Inr y)"
  by (simp add: bindE_def split: sum.splits)

lemma bindE_eq_Inl:
  "bindE m f = Inl e \<longleftrightarrow> m = Inl e \<or> (\<exists>x. m = Inr x \<and> f x = Inl e)"
  by (auto simp: bindE_def split: sum.splits)

lemma bindE_InrE:
  assumes "bindE m f = Inr y"
  obtains x where "m = Inr x" and "f x = Inr y"
  using assms by (auto simp: bindE_eq_Inr)

lemma bindE_cong [fundef_cong]:
  assumes "m = m'" and "\<And>x. m' = Inr x \<Longrightarrow> f x = g x"
  shows "bindE m f = bindE m' g"
  using assms by (auto simp: bindE_def split: sum.splits)

text \<open>A loop over a list whose body may fail.\<close>

fun foldE :: "('s \<Rightarrow> 'a \<Rightarrow> 's res) \<Rightarrow> 's \<Rightarrow> 'a list \<Rightarrow> 's res" where
  "foldE f s [] = Inr s"
| "foldE f s (x # xs) = bindE (f s x) (\<lambda>s'. foldE f s' xs)"

lemma foldE_append: "foldE f s (xs @ ys) = bindE (foldE f s xs) (\<lambda>s'. foldE f s' ys)"
  by (induction xs arbitrary: s) (auto simp: bindE_def split: sum.splits)

lemma foldE_invariant:
  assumes "foldE f s xs = Inr s'" and "P s"
    and "\<And>s x s'. x \<in> set xs \<Longrightarrow> P s \<Longrightarrow> f s x = Inr s' \<Longrightarrow> P s'"
  shows "P s'"
  using assms
proof (induction xs arbitrary: s)
  case (Cons x xs)
  then obtain u where "f s x = Inr u" "foldE f u xs = Inr s'"
    by (auto simp: bindE_eq_Inr)
  with Cons show ?case by (meson list.set_intros)
qed simp

text \<open>A call per element whose results are collected in order.\<close>

fun mapE :: "('a \<Rightarrow> 'b res) \<Rightarrow> 'a list \<Rightarrow> 'b list res" where
  "mapE f [] = Inr []"
| "mapE f (x # xs) = bindE (f x) (\<lambda>y. bindE (mapE f xs) (\<lambda>ys. Inr (y # ys)))"

lemma mapE_ok:
  "\<forall>x \<in> set xs. \<exists>y. f x = Inr y \<and> P x y \<Longrightarrow> \<exists>ys. mapE f xs = Inr ys \<and> list_all2 P xs ys"
proof (induction xs)
  case (Cons x xs)
  then obtain y ys where "f x = Inr y" "P x y" "mapE f xs = Inr ys" "list_all2 P xs ys" by auto
  then show ?case by auto
qed simp

lemma mapE_list_all2:
  "list_all2 (\<lambda>x z. \<exists>y. f x = Inr y \<and> g y = z) xs zs \<Longrightarrow> \<exists>ys. mapE f xs = Inr ys \<and> map g ys = zs"
proof (induction xs zs rule: list_all2_induct)
  case (Cons x xs z zs)
  then obtain y ys where "f x = Inr y" "g y = z" "mapE f xs = Inr ys" "map g ys = zs" by auto
  then show ?case by auto
qed simp

section \<open>Checked access to raw storage\<close>

definition buf_get :: "'a list \<Rightarrow> nat \<Rightarrow> 'a res" where
  "buf_get b i = (if i < length b then Inr (b ! i) else Inl OutOfBounds)"

definition buf_set :: "'a list \<Rightarrow> nat \<Rightarrow> 'a \<Rightarrow> 'a list res" where
  "buf_set b i x = (if i < length b then Inr (b[i := x]) else Inl OutOfBounds)"

lemma buf_get_in [simp, cpp_simps]: "i < length b \<Longrightarrow> buf_get b i = Inr (b ! i)"
  by (simp add: buf_get_def)

lemma buf_get_out [simp, cpp_simps]: "length b \<le> i \<Longrightarrow> buf_get b i = Inl OutOfBounds"
  by (simp add: buf_get_def)

lemma buf_set_in [simp, cpp_simps]: "i < length b \<Longrightarrow> buf_set b i x = Inr (b[i := x])"
  by (simp add: buf_set_def)

lemma buf_set_out [simp, cpp_simps]: "length b \<le> i \<Longrightarrow> buf_set b i x = Inl OutOfBounds"
  by (simp add: buf_set_def)

lemma buf_set_length: "buf_set b i x = Inr b' \<Longrightarrow> length b' = length b"
  by (auto simp: buf_set_def split: if_splits)

section \<open>NUL-terminated strings\<close>

text \<open>
  \<open>cstr b\<close> is the string a \<open>const char*\<close> to the storage \<open>b\<close> denotes:
  the bytes before the first NUL. \<open>nul_free s\<close> says that \<open>s\<close> is such a content.
\<close>

definition NUL :: char where
  "NUL = CHR 0x00"

definition cstr :: "char list \<Rightarrow> string" where
  "cstr b = takeWhile (\<lambda>c. c \<noteq> NUL) b"

definition nul_free :: "string \<Rightarrow> bool" where
  "nul_free s = list_all (\<lambda>c. c \<noteq> NUL) s"

lemma nul_free_simps [simp]:
  "nul_free []"
  "nul_free (c # s) \<longleftrightarrow> c \<noteq> NUL \<and> nul_free s"
  "nul_free (s @ t) \<longleftrightarrow> nul_free s \<and> nul_free t"
  by (auto simp: nul_free_def)

lemma cstr_append_NUL [simp]: "nul_free s \<Longrightarrow> cstr (s @ NUL # r) = s"
  by (induction s) (auto simp: cstr_def)

lemma nul_free_cstr [simp]: "nul_free (cstr b)"
  by (auto simp: nul_free_def cstr_def list_all_iff dest: set_takeWhileD)

lemma cstr_nul_free [simp]: "nul_free s \<Longrightarrow> cstr s = s"
  by (induction s) (auto simp: cstr_def)

section \<open>Lists\<close>

lemma take_update_Suc: "i < length b \<Longrightarrow> take (Suc i) (b[i := x]) = take i b @ [x]"
  by (simp add: take_Suc_conv_app_nth)

lemma list_update_append_mid:
  "length xs = i \<Longrightarrow> (xs @ y # ys)[i := z] = xs @ z # ys"
  by auto

lemma map_update_other: "i \<noteq> j \<Longrightarrow> xs[i := x] ! j = xs ! j"
  by simp

end
