(* ===== verification/Float32.thy ===== *)
theory Float32
  imports Main
begin

text \<open>
  The part of IEEE single precision the configurator's index computation uses
  (\<open>src/src/get_string_hash.hpp\<close> multiplies an integer by a \<open>float\<close>): \<open>rne24\<close>
  rounds a natural number to the nearest value with a 24-bit significand, ties to even.
  A non-negative \<open>float\<close> is a pair \<open>(m, e)\<close> that stands for \<open>m / 2 ^ e\<close>; rounding a
  product of such values is rounding the product of the significands, as long as neither
  overflow nor subnormals occur, which holds for the magnitudes here.
\<close>

section \<open>Bit length\<close>

fun bit_len :: "nat \<Rightarrow> nat" where
  "bit_len n = (if n = 0 then 0 else Suc (bit_len (n div 2)))"
declare bit_len.simps [simp del]
lemma bit_len_0 [simp]: "bit_len 0 = 0" by (simp add: bit_len.simps)
lemma bit_len_upper: "n < 2 ^ bit_len n"
proof (induction n rule: bit_len.induct)
  case (1 n)
  show ?case
  proof (cases "n = 0")
    case False
    then have "n div 2 < 2 ^ bit_len (n div 2)" using "1" by blast
    with False show ?thesis by (simp add: bit_len.simps [of n])
  qed simp
qed
lemma bit_len_lower: "0 < n \<Longrightarrow> 2 ^ (bit_len n - 1) \<le> n"
proof (induction n rule: bit_len.induct)
  case (1 n)
  then have n: "0 < n" by simp
  show ?case
  proof (cases "n div 2 = 0")
    case True
    then have "n = 1" using n by auto
    then show ?thesis by (simp add: bit_len.simps)
  next
    case False
    then have "2 ^ (bit_len (n div 2) - 1) \<le> n div 2" using "1" n by simp
    moreover have "bit_len (n div 2) = Suc (bit_len (n div 2) - 1)"
      using False by (simp add: bit_len.simps [of "n div 2"])
    ultimately have "2 * 2 ^ (bit_len (n div 2) - 1) \<le> 2 * (n div 2)" by simp
    also have "\<dots> \<le> n" by simp
    finally show ?thesis using n \<open>bit_len (n div 2) = _\<close>
      by (simp add: bit_len.simps [of n]) (metis power_Suc)
  qed
qed

section \<open>Round to nearest, ties to even\<close>

definition rne24 :: "nat \<Rightarrow> nat" where
  "rne24 m = (let k = bit_len m - 24; q = m div 2 ^ k; r = m mod 2 ^ k
     in if k = 0 then m
        else if 2 * r > 2 ^ k \<or> (2 * r = 2 ^ k \<and> odd q) then (q + 1) * 2 ^ k
        else q * 2 ^ k)"

definition f32_rep :: "nat \<Rightarrow> bool" where
  "f32_rep r = (\<exists>m e. r = m * 2 ^ e \<and> m < 2 ^ 24)"

lemma bit_len_exp:
  assumes "0 < bit_len m - 24"
  shows "2 ^ (23 + (bit_len m - 24)) \<le> m" and "m < 2 ^ (24 + (bit_len m - 24))"
proof -
  have "m \<noteq> 0" using assms by (metis bit_len_0 diff_0_eq_0 less_nat_zero_code)
  moreover have "23 + (bit_len m - 24) = bit_len m - 1" using assms by simp
  ultimately show "2 ^ (23 + (bit_len m - 24)) \<le> m" using bit_len_lower [of m] by simp
  have "24 + (bit_len m - 24) = bit_len m" using assms by simp
  then show "m < 2 ^ (24 + (bit_len m - 24))" using bit_len_upper [of m] by simp
qed

lemma rne24_small: "bit_len m \<le> 24 \<Longrightarrow> rne24 m = m"
  by (simp add: rne24_def)

lemma rne24_cases:
  assumes "24 < bit_len m"
  obtains (down) k where "k = bit_len m - 24" "0 < k" "rne24 m = m div 2 ^ k * 2 ^ k"
  | (up) k where "k = bit_len m - 24" "0 < k" "rne24 m = (m div 2 ^ k + 1) * 2 ^ k" "0 < m mod 2 ^ k"
proof -
  define k where "k = bit_len m - 24"
  have k: "0 < k" using assms by (simp add: k_def)
  show thesis
  proof (cases "2 * (m mod 2 ^ k) > 2 ^ k \<or> (2 * (m mod 2 ^ k) = 2 ^ k \<and> odd (m div 2 ^ k))")
    case True
    then have "0 < m mod 2 ^ k" by (metis mult_0_right neq0_conv not_less_zero power_not_zero zero_neq_numeral)
    with True k show ?thesis by (intro up [of k]) (simp_all add: k_def rne24_def Let_def)
  next
    case False
    with k show ?thesis by (intro down [of k]) (auto simp add: k_def rne24_def Let_def)
  qed
qed

lemma f32_rep_dvd:
  assumes "f32_rep r" and "2 ^ (23 + k) \<le> r"
  shows "2 ^ k dvd r"
proof -
  obtain m e where r: "r = m * 2 ^ e" and m: "m < 2 ^ 24" using assms(1) by (auto simp: f32_rep_def)
  have "k \<le> e"
  proof (rule ccontr)
    assume "\<not> k \<le> e"
    then have "e + 1 \<le> k" by simp
    have "r < 2 ^ 24 * 2 ^ e" using m r by simp
    also have "\<dots> = 2 ^ (23 + (e + 1))" by (simp add: power_add)
    also have "\<dots> \<le> 2 ^ (23 + k)" using \<open>e + 1 \<le> k\<close> by (intro power_increasing) simp_all
    finally show False using assms(2) by simp
  qed
  then show ?thesis using r by (metis dvd_triv_right dvd_trans le_imp_power_dvd)
qed

lemma rne24_le:
  assumes "x \<le> r" and "f32_rep r"
  shows "rne24 x \<le> r"
proof (cases "bit_len x \<le> 24")
  case True then show ?thesis using assms by (simp add: rne24_small)
next
  case False
  then have "24 < bit_len x" by simp
  then show ?thesis
  proof (cases rule: rne24_cases)
    case (down k)
    have "x div 2 ^ k * 2 ^ k \<le> x" by (metis div_times_less_eq_dividend)
    then show ?thesis unfolding down(3) using assms(1) by (rule le_trans)
  next
    case (up k)
    have "2 ^ (23 + k) \<le> x" using bit_len_exp(1) [of x] up by simp
    then have "2 ^ k dvd r" using f32_rep_dvd [OF assms(2)] assms(1) by (meson le_trans)
    then obtain c where c: "r = c * 2 ^ k" by (metis dvdE mult.commute)
    have "x div 2 ^ k * 2 ^ k < x"
      using up(4) by (metis div_mult_mod_eq less_add_same_cancel1)
    then have "x div 2 ^ k * 2 ^ k < c * 2 ^ k" using assms(1) c by (metis order.strict_trans2)
    then have "x div 2 ^ k < c" by (rule mult_less_cancel2 [THEN iffD1, THEN conjunct2])
    then have "x div 2 ^ k + 1 \<le> c" by simp
    then show ?thesis using up c by (metis mult_le_mono1)
  qed
qed

lemma rne24_ge:
  assumes "r \<le> x" and "f32_rep r"
  shows "r \<le> rne24 x"
proof (cases "bit_len x \<le> 24")
  case True
  then show ?thesis using assms by (simp add: rne24_small)
next
  case False
  define k where "k = bit_len x - 24"
  have k: "0 < k" and x: "2 ^ (23 + k) \<le> x"
    using False bit_len_exp(1) [of x] by (simp_all add: k_def)
  have "r \<le> x div 2 ^ k * 2 ^ k"
  proof (cases "2 ^ (23 + k) \<le> r")
    case True
    then have "2 ^ k dvd r" using f32_rep_dvd [OF assms(2)] by blast
    then obtain c where c: "r = c * 2 ^ k" by (metis dvdE mult.commute)
    then have "c \<le> x div 2 ^ k" using assms(1)
      by (metis div_le_mono nonzero_mult_div_cancel_right power_not_zero zero_neq_numeral)
    then show ?thesis using c by simp
  next
    case False
    have "2 ^ 23 \<le> x div 2 ^ k"
      using div_le_mono [OF x, of "2 ^ k"] by (simp add: power_add)
    then have "2 ^ 23 * 2 ^ k \<le> x div 2 ^ k * 2 ^ k" by (rule mult_le_mono1)
    moreover have "r < 2 ^ 23 * 2 ^ k" using False by (simp only: power_add not_le)
    ultimately show ?thesis by (metis order.strict_trans2 order.strict_implies_order)
  qed
  moreover have "x div 2 ^ k * 2 ^ k \<le> rne24 x"
    by (simp add: rne24_def k_def Let_def)
  ultimately show ?thesis by (rule le_trans)
qed

lemma f32_rep_rne24: "f32_rep (rne24 x)"
proof (cases "bit_len x \<le> 24")
  case True
  then have "2 ^ bit_len x \<le> (2 ^ 24 :: nat)" by (intro power_increasing) simp_all
  with bit_len_upper [of x] have "x < 2 ^ 24" by simp
  then have "\<exists>m e. x = m * 2 ^ e \<and> m < 2 ^ 24" by (intro exI [of _ x] exI [of _ 0]) simp
  with True show ?thesis by (simp add: rne24_small f32_rep_def)
next
  case False
  then have l: "24 < bit_len x" by simp
  define k where "k = bit_len x - 24"
  have "x < 2 ^ 24 * 2 ^ k"
    using bit_len_exp(2) [of x] l unfolding k_def power_add [symmetric] by simp
  then have q: "x div 2 ^ k < 2 ^ 24" by (simp add: less_mult_imp_div_less)
  from l show ?thesis
  proof (cases rule: rne24_cases)
    case (down k')
    with q show ?thesis by (auto simp: f32_rep_def k_def)
  next
    case (up k')
    show ?thesis
    proof (cases "x div 2 ^ k + 1 < 2 ^ 24")
      case True
      with up show ?thesis unfolding f32_rep_def k_def by metis
    next
      case False
      with q have "x div 2 ^ k + 1 = 2 ^ 24" by simp
      with up(1,3) have "rne24 x = 1 * 2 ^ (24 + k)" by (simp add: k_def power_add)
      then show ?thesis unfolding f32_rep_def
        by (intro exI [of _ 1] exI [of _ "24 + k"]) simp
    qed
  qed
qed

lemma bit_len_unique:
  assumes "2 ^ j \<le> x" and "x < 2 ^ Suc j"
  shows "bit_len x = Suc j"
proof -
  have "0 < x" using assms(1) by (metis gr_zeroI le_zero_eq power_not_zero zero_neq_numeral)
  then have l: "2 ^ (bit_len x - 1) \<le> x" by (rule bit_len_lower)
  have "2 ^ j < (2 ^ bit_len x :: nat)" using assms(1) bit_len_upper by (rule le_less_trans)
  then have "j < bit_len x" by (rule power_less_imp_less_exp [rotated]) simp
  moreover have "2 ^ (bit_len x - 1) < (2 ^ Suc j :: nat)" using l assms(2) by (rule le_less_trans)
  then have "bit_len x - 1 < Suc j" by (rule power_less_imp_less_exp [rotated]) simp
  ultimately show ?thesis by simp
qed

lemma rne24_mono:
  assumes "x \<le> y"
  shows "rne24 x \<le> rne24 y"
proof (cases "x \<le> rne24 y")
  case True
  then show ?thesis using f32_rep_rne24 by (rule rne24_le)
next
  case False
  then have lt: "rne24 y < x" by simp
  then have "24 < bit_len y" using assms by (metis leD not_le rne24_small)
  then show ?thesis
  proof (cases rule: rne24_cases)
    case (up k)
    have "y < (y div 2 ^ k + 1) * 2 ^ k"
      by (metis Suc_eq_plus1 dividend_less_times_div mult.commute mult_Suc zero_less_numeral
          zero_less_power add.commute)
    with up lt assms show ?thesis by simp
  next
    case (down k)
    have yk: "2 ^ (23 + k) \<le> y" "y < 2 ^ (24 + k)"
      using bit_len_exp [of y] down by simp_all
    have q: "x div 2 ^ k = y div 2 ^ k"
    proof (rule antisym)
      show "x div 2 ^ k \<le> y div 2 ^ k" using assms by (rule div_le_mono)
      have "y div 2 ^ k * 2 ^ k \<le> x" using lt down(3) by simp
      then have "y div 2 ^ k * 2 ^ k div 2 ^ k \<le> x div 2 ^ k" by (rule div_le_mono)
      then show "y div 2 ^ k \<le> x div 2 ^ k" by simp
    qed
    have "2 ^ 23 \<le> y div 2 ^ k"
      using div_le_mono [OF yk(1), of "2 ^ k"] by (simp add: power_add)
    then have "2 ^ 23 * 2 ^ k \<le> y div 2 ^ k * 2 ^ k" by (rule mult_le_mono1)
    then have "2 ^ 23 * 2 ^ k \<le> x" using lt down(3) by (metis le_less_trans less_imp_le)
    then have xk: "2 ^ (23 + k) \<le> x" by (simp only: power_add)
    have bl: "bit_len x = bit_len y"
      using bit_len_unique [of "23 + k" x] bit_len_unique [of "23 + k" y] xk yk assms by simp
    have r: "x mod 2 ^ k \<le> y mod 2 ^ k"
      using assms q by (metis add_le_cancel_left div_mult_mod_eq)
    show ?thesis using down(1) bl q r lt down(3)
      by (auto simp: rne24_def Let_def not_less split: if_splits)
  qed
qed

section \<open>Scaling an integer by a float and truncating\<close>

type_synonym f32 = "nat \<times> nat"

text \<open>\<open>(std::size_t)(h * scale)\<close>: the integer and the product are each rounded.\<close>

definition f32_index :: "nat \<Rightarrow> f32 \<Rightarrow> nat" where
  "f32_index h sc = rne24 (rne24 h * fst sc) div 2 ^ snd sc"

text \<open>Nearest integer to a quotient, ties to even: the significand of a division.\<close>

definition rne_div :: "nat \<Rightarrow> nat \<Rightarrow> nat" where
  "rne_div n d = (let q = n div d; r = n mod d
     in if 2 * r > d \<or> (2 * r = d \<and> odd q) then q + 1 else q)"

lemma f32_index_mono: "h \<le> h' \<Longrightarrow> f32_index h sc \<le> f32_index h' sc"
  by (simp add: f32_index_def div_le_mono rne24_mono)

end
