(* ===== verification/StringHash.thy ===== *)
theory StringHash
  imports Prelude Float32
begin

text \<open>
  \<open>src/src/compile_time_string_hash.hpp\<close> (the 32-bit FNV-1a hash, with and without a
  length) and \<open>src/src/get_string_hash.hpp\<close> (the hash scaled by a \<open>float\<close> into an
  array index), together with the two scale factors the program uses.

  The single-precision arithmetic is that of \<open>Float32\<close>.
  \<open>char\<close> is signed, as on the x86-64 target of the build files.
\<close>

section \<open>The FNV-1a hash\<close>

definition fnv_basis :: "32 word" where
  "fnv_basis = 2166136261"

definition fnv_prime :: "32 word" where
  "fnv_prime = 16777619"

text \<open>\<open>static_cast<H>(c)\<close> for a signed \<open>char\<close>: sign extension.\<close>

definition char_to_H :: "char \<Rightarrow> 32 word" where
  "char_to_H c = scast (of_nat (of_char c) :: 8 word)"

text \<open>\<open>hash_impl(current, remain, value)\<close>: the list holds the \<open>remain\<close> bytes.\<close>

fun hash_impl :: "char list \<Rightarrow> 32 word \<Rightarrow> 32 word" where
  "hash_impl [] v = v"
| "hash_impl (c # cs) v = hash_impl cs ((v XOR char_to_H c) * fnv_prime)"

text \<open>
  \<open>str_hash_impl(c, remain, value)\<close> reads up to the NUL of the storage; it runs off the
  end of storage that holds none.
\<close>

fun str_hash_impl :: "char list \<Rightarrow> 32 word \<Rightarrow> 32 word res" where
  "str_hash_impl [] v = Inl OutOfBounds"
| "str_hash_impl (c # remain) v =
     (if c = NUL then Inr v
      else str_hash_impl remain ((v XOR char_to_H c) * fnv_prime))"

definition fnv_string_hash :: "char list option \<Rightarrow> 32 word res" where
  "fnv_string_hash str = (case str of None \<Rightarrow> Inr 0 | Some b \<Rightarrow> str_hash_impl b fnv_basis)"

definition fnv_hash :: "char list option \<Rightarrow> 32 word" where
  "fnv_hash p = (case p of None \<Rightarrow> 0 | Some b \<Rightarrow> hash_impl b fnv_basis)"

text \<open>\<open>string_hash(const std::string_view&)\<close> and \<open>std::hash\<close> of it.\<close>

definition stringhash_uint32 :: "string \<Rightarrow> 32 word" where
  "stringhash_uint32 s = fnv_hash (Some s)"

definition stringview_hash :: "32 word \<Rightarrow> 64 word" where
  "stringview_hash h = ucast h"

definition is_valid_hash :: "32 word \<Rightarrow> bool" where
  "is_valid_hash h = (h \<noteq> 0)"

lemma ucast_scast_byte: "(ucast (scast (x :: 8 word) :: 32 word) :: 8 word) = x"
  by (rule bit_word_eqI) (auto simp: bit_simps)

lemma unat_byte: "unat (of_nat (of_char c) :: 8 word) = of_char c"
  by (simp add: unat_of_nat)

lemma char_to_H_inj: "char_to_H c = char_to_H d \<longleftrightarrow> c = d"
  unfolding char_to_H_def by (metis ucast_scast_byte unat_byte of_char_eq_iff)

text \<open>
  One FNV step is a bijection of the hash value: XOR is an involution and the prime is
  odd, so it has an inverse modulo \<open>2 ^ 32\<close>.
\<close>

lemma fnv_prime_inverse: "fnv_prime * 899433627 = 1"
  by (simp add: fnv_prime_def)

lemma fnv_step_inj:
  "(v XOR x) * fnv_prime = (w XOR y) * fnv_prime \<longleftrightarrow> v XOR x = w XOR y"
proof
  assume h: "(v XOR x) * fnv_prime = (w XOR y) * fnv_prime"
  from arg_cong [OF h, of "\<lambda>u. u * 899433627"] show "v XOR x = w XOR y"
    by (simp only: mult.assoc fnv_prime_inverse mult_1_right)
qed simp

lemma xor_cancel_left: "(v :: 32 word) XOR x = v XOR y \<longleftrightarrow> x = y"
  by (metis xor.assoc xor_self_eq xor.left_neutral)

lemma xor_cancel_right: "(v :: 32 word) XOR x = w XOR x \<longleftrightarrow> v = w"
  by (metis xor.commute xor_cancel_left)

lemma hash_impl_append: "hash_impl (xs @ ys) v = hash_impl ys (hash_impl xs v)"
  by (induction xs arbitrary: v) simp_all

lemma hash_impl_inj: "hash_impl xs v = hash_impl xs w \<longleftrightarrow> v = w"
  by (induction xs arbitrary: v w) (simp_all add: fnv_step_inj xor_cancel_right)

lemma str_hash_impl_terminated:
  "nul_free s \<Longrightarrow> str_hash_impl (s @ NUL # r) v = Inr (hash_impl s v)"
  by (induction s arbitrary: v) simp_all

section \<open>The scaled index\<close>

text \<open>
  \<open>scaleFactor\<close> of \<open>StrHashTable\<close>, \<open>FieldExtractor\<close> and \<open>Configurator\<close>:
  \<open>(float)size / max\<close>, where the 32-bit maximum becomes \<open>2 ^ 32\<close> as a \<open>float\<close>
  (\<open>uint32_max_as_float\<close>) and dividing by it is exact.
\<close>

definition table_scale :: "nat \<Rightarrow> f32" where
  "table_scale sz = (rne24 sz, 32)"

text \<open>
  \<open>scaleFactor\<close> of \<open>XmlProcessor\<close>: \<open>1.0f / (max / MAX_CHAR_SIZE)\<close>. The inner
  division is on integers, its result is rounded to a \<open>float\<close>, then divided.
\<close>

definition MAX_CHAR_SIZE :: nat where
  "MAX_CHAR_SIZE = 255"

definition xml_scale :: f32 where
  "xml_scale = (rne_div (2 ^ 48) (rne24 (4294967295 div MAX_CHAR_SIZE)), 48)"

definition getStringHash :: "string \<Rightarrow> f32 \<Rightarrow> nat" where
  "getStringHash value sc = f32_index (unat (stringview_hash (stringhash_uint32 value))) sc"

lemma uint32_max_as_float: "rne24 4294967295 = 2 ^ 32"
  by (simp add: rne24_def bit_len.simps)

lemma table_scale_255: "table_scale 255 = (255, 32)"
  by (simp add: table_scale_def rne24_def bit_len.simps)

lemma xml_scale_value: "xml_scale = (16711681, 48)"
  by (simp add: xml_scale_def MAX_CHAR_SIZE_def rne_div_def rne24_def bit_len.simps)

text \<open>The significand of \<open>xml_scale\<close> has 24 bits, so the division above is the rounded one.\<close>

lemma xml_scale_normal: "2 ^ 23 \<le> fst xml_scale" "fst xml_scale < 2 ^ 24"
  by (simp_all add: xml_scale_value)

lemma unat_u32_less: "unat (w :: 32 word) < 2 ^ 32"
  using unsigned_less [of w] by simp

lemma getStringHash_index: "getStringHash s sc = f32_index (unat (stringhash_uint32 s)) sc"
proof -
  have "unat (stringhash_uint32 s) < 2 ^ 64"
    using unat_u32_less [of "stringhash_uint32 s"] by simp
  then have "unat (ucast (stringhash_uint32 s) :: 64 word) = unat (stringhash_uint32 s)"
    by (simp add: unsigned_ucast_eq take_bit_nat_eq_self)
  then show ?thesis by (simp add: getStringHash_def stringview_hash_def)
qed

text \<open>Thresholds: a monotone index is pinned by its values at the two sides of a jump.\<close>

lemma f32_index_threshold:
  assumes "f32_index (t - 1) sc \<le> b - 1" and "f32_index t sc = b" and "f32_index (2 ^ 32 - 1) sc = b"
    and "0 < b" and "h < 2 ^ 32"
  shows "f32_index h sc \<le> b" and "f32_index h sc = b \<longleftrightarrow> t \<le> h"
proof -
  from assms(5) have h: "h \<le> 2 ^ 32 - 1" by simp
  from f32_index_mono [OF this] assms(3) show le: "f32_index h sc \<le> b" by metis
  show "f32_index h sc = b \<longleftrightarrow> t \<le> h"
  proof
    assume "t \<le> h"
    from f32_index_mono [OF this, of sc] assms(2) le show "f32_index h sc = b" by simp
  next
    assume e: "f32_index h sc = b"
    show "t \<le> h"
    proof (rule ccontr)
      assume "\<not> t \<le> h"
      then have "h \<le> t - 1" by simp
      from f32_index_mono [OF this, of sc] assms(1,4) e show False by simp
    qed
  qed
qed

lemma table_index_255:
  "getStringHash s (table_scale 255) \<le> 255"
  "getStringHash s (table_scale 255) = 255 \<longleftrightarrow> 4294967168 \<le> unat (stringhash_uint32 s)"
proof -
  have "f32_index (4294967168 - 1) (255, 32) \<le> 255 - 1" "f32_index 4294967168 (255, 32) = 255"
      "f32_index (2 ^ 32 - 1) (255, 32) = 255"
    by (simp_all add: f32_index_def rne24_def bit_len.simps)
  note t = f32_index_threshold [OF this _ unat_u32_less [of "stringhash_uint32 s"]]
  show "getStringHash s (table_scale 255) \<le> 255"
    "getStringHash s (table_scale 255) = 255 \<longleftrightarrow> 4294967168 \<le> unat (stringhash_uint32 s)"
    using t by (simp_all add: getStringHash_index table_scale_255)
qed

lemma xml_index_255:
  "getStringHash s xml_scale \<le> 255"
  "getStringHash s xml_scale = 255 \<longleftrightarrow> 4294966913 \<le> unat (stringhash_uint32 s)"
proof -
  have "f32_index (4294966913 - 1) (16711681, 48) \<le> 255 - 1"
      "f32_index 4294966913 (16711681, 48) = 255"
      "f32_index (2 ^ 32 - 1) (16711681, 48) = 255"
    by (simp_all add: f32_index_def rne24_def bit_len.simps)
  note t = f32_index_threshold [OF this _ unat_u32_less [of "stringhash_uint32 s"]]
  show "getStringHash s xml_scale \<le> 255"
    "getStringHash s xml_scale = 255 \<longleftrightarrow> 4294966913 \<le> unat (stringhash_uint32 s)"
    using t by (simp_all add: getStringHash_index xml_scale_value)
qed

lemmas string_hash_eval = getStringHash_index f32_index_def rne24_def bit_len.simps
  stringhash_uint32_def fnv_hash_def fnv_basis_def fnv_prime_def char_to_H_def

text \<open>The hash of an ASCII string on natural numbers, for evaluation.\<close>

fun hash_nat :: "string \<Rightarrow> nat \<Rightarrow> nat" where
  "hash_nat [] v = v"
| "hash_nat (c # cs) v = hash_nat cs (take_bit 32 (16777619 * (v XOR of_char c)))"

definition ascii :: "string \<Rightarrow> bool" where
  "ascii s = list_all (\<lambda>c. (of_char c :: nat) < 128) s"

lemma ascii_simps [simp]:
  "ascii []"
  "ascii (c # s) \<longleftrightarrow> (of_char c :: nat) < 128 \<and> ascii s"
  by (simp_all add: ascii_def)

lemma scast_byte_nonneg: "\<not> bit (x :: 8 word) 7 \<Longrightarrow> (scast x :: 32 word) = ucast x"
proof (rule bit_word_eqI)
  fix n
  assume x: "\<not> bit x 7" and n: "n < LENGTH(32)"
  show "bit (scast x :: 32 word) n = bit (ucast x :: 32 word) n"
    using n x by (cases "n < 7"; cases "n = 7") (auto simp: bit_simps min_def not_less dest: bit_imp_le_length)
qed

lemma char_to_H_ascii:
  assumes "(of_char c :: nat) < 128"
  shows "unat (char_to_H c) = of_char c"
proof -
  let ?x = "of_nat (of_char c) :: 8 word"
  have "\<not> bit ?x 7"
    using assms by (simp add: bit_simps bit_nat_def)
  then have "char_to_H c = ucast ?x" unfolding char_to_H_def by (rule scast_byte_nonneg)
  then show ?thesis using assms by (simp add: unsigned_ucast_eq unat_byte take_bit_nat_eq_self)
qed

lemma hash_nat_impl: "ascii s \<Longrightarrow> unat (hash_impl s v) = hash_nat s (unat v)"
proof (induction s arbitrary: v)
  case (Cons c s)
  have "unat ((v XOR char_to_H c) * fnv_prime) = take_bit 32 (16777619 * (unat v XOR of_char c))"
    using Cons.prems
    by (simp add: unat_word_ariths fnv_prime_def unsigned_xor_eq char_to_H_ascii mult.commute take_bit_eq_mod)
  then show ?case using Cons by simp
qed simp

lemma stringhash_nat: "ascii s \<Longrightarrow> unat (stringhash_uint32 s) = hash_nat s 2166136261"
  by (simp add: stringhash_uint32_def fnv_hash_def hash_nat_impl fnv_basis_def)

section \<open>Properties\<close>

text \<open>
  Changing one byte of a string always changes its 32-bit hash, whatever surrounds
  it: every FNV step is a bijection of the running value and of the byte.
\<close>

theorem one_byte_changes_hash:
  "stringhash_uint32 (xs @ c # ys) = stringhash_uint32 (xs @ d # ys) \<longleftrightarrow> c = d"
  by (simp add: stringhash_uint32_def fnv_hash_def hash_impl_append hash_impl_inj
      fnv_step_inj xor_cancel_left char_to_H_inj)

text \<open>
  The two hashing routines agree: hashing a NUL-terminated buffer by walking to the
  terminator gives the hash of its content taken with an explicit length.
\<close>

theorem terminated_hash_agrees:
  assumes "nul_free s"
  shows "fnv_string_hash (Some (s @ NUL # rest)) = Inr (stringhash_uint32 s)"
  using assms
  by (simp add: fnv_string_hash_def stringhash_uint32_def fnv_hash_def str_hash_impl_terminated)

theorem terminated_hash_agrees_witness:
  "nul_free ''type'' \<and>
   fnv_string_hash (Some (''type'' @ NUL # ''xx'')) = Inr (stringhash_uint32 ''type'')"
proof -
  have h: "nul_free ''type''" by (simp add: NUL_def)
  show ?thesis using h terminated_hash_agrees [OF h, of "''xx''"] by blast
qed

text \<open>
  The index that a 255-entry table or the field-position array is accessed with is at
  most 255, and it is 255, one past the last entry, exactly for the hashes in the top
  128 values of the 32-bit range (they round up to \<open>2 ^ 32\<close> as a \<open>float\<close>).
\<close>

theorem table_index_bound:
  "getStringHash s (table_scale 255) \<le> 255 \<and>
   (getStringHash s (table_scale 255) = 255 \<longleftrightarrow> 2 ^ 32 - 128 \<le> unat (stringhash_uint32 s))"
  using table_index_255 [of s] by simp

end
