(* ===== verification/FieldStore.thy ===== *)
theory FieldStore
  imports StructMeta StringHash
begin

text \<open>
  A structure being filled: \<open>FieldExtractor\<close> and \<open>StructFieldExtractor\<close> of
  \<open>src/src\<close>. The metadata of the members is \<open>StructMeta\<close>; a C++ type is the spelling of
  \<open>TypeMaps\<close>, a member's value a \<open>cvalue\<close>. Which types \<open>static_cast\<close> accepts for a
  member is decided by the compiler on the Vulkan headers: the argument \<open>castable\<close>.
\<close>

section \<open>Types and values\<close>

datatype tkind = KEnum string | KPtr string | KStruct | KArith

text \<open>
  What the templates ask of a type: a wrapped enumeration, a pointer (with the type it
  points to), a class, or an arithmetic type.
\<close>

definition enum_prefix :: string where
  "enum_prefix = ''configuration::enumeration<''"

definition kind_of :: "string \<Rightarrow> tkind" where
  "kind_of t =
     (if take (length enum_prefix) t = enum_prefix \<and> last t = CHR ''>''
      then KEnum (butlast (drop (length enum_prefix) t))
      else if t \<noteq> [] \<and> last t = CHR ''*''
      then KPtr (let u = butlast t in if u \<noteq> [] \<and> last u = CHR '' '' then butlast u else u)
      else if struct_fields t \<noteq> None then KStruct
      else KArith)"

text \<open>
  Values of members: value-initialised, an integer or enumerator, a copied string, a null
  pointer, a copied structure, a pointer to a copied array of structures.
\<close>

datatype cvalue =
    CZero
  | CInt "64 word"
  | CStr string
  | CNull
  | CObj string "cvalue list"
  | CArr string "cvalue list list"

section \<open>The extractor\<close>

text \<open>
  \<open>ext_class\<close> is the template argument of \<open>StructFieldExtractor\<close>. The primary template,
  chosen for a type that is not a class, is not visitable, reports \<open>NullWrapper\<close> as its type and holds a
  null pointer.
\<close>

record extractor =
  ext_class :: string
  fieldPositions :: "nat list"
  container :: "cvalue list"

definition is_specialised :: "extractor \<Rightarrow> bool" where
  "is_specialised x = (kind_of (ext_class x) = KStruct)"

text \<open>\<open>memset(fieldPositions, -1, ...)\<close>, and the value-initialised container.\<close>

definition StructFieldExtractor :: "string \<Rightarrow> extractor" where
  "StructFieldExtractor t =
     \<lparr>ext_class = t, fieldPositions = replicate 255 255,
      container = (case struct_fields t of None \<Rightarrow> [] | Some fs \<Rightarrow> replicate (length fs) CZero)\<rparr>"

definition isVisitable :: "extractor \<Rightarrow> bool" where
  "isVisitable x = (is_specialised x \<and> struct_fields (ext_class x) \<noteq> None)"

definition ext_getType :: "extractor \<Rightarrow> string" where
  "ext_getType x =
     (if is_specialised x then ext_class x else ''configuration::Configurator::NullWrapper'')"

text \<open>\<open>getContainer\<close>: \<open>None\<close> is the \<open>std::any\<close> that holds \<open>std::nullptr_t\<close>.\<close>

definition getContainer :: "extractor \<Rightarrow> (string \<times> cvalue list) option" where
  "getContainer x = (if is_specialised x then Some (ext_class x, container x) else None)"

definition field_hash :: "string \<Rightarrow> nat" where
  "field_hash fieldName = getStringHash fieldName (table_scale 255)"

text \<open>\<open>iterateFieldPositions\<close>: a later member overwrites the position of an earlier one.\<close>

definition store_position :: "nat list \<Rightarrow> nat \<times> string \<Rightarrow> nat list res" where
  "store_position ps e = buf_set ps (field_hash (snd e)) (fst e mod 256)"

definition iterateFieldPositions :: "extractor \<Rightarrow> extractor res" where
  "iterateFieldPositions x =
     (if is_specialised x
      then bindE (foldE store_position (fieldPositions x)
             (case struct_fields (ext_class x) of None \<Rightarrow> [] | Some fs \<Rightarrow> enumerate 0 fs))
             (\<lambda>ps. Inr (x\<lparr>fieldPositions := ps\<rparr>))
      else Inr x)"

text \<open>
  \<open>isFieldInStruct\<close>: the entry is a \<open>uint8_t\<close>, promoted to \<open>int\<close> for the comparison
  with \<open>-1\<close>.
\<close>

definition isFieldInStruct :: "extractor \<Rightarrow> string \<Rightarrow> bool res" where
  "isFieldInStruct x name =
     bindE (buf_get (fieldPositions x) (field_hash name)) (\<lambda>p. Inr (\<not> int p = - 1))"

text \<open>
  \<open>setFieldValue\<close>: every member is visited, the one whose index is stored under the hash
  is assigned when the conversion exists. The other branch asks whether a reference type
  is a pointer type and is never taken.
\<close>

type_synonym castable = "string \<Rightarrow> string \<Rightarrow> nat \<Rightarrow> bool"

definition set_step ::
  "castable \<Rightarrow> extractor \<Rightarrow> nat \<Rightarrow> string \<Rightarrow> cvalue \<Rightarrow> cvalue list \<Rightarrow> nat \<Rightarrow> cvalue list res" where
  "set_step castable x h S v c idx =
     bindE (buf_get (fieldPositions x) h) (\<lambda>p.
       if idx = p then (if castable S (ext_class x) idx then Inr (c[idx := v]) else Inr c)
       else Inr c)"

definition setFieldValue ::
  "castable \<Rightarrow> extractor \<Rightarrow> nat \<Rightarrow> string \<Rightarrow> cvalue \<Rightarrow> extractor res" where
  "setFieldValue castable x h S v =
     bindE (foldE (set_step castable x h S v) (container x) [0 ..< length (container x)])
       (\<lambda>c. Inr (x\<lparr>container := c\<rparr>))"

definition setFieldForStruct ::
  "castable \<Rightarrow> extractor \<Rightarrow> string \<Rightarrow> string \<Rightarrow> cvalue \<Rightarrow> extractor res" where
  "setFieldForStruct castable x fieldName S v =
     (if is_specialised x then setFieldValue castable x (field_hash fieldName) S v else Inr x)"

section \<open>Lemmas\<close>

text \<open>The members a list of names is filed under, as the last position per hash.\<close>

fun last_position :: "string list \<Rightarrow> nat \<Rightarrow> nat \<Rightarrow> nat \<Rightarrow> nat" where
  "last_position [] i p h = p"
| "last_position (f # fs) i p h = last_position fs (Suc i) (if field_hash f = h then i else p) h"

definition meta_ok :: "string list \<Rightarrow> bool" where
  "meta_ok fs = (length fs < 255 \<and> (\<forall>f \<in> set fs. field_hash f < 255))"

lemma store_positions:
  assumes "length ps = 255" and "\<forall>f \<in> set fs. field_hash f < 255" and "i + length fs < 256"
  shows "\<exists>ps'. foldE store_position ps (enumerate i fs) = Inr ps' \<and> length ps' = 255 \<and>
    (\<forall>h < 255. ps' ! h = last_position fs i (ps ! h) h)"
  using assms
proof (induction fs arbitrary: ps i)
  case (Cons f fs)
  let ?ps = "ps[field_hash f := i]"
  have l: "length ?ps = 255" "\<forall>f \<in> set fs. field_hash f < 255" "Suc i + length fs < 256"
    using Cons.prems by simp_all
  obtain ps' where ps': "foldE store_position ?ps (enumerate (Suc i) fs) = Inr ps'" "length ps' = 255"
      "\<forall>h < 255. ps' ! h = last_position fs (Suc i) (?ps ! h) h"
    using Cons.IH [OF l] by blast
  moreover have "store_position ps (i, f) = Inr ?ps"
    using Cons.prems by (simp add: store_position_def)
  ultimately show ?case using Cons.prems(1,2) by (auto simp: nth_list_update)
qed simp

lemma last_position_other: "\<forall>f \<in> set fs. field_hash f \<noteq> h \<Longrightarrow> last_position fs i p h = p"
  by (induction fs arbitrary: i p) auto

lemma last_position_range:
  "last_position fs i p h = p \<or> (i \<le> last_position fs i p h \<and> last_position fs i p h < i + length fs \<and>
    field_hash (fs ! (last_position fs i p h - i)) = h)"
proof (induction fs arbitrary: i p)
  case (Cons f fs)
  have "last_position (f # fs) i p h = last_position fs (Suc i) (if field_hash f = h then i else p) h"
    by simp
  with Cons.IH [of "Suc i" "if field_hash f = h then i else p"] show ?case
    by (auto simp: nth_Cons' split: if_splits)
qed simp

lemma last_position_hit:
  assumes "k < length fs" and "field_hash (fs ! k) = h" and "\<forall>j. k < j \<and> j < length fs \<longrightarrow> field_hash (fs ! j) \<noteq> h"
  shows "last_position fs i p h = i + k"
  using assms
proof (induction fs arbitrary: i p k)
  case (Cons f fs)
  show ?case
  proof (cases k)
    case 0
    have "\<forall>g \<in> set fs. field_hash g \<noteq> h"
    proof
      fix g assume "g \<in> set fs"
      then obtain j where "j < length fs" "fs ! j = g" by (metis in_set_conv_nth)
      then show "field_hash g \<noteq> h" using Cons.prems(3) 0 by (auto dest: spec [of _ "Suc j"])
    qed
    then show ?thesis using 0 Cons.prems(2) by (simp add: last_position_other)
  next
    case (Suc m)
    have "last_position fs (Suc i) (if field_hash f = h then i else p) h = Suc i + m"
      by (rule Cons.IH) (use Cons.prems Suc in \<open>auto dest: spec [of _ "Suc _"]\<close>)
    then show ?thesis using Suc by simp
  qed
qed simp

text \<open>The effect of the visit.\<close>

lemma set_steps:
  assumes "h < length (fieldPositions x)" and "n \<le> length c"
  shows "foldE (set_step castable x h S v) c [0 ..< n] =
    Inr (if fieldPositions x ! h < n \<and> castable S (ext_class x) (fieldPositions x ! h)
         then c[fieldPositions x ! h := v] else c)"
  using assms(2)
proof (induction n)
  case (Suc n)
  then show ?case using assms(1) by (auto simp: foldE_append set_step_def less_Suc_eq)
qed simp

lemma setFieldValue_eq:
  assumes "h < length (fieldPositions x)"
  shows "setFieldValue castable x h S v = Inr
    (if fieldPositions x ! h < length (container x) \<and> castable S (ext_class x) (fieldPositions x ! h)
     then x\<lparr>container := (container x)[fieldPositions x ! h := v]\<rparr> else x)"
  using assms by (simp add: setFieldValue_def set_steps)

lemma iterate_positions:
  assumes "struct_fields T = Some fs" and "kind_of T = KStruct" and "meta_ok fs"
    and "iterateFieldPositions (StructFieldExtractor T) = Inr x"
  shows "length (fieldPositions x) = 255" and "ext_class x = T" and "is_specialised x"
    and "container x = replicate (length fs) CZero"
    and "h < 255 \<Longrightarrow> fieldPositions x ! h = last_position fs 0 255 h"
proof -
  have m: "length (fieldPositions (StructFieldExtractor T)) = 255" "\<forall>f \<in> set fs. field_hash f < 255"
      "0 + length fs < 256"
    using assms(3) by (simp_all add: StructFieldExtractor_def meta_ok_def)
  obtain ps where ps: "foldE store_position (fieldPositions (StructFieldExtractor T)) (enumerate 0 fs) = Inr ps"
      "length ps = 255" "\<forall>h < 255. ps ! h = last_position fs 0 (fieldPositions (StructFieldExtractor T) ! h) h"
    using store_positions [OF m] by blast
  then have x: "x = (StructFieldExtractor T)\<lparr>fieldPositions := ps\<rparr>"
    using assms by (simp add: iterateFieldPositions_def is_specialised_def StructFieldExtractor_def)
  show "length (fieldPositions x) = 255" "ext_class x = T" "is_specialised x"
    "container x = replicate (length fs) CZero"
    "h < 255 \<Longrightarrow> fieldPositions x ! h = last_position fs 0 255 h"
    using ps assms(1,2) by (simp_all add: x StructFieldExtractor_def is_specialised_def)
qed

section \<open>Properties\<close>

text \<open>
  Members are chosen by index, not by name. On a freshly prepared extractor, setting
  any name whose index is that of some member writes the last member with this index, when the
  conversion exists, and leaves every other member alone; without a conversion nothing happens
  and nothing is reported. So \<open>blendEnable\<close> of \<open>VkPipelineColorBlendAttachmentState\<close> is
  written to \<open>colorWriteMask\<close>, which has the same index.
\<close>

theorem set_writes_last_member_with_index:
  assumes "struct_fields T = Some fs" and "kind_of T = KStruct" and "meta_ok fs"
    and "iterateFieldPositions (StructFieldExtractor T) = Inr x"
    and "k < length fs" and "field_hash (fs ! k) = field_hash f"
    and "\<forall>j. k < j \<and> j < length fs \<longrightarrow> field_hash (fs ! j) \<noteq> field_hash f"
  shows "setFieldForStruct castable x f S v =
    Inr (if castable S T k then x\<lparr>container := (container x)[k := v]\<rparr> else x)"
proof -
  note x = iterate_positions [OF assms(1-4)]
  have h: "field_hash f < 255" using assms(3,5,6) by (metis meta_ok_def nth_mem)
  then have "fieldPositions x ! field_hash f = k"
    using x(5) last_position_hit [OF assms(5,6,7), of 0 255] by simp
  then show ?thesis
    using x h assms(5) by (simp add: setFieldForStruct_def setFieldValue_eq)
qed

text \<open>
  A name that is no member of the structure is accepted in silence: its index is
  still \<open>-1\<close> as a byte, which is compared with \<open>-1\<close> as an \<open>int\<close>, so
  \<open>isFieldInStruct\<close> answers yes for every name with an index inside the array, and
  setting it changes nothing.
\<close>

theorem unknown_name_accepted:
  assumes "struct_fields T = Some fs" and "kind_of T = KStruct" and "meta_ok fs"
    and "iterateFieldPositions (StructFieldExtractor T) = Inr x"
    and "\<forall>g \<in> set fs. field_hash g \<noteq> field_hash f" and "field_hash f < 255"
  shows "isFieldInStruct x f = Inr True \<and> setFieldForStruct castable x f S v = Inr x"
proof -
  note x = iterate_positions [OF assms(1-4)]
  have "fieldPositions x ! field_hash f = 255"
    using x(5) [OF assms(6)] last_position_other [OF assms(5)] by simp
  then show ?thesis
    using x(1,3,4) assms(3,6)
    by (simp add: isFieldInStruct_def setFieldForStruct_def setFieldValue_eq meta_ok_def)
qed

text \<open>The structures of the witnesses.\<close>

lemma blend_state_fields: "struct_fields ''VkPipelineColorBlendAttachmentState'' =
  Some [''blendEnable'', ''srcColorBlendFactor'', ''dstColorBlendFactor'', ''colorBlendOp'',
    ''srcAlphaBlendFactor'', ''dstAlphaBlendFactor'', ''alphaBlendOp'', ''colorWriteMask'']"
  by code_simp

lemma fence_fields: "struct_fields ''VkFenceCreateInfo'' = Some [''sType'', ''pNext'', ''flags'']"
  by code_simp

lemma meta_names:
  "list_all (\<lambda>e. hd (fst e) = CHR ''V'') struct_meta_1"
  "list_all (\<lambda>e. hd (fst e) = CHR ''V'') struct_meta_2"
  "list_all (\<lambda>e. hd (fst e) = CHR ''V'') struct_meta_3"
  "list_all (\<lambda>e. hd (fst e) = CHR ''V'') struct_meta_4"
  "list_all (\<lambda>e. hd (fst e) = CHR ''V'') struct_meta_5"
  "list_all (\<lambda>e. hd (fst e) = CHR ''V'') struct_meta_6"
  by (simp_all only: struct_meta_1_def struct_meta_2_def struct_meta_3_def struct_meta_4_def
      struct_meta_5_def struct_meta_6_def list.pred_inject fst_conv list.sel simp_thms)

lemma struct_fields_None:
  assumes "hd t \<noteq> CHR ''V''" and "hd t \<noteq> CHR ''c''"
  shows "struct_fields t = None"
proof -
  have no: "map_of m t = None" if "list_all (\<lambda>e. hd (fst e) = CHR ''V'') m" for m :: struct_meta
    using that assms(1) by (auto simp: map_of_eq_None_iff list_all_iff)
  have "map_of null_wrapper_meta t = None" using assms(2) by (auto simp: null_wrapper_meta_def)
  then show ?thesis using meta_names [THEN no] by (simp add: struct_fields_def map_add_def)
qed

lemma kind_of_struct:
  "struct_fields t = Some fs \<Longrightarrow> take (length enum_prefix) t \<noteq> enum_prefix \<Longrightarrow> last t \<noteq> CHR ''*'' \<Longrightarrow>
    kind_of t = KStruct"
  by (simp add: kind_of_def)

lemma field_hash_ascii:
  "ascii f \<Longrightarrow> field_hash f = f32_index (hash_nat f 2166136261) (255, 32)"
  by (simp add: field_hash_def table_scale_255 getStringHash_index stringhash_nat)

lemma member_hashes:
  "field_hash ''blendEnable'' = 105"
  "field_hash ''srcColorBlendFactor'' = 83"
  "field_hash ''dstColorBlendFactor'' = 233"
  "field_hash ''colorBlendOp'' = 84"
  "field_hash ''srcAlphaBlendFactor'' = 61"
  "field_hash ''dstAlphaBlendFactor'' = 232"
  "field_hash ''alphaBlendOp'' = 38"
  "field_hash ''colorWriteMask'' = 105"
  "field_hash ''sType'' = 14"
  "field_hash ''pNext'' = 220"
  "field_hash ''flags'' = 155"
  "field_hash ''bogusField'' = 180"
  by (simp_all add: field_hash_ascii f32_index_def rne24_def bit_len.simps)

theorem set_writes_last_member_with_index_witness:
  "\<exists>x. iterateFieldPositions (StructFieldExtractor ''VkPipelineColorBlendAttachmentState'') = Inr x \<and>
    setFieldForStruct (\<lambda>_ _ _. True) x ''blendEnable'' ''unsigned int'' (CInt 1) =
      Inr (x\<lparr>container := (container x)[7 := CInt 1]\<rparr>)"
proof -
  let ?T = "''VkPipelineColorBlendAttachmentState''"
  let ?fs = "[''blendEnable'', ''srcColorBlendFactor'', ''dstColorBlendFactor'', ''colorBlendOp'',
    ''srcAlphaBlendFactor'', ''dstAlphaBlendFactor'', ''alphaBlendOp'', ''colorWriteMask'']"
  have k: "kind_of ?T = KStruct"
    by (rule kind_of_struct [OF blend_state_fields]) (simp_all add: enum_prefix_def)
  have m: "meta_ok ?fs" by (simp add: meta_ok_def member_hashes)
  obtain x where x: "iterateFieldPositions (StructFieldExtractor ?T) = Inr x"
    using store_positions [of "replicate 255 255" ?fs 0] k m blend_state_fields
    by (auto simp: iterateFieldPositions_def is_specialised_def StructFieldExtractor_def meta_ok_def)
  have "setFieldForStruct (\<lambda>_ _ _. True) x ''blendEnable'' ''unsigned int'' (CInt 1) =
      Inr (if True then x\<lparr>container := (container x)[7 := CInt 1]\<rparr> else x)"
    by (rule set_writes_last_member_with_index [where castable = "\<lambda>_ _ _. True", OF blend_state_fields k m x])
      (simp_all add: member_hashes)
  then show ?thesis using x by auto
qed

theorem unknown_name_accepted_witness:
  "\<exists>x. iterateFieldPositions (StructFieldExtractor ''VkFenceCreateInfo'') = Inr x \<and>
    isFieldInStruct x ''bogusField'' = Inr True \<and>
    setFieldForStruct (\<lambda>_ _ _. True) x ''bogusField'' ''unsigned int'' (CInt 1) = Inr x"
proof -
  let ?T = "''VkFenceCreateInfo''" and ?fs = "[''sType'', ''pNext'', ''flags'']"
  have k: "kind_of ?T = KStruct"
    by (rule kind_of_struct [OF fence_fields]) (simp_all add: enum_prefix_def)
  have m: "meta_ok ?fs" by (simp add: meta_ok_def member_hashes)
  obtain x where x: "iterateFieldPositions (StructFieldExtractor ?T) = Inr x"
    using store_positions [of "replicate 255 255" ?fs 0] k m fence_fields
    by (auto simp: iterateFieldPositions_def is_specialised_def StructFieldExtractor_def meta_ok_def)
  have "isFieldInStruct x ''bogusField'' = Inr True \<and>
      setFieldForStruct (\<lambda>_ _ _. True) x ''bogusField'' ''unsigned int'' (CInt 1) = Inr x"
    by (rule unknown_name_accepted [OF fence_fields k m x]) (simp_all add: member_hashes)
  then show ?thesis using x by blast
qed

end
