(* ===== verification/Arena.thy ===== *)
theory Arena
  imports Prelude
begin

text \<open>
  Memory. \<open>src/src/folly/src/memory/Arena.h\<close> and \<open>Arena-inl.h\<close>: the bump allocator
  behind every container of the configurator (\<open>aa::ARENA\<close> of
  \<open>src/src/ArenaContainers.hpp\<close>), with addresses as natural numbers. The system allocator
  is not part of the source: the address it returns for a new block is an argument, and
  \<open>fresh_block\<close> states what \<open>malloc\<close> documents about it. \<open>ArenaPoolAlloc\<close> is the
  pointer registry in front of the arena that \<open>boost::pool_allocator\<close> is given.
\<close>

section \<open>The arena\<close>

text \<open>\<open>alignof(Block)\<close> and \<open>sizeof(Block)\<close>: one list hook, padded to 16 bytes.\<close>

definition maxAlign :: nat where
  "maxAlign = 16"

definition blockOverhead :: nat where
  "blockOverhead = 16"

definition size_max :: nat where
  "size_max = 2 ^ 64 - 1"

record arena =
  minBlockSize :: nat
  sizeLimit :: nat
  blocks :: "(nat \<times> nat) list"
  ptr :: nat
  end_ptr :: nat
  totalAllocatedSize :: nat
  bytesUsed :: nat

definition new_arena :: "nat \<Rightarrow> nat \<Rightarrow> arena" where
  "new_arena minBlock limit =
     \<lparr>minBlockSize = minBlock, sizeLimit = limit, blocks = [], ptr = 0, end_ptr = 0,
      totalAllocatedSize = 0, bytesUsed = 0\<rparr>"

text \<open>\<open>checked_add\<close>, and clearing the low bits with \<open>& ~maxAl\<close>.\<close>

definition checked_add :: "nat \<Rightarrow> nat \<Rightarrow> nat option" where
  "checked_add x y = (if x + y \<le> size_max then Some (x + y) else None)"

definition roundUp :: "nat \<Rightarrow> nat res" where
  "roundUp n =
     (case checked_add n (maxAlign - 1) of
        None \<Rightarrow> Inl Fatal
      | Some realSize \<Rightarrow> Inr (realSize - realSize mod maxAlign))"

text \<open>
  \<open>allocateSlow\<close>: \<open>mem\<close> is the address of the memory the system allocator returns, and
  \<open>good\<close> is \<open>goodMallocSize\<close>. A big block only serves this request; a normal one
  becomes the current block.
\<close>

definition allocateSlow :: "(nat \<Rightarrow> nat) \<Rightarrow> nat \<Rightarrow> arena \<Rightarrow> nat \<Rightarrow> (nat \<times> arena) res" where
  "allocateSlow good mem a n =
     (case checked_add (max n (minBlockSize a)) blockOverhead of
        None \<Rightarrow> Inl Fatal
      | Some allocSize \<Rightarrow>
          if sizeLimit a \<noteq> 0 \<and> allocSize > (sizeLimit a + 2 ^ 64 - totalAllocatedSize a) mod 2 ^ 64
          then Inl Fatal
          else if n > minBlockSize a
          then let start = mem + blockOverhead; sz = n
               in Inr (start, a\<lparr>blocks := blocks a @ [(start, sz)],
                    totalAllocatedSize := totalAllocatedSize a + sz + blockOverhead\<rparr>)
          else let start = mem + blockOverhead;
                   sz = good (blockOverhead + minBlockSize a) - blockOverhead
               in Inr (start, a\<lparr>blocks := (start, sz) # blocks a,
                    ptr := start + n, end_ptr := start + sz,
                    totalAllocatedSize := totalAllocatedSize a + sz + blockOverhead\<rparr>))"

definition allocate :: "(nat \<Rightarrow> nat) \<Rightarrow> nat \<Rightarrow> arena \<Rightarrow> nat \<Rightarrow> (nat \<times> arena) res" where
  "allocate good mem a n0 =
     bindE (roundUp n0) (\<lambda>n.
       let a' = a\<lparr>bytesUsed := bytesUsed a + n\<rparr>
       in if end_ptr a' - ptr a' \<ge> n
          then Inr (ptr a', a'\<lparr>ptr := ptr a' + n\<rparr>)
          else allocateSlow good mem a' n)"

text \<open>\<open>deallocate\<close> keeps everything, and the size queries.\<close>

definition deallocate :: "arena \<Rightarrow> nat \<Rightarrow> arena" where
  "deallocate a p = a"

definition totalSize :: "nat \<Rightarrow> arena \<Rightarrow> nat" where
  "totalSize sizeofArena a = totalAllocatedSize a + sizeofArena"

text \<open>\<open>merge\<close>: the other arena's blocks go in front of ours, and it is left empty.\<close>

definition merge :: "arena \<Rightarrow> arena \<Rightarrow> arena \<times> arena" where
  "merge a other =
     (a\<lparr>blocks := blocks other @ blocks a,
        totalAllocatedSize := totalAllocatedSize a + totalAllocatedSize other\<rparr>,
      other\<lparr>blocks := [], ptr := 0, end_ptr := 0, totalAllocatedSize := 0\<rparr>)"

section \<open>Regions\<close>

definition region :: "nat \<times> nat \<Rightarrow> nat set" where
  "region r = {fst r ..< fst r + snd r}"

text \<open>What \<open>malloc\<close> promises about a new block: aligned, and apart from the old ones.\<close>

definition fresh_block :: "arena \<Rightarrow> nat \<Rightarrow> nat \<Rightarrow> bool" where
  "fresh_block a mem n =
     (mem mod maxAlign = 0 \<and> (\<forall>b \<in> set (blocks a). region (mem, n) \<inter> region b = {}))"

text \<open>
  The bytes that \<open>allocateSlow\<close> asks the system for: a big block has room for the request and its own header only, a
  normal one is made as big as \<open>goodMallocSize\<close> says.
\<close>

definition rounded :: "nat \<Rightarrow> nat" where
  "rounded n = (n + 15) div 16 * 16"

definition asked :: "(nat \<Rightarrow> nat) \<Rightarrow> arena \<Rightarrow> nat \<Rightarrow> nat" where
  "asked good a m = (if minBlockSize a < m then blockOverhead + m else good (blockOverhead + minBlockSize a))"

definition good_malloc :: "(nat \<Rightarrow> nat) \<Rightarrow> bool" where
  "good_malloc good = (\<forall>n. n \<le> good n \<and> (n mod maxAlign = 0 \<longrightarrow> good n mod maxAlign = 0))"

text \<open>
  The invariant relates the arena to the list \<open>rs\<close> of regions handed out: they lie in
  blocks, apart from each other and from the free tail of the current block.
\<close>

definition in_block :: "arena \<Rightarrow> nat set \<Rightarrow> bool" where
  "in_block a R = (R = {} \<or> (\<exists>b \<in> set (blocks a). R \<subseteq> region b))"

definition arena_inv :: "arena \<Rightarrow> (nat \<times> nat) list \<Rightarrow> bool" where
  "arena_inv a rs =
     (ptr a \<le> end_ptr a \<and> ptr a mod maxAlign = 0 \<and>
      in_block a {ptr a ..< end_ptr a} \<and>
      (\<forall>r \<in> set rs. in_block a (region r) \<and> fst r mod maxAlign = 0 \<and>
         region r \<inter> {ptr a ..< end_ptr a} = {}) \<and>
      (\<forall>i < length rs. \<forall>j < i. region (rs ! i) \<inter> region (rs ! j) = {}))"

lemma roundUp_InrD:
  assumes "roundUp n = Inr m"
  shows "n \<le> m" and "m mod maxAlign = 0" and "m < n + maxAlign"
    and "m = (n + 15) div 16 * 16"
proof -
  have m: "m = n + 15 - (n + 15) mod 16"
    using assms by (auto simp: roundUp_def checked_add_def maxAlign_def split: if_splits)
  then show "m = (n + 15) div 16 * 16" by (metis minus_mod_eq_div_mult)
  then show "n \<le> m" "m mod maxAlign = 0" "m < n + maxAlign" by (auto simp: maxAlign_def)
qed

lemma in_block_mono: "in_block a R \<Longrightarrow> set (blocks a) \<subseteq> set (blocks a') \<Longrightarrow> in_block a' R"
  by (auto simp: in_block_def)

lemma in_block_sub: "in_block a R \<Longrightarrow> S \<subseteq> R \<Longrightarrow> in_block a S"
  by (auto simp: in_block_def)

lemma in_block_disjoint:
  assumes "in_block a R" and "fresh_block a mem n" and "S \<subseteq> region (mem, n)"
  shows "R \<inter> S = {}"
  using assms unfolding in_block_def fresh_block_def by blast

text \<open>How the list of regions grows.\<close>

lemma all_pairs_snoc:
  assumes "\<forall>i < length rs. \<forall>j < i. region (rs ! i) \<inter> region (rs ! j) = {}"
    and "\<forall>r \<in> set rs. region x \<inter> region r = {}"
  shows "\<forall>i < length (rs @ [x]). \<forall>j < i. region ((rs @ [x]) ! i) \<inter> region ((rs @ [x]) ! j) = {}"
  using assms by (auto simp: nth_append less_Suc_eq)

lemma arena_inv_extend:
  assumes "arena_inv a rs"
    and "\<And>R. in_block a R \<Longrightarrow> in_block a' R"
    and "in_block a' (region x)" and "fst x mod maxAlign = 0"
    and "\<forall>r \<in> set rs. region x \<inter> region r = {}"
    and "ptr a' \<le> end_ptr a'" and "ptr a' mod maxAlign = 0"
    and "in_block a' {ptr a' ..< end_ptr a'}"
    and "\<forall>r \<in> set rs. region r \<inter> {ptr a' ..< end_ptr a'} = {}"
    and "region x \<inter> {ptr a' ..< end_ptr a'} = {}"
  shows "arena_inv a' (rs @ [x])"
proof -
  have "\<forall>i < length (rs @ [x]). \<forall>j < i. region ((rs @ [x]) ! i) \<inter> region ((rs @ [x]) ! j) = {}"
    by (rule all_pairs_snoc) (use assms in \<open>simp_all add: arena_inv_def\<close>)
  moreover have "in_block a' (region r) \<and> fst r mod maxAlign = 0 \<and>
      region r \<inter> {ptr a' ..< end_ptr a'} = {}" if "r \<in> set (rs @ [x])" for r
    using assms that unfolding arena_inv_def by auto
  ultimately show ?thesis
    using assms(6-8) unfolding arena_inv_def by simp
qed

lemma allocate_keeps_inv:
  assumes inv: "arena_inv a rs" and good: "good_malloc good"
    and alloc: "allocate good mem a n = Inr (p, a')"
    and m: "roundUp n = Inr m"
    and fresh: "end_ptr a - ptr a < m \<longrightarrow> fresh_block a mem (asked good a m)"
  shows "arena_inv a' (rs @ [(p, m)])"
proof (cases "m \<le> end_ptr a - ptr a")
  case True
  then have p: "p = ptr a" and a': "a' = a\<lparr>bytesUsed := bytesUsed a + m, ptr := ptr a + m\<rparr>"
    using alloc m by (auto simp: allocate_def Let_def)
  have sub: "region (p, m) \<subseteq> {ptr a ..< end_ptr a}" using True p by (auto simp: region_def)
  have blk: "set (blocks a') = set (blocks a)" by (simp add: a')
  have ib: "in_block a' R" if "in_block a R" for R using that blk by (simp add: in_block_def)
  have free: "in_block a {ptr a ..< end_ptr a}" using inv by (simp add: arena_inv_def)
  have ibs: "in_block a' R" if "R \<subseteq> {ptr a ..< end_ptr a}" for R
    using that ib [OF in_block_sub [OF free]] by blast
  have tail: "{ptr a' ..< end_ptr a'} \<subseteq> {ptr a ..< end_ptr a}" by (simp add: a')
  have away: "region r \<inter> {ptr a ..< end_ptr a} = {}" if "r \<in> set rs" for r
    using inv that by (simp add: arena_inv_def)
  show ?thesis
  proof (rule arena_inv_extend [OF inv ib])
    show "in_block a' (region (p, m))" by (rule ibs [OF sub])
    show "fst (p, m) mod maxAlign = 0" using inv p by (simp add: arena_inv_def)
    show "\<forall>r \<in> set rs. region (p, m) \<inter> region r = {}" using away sub by blast
    show "ptr a' \<le> end_ptr a'" using True inv by (auto simp: a' arena_inv_def)
    show "ptr a' mod maxAlign = 0"
      using inv roundUp_InrD(2) [OF m] by (simp add: a' arena_inv_def mod_add_eq [symmetric])
    show "in_block a' {ptr a' ..< end_ptr a'}" by (rule ibs [OF tail])
    show "\<forall>r \<in> set rs. region r \<inter> {ptr a' ..< end_ptr a'} = {}" using away tail by blast
    show "region (p, m) \<inter> {ptr a' ..< end_ptr a'} = {}" using p by (auto simp: a' region_def)
  qed
next
  case False
  let ?start = "mem + blockOverhead"
  have ge: "n \<le> good n" for n using good by (simp add: good_malloc_def)
  have fresh': "fresh_block a mem (asked good a m)" using fresh False by simp
  have al: "?start mod maxAlign = 0"
    using fresh' by (simp add: fresh_block_def blockOverhead_def maxAlign_def mod_add_eq [symmetric])
  obtain sz where sz: "p = ?start" "m \<le> sz" "set (blocks a') = insert (p, sz) (set (blocks a))"
      "minBlockSize a' = minBlockSize a"
      "region (p, sz) \<subseteq> region (mem, asked good a m)"
      "(ptr a' = ptr a \<and> end_ptr a' = end_ptr a) \<or> (ptr a' = p + m \<and> end_ptr a' = p + sz)"
  proof (cases "minBlockSize a < m")
    case True
    show thesis
      by (rule that [of m]) (use alloc m False True in \<open>auto simp: allocate_def allocateSlow_def
          Let_def region_def asked_def split: option.splits if_splits\<close>)
  next
    case ns: False
    let ?g = "good (blockOverhead + minBlockSize a)"
    have "m \<le> ?g - blockOverhead" using ns ge [of "blockOverhead + minBlockSize a"] by simp
    then show thesis
      using alloc m False ns
      by (intro that [of "?g - blockOverhead"]) (auto simp: allocate_def allocateSlow_def
          Let_def region_def asked_def split: option.splits if_splits)
  qed
  have ib: "in_block a' R" if "in_block a R" for R
    using that sz(3) by (auto simp: in_block_def)
  have new: "in_block a' R" if "R \<subseteq> region (p, sz)" for R
    using that sz(3) by (auto simp: in_block_def)
  have dis: "R \<inter> region (p, sz) = {}" if "in_block a R" for R
    using in_block_disjoint [OF that fresh' sz(5)] .
  have sub: "region (p, m) \<subseteq> region (p, sz)" using sz(2) by (auto simp: region_def)
  have free: "in_block a {ptr a ..< end_ptr a}" using inv by (simp add: arena_inv_def)
  have pm: "(p + m) mod maxAlign = 0"
    using al sz(1) roundUp_InrD(2) [OF m] by (metis add_0 mod_add_eq mod_0)
  have rs: "region r \<inter> region (p, sz) = {}" "in_block a' (region r)" "fst r mod maxAlign = 0"
      "region r \<inter> {ptr a ..< end_ptr a} = {}" if "r \<in> set rs" for r
    using inv that dis ib by (simp_all add: arena_inv_def)
  show ?thesis
  proof (rule arena_inv_extend [OF inv ib])
    show "in_block a' (region (p, m))" by (rule new [OF sub])
    show "fst (p, m) mod maxAlign = 0" using al sz(1) by simp
    show "\<forall>r \<in> set rs. region (p, m) \<inter> region r = {}" using rs sub by blast
    have sp: "{p + m ..< p + sz} \<subseteq> region (p, sz)" "region (p, m) \<inter> {p + m ..< p + sz} = {}"
      by (auto simp: region_def)
    show "ptr a' \<le> end_ptr a'" using sz(2,6) inv by (auto simp: arena_inv_def)
    show "ptr a' mod maxAlign = 0" using sz(6) inv pm by (auto simp: arena_inv_def)
    show "in_block a' {ptr a' ..< end_ptr a'}" using sz(6) ib [OF free] new [OF sp(1)] by auto
    show "\<forall>r \<in> set rs. region r \<inter> {ptr a' ..< end_ptr a'} = {}"
      using sz(6) rs sp(1) by (elim disjE) (fastforce, fastforce)
    show "region (p, m) \<inter> {ptr a' ..< end_ptr a'} = {}"
      using sz(6) dis [OF free] sub sp(2) by (elim disjE) (fastforce, simp)
  qed
qed

text \<open>
  C27. The arena never hands out overlapping memory. \<open>allocate\<close> keeps the
  invariant that every region it returned lies inside a block, is 16-byte aligned and
  overlaps neither another region nor the free tail, and the new region, of the request's
  size rounded up to 16, joins them. Of \<open>malloc\<close> only this is used: when it is called, the bytes it was asked for
  are aligned and apart from the blocks it gave before.
\<close>

theorem arena_allocate_sound:
  assumes "arena_inv a rs" and "good_malloc good"
    and "allocate good mem a n = Inr (p, a')"
    and "end_ptr a - ptr a < rounded n \<longrightarrow> fresh_block a mem (asked good a (rounded n))"
  shows "arena_inv a' (rs @ [(p, rounded n)])"
proof -
  obtain m where m: "roundUp n = Inr m"
    using assms(3) by (auto simp: allocate_def bindE_eq_Inr)
  then have eq: "m = rounded n" using roundUp_InrD by (simp add: rounded_def)
  show ?thesis using allocate_keeps_inv [OF assms(1-3) m] assms(4) by (simp add: eq)
qed

theorem arena_allocate_sound_witness:
  "arena_inv (new_arena 48 0) [] \<and>
   allocate (\<lambda>n. n) 1024 (new_arena 48 0) 20 = Inr (1040, \<lparr>minBlockSize = 48, sizeLimit = 0, blocks = [(1040, 48)], ptr = 1072,
     end_ptr = 1088, totalAllocatedSize = 64, bytesUsed = 32\<rparr>) \<and>
   arena_inv \<lparr>minBlockSize = 48, sizeLimit = 0, blocks = [(1040, 48)], ptr = 1072, end_ptr = 1088,
     totalAllocatedSize = 64, bytesUsed = 32\<rparr> [(1040, 32)]"
proof -
  let ?a = "\<lparr>minBlockSize = 48, sizeLimit = 0, blocks = [(1040, 48)], ptr = 1072, end_ptr = 1088,
     totalAllocatedSize = 64, bytesUsed = 32\<rparr>"
  have inv: "arena_inv (new_arena 48 0) []"
    by (simp add: arena_inv_def new_arena_def in_block_def)
  have run: "allocate (\<lambda>n. n) 1024 (new_arena 48 0) 20 = Inr (1040, ?a)"
    by (simp add: new_arena_def allocate_def allocateSlow_def roundUp_def checked_add_def size_max_def maxAlign_def
        blockOverhead_def)
  have "arena_inv ?a ([] @ [(1040, rounded 20)])"
    by (rule arena_allocate_sound [OF inv _ run]) (simp_all add: good_malloc_def fresh_block_def new_arena_def maxAlign_def)
  with inv run show ?thesis by (simp add: rounded_def)
qed

section \<open>The pool of arena pointers\<close>

text \<open>
  \<open>ArenaPoolAlloc\<close>: what the pool remembers about each block it requests. \<open>malloc\<close>
  takes the pointer the arena returns for it; the registry starts zero-initialised.
\<close>

record arena_pool =
  ptrStore :: "(nat \<times> nat) list"
  pool_index :: nat
  nextAvailPos :: nat

definition new_pool :: arena_pool where
  "new_pool = \<lparr>ptrStore = replicate 255 (0, 0), pool_index = 0, nextAvailPos = 1\<rparr>"

definition pool_malloc :: "arena_pool \<Rightarrow> nat \<times> nat \<Rightarrow> arena_pool res" where
  "pool_malloc P p =
     bindE (buf_set (ptrStore P) (pool_index P) p) (\<lambda>store.
       let P' = P\<lparr>ptrStore := store\<rparr>
       in if pool_index P' = nextAvailPos P'
          then Inr (P'\<lparr>pool_index := nextAvailPos P', nextAvailPos := nextAvailPos P' + 1\<rparr>)
          else Inr (P'\<lparr>pool_index := nextAvailPos P'\<rparr>))"

fun find_ptr :: "(nat \<times> nat) list \<Rightarrow> nat \<Rightarrow> nat" where
  "find_ptr [] p = 0"
| "find_ptr (x # xs) p = (if fst x = p then 0 else Suc (find_ptr xs p))"

definition pool_free :: "arena_pool \<Rightarrow> nat \<Rightarrow> arena_pool res" where
  "pool_free P p =
     (let loc = find_ptr (ptrStore P) p
      in bindE (buf_get (ptrStore P) loc) (\<lambda>_. Inr (P\<lparr>pool_index := loc\<rparr>)))"

lemma find_ptr_le: "find_ptr xs p \<le> length xs"
  by (induction xs) auto

lemma find_ptr_absent: "p \<notin> fst ` set xs \<Longrightarrow> find_ptr xs p = length xs"
  by (induction xs) auto

lemma find_ptr_present: "p \<in> fst ` set xs \<Longrightarrow> find_ptr xs p < length xs \<and> fst (xs ! find_ptr xs p) = p"
  by (induction xs) auto

text \<open>The registry after the blocks \<open>ps\<close>: block \<open>k\<close> (from 1) went to slot \<open>k div 2\<close>.\<close>

definition pool_slot :: "(nat \<times> nat) list \<Rightarrow> nat \<Rightarrow> nat \<times> nat" where
  "pool_slot ps j =
     (if 2 * j < length ps then ps ! (2 * j)
      else if 2 * j = length ps \<and> ps \<noteq> [] then last ps else (0, 0))"

definition pool_after :: "(nat \<times> nat) list \<Rightarrow> arena_pool" where
  "pool_after ps =
     \<lparr>ptrStore = map (pool_slot ps) [0 ..< 255], pool_index = (length ps + 1) div 2,
      nextAvailPos = length ps div 2 + 1\<rparr>"

lemma pool_slot_snoc:
  "pool_slot (ps @ [p]) j = (if j = (length ps + 1) div 2 then p else pool_slot ps j)"
  by (cases "ps = []") (auto simp: pool_slot_def nth_append)

lemma pool_malloc_after:
  assumes "length ps < 509"
  shows "pool_malloc (pool_after ps) p = Inr (pool_after (ps @ [p]))"
proof -
  have "(map (pool_slot ps) [0 ..< 255])[(length ps + 1) div 2 := p] =
      map (pool_slot (ps @ [p])) [0 ..< 255]"
    by (rule nth_equalityI) (auto simp: pool_slot_snoc nth_list_update simp del: upt.simps)
  moreover have "(length ps + 1) div 2 = length ps div 2 + 1 \<longleftrightarrow> odd (length ps)"
    by (auto elim: evenE oddE)
  moreover have "even (length ps) \<Longrightarrow> (length ps + 1) div 2 = length ps div 2"
    by (auto elim: evenE)
  ultimately show ?thesis
    using assms by (auto simp: pool_malloc_def pool_after_def Let_def simp del: upt.simps)
qed

lemma pool_after_Nil: "pool_after [] = new_pool"
  by (auto simp: pool_after_def new_pool_def pool_slot_def intro!: nth_equalityI simp del: upt.simps)

lemma pool_mallocs: "length ps \<le> 509 \<Longrightarrow> foldE pool_malloc new_pool ps = Inr (pool_after ps)"
proof (induction ps rule: rev_induct)
  case Nil
  then show ?case by (simp add: pool_after_Nil)
next
  case (snoc p ps)
  then show ?case by (simp add: foldE_append pool_malloc_after)
qed

lemma pool_slot_lost:
  assumes "distinct (map fst ps)" and "0 \<notin> fst ` set ps" and "0 < j" and "2 * j < length ps"
  shows "fst (pool_slot ps i) \<noteq> fst (ps ! (2 * j - 1))"
proof -
  have other: "fst (ps ! a) \<noteq> fst (ps ! (2 * j - 1))" if "a < length ps" "a \<noteq> 2 * j - 1" for a
    using assms(1,4) that nth_eq_iff_index_eq [of "map fst ps" a "2 * j - 1"] by auto
  have nz: "fst (ps ! (2 * j - 1)) \<noteq> 0"
    using assms(2,4) by (metis image_eqI less_imp_diff_less nth_mem)
  consider (a) "2 * i < length ps" | (b) "2 * i = length ps" | (c) "length ps < 2 * i" by linarith
  then show ?thesis
  proof cases
    case a
    then show ?thesis using other [of "2 * i"] assms(3) by (simp add: pool_slot_def) presburger
  next
    case b
    then have "last ps = ps ! (length ps - 1)" using assms(4) by (intro last_conv_nth) auto
    then show ?thesis using b other [of "length ps - 1"] assms(3,4) by (auto simp: pool_slot_def)
  next
    case c
    then show ?thesis using nz by (simp add: pool_slot_def)
  qed
qed

text \<open>
  C33. The pool registry forgets every other block. After \<open>malloc\<close> handed out the
  blocks \<open>ps\<close> (at most 509), the entry of each block of even number but the last has been
  overwritten by its successor's, and giving such a block back with \<open>free\<close> finds no entry
  and reads through the end iterator of \<open>ptrStore\<close>.
\<close>

theorem pool_free_of_lost_block:
  assumes "length ps \<le> 509" and "distinct (map fst ps)" and "0 \<notin> fst ` set ps"
    and "0 < j" and "2 * j < length ps"
  shows "bindE (foldE pool_malloc new_pool ps) (\<lambda>P. pool_free P (fst (ps ! (2 * j - 1)))) =
    Inl OutOfBounds"
proof -
  let ?p = "fst (ps ! (2 * j - 1))"
  have "?p \<notin> fst ` set (map (pool_slot ps) [0 ..< 255])"
    using pool_slot_lost [OF assms(2-5)] by (auto simp: image_iff simp del: upt.simps) metis
  from find_ptr_absent [OF this] show ?thesis
    using assms(1) by (simp add: pool_mallocs pool_free_def pool_after_def Let_def del: upt.simps)
qed

theorem pool_free_of_lost_block_witness:
  "bindE (foldE pool_malloc new_pool [(16, 8), (32, 8), (48, 8)]) (\<lambda>P. pool_free P 32) =
    Inl OutOfBounds"
  using pool_free_of_lost_block [where ps = "[(16, 8), (32, 8), (48, 8)]" and j = 1] by simp

text \<open>
  The registry has room for 509 requests: that many calls of \<open>malloc\<close> all
  succeed, and one more, with no \<open>free\<close> between them, stores past the end of
  \<open>ptrStore\<close>.
\<close>

theorem pool_capacity:
  assumes "length ps = 509"
  shows "\<exists>P. foldE pool_malloc new_pool ps = Inr P \<and> length (ptrStore P) = 255 \<and>
    (\<forall>p. pool_malloc P p = Inl OutOfBounds)"
proof -
  have "foldE pool_malloc new_pool ps = Inr (pool_after ps)" using assms by (simp add: pool_mallocs)
  moreover have "length (ptrStore (pool_after ps)) = 255" by (simp add: pool_after_def del: upt.simps)
  moreover have "\<forall>p. pool_malloc (pool_after ps) p = Inl OutOfBounds"
    using assms by (simp add: pool_malloc_def pool_after_def del: upt.simps)
  ultimately show ?thesis by blast
qed

theorem pool_capacity_witness:
  "\<exists>P. foldE pool_malloc new_pool (replicate 509 (16, 8)) = Inr P \<and> length (ptrStore P) = 255 \<and>
    (\<forall>p. pool_malloc P p = Inl OutOfBounds)"
  by (rule pool_capacity) (rule length_replicate)

end
