(* ===== verification/CStrings.thy ===== *)
theory CStrings
  imports Prelude
begin

text \<open>
  The string utilities of the configurator, on raw storage with every access checked:
  \<open>src/src/constexpr_strcpy.hpp\<close> (the two bounded copies and \<open>strcpyEnum\<close>),
  \<open>src/src/extract_enum_type.hpp\<close>, \<open>src/src/constexpr_trimspaces.hpp\<close> and
  \<open>src/src/constexpr_stoi.hpp\<close>. A \<open>const char*\<close> is the storage it points to, a
  string in it ends at the first NUL.
\<close>

section \<open>strcpy\<close>

text \<open>The loop shared by both overloads; it returns the final index and storage.\<close>

function copy_loop :: "char list \<Rightarrow> char list \<Rightarrow> nat \<Rightarrow> nat \<Rightarrow> (nat \<times> char list) res" where
  "copy_loop src dst N i =
     bindE (buf_get src i) (\<lambda>c.
       if c \<noteq> NUL \<and> i < N
       then bindE (buf_set dst i c) (\<lambda>dst'. copy_loop src dst' N (i + 1))
       else Inr (i, dst))"
  by pat_completeness auto
termination
  by (relation "measure (\<lambda>(src, dst, N, i). N - i)") auto

declare copy_loop.simps [simp del]

text \<open>
  \<open>strcpy(src, dst, N)\<close>: after the loop a trailing right angle bracket is dropped, then
  the terminator is written. With \<open>i = 0\<close> the expression \<open>dst[i-1]\<close> reads before
  the storage.
\<close>

definition cpp_strcpy :: "char list \<Rightarrow> char list \<Rightarrow> nat \<Rightarrow> char list res" where
  "cpp_strcpy src dst N =
     bindE (copy_loop src dst N 0) (\<lambda>(i, d).
       bindE (if i = 0 then Inl OutOfBounds else buf_get d (i - 1)) (\<lambda>c.
         bindE (if c = CHR ''>'' then buf_set d (i - 1) NUL else Inr d) (\<lambda>d'.
           buf_set d' i NUL)))"

text \<open>The overload that copies through a pointer to the destination.\<close>

definition cpp_strcpy_ptr :: "char list \<Rightarrow> char list \<Rightarrow> nat \<Rightarrow> char list res" where
  "cpp_strcpy_ptr src dst N = bindE (copy_loop src dst N 0) (\<lambda>(i, d). buf_set d i NUL)"

section \<open>extractEnum and strcpyEnum\<close>

definition npos :: nat where
  "npos = 2 ^ 64 - 1"

fun find_first_of_from :: "string \<Rightarrow> string \<Rightarrow> nat \<Rightarrow> nat" where
  "find_first_of_from [] cs k = npos"
| "find_first_of_from (c # s) cs k = (if c \<in> set cs then k else find_first_of_from s cs (Suc k))"

definition find_first_of :: "string \<Rightarrow> string \<Rightarrow> nat" where
  "find_first_of s cs = find_first_of_from s cs 0"

text \<open>
  \<open>src.substr(left + 1, right - left - 1)\<close> on \<open>std::size_t\<close>: the view is an offset
  into \<open>src\<close> and a length; an offset past the end throws.
\<close>

definition extractEnum :: "string \<Rightarrow> (nat \<times> nat) res" where
  "extractEnum src =
     (let left = find_first_of src ''<'';
          right = find_first_of src ''>'';
          off = (left + 1) mod 2 ^ 64;
          n = (right + 2 * 2 ^ 64 - left - 1) mod 2 ^ 64
      in if length src < off then Inl Fatal
         else Inr (off, min n (length src - off)))"

text \<open>
  \<open>data()\<close> of the view is a pointer into the storage of \<open>src\<close>; the length of the
  view is not used by the copy.
\<close>

definition strcpyEnum :: "char list \<Rightarrow> char list \<Rightarrow> nat \<Rightarrow> char list res" where
  "strcpyEnum src dst N =
     (if find_first_of (cstr src) ''enumeration<'' \<noteq> npos
      then bindE (extractEnum (cstr src)) (\<lambda>(off, len). cpp_strcpy (drop off src) dst N)
      else cpp_strcpy src dst N)"

section \<open>removeWhiteSpaces\<close>

definition SPACE :: char where
  "SPACE = CHR '' ''"

definition TAB :: char where
  "TAB = CHR 0x09"

text \<open>
  The in-place version: source and destination are the same storage. The test is the
  disjunction of the code.
\<close>

function rws_loop :: "char list \<Rightarrow> nat \<Rightarrow> nat \<Rightarrow> char list res" where
  "rws_loop b i j =
     bindE (buf_get b i) (\<lambda>c.
       if c = NUL then Inr b
       else if c \<noteq> SPACE \<or> c \<noteq> TAB
       then bindE (buf_set b j c) (\<lambda>b'. rws_loop b' (i + 1) (j + 1))
       else rws_loop b (i + 1) j)"
  by pat_completeness auto
termination
  by (relation "measure (\<lambda>(b, i, j). length b - i)")
    (auto simp: buf_get_def buf_set_def split: if_splits)

declare rws_loop.simps [simp del]

definition removeWhiteSpaces :: "char list \<Rightarrow> char list res" where
  "removeWhiteSpaces val = rws_loop val 0 0"

text \<open>The array version visits all \<open>N\<close> elements and fills a zeroed array.\<close>

fun rws_array_loop :: "char list \<Rightarrow> char list \<Rightarrow> nat \<Rightarrow> char list" where
  "rws_array_loop [] res i = res"
| "rws_array_loop (c # s) res i =
     (if c \<noteq> SPACE \<or> c \<noteq> TAB then rws_array_loop s (res[i := c]) (i + 1)
      else rws_array_loop s res i)"

definition removeWhiteSpaces_array :: "char list \<Rightarrow> char list" where
  "removeWhiteSpaces_array s = rws_array_loop s (replicate (length s) NUL) 0"

section \<open>stoi\<close>

text \<open>
  Digits are accumulated in an \<open>int\<close>, whose overflow has no defined result; any other
  character makes the result 0.
\<close>

definition is_digit :: "char \<Rightarrow> bool" where
  "is_digit c = (48 \<le> (of_char c :: nat) \<and> (of_char c :: nat) \<le> 57)"

definition digit_val :: "char \<Rightarrow> int" where
  "digit_val c = of_char c - 48"

fun stoi_impl :: "string \<Rightarrow> int \<Rightarrow> int res" where
  "stoi_impl [] v = Inr v"
| "stoi_impl (c # s) v =
     (if is_digit c
      then (if digit_val c + v * 10 < 2 ^ 31 then stoi_impl s (digit_val c + v * 10)
            else Inl Fatal)
      else Inr 0)"

definition stoi :: "string \<Rightarrow> int res" where
  "stoi s = stoi_impl s 0"

section \<open>Lemmas\<close>

lemma buf_get_src:
  "i \<le> length s \<Longrightarrow> buf_get (s @ NUL # r) i = Inr (if i < length s then s ! i else NUL)"
  by (auto simp: buf_get_def nth_append)

lemma nul_free_nth: "nul_free s \<Longrightarrow> i < length s \<Longrightarrow> s ! i \<noteq> NUL"
  by (auto simp: nul_free_def list_all_length)

lemma nul_free_take [simp]: "nul_free s \<Longrightarrow> nul_free (take n s)"
  by (metis append_take_drop_id nul_free_simps(3))

lemma nul_free_drop [simp]: "nul_free s \<Longrightarrow> nul_free (drop n s)"
  by (metis append_take_drop_id nul_free_simps(3))

lemma nul_free_butlast [simp]: "nul_free s \<Longrightarrow> nul_free (butlast s)"
  by (simp add: butlast_conv_take)

lemma copy_loop_step:
  assumes "nul_free s" and "i < length s" and "i < N" and "i < length dst"
  shows "copy_loop (s @ NUL # r) dst N i = copy_loop (s @ NUL # r) (dst[i := s ! i]) N (i + 1)"
  using assms by (subst copy_loop.simps) (simp add: nul_free_nth nth_append)

lemma copy_loop_copies:
  assumes "nul_free s" and "m = min N (length s)" and "m \<le> length dst" and "i \<le> m"
  shows "copy_loop (s @ NUL # r) dst N i = Inr (m, take i dst @ drop i (take m s) @ drop m dst)"
  using assms
proof (induction "m - i" arbitrary: i dst)
  case 0
  from "0.hyps" "0.prems"(4) have i: "i = m" by simp
  have "i = length s \<or> (i = N \<and> i < length s)" using 0 by auto
  then show ?case
    using 0 i by (subst copy_loop.simps) (auto simp: buf_get_src)
next
  case (Suc k)
  then have i: "i < m" "i < length s" "i < N" "i < length dst" by auto
  have "copy_loop (s @ NUL # r) dst N i = copy_loop (s @ NUL # r) (dst[i := s ! i]) N (i + 1)"
    using i Suc.prems(1) by (intro copy_loop_step) simp_all
  also have "\<dots> = Inr (m, take (i + 1) (dst[i := s ! i]) @ drop (i + 1) (take m s)
      @ drop m (dst[i := s ! i]))"
    using Suc.hyps(2) Suc.prems i by (intro Suc.hyps(1)) simp_all
  also have "take (i + 1) (dst[i := s ! i]) = take i dst @ [s ! i]"
    using i by (simp add: take_update_Suc)
  also have "drop i (take m s) = s ! i # drop (i + 1) (take m s)"
    using i by (metis Cons_nth_drop_Suc Suc_eq_plus1 length_take min_less_iff_conj nth_take)
  ultimately show ?case using i by simp
qed

lemma copy_loop_overflows:
  assumes "nul_free s" and "length dst < min N (length s)" and "i \<le> length dst"
  shows "copy_loop (s @ NUL # r) dst N i = Inl OutOfBounds"
  using assms
proof (induction "length dst - i" arbitrary: i dst)
  case 0
  then show ?case
    by (subst copy_loop.simps) (auto simp: nth_append nul_free_nth)
next
  case (Suc k)
  then have i: "i < length dst" "i < N" "i < length s" by auto
  have "copy_loop (s @ NUL # r) dst N i = copy_loop (s @ NUL # r) (dst[i := s ! i]) N (i + 1)"
    using i Suc.prems(1) by (intro copy_loop_step) simp_all
  also have "\<dots> = Inl OutOfBounds"
    using Suc.hyps(2) Suc.prems i by (intro Suc.hyps(1)) simp_all
  finally show ?case .
qed

text \<open>The content a copy leaves: the copied bytes, less one trailing right angle bracket.\<close>

definition strip_angle :: "string \<Rightarrow> string" where
  "strip_angle s = (if s \<noteq> [] \<and> last s = CHR ''>'' then butlast s else s)"

lemma strip_angle_nul_free [simp]: "nul_free s \<Longrightarrow> nul_free (strip_angle s)"
  by (simp add: strip_angle_def)

lemma strip_angle_plain: "CHR ''>'' \<notin> set s \<Longrightarrow> strip_angle s = s"
  by (metis last_in_set strip_angle_def)

lemma strip_angle_close [simp]: "strip_angle (s @ [CHR ''>'']) = s"
  by (simp add: strip_angle_def)

lemma cpp_strcpy_ok:
  assumes "nul_free s" and "m = min N (length s)" and "0 < m" and "m < length dst"
  obtains t where "cpp_strcpy (s @ NUL # r) dst N = Inr (strip_angle (take m s) @ NUL # t)"
    and "length (strip_angle (take m s) @ NUL # t) = length dst"
proof -
  let ?d = "take m s @ drop m dst"
  have l: "length ?d = length dst" and m: "m \<le> length s" using assms by auto
  have lp: "copy_loop (s @ NUL # r) dst N 0 = Inr (m, ?d)"
    using copy_loop_copies [of s m N dst 0] assms by simp
  have ne: "take m s \<noteq> []" using assms(3) m by auto
  have g: "?d ! (m - 1) = last (take m s)"
    using assms(3) m by (simp add: nth_append last_conv_nth [OF ne])
  obtain x t where t: "drop m dst = x # t" using assms(4) by (metis Cons_nth_drop_Suc)
  show thesis
  proof (cases "last (take m s) = CHR ''>''")
    case True
    have b: "take m s = butlast (take m s) @ [CHR ''>'']"
      using True ne by (metis append_butlast_last_id)
    have lb: "length (butlast (take m s)) = m - 1" using m by simp
    have "?d[m - 1 := NUL] = butlast (take m s) @ NUL # drop m dst"
      by (subst b, subst append_assoc, simp only: append_Cons append_Nil list_update_append_mid [OF lb])
    moreover have "((butlast (take m s) @ [NUL]) @ x # t)[m := NUL]
        = (butlast (take m s) @ [NUL]) @ NUL # t"
      using lb assms(3) by (intro list_update_append_mid) simp
    then have "(butlast (take m s) @ NUL # drop m dst)[m := NUL] = butlast (take m s) @ NUL # NUL # t"
      by (simp add: t)
    ultimately have "cpp_strcpy (s @ NUL # r) dst N = Inr (strip_angle (take m s) @ NUL # NUL # t)"
      using lp g True ne assms(3,4) l by (simp add: cpp_strcpy_def strip_angle_def)
    moreover have "length (strip_angle (take m s) @ NUL # NUL # t) = length dst"
      using True ne lb t assms(3,4) by (simp add: strip_angle_def) (metis (no_types)
        Suc_diff_Suc Suc_pred add_Suc_right diff_add_inverse length_Cons length_drop
        le_add_diff_inverse less_imp_le_nat)
    ultimately show thesis using that by blast
  next
    case False
    have "?d[m := NUL] = take m s @ NUL # t"
      using m t by (simp add: list_update_append)
    then have "cpp_strcpy (s @ NUL # r) dst N = Inr (strip_angle (take m s) @ NUL # t)"
      using lp g False assms(3,4) l by (simp add: cpp_strcpy_def strip_angle_def)
    moreover have "length (strip_angle (take m s) @ NUL # t) = length dst"
      using False t l by (simp add: strip_angle_def)
    ultimately show thesis using that by blast
  qed
qed

lemma cpp_strcpy_fails:
  assumes "nul_free s" and "m = min N (length s)" and "m = 0 \<or> length dst \<le> m"
  shows "cpp_strcpy (s @ NUL # r) dst N = Inl OutOfBounds"
proof (cases "length dst < m")
  case True
  then show ?thesis
    using copy_loop_overflows [of s dst N 0] assms(1,2) by (simp add: cpp_strcpy_def)
next
  case False
  have lp: "copy_loop (s @ NUL # r) dst N 0 = Inr (m, take m s @ drop m dst)"
    using copy_loop_copies [of s m N dst 0] assms False by simp
  show ?thesis
  proof (cases "m = 0")
    case True
    then show ?thesis using lp by (simp add: cpp_strcpy_def)
  next
    case m: False
    then have "length dst = m" using assms(3) False by simp
    moreover have "m \<le> length s" using assms(2) by simp
    ultimately show ?thesis using lp m
      by (auto simp: cpp_strcpy_def buf_set_def)
  qed
qed

text \<open>Searching for a character of a set.\<close>

lemma find_first_of_from_none:
  "set s \<inter> set cs = {} \<Longrightarrow> find_first_of_from s cs k = npos"
  by (induction s arbitrary: k) auto

lemma find_first_of_from_hit:
  "set p \<inter> set cs = {} \<Longrightarrow> c \<in> set cs \<Longrightarrow> find_first_of_from (p @ c # q) cs k = k + length p"
  by (induction p arbitrary: k) auto

lemma find_first_of_from_found:
  "set s \<inter> set cs \<noteq> {} \<Longrightarrow> k + length s \<le> npos \<Longrightarrow> find_first_of_from s cs k \<noteq> npos"
proof (induction s arbitrary: k)
  case (Cons c s)
  then show ?case using Cons.IH [of "Suc k"] by (cases "c \<in> set cs") auto
qed simp

lemma extractEnum_wrapped:
  assumes "CHR ''<'' \<notin> set p" and "CHR ''>'' \<notin> set p" and "CHR ''>'' \<notin> set s"
    and "length (p @ CHR ''<'' # s @ CHR ''>'' # q) < npos"
  shows "extractEnum (p @ CHR ''<'' # s @ CHR ''>'' # q) = Inr (length p + 1, length s)"
proof -
  let ?e = "p @ CHR ''<'' # s @ CHR ''>'' # q"
  have l: "find_first_of ?e ''<'' = length p"
    using assms(1) by (simp add: find_first_of_def find_first_of_from_hit)
  have "?e = (p @ CHR ''<'' # s) @ CHR ''>'' # q" by simp
  then have r: "find_first_of ?e ''>'' = length p + 1 + length s"
    using assms(2,3) find_first_of_from_hit [of "p @ CHR ''<'' # s" "''>''" "CHR ''>''" q 0]
    by (simp add: find_first_of_def)
  have off: "(length p + 1) mod 2 ^ 64 = length p + 1"
    using assms(4) by (simp add: npos_def)
  have "length p + 1 + length s + 2 * 2 ^ 64 - length p - 1 = length s + 2 * 2 ^ 64" by simp
  moreover have "(length s + 2 * 2 ^ 64) mod 2 ^ 64 = length s"
    using mod_mult_self1 [of "length s" 2 "2 ^ 64"] assms(4) by (simp add: npos_def)
  ultimately show ?thesis
    by (simp only: extractEnum_def Let_def l r off) simp
qed

lemma extractEnum_plain:
  assumes "CHR ''<'' \<notin> set s" and "CHR ''>'' \<notin> set s" and "length s \<le> npos"
  shows "extractEnum s = Inr (0, length s)"
proof -
  have "find_first_of s ''<'' = npos" "find_first_of s ''>'' = npos"
    using assms by (simp_all add: find_first_of_def find_first_of_from_none)
  then show ?thesis
    using assms(3) by (simp add: extractEnum_def npos_def)
qed

text \<open>The white-space loop copies every character onto itself.\<close>

lemma rws_loop_identity:
  "nul_free s \<Longrightarrow> i \<le> length s \<Longrightarrow> rws_loop (s @ NUL # r) i i = Inr (s @ NUL # r)"
proof (induction "length s - i" arbitrary: i)
  case 0
  then show ?case by (subst rws_loop.simps) (simp add: nth_append)
next
  case (Suc k)
  then have i: "i < length s" by simp
  have "(s @ NUL # r)[i := s ! i] = s @ NUL # r"
    using i by (simp add: list_update_append)
  moreover have "rws_loop (s @ NUL # r) (i + 1) (i + 1) = Inr (s @ NUL # r)"
    using Suc by simp
  ultimately show ?case
    using i Suc.prems(1)
    by (subst rws_loop.simps) (auto simp: nth_append nul_free_nth SPACE_def TAB_def)
qed

lemma rws_array_loop_identity:
  "length pre = i \<Longrightarrow> rws_array_loop s (pre @ replicate (length s) NUL) i = pre @ s"
proof (induction s arbitrary: pre i)
  case (Cons c s)
  have "(pre @ replicate (length (c # s)) NUL)[i := c] = (pre @ [c]) @ replicate (length s) NUL"
    using Cons.prems by (simp add: list_update_append_mid)
  then show ?case using Cons.prems Cons.IH [of "pre @ [c]" "i + 1"]
    by (auto simp: SPACE_def TAB_def)
qed simp

lemma removeWhiteSpaces_array_identity: "removeWhiteSpaces_array s = s"
  using rws_array_loop_identity [of "[]" 0 s] by (simp add: removeWhiteSpaces_array_def)

text \<open>The decimal value of a digit string, and the accumulator of the loop.\<close>

definition dec_val :: "string \<Rightarrow> int \<Rightarrow> int" where
  "dec_val s v = foldl (\<lambda>v c. digit_val c + v * 10) v s"

lemma digit_val_nonneg: "is_digit c \<Longrightarrow> 0 \<le> digit_val c"
  by (auto simp: is_digit_def digit_val_def) (metis of_nat_mono of_nat_numeral of_nat_of_char)

lemma dec_val_ge:
  "list_all is_digit s \<Longrightarrow> 0 \<le> v \<Longrightarrow> v \<le> dec_val s v"
proof (induction s arbitrary: v)
  case (Cons c s)
  then have "0 \<le> digit_val c + v * 10" "v \<le> digit_val c + v * 10"
    using digit_val_nonneg [of c] by simp_all
  with Cons show ?case unfolding dec_val_def by (simp, meson order_trans)
qed (simp add: dec_val_def)

lemma stoi_impl_digits:
  "list_all is_digit s \<Longrightarrow> 0 \<le> v \<Longrightarrow> dec_val s v < 2 ^ 31 \<Longrightarrow> stoi_impl s v = Inr (dec_val s v)"
proof (induction s arbitrary: v)
  case (Cons c s)
  let ?v = "digit_val c + v * 10"
  have v: "0 \<le> ?v" using Cons.prems digit_val_nonneg [of c] by simp
  have d: "dec_val (c # s) v = dec_val s ?v" by (simp add: dec_val_def)
  have "?v < 2 ^ 31" using dec_val_ge [of s ?v] Cons.prems v d by simp
  then show ?case using Cons.prems Cons.IH [OF _ v] d by simp
qed (simp add: dec_val_def)

lemma strcpyEnum_plain:
  assumes "nul_free s" and "s \<noteq> []" and "CHR ''<'' \<notin> set s" and "CHR ''>'' \<notin> set s"
    and "length s \<le> npos" and "length s < N" and "length s < length dst"
  shows "\<exists>d. strcpyEnum (s @ NUL # r) dst N = Inr d \<and> cstr d = s"
proof -
  have m: "length s = min N (length s)" using assms(6) by simp
  have "0 < length s" using assms(2) by simp
  moreover have "strip_angle (take (length s) s) = s" using assms(4) by (simp add: strip_angle_plain)
  ultimately obtain t where t: "cpp_strcpy (s @ NUL # r) dst N = Inr (s @ NUL # t)"
    using cpp_strcpy_ok [OF assms(1) m, where dst = dst and r = r] assms(7) by metis
  have "extractEnum s = Inr (0, length s)" using assms(3-5) by (rule extractEnum_plain)
  then have "strcpyEnum (s @ NUL # r) dst N = Inr (s @ NUL # t)"
    using t assms(1) by (simp add: strcpyEnum_def)
  then show ?thesis using assms(1) by auto
qed

lemma strcpyEnum_wrapped:
  assumes "nul_free p" and "nul_free s" and "s \<noteq> []"
    and "CHR ''<'' \<notin> set p" and "CHR ''>'' \<notin> set p" and "CHR ''>'' \<notin> set s"
    and "length p + length s + 2 < npos" and "length s < N" and "length s + 1 < length dst"
  shows "\<exists>d. strcpyEnum (p @ ''<'' @ s @ ''>'' @ NUL # r) dst N = Inr d \<and> cstr d = s"
proof -
  let ?e = "p @ CHR ''<'' # s @ CHR ''>'' # []"
  let ?b = "p @ ''<'' @ s @ ''>'' @ NUL # r"
  have "nul_free ?e" using assms(1,2) by (simp add: NUL_def)
  then have c: "cstr (p @ CHR ''<'' # s @ CHR ''>'' # NUL # r) = ?e"
    using cstr_append_NUL [of ?e r] by simp
  have f: "find_first_of ?e ''enumeration<'' \<noteq> npos"
    using assms(7) find_first_of_from_found [of ?e "''enumeration<''" 0]
    by (simp add: find_first_of_def)
  have x: "extractEnum ?e = Inr (length p + 1, length s)"
    using extractEnum_wrapped [of p s "[]"] assms(4-7) by simp
  have dr: "drop (length p + 1) ?b = (s @ ''>'') @ NUL # r" by simp
  have nf: "nul_free (s @ ''>'')" using assms(2) by (simp add: NUL_def)
  have m: "take N (s @ ''>'') = s @ ''>''" "min N (length (s @ ''>'')) = length s + 1"
    using assms(8) by simp_all
  obtain t where "cpp_strcpy ((s @ ''>'') @ NUL # r) dst N = Inr (s @ NUL # t)"
    using cpp_strcpy_ok [OF nf m(2) [symmetric]] assms(9) by (metis Suc_eq_plus1 append.right_neutral
        length_append_singleton lessI order_refl strip_angle_close take_all zero_less_Suc)
  then have "strcpyEnum ?b dst N = Inr (s @ NUL # t)"
    using f x c by (simp add: strcpyEnum_def)
  then show ?thesis using assms(2) by auto
qed

section \<open>Properties\<close>

text \<open>
  The bounded copy is exact: it fails, by an access outside the destination, exactly
  when there is nothing to copy or the terminator does not fit behind the copied bytes;
  otherwise the destination keeps its size and holds the first \<open>N\<close> bytes of the source
  less one trailing right angle bracket.
\<close>

theorem strcpy_exact:
  assumes "nul_free s"
  shows "case cpp_strcpy (s @ NUL # r) dst N of
      Inl e \<Rightarrow> e = OutOfBounds \<and> (min N (length s) = 0 \<or> length dst \<le> min N (length s))
    | Inr d \<Rightarrow> 0 < min N (length s) \<and> min N (length s) < length dst \<and>
        length d = length dst \<and> cstr d = strip_angle (take N s)"
proof (cases "0 < min N (length s) \<and> min N (length s) < length dst")
  case True
  then obtain t where "cpp_strcpy (s @ NUL # r) dst N
        = Inr (strip_angle (take (min N (length s)) s) @ NUL # t)"
      "length (strip_angle (take (min N (length s)) s) @ NUL # t) = length dst"
    using cpp_strcpy_ok [OF assms refl] by blast
  moreover have "take (min N (length s)) s = take N s" by (simp add: min_def)
  ultimately show ?thesis using True assms by simp
next
  case False
  then have "min N (length s) = 0 \<or> length dst \<le> min N (length s)" by linarith
  from cpp_strcpy_fails [OF assms refl this] this show ?thesis by simp
qed

theorem strcpy_exact_witness:
  "nul_free ''VkFence>'' \<and>
   (case cpp_strcpy (''VkFence>'' @ NUL # []) (replicate 9 NUL) 20 of
      Inl e \<Rightarrow> e = OutOfBounds \<and> (min 20 (length ''VkFence>'') = 0 \<or>
        length (replicate 9 NUL) \<le> min 20 (length ''VkFence>''))
    | Inr d \<Rightarrow> 0 < min 20 (length ''VkFence>'') \<and> min 20 (length ''VkFence>'') < length (replicate 9 NUL) \<and>
        length d = length (replicate 9 NUL) \<and> cstr d = strip_angle (take 20 ''VkFence>''))"
proof -
  have h: "nul_free ''VkFence>''" by (simp add: NUL_def)
  show ?thesis using h strcpy_exact [OF h, where r = "[]" and dst = "replicate 9 NUL" and N = 20] by blast
qed

text \<open>
  \<open>strcpyEnum\<close> recovers the name of the wrapped type: from the spelling
  \<open>prefix<Name>\<close>, whose copy runs past the view to the end of the storage and relies on
  the copy to drop the right angle bracket, the destination holds \<open>Name\<close>.
\<close>

theorem strcpyEnum_unwraps:
  assumes "nul_free p" and "nul_free s" and "s \<noteq> []"
    and "CHR ''<'' \<notin> set p" and "CHR ''>'' \<notin> set p" and "CHR ''>'' \<notin> set s"
    and "length p + length s + 2 < npos" and "length s < N" and "length s + 1 < length dst"
  shows "\<exists>d. strcpyEnum (p @ ''<'' @ s @ ''>'' @ NUL # r) dst N = Inr d \<and> cstr d = s"
  using assms by (rule strcpyEnum_wrapped)

theorem strcpyEnum_unwraps_witness:
  "\<exists>d. strcpyEnum (''enumeration'' @ ''<'' @ ''VkCompareOp'' @ ''>'' @ NUL # []) (replicate 255 NUL) 255
      = Inr d \<and> cstr d = ''VkCompareOp''"
  by (rule strcpyEnum_unwraps) (simp_all add: NUL_def npos_def)

text \<open>
  \<open>removeWhiteSpaces\<close> removes nothing: its test, a disjunction of two inequalities,
  holds for every character, so both versions return their argument unchanged.
\<close>

theorem removeWhiteSpaces_keeps_all:
  assumes "nul_free s"
  shows "removeWhiteSpaces (s @ NUL # r) = Inr (s @ NUL # r) \<and> removeWhiteSpaces_array s = s"
  using rws_loop_identity [OF assms, of 0 r]
  by (simp add: removeWhiteSpaces_def removeWhiteSpaces_array_identity)

theorem removeWhiteSpaces_keeps_all_witness:
  "removeWhiteSpaces (''A | B'' @ NUL # []) = Inr (''A | B'' @ NUL # []) \<and>
   removeWhiteSpaces_array ''A | B'' = ''A | B''"
  by (rule removeWhiteSpaces_keeps_all) (simp add: NUL_def)

end
