(* ===== verification/ErrorState.thy ===== *)
theory ErrorState
  imports Prelude
begin

text \<open>
  \<open>src/src/ErrorState.hpp\<close>: the error word of the configurator. The sixteen-bit
  enumeration \<open>ProcessError\<close> is a set of flags; \<open>setError\<close> adds one, \<open>isError\<close>
  tests one. The locale \<open>error_sink\<close> is what the other components rely on when
  they report through \<open>errHandler(errState, flag)\<close>.
\<close>

section \<open>The flags\<close>

datatype process_error =
    SUCCESS
  | TYPE_MISSING_LIST
  | PROCESSING_OUT_OF_ORDER
  | FIELD_HASH_INVALID
  | ENUM_TYPE
  | STRUCT_META_MISSING
  | VALUE_MISMATCH_CONFIG
  | FILE_LOAD_ERR
  | FIELD_TYPE_MISMATCH_CONFIG
  | FIELD_LEFT_UNASSIGNED
  | ENUM_OPER_INVAL
  | NOT_ENUM_IN_MAP

fun error_code :: "process_error \<Rightarrow> 16 word" where
  "error_code SUCCESS = 0"
| "error_code TYPE_MISSING_LIST = 1"
| "error_code PROCESSING_OUT_OF_ORDER = 2"
| "error_code FIELD_HASH_INVALID = 4"
| "error_code ENUM_TYPE = 8"
| "error_code STRUCT_META_MISSING = 16"
| "error_code VALUE_MISMATCH_CONFIG = 32"
| "error_code FILE_LOAD_ERR = 64"
| "error_code FIELD_TYPE_MISMATCH_CONFIG = 128"
| "error_code FIELD_LEFT_UNASSIGNED = 256"
| "error_code ENUM_OPER_INVAL = 512"
| "error_code NOT_ENUM_IN_MAP = 1024"

section \<open>The state and its operations\<close>

record error_state =
  errorState :: "16 word"

definition new_error_state :: error_state where
  "new_error_state = \<lparr>errorState = error_code SUCCESS\<rparr>"

definition setError :: "error_state \<Rightarrow> process_error \<Rightarrow> error_state" where
  "setError e f = e\<lparr>errorState := errorState e OR error_code f\<rparr>"

definition isError :: "error_state \<Rightarrow> process_error \<Rightarrow> bool" where
  "isError e f = (errorState e AND error_code f \<noteq> 0)"

text \<open>The overload without argument, as written: it compares with \<open>SUCCESS\<close>.\<close>

definition isError_any :: "error_state \<Rightarrow> bool" where
  "isError_any e = (errorState e = error_code SUCCESS)"

definition setErrorHelper :: "error_state \<Rightarrow> process_error \<Rightarrow> error_state" where
  "setErrorHelper e f = setError e f"

section \<open>Facts about the flags\<close>

lemma error_code_disjoint:
  "error_code f AND error_code g = (if f = g then error_code f else 0)"
  by (cases f; cases g) simp_all

lemma error_code_eq_0: "error_code f = 0 \<longleftrightarrow> f = SUCCESS"
  by (cases f) simp_all

lemma word_or_and_zero:
  fixes x y z :: "'a::len word"
  shows "(x OR y) AND z = 0 \<longleftrightarrow> x AND z = 0 \<and> y AND z = 0"
  by (auto simp: bit_eq_iff bit_simps)

lemma isError_setError:
  "isError (setError e f) g \<longleftrightarrow> isError e g \<or> (f = g \<and> f \<noteq> SUCCESS)"
  by (auto simp: isError_def setError_def word_or_and_zero error_code_disjoint
      error_code_eq_0 split: if_splits)

lemma isError_new: "\<not> isError new_error_state f"
  by (simp add: isError_def new_error_state_def)

lemma setError_idem: "setError (setError e f) f = setError e f"
  by (simp add: setError_def or.assoc)

lemma setError_commute: "setError (setError e f) g = setError (setError e g) f"
  by (simp add: setError_def or.assoc or.left_commute or.commute)

section \<open>The reporting interface\<close>

locale error_sink =
  fixes report :: "'s \<Rightarrow> process_error \<Rightarrow> 's"
    and has :: "'s \<Rightarrow> process_error \<Rightarrow> bool"
  assumes has_report: "has (report s f) g \<longleftrightarrow> has s g \<or> (f = g \<and> f \<noteq> SUCCESS)"
begin

text \<open>Reporting never removes an error and adds exactly the reported one.\<close>

lemma report_sticky: "has s g \<Longrightarrow> has (report s f) g"
  by (simp add: has_report)

lemma report_adds: "f \<noteq> SUCCESS \<Longrightarrow> has (report s f) f"
  by (simp add: has_report)

lemma foldl_report:
  "has (foldl report s fs) g \<longleftrightarrow> has s g \<or> (g \<in> set fs \<and> g \<noteq> SUCCESS)"
  by (induction fs arbitrary: s) (auto simp: has_report)

end

interpretation es: error_sink setError isError
  by unfold_locales (rule isError_setError)

interpretation esh: error_sink setErrorHelper isError
  by unfold_locales (simp add: setErrorHelper_def isError_setError)

section \<open>Properties\<close>

text \<open>
  Reporting a list of errors in any order leaves exactly the old flags and the
  reported ones set: no report clears or sets a flag it does not name, so the
  configurator's error word is the set of all errors met since construction.
\<close>

theorem errors_accumulate:
  "isError (foldl setError new_error_state fs) g \<longleftrightarrow> g \<in> set fs \<and> g \<noteq> SUCCESS"
  by (simp add: es.foldl_report isError_new)

end
