(* ===== verification/EnumExpr.thy ===== *)
theory EnumExpr
  imports Arena CStrings ErrorState
begin

text \<open>
  Enumeration expressions. \<open>EnumBitOpSplitterBase\<close> and \<open>EnumBitOpSplitter\<close> of
  \<open>src/src\<close> split a field's text at \<open>|\<close> and \<open>&\<close>, translate each operand with
  a member function of \<open>FieldExtractor\<close>, and combine the results on a small stack. A
  \<open>char*\<close> is the storage from where it points to the end of its allocation, which the
  arena rounds up to 16 bytes (\<open>Arena.roundUp\<close>); the enumeration \<open>R\<close> is a word of
  some width, \<open>widen\<close> its conversion to \<open>int64_t\<close>. The member function
  \<open>oper\<close> gets the error state because it may report into it.
\<close>

section \<open>EnumBitOpSplitterBase\<close>

definition BITWISEOR :: char where
  "BITWISEOR = CHR ''|''"

definition BITWISEAND :: char where
  "BITWISEAND = CHR ''&''"

definition BITWISEOPS :: string where
  "BITWISEOPS = [BITWISEOR, BITWISEAND]"

text \<open>The stack codes of the operators, and their reading back from an \<open>int64_t\<close>.\<close>

datatype bitwise_op = BITWISE_OR | BITWISE_AND

fun bitwise_code :: "bitwise_op \<Rightarrow> 64 word" where
  "bitwise_code BITWISE_OR = - 3"
| "bitwise_code BITWISE_AND = - 5"

definition bitwise_of :: "64 word \<Rightarrow> bitwise_op option" where
  "bitwise_of w =
     (let b = ucast w :: 8 word
      in if b = - 3 then Some BITWISE_OR else if b = - 5 then Some BITWISE_AND else None)"

text \<open>
  \<open>findDelimCountEnums\<close>: how many of the two operator characters occur. The count and
  the copy of the value are made by the constructor; the copy is allocated with the length of
  the value, without its terminator.
\<close>

definition findDelimCountEnums :: "string \<Rightarrow> nat" where
  "findDelimCountEnums s = length (filter (\<lambda>c. c \<in> set s) BITWISEOPS)"

definition alloc_chars :: "nat \<Rightarrow> char list" where
  "alloc_chars n = replicate ((n + 15) div 16 * 16) NUL"

record splitter =
  coreVal :: "char list"
  delimCount :: nat
  strLen :: nat

definition EnumBitOpSplitterBase :: "char list \<Rightarrow> splitter res" where
  "EnumBitOpSplitterBase val =
     (let n = length (cstr val)
      in bindE (cpp_strcpy val (alloc_chars n) n) (\<lambda>core.
           bindE (removeWhiteSpaces core) (\<lambda>core'.
             Inr \<lparr>coreVal = core', delimCount = findDelimCountEnums (cstr val) + 1, strLen = n\<rparr>)))"

text \<open>
  \<open>setDelimEnums\<close>: each step copies the text up to and including the next operator, or
  the rest; \<open>strcspn\<close> is the C library's.
\<close>

definition strcspn :: "string \<Rightarrow> string \<Rightarrow> nat" where
  "strcspn s cs = length (takeWhile (\<lambda>c. c \<notin> set cs) s)"

definition next_delim_enum :: "char list \<Rightarrow> (char list \<times> char list) res" where
  "next_delim_enum copy =
     (let invalCharPos = strcspn (cstr copy) BITWISEOPS;
          len = length (cstr copy)
      in if invalCharPos \<noteq> len
         then bindE (cpp_strcpy copy (alloc_chars (invalCharPos + 1)) (invalCharPos + 1))
                (\<lambda>temp. Inr (temp, drop (invalCharPos + 1) copy))
         else bindE (cpp_strcpy copy (alloc_chars len) len)
                (\<lambda>temp. Inr (temp, drop len copy)))"

fun setDelimEnums :: "nat \<Rightarrow> char list \<Rightarrow> char list list res" where
  "setDelimEnums 0 copy = Inr []"
| "setDelimEnums (Suc n) copy =
     bindE (next_delim_enum copy) (\<lambda>(temp, copy').
       bindE (setDelimEnums n copy') (\<lambda>temps. Inr (temp # temps)))"

section \<open>EnumBitOpSplitter\<close>

type_synonym 'r operation = "string \<Rightarrow> error_state \<Rightarrow> ('r word \<times> error_state) res"

text \<open>\<open>std::strtok\<close> on a fresh string: null when only delimiters are left.\<close>

definition strtok :: "string \<Rightarrow> string \<Rightarrow> string option" where
  "strtok s cs =
     (let t = dropWhile (\<lambda>c. c \<in> set cs) s
      in if t = [] then None else Some (takeWhile (\<lambda>c. c \<notin> set cs) t))"

text \<open>
  The body of the loop of \<open>calcResultEnum\<close>: it reads the last character, which lies
  before the storage when the string is empty, and pushes the operand and the operator. A
  null token is read by the operation.
\<close>

definition push_operand ::
  "('r::len word \<Rightarrow> 64 word) \<Rightarrow> 'r operation \<Rightarrow> 64 word list \<times> error_state \<Rightarrow> string option
    \<Rightarrow> (64 word list \<times> error_state) res" where
  "push_operand widen oper st tok =
     (case tok of
        None \<Rightarrow> Inl NullDeref
      | Some t \<Rightarrow> bindE (oper t (snd st)) (\<lambda>(r, es). Inr (fst st @ [widen r], es)))"

definition calc_step ::
  "('r::len word \<Rightarrow> 64 word) \<Rightarrow> 'r operation \<Rightarrow> 64 word list \<times> error_state \<Rightarrow> char list
    \<Rightarrow> (64 word list \<times> error_state) res" where
  "calc_step widen oper st delimEnum =
     (let s = cstr delimEnum
      in if s = [] then Inl OutOfBounds
         else if last s = BITWISEOR
         then bindE (push_operand widen oper st (strtok s BITWISEOPS))
                (\<lambda>(stack, es). Inr (stack @ [bitwise_code BITWISE_OR], es))
         else if last s = BITWISEAND
         then bindE (push_operand widen oper st (strtok s BITWISEOPS))
                (\<lambda>(stack, es). Inr (stack @ [bitwise_code BITWISE_AND], es))
         else push_operand widen oper st (Some s))"

text \<open>
  \<open>getApplyEnum\<close>: with nothing on the stack it reports and returns the uninitialised
  accumulator, here \<open>junk\<close>; otherwise it combines the head with the result for the rest,
  which has been converted to \<open>R\<close> and back.
\<close>

fun getApplyEnum ::
  "64 word \<Rightarrow> ('r::len word \<Rightarrow> 64 word) \<Rightarrow> 64 word list \<Rightarrow> error_state \<Rightarrow> 'r word \<times> error_state" where
  "getApplyEnum junk widen [] es = (ucast junk, setErrorHelper es ENUM_OPER_INVAL)"
| "getApplyEnum junk widen [a] es = (ucast a, es)"
| "getApplyEnum junk widen (a # b # stack) es =
     (let (r, es') = getApplyEnum junk widen stack es
      in (case bitwise_of b of
            Some BITWISE_OR \<Rightarrow> ucast (a OR widen r)
          | Some BITWISE_AND \<Rightarrow> ucast (a AND widen r)
          | None \<Rightarrow> ucast a, es'))"

definition calcResultEnum ::
  "64 word \<Rightarrow> ('r::len word \<Rightarrow> 64 word) \<Rightarrow> 'r operation \<Rightarrow> char list list \<Rightarrow> error_state
    \<Rightarrow> ('r word \<times> error_state) res" where
  "calcResultEnum junk widen oper delimEnums es =
     bindE (foldE (calc_step widen oper) ([], es) delimEnums) (\<lambda>(stack, es').
       Inr (getApplyEnum junk widen stack es'))"

definition calculate ::
  "64 word \<Rightarrow> ('r::len word \<Rightarrow> 64 word) \<Rightarrow> 'r operation \<Rightarrow> splitter \<Rightarrow> error_state
    \<Rightarrow> ('r word \<times> error_state) res" where
  "calculate junk widen oper sp es =
     bindE (setDelimEnums (delimCount sp) (coreVal sp)) (\<lambda>delimEnums.
       calcResultEnum junk widen oper delimEnums es)"

text \<open>Construction and evaluation, as \<open>FieldExtractor\<close> uses them.\<close>

definition eval_enum ::
  "64 word \<Rightarrow> ('r::len word \<Rightarrow> 64 word) \<Rightarrow> 'r operation \<Rightarrow> char list \<Rightarrow> error_state
    \<Rightarrow> ('r word \<times> error_state) res" where
  "eval_enum junk widen oper val es =
     bindE (EnumBitOpSplitterBase val) (\<lambda>sp. calculate junk widen oper sp es)"

section \<open>Expressions\<close>

text \<open>
  An expression is a list of operands, each followed by its operator, and a last operand. An
  operand is a non-empty text with neither operator nor right angle bracket; \<open>room n\<close> says that an
  allocation of \<open>n\<close> bytes has a spare byte for the terminator.
\<close>

type_synonym enum_expr = "(string \<times> char) list"

definition operand :: "string \<Rightarrow> bool" where
  "operand n = (n \<noteq> [] \<and> nul_free n \<and> set n \<inter> {CHR ''|'', CHR ''&'', CHR ''>''} = {})"

definition room :: "nat \<Rightarrow> bool" where
  "room n = (n mod 16 \<noteq> 0)"

definition chunk :: "string \<times> char \<Rightarrow> bool" where
  "chunk q = (operand (fst q) \<and> snd q \<in> set BITWISEOPS \<and> room (length (fst q) + 1))"

fun render :: "enum_expr \<Rightarrow> string \<Rightarrow> string" where
  "render [] l = l"
| "render (q # qs) l = fst q @ snd q # render qs l"

text \<open>The value of an expression, read with the operators associating to the right.\<close>

definition combine :: "char \<Rightarrow> 'r::len word \<Rightarrow> 'r word \<Rightarrow> 'r word" where
  "combine c a b = (if c = BITWISEOR then a OR b else a AND b)"

fun enum_value ::
  "'r::len operation \<Rightarrow> enum_expr \<Rightarrow> string \<Rightarrow> error_state \<Rightarrow> ('r word \<times> error_state) res" where
  "enum_value oper [] l es = oper l es"
| "enum_value oper (q # qs) l es =
     bindE (oper (fst q) es) (\<lambda>(a, es1).
       bindE (enum_value oper qs l es1) (\<lambda>(b, es2). Inr (combine (snd q) a b, es2)))"

text \<open>The stack and the error state after some operands.\<close>

definition op_code :: "char \<Rightarrow> 64 word" where
  "op_code c = bitwise_code (if c = BITWISEOR then BITWISE_OR else BITWISE_AND)"

fun operand_stack ::
  "('r::len word \<Rightarrow> 64 word) \<Rightarrow> 'r operation \<Rightarrow> enum_expr \<Rightarrow> error_state
    \<Rightarrow> (64 word list \<times> error_state) res" where
  "operand_stack widen oper [] es = Inr ([], es)"
| "operand_stack widen oper (q # qs) es =
     bindE (oper (fst q) es) (\<lambda>(a, es1).
       bindE (operand_stack widen oper qs es1) (\<lambda>(st, es2).
         Inr (widen a # op_code (snd q) # st, es2)))"

lemma room_ok: "room n \<Longrightarrow> 0 < n \<and> n < length (alloc_chars n)"
  unfolding room_def alloc_chars_def by (cases "n = 0") (simp_all, presburger)

lemma operand_ops: "operand n \<Longrightarrow> set n \<inter> set BITWISEOPS = {}"
  by (auto simp: operand_def BITWISEOPS_def BITWISEOR_def BITWISEAND_def)

lemma operand_ne: "operand n \<Longrightarrow> n \<noteq> []"
  and operand_nul_free: "operand n \<Longrightarrow> nul_free n"
  by (simp_all add: operand_def)

lemma operand_last: "operand n \<Longrightarrow> last n \<noteq> CHR ''>''"
  using last_in_set [of n] by (fastforce simp: operand_def)

lemma op_char: "c \<in> set BITWISEOPS \<Longrightarrow> c \<noteq> NUL \<and> c \<noteq> CHR ''>''"
  by (auto simp: BITWISEOPS_def BITWISEOR_def BITWISEAND_def NUL_def)

lemma render_nul_free: "list_all chunk qs \<Longrightarrow> nul_free l \<Longrightarrow> nul_free (render qs l)"
  by (induction qs) (auto simp: chunk_def operand_nul_free op_char)

lemma render_last: "l \<noteq> [] \<Longrightarrow> render qs l \<noteq> [] \<and> last (render qs l) = last l"
  by (induction qs) auto

lemma copy_whole:
  assumes "nul_free s" and "room (length s)" and "last s \<noteq> CHR ''>''"
  shows "\<exists>u. cpp_strcpy (s @ NUL # t) (alloc_chars (length s)) (length s) = Inr (s @ NUL # u)"
proof -
  have m: "length s = min (length s) (length s)" by simp
  have sa: "strip_angle (take (length s) s) = s" using assms(3) by (simp add: strip_angle_def)
  show ?thesis
    using cpp_strcpy_ok [OF assms(1) m, where dst = "alloc_chars (length s)" and r = t]
      room_ok [OF assms(2)] unfolding sa by blast
qed

lemma next_delim_op:
  assumes q: "chunk q" and "nul_free s"
  shows "\<exists>u. next_delim_enum ((fst q @ snd q # s) @ NUL # t) =
    Inr ((fst q @ [snd q]) @ NUL # u, s @ NUL # t)"
proof -
  let ?n = "fst q" and ?c = "snd q"
  let ?p = "length ?n + 1"
  have nf: "nul_free (?n @ ?c # s)" using assms by (simp add: chunk_def operand_nul_free op_char)
  have tw: "takeWhile (\<lambda>c. c \<notin> set BITWISEOPS) (?n @ ?c # s) = ?n"
    using operand_ops [of ?n] q by (subst takeWhile_append2) (auto simp: chunk_def)
  have "cstr ((?n @ ?c # s) @ NUL # t) = ?n @ ?c # s" by (rule cstr_append_NUL [OF nf])
  moreover have "?p = min ?p (length (?n @ ?c # s))" by simp
  moreover have "strip_angle (take ?p (?n @ ?c # s)) = ?n @ [?c]"
    using q by (simp add: strip_angle_def chunk_def op_char)
  moreover have "0 < ?p" "?p < length (alloc_chars ?p)" using room_ok [of ?p] q by (simp_all add: chunk_def)
  ultimately have "\<exists>u. cpp_strcpy ((?n @ ?c # s) @ NUL # t) (alloc_chars ?p) ?p =
      Inr ((?n @ [?c]) @ NUL # u)"
    using cpp_strcpy_ok [OF nf, where m = ?p and N = ?p and dst = "alloc_chars ?p" and r = t] by metis
  then show ?thesis
    using tw cstr_append_NUL [OF nf, of t] by (auto simp: next_delim_enum_def strcspn_def Let_def)
qed

lemma next_delim_last:
  assumes "operand l" and "room (length l)"
  shows "\<exists>u. next_delim_enum (l @ NUL # t) = Inr (l @ NUL # u, NUL # t)"
proof -
  have nf: "nul_free l" by (rule operand_nul_free [OF assms(1)])
  have tw: "takeWhile (\<lambda>c. c \<notin> set BITWISEOPS) l = l"
    using operand_ops [OF assms(1)] by (auto simp: takeWhile_eq_all_conv)
  have "last l \<noteq> CHR ''>''" by (rule operand_last [OF assms(1)])
  from copy_whole [OF nf assms(2) this, of t] show ?thesis
    by (auto simp: next_delim_enum_def strcspn_def Let_def tw cstr_append_NUL [OF nf])
qed

lemma set_delim_prefix:
  assumes "list_all chunk qs" and "nul_free l" and "n \<le> length qs"
  shows "\<exists>bs. setDelimEnums n (render qs l @ NUL # t) = Inr bs \<and>
    map cstr bs = map (\<lambda>q. fst q @ [snd q]) (take n qs)"
  using assms
proof (induction qs arbitrary: n)
  case (Cons q qs)
  show ?case
  proof (cases n)
    case (Suc k)
    have ch: "chunk q" and nf: "nul_free (render qs l)"
      using Cons.prems render_nul_free [of qs l] by simp_all
    obtain u where u: "next_delim_enum ((fst q @ snd q # render qs l) @ NUL # t) =
        Inr ((fst q @ [snd q]) @ NUL # u, render qs l @ NUL # t)"
      using next_delim_op [OF ch nf, of t] by blast
    obtain bs where "setDelimEnums k (render qs l @ NUL # t) = Inr bs"
        "map cstr bs = map (\<lambda>q. fst q @ [snd q]) (take k qs)"
      using Cons.IH [of k] Cons.prems Suc by auto
    moreover have "nul_free (fst q @ [snd q])" using ch by (simp add: chunk_def operand_nul_free op_char)
    then have "cstr ((fst q @ [snd q]) @ NUL # u) = fst q @ [snd q]" by (rule cstr_append_NUL)
    ultimately show ?thesis using u Suc by simp
  qed simp
qed simp

lemma set_delim_all:
  assumes "list_all chunk qs" and "operand l" and "room (length l)"
  shows "\<exists>bs. setDelimEnums (Suc (length qs)) (render qs l @ NUL # t) = Inr bs \<and>
    map cstr bs = map (\<lambda>q. fst q @ [snd q]) qs @ [l]"
  using assms(1)
proof (induction qs)
  case Nil
  obtain u where "next_delim_enum (l @ NUL # t) = Inr (l @ NUL # u, NUL # t)"
    using next_delim_last [OF assms(2,3), of t] by blast
  then show ?case using operand_nul_free [OF assms(2)] by simp
next
  case (Cons q qs)
  have ch: "chunk q" and nf: "nul_free (render qs l)"
    using Cons.prems render_nul_free [of qs l] operand_nul_free [OF assms(2)] by simp_all
  obtain u where u: "next_delim_enum ((fst q @ snd q # render qs l) @ NUL # t) =
      Inr ((fst q @ [snd q]) @ NUL # u, render qs l @ NUL # t)"
    using next_delim_op [OF ch nf, of t] by blast
  obtain bs where "setDelimEnums (Suc (length qs)) (render qs l @ NUL # t) = Inr bs"
      "map cstr bs = map (\<lambda>q. fst q @ [snd q]) qs @ [l]"
    using Cons by auto
  moreover have "nul_free (fst q @ [snd q])" using ch by (simp add: chunk_def operand_nul_free op_char)
  then have "cstr ((fst q @ [snd q]) @ NUL # u) = fst q @ [snd q]" by (rule cstr_append_NUL)
  ultimately show ?case using u by simp
qed

text \<open>Evaluation of the chunks.\<close>

lemma strtok_chunk: "operand n \<Longrightarrow> c \<in> set BITWISEOPS \<Longrightarrow> strtok (n @ [c]) BITWISEOPS = Some n"
proof -
  assume n: "operand n" and c: "c \<in> set BITWISEOPS"
  have "dropWhile (\<lambda>c. c \<in> set BITWISEOPS) (n @ [c]) = n @ [c]"
    using operand_ne [OF n] operand_ops [OF n] by (cases n) auto
  moreover have "takeWhile (\<lambda>c. c \<notin> set BITWISEOPS) (n @ [c]) = n"
    using operand_ops [OF n] c by (subst takeWhile_append2) auto
  ultimately show ?thesis by (simp add: strtok_def)
qed

lemma calc_step_chunk:
  assumes "chunk q" and "cstr b = fst q @ [snd q]"
  shows "calc_step widen oper (st, es) b =
    bindE (oper (fst q) es) (\<lambda>(a, es'). Inr (st @ [widen a, op_code (snd q)], es'))"
proof -
  have "strtok (fst q @ [snd q]) BITWISEOPS = Some (fst q)"
    using assms(1) by (intro strtok_chunk) (simp_all add: chunk_def)
  moreover have "snd q = BITWISEOR \<or> snd q = BITWISEAND" "BITWISEAND \<noteq> BITWISEOR"
    using assms(1) by (auto simp: chunk_def BITWISEOPS_def BITWISEOR_def BITWISEAND_def)
  ultimately show ?thesis
    using assms(2)
    by (auto simp: calc_step_def push_operand_def op_code_def bindE_def split: prod.splits sum.splits)
qed

lemma calc_step_last:
  assumes "operand l" and "cstr b = l"
  shows "calc_step widen oper (st, es) b = bindE (oper l es) (\<lambda>(a, es'). Inr (st @ [widen a], es'))"
proof -
  have "last l \<in> set l" using operand_ne [OF assms(1)] by simp
  then have "last l \<noteq> BITWISEOR" "last l \<noteq> BITWISEAND"
    using operand_ops [OF assms(1)] by (auto simp: BITWISEOPS_def)
  then show ?thesis
    using assms by (simp add: calc_step_def push_operand_def operand_ne)
qed

lemma calc_chunks:
  assumes "list_all chunk qs" and "map cstr bs = map (\<lambda>q. fst q @ [snd q]) qs"
  shows "foldE (calc_step widen oper) (st, es) bs =
    bindE (operand_stack widen oper qs es) (\<lambda>(st', es'). Inr (st @ st', es'))"
  using assms
proof (induction qs arbitrary: bs st es)
  case (Cons q qs)
  then obtain b bs' where b: "bs = b # bs'" "cstr b = fst q @ [snd q]"
      "map cstr bs' = map (\<lambda>q. fst q @ [snd q]) qs"
    by (cases bs) auto
  have "chunk q" and "list_all chunk qs" using Cons.prems(1) by simp_all
  then show ?case
    by (auto simp: b(1) Cons.IH [OF _ b(3)] calc_step_chunk [OF _ b(2)] bindE_def
        split: prod.splits sum.splits)
qed simp

lemma bitwise_of_op_code:
  "bitwise_of (op_code c) = Some (if c = BITWISEOR then BITWISE_OR else BITWISE_AND)"
  by (simp add: op_code_def bitwise_of_def)

lemma getApply_value:
  fixes widen :: "'r::len word \<Rightarrow> 64 word"
  assumes narrow: "\<And>a. ucast (widen a) = a"
  shows "bindE (operand_stack widen oper qs es) (\<lambda>(st, es1). bindE (oper l es1) (\<lambda>(r, es2).
      Inr (getApplyEnum junk widen (st @ [widen r]) es2))) = enum_value oper qs l es"
proof (induction qs arbitrary: es)
  case Nil
  show ?case using narrow by (auto simp: bindE_def split: sum.splits prod.splits)
next
  case (Cons q qs)
  have w: "ucast (widen a OR widen b) = a OR b" "ucast (widen a AND widen b) = a AND b" for a b
    by (simp_all add: unsigned_or_eq unsigned_and_eq narrow)
  show ?case
    unfolding enum_value.simps operand_stack.simps Cons.IH [symmetric]
    by (auto simp: bindE_def bitwise_of_op_code combine_def w Let_def split: sum.splits prod.splits)
qed

lemma ucast_32_64_32: "ucast (ucast (a :: 32 word) :: 64 word) = a"
  by (rule ucast_up_ucast_id) (simp add: is_up)

lemma getApply_short:
  "operand_stack widen oper qs es0 = Inr (st, es1) \<Longrightarrow>
    snd (getApplyEnum junk widen st es) = setErrorHelper es ENUM_OPER_INVAL"
proof (induction qs arbitrary: es0 st)
  case (Cons q qs)
  then obtain a e st' where "operand_stack widen oper qs e = Inr (st', es1)"
      "st = widen a # op_code (snd q) # st'"
    by (auto simp: bindE_eq_Inr)
  with Cons.IH [of e st'] show ?case by (auto simp: Let_def split: prod.splits)
qed simp

lemma base_ok:
  assumes "list_all chunk qs" and "operand l" and "room (length (render qs l))"
  shows "\<exists>t. EnumBitOpSplitterBase (render qs l @ NUL # r) =
    Inr \<lparr>coreVal = render qs l @ NUL # t, delimCount = findDelimCountEnums (render qs l) + 1,
      strLen = length (render qs l)\<rparr>"
proof -
  let ?s = "render qs l"
  have nf: "nul_free ?s" using assms by (simp add: render_nul_free operand_nul_free)
  have "last ?s \<noteq> CHR ''>''" using render_last [of l qs] operand_ne operand_last assms(2) by metis
  from copy_whole [OF nf assms(3) this] obtain u
    where "cpp_strcpy (?s @ NUL # r) (alloc_chars (length ?s)) (length ?s) = Inr (?s @ NUL # u)" by blast
  moreover have "removeWhiteSpaces (?s @ NUL # u) = Inr (?s @ NUL # u)"
    using rws_loop_identity [OF nf, of 0 u] by (simp add: removeWhiteSpaces_def)
  ultimately show ?thesis
    using cstr_append_NUL [OF nf, of r] by (simp add: EnumBitOpSplitterBase_def Let_def)
qed

text \<open>
  The copy of the value lacks room for its terminator: the constructor writes past
  the memory it allocated, which the arena rounds up to 16 bytes, exactly when the length
  of the value is a multiple of 16, as that of \<open>VK_ATTACHMENT_STORE_OP_DONT_CARE\<close> in
  \<open>src/src/vulkan_settings.xml\<close> is.
\<close>

lemma enum_copy_overflow:
  assumes "nul_free s" and "last s \<noteq> CHR ''>''"
  shows "EnumBitOpSplitterBase (s @ NUL # r) = Inl OutOfBounds \<longleftrightarrow> length s mod 16 = 0"
proof (cases "room (length s)")
  case True
  from copy_whole [OF assms(1) this assms(2), of r] obtain u
    where "cpp_strcpy (s @ NUL # r) (alloc_chars (length s)) (length s) = Inr (s @ NUL # u)" by blast
  moreover have "removeWhiteSpaces (s @ NUL # u) = Inr (s @ NUL # u)"
    using rws_loop_identity [OF assms(1), of 0 u] by (simp add: removeWhiteSpaces_def)
  ultimately show ?thesis
    using True cstr_append_NUL [OF assms(1), of r]
    by (simp add: EnumBitOpSplitterBase_def Let_def room_def)
next
  case False
  then have m: "length s mod 16 = 0" by (simp add: room_def)
  have "length (alloc_chars (length s)) = length s"
    using m unfolding alloc_chars_def by (simp, presburger)
  then have "cpp_strcpy (s @ NUL # r) (alloc_chars (length s)) (length s) = Inl OutOfBounds"
    by (intro cpp_strcpy_fails [OF assms(1), where m = "length s"]) simp_all
  then show ?thesis
    using m cstr_append_NUL [OF assms(1), of r] by (simp add: EnumBitOpSplitterBase_def Let_def)
qed

section \<open>Properties\<close>

text \<open>
  C20. An expression with no repeated operator gets its value if its copy fits. When the operators are as
  many as the distinct ones (none, one, or one of each), every operand is translated once
  from left to right and the results are combined with the operators associating to the
  right, whatever the uninitialised accumulator holds; but when the length of the text is a multiple of 16 the
  copy of the text writes its terminator behind the memory allocated for it. The copies of the parts have the same
  flaw: of an expression with operators, each operand with its operator and the last operand are taken to have another length.
\<close>

theorem enum_expression_value:
  fixes widen :: "'r::len word \<Rightarrow> 64 word"
  assumes "list_all chunk qs" and "operand l" and "qs \<noteq> [] \<longrightarrow> room (length l)"
    and "length qs = findDelimCountEnums (render qs l)"
    and "\<And>a. ucast (widen a) = a"
  shows "eval_enum junk widen oper (render qs l @ NUL # r) es =
    (if length (render qs l) mod 16 = 0 then Inl OutOfBounds else enum_value oper qs l es)"
proof (cases "room (length (render qs l))")
  case False
  have "nul_free (render qs l)" using assms(1,2) by (simp add: render_nul_free operand_nul_free)
  moreover have "last (render qs l) \<noteq> CHR ''>''" using render_last [of l qs] operand_ne operand_last assms(2) by metis
  ultimately have "EnumBitOpSplitterBase (render qs l @ NUL # r) = Inl OutOfBounds"
    using enum_copy_overflow False by (simp add: room_def)
  then show ?thesis using False by (simp add: eval_enum_def room_def)
next
  case True
  have l: "room (length l)" using True assms(3) by (cases qs) simp_all
  obtain t where b: "EnumBitOpSplitterBase (render qs l @ NUL # r) =
      Inr \<lparr>coreVal = render qs l @ NUL # t, delimCount = Suc (length qs), strLen = length (render qs l)\<rparr>"
    using base_ok [OF assms(1,2) True, of r] assms(4) by auto
  obtain bs where bs: "setDelimEnums (Suc (length qs)) (render qs l @ NUL # t) = Inr bs"
      "map cstr bs = map (\<lambda>q. fst q @ [snd q]) qs @ [l]"
    using set_delim_all [OF assms(1,2) l, of t] by blast
  then obtain cs x where cs: "bs = cs @ [x]" "map cstr cs = map (\<lambda>q. fst q @ [snd q]) qs" "cstr x = l"
    by (auto simp: map_eq_append_conv)
  have "eval_enum junk widen oper (render qs l @ NUL # r) es = enum_value oper qs l es"
    unfolding getApply_value [OF assms(5), of oper qs es l junk, symmetric]
    by (simp del: setDelimEnums.simps add: eval_enum_def b calculate_def bs(1) calcResultEnum_def cs(1)
        foldE_append calc_chunks [OF assms(1) cs(2)] calc_step_last [OF assms(2) cs(3)])
      (auto simp: bindE_def calc_step_last [OF assms(2) cs(3)] split: sum.splits prod.splits)
  then show ?thesis using True by (simp add: room_def)
qed

theorem enum_expression_value_witness:
  "eval_enum 7 ucast (\<lambda>s es. Inr (of_nat (length s) :: 32 word, es)) (''A|BBBB&CC'' @ NUL # [])
      new_error_state = Inr (1 OR (4 AND 2), new_error_state) \<and>
   eval_enum 7 ucast (\<lambda>s es. Inr (of_nat (length s) :: 32 word, es)) (''VK_ATTACHMENT_STORE_OP_DONT_CARE'' @ NUL # [])
      new_error_state = Inl OutOfBounds"
proof
  let ?op = "\<lambda>s es. Inr (of_nat (length s) :: 32 word, es)"
  have "eval_enum 7 ucast ?op (render [(''A'', CHR ''|''), (''BBBB'', CHR ''&'')] ''CC'' @ NUL # []) new_error_state =
    (if length (render [(''A'', CHR ''|''), (''BBBB'', CHR ''&'')] ''CC'') mod 16 = 0 then Inl OutOfBounds
     else enum_value ?op [(''A'', CHR ''|''), (''BBBB'', CHR ''&'')] ''CC'' new_error_state)"
    by (rule enum_expression_value)
      (simp_all add: chunk_def operand_def room_def NUL_def BITWISEOPS_def BITWISEOR_def
        BITWISEAND_def findDelimCountEnums_def ucast_32_64_32)
  then show "eval_enum 7 ucast ?op (''A|BBBB&CC'' @ NUL # []) new_error_state = Inr (1 OR (4 AND 2), new_error_state)"
    by (simp add: combine_def BITWISEOR_def Let_def)
  have "eval_enum 7 ucast ?op (render [] ''VK_ATTACHMENT_STORE_OP_DONT_CARE'' @ NUL # []) new_error_state =
    (if length (render [] ''VK_ATTACHMENT_STORE_OP_DONT_CARE'') mod 16 = 0 then Inl OutOfBounds
     else enum_value ?op [] ''VK_ATTACHMENT_STORE_OP_DONT_CARE'' new_error_state)"
    by (rule enum_expression_value)
      (simp_all add: operand_def NUL_def BITWISEOPS_def BITWISEOR_def BITWISEAND_def findDelimCountEnums_def ucast_32_64_32)
  then show "eval_enum 7 ucast ?op (''VK_ATTACHMENT_STORE_OP_DONT_CARE'' @ NUL # []) new_error_state = Inl OutOfBounds"
    by simp
qed

text \<open>
  A repeated operator is not supported: when an expression has more operators than
  distinct ones (\<open>A|B|C\<close>), only as many operands as there are distinct operators, plus one,
  are translated; the evaluation then reports \<open>ENUM_OPER_INVAL\<close> after their reports, never
  looks at the rest, and returns a value that depends on the uninitialised accumulator.
\<close>

theorem enum_repeated_operator:
  assumes "list_all chunk qs" and "operand l" and "room (length (render qs l))"
    and "findDelimCountEnums (render qs l) = k" and "k < length qs"
  shows "eval_enum junk widen oper (render qs l @ NUL # r) es =
    bindE (operand_stack widen oper (take (Suc k) qs) es) (\<lambda>(st, es').
      Inr (fst (getApplyEnum junk widen st es'), setErrorHelper es' ENUM_OPER_INVAL))"
proof -
  obtain t where b: "EnumBitOpSplitterBase (render qs l @ NUL # r) =
      Inr \<lparr>coreVal = render qs l @ NUL # t, delimCount = Suc k, strLen = length (render qs l)\<rparr>"
    using base_ok [OF assms(1-3), of r] assms(4) by auto
  have pre: "list_all chunk (take (Suc k) qs)"
    using assms(1) in_set_takeD [of _ "Suc k" qs] by (auto simp: list_all_iff simp del: take_Suc)
  obtain bs where bs: "setDelimEnums (Suc k) (render qs l @ NUL # t) = Inr bs"
      "map cstr bs = map (\<lambda>q. fst q @ [snd q]) (take (Suc k) qs)"
    using set_delim_prefix [OF assms(1) operand_nul_free [OF assms(2)], of "Suc k" t] assms(5) by auto
  have "eval_enum junk widen oper (render qs l @ NUL # r) es =
      bindE (operand_stack widen oper (take (Suc k) qs) es) (\<lambda>(st, es'). Inr (getApplyEnum junk widen st es'))"
    by (simp del: setDelimEnums.simps take_Suc add: eval_enum_def b calculate_def bs(1) calcResultEnum_def
        calc_chunks [OF pre bs(2)]) (auto simp: bindE_def split: sum.splits)
  also have "\<dots> = bindE (operand_stack widen oper (take (Suc k) qs) es) (\<lambda>(st, es').
      Inr (fst (getApplyEnum junk widen st es'), setErrorHelper es' ENUM_OPER_INVAL))"
    by (rule bindE_cong [OF refl]) (auto simp: prod_eq_iff getApply_short)
  finally show ?thesis .
qed

theorem enum_repeated_operator_witness:
  "eval_enum 7 ucast (\<lambda>s es. Inr (of_nat (length s) :: 32 word, es)) (''A|B|C'' @ NUL # [])
      new_error_state = Inr (1 OR (1 OR 7), setErrorHelper new_error_state ENUM_OPER_INVAL)"
proof -
  have "eval_enum 7 ucast (\<lambda>s es. Inr (of_nat (length s) :: 32 word, es))
      (render [(''A'', CHR ''|''), (''B'', CHR ''|'')] ''C'' @ NUL # []) new_error_state =
    bindE (operand_stack ucast (\<lambda>s es. Inr (of_nat (length s) :: 32 word, es))
      (take (Suc 1) [(''A'', CHR ''|''), (''B'', CHR ''|'')]) new_error_state) (\<lambda>(st, es').
      Inr (fst (getApplyEnum 7 ucast st es'), setErrorHelper es' ENUM_OPER_INVAL))"
    by (rule enum_repeated_operator)
      (simp_all add: chunk_def operand_def room_def NUL_def BITWISEOPS_def BITWISEOR_def
        BITWISEAND_def findDelimCountEnums_def)
  then show ?thesis by (simp add: bitwise_of_op_code BITWISEOR_def Let_def)
qed

end
