(* ===== verification/HashTable.thy ===== *)
theory HashTable
  imports CStrings StringHash
begin

text \<open>
  \<open>src/src/StrHashTable.hpp\<close>: the fixed-size hash table with chains of five buckets that
  holds the type map, the aliases and the enumeration map. A bucket owns 255 bytes of key
  storage; keys are stored without blanks and tabs; a table never grows. Every access to
  an array of the table is checked.
\<close>

section \<open>Data\<close>

definition CHAINSIZE :: nat where
  "CHAINSIZE = 5"

record 'v bucket =
  key :: "char list"
  bvalue :: 'v
  count :: nat

record 'v str_hash_table =
  buckets :: "'v bucket list list"
  marked :: "bool list"
  bucketCount :: nat

text \<open>\<open>Bucket()\<close>, and the table of the default constructor; \<open>v0\<close> is \<open>T{}\<close>.\<close>

definition empty_bucket :: "'v \<Rightarrow> 'v bucket" where
  "empty_bucket v0 = \<lparr>key = replicate MAX_CHAR_SIZE NUL, bvalue = v0, count = 0\<rparr>"

definition StrHashTable :: "nat \<Rightarrow> 'v \<Rightarrow> 'v str_hash_table" where
  "StrHashTable sz v0 =
     \<lparr>buckets = replicate sz (replicate CHAINSIZE (empty_bucket v0)),
      marked = replicate sz False, bucketCount = 0\<rparr>"

section \<open>Buckets\<close>

text \<open>\<open>copy\<close>: bytes up to the NUL, at most 255 of them, then the terminator.\<close>

definition bucket_copy :: "char list \<Rightarrow> char list \<Rightarrow> char list res" where
  "bucket_copy arr k =
     bindE (copy_loop arr k MAX_CHAR_SIZE 0) (\<lambda>(i, k'). buf_set k' i NUL)"

definition Bucket :: "char list \<Rightarrow> 'v \<Rightarrow> 'v bucket res" where
  "Bucket k v =
     bindE (bucket_copy k (replicate MAX_CHAR_SIZE NUL))
       (\<lambda>k'. Inr \<lparr>key = k', bvalue = v, count = 0\<rparr>)"

text \<open>Move assignment copies key and value; the count of the left side stays.\<close>

definition bucket_assign :: "'v bucket \<Rightarrow> 'v bucket \<Rightarrow> 'v bucket res" where
  "bucket_assign lhs rhs =
     bindE (bucket_copy (key rhs) (key lhs)) (\<lambda>k. Inr (lhs\<lparr>key := k, bvalue := bvalue rhs\<rparr>))"

section \<open>Removing blanks\<close>

function remSpaces_loop :: "char list \<Rightarrow> char list \<Rightarrow> nat \<Rightarrow> nat \<Rightarrow> char list res" where
  "remSpaces_loop val res i j =
     bindE (buf_get val i) (\<lambda>c.
       if c = NUL then buf_set res j NUL
       else if c \<noteq> SPACE \<and> c \<noteq> TAB
       then bindE (buf_set res j c) (\<lambda>res'. remSpaces_loop val res' (i + 1) (j + 1))
       else remSpaces_loop val res (i + 1) j)"
  by pat_completeness auto
termination
  by (relation "measure (\<lambda>(val, res, i, j). length val - i)")
    (auto simp: buf_get_def split: if_splits)

declare remSpaces_loop.simps [simp del]

text \<open>
  Into a local array of 255 bytes. Its bytes are indeterminate before the call, and none
  is read before it is written: the content starts as NULs here.
\<close>

definition remSpaces :: "char list \<Rightarrow> char list res" where
  "remSpaces val = remSpaces_loop val (replicate MAX_CHAR_SIZE NUL) 0 0"

section \<open>Insertion\<close>

text \<open>The part of \<open>add\<close> and \<open>setup()\<close> that files a key without blanks under its hash.\<close>

definition insert_hashed ::
  "nat \<Rightarrow> 'v str_hash_table \<Rightarrow> char list \<Rightarrow> 'v \<Rightarrow> 'v str_hash_table res" where
  "insert_hashed sz t charKey v =
     (let h = getStringHash (cstr charKey) (table_scale sz)
      in bindE (buf_get (buckets t) h) (\<lambda>chain.
         bindE (buf_get (marked t) h) (\<lambda>m.
         bindE (Bucket charKey v) (\<lambda>b.
         bindE (buf_get chain 0) (\<lambda>b0.
           if m then
             bindE (buf_get chain (count b0 + 1)) (\<lambda>old.
             bindE (bucket_assign old b) (\<lambda>new.
               Inr (t\<lparr>buckets := (buckets t)[h :=
                 (chain[count b0 + 1 := new])[0 := b0\<lparr>count := (count b0 + 1) mod 256\<rparr>]]\<rparr>)))
           else
             bindE (bucket_assign b0 b) (\<lambda>new.
               Inr (t\<lparr>marked := (marked t)[h := True],
                      buckets := (buckets t)[h := chain[0 := new]]\<rparr>)))))))"

definition add :: "nat \<Rightarrow> 'v str_hash_table \<Rightarrow> string \<Rightarrow> 'v \<Rightarrow> 'v str_hash_table res" where
  "add sz t k v =
     (let t' = t\<lparr>bucketCount := bucketCount t + 1\<rparr>
      in if bucketCount t' < sz
         then bindE (remSpaces (k @ [NUL])) (\<lambda>charKey. insert_hashed sz t' charKey v)
         else Inr t')"

fun setup_loop :: "nat \<Rightarrow> 'v str_hash_table \<Rightarrow> (string \<times> 'v) list \<Rightarrow> 'v str_hash_table res" where
  "setup_loop sz base [] = Inr base"
| "setup_loop sz base ((s, v) # rest) =
     bindE (remSpaces (s @ [NUL])) (\<lambda>charKey.
     bindE (insert_hashed sz base charKey v) (\<lambda>base'.
       setup_loop sz (base'\<lparr>bucketCount := bucketCount base' + 1\<rparr>) rest))"

definition setup_table :: "nat \<Rightarrow> 'v \<Rightarrow> (string \<times> 'v) list \<Rightarrow> 'v str_hash_table res" where
  "setup_table sz v0 kvs = setup_loop sz (StrHashTable sz v0) kvs"

definition isValidState :: "nat \<Rightarrow> 'v str_hash_table \<Rightarrow> bool" where
  "isValidState sz t = (bucketCount t < sz)"

definition getSize :: "nat \<Rightarrow> nat" where
  "getSize sz = sz"

section \<open>Lookup\<close>

text \<open>
  The comparison written out: it advances while the bytes agree and the wanted key has not
  ended, and reports a match when the wanted key has ended.
\<close>

fun keys_match :: "char list \<Rightarrow> char list \<Rightarrow> bool" where
  "keys_match (a # as) (b # bs) = (if a = b \<and> a \<noteq> NUL then keys_match as bs else a = NUL)"
| "keys_match (a # as) [] = (a = NUL)"
| "keys_match [] bs = False"

fun get_loop :: "char list \<Rightarrow> nat \<Rightarrow> 'v bucket list \<Rightarrow> nat \<Rightarrow> 'v option" where
  "get_loop newKey n [] i = None"
| "get_loop newKey n (b # bs) i =
     (if keys_match newKey (key b) then Some (bvalue b)
      else if n = i then None
      else get_loop newKey n bs (i + 1))"

definition get :: "nat \<Rightarrow> 'v str_hash_table \<Rightarrow> string \<Rightarrow> 'v option res" where
  "get sz t k =
     bindE (remSpaces (k @ [NUL])) (\<lambda>newKey.
       let h = getStringHash (cstr newKey) (table_scale sz)
       in if h < sz
          then bindE (buf_get (buckets t) h) (\<lambda>chain.
               bindE (buf_get chain 0) (\<lambda>b0. Inr (get_loop newKey (count b0) chain 0)))
          else Inr None)"

section \<open>Keys without blanks\<close>

definition despace :: "string \<Rightarrow> string" where
  "despace s = filter (\<lambda>c. c \<noteq> SPACE \<and> c \<noteq> TAB) s"

lemma despace_nul_free [simp]: "nul_free s \<Longrightarrow> nul_free (despace s)"
  by (induction s) (auto simp: despace_def)

lemma despace_idem [simp]: "despace (despace s) = despace s"
  by (simp add: despace_def)

lemma remSpaces_loop_copies:
  assumes "nul_free s" and "i \<le> length s" and "length pre = j"
    and "j + length (despace (drop i s)) < length pre + length post"
  shows "\<exists>t. remSpaces_loop (s @ NUL # r) (pre @ post) i j
      = Inr (pre @ despace (drop i s) @ NUL # t) \<and>
      length (pre @ despace (drop i s) @ NUL # t) = length pre + length post"
  using assms
proof (induction "length s - i" arbitrary: i j pre post)
  case 0
  then have i: "i = length s" by simp
  obtain x t where "post = x # t" using 0 i by (cases post) (auto simp: despace_def)
  then show ?case using 0 i
    by (subst remSpaces_loop.simps) (simp add: nth_append despace_def list_update_append_mid)
next
  case (Suc k)
  then have i: "i < length s" by simp
  let ?c = "s ! i"
  have c: "(s @ NUL # r) ! i = ?c" "?c \<noteq> NUL" using i Suc.prems(1)
    by (simp_all add: nth_append nul_free_nth)
  have d: "drop i s = ?c # drop (Suc i) s" using i by (simp add: Cons_nth_drop_Suc)
  show ?case
  proof (cases "?c \<noteq> SPACE \<and> ?c \<noteq> TAB")
    case True
    then have ds: "despace (drop i s) = ?c # despace (drop (Suc i) s)" by (simp add: d despace_def)
    obtain x t where post: "post = x # t"
      using Suc.prems(4) ds Suc.prems(3) by (cases post) auto
    have "remSpaces_loop (s @ NUL # r) (pre @ post) i j
        = remSpaces_loop (s @ NUL # r) ((pre @ [?c]) @ t) (Suc i) (Suc j)"
      using True c i Suc.prems(3) post
      by (subst remSpaces_loop.simps) (simp add: list_update_append_mid)
    moreover have "\<exists>t'. remSpaces_loop (s @ NUL # r) ((pre @ [?c]) @ t) (Suc i) (Suc j)
        = Inr ((pre @ [?c]) @ despace (drop (Suc i) s) @ NUL # t') \<and>
        length ((pre @ [?c]) @ despace (drop (Suc i) s) @ NUL # t') = length (pre @ [?c]) + length t"
      using Suc.hyps(2) Suc.prems i ds post by (intro Suc.hyps(1)) auto
    ultimately show ?thesis using ds post by auto
  next
    case False
    then have ds: "despace (drop i s) = despace (drop (Suc i) s)" by (auto simp: d despace_def)
    have "remSpaces_loop (s @ NUL # r) (pre @ post) i j
        = remSpaces_loop (s @ NUL # r) (pre @ post) (Suc i) j"
      using False c i by (subst remSpaces_loop.simps) auto
    moreover have "\<exists>t'. remSpaces_loop (s @ NUL # r) (pre @ post) (Suc i) j
        = Inr (pre @ despace (drop (Suc i) s) @ NUL # t') \<and>
        length (pre @ despace (drop (Suc i) s) @ NUL # t') = length pre + length post"
      using Suc.hyps(2) Suc.prems i ds by (intro Suc.hyps(1)) auto
    ultimately show ?thesis using ds by simp
  qed
qed

text \<open>A key is acceptable when, without blanks, it fits a bucket and is not empty.\<close>

definition good_key :: "string \<Rightarrow> bool" where
  "good_key k = (nul_free k \<and> despace k \<noteq> [] \<and> length (despace k) < MAX_CHAR_SIZE)"

text \<open>Storage that holds the string \<open>s\<close> in 255 bytes.\<close>

definition holds :: "char list \<Rightarrow> string \<Rightarrow> bool" where
  "holds b s = (nul_free s \<and> length b = MAX_CHAR_SIZE \<and> (\<exists>t. b = s @ NUL # t))"

lemma holds_cstr [simp]: "holds b s \<Longrightarrow> cstr b = s"
  by (auto simp: holds_def)

lemma remSpaces_holds:
  assumes "nul_free k" and "length (despace k) < MAX_CHAR_SIZE"
  obtains b where "remSpaces (k @ [NUL]) = Inr b" and "holds b (despace k)"
  using remSpaces_loop_copies [of k 0 "[]" 0 "replicate MAX_CHAR_SIZE NUL" "[]"] assms
  by (auto simp: remSpaces_def holds_def)

lemma bucket_copy_holds:
  assumes "holds b s" and "length k = MAX_CHAR_SIZE"
  obtains k' where "bucket_copy b k = Inr k'" and "holds k' s"
proof -
  obtain t where b: "b = s @ NUL # t" and s: "nul_free s" "length b = MAX_CHAR_SIZE"
    using assms(1) by (auto simp: holds_def)
  have l: "length s < MAX_CHAR_SIZE" using b s(2) by simp
  have "copy_loop b k MAX_CHAR_SIZE 0 = Inr (length s, s @ drop (length s) k)"
    using copy_loop_copies [of s "length s" MAX_CHAR_SIZE k 0 t] s(1) l assms(2) by (simp add: b)
  moreover obtain x u where u: "drop (length s) k = x # u"
    using l assms(2) by (metis Cons_nth_drop_Suc)
  ultimately have "bucket_copy b k = Inr (s @ NUL # u)"
    using l assms(2) by (simp add: bucket_copy_def list_update_append_mid)
  moreover have "length (s @ NUL # u) = length (s @ drop (length s) k)"
    by (simp add: u)
  then have "holds (s @ NUL # u) s" using s(1) l assms(2) by (auto simp: holds_def)
  ultimately show thesis by (rule that)
qed

lemma keys_match_prefix:
  "nul_free s \<Longrightarrow> nul_free u \<Longrightarrow> keys_match (s @ NUL # r) (u @ NUL # q) \<longleftrightarrow> prefix s u"
proof (induction s arbitrary: u)
  case Nil
  then show ?case by (cases u) auto
next
  case (Cons c s)
  then show ?case by (cases u) auto
qed

lemma keys_match_holds:
  "holds b s \<Longrightarrow> holds k u \<Longrightarrow> keys_match b k \<longleftrightarrow> prefix s u"
  by (auto simp: holds_def keys_match_prefix)

end
