(* ===== verification/FieldConv.thy ===== *)
theory FieldConv
  imports FieldStore EnumExpr HashTable
begin

text \<open>
  From the text of a field to a value: the conversions of \<open>src/src/FieldExtractor.inl\<close>. What the
  code asks of libraries is collected in \<open>env\<close>: \<open>magic_enum\<close>, the number parser of tinyxml2, the casts the
  compiler accepts and the content of an uninitialised local. The spelling of a type and its
  kind are those of \<open>FieldStore\<close>.
\<close>

section \<open>The environment\<close>

text \<open>
  \<open>enum_cast E s\<close> is \<open>magic_enum::enum_cast<E>(s)\<close>; \<open>ToInt64\<close> gives no value when
  the text does not start with a number.
\<close>

record env =
  castable_to :: castable
  enum_cast :: "string \<Rightarrow> string \<Rightarrow> 32 word option"
  ToInt64 :: "string \<Rightarrow> 64 word option"
  junk :: "64 word"
  enumMap :: "64 word str_hash_table"

section \<open>Enumerators\<close>

text \<open>\<open>getFromMap\<close>: a missing name is reported and gives the default value.\<close>

definition getFromMap :: "env \<Rightarrow> 32 operation" where
  "getFromMap E val es =
     bindE (get 255 (enumMap E) val) (\<lambda>opt.
       case opt of
         Some v \<Rightarrow> Inr (ucast v, es)
       | None \<Rightarrow> Inr (0, setErrorHelper es NOT_ENUM_IN_MAP))"

definition getEnumFlag :: "env \<Rightarrow> string \<Rightarrow> 32 operation" where
  "getEnumFlag E R enumStr es =
     (case enum_cast E R enumStr of
        Some v \<Rightarrow> Inr (v, es)
      | None \<Rightarrow> getFromMap E enumStr es)"

section \<open>convertToFieldValue\<close>

text \<open>
  The evaluation of an expression on behalf of an extractor. One made from the primary
  template has a null error handler, so anything reported is a call through null.
\<close>

definition eval_for :: "env \<Rightarrow> extractor \<Rightarrow> 32 operation \<Rightarrow> char list \<Rightarrow> error_state
    \<Rightarrow> (cvalue option \<times> error_state) res" where
  "eval_for E x oper val es =
     bindE (eval_enum (junk E) ucast oper val new_error_state) (\<lambda>(v, reported).
       if errorState reported \<noteq> 0 \<and> \<not> is_specialised x then Inl NullDeref
       else Inr (Some (CInt (ucast v)), es\<lparr>errorState := errorState es OR errorState reported\<rparr>))"

text \<open>
  \<open>convertToFieldValue<R>(const char*)\<close> by the kind of \<open>R\<close>. A copied string is
  allocated with its length, like the text of an expression.
\<close>

definition convertToFieldValue :: "env \<Rightarrow> extractor \<Rightarrow> string \<Rightarrow> char list \<Rightarrow> error_state
    \<Rightarrow> (cvalue option \<times> error_state) res" where
  "convertToFieldValue E x R val es =
     (case kind_of R of
        KEnum e \<Rightarrow> eval_for E x (getEnumFlag E e) val es
      | KPtr u \<Rightarrow>
          if R = ''const char *''
          then let n = length (cstr val)
               in bindE (cpp_strcpy val (alloc_chars n) n) (\<lambda>p. Inr (Some (CStr (cstr p)), es))
          else if cstr val = ''nullptr'' then Inr (Some CNull, es)
          else Inr (None, es)
      | KArith \<Rightarrow>
          (case ToInt64 E (cstr val) of
             Some n \<Rightarrow> Inr (Some (CInt (ucast (ucast n :: 32 word))), es)
           | None \<Rightarrow> eval_for E x (getFromMap E) val es)
      | KStruct \<Rightarrow> Inr (None, es))"

text \<open>
  The alternative of \<open>UnderlyingTypes\<close> that receives a value of type \<open>R\<close>: an enumerator
  converts to \<open>unsigned int\<close>.
\<close>

definition stored_as :: "string \<Rightarrow> string" where
  "stored_as R = (case kind_of R of KEnum e \<Rightarrow> ''unsigned int'' | _ \<Rightarrow> R)"

section \<open>Values made of other structures\<close>

text \<open>
  The conversions of \<open>ChildTypeParentFieldMatching\<close>: an array of copies for a pointer
  to \<open>const T\<close>, a null pointer for any other pointer, the structure itself for the same type.
\<close>

definition getItemArr :: "string \<Rightarrow> string \<Rightarrow> cvalue list list \<Rightarrow> cvalue" where
  "getItemArr R T cs = (if kind_of R = KPtr (''const '' @ T) \<or> kind_of R = KPtr T then CArr T cs else CNull)"

definition struct_to_field :: "string \<Rightarrow> string \<Rightarrow> cvalue list \<Rightarrow> cvalue option" where
  "struct_to_field R T c = (if R = T then Some (CObj T c) else None)"

end
