(* ===== verification/ParentLink.thy ===== *)
theory ParentLink
  imports StringHash
begin

text \<open>
  References from fields to structures with an id: \<open>ParentChildFieldLink\<close> and
  \<open>ChildTypeParentFieldMatching\<close> of \<open>src/src\<close>. A pointer to an extractor is a number.
  The iteration order of \<open>unordered_map\<close> is the library's: maps are association lists
  without repeated keys, and a function that iterates takes the pairs in the order \<open>ord\<close> gives.
\<close>

section \<open>Text\<close>

definition IDREFSEP :: char where
  "IDREFSEP = CHR '',''"

definition is_dec_digit :: "char \<Rightarrow> bool" where
  "is_dec_digit c = (c \<in> set ''0123456789'')"

text \<open>\<open>aa::string::find\<close>: the first position of a substring.\<close>

fun find_from :: "string \<Rightarrow> string \<Rightarrow> nat \<Rightarrow> nat option" where
  "find_from [] p k = (if p = [] then Some k else None)"
| "find_from (c # s) p k = (if prefix p (c # s) then Some k else find_from s p (Suc k))"

definition string_find :: "string \<Rightarrow> string \<Rightarrow> nat option" where
  "string_find s p = find_from s p 0"

definition contains :: "string \<Rightarrow> string \<Rightarrow> bool" where
  "contains s p = (string_find s p \<noteq> None)"

section \<open>Maps\<close>

text \<open>\<open>try_emplace\<close> and \<open>emplace\<close> keep an existing entry, \<open>operator[]\<close> replaces it.\<close>

definition emplace :: "string \<Rightarrow> 'v \<Rightarrow> (string \<times> 'v) list \<Rightarrow> (string \<times> 'v) list" where
  "emplace k v m = (if k \<in> fst ` set m then m else (k, v) # m)"

definition assign_key :: "string \<Rightarrow> 'v \<Rightarrow> (string \<times> 'v) list \<Rightarrow> (string \<times> 'v) list" where
  "assign_key k v m =
     (if k \<in> fst ` set m then map (\<lambda>e. if fst e = k then (k, v) else e) m else (k, v) # m)"

definition erase_key :: "string \<Rightarrow> (string \<times> 'v) list \<Rightarrow> (string \<times> 'v) list" where
  "erase_key k m = filter (\<lambda>e. fst e \<noteq> k) m"

section \<open>ParentChildFieldLink\<close>

text \<open>\<open>childInfo\<close>: tag of a field type to the parent, the field's name and its real type.\<close>

type_synonym field_info = "nat \<times> string \<times> string"

record parent_link =
  childCount :: nat
  parentIds :: "string list"
  childInfo :: "(string \<times> field_info) list"

definition new_parent_link :: parent_link where
  "new_parent_link = \<lparr>childCount = 0, parentIds = replicate MAX_CHAR_SIZE [], childInfo = []\<rparr>"

text \<open>\<open>parentIds[childCount] += s\<close>.\<close>

definition append_id :: "parent_link \<Rightarrow> string \<Rightarrow> parent_link res" where
  "append_id L s =
     bindE (buf_get (parentIds L) (childCount L)) (\<lambda>old.
       Inr (L\<lparr>parentIds := (parentIds L)[childCount L := old @ s]\<rparr>))"

definition next_id :: "parent_link \<Rightarrow> parent_link" where
  "next_id L = L\<lparr>childCount := (childCount L + 1) mod 256\<rparr>"

definition parse_char :: "string \<Rightarrow> parent_link \<Rightarrow> char \<Rightarrow> parent_link res" where
  "parse_char parentTag L c =
     (if is_dec_digit c then append_id L [c]
      else if c = IDREFSEP then bindE (append_id L parentTag) (\<lambda>L'. Inr (next_id L'))
      else Inr L)"

definition parseChildRef :: "parent_link \<Rightarrow> string \<Rightarrow> string \<Rightarrow> parent_link res" where
  "parseChildRef L val parentTag =
     bindE (foldE (parse_char parentTag) L val) (\<lambda>L'.
     bindE (append_id L' parentTag) (\<lambda>L''.
     bindE (buf_get (parentIds L'') (childCount L'')) (\<lambda>s.
       if s \<noteq> [] then Inr (next_id L'') else Inr L'')))"

text \<open>\<open>add\<close>: \<open>typeName\<close> is the spelling of the field's type without pointer and qualifiers.\<close>

definition add_link :: "parent_link \<Rightarrow> nat \<Rightarrow> string \<Rightarrow> string \<Rightarrow> string \<Rightarrow> string \<Rightarrow> parent_link res" where
  "add_link L ext fieldName typeStr valStr typeName =
     (let parTag = '':'' @ typeName
      in bindE (parseChildRef L valStr parTag) (\<lambda>L'.
           Inr (L'\<lparr>childInfo := emplace parTag (ext, fieldName, typeStr) (childInfo L')\<rparr>)))"

definition getChildFieldLinkSize :: "parent_link \<Rightarrow> nat" where
  "getChildFieldLinkSize L = length (childInfo L)"

definition clearParTags :: "parent_link \<Rightarrow> parent_link" where
  "clearParTags L = L\<lparr>childCount := 0\<rparr>"

definition getMatchIds :: "parent_link \<Rightarrow> string list" where
  "getMatchIds L = take (childCount L) (parentIds L)"

type_synonym 'v order = "(string \<times> 'v) list \<Rightarrow> (string \<times> 'v) list"

text \<open>\<open>getParentMatch\<close>: the first entry, in iteration order, whose tag occurs in the id.\<close>

definition getParentMatch :: "field_info order \<Rightarrow> parent_link \<Rightarrow> string \<Rightarrow> (string \<times> field_info) option" where
  "getParentMatch ord L structId = find (\<lambda>e. contains structId (fst e)) (ord (childInfo L))"

definition erase_link :: "field_info order \<Rightarrow> parent_link \<Rightarrow> string \<Rightarrow> parent_link" where
  "erase_link ord L matchTag =
     (case getParentMatch ord L matchTag of
        None \<Rightarrow> L
      | Some e \<Rightarrow> L\<lparr>childInfo := erase_key (fst e) (childInfo L)\<rparr>)"

section \<open>ChildTypeParentFieldMatching\<close>

text \<open>
  The copied children, and \<open>count\<close>, which counts pairs of a child and an equal tag: it
  exceeds the number of children when a tag is repeated. \<open>capacity\<close> is the number of
  elements allocated.
\<close>

record matching =
  children :: "(string \<times> nat) list"
  match_count :: nat
  capacity :: nat

definition ChildTypeParentFieldMatching :: "nat order \<Rightarrow> (string \<times> nat) list \<Rightarrow> parent_link \<Rightarrow> matching" where
  "ChildTypeParentFieldMatching ord childTypes L =
     \<lparr>children = filter (\<lambda>kv. fst kv \<in> set (getMatchIds L)) (ord childTypes),
      match_count = sum_list (map (\<lambda>kv. length (filter (\<lambda>tag. tag = fst kv) (getMatchIds L)))
        (ord childTypes)) mod 256,
      capacity = length childTypes\<rparr>"

text \<open>
  \<open>findMatchChildLocForField\<close>: a search of the first \<open>count\<close> elements; it reads an
  element that was never constructed when the count is too big. The result is an index.
\<close>

fun find_child :: "(string \<times> nat) list \<Rightarrow> nat \<Rightarrow> string \<Rightarrow> nat \<Rightarrow> nat res" where
  "find_child cs 0 tag i = Inr i"
| "find_child [] (Suc n) tag i = Inl OutOfBounds"
| "find_child (c # cs) (Suc n) tag i =
     (if contains (fst c) tag then Inr i else find_child cs n tag (Suc i))"

definition findMatchChildLocForField :: "matching \<Rightarrow> string \<Rightarrow> nat res" where
  "findMatchChildLocForField M parFieldTag = find_child (children M) (match_count M) parFieldTag 0"

text \<open>
  \<open>getTypeForField\<close>: the callback gets the state of the processor. The result is that of
  the last match; what is erased is chosen by the last tag looked at, after the loop. Before
  any tag the location is a null pointer, which compares as below the count.
\<close>

definition link_step ::
  "('p \<Rightarrow> string \<Rightarrow> string \<Rightarrow> field_info \<Rightarrow> matching \<Rightarrow> (bool \<times> 'p) res) \<Rightarrow> matching
    \<Rightarrow> bool \<times> nat option \<times> 'p \<Rightarrow> string \<times> field_info \<Rightarrow> (bool \<times> nat option \<times> 'p) res" where
  "link_step callback M st e =
     (case st of (result, childLoc, p) \<Rightarrow>
        bindE (findMatchChildLocForField M (fst e)) (\<lambda>loc.
          if loc < match_count M
          then bindE (buf_get (children M) loc) (\<lambda>child.
               bindE (callback p (fst child) (fst e) (snd e) M) (\<lambda>(r, p').
                 Inr (r, Some loc, p')))
          else Inr (result, Some loc, p)))"

definition getTypeForField ::
  "field_info order \<Rightarrow> ('p \<Rightarrow> string \<Rightarrow> string \<Rightarrow> field_info \<Rightarrow> matching \<Rightarrow> (bool \<times> 'p) res)
    \<Rightarrow> ('p \<Rightarrow> parent_link) \<Rightarrow> (parent_link \<Rightarrow> 'p \<Rightarrow> 'p) \<Rightarrow> matching \<Rightarrow> 'p \<Rightarrow> (bool \<times> 'p) res" where
  "getTypeForField ord callback link set_link M p =
     bindE (foldE (link_step callback M) (False, None, p) (ord (childInfo (link p))))
       (\<lambda>(result, childLoc, p').
         case childLoc of
           None \<Rightarrow> Inl NullDeref
         | Some loc \<Rightarrow>
             if loc < match_count M
             then bindE (buf_get (children M) loc) (\<lambda>child.
                    Inr (result, set_link (erase_link ord (link p') (fst child)) p'))
             else Inr (result, p'))"

end
