(* ===== verification/HashTableSpec.thy ===== *)
theory HashTableSpec
  imports HashTable
begin

text \<open>
  What \<open>StrHashTable\<close> promises: its representation invariant, the list of entries filed
  under each hash, and the contract of insertion and lookup as a locale. The contract is
  the one the code keeps, which is weaker than a map: a wanted key matches a stored key
  that it is a prefix of, the entry filed first wins, and a full table drops insertions.
\<close>

section \<open>Representation invariant and entries\<close>

definition chain_ok :: "bool \<Rightarrow> 'v bucket list \<Rightarrow> bool" where
  "chain_ok m chain =
     (length chain = CHAINSIZE \<and> (\<forall>b \<in> set chain. \<exists>s. holds (key b) s) \<and>
      count (chain ! 0) < CHAINSIZE \<and>
      (\<not> m \<longrightarrow> holds (key (chain ! 0)) [] \<and> count (chain ! 0) = 0))"

definition wf_table :: "nat \<Rightarrow> 'v str_hash_table \<Rightarrow> bool" where
  "wf_table sz t =
     (length (buckets t) = sz \<and> length (marked t) = sz \<and>
      (\<forall>h < sz. chain_ok (marked t ! h) (buckets t ! h)))"

definition bucket_entry :: "'v bucket \<Rightarrow> string \<times> 'v" where
  "bucket_entry b = (cstr (key b), bvalue b)"

definition entries :: "'v str_hash_table \<Rightarrow> nat \<Rightarrow> (string \<times> 'v) list" where
  "entries t h =
     (if h < length (marked t) \<and> marked t ! h
      then map bucket_entry (take (count (buckets t ! h ! 0) + 1) (buckets t ! h)) else [])"

definition table_hash :: "nat \<Rightarrow> string \<Rightarrow> nat" where
  "table_hash sz k = getStringHash (despace k) (table_scale sz)"

lemma holds_empty: "holds (replicate MAX_CHAR_SIZE NUL) []"
  by (auto simp: holds_def MAX_CHAR_SIZE_def numeral_eq_Suc)

lemma wf_StrHashTable: "wf_table sz (StrHashTable sz v0)"
  by (auto simp: wf_table_def StrHashTable_def chain_ok_def empty_bucket_def holds_empty
      CHAINSIZE_def intro: exI [of _ "[]"])

lemma entries_StrHashTable [simp]: "entries (StrHashTable sz v0) h = []"
  by (auto simp: entries_def StrHashTable_def)

lemma entries_bucketCount [simp]: "entries (t\<lparr>bucketCount := n\<rparr>) h = entries t h"
  by (simp add: entries_def)

lemma wf_bucketCount [simp]: "wf_table sz (t\<lparr>bucketCount := n\<rparr>) = wf_table sz t"
  by (simp add: wf_table_def)

lemma length_entries:
  assumes "wf_table sz t" and "h < sz"
  shows "length (entries t h) = (if marked t ! h then count (buckets t ! h ! 0) + 1 else 0)"
    and "length (entries t h) \<le> CHAINSIZE"
  using assms by (auto simp: wf_table_def entries_def chain_ok_def)

section \<open>Insertion\<close>

lemma Bucket_holds:
  assumes "holds ck s"
  obtains b where "Bucket ck v = Inr b" and "holds (key b) s" and "bvalue b = v"
proof -
  obtain k where "bucket_copy ck (replicate MAX_CHAR_SIZE NUL) = Inr k" "holds k s"
    using bucket_copy_holds [OF assms, of "replicate MAX_CHAR_SIZE NUL"]
    by (metis length_replicate)
  then show thesis using that [of "\<lparr>key = k, bvalue = v, count = 0\<rparr>"] by (simp add: Bucket_def)
qed

lemma bucket_assign_holds:
  assumes "holds (key rhs) s" and "holds (key lhs) u"
  obtains b where "bucket_assign lhs rhs = Inr b" and "holds (key b) s"
    and "bvalue b = bvalue rhs" and "count b = count lhs"
proof -
  have "length (key lhs) = MAX_CHAR_SIZE" using assms(2) by (simp add: holds_def)
  then obtain k where "bucket_copy (key rhs) (key lhs) = Inr k" "holds k s"
    using bucket_copy_holds [OF assms(1)] by blast
  then show thesis using that by (simp add: bucket_assign_def)
qed

lemma map_entry_update:
  "map bucket_entry (xs[i := b]) = (map bucket_entry xs)[i := bucket_entry b]"
  by (simp add: map_update)

lemma map_entry_count:
  assumes "xs \<noteq> []"
  shows "map bucket_entry (xs[0 := (xs ! 0)\<lparr>count := n\<rparr>]) = map bucket_entry xs"
  using assms by (cases xs) (simp_all add: bucket_entry_def)

lemma insert_hashed_ok:
  assumes wf: "wf_table sz t" and ck: "holds ck s"
    and h: "h = getStringHash s (table_scale sz)" "h < sz"
    and fits: "length (entries t h) < CHAINSIZE"
  shows "\<exists>t'. insert_hashed sz t ck v = Inr t' \<and> wf_table sz t' \<and>
    bucketCount t' = bucketCount t \<and> entries t' h = entries t h @ [(s, v)] \<and>
    (\<forall>h'. h' \<noteq> h \<longrightarrow> entries t' h' = entries t h')"
proof -
  define chain where "chain = buckets t ! h"
  define n where "n = count (chain ! 0)"
  have len: "length (buckets t) = sz" "length (marked t) = sz"
    and ok: "chain_ok (marked t ! h) chain"
    and oks: "\<And>h'. h' < sz \<Longrightarrow> chain_ok (marked t ! h') (buckets t ! h')"
    using wf h(2) by (auto simp: wf_table_def chain_def)
  have bt: "buckets t ! h = chain" "count (chain ! 0) = n" and gh: "getStringHash s (table_scale sz) = h"
    using h(1) by (simp_all add: chain_def n_def)
  have c5: "length chain = CHAINSIZE" "n < CHAINSIZE" "0 < CHAINSIZE"
    using ok by (simp_all add: chain_ok_def n_def CHAINSIZE_def)
  have hs: "\<And>b. b \<in> set chain \<Longrightarrow> \<exists>u. holds (key b) u" using ok by (simp add: chain_ok_def)
  obtain b where b: "Bucket ck v = Inr b" "holds (key b) s" "bvalue b = v"
    by (rule Bucket_holds [OF ck])
  show ?thesis
  proof (cases "marked t ! h")
    case True
    have n1: "n + 1 < CHAINSIZE"
      using fits length_entries(1) [OF wf h(2)] True by (simp add: n_def chain_def)
    have "chain ! (n + 1) \<in> set chain" using n1 c5 by simp
    from hs [OF this] obtain u where u: "holds (key (chain ! (n + 1))) u" ..
    obtain new where new: "bucket_assign (chain ! (n + 1)) b = Inr new" "holds (key new) s"
        "bvalue new = v" using b(3) by (auto intro: bucket_assign_holds [OF b(2) u])
    define ch where "ch = chain[n + 1 := new]"
    define ch' where "ch' = ch[0 := (ch ! 0)\<lparr>count := (n + 1) mod 256\<rparr>]"
    define t' where "t' = t\<lparr>buckets := (buckets t)[h := ch']\<rparr>"
    have ch0: "ch ! 0 = chain ! 0" by (simp add: ch_def)
    have cnt: "count (ch' ! 0) = n + 1"
      using n1 c5 by (simp add: ch'_def ch_def CHAINSIZE_def)
    have ins: "insert_hashed sz t ck v = Inr t'"
      using h(2) len True b(1) new(1) n1 c5 ck
      by (simp add: insert_hashed_def Let_def gh bt t'_def ch'_def ch_def)
    have "\<exists>u. holds (key x) u" if "x \<in> set ch'" for x
    proof -
      have "x = (ch ! 0)\<lparr>count := (n + 1) mod 256\<rparr> \<or> x = new \<or> x \<in> set chain"
        using that by (auto simp: ch'_def ch_def dest!: set_update_subset_insert [THEN subsetD])
      moreover have "chain ! 0 \<in> set chain" using c5 by simp
      ultimately show ?thesis using hs new(2) ch0 by auto
    qed
    then have okc: "chain_ok True ch'" using cnt n1 c5 by (simp add: chain_ok_def ch'_def ch_def)
    have "wf_table sz t'" using len oks okc True h(2)
      by (auto simp: wf_table_def t'_def nth_list_update)
    moreover have "entries t' h = entries t h @ [(s, v)]"
    proof -
      have "ch \<noteq> []" using c5 by (auto simp: ch_def)
      then have "map bucket_entry ch' = (map bucket_entry chain)[n + 1 := (s, v)]"
        using new(2,3) unfolding ch'_def by (simp add: map_entry_count) 
          (simp add: ch_def map_entry_update bucket_entry_def)
      then have "take (n + 2) (map bucket_entry ch') = take (n + 1) (map bucket_entry chain) @ [(s, v)]"
        using n1 c5 take_update_Suc [of "Suc n" "map bucket_entry chain" "(s, v)"] by simp
      then show ?thesis using len h(2) True cnt
        by (simp add: entries_def t'_def take_map chain_def [symmetric] n_def [symmetric])
    qed
    moreover have "\<forall>h'. h' \<noteq> h \<longrightarrow> entries t' h' = entries t h'"
      by (simp add: entries_def t'_def)
    ultimately show ?thesis using ins by (auto simp: t'_def)
  next
    case False
    have e0: "entries t h = []" using False by (simp add: entries_def)
    have k0: "holds (key (chain ! 0)) []" "n = 0" using ok False by (simp_all add: chain_ok_def n_def)
    obtain new where new: "bucket_assign (chain ! 0) b = Inr new" "holds (key new) s"
        "bvalue new = v" "count new = 0"
      using b(3) k0(2) n_def by (auto intro: bucket_assign_holds [OF b(2) k0(1)])
    define t' where "t' = t\<lparr>marked := (marked t)[h := True], buckets := (buckets t)[h := chain[0 := new]]\<rparr>"
    have ins: "insert_hashed sz t ck v = Inr t'"
      using h(2) len False b(1) new(1) c5 ck
      by (simp add: insert_hashed_def Let_def gh bt t'_def)
    have "\<exists>u. holds (key x) u" if "x \<in> set (chain[0 := new])" for x
      using that hs new(2) by (auto dest!: set_update_subset_insert [THEN subsetD])
    then have okc: "chain_ok True (chain[0 := new])" using c5 new(4) by (simp add: chain_ok_def)
    have "wf_table sz t'" using len oks okc h(2)
      by (auto simp: wf_table_def t'_def nth_list_update)
    moreover have "take 1 (chain[0 := new]) = [new]" using c5 by (cases chain) auto
    then have "entries t' h = [(s, v)]"
      using len h(2) c5 new by (simp add: entries_def t'_def bucket_entry_def)
    moreover have "\<forall>h'. h' \<noteq> h \<longrightarrow> entries t' h' = entries t h'"
      by (simp add: entries_def t'_def)
    ultimately show ?thesis using ins e0 by (auto simp: t'_def)
  qed
qed

text \<open>The faults of an insertion: an index past the buckets, or a full chain.\<close>

lemma insert_hashed_bad_index:
  assumes "length (buckets t) \<le> getStringHash (cstr ck) (table_scale sz)"
  shows "insert_hashed sz t ck v = Inl OutOfBounds"
  using assms by (simp add: insert_hashed_def Let_def)

lemma insert_hashed_full:
  assumes wf: "wf_table sz t" and ck: "holds ck s"
    and h: "h = getStringHash s (table_scale sz)" "h < sz"
    and full: "length (entries t h) = CHAINSIZE"
  shows "insert_hashed sz t ck v = Inl OutOfBounds"
proof -
  obtain b where b: "Bucket ck v = Inr b" by (rule Bucket_holds [OF ck])
  have gh: "getStringHash s (table_scale sz) = h" using h(1) by simp
  have m: "marked t ! h" "count (buckets t ! h ! 0) + 1 = CHAINSIZE"
    using length_entries(1) [OF wf h(2)] full by (auto simp: CHAINSIZE_def split: if_splits)
  have l: "length (buckets t) = sz" "length (marked t) = sz" "length (buckets t ! h) = CHAINSIZE"
    using wf h(2) by (auto simp: wf_table_def chain_ok_def)
  show ?thesis
    using l m b h(2) ck by (simp add: insert_hashed_def Let_def gh CHAINSIZE_def)
qed

section \<open>Lookup\<close>

definition matching_entries :: "string \<Rightarrow> (string \<times> 'v) list \<Rightarrow> 'v option" where
  "matching_entries k es = map_option snd (find (\<lambda>e. prefix k (fst e)) es)"

lemma matching_simps [simp]:
  "matching_entries k [] = None"
  "matching_entries k (e # es) = (if prefix k (fst e) then Some (snd e) else matching_entries k es)"
  by (simp_all add: matching_entries_def)

lemma matching_append:
  "matching_entries k (es @ fs) = (case matching_entries k es of None \<Rightarrow> matching_entries k fs | Some v \<Rightarrow> Some v)"
  by (induction es) simp_all

lemma get_loop_entries:
  assumes "\<forall>b \<in> set bs. \<exists>s. holds (key b) s" and "holds nk k" and "i \<le> n" and "n - i < length bs"
  shows "get_loop nk n bs i = matching_entries k (map bucket_entry (take (n - i + 1) bs))"
  using assms
proof (induction bs arbitrary: i)
  case (Cons b bs)
  from Cons.prems(1) obtain s where s: "holds (key b) s" by auto
  have m: "keys_match nk (key b) \<longleftrightarrow> prefix k s" using keys_match_holds [OF Cons.prems(2) s] .
  have e: "bucket_entry b = (s, bvalue b)" using s by (simp add: bucket_entry_def)
  show ?case
  proof (cases "n = i")
    case True
    then show ?thesis using m e by simp
  next
    case False
    then have "get_loop nk n bs (i + 1) = matching_entries k (map bucket_entry (take (n - (i + 1) + 1) bs))"
      using Cons.prems by (intro Cons.IH) auto
    moreover have "n - (i + 1) + 1 = n - i" using False Cons.prems(3) by simp
    ultimately show ?thesis using m e False by (simp add: take_Cons')
  qed
qed simp

lemma get_entries:
  assumes wf: "wf_table sz t" and k: "good_key k"
  shows "get sz t k = Inr (if table_hash sz k < sz
    then matching_entries (despace k) (entries t (table_hash sz k)) else None)"
proof -
  define h where "h = table_hash sz k"
  obtain nk where nk: "remSpaces (k @ [NUL]) = Inr nk" "holds nk (despace k)"
    using k by (auto simp: good_key_def intro: remSpaces_holds)
  have gh: "getStringHash (despace k) (table_scale sz) = h" by (simp add: h_def table_hash_def)
  show ?thesis
  proof (cases "h < sz")
    case False
    then show ?thesis using nk gh by (simp add: get_def Let_def h_def [symmetric])
  next
    case True
    define chain where "chain = buckets t ! h"
    define n where "n = count (chain ! 0)"
    have l: "length (buckets t) = sz" "length (marked t) = sz" and ok: "chain_ok (marked t ! h) chain"
      using wf True by (auto simp: wf_table_def chain_def)
    have c5: "length chain = CHAINSIZE" "n < CHAINSIZE" "0 < CHAINSIZE"
      using ok by (simp_all add: chain_ok_def n_def CHAINSIZE_def)
    have g: "get sz t k = Inr (get_loop nk n chain 0)"
      using nk gh True l c5 by (simp add: get_def Let_def chain_def [symmetric] n_def [symmetric])
    have "get_loop nk n chain 0 = matching_entries (despace k) (map bucket_entry (take (n + 1) chain))"
      using get_loop_entries [of chain nk "despace k" 0 n] ok nk(2) c5 by (simp add: chain_ok_def)
    also have "\<dots> = matching_entries (despace k) (entries t h)"
    proof (cases "marked t ! h")
      case True
      then show ?thesis using \<open>h < sz\<close> l
        by (simp add: entries_def chain_def [symmetric] n_def [symmetric])
    next
      case False
      then have "n = 0" "cstr (key (chain ! 0)) = []"
        using ok by (simp_all add: chain_ok_def n_def)
      moreover have "take 1 chain = [chain ! 0]" using c5 by (cases chain) auto
      ultimately show ?thesis using False k
        by (simp add: entries_def bucket_entry_def good_key_def prefix_Nil)
    qed
    finally show ?thesis using g True by (simp add: h_def [symmetric])
  qed
qed

lemma get_empty_key:
  assumes "wf_table sz t" and "nul_free k" and "despace k = []" and "table_hash sz k < sz"
  shows "\<exists>b. buckets t ! table_hash sz k ! 0 = b \<and> get sz t k = Inr (Some (bvalue b))"
proof -
  let ?chain = "buckets t ! table_hash sz k"
  obtain nk where nk: "remSpaces (k @ [NUL]) = Inr nk" "holds nk []"
    using remSpaces_holds [OF assms(2)] assms(3) by (auto simp: MAX_CHAR_SIZE_def)
  have ok: "chain_ok (marked t ! table_hash sz k) ?chain" and l: "length (buckets t) = sz"
    using assms(1,4) by (auto simp: wf_table_def)
  then obtain b bs where ch: "?chain = b # bs" by (cases ?chain) (auto simp: chain_ok_def CHAINSIZE_def)
  obtain s where "holds (key b) s" using ok ch by (auto simp: chain_ok_def)
  then have "keys_match nk (key b)" using keys_match_holds [OF nk(2)] by simp
  moreover have "getStringHash [] (table_scale sz) = table_hash sz k"
    using assms(3) by (simp add: table_hash_def)
  ultimately show ?thesis using nk ch l assms(4) by (simp add: get_def Let_def)
qed

end
