(* ===== verification/HashTableContract.thy ===== *)
theory HashTableContract
  imports HashTableSpec
begin

text \<open>
  The interface the rest of the configurator uses a \<open>StrHashTable\<close> through, as a
  locale, its interpretation for \<open>add\<close> and for the loop body of \<open>setup()\<close>, and the
  properties of tables built by them.
\<close>

section \<open>The contract\<close>

text \<open>
  \<open>clash k k'\<close>: a lookup of \<open>k\<close> accepts the entry stored for \<open>k'\<close>. \<open>room t n\<close>:
  \<open>n\<close> more insertions are not dropped.
\<close>

locale string_table =
  fixes inv :: "'t \<Rightarrow> bool"
    and room :: "'t \<Rightarrow> nat \<Rightarrow> bool"
    and good :: "string \<Rightarrow> bool"
    and clash :: "string \<Rightarrow> string \<Rightarrow> bool"
    and ins :: "'t \<Rightarrow> string \<times> 'v \<Rightarrow> 't res"
    and look :: "'t \<Rightarrow> string \<Rightarrow> 'v option res"
  assumes look_total: "inv t \<Longrightarrow> good k \<Longrightarrow> \<exists>r. look t k = Inr r"
    and ins_inv: "inv t \<Longrightarrow> room t (Suc n) \<Longrightarrow> good (fst e) \<Longrightarrow> ins t e = Inr t' \<Longrightarrow> inv t' \<and> room t' n"
    and look_ins: "inv t \<Longrightarrow> room t (Suc n) \<Longrightarrow> good (fst e) \<Longrightarrow> good k \<Longrightarrow> ins t e = Inr t' \<Longrightarrow>
      look t k = Inr r \<Longrightarrow>
      look t' k = Inr (case r of Some w \<Rightarrow> Some w
        | None \<Rightarrow> if clash k (fst e) then Some (snd e) else None)"
begin

lemma ins_all_inv:
  "inv t \<Longrightarrow> room t (length es) \<Longrightarrow> \<forall>e \<in> set es. good (fst e) \<Longrightarrow> foldE ins t es = Inr t' \<Longrightarrow> inv t'"
proof (induction es arbitrary: t)
  case (Cons e es)
  from Cons.prems(4) obtain u where u: "ins t e = Inr u" "foldE ins u es = Inr t'"
    by (auto simp: bindE_eq_Inr)
  have g: "good (fst e)" "\<forall>e \<in> set es. good (fst e)" "room t (Suc (length es))"
    using Cons.prems(2,3) by simp_all
  from ins_inv [OF Cons.prems(1) g(3,1) u(1)] have "inv u" "room u (length es)" by simp_all
  then show ?case using g(2) u(2) by (rule Cons.IH)
qed simp

text \<open>Looking up after a run of insertions: an old entry wins, then the first match.\<close>

lemma look_ins_all:
  assumes "inv t" and "room t (length es)" and "\<forall>e \<in> set es. good (fst e)" and "good k"
    and "foldE ins t es = Inr t'" and "look t k = Inr r"
  shows "look t' k = Inr (case r of Some w \<Rightarrow> Some w
    | None \<Rightarrow> map_option snd (find (\<lambda>e. clash k (fst e)) es))"
  using assms
proof (induction es arbitrary: t r)
  case Nil
  then show ?case by (cases r) simp_all
next
  case (Cons e es)
  from Cons.prems(5) obtain u where u: "ins t e = Inr u" "foldE ins u es = Inr t'"
    by (auto simp: bindE_eq_Inr)
  have g: "good (fst e)" "\<forall>e \<in> set es. good (fst e)" "room t (Suc (length es))"
    using Cons.prems(2,3) by simp_all
  from ins_inv [OF Cons.prems(1) g(3,1) u(1)] have iu: "inv u" "room u (length es)" by simp_all
  from Cons.IH [OF iu g(2) Cons.prems(4) u(2)
      look_ins [OF Cons.prems(1) g(3,1) Cons.prems(4) u(1) Cons.prems(6)]]
  show ?case by (cases r) simp_all
qed

lemma look_member:
  assumes "inv t" and "room t (length es)" and "\<forall>e \<in> set es. good (fst e)"
    and "foldE ins t es = Inr t'" and "look t k = Inr None"
    and "(k, v) \<in> set es" and "\<forall>e \<in> set es. clash k (fst e) \<longrightarrow> snd e = v" and "clash k k"
  shows "look t' k = Inr (Some v)"
proof -
  have "find (\<lambda>e. clash k (fst e)) es \<noteq> None"
    using assms(6,8) by (auto simp: find_None_iff)
  then obtain e where e: "find (\<lambda>e. clash k (fst e)) es = Some e" by auto
  then have "e \<in> set es" "clash k (fst e)"
    by (auto simp: find_Some_iff)
  moreover have "good k" using assms(3,6) by auto
  ultimately show ?thesis using look_ins_all [OF assms(1-3) _ assms(4,5)] e assms(7) by auto
qed

end

section \<open>One insertion\<close>

definition insert_key :: "nat \<Rightarrow> 'v str_hash_table \<Rightarrow> string \<Rightarrow> 'v \<Rightarrow> 'v str_hash_table res" where
  "insert_key sz t k v = bindE (remSpaces (k @ [NUL])) (\<lambda>ck. insert_hashed sz t ck v)"

lemma insert_key_ok:
  assumes "wf_table sz t" and "good_key k" and "table_hash sz k < sz"
    and "length (entries t (table_hash sz k)) < CHAINSIZE"
  obtains t' where "insert_key sz t k v = Inr t'" and "wf_table sz t'"
    and "bucketCount t' = bucketCount t"
    and "\<And>h. entries t' h = entries t h @ (if h = table_hash sz k then [(despace k, v)] else [])"
proof -
  obtain ck where ck: "remSpaces (k @ [NUL]) = Inr ck" "holds ck (despace k)"
    using assms(2) by (auto simp: good_key_def intro: remSpaces_holds)
  have h: "table_hash sz k = getStringHash (despace k) (table_scale sz)" by (simp add: table_hash_def)
  obtain t' where t': "insert_hashed sz t ck v = Inr t'" "wf_table sz t'" "bucketCount t' = bucketCount t"
      "entries t' (table_hash sz k) = entries t (table_hash sz k) @ [(despace k, v)]"
      "\<forall>h'. h' \<noteq> table_hash sz k \<longrightarrow> entries t' h' = entries t h'"
    using insert_hashed_ok [OF assms(1) ck(2) h assms(3,4), of v] by blast
  show thesis by (rule that [of t']) (use t' ck(1) in \<open>auto simp: insert_key_def\<close>)
qed

lemma insert_key_fault:
  assumes "wf_table sz t" and "good_key k"
    and "sz \<le> table_hash sz k \<or> length (entries t (table_hash sz k)) = CHAINSIZE"
  shows "insert_key sz t k v = Inl OutOfBounds"
proof -
  obtain ck where ck: "remSpaces (k @ [NUL]) = Inr ck" "holds ck (despace k)"
    using assms(2) by (auto simp: good_key_def intro: remSpaces_holds)
  have h: "table_hash sz k = getStringHash (despace k) (table_scale sz)" by (simp add: table_hash_def)
  show ?thesis
  proof (cases "sz \<le> table_hash sz k")
    case True
    then show ?thesis using insert_hashed_bad_index [of t ck sz v] ck h assms(1)
      by (simp add: insert_key_def wf_table_def)
  next
    case False
    then show ?thesis using insert_hashed_full [OF assms(1) ck(2) h, of v] assms(3) ck(1)
      by (simp add: insert_key_def)
  qed
qed

lemma insert_key_InrD:
  assumes "wf_table sz t" and "good_key k" and "insert_key sz t k v = Inr t'"
  shows "table_hash sz k < sz" and "wf_table sz t'" and "bucketCount t' = bucketCount t"
    and "entries t' h = entries t h @ (if h = table_hash sz k then [(despace k, v)] else [])"
    and "length (entries t (table_hash sz k)) < CHAINSIZE"
proof -
  have nf: "\<not> (sz \<le> table_hash sz k \<or> length (entries t (table_hash sz k)) = CHAINSIZE)"
    using insert_key_fault [OF assms(1,2), of v] assms(3) by auto
  then show hs: "table_hash sz k < sz" by simp
  show len: "length (entries t (table_hash sz k)) < CHAINSIZE"
    using nf length_entries(2) [OF assms(1) hs] by simp
  from insert_key_ok [OF assms(1,2) hs len, of v] assms(3)
  show "wf_table sz t'" "bucketCount t' = bucketCount t"
    "entries t' h = entries t h @ (if h = table_hash sz k then [(despace k, v)] else [])"
    by (metis sum.inject(2))+
qed

lemma insert_key_bucketCount:
  "insert_key sz (t\<lparr>bucketCount := n\<rparr>) k v
   = map_sum id (\<lambda>t'. t'\<lparr>bucketCount := n\<rparr>) (insert_key sz t k v)"
proof -
  have "insert_hashed sz (t\<lparr>bucketCount := n\<rparr>) ck v
      = map_sum id (\<lambda>t'. t'\<lparr>bucketCount := n\<rparr>) (insert_hashed sz t ck v)" for ck
    by (simp add: insert_hashed_def Let_def bindE_def split: sum.splits)
  then show ?thesis by (simp add: insert_key_def bindE_def split: sum.splits)
qed

section \<open>The two ways to fill a table\<close>

definition add_entry :: "nat \<Rightarrow> 'v str_hash_table \<Rightarrow> string \<times> 'v \<Rightarrow> 'v str_hash_table res" where
  "add_entry sz t e = add sz t (fst e) (snd e)"

definition setup_entry :: "nat \<Rightarrow> 'v str_hash_table \<Rightarrow> string \<times> 'v \<Rightarrow> 'v str_hash_table res" where
  "setup_entry sz t e =
     bindE (insert_key sz t (fst e) (snd e)) (\<lambda>t'. Inr (t'\<lparr>bucketCount := bucketCount t' + 1\<rparr>))"

lemma setup_loop_foldE: "setup_loop sz t es = foldE (setup_entry sz) t es"
  by (induction sz t es rule: setup_loop.induct)
    (auto simp: setup_entry_def insert_key_def bindE_def split: sum.splits)

lemma add_insert_key:
  "add sz t k v = (if bucketCount t + 1 < sz
     then insert_key sz (t\<lparr>bucketCount := bucketCount t + 1\<rparr>) k v
     else Inr (t\<lparr>bucketCount := bucketCount t + 1\<rparr>))"
  by (simp add: add_def insert_key_def)

definition table_room :: "nat \<Rightarrow> 'v str_hash_table \<Rightarrow> nat \<Rightarrow> bool" where
  "table_room sz t n = (bucketCount t + n < sz)"

definition table_clash :: "nat \<Rightarrow> string \<Rightarrow> string \<Rightarrow> bool" where
  "table_clash sz k k' = (table_hash sz k = table_hash sz k' \<and> prefix (despace k) (despace k'))"

lemma get_after_insert:
  assumes "wf_table sz t" and "good_key (fst e)" and "good_key k"
    and "insert_key sz t (fst e) (snd e) = Inr t'" and "get sz t k = Inr r"
  shows "get sz (t'\<lparr>bucketCount := n\<rparr>) k = Inr (case r of Some w \<Rightarrow> Some w
    | None \<Rightarrow> if table_clash sz k (fst e) then Some (snd e) else None)"
proof -
  note d = insert_key_InrD [OF assms(1,2,4)]
  have wf': "wf_table sz (t'\<lparr>bucketCount := n\<rparr>)" using d(2) by simp
  show ?thesis
    using get_entries [OF assms(1,3)] get_entries [OF wf' assms(3)] assms(5) d(1)
    by (auto simp: d(4) matching_append table_clash_def split: option.splits if_splits)
qed

lemma get_bucketCount [simp]: "get sz (t\<lparr>bucketCount := n\<rparr>) k = get sz t k"
  by (simp add: get_def Let_def cong: if_cong)

interpretation add_table: string_table "wf_table sz" "table_room sz" good_key "table_clash sz"
  "add_entry sz" "get sz" for sz
proof unfold_locales
  fix t :: "'v str_hash_table" and k
  assume "wf_table sz t" "good_key k"
  then show "\<exists>r. get sz t k = Inr r" by (simp add: get_entries)
next
  fix t t' :: "'v str_hash_table" and n e
  assume a: "wf_table sz t" "table_room sz t (Suc n)" "good_key (fst e)" "add_entry sz t e = Inr t'"
  then have "insert_key sz (t\<lparr>bucketCount := bucketCount t + 1\<rparr>) (fst e) (snd e) = Inr t'"
    by (simp add: add_entry_def add_insert_key table_room_def)
  from insert_key_InrD [OF _ a(3) this] a(1,2) show "wf_table sz t' \<and> table_room sz t' n"
    by (simp add: table_room_def)
next
  fix t t' :: "'v str_hash_table" and n e k r
  assume a: "wf_table sz t" "table_room sz t (Suc n)" "good_key (fst e)" "good_key k"
    "add_entry sz t e = Inr t'" "get sz t k = Inr r"
  let ?t = "t\<lparr>bucketCount := bucketCount t + 1\<rparr>"
  have i: "insert_key sz ?t (fst e) (snd e) = Inr t'"
    using a by (simp add: add_entry_def add_insert_key table_room_def)
  have g: "get sz ?t k = Inr r" using a(6) by simp
  have "t'\<lparr>bucketCount := bucketCount t'\<rparr> = t'" by simp
  with get_after_insert [OF _ a(3,4) i g, of "bucketCount t'"] a(1)
  show "get sz t' k = Inr (case r of Some w \<Rightarrow> Some w
      | None \<Rightarrow> if table_clash sz k (fst e) then Some (snd e) else None)"
    by simp
qed

interpretation setup_table: string_table "wf_table sz" "\<lambda>_ _. True" good_key "table_clash sz"
  "setup_entry sz" "get sz" for sz
proof unfold_locales
  fix t :: "'v str_hash_table" and k
  assume "wf_table sz t" "good_key k"
  then show "\<exists>r. get sz t k = Inr r" by (simp add: get_entries)
next
  fix t t' :: "'v str_hash_table" and n :: nat and e
  assume "wf_table sz t" "good_key (fst e)" "setup_entry sz t e = Inr t'"
  then show "wf_table sz t' \<and> True"
    by (auto simp: setup_entry_def bindE_eq_Inr dest: insert_key_InrD(2))
next
  fix t t' :: "'v str_hash_table" and n :: nat and e k r
  assume a: "wf_table sz t" "good_key (fst e)" "good_key k"
    "setup_entry sz t e = Inr t'" "get sz t k = Inr r"
  then obtain u where "insert_key sz t (fst e) (snd e) = Inr u" "t' = u\<lparr>bucketCount := bucketCount u + 1\<rparr>"
    by (auto simp: setup_entry_def bindE_eq_Inr)
  with get_after_insert [OF a(1-3) _ a(5), of u]
  show "get sz t' k = Inr (case r of Some w \<Rightarrow> Some w
      | None \<Rightarrow> if table_clash sz k (fst e) then Some (snd e) else None)"
    by simp
qed

section \<open>Building a table\<close>

text \<open>
  A list of entries can be filed when every index is inside the table and no chain gets
  more than five entries.
\<close>

definition fits_chains :: "nat \<Rightarrow> 'v str_hash_table \<Rightarrow> (string \<times> 'v) list \<Rightarrow> bool" where
  "fits_chains sz t es =
     ((\<forall>e \<in> set es. good_key (fst e) \<and> table_hash sz (fst e) < sz) \<and>
      (\<forall>h. length (entries t h) + length (filter (\<lambda>e. table_hash sz (fst e) = h) es) \<le> CHAINSIZE))"

lemma fits_chains_ConsD:
  assumes "fits_chains sz t (e # es)"
  shows "good_key (fst e)" and "table_hash sz (fst e) < sz"
    and "length (entries t (table_hash sz (fst e))) < CHAINSIZE"
    and "(\<And>h. entries t' h = entries t h @ (if h = table_hash sz (fst e) then [x] else []))
      \<Longrightarrow> fits_chains sz t' es"
proof -
  show "good_key (fst e)" "table_hash sz (fst e) < sz"
    using assms by (simp_all add: fits_chains_def)
  have "length (entries t (table_hash sz (fst e)))
      + length (filter (\<lambda>e'. table_hash sz (fst e') = table_hash sz (fst e)) (e # es)) \<le> CHAINSIZE"
    using assms unfolding fits_chains_def by blast
  then show "length (entries t (table_hash sz (fst e))) < CHAINSIZE" by simp
next
  assume e: "\<And>h. entries t' h = entries t h @ (if h = table_hash sz (fst e) then [x] else [])"
  have l: "length (entries t' h) + length (filter (\<lambda>e. table_hash sz (fst e) = h) es)
      = length (entries t h) + length (filter (\<lambda>e. table_hash sz (fst e) = h) (e # es))" for h
    by (simp add: e)
  show "fits_chains sz t' es"
    using assms unfolding fits_chains_def l by auto
qed

lemma add_builds:
  assumes "wf_table sz t" and "table_room sz t (length es)" and "fits_chains sz t es"
  shows "\<exists>t'. foldE (add_entry sz) t es = Inr t'"
  using assms
proof (induction es arbitrary: t)
  case (Cons e es)
  let ?t = "t\<lparr>bucketCount := bucketCount t + 1\<rparr>"
  note f = fits_chains_ConsD [OF Cons.prems(3)]
  obtain u where u: "insert_key sz ?t (fst e) (snd e) = Inr u" "wf_table sz u"
      "bucketCount u = bucketCount ?t"
      "\<And>h. entries u h = entries t h @ (if h = table_hash sz (fst e) then [(despace (fst e), snd e)] else [])"
    using insert_key_ok [of sz ?t "fst e" "snd e"] Cons.prems(1) f(1,2,3) by (metis entries_bucketCount wf_bucketCount)
  have "add_entry sz t e = Inr u"
    using u(1) Cons.prems(2) by (simp add: add_entry_def add_insert_key table_room_def)
  moreover have "table_room sz u (length es)"
    using u(3) Cons.prems(2) by (simp add: table_room_def)
  ultimately show ?case using Cons.IH [OF u(2) _ f(4) [OF u(4)]] by simp
qed simp

lemma setup_builds:
  assumes "wf_table sz t" and "fits_chains sz t es"
  shows "\<exists>t'. foldE (setup_entry sz) t es = Inr t'"
  using assms
proof (induction es arbitrary: t)
  case (Cons e es)
  note f = fits_chains_ConsD [OF Cons.prems(2)]
  obtain u where u: "insert_key sz t (fst e) (snd e) = Inr u" "wf_table sz u"
      "\<And>h. entries u h = entries t h @ (if h = table_hash sz (fst e) then [(despace (fst e), snd e)] else [])"
    using insert_key_ok [of sz t "fst e" "snd e"] Cons.prems(1) f(1,2,3) by metis
  let ?u = "u\<lparr>bucketCount := bucketCount u + 1\<rparr>"
  have "setup_entry sz t e = Inr ?u" using u(1) by (simp add: setup_entry_def)
  moreover have "wf_table sz ?u" using u(2) by simp
  moreover have "fits_chains sz ?u es"
    by (rule f(4)) (simp add: u(3))
  ultimately show ?case using Cons.IH [of ?u] by simp
qed simp

lemma get_fresh: "good_key k \<Longrightarrow> get sz (StrHashTable sz v0) k = Inr None"
  by (simp add: get_entries [OF wf_StrHashTable])

lemma table_clash_refl [simp]: "table_clash sz k k"
  by (simp add: table_clash_def)

text \<open>The chain condition, to check on a concrete list of entries.\<close>

lemma fits_chainsI:
  assumes "\<forall>e \<in> set es. good_key (fst e)"
    and "\<forall>h \<in> set (map (\<lambda>e. table_hash sz (fst e)) es).
      h < sz \<and> length (filter (\<lambda>h'. h' = h) (map (\<lambda>e. table_hash sz (fst e)) es)) \<le> CHAINSIZE"
  shows "fits_chains sz (StrHashTable sz v0) es"
proof -
  have "length (filter (\<lambda>e. table_hash sz (fst e) = h) es) \<le> CHAINSIZE" for h
  proof (cases "h \<in> set (map (\<lambda>e. table_hash sz (fst e)) es)")
    case True
    then show ?thesis using assms(2) by (auto simp: filter_map comp_def)
  next
    case False
    then have "filter (\<lambda>e. table_hash sz (fst e) = h) es = []" by (auto simp: filter_empty_conv)
    then show ?thesis by simp
  qed
  then show ?thesis using assms by (auto simp: fits_chains_def)
qed

lemma table_holds_all:
  assumes "length es < sz" and "fits_chains sz (StrHashTable sz v0) es"
    and "\<forall>(k, v) \<in> set es. \<forall>(k', v') \<in> set es. table_clash sz k k' \<longrightarrow> v' = v"
  shows "\<exists>t. foldE (add_entry sz) (StrHashTable sz v0) es = Inr t \<and>
    (\<forall>(k, v) \<in> set es. get sz t k = Inr (Some v))"
proof -
  let ?t0 = "StrHashTable sz v0"
  have room: "table_room sz ?t0 (length es)"
    using assms(1) by (simp add: table_room_def StrHashTable_def)
  have good: "\<forall>e \<in> set es. good_key (fst e)" using assms(2) by (simp add: fits_chains_def)
  obtain t where t: "foldE (add_entry sz) ?t0 es = Inr t"
    using add_builds [OF wf_StrHashTable room assms(2)] by blast
  have "get sz t k = Inr (Some v)" if kv: "(k, v) \<in> set es" for k v
  proof (rule add_table.look_member [OF wf_StrHashTable room good t _ kv])
    have "good_key k" using good kv by auto
    then show "get sz ?t0 k = Inr None" by (rule get_fresh)
    show "\<forall>e \<in> set es. table_clash sz k (fst e) \<longrightarrow> snd e = v" using assms(3) kv by fastforce
  qed simp
  with t show ?thesis by auto
qed

lemma setup_holds_all:
  assumes "fits_chains sz (StrHashTable sz v0) es"
    and "\<forall>(k, v) \<in> set es. \<forall>(k', v') \<in> set es. table_clash sz k k' \<longrightarrow> v' = v"
  shows "\<exists>t. setup_table sz v0 es = Inr t \<and> (\<forall>(k, v) \<in> set es. get sz t k = Inr (Some v))"
proof -
  let ?t0 = "StrHashTable sz v0"
  have good: "\<forall>e \<in> set es. good_key (fst e)" using assms(1) by (simp add: fits_chains_def)
  obtain t where t: "foldE (setup_entry sz) ?t0 es = Inr t"
    using setup_builds [OF wf_StrHashTable assms(1)] by blast
  have "get sz t k = Inr (Some v)" if kv: "(k, v) \<in> set es" for k v
  proof (rule setup_table.look_member [OF wf_StrHashTable _ good t _ kv])
    have "good_key k" using good kv by auto
    then show "get sz ?t0 k = Inr None" by (rule get_fresh)
    show "\<forall>e \<in> set es. table_clash sz k (fst e) \<longrightarrow> snd e = v" using assms(2) kv by fastforce
  qed simp_all
  with t show ?thesis by (auto simp: setup_table_def setup_loop_foldE)
qed

text \<open>A check of the clash condition that computes each index once.\<close>

fun clash_free :: "(nat \<times> string) list \<Rightarrow> bool" where
  "clash_free [] = True"
| "clash_free ((h, k) # es) =
     (list_all (\<lambda>(h', k'). h' = h \<longrightarrow> \<not> prefix k k' \<and> \<not> prefix k' k) es \<and> clash_free es)"

lemma clash_free_append:
  "clash_free (xs @ ys) \<longleftrightarrow> clash_free xs \<and> clash_free ys \<and>
    (\<forall>(h, k) \<in> set xs. \<forall>(h', k') \<in> set ys. h' = h \<longrightarrow> \<not> prefix k k' \<and> \<not> prefix k' k)"
  by (induction xs rule: clash_free.induct) (auto simp: list_all_iff)

lemma clash_free_ConsD:
  assumes "clash_free (map (\<lambda>e. (table_hash sz (fst e), despace (fst e))) (e # es))" and "e' \<in> set es"
  shows "\<not> table_clash sz (fst e) (fst e')" and "\<not> table_clash sz (fst e') (fst e)"
  using assms by (auto simp: table_clash_def list_all_iff)

lemma clash_free_values:
  assumes "clash_free (map (\<lambda>e. (table_hash sz (fst e), despace (fst e))) es)"
    and "e \<in> set es" and "e' \<in> set es" and "table_clash sz (fst e) (fst e')"
  shows "snd e' = snd e"
  using assms
proof (induction es)
  case (Cons x xs)
  note d = clash_free_ConsD [OF Cons.prems(1)]
  have cf: "clash_free (map (\<lambda>e. (table_hash sz (fst e), despace (fst e))) xs)"
    using Cons.prems(1) by simp
  consider "e = x" "e' = x" | "e = x" "e' \<in> set xs" | "e \<in> set xs" "e' = x"
    | "e \<in> set xs" "e' \<in> set xs"
    using Cons.prems(2,3) by auto
  then show ?case
    by cases (use d Cons.prems(4) Cons.IH [OF cf] in simp_all)
qed simp

lemma clash_free_table:
  assumes "clash_free (map (\<lambda>e. (table_hash sz (fst e), despace (fst e))) es)"
  shows "\<forall>(k, v) \<in> set es. \<forall>(k', v') \<in> set es. table_clash sz k k' \<longrightarrow> v' = v"
  using clash_free_values [OF assms] by fastforce

section \<open>The abstract table\<close>

text \<open>
  The specification is a partial map whose insertions never replace. \<open>abstracts\<close> relates a table to the
  map it stands for on a set of keys that do not shadow one another.
\<close>

definition keys_apart :: "nat \<Rightarrow> string set \<Rightarrow> bool" where
  "keys_apart sz K = (\<forall>k \<in> K. good_key k \<and> (\<forall>k' \<in> K. table_clash sz k k' \<longrightarrow> k = k'))"

definition abstracts :: "nat \<Rightarrow> string set \<Rightarrow> 'v str_hash_table \<Rightarrow> (string \<Rightarrow> 'v option) \<Rightarrow> bool" where
  "abstracts sz K t m = (wf_table sz t \<and> (\<forall>k \<in> K. get sz t k = Inr (m k)))"

definition map_insert :: "('k \<Rightarrow> 'v option) \<Rightarrow> 'k \<Rightarrow> 'v \<Rightarrow> 'k \<Rightarrow> 'v option" where
  "map_insert m k v = (if m k = None then m(k \<mapsto> v) else m)"

lemma abstracts_empty: "keys_apart sz K \<Longrightarrow> abstracts sz K (StrHashTable sz v0) Map.empty"
  by (simp add: abstracts_def keys_apart_def wf_StrHashTable get_fresh)

lemma abstracts_insert:
  assumes "keys_apart sz K" and "abstracts sz K t m" and "k \<in> K" and "insert_key sz t k v = Inr t'"
  shows "abstracts sz K (t'\<lparr>bucketCount := n\<rparr>) (map_insert m k v)"
proof -
  have good: "\<And>j. j \<in> K \<Longrightarrow> good_key j" using assms(1) by (simp add: keys_apart_def)
  have wf: "wf_table sz t" using assms(2) by (simp add: abstracts_def)
  have "wf_table sz t'" by (rule insert_key_InrD(2) [OF wf good [OF assms(3)] assms(4)])
  moreover have "get sz (t'\<lparr>bucketCount := n\<rparr>) j = Inr (map_insert m k v j)" if j: "j \<in> K" for j
  proof -
    have "get sz t j = Inr (m j)" using assms(2) j by (simp add: abstracts_def)
    from get_after_insert [OF wf, of "(k, v)" j t' "m j" n] good [OF assms(3)] good [OF j] assms(4) this
    have "get sz (t'\<lparr>bucketCount := n\<rparr>) j = Inr (case m j of Some w \<Rightarrow> Some w
        | None \<Rightarrow> if table_clash sz j k then Some v else None)" by (simp only: fst_conv snd_conv)
    moreover have "table_clash sz j k \<longleftrightarrow> j = k"
      using assms(1,3) j by (auto simp: keys_apart_def)
    ultimately show ?thesis by (auto simp: map_insert_def split: option.split)
  qed
  ultimately show ?thesis by (simp add: abstracts_def)
qed

section \<open>Properties\<close>

text \<open>
  C26. A table filled by \<open>add\<close> works as a map under the conditions the code silently
  needs: enough room, every index inside the table, at most five keys per index, and no
  key that is a prefix of another one with the same index. Then every insertion succeeds
  and every inserted key is found with its value.
\<close>

theorem table_lookup_inserted:
  assumes "length es < sz" and "fits_chains sz (StrHashTable sz v0) es"
    and "\<forall>(k, v) \<in> set es. \<forall>(k', v') \<in> set es. table_clash sz k k' \<longrightarrow> v' = v"
  shows "\<exists>t. foldE (add_entry sz) (StrHashTable sz v0) es = Inr t \<and>
    (\<forall>(k, v) \<in> set es. get sz t k = Inr (Some v))"
  using assms by (rule table_holds_all)

theorem table_lookup_inserted_witness:
  "\<exists>t. foldE (add_entry 255) (StrHashTable 255 0) [(''flags'', 1), (''sType'', 2)] = Inr t \<and>
    (\<forall>(k, v) \<in> set [(''flags'', 1), (''sType'', 2)]. get 255 t k = Inr (Some (v :: nat)))"
proof (rule table_lookup_inserted)
  have h: "table_hash 255 ''flags'' = 155" "table_hash 255 ''sType'' = 14"
    by (simp_all add: table_hash_def despace_def SPACE_def TAB_def table_scale_255 string_hash_eval)
  have g: "good_key ''flags''" "good_key ''sType''"
    by (simp_all add: good_key_def despace_def SPACE_def TAB_def NUL_def MAX_CHAR_SIZE_def)
  show "fits_chains 255 (StrHashTable 255 (0 :: nat)) [(''flags'', 1), (''sType'', 2)]"
    by (rule fits_chainsI) (simp_all add: h g CHAINSIZE_def)
  show "\<forall>(k, v) \<in> set [(''flags'', 1), (''sType'', 2 :: nat)].
      \<forall>(k', v') \<in> set [(''flags'', 1), (''sType'', 2)]. table_clash 255 k k' \<longrightarrow> v' = v"
    by (simp add: table_clash_def h)
qed simp

text \<open>
  C32. The table refines a partial map, on keys that do not shadow one another: the empty table stands for the empty
  map, and \<open>add\<close>, while there is room, for an insertion that keeps the value of a key already there.
\<close>

theorem table_refines_map:
  assumes "keys_apart sz K"
  shows "abstracts sz K (StrHashTable sz v0) Map.empty \<and>
    (\<forall>t m k v t'. abstracts sz K t m \<and> k \<in> K \<and> bucketCount t + 1 < sz \<and> add sz t k v = Inr t' \<longrightarrow>
       abstracts sz K t' (map_insert m k v))"
proof (intro conjI allI impI)
  fix t t' :: "'v str_hash_table" and m k v
  assume a: "abstracts sz K t m \<and> k \<in> K \<and> bucketCount t + 1 < sz \<and> add sz t k v = Inr t'"
  let ?t = "t\<lparr>bucketCount := bucketCount t + 1\<rparr>"
  have "abstracts sz K ?t m" using a by (simp add: abstracts_def)
  moreover have "insert_key sz ?t k v = Inr t'" using a unfolding add_insert_key by presburger
  moreover have "k \<in> K" using a by (elim conjE)
  ultimately have "abstracts sz K (t'\<lparr>bucketCount := bucketCount t'\<rparr>) (map_insert m k v)"
    by (intro abstracts_insert [OF assms, of ?t m k v])
  then show "abstracts sz K t' (map_insert m k v)" by simp
qed (rule abstracts_empty [OF assms])

theorem table_refines_map_witness:
  "\<exists>t. add 255 (StrHashTable 255 0) ''flags'' (7 :: nat) = Inr t \<and>
    abstracts 255 {''flags'', ''sType''} t [''flags'' \<mapsto> 7]"
proof -
  let ?e = "StrHashTable 255 (0 :: nat)" and ?K = "{''flags'', ''sType''}"
  have h: "table_hash 255 ''flags'' = 155" "table_hash 255 ''sType'' = 14"
    by (simp_all add: table_hash_def despace_def SPACE_def TAB_def table_scale_255 string_hash_eval)
  have g: "good_key ''flags''" "good_key ''sType''"
    by (simp_all add: good_key_def despace_def SPACE_def TAB_def NUL_def MAX_CHAR_SIZE_def)
  have K: "keys_apart 255 ?K" using g by (simp add: keys_apart_def table_clash_def h)
  note r = table_refines_map [OF K, of "0 :: nat"]
  have wf: "wf_table 255 (?e\<lparr>bucketCount := 1\<rparr>)" by (simp add: wf_StrHashTable)
  have len: "length (entries (?e\<lparr>bucketCount := 1\<rparr>) (table_hash 255 ''flags'')) < CHAINSIZE"
    by (simp add: entries_StrHashTable CHAINSIZE_def)
  obtain t where t: "insert_key 255 (?e\<lparr>bucketCount := 1\<rparr>) ''flags'' (7 :: nat) = Inr t"
    using insert_key_ok [OF wf g(1) _ len, of 7] h(1) by auto
  have c: "bucketCount ?e = 0" by (simp add: StrHashTable_def)
  have add: "add 255 ?e ''flags'' 7 = Inr t" unfolding add_insert_key c using t by simp
  have "abstracts 255 ?K t (map_insert Map.empty ''flags'' 7)"
    by (rule r [THEN conjunct2, rule_format, of ?e]) (simp add: r [THEN conjunct1] add c)
  then show ?thesis using add by (intro exI [of _ t]) (simp add: map_insert_def)
qed

text \<open>
  What \<open>add\<close> does in every case: with no room it only counts, with an index outside
  the table or a full chain it writes outside an array, and otherwise it files the entry
  last under its index and leaves every other chain alone.
\<close>

theorem add_outcome:
  assumes "wf_table sz t" and "good_key k"
  shows "(sz \<le> bucketCount t + 1 \<longrightarrow> add sz t k v = Inr (t\<lparr>bucketCount := bucketCount t + 1\<rparr>)) \<and>
    (bucketCount t + 1 < sz \<longrightarrow>
      (case add sz t k v of
         Inl e \<Rightarrow> e = OutOfBounds \<and>
           (sz \<le> table_hash sz k \<or> length (entries t (table_hash sz k)) = CHAINSIZE)
       | Inr t' \<Rightarrow> wf_table sz t' \<and> bucketCount t' = bucketCount t + 1 \<and>
           (\<forall>h. entries t' h = entries t h @ (if h = table_hash sz k then [(despace k, v)] else []))))"
proof -
  let ?t = "t\<lparr>bucketCount := bucketCount t + 1\<rparr>"
  have wf: "wf_table sz ?t" using assms(1) by simp
  have "bucketCount t + 1 < sz \<longrightarrow>
      (case insert_key sz ?t k v of
         Inl e \<Rightarrow> e = OutOfBounds \<and>
           (sz \<le> table_hash sz k \<or> length (entries t (table_hash sz k)) = CHAINSIZE)
       | Inr t' \<Rightarrow> wf_table sz t' \<and> bucketCount t' = bucketCount t + 1 \<and>
           (\<forall>h. entries t' h = entries t h @ (if h = table_hash sz k then [(despace k, v)] else [])))"
  proof (cases "insert_key sz ?t k v")
    case (Inl e)
    have bad: "sz \<le> table_hash sz k \<or> length (entries t (table_hash sz k)) = CHAINSIZE"
    proof (rule ccontr)
      assume n: "\<not> ?thesis"
      then have "length (entries ?t (table_hash sz k)) < CHAINSIZE" "table_hash sz k < sz"
        using length_entries(2) [OF assms(1), of "table_hash sz k"] by auto
      then show False using insert_key_ok [OF wf assms(2)] Inl by (metis Inl_Inr_False)
    qed
    then have "insert_key sz ?t k v = Inl OutOfBounds"
      using insert_key_fault [OF wf assms(2)] by simp
    with Inl bad show ?thesis by simp
  next
    case (Inr t')
    with insert_key_InrD [OF wf assms(2) Inr] show ?thesis by simp
  qed
  then show ?thesis by (auto simp: add_insert_key)
qed

text \<open>
  After one insertion into an empty table a lookup succeeds for every key that is a
  prefix of the stored one and has the same index, not only for the key itself.
\<close>

theorem lookup_accepts_prefix:
  assumes "good_key k" and "good_key k'" and "1 < sz" and "table_hash sz k < sz"
  shows "\<exists>t. add sz (StrHashTable sz v0) k v = Inr t \<and>
    get sz t k' = Inr (if table_hash sz k' = table_hash sz k \<and> prefix (despace k') (despace k)
      then Some v else None)"
proof -
  let ?t0 = "StrHashTable sz v0"
  have room: "table_room sz ?t0 1" using assms(3) by (simp add: table_room_def StrHashTable_def)
  have "length (filter P [e]) \<le> 1" for P :: "string \<times> 'a \<Rightarrow> bool" and e by simp
  then have "fits_chains sz ?t0 [(k, v)]"
    using assms(1,4) by (auto simp: fits_chains_def CHAINSIZE_def)
  then obtain t where t: "foldE (add_entry sz) ?t0 [(k, v)] = Inr t"
    using add_builds [OF wf_StrHashTable, of sz v0 "[(k, v)]"] room by auto
  have "get sz t k' = Inr (case None of Some w \<Rightarrow> Some w
      | None \<Rightarrow> map_option snd (find (\<lambda>e. table_clash sz k' (fst e)) [(k, v)]))"
    by (rule add_table.look_ins_all [OF wf_StrHashTable _ _ assms(2) t get_fresh [OF assms(2)]])
      (use room assms(1) in simp_all)
  moreover have "add sz ?t0 k v = Inr t"
    using t by (simp add: add_entry_def bindE_eq_Inr)
  ultimately show ?thesis by (auto simp: table_clash_def)
qed

text \<open>
  The empty key, and a key of blanks, is found in every 255-entry table, even in an
  empty one: the comparison loop accepts it at once, and the caller gets whatever value
  the first bucket of its chain holds.
\<close>

theorem empty_key_found:
  assumes "wf_table 255 t" and "nul_free k" and "despace k = []"
  shows "get 255 t k = Inr (Some (bvalue (buckets t ! 128 ! 0)))"
proof -
  have "table_hash 255 k = 128"
    using assms(3) by (simp add: table_hash_def table_scale_255 string_hash_eval)
  then show ?thesis using get_empty_key [OF assms] by simp
qed

theorem add_outcome_witness:
  "case add 255 (StrHashTable 255 (0 :: nat)) ''flags'' 7 of
     Inl e \<Rightarrow> e = OutOfBounds \<and> (255 \<le> table_hash 255 ''flags'' \<or>
       length (entries (StrHashTable 255 (0 :: nat)) (table_hash 255 ''flags'')) = CHAINSIZE)
   | Inr t' \<Rightarrow> wf_table 255 t' \<and> bucketCount t' = bucketCount (StrHashTable 255 (0 :: nat)) + 1 \<and>
       (\<forall>h. entries t' h = entries (StrHashTable 255 (0 :: nat)) h @
         (if h = table_hash 255 ''flags'' then [(despace ''flags'', 7)] else []))"
proof -
  have g: "good_key ''flags''"
    by (simp add: good_key_def despace_def SPACE_def TAB_def NUL_def MAX_CHAR_SIZE_def)
  have r: "bucketCount (StrHashTable 255 (0 :: nat)) + 1 < 255" by (simp add: StrHashTable_def)
  from add_outcome [OF wf_StrHashTable g, of 255 0 7] r show ?thesis by blast
qed

theorem lookup_accepts_prefix_witness:
  "\<exists>t. add 255 (StrHashTable 255 (0 :: nat)) ''flags'' 7 = Inr t \<and>
    get 255 t '' flags'' = Inr (if table_hash 255 '' flags'' = table_hash 255 ''flags'' \<and>
      prefix (despace '' flags'') (despace ''flags'') then Some 7 else None)"
  by (rule lookup_accepts_prefix)
    (simp_all add: good_key_def table_hash_def despace_def SPACE_def TAB_def NUL_def
      MAX_CHAR_SIZE_def table_scale_255 string_hash_eval)

theorem empty_key_found_witness:
  "get 255 (StrHashTable 255 (9 :: nat)) '' '' =
    Inr (Some (bvalue (buckets (StrHashTable 255 (9 :: nat)) ! 128 ! 0)))"
  by (rule empty_key_found [OF wf_StrHashTable])
    (simp_all add: despace_def SPACE_def NUL_def)

end
