(* ===== verification/TypeHashes.thy ===== *)
theory TypeHashes
  imports HashTableContract
begin

text \<open>
  The table indices of the names the configurator files at start-up: the enumerators of
  \<open>src/src/VulkanEnumMap.hpp\<close>, the types of \<open>src/src/VulkanTypeList.hpp\<close> and the
  aliases of \<open>src/src/VulkanAliasList.hpp\<close>, each evaluated from its bytes.
\<close>

lemma table_hash_eval:
  "ascii (despace k) \<Longrightarrow>
    table_hash 255 k = f32_index (hash_nat (despace k) 2166136261) (255, 32)"
  by (simp add: table_hash_def table_scale_255 getStringHash_index stringhash_nat)

lemma enum_hashes_1:
  "table_hash 255 ''VK_STRUCTURE_TYPE_MEMORY_ALLOCATE_INFO'' = 182"
  "table_hash 255 ''VK_STRUCTURE_TYPE_MAPPED_MEMORY_RANGE'' = 19"
  "table_hash 255 ''VK_STRUCTURE_TYPE_COMMAND_BUFFER_ALLOCATE_INFO'' = 40"
  "table_hash 255 ''VK_COMMAND_BUFFER_LEVEL_PRIMARY'' = 127"
  "table_hash 255 ''VK_STRUCTURE_TYPE_COMMAND_BUFFER_BEGIN_INFO'' = 92"
  "table_hash 255 ''VK_STRUCTURE_TYPE_COMMAND_BUFFER_INHERITANCE_INFO'' = 104"
  "table_hash 255 ''VK_STRUCTURE_TYPE_COMMAND_POOL_CREATE_INFO'' = 23"
  "table_hash 255 ''VK_COMMAND_POOL_CREATE_RESET_COMMAND_BUFFER_BIT'' = 41"
  "table_hash 255 ''VK_STRUCTURE_TYPE_RENDER_PASS_BEGIN_INFO'' = 136"
  "table_hash 255 ''VK_STRUCTURE_TYPE_RENDER_PASS_CREATE_INFO'' = 173"
  "table_hash 255 ''VK_PIPELINE_BIND_POINT_GRAPHICS'' = 231"
  by (simp_all add: table_hash_eval despace_def SPACE_def TAB_def f32_index_def rne24_def bit_len.simps)

lemma enum_hashes_2:
  "table_hash 255 ''VK_PIPELINE_STAGE_BOTTOM_OF_PIPE_BIT'' = 140"
  "table_hash 255 ''VK_PIPELINE_STAGE_COLOR_ATTACHMENT_OUTPUT_BIT'' = 223"
  "table_hash 255 ''VK_ACCESS_MEMORY_READ_BIT'' = 208"
  "table_hash 255 ''VK_ACCESS_COLOR_ATTACHMENT_READ_BIT'' = 94"
  "table_hash 255 ''VK_ACCESS_COLOR_ATTACHMENT_WRITE_BIT'' = 197"
  "table_hash 255 ''VK_DEPENDENCY_BY_REGION_BIT'' = 250"
  "table_hash 255 ''VK_STRUCTURE_TYPE_IMAGE_MEMORY_BARRIER'' = 95"
  "table_hash 255 ''VK_STRUCTURE_TYPE_BUFFER_MEMORY_BARRIER'' = 186"
  "table_hash 255 ''VK_STRUCTURE_TYPE_MEMORY_BARRIER'' = 231"
  "table_hash 255 ''VK_IMAGE_VIEW_TYPE_2D'' = 154"
  "table_hash 255 ''VK_STRUCTURE_TYPE_IMAGE_CREATE_INFO'' = 55"
  by (simp_all add: table_hash_eval despace_def SPACE_def TAB_def f32_index_def rne24_def bit_len.simps)

lemma enum_hashes_3:
  "table_hash 255 ''VK_SAMPLE_COUNT_1_BIT'' = 127"
  "table_hash 255 ''VK_IMAGE_TILING_OPTIMAL'' = 228"
  "table_hash 255 ''VK_IMAGE_USAGE_TRANSFER_SRC_BIT'' = 232"
  "table_hash 255 ''VK_IMAGE_USAGE_DEPTH_STENCIL_ATTACHMENT_BIT'' = 157"
  "table_hash 255 ''VK_STRUCTURE_TYPE_SAMPLER_CREATE_INFO'' = 83"
  "table_hash 255 ''VK_STRUCTURE_TYPE_IMAGE_VIEW_CREATE_INFO'' = 234"
  "table_hash 255 ''VK_IMAGE_ASPECT_COLOR_BIT'' = 77"
  "table_hash 255 ''VK_STRUCTURE_TYPE_SUBMIT_INFO'' = 203"
  "table_hash 255 ''VK_STRUCTURE_TYPE_FRAMEBUFFER_CREATE_INFO'' = 183"
  "table_hash 255 ''VK_STRUCTURE_TYPE_BUFFER_CREATE_INFO'' = 124"
  "table_hash 255 ''VK_STRUCTURE_TYPE_FENCE_CREATE_INFO'' = 88"
  by (simp_all add: table_hash_eval despace_def SPACE_def TAB_def f32_index_def rne24_def bit_len.simps)

lemma enum_hashes_4:
  "table_hash 255 ''VK_FENCE_CREATE_SIGNALED_BIT'' = 3"
  "table_hash 255 ''VK_STRUCTURE_TYPE_EVENT_CREATE_INFO'' = 225"
  "table_hash 255 ''VK_STRUCTURE_TYPE_DESCRIPTOR_SET_LAYOUT_CREATE_INFO'' = 47"
  "table_hash 255 ''VK_STRUCTURE_TYPE_DESCRIPTOR_SET_ALLOCATE_INFO'' = 198"
  "table_hash 255 ''VK_STRUCTURE_TYPE_WRITE_DESCRIPTOR_SET'' = 156"
  "table_hash 255 ''VK_STRUCTURE_TYPE_PIPELINE_LAYOUT_CREATE_INFO'' = 34"
  "table_hash 255 ''VK_STRUCTURE_TYPE_PIPELINE_VERTEX_INPUT_STATE_CREATE_INFO'' = 170"
  "table_hash 255 ''VK_STRUCTURE_TYPE_PIPELINE_INPUT_ASSEMBLY_STATE_CREATE_INFO'' = 152"
  "table_hash 255 ''VK_STRUCTURE_TYPE_PIPELINE_RASTERIZATION_STATE_CREATE_INFO'' = 142"
  "table_hash 255 ''VK_STRUCTURE_TYPE_PIPELINE_COLOR_BLEND_STATE_CREATE_INFO'' = 206"
  "table_hash 255 ''VK_STRUCTURE_TYPE_PIPELINE_DEPTH_STENCIL_STATE_CREATE_INFO'' = 33"
  by (simp_all add: table_hash_eval despace_def SPACE_def TAB_def f32_index_def rne24_def bit_len.simps)

lemma enum_hashes_5:
  "table_hash 255 ''VK_COMPARE_OP_ALWAYS'' = 203"
  "table_hash 255 ''VK_STRUCTURE_TYPE_PIPELINE_VIEWPORT_STATE_CREATE_INFO'' = 122"
  "table_hash 255 ''VK_STRUCTURE_TYPE_PIPELINE_CACHE_CREATE_INFO'' = 16"
  "table_hash 255 ''VK_STRUCTURE_TYPE_APPLICATION_INFO'' = 163"
  "table_hash 255 ''VK_STRUCTURE_TYPE_INSTANCE_CREATE_INFO'' = 8"
  "table_hash 255 ''VK_STRUCTURE_TYPE_XCB_SURFACE_CREATE_INFO_KHR'' = 16"
  "table_hash 255 ''VK_STRUCTURE_TYPE_SWAPCHAIN_CREATE_INFO_KHR'' = 174"
  "table_hash 255 ''VK_IMAGE_USAGE_COLOR_ATTACHMENT_BIT'' = 124"
  "table_hash 255 ''VK_SHARING_MODE_EXCLUSIVE'' = 246"
  "table_hash 255 ''VK_COMPONENT_SWIZZLE_R'' = 104"
  "table_hash 255 ''VK_COMPONENT_SWIZZLE_G'' = 117"
  by (simp_all add: table_hash_eval despace_def SPACE_def TAB_def f32_index_def rne24_def bit_len.simps)

lemma enum_hashes_6:
  "table_hash 255 ''VK_COMPONENT_SWIZZLE_B'' = 120"
  "table_hash 255 ''VK_COMPONENT_SWIZZLE_A'' = 119"
  "table_hash 255 ''VK_ATTACHMENT_LOAD_OP_CLEAR'' = 181"
  "table_hash 255 ''VK_ATTACHMENT_STORE_OP_STORE'' = 89"
  "table_hash 255 ''VK_ATTACHMENT_LOAD_OP_DONT_CARE'' = 172"
  "table_hash 255 ''VK_ATTACHMENT_STORE_OP_DONT_CARE'' = 53"
  "table_hash 255 ''VK_IMAGE_LAYOUT_UNDEFINED'' = 39"
  "table_hash 255 ''VK_IMAGE_LAYOUT_PRESENT_SRC_KHR'' = 110"
  "table_hash 255 ''VK_IMAGE_LAYOUT_DEPTH_STENCIL_ATTACHMENT_OPTIMAL'' = 95"
  "table_hash 255 ''VK_IMAGE_LAYOUT_COLOR_ATTACHMENT_OPTIMAL'' = 19"
  by (simp_all add: table_hash_eval despace_def SPACE_def TAB_def f32_index_def rne24_def bit_len.simps)

lemmas enum_hashes = enum_hashes_1 enum_hashes_2 enum_hashes_3 enum_hashes_4 enum_hashes_5 enum_hashes_6

lemma type_hashes_1:
  "table_hash 255 ''configuration::Configurator::NullWrapper'' = 54"
  "table_hash 255 ''char *'' = 38"
  "table_hash 255 ''void *'' = 233"
  "table_hash 255 ''const char *'' = 221"
  "table_hash 255 ''VkStructureType'' = 85"
  "table_hash 255 ''VkMemoryAllocateInfo'' = 243"
  "table_hash 255 ''VkMappedMemoryRange'' = 22"
  "table_hash 255 ''VkCommandBufferLevel'' = 249"
  "table_hash 255 ''VkCommandBufferAllocateInfo'' = 0"
  "table_hash 255 ''VkCommandBufferBeginInfo'' = 4"
  "table_hash 255 ''VkCommandBufferInheritanceInfo'' = 117"
  "table_hash 255 ''unsigned int'' = 182"
  by (simp_all add: table_hash_eval despace_def SPACE_def TAB_def f32_index_def rne24_def bit_len.simps)

lemma type_hashes_2:
  "table_hash 255 ''VkCommandPoolCreateInfo'' = 17"
  "table_hash 255 ''VkRenderPassBeginInfo'' = 40"
  "table_hash 255 ''const VkAttachmentDescription *'' = 56"
  "table_hash 255 ''const VkSubpassDescription *'' = 186"
  "table_hash 255 ''const VkSubpassDependency *'' = 143"
  "table_hash 255 ''VkRenderPassCreateInfo'' = 216"
  "table_hash 255 ''VkPipelineBindPoint'' = 70"
  "table_hash 255 ''const VkAttachmentReference *'' = 13"
  "table_hash 255 ''const unsigned int *'' = 218"
  "table_hash 255 ''VkSubpassDescription'' = 87"
  "table_hash 255 ''VkSubpassDependency'' = 244"
  "table_hash 255 ''VkImageMemoryBarrier'' = 171"
  by (simp_all add: table_hash_eval despace_def SPACE_def TAB_def f32_index_def rne24_def bit_len.simps)

lemma type_hashes_3:
  "table_hash 255 ''VkBufferMemoryBarrier'' = 208"
  "table_hash 255 ''VkImageViewType'' = 207"
  "table_hash 255 ''VkMemoryBarrier'' = 232"
  "table_hash 255 ''VkSampleCountFlagBits'' = 104"
  "table_hash 255 ''VkImageTiling'' = 169"
  "table_hash 255 ''VkImageCreateInfo'' = 209"
  "table_hash 255 ''VkSamplerCreateInfo'' = 202"
  "table_hash 255 ''VkImageSubresourceRange'' = 187"
  "table_hash 255 ''VkImageViewCreateInfo'' = 220"
  "table_hash 255 ''VkViewport'' = 131"
  "table_hash 255 ''VkRect2D'' = 88"
  "table_hash 255 ''VkDescriptorImageInfo'' = 215"
  by (simp_all add: table_hash_eval despace_def SPACE_def TAB_def f32_index_def rne24_def bit_len.simps)

lemma type_hashes_4:
  "table_hash 255 ''VkSubmitInfo'' = 6"
  "table_hash 255 ''VkFramebufferCreateInfo'' = 142"
  "table_hash 255 ''VkBufferCreateInfo'' = 2"
  "table_hash 255 ''VkFenceCreateInfo'' = 210"
  "table_hash 255 ''VkEventCreateInfo'' = 15"
  "table_hash 255 ''VkDescriptorPoolCreateInfo'' = 229"
  "table_hash 255 ''VkDescriptorPoolSize'' = 165"
  "table_hash 255 ''VkDescriptorSetLayoutBinding'' = 2"
  "table_hash 255 ''VkDescriptorSetLayoutCreateInfo'' = 94"
  "table_hash 255 ''VkDescriptorSetAllocateInfo'' = 15"
  "table_hash 255 ''VkWriteDescriptorSet'' = 199"
  "table_hash 255 ''VkPipelineLayoutCreateInfo'' = 2"
  by (simp_all add: table_hash_eval despace_def SPACE_def TAB_def f32_index_def rne24_def bit_len.simps)

lemma type_hashes_5:
  "table_hash 255 ''VkPipelineVertexInputStateCreateInfo'' = 5"
  "table_hash 255 ''VkPipelineInputAssemblyStateCreateInfo'' = 51"
  "table_hash 255 ''VkPipelineRasterizationStateCreateInfo'' = 76"
  "table_hash 255 ''VkPipelineColorBlendAttachmentState'' = 146"
  "table_hash 255 ''VkPipelineColorBlendStateCreateInfo'' = 155"
  "table_hash 255 ''VkCompareOp'' = 126"
  "table_hash 255 ''VkPipelineDepthStencilStateCreateInfo'' = 20"
  "table_hash 255 ''VkPipelineViewportStateCreateInfo'' = 61"
  "table_hash 255 ''VkPipelineCacheCreateInfo'' = 66"
  "table_hash 255 ''VkVertexInputBindingDescription'' = 102"
  "table_hash 255 ''VkVertexInputAttributeDescription'' = 38"
  "table_hash 255 ''VkApplicationInfo'' = 49"
  by (simp_all add: table_hash_eval despace_def SPACE_def TAB_def f32_index_def rne24_def bit_len.simps)

lemma type_hashes_6:
  "table_hash 255 ''VkInstanceCreateInfo'' = 116"
  "table_hash 255 ''VkXcbSurfaceCreateInfoKHR'' = 59"
  "table_hash 255 ''VkImageUsageFlagBits'' = 152"
  "table_hash 255 ''VkSharingMode'' = 6"
  "table_hash 255 ''VkSwapchainCreateInfoKHR'' = 138"
  "table_hash 255 ''VkComponentSwizzle'' = 129"
  "table_hash 255 ''VkComponentMapping'' = 173"
  "table_hash 255 ''VkAttachmentLoadOp'' = 248"
  "table_hash 255 ''VkAttachmentStoreOp'' = 2"
  "table_hash 255 ''VkImageLayout'' = 221"
  "table_hash 255 ''VkAttachmentDescription'' = 70"
  "table_hash 255 ''VkAttachmentReference'' = 76"
  by (simp_all add: table_hash_eval despace_def SPACE_def TAB_def f32_index_def rne24_def bit_len.simps)

lemmas type_hashes = type_hashes_1 type_hashes_2 type_hashes_3 type_hashes_4 type_hashes_5 type_hashes_6

lemma alias_hashes_1:
  "table_hash 255 ''VkCommandPoolCreateFlags'' = 213"
  "table_hash 255 ''uint32_t'' = 232"
  "table_hash 255 ''const uint32_t *'' = 61"
  "table_hash 255 ''VkPipelineStageFlags'' = 177"
  "table_hash 255 ''VkAccessFlags'' = 169"
  "table_hash 255 ''VkDependencyFlags'' = 119"
  "table_hash 255 ''VkImageUsageFlags'' = 180"
  "table_hash 255 ''VkImageViewCreateFlags'' = 57"
  "table_hash 255 ''VkImageAspectFlags'' = 74"
  "table_hash 255 ''VkFenceCreateFlags'' = 232"
  "table_hash 255 ''VkPipelineRasterizationStateCreateFlags'' = 206"
  "table_hash 255 ''VkBool32'' = 171"
  "table_hash 255 ''VkPipelineViewportStateCreateFlags'' = 251"
  by (simp_all add: table_hash_eval despace_def SPACE_def TAB_def f32_index_def rne24_def bit_len.simps)

lemmas alias_hashes = alias_hashes_1

end
