(* ===== verification/TypeMaps.thy ===== *)
theory TypeMaps
  imports TypeHashes
begin

text \<open>
  The three tables the configurator builds before it reads a file: the enumeration map
  (\<open>src/src/VulkanEnumMap.hpp\<close>), the type map and the aliases (\<open>TypesFor\<close> of
  \<open>src/src/VulkanConfigurator.hpp\<close> and \<open>.inl\<close>, \<open>src/src/VulkanTypeList.hpp\<close>,
  \<open>src/src/VulkanAliasList.hpp\<close>). A C++ type is the spelling the compiler gives it, a value of
  \<open>WrapperVariant\<close> the index of its alternative. The typedefs and the enumerations of
  \<open>vulkan.h\<close>, which is not part of the source, are the arguments \<open>typedefs\<close> and \<open>isEnum\<close>.
\<close>

section \<open>The enumeration map\<close>

definition enum_entries :: "(string \<times> 64 word) list" where
  "enum_entries = [
     (''VK_STRUCTURE_TYPE_MEMORY_ALLOCATE_INFO'', 5),
     (''VK_STRUCTURE_TYPE_MAPPED_MEMORY_RANGE'', 6),
     (''VK_STRUCTURE_TYPE_COMMAND_BUFFER_ALLOCATE_INFO'', 40),
     (''VK_COMMAND_BUFFER_LEVEL_PRIMARY'', 0),
     (''VK_STRUCTURE_TYPE_COMMAND_BUFFER_BEGIN_INFO'', 42),
     (''VK_STRUCTURE_TYPE_COMMAND_BUFFER_INHERITANCE_INFO'', 41),
     (''VK_STRUCTURE_TYPE_COMMAND_POOL_CREATE_INFO'', 39),
     (''VK_COMMAND_POOL_CREATE_RESET_COMMAND_BUFFER_BIT'', 2),
     (''VK_STRUCTURE_TYPE_RENDER_PASS_BEGIN_INFO'', 43),
     (''VK_STRUCTURE_TYPE_RENDER_PASS_CREATE_INFO'', 38),
     (''VK_PIPELINE_BIND_POINT_GRAPHICS'', 0), (''VK_PIPELINE_STAGE_BOTTOM_OF_PIPE_BIT'', 8192),
     (''VK_PIPELINE_STAGE_COLOR_ATTACHMENT_OUTPUT_BIT'', 1024),
     (''VK_ACCESS_MEMORY_READ_BIT'', 32768), (''VK_ACCESS_COLOR_ATTACHMENT_READ_BIT'', 128),
     (''VK_ACCESS_COLOR_ATTACHMENT_WRITE_BIT'', 256), (''VK_DEPENDENCY_BY_REGION_BIT'', 1),
     (''VK_STRUCTURE_TYPE_IMAGE_MEMORY_BARRIER'', 45),
     (''VK_STRUCTURE_TYPE_BUFFER_MEMORY_BARRIER'', 44),
     (''VK_STRUCTURE_TYPE_MEMORY_BARRIER'', 46), (''VK_IMAGE_VIEW_TYPE_2D'', 1),
     (''VK_STRUCTURE_TYPE_IMAGE_CREATE_INFO'', 14), (''VK_SAMPLE_COUNT_1_BIT'', 1),
     (''VK_IMAGE_TILING_OPTIMAL'', 0), (''VK_IMAGE_USAGE_TRANSFER_SRC_BIT'', 1),
     (''VK_IMAGE_USAGE_DEPTH_STENCIL_ATTACHMENT_BIT'', 32),
     (''VK_STRUCTURE_TYPE_SAMPLER_CREATE_INFO'', 31),
     (''VK_STRUCTURE_TYPE_IMAGE_VIEW_CREATE_INFO'', 15), (''VK_IMAGE_ASPECT_COLOR_BIT'', 1),
     (''VK_STRUCTURE_TYPE_SUBMIT_INFO'', 4), (''VK_STRUCTURE_TYPE_FRAMEBUFFER_CREATE_INFO'', 37),
     (''VK_STRUCTURE_TYPE_BUFFER_CREATE_INFO'', 12),
     (''VK_STRUCTURE_TYPE_FENCE_CREATE_INFO'', 8), (''VK_FENCE_CREATE_SIGNALED_BIT'', 1),
     (''VK_STRUCTURE_TYPE_EVENT_CREATE_INFO'', 10),
     (''VK_STRUCTURE_TYPE_DESCRIPTOR_SET_LAYOUT_CREATE_INFO'', 32),
     (''VK_STRUCTURE_TYPE_DESCRIPTOR_SET_ALLOCATE_INFO'', 34),
     (''VK_STRUCTURE_TYPE_WRITE_DESCRIPTOR_SET'', 35),
     (''VK_STRUCTURE_TYPE_PIPELINE_LAYOUT_CREATE_INFO'', 30),
     (''VK_STRUCTURE_TYPE_PIPELINE_VERTEX_INPUT_STATE_CREATE_INFO'', 19),
     (''VK_STRUCTURE_TYPE_PIPELINE_INPUT_ASSEMBLY_STATE_CREATE_INFO'', 20),
     (''VK_STRUCTURE_TYPE_PIPELINE_RASTERIZATION_STATE_CREATE_INFO'', 23),
     (''VK_STRUCTURE_TYPE_PIPELINE_COLOR_BLEND_STATE_CREATE_INFO'', 26),
     (''VK_STRUCTURE_TYPE_PIPELINE_DEPTH_STENCIL_STATE_CREATE_INFO'', 25),
     (''VK_COMPARE_OP_ALWAYS'', 7),
     (''VK_STRUCTURE_TYPE_PIPELINE_VIEWPORT_STATE_CREATE_INFO'', 22),
     (''VK_STRUCTURE_TYPE_PIPELINE_CACHE_CREATE_INFO'', 17),
     (''VK_STRUCTURE_TYPE_APPLICATION_INFO'', 0),
     (''VK_STRUCTURE_TYPE_INSTANCE_CREATE_INFO'', 1),
     (''VK_STRUCTURE_TYPE_XCB_SURFACE_CREATE_INFO_KHR'', 1000005000),
     (''VK_STRUCTURE_TYPE_SWAPCHAIN_CREATE_INFO_KHR'', 1000001000),
     (''VK_IMAGE_USAGE_COLOR_ATTACHMENT_BIT'', 16), (''VK_SHARING_MODE_EXCLUSIVE'', 0),
     (''VK_COMPONENT_SWIZZLE_R'', 3), (''VK_COMPONENT_SWIZZLE_G'', 4),
     (''VK_COMPONENT_SWIZZLE_B'', 5), (''VK_COMPONENT_SWIZZLE_A'', 6),
     (''VK_ATTACHMENT_LOAD_OP_CLEAR'', 1), (''VK_ATTACHMENT_STORE_OP_STORE'', 0),
     (''VK_ATTACHMENT_LOAD_OP_DONT_CARE'', 2), (''VK_ATTACHMENT_STORE_OP_DONT_CARE'', 1),
     (''VK_IMAGE_LAYOUT_UNDEFINED'', 0), (''VK_IMAGE_LAYOUT_PRESENT_SRC_KHR'', 1000001002),
     (''VK_IMAGE_LAYOUT_DEPTH_STENCIL_ATTACHMENT_OPTIMAL'', 3),
     (''VK_IMAGE_LAYOUT_COLOR_ATTACHMENT_OPTIMAL'', 2)]"

definition EnumMapInitializer :: "64 word str_hash_table res" where
  "EnumMapInitializer = foldE (add_entry 255) (StrHashTable 255 0) enum_entries"

section \<open>The type list\<close>

definition TYPELIST :: "string list" where
  "TYPELIST = [
     ''char *'', ''void *'', ''const char *'', ''configuration::enumeration<VkStructureType>'',
     ''VkMemoryAllocateInfo'', ''VkMappedMemoryRange'',
     ''configuration::enumeration<VkCommandBufferLevel>'', ''VkCommandBufferAllocateInfo'',
     ''VkCommandBufferBeginInfo'', ''VkCommandBufferInheritanceInfo'',
     ''VkCommandPoolCreateFlags'', ''VkCommandPoolCreateInfo'', ''VkRenderPassBeginInfo'',
     ''uint32_t'', ''const VkAttachmentDescription *'', ''const VkSubpassDescription *'',
     ''const VkSubpassDependency *'', ''VkRenderPassCreateInfo'',
     ''configuration::enumeration<VkPipelineBindPoint>'', ''const VkAttachmentReference *'',
     ''const uint32_t *'', ''VkSubpassDescription'', ''VkPipelineStageFlags'', ''VkAccessFlags'',
     ''VkDependencyFlags'', ''VkSubpassDependency'', ''VkImageMemoryBarrier'',
     ''VkBufferMemoryBarrier'', ''configuration::enumeration<VkImageViewType>'',
     ''VkMemoryBarrier'', ''configuration::enumeration<VkSampleCountFlagBits>'',
     ''configuration::enumeration<VkImageTiling>'', ''VkImageUsageFlags'',
     ''VkImageViewCreateFlags'', ''VkImageCreateInfo'', ''VkSamplerCreateInfo'',
     ''VkImageSubresourceRange'', ''VkImageViewCreateInfo'', ''VkViewport'', ''VkRect2D'',
     ''VkDescriptorImageInfo'', ''VkImageAspectFlags'', ''VkSubmitInfo'',
     ''VkFramebufferCreateInfo'', ''VkBufferCreateInfo'', ''VkFenceCreateFlags'',
     ''VkFenceCreateInfo'', ''VkEventCreateInfo'', ''VkDescriptorPoolCreateInfo'',
     ''VkDescriptorPoolSize'', ''VkDescriptorSetLayoutBinding'',
     ''VkDescriptorSetLayoutCreateInfo'', ''VkDescriptorSetAllocateInfo'',
     ''VkWriteDescriptorSet'', ''VkPipelineLayoutCreateInfo'',
     ''VkPipelineVertexInputStateCreateInfo'', ''VkPipelineInputAssemblyStateCreateInfo'',
     ''VkPipelineRasterizationStateCreateFlags'', ''VkBool32'',
     ''VkPipelineRasterizationStateCreateInfo'', ''VkPipelineColorBlendAttachmentState'',
     ''VkPipelineColorBlendStateCreateInfo'', ''configuration::enumeration<VkCompareOp>'',
     ''VkPipelineDepthStencilStateCreateInfo'', ''VkPipelineViewportStateCreateFlags'',
     ''VkPipelineViewportStateCreateInfo'', ''VkPipelineCacheCreateInfo'',
     ''VkVertexInputBindingDescription'', ''VkVertexInputAttributeDescription'',
     ''VkApplicationInfo'', ''VkInstanceCreateInfo'', ''VkXcbSurfaceCreateInfoKHR'',
     ''configuration::enumeration<VkImageUsageFlagBits>'',
     ''configuration::enumeration<VkSharingMode>'', ''VkSwapchainCreateInfoKHR'',
     ''configuration::enumeration<VkComponentSwizzle>'', ''VkComponentMapping'',
     ''configuration::enumeration<VkAttachmentLoadOp>'',
     ''configuration::enumeration<VkAttachmentStoreOp>'',
     ''configuration::enumeration<VkImageLayout>'', ''VkAttachmentDescription'',
     ''VkAttachmentReference'']"

text \<open>\<open>uniqueTypes\<close> keeps first occurrences; \<open>types\<close> drops plain enumerations.\<close>

fun unique_fold :: "string list \<Rightarrow> string list \<Rightarrow> string list" where
  "unique_fold seen [] = seen"
| "unique_fold seen (t # ts) = unique_fold (if t \<in> set seen then seen else seen @ [t]) ts"

definition uniqueTypes :: "(string \<Rightarrow> string) \<Rightarrow> string list" where
  "uniqueTypes typedefs = unique_fold [] (map typedefs TYPELIST)"

definition types :: "(string \<Rightarrow> string) \<Rightarrow> (string \<Rightarrow> bool) \<Rightarrow> string list" where
  "types typedefs isEnum = filter (\<lambda>t. \<not> isEnum t) (uniqueTypes typedefs)"

text \<open>The alternatives of \<open>WrapperVariant\<close>: \<open>NullWrapper\<close>, then the types.\<close>

definition WrapperVariant :: "(string \<Rightarrow> string) \<Rightarrow> (string \<Rightarrow> bool) \<Rightarrow> string list" where
  "WrapperVariant typedefs isEnum =
     ''configuration::Configurator::NullWrapper'' # types typedefs isEnum"

section \<open>TypesFor\<close>

record types_for =
  names :: "char list list"
  storage :: "char list"
  storagePos :: nat
  typeForHash :: "nat str_hash_table"
  aliases :: "nat option str_hash_table"

text \<open>
  The aliases with their targets and the number of bytes given to \<open>strcpy\<close>. A stored
  pointer is the offset of the target in \<open>storage\<close>; \<open>None\<close> is the null pointer.
\<close>

definition alias_entries :: "(string \<times> string \<times> nat) list" where
  "alias_entries = [
     (''VkCommandPoolCreateFlags'', ''unsigned int'', 13), (''uint32_t'', ''unsigned int'', 13),
     (''const uint32_t *'', ''const unsigned int *'', 21),
     (''VkPipelineStageFlags'', ''unsigned int'', 13), (''VkAccessFlags'', ''unsigned int'', 13),
     (''VkDependencyFlags'', ''unsigned int'', 13),
     (''VkImageUsageFlags'', ''unsigned int'', 13),
     (''VkImageViewCreateFlags'', ''unsigned int'', 13),
     (''VkImageAspectFlags'', ''unsigned int'', 13),
     (''VkFenceCreateFlags'', ''unsigned int'', 13),
     (''VkPipelineRasterizationStateCreateFlags'', ''unsigned int'', 13),
     (''VkBool32'', ''unsigned int'', 13),
     (''VkPipelineViewportStateCreateFlags'', ''unsigned int'', 13)]"

definition add_alias :: "types_for \<Rightarrow> string \<times> string \<times> nat \<Rightarrow> types_for res" where
  "add_alias T e =
     (case e of (name, target, n) \<Rightarrow>
        bindE (cpp_strcpy (target @ [NUL]) (drop (storagePos T) (storage T)) n) (\<lambda>d.
        bindE (add 255 (aliases T) name (Some (storagePos T))) (\<lambda>t.
          Inr (T\<lparr>storage := take (storagePos T) (storage T) @ d, aliases := t,
                 storagePos := (storagePos T + n) mod 256\<rparr>))))"

definition setupAliases :: "types_for \<Rightarrow> types_for res" where
  "setupAliases T = foldE add_alias T alias_entries"

definition setup_names :: "string list \<Rightarrow> char list list res" where
  "setup_names pretty =
     mapE (\<lambda>p. strcpyEnum (p @ [NUL]) (replicate MAX_CHAR_SIZE NUL) MAX_CHAR_SIZE) pretty"

definition TypesFor :: "string list \<Rightarrow> types_for res" where
  "TypesFor pretty =
     bindE (setup_names pretty) (\<lambda>bs.
     bindE (setup_table 255 0 (zip (map cstr bs) [0 ..< length pretty])) (\<lambda>t.
       setupAliases \<lparr>names = bs, storage = replicate MAX_CHAR_SIZE NUL, storagePos = 0,
         typeForHash = t, aliases = StrHashTable 255 None\<rparr>))"

definition getType :: "types_for \<Rightarrow> string \<Rightarrow> nat res" where
  "getType T typeName =
     bindE (get 255 (aliases T) typeName) (\<lambda>a.
       let realTypeName = (case a of
             Some (Some off) \<Rightarrow> cstr (drop off (storage T))
           | _ \<Rightarrow> typeName)
       in bindE (get 255 (typeForHash T) realTypeName) (\<lambda>v.
            Inr (case v of Some i \<Rightarrow> i | None \<Rightarrow> 0)))"

section \<open>The enumeration map is sound\<close>

lemma enum_index_list:
  "map (\<lambda>e. table_hash 255 (fst e)) enum_entries = [
     182, 19, 40, 127, 92, 104, 23, 41, 136, 173, 231, 140, 223, 208, 94, 197, 250, 95, 186, 231,
     154, 55, 127, 228, 232, 157, 83, 234, 77, 203, 183, 124, 88, 3, 225, 47, 198, 156, 34, 170,
     152, 142, 206, 33, 203, 122, 16, 163, 8, 16, 174, 124, 246, 104, 117, 120, 119, 181, 89,
     172, 53, 39, 110, 95, 19]"
  by (simp add: enum_entries_def enum_hashes)

lemma enum_keys_plain: "map (\<lambda>e. despace (fst e)) enum_entries = map fst enum_entries"
  by (simp add: enum_entries_def despace_def SPACE_def TAB_def)

lemma enum_clash_free:
  "clash_free (map (\<lambda>e. (table_hash 255 (fst e), despace (fst e))) enum_entries)"
proof -
  have "map (\<lambda>e. (table_hash 255 (fst e), despace (fst e))) enum_entries =
      zip (map (\<lambda>e. table_hash 255 (fst e)) enum_entries) (map (\<lambda>e. despace (fst e)) enum_entries)"
    by (simp add: zip_map_map zip_same_conv_map)
  also have "clash_free \<dots>"
    unfolding enum_index_list enum_keys_plain by (simp add: enum_entries_def)
  finally show ?thesis .
qed

lemma enum_fits: "fits_chains 255 (StrHashTable 255 0) enum_entries"
proof (rule fits_chainsI)
  show "\<forall>e \<in> set enum_entries. good_key (fst e)"
    by (simp add: enum_entries_def good_key_def despace_def SPACE_def TAB_def NUL_def MAX_CHAR_SIZE_def)
next
  show "\<forall>h \<in> set (map (\<lambda>e. table_hash 255 (fst e)) enum_entries). h < 255 \<and>
      length (filter (\<lambda>h'. h' = h) (map (\<lambda>e. table_hash 255 (fst e)) enum_entries)) \<le> CHAINSIZE"
    unfolding enum_index_list by (simp add: CHAINSIZE_def)
qed

section \<open>The type and alias names\<close>

text \<open>The type an alias stands for, and the names the types are filed under.\<close>

definition alias_target :: "string \<Rightarrow> string" where
  "alias_target t = (case map_of alias_entries t of None \<Rightarrow> t | Some (target, n) \<Rightarrow> target)"

lemma alias_targets: "map alias_target TYPELIST = [
     ''char *'', ''void *'', ''const char *'', ''configuration::enumeration<VkStructureType>'',
     ''VkMemoryAllocateInfo'', ''VkMappedMemoryRange'',
     ''configuration::enumeration<VkCommandBufferLevel>'', ''VkCommandBufferAllocateInfo'',
     ''VkCommandBufferBeginInfo'', ''VkCommandBufferInheritanceInfo'', ''unsigned int'',
     ''VkCommandPoolCreateInfo'', ''VkRenderPassBeginInfo'', ''unsigned int'',
     ''const VkAttachmentDescription *'', ''const VkSubpassDescription *'',
     ''const VkSubpassDependency *'', ''VkRenderPassCreateInfo'',
     ''configuration::enumeration<VkPipelineBindPoint>'', ''const VkAttachmentReference *'',
     ''const unsigned int *'', ''VkSubpassDescription'', ''unsigned int'', ''unsigned int'',
     ''unsigned int'', ''VkSubpassDependency'', ''VkImageMemoryBarrier'',
     ''VkBufferMemoryBarrier'', ''configuration::enumeration<VkImageViewType>'',
     ''VkMemoryBarrier'', ''configuration::enumeration<VkSampleCountFlagBits>'',
     ''configuration::enumeration<VkImageTiling>'', ''unsigned int'', ''unsigned int'',
     ''VkImageCreateInfo'', ''VkSamplerCreateInfo'', ''VkImageSubresourceRange'',
     ''VkImageViewCreateInfo'', ''VkViewport'', ''VkRect2D'', ''VkDescriptorImageInfo'',
     ''unsigned int'', ''VkSubmitInfo'', ''VkFramebufferCreateInfo'', ''VkBufferCreateInfo'',
     ''unsigned int'', ''VkFenceCreateInfo'', ''VkEventCreateInfo'',
     ''VkDescriptorPoolCreateInfo'', ''VkDescriptorPoolSize'', ''VkDescriptorSetLayoutBinding'',
     ''VkDescriptorSetLayoutCreateInfo'', ''VkDescriptorSetAllocateInfo'',
     ''VkWriteDescriptorSet'', ''VkPipelineLayoutCreateInfo'',
     ''VkPipelineVertexInputStateCreateInfo'', ''VkPipelineInputAssemblyStateCreateInfo'',
     ''unsigned int'', ''unsigned int'', ''VkPipelineRasterizationStateCreateInfo'',
     ''VkPipelineColorBlendAttachmentState'', ''VkPipelineColorBlendStateCreateInfo'',
     ''configuration::enumeration<VkCompareOp>'', ''VkPipelineDepthStencilStateCreateInfo'',
     ''unsigned int'', ''VkPipelineViewportStateCreateInfo'', ''VkPipelineCacheCreateInfo'',
     ''VkVertexInputBindingDescription'', ''VkVertexInputAttributeDescription'',
     ''VkApplicationInfo'', ''VkInstanceCreateInfo'', ''VkXcbSurfaceCreateInfoKHR'',
     ''configuration::enumeration<VkImageUsageFlagBits>'',
     ''configuration::enumeration<VkSharingMode>'', ''VkSwapchainCreateInfoKHR'',
     ''configuration::enumeration<VkComponentSwizzle>'', ''VkComponentMapping'',
     ''configuration::enumeration<VkAttachmentLoadOp>'',
     ''configuration::enumeration<VkAttachmentStoreOp>'',
     ''configuration::enumeration<VkImageLayout>'', ''VkAttachmentDescription'',
     ''VkAttachmentReference'']"
  by (simp add: alias_target_def alias_entries_def TYPELIST_def)

lemma unique_targets: "unique_fold [] (map alias_target TYPELIST) = [
     ''char *'', ''void *'', ''const char *'', ''configuration::enumeration<VkStructureType>'',
     ''VkMemoryAllocateInfo'', ''VkMappedMemoryRange'',
     ''configuration::enumeration<VkCommandBufferLevel>'', ''VkCommandBufferAllocateInfo'',
     ''VkCommandBufferBeginInfo'', ''VkCommandBufferInheritanceInfo'', ''unsigned int'',
     ''VkCommandPoolCreateInfo'', ''VkRenderPassBeginInfo'', ''const VkAttachmentDescription *'',
     ''const VkSubpassDescription *'', ''const VkSubpassDependency *'',
     ''VkRenderPassCreateInfo'', ''configuration::enumeration<VkPipelineBindPoint>'',
     ''const VkAttachmentReference *'', ''const unsigned int *'', ''VkSubpassDescription'',
     ''VkSubpassDependency'', ''VkImageMemoryBarrier'', ''VkBufferMemoryBarrier'',
     ''configuration::enumeration<VkImageViewType>'', ''VkMemoryBarrier'',
     ''configuration::enumeration<VkSampleCountFlagBits>'',
     ''configuration::enumeration<VkImageTiling>'', ''VkImageCreateInfo'',
     ''VkSamplerCreateInfo'', ''VkImageSubresourceRange'', ''VkImageViewCreateInfo'',
     ''VkViewport'', ''VkRect2D'', ''VkDescriptorImageInfo'', ''VkSubmitInfo'',
     ''VkFramebufferCreateInfo'', ''VkBufferCreateInfo'', ''VkFenceCreateInfo'',
     ''VkEventCreateInfo'', ''VkDescriptorPoolCreateInfo'', ''VkDescriptorPoolSize'',
     ''VkDescriptorSetLayoutBinding'', ''VkDescriptorSetLayoutCreateInfo'',
     ''VkDescriptorSetAllocateInfo'', ''VkWriteDescriptorSet'', ''VkPipelineLayoutCreateInfo'',
     ''VkPipelineVertexInputStateCreateInfo'', ''VkPipelineInputAssemblyStateCreateInfo'',
     ''VkPipelineRasterizationStateCreateInfo'', ''VkPipelineColorBlendAttachmentState'',
     ''VkPipelineColorBlendStateCreateInfo'', ''configuration::enumeration<VkCompareOp>'',
     ''VkPipelineDepthStencilStateCreateInfo'', ''VkPipelineViewportStateCreateInfo'',
     ''VkPipelineCacheCreateInfo'', ''VkVertexInputBindingDescription'',
     ''VkVertexInputAttributeDescription'', ''VkApplicationInfo'', ''VkInstanceCreateInfo'',
     ''VkXcbSurfaceCreateInfoKHR'', ''configuration::enumeration<VkImageUsageFlagBits>'',
     ''configuration::enumeration<VkSharingMode>'', ''VkSwapchainCreateInfoKHR'',
     ''configuration::enumeration<VkComponentSwizzle>'', ''VkComponentMapping'',
     ''configuration::enumeration<VkAttachmentLoadOp>'',
     ''configuration::enumeration<VkAttachmentStoreOp>'',
     ''configuration::enumeration<VkImageLayout>'', ''VkAttachmentDescription'',
     ''VkAttachmentReference'']"
  unfolding alias_targets by simp

definition type_keys :: "string list" where
  "type_keys = [
     ''configuration::Configurator::NullWrapper'', ''char *'', ''void *'', ''const char *'',
     ''VkStructureType'', ''VkMemoryAllocateInfo'', ''VkMappedMemoryRange'',
     ''VkCommandBufferLevel'', ''VkCommandBufferAllocateInfo'', ''VkCommandBufferBeginInfo'',
     ''VkCommandBufferInheritanceInfo'', ''unsigned int'', ''VkCommandPoolCreateInfo'',
     ''VkRenderPassBeginInfo'', ''const VkAttachmentDescription *'',
     ''const VkSubpassDescription *'', ''const VkSubpassDependency *'',
     ''VkRenderPassCreateInfo'', ''VkPipelineBindPoint'', ''const VkAttachmentReference *'',
     ''const unsigned int *'', ''VkSubpassDescription'', ''VkSubpassDependency'',
     ''VkImageMemoryBarrier'', ''VkBufferMemoryBarrier'', ''VkImageViewType'',
     ''VkMemoryBarrier'', ''VkSampleCountFlagBits'', ''VkImageTiling'', ''VkImageCreateInfo'',
     ''VkSamplerCreateInfo'', ''VkImageSubresourceRange'', ''VkImageViewCreateInfo'',
     ''VkViewport'', ''VkRect2D'', ''VkDescriptorImageInfo'', ''VkSubmitInfo'',
     ''VkFramebufferCreateInfo'', ''VkBufferCreateInfo'', ''VkFenceCreateInfo'',
     ''VkEventCreateInfo'', ''VkDescriptorPoolCreateInfo'', ''VkDescriptorPoolSize'',
     ''VkDescriptorSetLayoutBinding'', ''VkDescriptorSetLayoutCreateInfo'',
     ''VkDescriptorSetAllocateInfo'', ''VkWriteDescriptorSet'', ''VkPipelineLayoutCreateInfo'',
     ''VkPipelineVertexInputStateCreateInfo'', ''VkPipelineInputAssemblyStateCreateInfo'',
     ''VkPipelineRasterizationStateCreateInfo'', ''VkPipelineColorBlendAttachmentState'',
     ''VkPipelineColorBlendStateCreateInfo'', ''VkCompareOp'',
     ''VkPipelineDepthStencilStateCreateInfo'', ''VkPipelineViewportStateCreateInfo'',
     ''VkPipelineCacheCreateInfo'', ''VkVertexInputBindingDescription'',
     ''VkVertexInputAttributeDescription'', ''VkApplicationInfo'', ''VkInstanceCreateInfo'',
     ''VkXcbSurfaceCreateInfoKHR'', ''VkImageUsageFlagBits'', ''VkSharingMode'',
     ''VkSwapchainCreateInfoKHR'', ''VkComponentSwizzle'', ''VkComponentMapping'',
     ''VkAttachmentLoadOp'', ''VkAttachmentStoreOp'', ''VkImageLayout'',
     ''VkAttachmentDescription'', ''VkAttachmentReference'']"

lemma type_index_list:
  "map (table_hash 255) (type_keys @ map fst alias_entries) = [
     54, 38, 233, 221, 85, 243, 22, 249, 0, 4, 117, 182, 17, 40, 56, 186, 143, 216, 70, 13, 218,
     87, 244, 171, 208, 207, 232, 104, 169, 209, 202, 187, 220, 131, 88, 215, 6, 142, 2, 210, 15,
     229, 165, 2, 94, 15, 199, 2, 5, 51, 76, 146, 155, 126, 20, 61, 66, 102, 38, 49, 116, 59,
     152, 6, 138, 129, 173, 248, 2, 221, 70, 76, 213, 232, 61, 177, 169, 119, 180, 57, 74, 232,
     206, 171, 251]"
  by (simp add: type_keys_def alias_entries_def type_hashes alias_hashes)

lemma type_keys_despaced:
  "map despace (type_keys @ map fst alias_entries) = [
     ''configuration::Configurator::NullWrapper'', ''char*'', ''void*'', ''constchar*'',
     ''VkStructureType'', ''VkMemoryAllocateInfo'', ''VkMappedMemoryRange'',
     ''VkCommandBufferLevel'', ''VkCommandBufferAllocateInfo'', ''VkCommandBufferBeginInfo'',
     ''VkCommandBufferInheritanceInfo'', ''unsignedint'', ''VkCommandPoolCreateInfo'',
     ''VkRenderPassBeginInfo'', ''constVkAttachmentDescription*'',
     ''constVkSubpassDescription*'', ''constVkSubpassDependency*'', ''VkRenderPassCreateInfo'',
     ''VkPipelineBindPoint'', ''constVkAttachmentReference*'', ''constunsignedint*'',
     ''VkSubpassDescription'', ''VkSubpassDependency'', ''VkImageMemoryBarrier'',
     ''VkBufferMemoryBarrier'', ''VkImageViewType'', ''VkMemoryBarrier'',
     ''VkSampleCountFlagBits'', ''VkImageTiling'', ''VkImageCreateInfo'',
     ''VkSamplerCreateInfo'', ''VkImageSubresourceRange'', ''VkImageViewCreateInfo'',
     ''VkViewport'', ''VkRect2D'', ''VkDescriptorImageInfo'', ''VkSubmitInfo'',
     ''VkFramebufferCreateInfo'', ''VkBufferCreateInfo'', ''VkFenceCreateInfo'',
     ''VkEventCreateInfo'', ''VkDescriptorPoolCreateInfo'', ''VkDescriptorPoolSize'',
     ''VkDescriptorSetLayoutBinding'', ''VkDescriptorSetLayoutCreateInfo'',
     ''VkDescriptorSetAllocateInfo'', ''VkWriteDescriptorSet'', ''VkPipelineLayoutCreateInfo'',
     ''VkPipelineVertexInputStateCreateInfo'', ''VkPipelineInputAssemblyStateCreateInfo'',
     ''VkPipelineRasterizationStateCreateInfo'', ''VkPipelineColorBlendAttachmentState'',
     ''VkPipelineColorBlendStateCreateInfo'', ''VkCompareOp'',
     ''VkPipelineDepthStencilStateCreateInfo'', ''VkPipelineViewportStateCreateInfo'',
     ''VkPipelineCacheCreateInfo'', ''VkVertexInputBindingDescription'',
     ''VkVertexInputAttributeDescription'', ''VkApplicationInfo'', ''VkInstanceCreateInfo'',
     ''VkXcbSurfaceCreateInfoKHR'', ''VkImageUsageFlagBits'', ''VkSharingMode'',
     ''VkSwapchainCreateInfoKHR'', ''VkComponentSwizzle'', ''VkComponentMapping'',
     ''VkAttachmentLoadOp'', ''VkAttachmentStoreOp'', ''VkImageLayout'',
     ''VkAttachmentDescription'', ''VkAttachmentReference'', ''VkCommandPoolCreateFlags'',
     ''uint32_t'', ''constuint32_t*'', ''VkPipelineStageFlags'', ''VkAccessFlags'',
     ''VkDependencyFlags'', ''VkImageUsageFlags'', ''VkImageViewCreateFlags'',
     ''VkImageAspectFlags'', ''VkFenceCreateFlags'', ''VkPipelineRasterizationStateCreateFlags'',
     ''VkBool32'', ''VkPipelineViewportStateCreateFlags'']"
  by (simp add: type_keys_def alias_entries_def despace_def SPACE_def TAB_def)

lemma type_clash_free:
  "clash_free (map (\<lambda>k. (table_hash 255 k, despace k)) (type_keys @ map fst alias_entries))"
proof -
  have "map (\<lambda>k. (table_hash 255 k, despace k)) ks = zip (map (table_hash 255) ks) (map despace ks)" for ks
    by (simp add: zip_map_map zip_same_conv_map)
  from this [of "type_keys @ map fst alias_entries"] show ?thesis
    by (simp only: type_index_list type_keys_despaced) simp
qed

text \<open>The offsets that \<open>setupAliases\<close> stores.\<close>

fun alias_offsets :: "nat \<Rightarrow> (string \<times> string \<times> nat) list \<Rightarrow> (string \<times> nat option) list" where
  "alias_offsets p [] = []"
| "alias_offsets p ((name, target, n) # es) = (name, Some p) # alias_offsets (p + n) es"

definition good_alias :: "string \<times> string \<times> nat \<Rightarrow> bool" where
  "good_alias e = (case e of (name, target, n) \<Rightarrow>
     nul_free target \<and> target \<noteq> [] \<and> CHR ''>'' \<notin> set target \<and> n = length target + 1)"

fun alias_bytes :: "(string \<times> string \<times> nat) list \<Rightarrow> char list" where
  "alias_bytes [] = []"
| "alias_bytes ((name, target, n) # es) = target @ NUL # alias_bytes es"

lemma alias_bytes_length: "list_all good_alias es \<Longrightarrow> length (alias_bytes es) = sum_list (map (snd \<circ> snd) es)"
  by (induction es) (auto simp: good_alias_def)

lemma add_entry_pair: "add_entry sz t (k, v) = add sz t k v"
  by (simp add: add_entry_def)

lemma add_alias_ok:
  assumes "good_alias e" and "e = (name, target, n)" and "storage T = pre @ post" and "length pre = storagePos T"
    and "n \<le> length post" and "storagePos T + n < 256"
    and "add 255 (aliases T) name (Some (storagePos T)) = Inr t"
  shows "\<exists>post'. add_alias T e = Inr (T\<lparr>storage := (pre @ target @ [NUL]) @ post', aliases := t,
    storagePos := storagePos T + n\<rparr>) \<and> length (target @ NUL # post') = length post"
proof -
  have g: "nul_free target" "target \<noteq> []" "CHR ''>'' \<notin> set target" "n = length target + 1"
    using assms(1,2) by (simp_all add: good_alias_def)
  have m: "length target = min n (length target)" using g(4) by simp
  have "strip_angle (take (length target) target) = target" using g(3) by (simp add: strip_angle_plain)
  then obtain u where u: "cpp_strcpy (target @ NUL # []) post n = Inr (target @ NUL # u)"
      "length (target @ NUL # u) = length post"
    using cpp_strcpy_ok [OF g(1) m, where dst = post and r = "[]"] g(2,4) assms(5)
    by (metis Suc_eq_plus1 Suc_le_eq length_greater_0_conv)
  show ?thesis
    using u assms by (intro exI [of _ u]) (simp add: add_alias_def)
qed

lemma setup_aliases_ok:
  assumes "list_all good_alias es" and "storage T = pre @ post" and "length pre = storagePos T"
    and "sum_list (map (snd \<circ> snd) es) \<le> length post"
    and "storagePos T + sum_list (map (snd \<circ> snd) es) < 256"
    and "foldE (add_entry 255) (aliases T) (alias_offsets (storagePos T) es) = Inr t"
  shows "\<exists>T'. foldE add_alias T es = Inr T' \<and> aliases T' = t \<and> typeForHash T' = typeForHash T \<and>
    (\<exists>post'. storage T' = pre @ alias_bytes es @ post')"
  using assms
proof (induction es arbitrary: T pre post)
  case Nil
  then show ?case by auto
next
  case (Cons e es)
  obtain name target n where e: "e = (name, target, n)" by (cases e) auto
  obtain u where u: "add 255 (aliases T) name (Some (storagePos T)) = Inr u"
      "foldE (add_entry 255) u (alias_offsets (storagePos T + n) es) = Inr t"
    using Cons.prems(6) by (auto simp: e add_entry_pair bindE_eq_Inr)
  obtain post' where p: "add_alias T e = Inr (T\<lparr>storage := (pre @ target @ [NUL]) @ post', aliases := u,
      storagePos := storagePos T + n\<rparr>)" "length (target @ NUL # post') = length post"
    using add_alias_ok [OF _ e Cons.prems(2,3) _ _ u(1)] Cons.prems(1,4,5) by (auto simp: e)
  let ?T = "T\<lparr>storage := (pre @ target @ [NUL]) @ post', aliases := u, storagePos := storagePos T + n\<rparr>"
  have n: "n = length target + 1" using Cons.prems(1) by (simp add: e good_alias_def)
  have "\<exists>T'. foldE add_alias ?T es = Inr T' \<and> aliases T' = t \<and> typeForHash T' = typeForHash ?T \<and>
      (\<exists>post''. storage T' = (pre @ target @ [NUL]) @ alias_bytes es @ post'')"
    by (rule Cons.IH) (use Cons.prems p(2) u(2) n in \<open>auto simp: e\<close>)
  then show ?case using p(1) by (simp add: e)
qed

text \<open>A stored offset points to its target.\<close>

lemma alias_offset_target:
  assumes "list_all good_alias es" and "(name, Some off) \<in> set (alias_offsets p es)" and "p = length pre"
  shows "\<exists>target n. (name, target, n) \<in> set es \<and> cstr (drop off (pre @ alias_bytes es @ post)) = target"
  using assms
proof (induction es arbitrary: p pre)
  case (Cons e es)
  obtain nm tg n where e: "e = (nm, tg, n)" by (cases e) auto
  have g: "nul_free tg" "n = length tg + 1" using Cons.prems(1) by (simp_all add: e good_alias_def)
  show ?case
  proof (cases "(name, Some off) = (nm, Some p)")
    case True
    then show ?thesis using Cons.prems(3) g by (auto simp: e)
  next
    case False
    then have "(name, Some off) \<in> set (alias_offsets (p + n) es)" using Cons.prems(2) by (auto simp: e)
    from Cons.IH [OF _ this, of "pre @ tg @ [NUL]"] Cons.prems(1,3) g(2)
    show ?thesis by (auto simp: e)
  qed
qed simp


text \<open>How the compiler spells a type of the list, and the name it is filed under.\<close>

definition plain_name :: "string \<Rightarrow> bool" where
  "plain_name k = (nul_free k \<and> k \<noteq> [] \<and> CHR ''<'' \<notin> set k \<and> CHR ''>'' \<notin> set k \<and> length k < 200)"

definition spells :: "string \<Rightarrow> string \<Rightarrow> bool" where
  "spells p k = (plain_name k \<and> (p = k \<or> p = ''configuration::enumeration<'' @ k @ ''>''))"

lemma setup_name_ok:
  assumes "spells p k"
  shows "\<exists>b. strcpyEnum (p @ [NUL]) (replicate MAX_CHAR_SIZE NUL) MAX_CHAR_SIZE = Inr b \<and> cstr b = k"
proof -
  have k: "nul_free k" "k \<noteq> []" "CHR ''<'' \<notin> set k" "CHR ''>'' \<notin> set k" "length k < 200"
    using assms by (simp_all add: spells_def plain_name_def)
  show ?thesis
  proof (cases "p = k")
    case True
    show ?thesis unfolding True
      by (rule strcpyEnum_plain) (use k in \<open>simp_all add: npos_def MAX_CHAR_SIZE_def\<close>)
  next
    case False
    then have p: "p @ [NUL] = ''configuration::enumeration'' @ ''<'' @ k @ ''>'' @ NUL # []"
      using assms by (simp add: spells_def)
    show ?thesis unfolding p
      by (rule strcpyEnum_wrapped) (use k in \<open>simp_all add: npos_def MAX_CHAR_SIZE_def NUL_def\<close>)
  qed
qed

lemma setup_names_ok:
  assumes "list_all2 spells pretty keys"
  shows "\<exists>bs. setup_names pretty = Inr bs \<and> map cstr bs = keys"
  unfolding setup_names_def
  by (rule mapE_list_all2) (rule list_all2_mono [OF assms], rule setup_name_ok)

lemma types_names:
  assumes "\<forall>t \<in> set TYPELIST. typedefs t = alias_target t \<and> \<not> isEnum (alias_target t)"
  shows "WrapperVariant typedefs isEnum =
    ''configuration::Configurator::NullWrapper'' # unique_fold [] (map alias_target TYPELIST)"
proof -
  have m: "map typedefs TYPELIST = map alias_target TYPELIST"
    using assms by (intro map_cong) auto
  have "set (unique_fold seen ts) = set seen \<union> set ts" for seen ts
    by (induction seen ts rule: unique_fold.induct) auto
  then have "filter (\<lambda>t. \<not> isEnum t) (unique_fold [] (map alias_target TYPELIST)) =
      unique_fold [] (map alias_target TYPELIST)"
    using assms by (intro filter_True) auto
  then show ?thesis by (simp add: WrapperVariant_def types_def uniqueTypes_def m)
qed

lemma wrapper_spells:
  "list_all2 spells (''configuration::Configurator::NullWrapper'' #
      unique_fold [] (map alias_target TYPELIST)) type_keys"
  unfolding unique_targets by (simp add: type_keys_def spells_def plain_name_def NUL_def)

lemma type_good_keys: "\<forall>k \<in> set (type_keys @ map fst alias_entries). good_key k"
  by (simp add: type_keys_def alias_entries_def good_key_def despace_def SPACE_def TAB_def NUL_def MAX_CHAR_SIZE_def)

lemma type_chain_lengths:
  "\<forall>h \<in> set (map (table_hash 255) (type_keys @ map fst alias_entries)). h < 255 \<and>
    length (filter (\<lambda>h'. h' = h) (map (table_hash 255) (type_keys @ map fst alias_entries))) \<le> CHAINSIZE"
  unfolding type_index_list by (simp add: CHAINSIZE_def)

lemma alias_entries_good: "list_all good_alias alias_entries"
  by (simp add: alias_entries_def good_alias_def NUL_def)

lemma alias_entries_sum: "sum_list (map (snd \<circ> snd) alias_entries) = 177"
  by (simp add: alias_entries_def)

lemma alias_targets_types: "(name, target, n) \<in> set alias_entries \<Longrightarrow> target \<in> set type_keys"
  by (auto simp: alias_entries_def type_keys_def)

section \<open>Building the tables\<close>

lemma fits_sub:
  assumes "\<forall>k \<in> set (pre @ map fst es @ post). good_key k"
    and "\<forall>h \<in> set (map (table_hash 255) (pre @ map fst es @ post)). h < 255 \<and>
      length (filter (\<lambda>h'. h' = h) (map (table_hash 255) (pre @ map fst es @ post))) \<le> CHAINSIZE"
  shows "fits_chains 255 (StrHashTable 255 v0) es"
proof (rule fits_chainsI)
  show "\<forall>e \<in> set es. good_key (fst e)" using assms(1) by auto
  have m: "map (\<lambda>e. table_hash 255 (fst e)) es = map (table_hash 255) (map fst es)" by simp
  show "\<forall>h \<in> set (map (\<lambda>e. table_hash 255 (fst e)) es). h < 255 \<and>
      length (filter (\<lambda>h'. h' = h) (map (\<lambda>e. table_hash 255 (fst e)) es)) \<le> CHAINSIZE"
  proof (rule ballI)
    fix h
    assume "h \<in> set (map (\<lambda>e. table_hash 255 (fst e)) es)"
    then have "h \<in> set (map (table_hash 255) (pre @ map fst es @ post))" by auto
    with assms(2) have "h < 255 \<and>
        length (filter (\<lambda>h'. h' = h) (map (table_hash 255) (pre @ map fst es @ post))) \<le> CHAINSIZE"
      by blast
    then show "h < 255 \<and> length (filter (\<lambda>h'. h' = h) (map (\<lambda>e. table_hash 255 (fst e)) es)) \<le> CHAINSIZE"
      unfolding m map_append filter_append length_append by linarith
  qed
qed

lemma type_table_built:
  "\<exists>t. setup_table 255 (0 :: nat) (zip type_keys [0 ..< length type_keys]) = Inr t \<and>
    (\<forall>i < length type_keys. get 255 t (type_keys ! i) = Inr (Some i))"
proof -
  let ?es = "zip type_keys [0 ..< length type_keys]"
  have f: "map fst ?es = type_keys" by simp
  have fits: "fits_chains 255 (StrHashTable 255 0) ?es"
    using fits_sub [of "[]" ?es "map fst alias_entries" 0] type_good_keys type_chain_lengths
    by (simp only: f append_Nil)
  have "map (\<lambda>e. (table_hash 255 (fst e), despace (fst e))) ?es =
      map (\<lambda>k. (table_hash 255 k, despace k)) (map fst ?es)" by (simp only: map_map comp_def)
  then have "clash_free (map (\<lambda>e. (table_hash 255 (fst e), despace (fst e))) ?es)"
    using type_clash_free unfolding f by (simp add: clash_free_append)
  from setup_holds_all [OF fits clash_free_table [OF this]] obtain t
    where t: "setup_table 255 0 ?es = Inr t" "\<forall>(k, v) \<in> set ?es. get 255 t k = Inr (Some v)" by blast
  have "get 255 t (type_keys ! i) = Inr (Some i)" if i: "i < length type_keys" for i
  proof -
    have "?es ! i = (type_keys ! i, i)" "i < length ?es" using i by simp_all
    then have "(type_keys ! i, i) \<in> set ?es" by (metis nth_mem)
    with t(2) show ?thesis by blast
  qed
  with t(1) show ?thesis by blast
qed

lemma alias_offsets_names: "map fst (alias_offsets p es) = map fst es"
  by (induction p es rule: alias_offsets.induct) auto

lemma alias_table_built:
  "\<exists>t. foldE (add_entry 255) (StrHashTable 255 None) (alias_offsets 0 alias_entries) = Inr t \<and>
    (\<forall>k \<in> set type_keys. get 255 t k = Inr None) \<and>
    (\<forall>(k, v) \<in> set (alias_offsets 0 alias_entries). get 255 t k = Inr (Some v))"
proof -
  let ?es = "alias_offsets 0 alias_entries"
  have f: "map fst ?es = map fst alias_entries" by (rule alias_offsets_names)
  have len: "length ?es < 255"
    using arg_cong [OF f, of length] by (simp add: alias_entries_def)
  have fits: "fits_chains 255 (StrHashTable 255 None) ?es"
    using fits_sub [of type_keys ?es "[]" None] type_good_keys type_chain_lengths
    by (simp only: f append_Nil2)
  have "map (\<lambda>e. (table_hash 255 (fst e), despace (fst e))) ?es =
      map (\<lambda>k. (table_hash 255 k, despace k)) (map fst ?es)" by (simp only: map_map comp_def)
  then have "clash_free (map (\<lambda>e. (table_hash 255 (fst e), despace (fst e))) ?es)"
    using type_clash_free unfolding f by (simp add: clash_free_append)
  from table_holds_all [OF len fits clash_free_table [OF this]] obtain t
    where t: "foldE (add_entry 255) (StrHashTable 255 None) ?es = Inr t"
      "\<forall>(k, v) \<in> set ?es. get 255 t k = Inr (Some v)" by blast
  have "get 255 t k = Inr None" if k: "k \<in> set type_keys" for k
  proof -
    have g: "good_key k" "\<forall>e \<in> set ?es. good_key (fst e)"
      using type_good_keys k f fits by (simp_all add: fits_chains_def)
    have "\<not> table_clash 255 k a" if "a \<in> fst ` set alias_entries" for a
      using type_clash_free k that by (fastforce simp: clash_free_append table_clash_def)
    moreover have "fst ` set ?es = fst ` set alias_entries"
      using arg_cong [OF f, of set] by simp
    ultimately have "find (\<lambda>e. table_clash 255 k (fst e)) ?es = None"
      by (metis (mono_tags, lifting) find_None_iff image_eqI)
    then show ?thesis
      using add_table.look_ins_all [OF wf_StrHashTable _ g(2,1) t(1) get_fresh [OF g(1)]] len
      by (simp add: table_room_def StrHashTable_def)
  qed
  with t show ?thesis by blast
qed

lemma alias_offsets_ex:
  "(name, target, n) \<in> set es \<Longrightarrow> \<exists>off. (name, Some off) \<in> set (alias_offsets p es)"
  by (induction p es rule: alias_offsets.induct) auto

lemma alias_names_distinct: "distinct (map fst alias_entries)"
  by (simp add: alias_entries_def)

lemma TypesFor_built:
  assumes "list_all2 spells pretty type_keys"
  shows "\<exists>T. TypesFor pretty = Inr T \<and>
    (\<forall>i < length type_keys. getType T (type_keys ! i) = Inr i) \<and>
    (\<forall>(name, target, n) \<in> set alias_entries. getType T name = getType T target \<and> target \<in> set type_keys)"
proof -
  obtain bs where bs: "setup_names pretty = Inr bs" "map cstr bs = type_keys"
    using setup_names_ok [OF assms] by blast
  have len: "length pretty = length type_keys" using assms by (rule list_all2_lengthD)
  obtain t where t: "setup_table 255 0 (zip type_keys [0 ..< length type_keys]) = Inr t"
      "\<forall>i < length type_keys. get 255 t (type_keys ! i) = Inr (Some i)"
    using type_table_built by blast
  obtain a where a: "foldE (add_entry 255) (StrHashTable 255 None) (alias_offsets 0 alias_entries) = Inr a"
      "\<forall>k \<in> set type_keys. get 255 a k = Inr None"
      "\<forall>(k, v) \<in> set (alias_offsets 0 alias_entries). get 255 a k = Inr (Some v)"
    using alias_table_built by blast
  let ?T0 = "\<lparr>names = bs, storage = replicate MAX_CHAR_SIZE NUL, storagePos = 0,
         typeForHash = t, aliases = StrHashTable 255 None\<rparr>"
  obtain T where T: "foldE add_alias ?T0 alias_entries = Inr T" "aliases T = a"
      "typeForHash T = t" "\<exists>post'. storage T = [] @ alias_bytes alias_entries @ post'"
    using setup_aliases_ok [OF alias_entries_good, of ?T0 "[]" "replicate MAX_CHAR_SIZE NUL" a] a(1)
    by (auto simp: alias_entries_sum MAX_CHAR_SIZE_def)
  have ty: "getType T (type_keys ! i) = Inr i" if "i < length type_keys" for i
    using that t(2) a(2) T(2,3) by (simp add: getType_def)
  have "getType T name = getType T target \<and> target \<in> set type_keys"
    if e: "(name, target, n) \<in> set alias_entries" for name target n
  proof -
    have tk: "target \<in> set type_keys" by (rule alias_targets_types [OF e])
    obtain off where off: "(name, Some off) \<in> set (alias_offsets 0 alias_entries)"
      using alias_offsets_ex [OF e] by blast
    obtain post' where st: "storage T = alias_bytes alias_entries @ post'" using T(4) by auto
    obtain tg m where "(name, tg, m) \<in> set alias_entries" "cstr (drop off (storage T)) = tg"
      using alias_offset_target [OF alias_entries_good off, of "[]" post'] st by auto
    moreover from this(1) e have "tg = target"
      using alias_names_distinct by (metis eq_key_imp_eq_value prod.inject)
    moreover have "get 255 a name = Inr (Some (Some off))" using a(3) off by blast
    ultimately show ?thesis using T(2) a(2) tk by (simp add: getType_def)
  qed
  moreover have "TypesFor pretty = Inr T"
    using bs t(1) T(1) len by (simp add: TypesFor_def setupAliases_def)
  ultimately show ?thesis using ty by blast
qed

section \<open>Properties\<close>

text \<open>
  C19. The enumeration map is complete: the static initialiser files all 65 enumerators
  without leaving an array, and looking any of them up gives its value, although several
  share a bucket.
\<close>

theorem enum_map_complete:
  "\<exists>t. EnumMapInitializer = Inr t \<and> (\<forall>(k, v) \<in> set enum_entries. get 255 t k = Inr (Some v))"
proof -
  have "length enum_entries < 255" by (simp add: enum_entries_def)
  from table_holds_all [OF this enum_fits clash_free_table [OF enum_clash_free]] show ?thesis
    unfolding EnumMapInitializer_def .
qed

theorem enum_map_complete_witness:
  "\<exists>t. EnumMapInitializer = Inr t \<and> get 255 t ''VK_IMAGE_USAGE_DEPTH_STENCIL_ATTACHMENT_BIT'' = Inr (Some 32)"
proof -
  have "(''VK_IMAGE_USAGE_DEPTH_STENCIL_ATTACHMENT_BIT'', 32) \<in> set enum_entries"
    by (simp add: enum_entries_def)
  with enum_map_complete show ?thesis by fastforce
qed

text \<open>
  C6. The type map is complete: with the typedefs that the alias list names, the constructor
  of \<open>TypesFor\<close> succeeds, every type is found under its own index (no two type names
  are confused, although four share one bucket of five), and every alias gives the index of
  the type it stands for.
\<close>

theorem type_map_complete:
  assumes "\<forall>t \<in> set TYPELIST. typedefs t = alias_target t \<and> \<not> isEnum (alias_target t)"
  shows "\<exists>T. TypesFor (WrapperVariant typedefs isEnum) = Inr T \<and>
    (\<forall>i < length type_keys. getType T (type_keys ! i) = Inr i) \<and>
    (\<forall>(name, target, n) \<in> set alias_entries. getType T name = getType T target \<and> target \<in> set type_keys)"
  by (rule TypesFor_built) (simp only: types_names [OF assms] wrapper_spells)

theorem type_map_complete_witness:
  "\<exists>T. TypesFor (WrapperVariant alias_target (\<lambda>_. False)) = Inr T \<and>
    (\<forall>i < length type_keys. getType T (type_keys ! i) = Inr i) \<and>
    (\<forall>(name, target, n) \<in> set alias_entries. getType T name = getType T target \<and> target \<in> set type_keys)"
  by (rule type_map_complete) simp

end
