(* ===== verification/XmlProc.thy ===== *)
theory XmlProc
  imports FieldConv ParentLink TypeMaps
begin

text \<open>
  \<open>XmlProcessor\<close> and \<open>VulkanMap\<close> of \<open>src/src\<close>: the visitor that turns the elements of a
  configuration file into filled structures. Extractors live in a heap and are named by their
  position; a null pointer is \<open>None\<close>. tinyxml2, which drives the visitor, is the argument
  \<open>accept\<close> of \<open>process\<close>; what is proved of it holds for any sequence of visits.
\<close>

section \<open>State\<close>

type_synonym container_any = "(string \<times> cvalue list) option"

record xml_processor =
  valForAttrName :: "string list"
  childTypes :: "(string \<times> nat) list"
  extractorList :: "nat option list"
  extCount :: nat
  idTagFound :: bool
  extractor_ptr :: "nat option"
  inField :: bool
  inStruct :: bool
  error :: error_state
  parChildLink :: parent_link
  structs :: "(string \<times> container_any) list"
  heap :: "extractor list"

text \<open>
  What the processor is compiled against: the environment of the conversions, the type map
  with the alternatives of \<open>WrapperVariant\<close>, the plain enumerations, and the iteration orders.
\<close>

record config =
  conv :: env
  typeMap :: types_for
  variants :: "string list"
  plain_enum :: "string \<Rightarrow> bool"
  child_order :: "nat order"
  link_order :: "field_info order"

definition NullWrapper :: string where
  "NullWrapper = ''configuration::Configurator::NullWrapper''"

definition XmlProcessor :: xml_processor where
  "XmlProcessor =
     \<lparr>valForAttrName = replicate 255 [], childTypes = [], extractorList = replicate 255 None,
      extCount = 0, idTagFound = False, extractor_ptr = None, inField = False, inStruct = False,
      error = new_error_state, parChildLink = new_parent_link, structs = [], heap = []\<rparr>"

definition set_error :: "xml_processor \<Rightarrow> process_error \<Rightarrow> xml_processor" where
  "set_error P f = P\<lparr>error := setError (error P) f\<rparr>"

text \<open>The spelling of the type \<open>typeMap.getType\<close> finds for a name.\<close>

definition lookup_type :: "config \<Rightarrow> string \<Rightarrow> string res" where
  "lookup_type C s =
     bindE (getType (typeMap C) s) (\<lambda>i.
       Inr (if i < length (variants C) then variants C ! i else NullWrapper))"

definition get_extractor :: "xml_processor \<Rightarrow> nat \<Rightarrow> extractor res" where
  "get_extractor P e = buf_get (heap P) e"

section \<open>Attributes\<close>

definition attr_hash :: "string \<Rightarrow> nat" where
  "attr_hash tag = getStringHash tag xml_scale"

definition populate_step :: "string list \<Rightarrow> string \<times> string \<Rightarrow> string list res" where
  "populate_step vs a = buf_set vs (attr_hash (fst a)) (snd a)"

definition populateAttrMap :: "xml_processor \<Rightarrow> (string \<times> string) list \<Rightarrow> xml_processor res" where
  "populateAttrMap P attrs =
     bindE (foldE populate_step (valForAttrName P) attrs) (\<lambda>vs. Inr (P\<lparr>valForAttrName := vs\<rparr>))"

definition clearAttrMap :: "xml_processor \<Rightarrow> xml_processor" where
  "clearAttrMap P = P\<lparr>valForAttrName := replicate (length (valForAttrName P)) []\<rparr>"

definition getAttribute :: "xml_processor \<Rightarrow> string \<Rightarrow> string res" where
  "getAttribute P tag = buf_get (valForAttrName P) (attr_hash tag)"

definition hasAttribute :: "xml_processor \<Rightarrow> string \<Rightarrow> bool res" where
  "hasAttribute P tag = bindE (getAttribute P tag) (\<lambda>s. Inr (s \<noteq> []))"

section \<open>Fields\<close>

text \<open>
  \<open>processFieldInStruct\<close>: a value of type \<open>R\<close> for a field of the current extractor. The
  \<open>std::any\<close> overload casts back to the type that was put in, so its handler is not reached.
\<close>

definition processFieldInStruct ::
  "config \<Rightarrow> xml_processor \<Rightarrow> string \<Rightarrow> string \<Rightarrow> cvalue \<Rightarrow> (bool \<times> xml_processor) res" where
  "processFieldInStruct C P R fieldName v =
     (case extractor_ptr P of
        None \<Rightarrow> Inl NullDeref
      | Some e \<Rightarrow>
          bindE (get_extractor P e) (\<lambda>x.
            if \<not> isVisitable x then Inr (False, set_error P STRUCT_META_MISSING)
            else bindE (isFieldInStruct x fieldName) (\<lambda>present.
              if \<not> present then Inr (False, set_error P FIELD_HASH_INVALID)
              else bindE (setFieldForStruct (castable_to (conv C)) x fieldName (stored_as R) v)
                     (\<lambda>x'. Inr (True, P\<lparr>heap := (heap P)[e := x']\<rparr>)))))"

text \<open>The spelling without pointer and \<open>const\<close>, as \<open>ParentChildFieldLink::add\<close> takes it.\<close>

definition pointee_name :: "string \<Rightarrow> string" where
  "pointee_name t =
     (case kind_of t of
        KPtr u \<Rightarrow> (if take 6 u = ''const '' then drop 6 u else u)
      | _ \<Rightarrow> t)"

definition ID_REF :: string where
  "ID_REF = ''&id:''"

definition enter_field :: "config \<Rightarrow> xml_processor \<Rightarrow> (bool \<times> xml_processor) res" where
  "enter_field C P =
     (case extractor_ptr P of
        None \<Rightarrow> Inr (False, set_error P PROCESSING_OUT_OF_ORDER)
      | Some e \<Rightarrow>
          bindE (getAttribute P ''value'') (\<lambda>valStr.
          bindE (getAttribute P ''name'') (\<lambda>fieldName.
          bindE (getAttribute P ''type'') (\<lambda>typeStr.
          bindE (lookup_type C typeStr) (\<lambda>T.
            let P' = P\<lparr>inField := True\<rparr>
            in case string_find valStr ID_REF of
                 Some pos \<Rightarrow>
                   bindE (add_link (parChildLink P') e fieldName typeStr
                           (take pos valStr @ drop (pos + length ID_REF) valStr) (pointee_name T))
                     (\<lambda>L. Inr (True, P'\<lparr>idTagFound := True, parChildLink := L\<rparr>))
               | None \<Rightarrow>
                   bindE (get_extractor P' e) (\<lambda>x.
                   bindE (convertToFieldValue (conv C) x T (valStr @ [NUL]) (error P')) (\<lambda>(fieldVal, es).
                     let P'' = P'\<lparr>error := es\<rparr>
                     in case fieldVal of
                          Some v \<Rightarrow> processFieldInStruct C P'' T fieldName v
                        | None \<Rightarrow> Inr (False, set_error P'' TYPE_MISSING_LIST))))))))"

section \<open>Structures\<close>

definition pushExtList :: "xml_processor \<Rightarrow> nat \<Rightarrow> xml_processor res" where
  "pushExtList P e =
     bindE (buf_set (extractorList P) (extCount P) (Some e)) (\<lambda>l.
       Inr (P\<lparr>extractorList := l, extCount := (extCount P + 1) mod 256\<rparr>))"

text \<open>\<open>isError(variant, flag)\<close> for the three flags it is asked about.\<close>

definition variant_error :: "config \<Rightarrow> extractor \<Rightarrow> string \<Rightarrow> process_error \<Rightarrow> bool" where
  "variant_error C x T f =
     (case f of
        TYPE_MISSING_LIST \<Rightarrow> T = NullWrapper
      | STRUCT_META_MISSING \<Rightarrow> \<not> isVisitable x
      | ENUM_TYPE \<Rightarrow> plain_enum C T
      | _ \<Rightarrow> False)"

definition enter_struct :: "config \<Rightarrow> xml_processor \<Rightarrow> (bool \<times> xml_processor) res" where
  "enter_struct C P =
     bindE (getAttribute P ''type'') (\<lambda>typeStr.
     bindE (lookup_type C typeStr) (\<lambda>T.
       let x = StructFieldExtractor T; e = length (heap P)
       in bindE (pushExtList (P\<lparr>heap := heap P @ [x], extractor_ptr := Some e\<rparr>) e) (\<lambda>P'.
            if variant_error C x T TYPE_MISSING_LIST then Inr (False, set_error P' TYPE_MISSING_LIST)
            else if variant_error C x T ENUM_TYPE then Inr (False, set_error P' ENUM_TYPE)
            else if variant_error C x T STRUCT_META_MISSING
            then Inr (False, set_error P' STRUCT_META_MISSING)
            else bindE (iterateFieldPositions x) (\<lambda>x'.
                 bindE (hasAttribute P' ''id'') (\<lambda>hasId.
                 bindE (getAttribute P' ''id'') (\<lambda>idStr.
                   let P'' = P'\<lparr>inStruct := True, heap := (heap P')[e := x']\<rparr>
                   in Inr (True, if hasId
                        then P''\<lparr>childTypes := emplace (idStr @ '':'' @ ext_getType x') e (childTypes P'')\<rparr>
                        else P'')))))))"

definition VisitEnter ::
  "config \<Rightarrow> xml_processor \<Rightarrow> string \<Rightarrow> (string \<times> string) list \<Rightarrow> (bool \<times> xml_processor) res" where
  "VisitEnter C P name attrs =
     (if attrs = [] then Inr (True, P)
      else bindE (populateAttrMap P attrs) (\<lambda>P1.
           bindE (hasAttribute P1 ''type'') (\<lambda>hasType.
           bindE (if hasType \<and> name = ''struct'' then enter_struct C P1
                  else if hasType \<and> name = ''field'' then enter_field C P1
                  else Inr (True, P1))
             (\<lambda>(result, P2). Inr (result, clearAttrMap P2)))))"

section \<open>Children into parents\<close>

text \<open>\<open>any_cast<T>\<close> of a child's container, inside functions that may not throw.\<close>

definition child_container :: "xml_processor \<Rightarrow> string \<Rightarrow> string \<times> nat \<Rightarrow> cvalue list res" where
  "child_container P T child =
     bindE (get_extractor P (snd child)) (\<lambda>x.
       case getContainer x of
         None \<Rightarrow> Inl Fatal
       | Some (S, c) \<Rightarrow> if S = T then Inr c else Inl Fatal)"

text \<open>
  \<open>convertChildStructToVal<R>\<close>: \<open>T\<close> is the type of the tag. The pointer form visits
  \<open>count\<close> elements, the others the first.
\<close>

definition convertChildStructToVal ::
  "xml_processor \<Rightarrow> matching \<Rightarrow> string \<Rightarrow> string \<Rightarrow> cvalue option res" where
  "convertChildStructToVal P M R T =
     (case kind_of R of
        KPtr u \<Rightarrow>
          if length (children M) < match_count M then Inl OutOfBounds
          else bindE (mapE (child_container P T) (take (match_count M) (children M)))
                 (\<lambda>cs. Inr (Some (getItemArr R T cs)))
      | KEnum e \<Rightarrow>
          bindE (buf_get (children M) 0) (\<lambda>c. bindE (child_container P T c) (\<lambda>_. Inr None))
      | _ \<Rightarrow>
          bindE (buf_get (children M) 0) (\<lambda>c.
            bindE (child_container P T c) (\<lambda>v. Inr (struct_to_field R T v))))"

definition saveStructAsFieldValue ::
  "config \<Rightarrow> xml_processor \<Rightarrow> field_info \<Rightarrow> string \<Rightarrow> matching \<Rightarrow> (bool \<times> xml_processor) res" where
  "saveStructAsFieldValue C P fieldInfo tagType M =
     (case fieldInfo of (ext, fieldName, fieldType) \<Rightarrow>
        bindE (lookup_type C fieldType) (\<lambda>R.
        bindE (lookup_type C (drop 1 tagType)) (\<lambda>T.
        bindE (convertChildStructToVal P M R T) (\<lambda>val.
          case val of
            Some v \<Rightarrow> processFieldInStruct C P R fieldName v
          | None \<Rightarrow> Inr (False, set_error P TYPE_MISSING_LIST)))))"

definition permReplaceContainer :: "xml_processor \<Rightarrow> nat \<Rightarrow> xml_processor res" where
  "permReplaceContainer P e =
     bindE (get_extractor P e) (\<lambda>x.
       Inr (P\<lparr>structs := assign_key (ext_getType x) (getContainer x) (structs P)\<rparr>))"

definition permStoreNewContainer :: "xml_processor \<Rightarrow> nat \<Rightarrow> xml_processor res" where
  "permStoreNewContainer P e =
     bindE (get_extractor P e) (\<lambda>x.
       Inr (P\<lparr>structs := emplace (ext_getType x) (getContainer x) (structs P)\<rparr>))"

text \<open>Extracting a key that is not in the map gives an empty node, whose key is then read.\<close>

definition addChildStructDeleteIndicator :: "xml_processor \<Rightarrow> string \<Rightarrow> xml_processor res" where
  "addChildStructDeleteIndicator P tag =
     (case map_of (childTypes P) tag of
        None \<Rightarrow> Inl NullDeref
      | Some e \<Rightarrow>
          Inr (P\<lparr>childTypes := emplace (''0:'' @ tag) e (erase_key tag (childTypes P))\<rparr>))"

definition processParentChildFieldInteraction ::
  "config \<Rightarrow> xml_processor \<Rightarrow> string \<Rightarrow> string \<Rightarrow> field_info \<Rightarrow> matching \<Rightarrow> (bool \<times> xml_processor) res" where
  "processParentChildFieldInteraction C P childTag parTagType fieldInfo M =
     (case extractor_ptr P of
        None \<Rightarrow> Inl NullDeref
      | Some extractorBak \<Rightarrow>
          let parExtractor = fst fieldInfo
          in bindE (if parExtractor \<noteq> extractorBak
                    then permReplaceContainer (P\<lparr>extractor_ptr := Some parExtractor\<rparr>) extractorBak
                    else Inr P) (\<lambda>P1.
             bindE (saveStructAsFieldValue C P1 fieldInfo parTagType M) (\<lambda>(result, P2).
             bindE (if result
                    then bindE (permReplaceContainer P2 parExtractor) (\<lambda>P3.
                           addChildStructDeleteIndicator P3 childTag)
                    else Inr P2) (\<lambda>P4.
               Inr (result, P4\<lparr>extractor_ptr := Some extractorBak\<rparr>)))))"

section \<open>VisitExit, process and destruction\<close>

definition exit_matching :: "config \<Rightarrow> xml_processor \<Rightarrow> (bool \<times> xml_processor) res" where
  "exit_matching C P =
     (let M = ChildTypeParentFieldMatching (child_order C) (childTypes P) (parChildLink P)
      in if match_count M \<noteq> 0
         then getTypeForField (link_order C) (processParentChildFieldInteraction C) parChildLink
                (\<lambda>L p. p\<lparr>parChildLink := L\<rparr>) M (P\<lparr>idTagFound := False\<rparr>)
         else Inr (True, P))"

definition VisitExit :: "config \<Rightarrow> xml_processor \<Rightarrow> (bool \<times> xml_processor) res" where
  "VisitExit C P =
     (case extractor_ptr P of
        Some e \<Rightarrow>
          if \<not> inField P \<and> inStruct P
          then bindE (get_extractor P e) (\<lambda>x.
               bindE (if ext_getType x = NullWrapper
                      then Inr (False, set_error P PROCESSING_OUT_OF_ORDER)
                      else if idTagFound P \<or>
                        (childTypes P \<noteq> [] \<and> length (childTypes P) \<le> length (structs P))
                      then exit_matching C P
                      else bindE (permStoreNewContainer P e) (\<lambda>P'.
                        Inr (True, P'\<lparr>parChildLink := clearParTags (parChildLink P')\<rparr>)))
                 (\<lambda>(result, P'). Inr (result, P'\<lparr>inStruct := False\<rparr>)))
          else Inr (True, if inField P then P\<lparr>inField := False\<rparr> else P)
      | None \<Rightarrow> Inr (True, if inField P then P\<lparr>inField := False\<rparr> else P))"

definition parseConfig ::
  "bool \<Rightarrow> (xml_processor \<Rightarrow> xml_processor res) \<Rightarrow> xml_processor \<Rightarrow> (bool \<times> xml_processor) res" where
  "parseConfig load_failed accept P =
     (if load_failed then Inr (False, set_error P FILE_LOAD_ERR)
      else bindE (accept P) (\<lambda>P'. Inr (True, P')))"

definition process ::
  "bool \<Rightarrow> (xml_processor \<Rightarrow> xml_processor res) \<Rightarrow> xml_processor \<Rightarrow> (bool \<times> xml_processor) res" where
  "process load_failed accept P =
     bindE (parseConfig load_failed accept P) (\<lambda>(result, P').
       if getChildFieldLinkSize (parChildLink P') \<noteq> 0
       then Inr (False, set_error P' FIELD_LEFT_UNASSIGNED)
       else Inr (result, P'))"

text \<open>The destructor: the extractors given back, in order.\<close>

definition destroyed :: "xml_processor \<Rightarrow> nat list" where
  "destroyed P = List.map_filter id (take (extCount P) (extractorList P))"

section \<open>VulkanMap\<close>

text \<open>
  \<open>VulkanMap::get<T>\<close>: the stored structure, read through the null pointer that
  \<open>any_cast\<close> gives for another type; a value-initialised one when there is none.
\<close>

definition VulkanMap_get :: "xml_processor \<Rightarrow> string \<Rightarrow> cvalue list res" where
  "VulkanMap_get P T =
     (case map_of (structs P) T of
        Some (Some (S, c)) \<Rightarrow> if S = T then Inr c else Inl NullDeref
      | Some None \<Rightarrow> Inl NullDeref
      | None \<Rightarrow> Inr (container (StructFieldExtractor T)))"

end
