(* ===== verification/XmlInv.thy ===== *)
theory XmlInv
  imports XmlProc
begin

text \<open>
  What every visit of \<open>XmlProcessor\<close> preserves: the arrays keep their size and their
  attribute slots are cleared, every pointer points to an extractor, the list of extractors to
  delete names each once, and every stored structure has the type it is filed under.
\<close>

section \<open>Shapes\<close>

definition field_count :: "string \<Rightarrow> nat" where
  "field_count t = (case struct_fields t of None \<Rightarrow> 0 | Some fs \<Rightarrow> length fs)"

definition ext_wf :: "extractor \<Rightarrow> bool" where
  "ext_wf x = (length (fieldPositions x) = 255 \<and> length (container x) = field_count (ext_class x))"

definition same_shape :: "extractor \<Rightarrow> extractor \<Rightarrow> bool" where
  "same_shape x y = (ext_class y = ext_class x \<and> length (fieldPositions y) = length (fieldPositions x) \<and>
     length (container y) = length (container x))"

lemma same_shape_wf: "same_shape x y \<Longrightarrow> ext_wf x \<Longrightarrow> ext_wf y"
  by (simp add: same_shape_def ext_wf_def)

lemma same_shape_specialised: "same_shape x y \<Longrightarrow> is_specialised y = is_specialised x"
  by (simp add: same_shape_def is_specialised_def)

lemma ext_wf_new: "ext_wf (StructFieldExtractor t)"
  by (simp add: ext_wf_def StructFieldExtractor_def field_count_def split: option.splits)

lemma setFieldForStruct_shape:
  assumes "setFieldForStruct castable x f S v = Inr y"
  shows "same_shape x y"
proof (cases "is_specialised x")
  case True
  then obtain c where c: "foldE (set_step castable x (field_hash f) S v) (container x)
      [0 ..< length (container x)] = Inr c" "y = x\<lparr>container := c\<rparr>"
    using assms by (auto simp: setFieldForStruct_def setFieldValue_def bindE_eq_Inr)
  have "length c = length (container x)"
    by (rule foldE_invariant [OF c(1), of "\<lambda>d. length d = length (container x)"])
      (auto simp: set_step_def bindE_eq_Inr split: if_splits)
  then show ?thesis by (simp add: c(2) same_shape_def)
next
  case False
  then show ?thesis using assms by (simp add: setFieldForStruct_def same_shape_def)
qed

lemma iterateFieldPositions_shape:
  assumes "iterateFieldPositions x = Inr y"
  shows "same_shape x y"
proof (cases "is_specialised x")
  case True
  then obtain ps where ps: "foldE store_position (fieldPositions x) (case struct_fields (ext_class x) of
      None \<Rightarrow> [] | Some fs \<Rightarrow> enumerate 0 fs) = Inr ps" "y = x\<lparr>fieldPositions := ps\<rparr>"
    using assms by (auto simp: iterateFieldPositions_def bindE_eq_Inr)
  have "length ps = length (fieldPositions x)"
    by (rule foldE_invariant [OF ps(1), of "\<lambda>d. length d = length (fieldPositions x)"])
      (auto simp: store_position_def dest: buf_set_length)
  then show ?thesis by (simp add: ps(2) same_shape_def)
next
  case False
  then show ?thesis using assms by (simp add: iterateFieldPositions_def same_shape_def)
qed

section \<open>The invariant\<close>

definition typed_container :: "string \<times> container_any \<Rightarrow> bool" where
  "typed_container e = (\<exists>c. snd e = Some (fst e, c) \<and> length c = field_count (fst e))"

definition core_inv :: "xml_processor \<Rightarrow> bool" where
  "core_inv P =
     (length (valForAttrName P) = 255 \<and> length (extractorList P) = 255 \<and>
      length (heap P) = extCount P \<and> extCount P \<le> 255 \<and>
      (\<forall>i < extCount P. extractorList P ! i = Some i) \<and>
      (\<forall>e. extractor_ptr P = Some e \<longrightarrow> e < extCount P) \<and>
      (\<forall>x \<in> set (heap P). ext_wf x) \<and>
      (\<forall>(k, e) \<in> set (childTypes P). e < extCount P) \<and>
      (\<forall>(k, e, f) \<in> set (childInfo (parChildLink P)). e < extCount P) \<and>
      (\<forall>s \<in> set (structs P). typed_container s) \<and>
      (inStruct P \<longrightarrow> extractor_ptr P \<noteq> None))"

definition proc_inv :: "xml_processor \<Rightarrow> bool" where
  "proc_inv P = (core_inv P \<and> (\<forall>s \<in> set (valForAttrName P). s = []))"

lemma set_error_simps [simp]:
  "valForAttrName (set_error P f) = valForAttrName P" "extractor_ptr (set_error P f) = extractor_ptr P"
  "heap (set_error P f) = heap P" "childTypes (set_error P f) = childTypes P"
  "structs (set_error P f) = structs P" "parChildLink (set_error P f) = parChildLink P"
  "extCount (set_error P f) = extCount P" "extractorList (set_error P f) = extractorList P"
  "inStruct (set_error P f) = inStruct P" "inField (set_error P f) = inField P"
  "idTagFound (set_error P f) = idTagFound P" "error (set_error P f) = setError (error P) f"
  by (simp_all add: set_error_def)

lemma core_inv_set_error [simp]: "core_inv (set_error P f) = core_inv P"
  by (simp add: core_inv_def)

lemma proc_inv_new: "proc_inv XmlProcessor"
  by (simp add: proc_inv_def core_inv_def XmlProcessor_def new_parent_link_def)

lemma core_inv_heap_update:
  assumes "core_inv P" and "e < length (heap P)" and "same_shape (heap P ! e) x"
  shows "core_inv (P\<lparr>heap := (heap P)[e := x]\<rparr>)"
proof -
  have "ext_wf x" using assms same_shape_wf [OF assms(3)] by (auto simp: core_inv_def)
  then show ?thesis using assms(1) set_update_subset_insert [of "heap P" e x]
    by (auto simp: core_inv_def)
qed

lemma get_extractor_InrD: "get_extractor P e = Inr x \<Longrightarrow> e < length (heap P) \<and> x = heap P ! e"
  by (auto simp: get_extractor_def buf_get_def split: if_splits)

lemma getContainer_typed:
  assumes "ext_wf x" and "is_specialised x"
  shows "typed_container (ext_getType x, getContainer x)"
  using assms by (simp add: typed_container_def ext_getType_def getContainer_def ext_wf_def)

lemma emplace_set: "set (emplace k v m) \<subseteq> insert (k, v) (set m)"
  by (auto simp: emplace_def)

lemma assign_key_set: "set (assign_key k v m) \<subseteq> insert (k, v) (set m)"
  by (auto simp: assign_key_def split: if_splits)

lemma erase_key_set: "set (erase_key k m) \<subseteq> set m"
  by (auto simp: erase_key_def)

section \<open>Fields\<close>

lemma processFieldInStruct_inv:
  assumes "processFieldInStruct C P R f v = Inr (r, Q)" and "core_inv P"
  shows "core_inv Q" and "valForAttrName Q = valForAttrName P" and "extractor_ptr Q = extractor_ptr P"
    and "r \<Longrightarrow> \<exists>e. extractor_ptr P = Some e \<and> is_specialised (heap Q ! e) \<and> e < length (heap Q)"
    and "length (heap Q) = length (heap P)" and "childTypes Q = childTypes P"
    and "structs Q = structs P" and "parChildLink Q = parChildLink P"
proof -
  obtain e x where e: "extractor_ptr P = Some e" "get_extractor P e = Inr x"
    using assms(1) by (auto simp: processFieldInStruct_def bindE_eq_Inr split: option.splits)
  note x = get_extractor_InrD [OF e(2)]
  consider (a) "Q = set_error P STRUCT_META_MISSING" "\<not> r" | (b) "Q = set_error P FIELD_HASH_INVALID" "\<not> r"
    | (c) y where "setFieldForStruct (castable_to (conv C)) x f (stored_as R) v = Inr y"
        "Q = P\<lparr>heap := (heap P)[e := y]\<rparr>" "r" "isVisitable x"
    using assms(1) e by (auto simp: processFieldInStruct_def bindE_eq_Inr split: if_splits)
  then have "core_inv Q \<and> valForAttrName Q = valForAttrName P \<and> extractor_ptr Q = extractor_ptr P \<and>
      (r \<longrightarrow> is_specialised (heap Q ! e) \<and> e < length (heap Q)) \<and> length (heap Q) = length (heap P) \<and>
      childTypes Q = childTypes P \<and> structs Q = structs P \<and> parChildLink Q = parChildLink P"
  proof cases
    case c
    have s: "same_shape (heap P ! e) y" using setFieldForStruct_shape [OF c(1)] x by simp
    have "is_specialised y"
      using c(4) same_shape_specialised [OF s] x by (simp add: isVisitable_def)
    then show ?thesis using c(2,3) x core_inv_heap_update [OF assms(2) _ s] by simp
  qed (use assms(2) in simp_all)
  then show "core_inv Q" "valForAttrName Q = valForAttrName P" "extractor_ptr Q = extractor_ptr P"
    "r \<Longrightarrow> \<exists>e. extractor_ptr P = Some e \<and> is_specialised (heap Q ! e) \<and> e < length (heap Q)"
    "length (heap Q) = length (heap P)" "childTypes Q = childTypes P"
    "structs Q = structs P" "parChildLink Q = parChildLink P"
    using e(1) by simp_all
qed

lemma childInfo_add_link:
  assumes "add_link L e f t v n = Inr L'"
  shows "set (childInfo L') \<subseteq> insert ('':'' @ n, e, f, t) (set (childInfo L))"
proof -
  have a: "append_id K s = Inr K' \<Longrightarrow> childInfo K' = childInfo K" for K K' s
    by (auto simp: append_id_def bindE_eq_Inr)
  have p: "parse_char tag K c = Inr K' \<Longrightarrow> childInfo K' = childInfo K" for tag K K' c
    by (auto simp: parse_char_def bindE_eq_Inr next_id_def dest: a split: if_splits)
  have f: "foldE (parse_char tag) K cs = Inr K' \<Longrightarrow> childInfo K' = childInfo K" for tag K K' cs
    by (rule foldE_invariant [where P = "\<lambda>X. childInfo X = childInfo K"]) (auto dest: p)
  have "parseChildRef L v tag = Inr K \<Longrightarrow> childInfo K = childInfo L" for K tag
    by (auto simp: parseChildRef_def bindE_eq_Inr next_id_def dest!: f a split: if_splits)
  then show ?thesis
    using assms emplace_set [of "'':'' @ n" "(e, f, t)" "childInfo L"]
    by (auto simp: add_link_def bindE_eq_Inr Let_def)
qed

lemma enter_field_inv:
  assumes "enter_field C P = Inr (r, Q)" and "core_inv P"
  shows "core_inv Q \<and> length (valForAttrName Q) = length (valForAttrName P)"
proof (cases "extractor_ptr P")
  case None
  then show ?thesis using assms by (auto simp: enter_field_def)
next
  case (Some e)
  let ?P = "P\<lparr>inField := True\<rparr>"
  have e: "e < extCount P" using assms(2) Some by (simp add: core_inv_def)
  obtain valStr fieldName typeStr T where vals: "getAttribute P ''value'' = Inr valStr"
      "getAttribute P ''name'' = Inr fieldName" "getAttribute P ''type'' = Inr typeStr"
      "lookup_type C typeStr = Inr T"
    using assms(1) Some by (auto simp: enter_field_def bindE_eq_Inr)
  have inv: "core_inv ?P" using assms(2) by (simp add: core_inv_def)
  show ?thesis
  proof (cases "string_find valStr ID_REF")
    case (Some pos)
    then obtain L where L: "add_link (parChildLink P) e fieldName typeStr
        (take pos valStr @ drop (pos + length ID_REF) valStr) (pointee_name T) = Inr L"
        "Q = ?P\<lparr>idTagFound := True, parChildLink := L\<rparr>"
      using assms(1) vals \<open>extractor_ptr P = Some e\<close> by (auto simp: enter_field_def bindE_eq_Inr)
    have "\<forall>(k, e, f) \<in> set (childInfo L). e < extCount P"
      using childInfo_add_link [OF L(1)] assms(2) e by (fastforce simp: core_inv_def)
    then show ?thesis using inv L(2) by (simp add: core_inv_def)
  next
    case None
    then obtain x v es where x: "get_extractor ?P e = Inr x"
        "convertToFieldValue (conv C) x T (valStr @ [NUL]) (error ?P) = Inr (v, es)"
        "(case v of Some w \<Rightarrow> processFieldInStruct C (?P\<lparr>error := es\<rparr>) T fieldName w
          | None \<Rightarrow> Inr (False, set_error (?P\<lparr>error := es\<rparr>) TYPE_MISSING_LIST)) = Inr (r, Q)"
      using assms(1) vals \<open>extractor_ptr P = Some e\<close>
      by (auto simp: enter_field_def bindE_eq_Inr Let_def)
    have inv': "core_inv (?P\<lparr>error := es\<rparr>)" using inv by (simp add: core_inv_def)
    show ?thesis
    proof (cases v)
      case None
      then have "Q = set_error (?P\<lparr>error := es\<rparr>) TYPE_MISSING_LIST" using x(3) by simp
      then show ?thesis using inv' by simp
    next
      case (Some w)
      then show ?thesis using processFieldInStruct_inv(1,2) [OF _ inv'] x(3) by simp
    qed
  qed
qed

section \<open>Structures\<close>

lemma pushExtList_inv:
  assumes "pushExtList (P\<lparr>heap := heap P @ [x], extractor_ptr := Some (length (heap P))\<rparr>) (length (heap P)) = Inr Q"
    and "core_inv P" and "ext_wf x"
  shows "core_inv Q" and "valForAttrName Q = valForAttrName P" and "extCount Q = extCount P + 1"
    and "heap Q = heap P @ [x]" and "extractor_ptr Q = Some (extCount P)"
    and "childTypes Q = childTypes P" and "extCount P < 255"
    and "Q = P\<lparr>heap := heap P @ [x], extractor_ptr := Some (extCount P),
      extractorList := (extractorList P)[extCount P := Some (extCount P)], extCount := extCount P + 1\<rparr>"
proof -
  have lens: "length (heap P) = extCount P" "length (extractorList P) = 255" "extCount P \<le> 255"
    using assms(2) by (simp_all add: core_inv_def)
  then have lt: "extCount P < 255"
    using assms(1) by (auto simp: pushExtList_def bindE_eq_Inr buf_set_def split: if_splits)
  then have Q: "Q = P\<lparr>heap := heap P @ [x], extractor_ptr := Some (extCount P),
      extractorList := (extractorList P)[extCount P := Some (extCount P)], extCount := extCount P + 1\<rparr>"
    using assms(1) lens by (simp add: pushExtList_def)
  show "core_inv Q"
    using assms(2,3) lt lens(2) unfolding Q core_inv_def
    by (auto simp: nth_list_update less_Suc_eq intro: less_SucI)
  show "valForAttrName Q = valForAttrName P" "extCount Q = extCount P + 1" "heap Q = heap P @ [x]"
    "extractor_ptr Q = Some (extCount P)" "childTypes Q = childTypes P"
    "extCount P < 255" "Q = P\<lparr>heap := heap P @ [x], extractor_ptr := Some (extCount P),
      extractorList := (extractorList P)[extCount P := Some (extCount P)], extCount := extCount P + 1\<rparr>"
    using lt by (simp_all add: Q)
qed

lemma enter_struct_inv:
  assumes "enter_struct C P = Inr (r, Q)" and "core_inv P"
  shows "core_inv Q \<and> length (valForAttrName Q) = length (valForAttrName P)"
proof -
  obtain typeStr T P' where t: "getAttribute P ''type'' = Inr typeStr" "lookup_type C typeStr = Inr T"
      "pushExtList (P\<lparr>heap := heap P @ [StructFieldExtractor T], extractor_ptr := Some (length (heap P))\<rparr>)
        (length (heap P)) = Inr P'"
    using assms(1) by (auto simp: enter_struct_def bindE_eq_Inr Let_def)
  let ?x = "StructFieldExtractor T"
  note p = pushExtList_inv [OF t(3) assms(2) ext_wf_new]
  show ?thesis
  proof (cases "\<exists>f. Q = set_error P' f")
    case True
    then show ?thesis using p(1,2) by auto
  next
    case False
    let ?P'' = "\<lambda>x'. P'\<lparr>inStruct := True, heap := (heap P')[length (heap P) := x']\<rparr>"
    have "\<exists>x' idStr. iterateFieldPositions ?x = Inr x' \<and> (Q = ?P'' x' \<or>
        Q = (?P'' x')\<lparr>childTypes := emplace (idStr @ '':'' @ ext_getType x') (length (heap P)) (childTypes P')\<rparr>)"
      using assms(1) t False by (auto simp: enter_struct_def bindE_eq_Inr Let_def split: if_splits)
    then obtain x' idStr where x': "iterateFieldPositions ?x = Inr x'"
        "Q = ?P'' x' \<or> Q = (?P'' x')\<lparr>childTypes := emplace (idStr @ '':'' @ ext_getType x') (length (heap P))
          (childTypes P')\<rparr>"
      by blast
    have s: "same_shape (heap P' ! length (heap P)) x'"
      using iterateFieldPositions_shape [OF x'(1)] by (simp add: p(4))
    have "core_inv (P'\<lparr>heap := (heap P')[length (heap P) := x']\<rparr>)"
      by (rule core_inv_heap_update [OF p(1) _ s]) (simp add: p(4))
    then have i: "core_inv (P'\<lparr>inStruct := True, heap := (heap P')[length (heap P) := x']\<rparr>)"
      using p(5) by (simp add: core_inv_def)
    have "length (heap P) < extCount P'"
      using assms(2) by (simp add: core_inv_def p(3))
    then have "core_inv Q"
      using i emplace_set [of "idStr @ '':'' @ ext_getType x'" "length (heap P)" "childTypes P'"]
      using x'(2) by (fastforce simp: core_inv_def)
    then show ?thesis using p(2) x'(2) by auto
  qed
qed

lemma populateAttrMap_inv:
  assumes "populateAttrMap P attrs = Inr Q" and "core_inv P"
  shows "core_inv Q"
proof -
  obtain vs where vs: "foldE populate_step (valForAttrName P) attrs = Inr vs"
      "Q = P\<lparr>valForAttrName := vs\<rparr>"
    using assms(1) by (auto simp: populateAttrMap_def bindE_eq_Inr)
  have "length vs = length (valForAttrName P)"
    by (rule foldE_invariant [OF vs(1), of "\<lambda>d. length d = length (valForAttrName P)"])
      (auto simp: populate_step_def dest: buf_set_length)
  then show ?thesis using assms(2) by (simp add: vs(2) core_inv_def)
qed

lemma VisitEnter_inv:
  assumes "VisitEnter C P name attrs = Inr (r, Q)" and "proc_inv P"
  shows "proc_inv Q"
proof (cases "attrs = []")
  case True
  then show ?thesis using assms by (simp add: VisitEnter_def)
next
  case False
  obtain P1 P2 h where p: "populateAttrMap P attrs = Inr P1"
      "(if h \<and> name = ''struct'' then enter_struct C P1
        else if h \<and> name = ''field'' then enter_field C P1 else Inr (True, P1)) = Inr (r, P2)"
      "Q = clearAttrMap P2"
    using assms(1) False by (auto simp: VisitEnter_def bindE_eq_Inr)
  have i1: "core_inv P1" using populateAttrMap_inv [OF p(1)] assms(2) by (simp add: proc_inv_def)
  have "core_inv P2"
    using p(2) enter_struct_inv [OF _ i1] enter_field_inv [OF _ i1] i1 by (auto split: if_splits)
  then show ?thesis by (auto simp: p(3) proc_inv_def core_inv_def clearAttrMap_def)
qed

section \<open>Children into parents\<close>

lemma permReplaceContainer_inv:
  assumes "permReplaceContainer P e = Inr Q" and "core_inv P" and "is_specialised (heap P ! e)"
  shows "core_inv Q \<and> (\<exists>st. Q = P\<lparr>structs := st\<rparr>)"
proof -
  have e: "e < length (heap P)" "Q = P\<lparr>structs := assign_key (ext_getType (heap P ! e))
      (getContainer (heap P ! e)) (structs P)\<rparr>"
    using assms(1) by (auto simp: permReplaceContainer_def bindE_eq_Inr dest: get_extractor_InrD)
  have "ext_wf (heap P ! e)" using assms(2) e(1) by (simp add: core_inv_def)
  from getContainer_typed [OF this assms(3)]
  show ?thesis using assms(2) e(2)
      assign_key_set [of "ext_getType (heap P ! e)" "getContainer (heap P ! e)" "structs P"]
    by (auto simp: core_inv_def)
qed

lemma permStoreNewContainer_inv:
  assumes "permStoreNewContainer P e = Inr Q" and "core_inv P" and "is_specialised (heap P ! e)"
  shows "core_inv Q \<and> (\<exists>st. Q = P\<lparr>structs := st\<rparr>)"
proof -
  have e: "e < length (heap P)" "Q = P\<lparr>structs := emplace (ext_getType (heap P ! e))
      (getContainer (heap P ! e)) (structs P)\<rparr>"
    using assms(1) by (auto simp: permStoreNewContainer_def bindE_eq_Inr dest: get_extractor_InrD)
  have "ext_wf (heap P ! e)" using assms(2) e(1) by (simp add: core_inv_def)
  from getContainer_typed [OF this assms(3)]
  show ?thesis using assms(2) e(2)
      emplace_set [of "ext_getType (heap P ! e)" "getContainer (heap P ! e)" "structs P"]
    by (auto simp: core_inv_def)
qed

lemma addChildStructDeleteIndicator_inv:
  assumes "addChildStructDeleteIndicator P tag = Inr Q" and "core_inv P"
  shows "core_inv Q \<and> (\<exists>ct. Q = P\<lparr>childTypes := ct\<rparr>)"
proof -
  obtain e where e: "map_of (childTypes P) tag = Some e"
      "Q = P\<lparr>childTypes := emplace (''0:'' @ tag) e (erase_key tag (childTypes P))\<rparr>"
    using assms(1) by (auto simp: addChildStructDeleteIndicator_def split: option.splits)
  have old: "k' \<in> set (childTypes P) \<Longrightarrow> snd k' < extCount P" for k'
    using assms(2) by (auto simp: core_inv_def)
  have "snd k' < extCount P" if "k' \<in> set (childTypes Q)" for k'
  proof -
    from that have "k' = (''0:'' @ tag, e) \<or> k' \<in> set (childTypes P)"
      using emplace_set [of "''0:'' @ tag" e "erase_key tag (childTypes P)"]
        erase_key_set [of tag "childTypes P"] e(2) by auto
    then show ?thesis using old [of k'] old [OF map_of_SomeD [OF e(1)]] by auto
  qed
  then have "core_inv Q" using assms(2) e(2) by (auto simp: core_inv_def)
  then show ?thesis using e(2) by blast
qed

lemma processFieldInStruct_classes:
  assumes "processFieldInStruct C P R f v = Inr (r, Q)"
  shows "map ext_class (heap Q) = map ext_class (heap P)" and "extCount Q = extCount P"
    and "inStruct Q = inStruct P"
proof -
  obtain e x where e: "extractor_ptr P = Some e" "get_extractor P e = Inr x"
    using assms by (auto simp: processFieldInStruct_def bindE_eq_Inr split: option.splits)
  note x = get_extractor_InrD [OF e(2)]
  have "(\<exists>g. Q = set_error P g) \<or> (\<exists>y. setFieldForStruct (castable_to (conv C)) x f (stored_as R) v = Inr y \<and>
      Q = P\<lparr>heap := (heap P)[e := y]\<rparr>)"
    using assms e by (auto simp: processFieldInStruct_def bindE_eq_Inr split: if_splits)
  then have "map ext_class (heap Q) = map ext_class (heap P) \<and> extCount Q = extCount P \<and> inStruct Q = inStruct P"
  proof (elim disjE exE conjE)
    fix y
    assume y: "setFieldForStruct (castable_to (conv C)) x f (stored_as R) v = Inr y" "Q = P\<lparr>heap := (heap P)[e := y]\<rparr>"
    have "ext_class y = ext_class (heap P ! e)"
      using setFieldForStruct_shape [OF y(1)] x by (simp add: same_shape_def)
    then show ?thesis using x y(2) by (simp add: map_update list_update_same_conv)
  qed simp
  then show "map ext_class (heap Q) = map ext_class (heap P)" "extCount Q = extCount P"
    "inStruct Q = inStruct P" by simp_all
qed

lemma specialised_classes:
  "map ext_class hs = map ext_class hs' \<Longrightarrow> e < length hs \<Longrightarrow> is_specialised (hs ! e) = is_specialised (hs' ! e)"
  by (metis is_specialised_def length_map nth_map)

text \<open>What stays fixed while children are moved into parents.\<close>

definition same_frame :: "xml_processor \<Rightarrow> xml_processor \<Rightarrow> bool" where
  "same_frame P Q =
     (core_inv Q \<and> extractor_ptr Q = extractor_ptr P \<and> map ext_class (heap Q) = map ext_class (heap P) \<and>
      parChildLink Q = parChildLink P \<and> valForAttrName Q = valForAttrName P \<and> extCount Q = extCount P)"

lemma saveStructAsFieldValue_inv:
  assumes "saveStructAsFieldValue C P info tag M = Inr (r, Q)" and "core_inv P"
  shows "same_frame P Q" and "r \<Longrightarrow> \<exists>e. extractor_ptr P = Some e \<and> is_specialised (heap Q ! e)"
proof -
  obtain f R v where "Q = set_error P TYPE_MISSING_LIST \<and> \<not> r \<or> processFieldInStruct C P R f v = Inr (r, Q)"
    using assms(1) by (auto simp: saveStructAsFieldValue_def bindE_eq_Inr split: option.splits prod.splits)
  then have "same_frame P Q \<and> (r \<longrightarrow> (\<exists>e. extractor_ptr P = Some e \<and> is_specialised (heap Q ! e)))"
  proof (elim disjE conjE)
    assume p: "processFieldInStruct C P R f v = Inr (r, Q)"
    show ?thesis
      using processFieldInStruct_inv [OF p assms(2)] processFieldInStruct_classes [OF p]
      by (auto simp: same_frame_def)
  qed (use assms(2) in \<open>simp_all add: same_frame_def\<close>)
  then show "same_frame P Q" "r \<Longrightarrow> \<exists>e. extractor_ptr P = Some e \<and> is_specialised (heap Q ! e)"
    by simp_all
qed

lemma interaction_inv:
  assumes "processParentChildFieldInteraction C P tag ptag info M = Inr (r, Q)" and "core_inv P"
    and "extractor_ptr P = Some e" and "is_specialised (heap P ! e)" and "fst info < extCount P"
  shows "same_frame P Q"
proof -
  obtain P1 P2 P4 where p:
      "(if fst info \<noteq> e then permReplaceContainer (P\<lparr>extractor_ptr := Some (fst info)\<rparr>) e else Inr P) = Inr P1"
      "saveStructAsFieldValue C P1 info ptag M = Inr (r, P2)"
      "(if r then bindE (permReplaceContainer P2 (fst info)) (\<lambda>P3. addChildStructDeleteIndicator P3 tag)
        else Inr P2) = Inr P4"
      "Q = P4\<lparr>extractor_ptr := Some e\<rparr>"
    using assms(1,3) by (auto simp: processParentChildFieldInteraction_def bindE_eq_Inr Let_def)
  have e: "e < extCount P" using assms(2,3) by (simp add: core_inv_def)
  let ?Pe = "P\<lparr>extractor_ptr := Some (fst info)\<rparr>"
  have ce: "core_inv ?Pe" using assms(2,5) by (simp add: core_inv_def)
  have P1: "core_inv P1 \<and> extractor_ptr P1 = Some (fst info) \<and> heap P1 = heap P \<and>
      parChildLink P1 = parChildLink P \<and> valForAttrName P1 = valForAttrName P \<and> extCount P1 = extCount P"
  proof (cases "fst info = e")
    case True
    then show ?thesis using p(1) assms(2,3) by simp
  next
    case False
    then have "permReplaceContainer ?Pe e = Inr P1" using p(1) by simp
    from permReplaceContainer_inv [OF this ce] assms(4)
    obtain st where "core_inv P1" "P1 = ?Pe\<lparr>structs := st\<rparr>" by auto
    then show ?thesis by simp
  qed
  note s = saveStructAsFieldValue_inv [OF p(2)]
  have P2: "same_frame P1 P2" using s(1) P1 by simp
  have sp: "r \<Longrightarrow> is_specialised (heap P2 ! fst info)" using s(2) P1 by auto
  have P4: "core_inv P4 \<and> heap P4 = heap P2 \<and> parChildLink P4 = parChildLink P2 \<and>
      valForAttrName P4 = valForAttrName P2 \<and> extCount P4 = extCount P2"
  proof (cases r)
    case True
    then obtain P3 where q: "permReplaceContainer P2 (fst info) = Inr P3"
        "addChildStructDeleteIndicator P3 tag = Inr P4"
      using p(3) by (auto simp: bindE_eq_Inr)
    have "core_inv P2" using P2 by (simp add: same_frame_def)
    from permReplaceContainer_inv [OF q(1) this sp [OF True]] obtain st
      where P3: "core_inv P3" "P3 = P2\<lparr>structs := st\<rparr>" by auto
    from addChildStructDeleteIndicator_inv [OF q(2) P3(1)] obtain ct
      where "core_inv P4" "P4 = P3\<lparr>childTypes := ct\<rparr>" by auto
    then show ?thesis using P3(2) by simp
  next
    case False
    then show ?thesis using p(3) P2 by (simp add: same_frame_def)
  qed
  have "core_inv P4" "e < extCount P4" using P4 P2 P1 e by (simp_all add: same_frame_def)
  then have "core_inv Q" by (simp add: p(4) core_inv_def)
  then show ?thesis using P4 P2 P1 assms(3) by (simp add: p(4) same_frame_def)
qed

section \<open>The end of a structure\<close>

text \<open>What the orders of iteration must be: rearrangements.\<close>

definition orders_ok :: "config \<Rightarrow> bool" where
  "orders_ok C = ((\<forall>m. set (child_order C m) = set m) \<and> (\<forall>m. set (link_order C m) = set m))"

lemma link_step_inv:
  assumes "link_step (processParentChildFieldInteraction C) M (r, loc, p) info = Inr (r', loc', p')"
    and "same_frame P p" and "extractor_ptr P = Some e" and "is_specialised (heap P ! e)"
    and "e < length (heap P)" and "fst (snd info) < extCount P"
  shows "same_frame P p'"
proof -
  have "p' = p \<or> (\<exists>tag ptag b. processParentChildFieldInteraction C p tag ptag (snd info) M = Inr (b, p'))"
    using assms(1) by (auto simp: link_step_def bindE_eq_Inr split: if_splits)
  then show ?thesis
  proof (elim disjE exE)
    fix tag ptag b
    assume i: "processParentChildFieldInteraction C p tag ptag (snd info) M = Inr (b, p')"
    have p: "core_inv p" "extractor_ptr p = Some e" "is_specialised (heap p ! e)"
        "fst (snd info) < extCount p"
      using assms(2-6) specialised_classes [of "heap p" "heap P" e]
      by (auto simp: same_frame_def dest: map_eq_imp_length_eq)
    from interaction_inv [OF i p] show ?thesis using assms(2) by (simp add: same_frame_def)
  qed (use assms(2) in simp)
qed

lemma link_steps_inv:
  assumes "foldE (link_step (processParentChildFieldInteraction C) M) (r, loc, p) infos = Inr (r', loc', p')"
    and "same_frame P p" and "extractor_ptr P = Some e" and "is_specialised (heap P ! e)"
    and "e < length (heap P)" and "\<forall>info \<in> set infos. fst (snd info) < extCount P"
  shows "same_frame P p'"
  using assms(1,2,6)
proof (induction infos arbitrary: r loc p)
  case (Cons info infos)
  obtain r1 loc1 p1 where s: "link_step (processParentChildFieldInteraction C) M (r, loc, p) info = Inr (r1, loc1, p1)"
      "foldE (link_step (processParentChildFieldInteraction C) M) (r1, loc1, p1) infos = Inr (r', loc', p')"
    using Cons.prems(1) by (auto simp: bindE_eq_Inr)
  have "same_frame P p1"
    by (rule link_step_inv [OF s(1) Cons.prems(2) assms(3-5)]) (use Cons.prems(3) in simp)
  then show ?case by (rule Cons.IH [OF s(2)]) (use Cons.prems(3) in simp)
qed simp

lemma erase_link_childInfo: "set (childInfo (erase_link ord L tag)) \<subseteq> set (childInfo L)"
  using erase_key_set [of _ "childInfo L"] by (auto simp: erase_link_def split: option.splits)

lemma core_inv_parChildLink:
  "core_inv P \<Longrightarrow> set (childInfo L) \<subseteq> set (childInfo (parChildLink P)) \<Longrightarrow> core_inv (P\<lparr>parChildLink := L\<rparr>)"
  unfolding core_inv_def by auto

lemma getTypeForField_InrD:
  assumes "getTypeForField ord callback link set_link M p = Inr (r, q)"
  shows "\<exists>loc p'. foldE (link_step callback M) (False, None, p) (ord (childInfo (link p))) = Inr (r, Some loc, p') \<and>
    (q = p' \<or> (\<exists>tag. q = set_link (erase_link ord (link p') tag) p'))"
proof -
  obtain res loc p' where f: "foldE (link_step callback M) (False, None, p) (ord (childInfo (link p)))
        = Inr (res, loc, p')"
      "(case loc of None \<Rightarrow> Inl NullDeref
        | Some l \<Rightarrow> if l < match_count M
          then bindE (buf_get (children M) l) (\<lambda>child.
            Inr (res, set_link (erase_link ord (link p') (fst child)) p'))
          else Inr (res, p')) = Inr (r, q)"
    using assms by (auto simp: getTypeForField_def bindE_eq_Inr)
  then show ?thesis by (cases loc) (auto simp: bindE_eq_Inr split: if_splits)
qed

lemma exit_matching_inv:
  assumes "exit_matching C P = Inr (r, Q)" and "core_inv P" and "orders_ok C"
    and "extractor_ptr P = Some e" and "is_specialised (heap P ! e)"
  shows "core_inv Q \<and> valForAttrName Q = valForAttrName P"
proof -
  let ?M = "ChildTypeParentFieldMatching (child_order C) (childTypes P) (parChildLink P)"
  let ?P = "P\<lparr>idTagFound := False\<rparr>"
  have e: "e < length (heap P)" and i: "core_inv ?P"
    using assms(2,4) by (simp_all add: core_inv_def)
  show ?thesis
  proof (cases "match_count ?M = 0")
    case True
    then show ?thesis using assms(1,2) by (simp add: exit_matching_def Let_def)
  next
    case False
    then have g: "getTypeForField (link_order C) (processParentChildFieldInteraction C) parChildLink
        (\<lambda>L p. p\<lparr>parChildLink := L\<rparr>) ?M ?P = Inr (r, Q)"
      using assms(1) by (simp add: exit_matching_def Let_def)
    obtain loc p' where f: "foldE (link_step (processParentChildFieldInteraction C) ?M) (False, None, ?P)
          (link_order C (childInfo (parChildLink P))) = Inr (r, Some loc, p')"
        "Q = p' \<or> (\<exists>tag. Q = p'\<lparr>parChildLink := erase_link (link_order C) (parChildLink p') tag\<rparr>)"
      using getTypeForField_InrD [OF g] by auto
    have "same_frame ?P p'"
    proof (rule link_steps_inv [OF f(1)])
      show "same_frame ?P ?P" using i by (simp add: same_frame_def)
      show "\<forall>info \<in> set (link_order C (childInfo (parChildLink P))). fst (snd info) < extCount ?P"
        using assms(2,3) by (auto simp: orders_ok_def core_inv_def)
    qed (use assms(4,5) e in simp_all)
    then have c: "core_inv p'" "valForAttrName p' = valForAttrName P" by (simp_all add: same_frame_def)
    from f(2) show ?thesis
      using c core_inv_parChildLink [OF c(1) erase_link_childInfo] by auto
  qed
qed

lemma VisitExit_inv:
  assumes "VisitExit C P = Inr (r, Q)" and "proc_inv P" and "orders_ok C"
  shows "proc_inv Q"
proof -
  have c: "core_inv P" using assms(2) by (simp add: proc_inv_def)
  have c': "core_inv (P\<lparr>inField := False\<rparr>)" using c by (simp add: core_inv_def)
  have drop: "core_inv (X\<lparr>inStruct := False\<rparr>)" if "core_inv X" for X
    using that by (simp add: core_inv_def)
  have "core_inv Q \<and> valForAttrName Q = valForAttrName P"
  proof (cases "\<exists>e. extractor_ptr P = Some e \<and> \<not> inField P \<and> inStruct P")
    case False
    then show ?thesis using assms(1) c c' by (auto simp: VisitExit_def split: option.splits if_splits)
  next
    case True
    then obtain e where e: "extractor_ptr P = Some e" "\<not> inField P" "inStruct P" by blast
    obtain x P' where x: "get_extractor P e = Inr x" "Q = P'\<lparr>inStruct := False\<rparr>"
        "(if ext_getType x = NullWrapper then Inr (False, set_error P PROCESSING_OUT_OF_ORDER)
          else if idTagFound P \<or> (childTypes P \<noteq> [] \<and> length (childTypes P) \<le> length (structs P))
          then exit_matching C P
          else bindE (permStoreNewContainer P e) (\<lambda>P'.
            Inr (True, P'\<lparr>parChildLink := clearParTags (parChildLink P')\<rparr>))) = Inr (r, P')"
      using assms(1) e by (auto simp: VisitExit_def bindE_eq_Inr)
    have h: "x = heap P ! e" using get_extractor_InrD [OF x(1)] by simp
    show ?thesis
    proof (cases "ext_getType x = NullWrapper")
      case True
      then show ?thesis using x(2,3) c drop [of "set_error P PROCESSING_OUT_OF_ORDER"] by auto
    next
      case nn: False
      then have sp: "is_specialised (heap P ! e)"
        using h by (auto simp: ext_getType_def NullWrapper_def split: if_splits)
      show ?thesis
      proof (cases "idTagFound P \<or> (childTypes P \<noteq> [] \<and> length (childTypes P) \<le> length (structs P))")
        case True
        then have "exit_matching C P = Inr (r, P')" using x(3) nn by simp
        from exit_matching_inv [OF this c assms(3) e(1) sp] show ?thesis using x(2) drop [of P'] by simp
      next
        case False
        then obtain P3 where p: "permStoreNewContainer P e = Inr P3"
            "P' = P3\<lparr>parChildLink := clearParTags (parChildLink P3)\<rparr>"
          using x(3) nn by (auto simp: bindE_eq_Inr)
        from permStoreNewContainer_inv [OF p(1) c sp] obtain st
          where s: "core_inv P3" "P3 = P\<lparr>structs := st\<rparr>" by blast
        have "core_inv P'" unfolding p(2)
          by (rule core_inv_parChildLink [OF s(1)]) (simp add: clearParTags_def)
        then show ?thesis using x(2) drop [of P'] p(2) s(2) by simp
      qed
    qed
  qed
  then show ?thesis using assms(2) by (simp add: proc_inv_def)
qed

section \<open>Sequences of visits\<close>

text \<open>Any calls of the two handlers, as the XML library may make them.\<close>

inductive visits :: "config \<Rightarrow> xml_processor \<Rightarrow> xml_processor \<Rightarrow> bool" for C P where
  visits_refl: "visits C P P"
| visits_enter: "visits C P Q \<Longrightarrow> VisitEnter C Q name attrs = Inr (r, Q') \<Longrightarrow> visits C P Q'"
| visits_exit: "visits C P Q \<Longrightarrow> VisitExit C Q = Inr (r, Q') \<Longrightarrow> visits C P Q'"

inductive_cases visits_cases: "visits C P Q"

lemma visits_inv: "visits C P Q \<Longrightarrow> proc_inv P \<Longrightarrow> orders_ok C \<Longrightarrow> proc_inv Q"
  by (induction rule: visits.induct) (auto intro: VisitEnter_inv VisitExit_inv)

lemma visits_trans: "visits C Q R \<Longrightarrow> visits C P Q \<Longrightarrow> visits C P R"
  by (induction rule: visits.induct) (auto intro: visits.intros)

end
