(* ===== verification/XmlRun.thy ===== *)
theory XmlRun
  imports XmlInv
begin

text \<open>
  Whole runs of the visitor: what the sequence of visits for a structure and its fields
  leaves behind, what a reference by id does to the link, and the guards of \<open>process\<close>.
\<close>

section \<open>Attributes of one element\<close>

lemma attr_hashes:
  "attr_hash ''type'' = 80" "attr_hash ''value'' = 66" "attr_hash ''name'' = 140" "attr_hash ''id'' = 55"
  by (simp_all add: attr_hash_def xml_scale_value string_hash_eval)

definition field_attrs :: "string \<Rightarrow> string \<Rightarrow> string \<Rightarrow> (string \<times> string) list" where
  "field_attrs name val ty = [(''name'', name), (''value'', val), (''type'', ty)]"

lemma proc_inv_attrs: "proc_inv P \<Longrightarrow> valForAttrName P = replicate 255 []"
  unfolding proc_inv_def core_inv_def by (metis replicate_eqI)

lemma clearAttrMap_eq:
  "proc_inv P \<Longrightarrow> length vs = 255 \<Longrightarrow> clearAttrMap (Q\<lparr>valForAttrName := vs\<rparr>) = Q\<lparr>valForAttrName := valForAttrName P\<rparr>"
  by (simp add: clearAttrMap_def proc_inv_attrs)

lemma populate_field:
  assumes "proc_inv P"
  obtains vs where "populateAttrMap P (field_attrs f val ty) = Inr (P\<lparr>valForAttrName := vs\<rparr>)"
    and "length vs = 255" and "vs ! 140 = f" and "vs ! 66 = val" and "vs ! 80 = ty" and "vs ! 55 = []"
  using proc_inv_attrs [OF assms] that [of "(replicate 255 [])[140 := f, 66 := val, 80 := ty]"]
  by (simp add: populateAttrMap_def field_attrs_def populate_step_def attr_hashes nth_list_update)

lemma populate_type:
  assumes "proc_inv P"
  obtains vs where "populateAttrMap P [(''type'', ty)] = Inr (P\<lparr>valForAttrName := vs\<rparr>)"
    and "length vs = 255" and "vs ! 80 = ty" and "vs ! 55 = []"
  using proc_inv_attrs [OF assms] that [of "(replicate 255 [])[80 := ty]"]
  by (simp add: populateAttrMap_def populate_step_def attr_hashes nth_list_update)

section \<open>A structure without an id\<close>

text \<open>
  A structure type the configurator can fill: it is in the map, a class with metadata whose
  members all have an index inside the array.
\<close>

definition fillable :: "config \<Rightarrow> string \<Rightarrow> string \<Rightarrow> string list \<Rightarrow> bool" where
  "fillable C ty T fs =
     (ty \<noteq> [] \<and> lookup_type C ty = Inr T \<and> T \<noteq> NullWrapper \<and> \<not> plain_enum C T \<and>
      kind_of T = KStruct \<and> struct_fields T = Some fs \<and> meta_ok fs)"

definition filled :: "string \<Rightarrow> string list \<Rightarrow> cvalue list \<Rightarrow> extractor \<Rightarrow> bool" where
  "filled T fs c x =
     (ext_class x = T \<and> container x = c \<and> length c = length fs \<and> length (fieldPositions x) = 255 \<and>
      (\<forall>h < 255. fieldPositions x ! h = last_position fs 0 255 h))"

lemma iterate_new:
  assumes "fillable C ty T fs"
  obtains x where "iterateFieldPositions (StructFieldExtractor T) = Inr x"
    and "filled T fs (replicate (length fs) CZero) x"
proof -
  have m: "length (fieldPositions (StructFieldExtractor T)) = 255" "\<forall>f \<in> set fs. field_hash f < 255"
      "0 + length fs < 256"
    using assms by (simp_all add: StructFieldExtractor_def fillable_def meta_ok_def)
  obtain ps where ps: "foldE store_position (fieldPositions (StructFieldExtractor T)) (enumerate 0 fs) = Inr ps"
      "length ps = 255" "\<forall>h < 255. ps ! h = last_position fs 0 (fieldPositions (StructFieldExtractor T) ! h) h"
    using store_positions [OF m] by blast
  show thesis
    by (rule that [of "(StructFieldExtractor T)\<lparr>fieldPositions := ps\<rparr>"])
      (use assms ps in \<open>simp_all add: iterateFieldPositions_def is_specialised_def fillable_def
        filled_def StructFieldExtractor_def\<close>)
qed

text \<open>The state just after the start tag of a structure of type \<open>T\<close> with container \<open>c\<close>.\<close>

definition filling :: "xml_processor \<Rightarrow> string \<Rightarrow> string list \<Rightarrow> cvalue list \<Rightarrow> xml_processor \<Rightarrow> bool" where
  "filling P T fs c Q =
     (\<exists>x. filled T fs c x \<and>
       Q = P\<lparr>heap := heap P @ [x], extractor_ptr := Some (extCount P),
         extractorList := (extractorList P)[extCount P := Some (extCount P)],
         extCount := extCount P + 1, inStruct := True\<rparr>)"

lemma enter_struct_filling:
  assumes "proc_inv P" and "extCount P < 255" and "fillable C ty T fs"
  shows "\<exists>Q. VisitEnter C P ''struct'' [(''type'', ty)] = Inr (True, Q) \<and>
    filling P T fs (replicate (length fs) CZero) Q"
proof -
  obtain vs where vs: "populateAttrMap P [(''type'', ty)] = Inr (P\<lparr>valForAttrName := vs\<rparr>)"
      "length vs = 255" "vs ! 80 = ty" "vs ! 55 = []"
    using populate_type [OF assms(1)] by metis
  obtain x where x: "iterateFieldPositions (StructFieldExtractor T) = Inr x"
      "filled T fs (replicate (length fs) CZero) x"
    using iterate_new [OF assms(3)] by blast
  have l: "length (heap P) = extCount P" "length (extractorList P) = 255"
    using assms(1) by (simp_all add: proc_inv_def core_inv_def)
  let ?Q = "P\<lparr>heap := heap P @ [x], extractor_ptr := Some (extCount P),
         extractorList := (extractorList P)[extCount P := Some (extCount P)],
         extCount := extCount P + 1, inStruct := True\<rparr>"
  let ?P1 = "P\<lparr>valForAttrName := vs\<rparr>"
  have f: "lookup_type C ty = Inr T" "T \<noteq> NullWrapper" "\<not> plain_enum C T" "ty \<noteq> []"
      "isVisitable (StructFieldExtractor T)"
    using assms(3) by (simp_all add: fillable_def isVisitable_def is_specialised_def StructFieldExtractor_def)
  have "enter_struct C ?P1 = Inr (True, ?Q\<lparr>valForAttrName := vs\<rparr>)"
    using f x(1) vs(2-4) l assms(2)
    by (simp add: enter_struct_def getAttribute_def hasAttribute_def attr_hashes pushExtList_def
        variant_error_def list_update_append Let_def)
  then have "VisitEnter C P ''struct'' [(''type'', ty)] = Inr (True, ?Q)"
    using f(4) vs clearAttrMap_eq [OF assms(1) vs(2), of ?Q]
    by (simp add: VisitEnter_def getAttribute_def hasAttribute_def attr_hashes)
  then show ?thesis using x(2) unfolding filling_def by blast
qed

section \<open>Its fields\<close>

text \<open>
  A field element that assigns: the member \<open>k\<close> has this name and no later member has
  its index, the type is known and the text converts to \<open>v\<close>, which may be cast to the member.
\<close>

record field_elem =
  f_name :: string
  f_value :: string
  f_type :: string
  f_member :: nat
  f_real :: string
  f_result :: cvalue

definition assigns :: "config \<Rightarrow> string \<Rightarrow> string list \<Rightarrow> field_elem \<Rightarrow> bool" where
  "assigns C T fs F =
     (f_type F \<noteq> [] \<and> f_member F < length fs \<and> fs ! f_member F = f_name F \<and>
      (\<forall>j. f_member F < j \<and> j < length fs \<longrightarrow> field_hash (fs ! j) \<noteq> field_hash (f_name F)) \<and>
      lookup_type C (f_type F) = Inr (f_real F) \<and> string_find (f_value F) ID_REF = None \<and>
      castable_to (conv C) (stored_as (f_real F)) T (f_member F) \<and>
      (\<forall>x es. convertToFieldValue (conv C) x (f_real F) (f_value F @ [NUL]) es = Inr (Some (f_result F), es)))"

lemma set_filled:
  assumes "filled T fs c x" and "kind_of T = KStruct" and "meta_ok fs" and "k < length fs"
    and "\<forall>j. k < j \<and> j < length fs \<longrightarrow> field_hash (fs ! j) \<noteq> field_hash (fs ! k)"
    and "castable S T k"
  shows "setFieldForStruct castable x (fs ! k) S v = Inr (x\<lparr>container := c[k := v]\<rparr>)"
    and "isFieldInStruct x (fs ! k) = Inr True"
proof -
  have h: "field_hash (fs ! k) < 255" using assms(3,4) by (simp add: meta_ok_def)
  then have p: "fieldPositions x ! field_hash (fs ! k) = k"
    using assms(1,4,5) last_position_hit [of k fs "field_hash (fs ! k)" 0 255]
    by (simp add: filled_def)
  show "setFieldForStruct castable x (fs ! k) S v = Inr (x\<lparr>container := c[k := v]\<rparr>)"
    using assms h p
    by (simp add: setFieldForStruct_def is_specialised_def filled_def setFieldValue_eq)
  show "isFieldInStruct x (fs ! k) = Inr True"
    using assms(1) h by (simp add: isFieldInStruct_def filled_def)
qed

lemma filled_update: "filled T fs c x \<Longrightarrow> filled T fs (c[k := v]) (x\<lparr>container := c[k := v]\<rparr>)"
  by (simp add: filled_def)

lemma enter_field_filling:
  assumes "proc_inv P" and "proc_inv Q" and "filling P T fs c Q" and "fillable C ty T fs"
    and "assigns C T fs F"
  shows "\<exists>Q'. VisitEnter C Q ''field'' (field_attrs (f_name F) (f_value F) (f_type F)) = Inr (True, Q'\<lparr>inField := True\<rparr>) \<and>
    filling P T fs (c[f_member F := f_result F]) Q'"
proof -
  obtain x where x: "filled T fs c x"
      "Q = P\<lparr>heap := heap P @ [x], extractor_ptr := Some (extCount P),
         extractorList := (extractorList P)[extCount P := Some (extCount P)],
         extCount := extCount P + 1, inStruct := True\<rparr>"
    using assms(3) unfolding filling_def by blast
  have l: "length (heap P) = extCount P" using assms(1) by (simp add: proc_inv_def core_inv_def)
  let ?k = "f_member F" and ?v = "f_result F"
  let ?x = "x\<lparr>container := c[?k := ?v]\<rparr>"
  obtain vs where vs: "populateAttrMap Q (field_attrs (f_name F) (f_value F) (f_type F)) = Inr (Q\<lparr>valForAttrName := vs\<rparr>)"
      "length vs = 255" "vs ! 140 = f_name F" "vs ! 66 = f_value F" "vs ! 80 = f_type F" "vs ! 55 = []"
    using populate_field [OF assms(2)] by metis
  have a: "f_type F \<noteq> []" "?k < length fs" "fs ! ?k = f_name F"
      "\<forall>j. ?k < j \<and> j < length fs \<longrightarrow> field_hash (fs ! j) \<noteq> field_hash (fs ! ?k)"
      "lookup_type C (f_type F) = Inr (f_real F)" "string_find (f_value F) ID_REF = None"
      "castable_to (conv C) (stored_as (f_real F)) T ?k"
      "\<And>x es. convertToFieldValue (conv C) x (f_real F) (f_value F @ [NUL]) es = Inr (Some ?v, es)"
    using assms(5) by (simp_all add: assigns_def)
  have T: "kind_of T = KStruct" "meta_ok fs" "struct_fields T = Some fs"
    using assms(4) by (simp_all add: fillable_def)
  note sf = set_filled(1) [where castable = "castable_to (conv C)" and v = ?v, OF x(1) T(1,2) a(2,4) a(7), unfolded a(3)]
    set_filled(2) [where castable = "castable_to (conv C)", OF x(1) T(1,2) a(2,4) a(7), unfolded a(3)]
  have vis: "isVisitable x" using x(1) T by (simp add: isVisitable_def is_specialised_def filled_def)
  let ?Q' = "P\<lparr>heap := heap P @ [?x], extractor_ptr := Some (extCount P),
         extractorList := (extractorList P)[extCount P := Some (extCount P)],
         extCount := extCount P + 1, inStruct := True\<rparr>"
  have "enter_field C (Q\<lparr>valForAttrName := vs\<rparr>) = Inr (True, ?Q'\<lparr>inField := True, valForAttrName := vs\<rparr>)"
    using vs(2-6) a(5,6,8) sf vis l
    by (simp add: x(2) enter_field_def getAttribute_def attr_hashes get_extractor_def nth_append
        processFieldInStruct_def list_update_append)
  then have "VisitEnter C Q ''field'' (field_attrs (f_name F) (f_value F) (f_type F)) =
      Inr (True, ?Q'\<lparr>inField := True\<rparr>)"
    using a(1) vs clearAttrMap_eq [OF assms(2) vs(2), of "?Q'\<lparr>inField := True\<rparr>"] x(2)
    by (simp add: VisitEnter_def field_attrs_def getAttribute_def hasAttribute_def attr_hashes)
  then show ?thesis using filled_update [OF x(1)] unfolding filling_def by blast
qed

section \<open>The whole element\<close>

datatype visit = Enter string "(string \<times> string) list" | Leave

fun do_visit :: "config \<Rightarrow> xml_processor \<Rightarrow> visit \<Rightarrow> xml_processor res" where
  "do_visit C P (Enter name attrs) = bindE (VisitEnter C P name attrs) (\<lambda>(r, Q). Inr Q)"
| "do_visit C P Leave = bindE (VisitExit C P) (\<lambda>(r, Q). Inr Q)"

definition field_visits :: "field_elem \<Rightarrow> visit list" where
  "field_visits F = [Enter ''field'' (field_attrs (f_name F) (f_value F) (f_type F)), Leave]"

definition struct_visits :: "string \<Rightarrow> field_elem list \<Rightarrow> visit list" where
  "struct_visits ty Fs = Enter ''struct'' [(''type'', ty)] # concat (map field_visits Fs) @ [Leave]"

lemma run_visits: "foldE (do_visit C) P vs = Inr Q \<Longrightarrow> visits C P Q"
proof (induction vs arbitrary: P)
  case (Cons v vs)
  then obtain R where R: "do_visit C P v = Inr R" "foldE (do_visit C) R vs = Inr Q"
    by (auto simp: bindE_eq_Inr)
  have "visits C P R"
    using R(1) by (cases v) (auto simp: bindE_eq_Inr intro: visits.intros)
  then show ?case using Cons.IH [OF R(2)] by (rule visits_trans [rotated])
qed (auto intro: visits_refl)

definition member_values :: "string list \<Rightarrow> cvalue list \<Rightarrow> field_elem list \<Rightarrow> cvalue list" where
  "member_values fs c Fs = foldl (\<lambda>c F. c[f_member F := f_result F]) c Fs"

lemma fields_run:
  assumes "proc_inv P" and "orders_ok C" and "\<not> inField P" and "fillable C ty T fs"
    and "proc_inv Q" and "filling P T fs c Q" and "\<forall>F \<in> set Fs. assigns C T fs F"
  shows "\<exists>Q'. foldE (do_visit C) Q (concat (map field_visits Fs)) = Inr Q' \<and> proc_inv Q' \<and>
    filling P T fs (member_values fs c Fs) Q'"
  using assms(5-7)
proof (induction Fs arbitrary: Q c)
  case Nil
  then show ?case by (auto simp: member_values_def)
next
  case (Cons F Fs)
  obtain Q1 where Q1: "VisitEnter C Q ''field'' (field_attrs (f_name F) (f_value F) (f_type F)) =
        Inr (True, Q1\<lparr>inField := True\<rparr>)" "filling P T fs (c[f_member F := f_result F]) Q1"
    using enter_field_filling [OF assms(1) Cons.prems(1,2) assms(4)] Cons.prems(3) by auto
  have nf: "\<not> inField Q1" "extractor_ptr Q1 = Some (extCount P)"
    using Q1(2) assms(3) by (auto simp: filling_def)
  then have ex: "VisitExit C (Q1\<lparr>inField := True\<rparr>) = Inr (True, Q1)" by (simp add: VisitExit_def)
  have "proc_inv Q1"
    using VisitExit_inv [OF ex VisitEnter_inv [OF Q1(1) Cons.prems(1)] assms(2)] .
  from Cons.IH [OF this Q1(2)] Cons.prems(3) show ?case
    using Q1(1) ex by (simp add: field_visits_def member_values_def)
qed

lemma element_run:
  assumes "proc_inv P" and "orders_ok C" and "\<not> inField P" and "\<not> idTagFound P" and "childTypes P = []"
    and "extCount P < 255" and "fillable C ty T fs" and "\<forall>F \<in> set Fs. assigns C T fs F"
    and "map_of (structs P) T = None"
  shows "\<exists>Q. foldE (do_visit C) P (struct_visits ty Fs) = Inr Q \<and> error Q = error P \<and>
    structs Q = (T, Some (T, member_values fs (replicate (length fs) CZero) Fs)) # structs P \<and>
    VulkanMap_get Q T = Inr (member_values fs (replicate (length fs) CZero) Fs)"
proof -
  let ?c = "member_values fs (replicate (length fs) CZero) Fs"
  obtain Q0 where Q0: "VisitEnter C P ''struct'' [(''type'', ty)] = Inr (True, Q0)"
      "filling P T fs (replicate (length fs) CZero) Q0"
    using enter_struct_filling [OF assms(1,6,7)] by blast
  have i0: "proc_inv Q0" by (rule VisitEnter_inv [OF Q0(1) assms(1)])
  obtain Q1 where Q1: "foldE (do_visit C) Q0 (concat (map field_visits Fs)) = Inr Q1" "proc_inv Q1"
      "filling P T fs ?c Q1"
    using fields_run [OF assms(1-3,7) i0 Q0(2) assms(8)] by blast
  obtain x where x: "filled T fs ?c x"
      "Q1 = P\<lparr>heap := heap P @ [x], extractor_ptr := Some (extCount P),
         extractorList := (extractorList P)[extCount P := Some (extCount P)],
         extCount := extCount P + 1, inStruct := True\<rparr>"
    using Q1(3) unfolding filling_def by blast
  have T: "kind_of T = KStruct" "T \<noteq> NullWrapper" using assms(7) by (simp_all add: fillable_def)
  have l: "length (heap P) = extCount P" using assms(1) by (simp add: proc_inv_def core_inv_def)
  have g: "get_extractor Q1 (extCount P) = Inr x" using l [symmetric] by (simp add: x(2) get_extractor_def)
  have t: "ext_getType x = T" "getContainer x = Some (T, ?c)"
    using x(1) T by (simp_all add: ext_getType_def getContainer_def is_specialised_def filled_def)
  have "T \<notin> fst ` set (structs P)" using assms(9) by (simp add: map_of_eq_None_iff)
  then have "VisitExit C Q1 = Inr (True, Q1\<lparr>structs := (T, Some (T, ?c)) # structs P,
      parChildLink := clearParTags (parChildLink P), inStruct := False\<rparr>)"
    using g t T(2) assms(3-5)
    by (simp add: VisitExit_def x(2) permStoreNewContainer_def emplace_def)
  then have "foldE (do_visit C) P (struct_visits ty Fs) = Inr (Q1\<lparr>structs := (T, Some (T, ?c)) # structs P,
      parChildLink := clearParTags (parChildLink P), inStruct := False\<rparr>)"
    using Q0(1) Q1(1) by (simp add: struct_visits_def foldE_append)
  then show ?thesis by (simp add: x(2) VulkanMap_get_def)
qed

text \<open>
  C1. A structure in the file reaches the map. For a structure element without id, whose
  type is known and whose fields name members, convert and may be cast, the visits succeed,
  report nothing, and leave under the structure's type exactly the value-initialised
  structure with those members assigned in order; \<open>VulkanMap::get\<close> returns it.
\<close>

theorem struct_element_stored:
  assumes "proc_inv P" and "orders_ok C" and "\<not> inField P" and "\<not> idTagFound P" and "childTypes P = []"
    and "extCount P < 255" and "fillable C ty T fs" and "\<forall>F \<in> set Fs. assigns C T fs F"
    and "map_of (structs P) T = None"
  shows "\<exists>Q. foldE (do_visit C) P (struct_visits ty Fs) = Inr Q \<and> error Q = error P \<and>
    structs Q = (T, Some (T, member_values fs (replicate (length fs) CZero) Fs)) # structs P \<and>
    VulkanMap_get Q T = Inr (member_values fs (replicate (length fs) CZero) Fs)"
  by (rule element_run [OF assms])

text \<open>The configuration of the witnesses: the real type map, one number, the identity orders.\<close>

definition demo_config :: "types_for \<Rightarrow> config" where
  "demo_config tf =
     \<lparr>conv = \<lparr>castable_to = (\<lambda>S T k. True), enum_cast = (\<lambda>E s. None),
        ToInt64 = (\<lambda>s. if s = ''1'' then Some 1 else None), junk = 0, enumMap = StrHashTable 255 0\<rparr>,
      typeMap = tf,
      variants = ''configuration::Configurator::NullWrapper'' # unique_fold [] (map alias_target TYPELIST),
      plain_enum = (\<lambda>t. False), child_order = (\<lambda>m. m), link_order = (\<lambda>m. m)\<rparr>"

definition demo_flags :: field_elem where
  "demo_flags = \<lparr>f_name = ''flags'', f_value = ''1'', f_type = ''unsigned int'', f_member = 2,
     f_real = ''unsigned int'', f_result = CInt 1\<rparr>"

lemma uint_kind: "kind_of ''unsigned int'' = KArith"
  by (simp add: kind_of_def enum_prefix_def struct_fields_None)

lemma demo_lookup:
  assumes "\<forall>i < length type_keys. getType tf (type_keys ! i) = Inr i" and "i < length type_keys"
    and "type_keys ! i = s"
    and "i < length (''configuration::Configurator::NullWrapper'' # unique_fold [] (map alias_target TYPELIST))"
    and "(''configuration::Configurator::NullWrapper'' # unique_fold [] (map alias_target TYPELIST)) ! i = t"
  shows "lookup_type (demo_config tf) s = Inr t"
proof -
  have "getType tf s = Inr i" using assms(1-3) by blast
  then show ?thesis
    unfolding lookup_type_def demo_config_def config.simps
    by (simp only: bindE_Inr assms(4,5) if_True)
qed

lemma type_keys_length: "length type_keys = 72"
  by (simp add: type_keys_def)

lemma variants_length: "length (unique_fold [] (map alias_target TYPELIST)) = 71"
  unfolding unique_targets by simp

lemma demo_lookups:
  assumes "\<forall>i < length type_keys. getType tf (type_keys ! i) = Inr i"
  shows "lookup_type (demo_config tf) ''VkFenceCreateInfo'' = Inr ''VkFenceCreateInfo''"
    and "lookup_type (demo_config tf) ''unsigned int'' = Inr ''unsigned int''"
   by (rule demo_lookup [OF assms, of 39],
      simp_all only: type_keys_length variants_length list.size, simp_all add: unique_targets type_keys_def)
     (rule demo_lookup [OF assms, of 11],
      simp_all only: type_keys_length variants_length list.size, simp_all add: unique_targets type_keys_def)

text \<open>A structure with one field that a file may hold.\<close>

lemma demo_element:
  obtains tf where "fillable (demo_config tf) ''VkFenceCreateInfo'' ''VkFenceCreateInfo'' [''sType'', ''pNext'', ''flags'']"
    and "\<forall>F \<in> set [demo_flags]. assigns (demo_config tf) ''VkFenceCreateInfo'' [''sType'', ''pNext'', ''flags''] F"
proof -
  obtain tf where tf: "\<forall>i < length type_keys. getType tf (type_keys ! i) = Inr i"
    using TypesFor_built [OF wrapper_spells] by blast
  let ?C = "demo_config tf" and ?fs = "[''sType'', ''pNext'', ''flags'']"
  note fence = demo_lookups(1) [OF tf] and uint = demo_lookups(2) [OF tf]
  have k: "kind_of ''VkFenceCreateInfo'' = KStruct"
    by (rule kind_of_struct [OF fence_fields]) (simp_all add: enum_prefix_def)
  have fill: "fillable ?C ''VkFenceCreateInfo'' ''VkFenceCreateInfo'' ?fs"
    using fence k fence_fields
    by (simp add: fillable_def NullWrapper_def meta_ok_def member_hashes demo_config_def)
  have val: "cstr [CHR ''1'', NUL] = ''1''" by (simp add: cstr_def NUL_def)
  have "assigns ?C ''VkFenceCreateInfo'' ?fs demo_flags"
    using uint by (simp add: assigns_def demo_flags_def demo_config_def string_find_def ID_REF_def
        convertToFieldValue_def uint_kind val)
  then show thesis by (intro that [OF fill]) simp
qed

theorem struct_element_stored_witness:
  "\<exists>tf Q. foldE (do_visit (demo_config tf)) XmlProcessor (struct_visits ''VkFenceCreateInfo'' [demo_flags]) = Inr Q \<and>
    VulkanMap_get Q ''VkFenceCreateInfo'' = Inr [CZero, CZero, CInt 1]"
proof -
  obtain tf where fill: "fillable (demo_config tf) ''VkFenceCreateInfo'' ''VkFenceCreateInfo'' [''sType'', ''pNext'', ''flags'']"
    and ass: "\<forall>F \<in> set [demo_flags]. assigns (demo_config tf) ''VkFenceCreateInfo'' [''sType'', ''pNext'', ''flags''] F"
    by (rule demo_element)
  let ?C = "demo_config tf" and ?fs = "[''sType'', ''pNext'', ''flags'']"
  have "\<exists>Q. foldE (do_visit ?C) XmlProcessor (struct_visits ''VkFenceCreateInfo'' [demo_flags]) = Inr Q \<and>
      error Q = error XmlProcessor \<and>
      structs Q = (''VkFenceCreateInfo'', Some (''VkFenceCreateInfo'',
        member_values ?fs (replicate (length ?fs) CZero) [demo_flags])) # structs XmlProcessor \<and>
      VulkanMap_get Q ''VkFenceCreateInfo'' = Inr (member_values ?fs (replicate (length ?fs) CZero) [demo_flags])"
    by (rule struct_element_stored [OF proc_inv_new _ _ _ _ _ fill ass])
      (simp_all add: orders_ok_def demo_config_def XmlProcessor_def)
  then show ?thesis by (auto simp: member_values_def demo_flags_def numeral_3_eq_3)
qed

section \<open>Safety of every run\<close>

text \<open>
  C2. No sequence of visits, whatever the file, breaks the processor's invariant: arrays
  keep their sizes, attribute slots are cleared after each element, every pointer points to
  a live extractor, and every stored structure has the type it is filed under.
\<close>

theorem visits_keep_invariant:
  assumes "visits C XmlProcessor P" and "orders_ok C"
  shows "proc_inv P"
  using visits_inv [OF assms(1) proc_inv_new assms(2)] .

lemma out_of_order_enter:
  assumes "proc_inv P" and "extractor_ptr P = None" and "ty \<noteq> []"
  shows "VisitEnter C P ''field'' (field_attrs f val ty) = Inr (False, set_error P PROCESSING_OUT_OF_ORDER)"
proof -
  obtain vs where vs: "populateAttrMap P (field_attrs f val ty) = Inr (P\<lparr>valForAttrName := vs\<rparr>)"
      "length vs = 255" "vs ! 140 = f" "vs ! 66 = val" "vs ! 80 = ty" "vs ! 55 = []"
    using populate_field [OF assms(1)] by metis
  have "clearAttrMap (set_error (P\<lparr>valForAttrName := vs\<rparr>) PROCESSING_OUT_OF_ORDER) =
      set_error P PROCESSING_OUT_OF_ORDER"
    by (simp add: clearAttrMap_def vs(2) set_error_def flip: proc_inv_attrs [OF assms(1)])
  then show ?thesis
    using vs assms(2,3)
    by (simp add: VisitEnter_def field_attrs_def getAttribute_def hasAttribute_def attr_hashes enter_field_def)
qed

theorem visits_keep_invariant_witness:
  "VisitEnter (demo_config undefined) XmlProcessor ''field'' (field_attrs ''flags'' ''1'' ''VkFlags'') =
     Inr (False, set_error XmlProcessor PROCESSING_OUT_OF_ORDER) \<and>
   proc_inv (set_error XmlProcessor PROCESSING_OUT_OF_ORDER)"
proof
  show e: "VisitEnter (demo_config undefined) XmlProcessor ''field'' (field_attrs ''flags'' ''1'' ''VkFlags'') =
      Inr (False, set_error XmlProcessor PROCESSING_OUT_OF_ORDER)"
    by (rule out_of_order_enter [OF proc_inv_new]) (simp_all add: XmlProcessor_def)
  show "proc_inv (set_error XmlProcessor PROCESSING_OUT_OF_ORDER)"
  proof (rule visits_keep_invariant)
    show "visits (demo_config undefined) XmlProcessor (set_error XmlProcessor PROCESSING_OUT_OF_ORDER)"
      by (rule visits_enter [OF visits_refl e])
    show "orders_ok (demo_config undefined)" by (simp add: orders_ok_def demo_config_def)
  qed
qed

text \<open>
  C3. Reading the result is safe: after any visits \<open>VulkanMap::get\<close> never reads through
  the null pointer of a failed \<open>any_cast\<close>. It returns what is filed under the type, or the value-initialised
  structure if nothing is, with as many members as the type has.
\<close>

theorem map_get_safe:
  assumes "visits C XmlProcessor P" and "orders_ok C"
  shows "\<exists>c. VulkanMap_get P T = Inr c \<and> length c = field_count T \<and>
    (case map_of (structs P) T of Some a \<Rightarrow> a = Some (T, c) | None \<Rightarrow> c = container (StructFieldExtractor T))"
proof -
  have inv: "\<forall>s \<in> set (structs P). typed_container s"
    using visits_inv [OF assms(1) proc_inv_new assms(2)] by (simp add: proc_inv_def core_inv_def)
  show ?thesis
  proof (cases "map_of (structs P) T")
    case None
    then show ?thesis using ext_wf_new [of T]
      by (simp add: VulkanMap_get_def ext_wf_def) (simp add: StructFieldExtractor_def)
  next
    case (Some a)
    then have "typed_container (T, a)" using inv map_of_SomeD by metis
    then show ?thesis using Some by (auto simp: VulkanMap_get_def typed_container_def)
  qed
qed

text \<open>The structure that the visits of a file have filed is found and cast.\<close>

theorem map_get_safe_witness:
  "\<exists>tf Q c. foldE (do_visit (demo_config tf)) XmlProcessor (struct_visits ''VkFenceCreateInfo'' [demo_flags]) = Inr Q \<and>
    map_of (structs Q) ''VkFenceCreateInfo'' = Some (Some (''VkFenceCreateInfo'', c)) \<and>
    VulkanMap_get Q ''VkFenceCreateInfo'' = Inr c \<and> length c = field_count ''VkFenceCreateInfo''"
proof -
  obtain tf where fill: "fillable (demo_config tf) ''VkFenceCreateInfo'' ''VkFenceCreateInfo'' [''sType'', ''pNext'', ''flags'']"
    and ass: "\<forall>F \<in> set [demo_flags]. assigns (demo_config tf) ''VkFenceCreateInfo'' [''sType'', ''pNext'', ''flags''] F"
    by (rule demo_element)
  have ord: "orders_ok (demo_config tf)" by (simp add: orders_ok_def demo_config_def)
  obtain Q a where Q: "foldE (do_visit (demo_config tf)) XmlProcessor (struct_visits ''VkFenceCreateInfo'' [demo_flags]) = Inr Q"
      "map_of (structs Q) ''VkFenceCreateInfo'' = Some a"
    using element_run [OF proc_inv_new ord _ _ _ _ fill ass] by (auto simp: XmlProcessor_def)
  from map_get_safe [OF run_visits [OF Q(1)] ord, of "''VkFenceCreateInfo''"] Q show ?thesis by auto
qed

text \<open>
  The destructor deletes every extractor exactly once: after any visits the list it
  walks names all extractors allocated so far, in order and without repetition.
\<close>

theorem destructor_deletes_each_once:
  assumes "visits C XmlProcessor P" and "orders_ok C"
  shows "destroyed P = [0 ..< length (heap P)]"
proof -
  have inv: "length (extractorList P) = 255" "length (heap P) = extCount P" "extCount P \<le> 255"
      "\<forall>i < extCount P. extractorList P ! i = Some i"
    using visits_inv [OF assms(1) proc_inv_new assms(2)] by (simp_all add: proc_inv_def core_inv_def)
  have "take (extCount P) (extractorList P) = map Some [0 ..< extCount P]"
    using inv by (intro nth_equalityI) simp_all
  moreover have "List.map_filter id (map Some xs) = xs" for xs :: "nat list"
    by (induction xs) (simp_all add: List.map_filter_simps)
  ultimately show ?thesis by (simp add: destroyed_def inv(2))
qed

theorem destructor_deletes_each_once_witness:
  "destroyed XmlProcessor = [0 ..< length (heap XmlProcessor)]"
  by (rule destructor_deletes_each_once [OF visits_refl, of "demo_config undefined"])
    (simp add: orders_ok_def demo_config_def)

text \<open>
  C31. At most 255 structures fit: with 255 extractors made, the next structure element of
  a known type writes past \<open>extractorList\<close>, and nothing checks the count.
\<close>

theorem too_many_structures:
  assumes "proc_inv P" and "extCount P = 255" and "ty \<noteq> []" and "lookup_type C ty = Inr T"
  shows "VisitEnter C P ''struct'' [(''type'', ty)] = Inl OutOfBounds"
proof -
  obtain vs where vs: "populateAttrMap P [(''type'', ty)] = Inr (P\<lparr>valForAttrName := vs\<rparr>)"
      "length vs = 255" "vs ! 80 = ty" "vs ! 55 = []"
    using populate_type [OF assms(1)] by metis
  have "length (extractorList P) = 255" using assms(1) by (simp add: proc_inv_def core_inv_def)
  then have "enter_struct C (P\<lparr>valForAttrName := vs\<rparr>) = Inl OutOfBounds"
    using vs assms(2-4)
    by (simp add: enter_struct_def getAttribute_def attr_hashes pushExtList_def Let_def)
  then show ?thesis
    using vs assms(3) by (simp add: VisitEnter_def getAttribute_def hasAttribute_def attr_hashes)
qed

text \<open>A processor that has made 255 extractors.\<close>

definition full_processor :: xml_processor where
  "full_processor = XmlProcessor\<lparr>heap := replicate 255 (StructFieldExtractor NullWrapper),
     extractorList := map Some [0 ..< 255], extCount := 255\<rparr>"

lemma full_processor_inv: "proc_inv full_processor"
  using proc_inv_new ext_wf_new [of NullWrapper]
  by (simp add: full_processor_def proc_inv_def core_inv_def XmlProcessor_def new_parent_link_def)

theorem too_many_structures_witness:
  "\<exists>tf. VisitEnter (demo_config tf) full_processor ''struct'' [(''type'', ''VkFenceCreateInfo'')] = Inl OutOfBounds"
proof -
  obtain tf where tf: "\<forall>i < length type_keys. getType tf (type_keys ! i) = Inr i"
    using TypesFor_built [OF wrapper_spells] by blast
  show ?thesis
    by (rule exI [of _ tf], rule too_many_structures [OF full_processor_inv _ _ demo_lookups(1) [OF tf]])
      (simp_all add: full_processor_def)
qed

text \<open>
  A field element before any structure is refused: the visit reports
  \<open>PROCESSING_OUT_OF_ORDER\<close>, returns false and changes nothing else.
\<close>

theorem field_before_structure:
  assumes "proc_inv P" and "extractor_ptr P = None" and "ty \<noteq> []"
  shows "VisitEnter C P ''field'' (field_attrs f val ty) = Inr (False, set_error P PROCESSING_OUT_OF_ORDER)"
  using assms by (rule out_of_order_enter)

theorem field_before_structure_witness:
  "VisitEnter (demo_config undefined) XmlProcessor ''field'' (field_attrs ''flags'' ''1'' ''VkFlags'') =
    Inr (False, set_error XmlProcessor PROCESSING_OUT_OF_ORDER)"
  by (rule field_before_structure [OF proc_inv_new]) (simp_all add: XmlProcessor_def)

text \<open>
  C30. The result of \<open>process\<close>: it is true exactly when the file loaded and no
  reference is left, and each way to fail sets its own flag.
\<close>

theorem process_outcome:
  assumes "process load_failed accept P = Inr (r, Q)"
  shows "(r \<longleftrightarrow> \<not> load_failed \<and> childInfo (parChildLink Q) = []) \<and>
    (load_failed \<longrightarrow> isError (error Q) FILE_LOAD_ERR) \<and>
    (childInfo (parChildLink Q) \<noteq> [] \<longrightarrow> isError (error Q) FIELD_LEFT_UNASSIGNED)"
proof -
  have set: "isError (setError e f) f" if "f \<noteq> SUCCESS" for e f
    using that by (simp add: isError_setError error_code_eq_0)
  have keep: "isError (setError e g) f" if "isError e f" for e f g
    using that by (simp add: isError_setError)
  obtain b P' where bP: "parseConfig load_failed accept P = Inr (b, P')"
    using assms by (cases "parseConfig load_failed accept P") (auto simp: process_def)
  have p: "parseConfig load_failed accept P = Inr (b, P')"
      "(if childInfo (parChildLink P') \<noteq> []
        then Inr (False, set_error P' FIELD_LEFT_UNASSIGNED) else Inr (b, P')) = Inr (r, Q)"
    using bP assms by (simp_all add: process_def getChildFieldLinkSize_def split: if_splits)
  have b: "b = (\<not> load_failed)" "load_failed \<Longrightarrow> isError (error P') FILE_LOAD_ERR"
    using p(1) set [of FILE_LOAD_ERR] by (auto simp: parseConfig_def bindE_eq_Inr split: if_splits)
  show ?thesis
    using p(2) b set [of FIELD_LEFT_UNASSIGNED] keep
    by (auto split: if_splits)
qed

theorem process_outcome_witness:
  "\<exists>r Q. process True Inr XmlProcessor = Inr (r, Q) \<and> \<not> r \<and> isError (error Q) FILE_LOAD_ERR"
proof -
  have "process True Inr XmlProcessor = Inr (False, set_error XmlProcessor FILE_LOAD_ERR)"
    by (simp add: process_def parseConfig_def getChildFieldLinkSize_def XmlProcessor_def new_parent_link_def)
  with process_outcome [OF this] show ?thesis by blast
qed

end
