(* ===== verification/LinkRun.thy ===== *)
theory LinkRun
  imports XmlRun "HOL-Library.Multiset"
begin

text \<open>
  References by id: what a reference in a file adds to the link, which children match at the
  end of a structure, and what a matching child does to the field that refers to it.
\<close>

section \<open>Parsing the text of a reference\<close>

text \<open>The text behind \<open>&id:\<close> for a list of ids, and the empty slots the parser relies on.\<close>

fun id_text :: "string list \<Rightarrow> string" where
  "id_text [] = []"
| "id_text [d] = d"
| "id_text (d # ds) = d @ IDREFSEP # id_text ds"

definition fresh_link :: "parent_link \<Rightarrow> bool" where
  "fresh_link L = (length (parentIds L) = 255 \<and> (\<forall>j. childCount L \<le> j \<and> j < 255 \<longrightarrow> parentIds L ! j = []))"

lemma parse_digits:
  assumes "list_all is_dec_digit d" and "childCount L < length (parentIds L)"
  shows "foldE (parse_char tag) L d =
    Inr (L\<lparr>parentIds := (parentIds L)[childCount L := parentIds L ! childCount L @ d]\<rparr>)"
  using assms
proof (induction d arbitrary: L)
  case (Cons c d)
  let ?L = "L\<lparr>parentIds := (parentIds L)[childCount L := parentIds L ! childCount L @ [c]]\<rparr>"
  have "parse_char tag L c = Inr ?L" using Cons.prems by (simp add: parse_char_def append_id_def)
  then show ?case using Cons.IH [of ?L] Cons.prems by simp
qed simp

lemma parse_separator:
  assumes "childCount L < length (parentIds L)" and "length (parentIds L) \<le> 255"
  shows "parse_char tag L IDREFSEP =
    Inr (L\<lparr>childCount := childCount L + 1,
      parentIds := (parentIds L)[childCount L := parentIds L ! childCount L @ tag]\<rparr>)"
  using assms by (simp add: parse_char_def append_id_def next_id_def IDREFSEP_def is_dec_digit_def)

text \<open>A link after one id: the tag is complete, the next slot is still empty.\<close>

lemma fresh_after_id:
  assumes "fresh_link L" and "childCount L < 255"
  shows "fresh_link (L\<lparr>childCount := childCount L + 1, parentIds := (parentIds L)[childCount L := s]\<rparr>)"
    and "getMatchIds (L\<lparr>childCount := childCount L + 1, parentIds := (parentIds L)[childCount L := s]\<rparr>) =
      getMatchIds L @ [s]"
  using assms by (auto simp: fresh_link_def getMatchIds_def take_update_Suc)

lemma parse_ids:
  assumes "ids \<noteq> []" and "\<forall>d \<in> set ids. list_all is_dec_digit d" and "fresh_link L"
    and "childCount L + length ids \<le> 255" and "tag \<noteq> []"
  shows "\<exists>L'. parseChildRef L (id_text ids) tag = Inr L' \<and> fresh_link L' \<and> childInfo L' = childInfo L \<and>
    childCount L' = childCount L + length ids \<and>
    getMatchIds L' = getMatchIds L @ map (\<lambda>d. d @ tag) ids"
  using assms
proof (induction ids arbitrary: L rule: id_text.induct)
  case (2 d)
  let ?L = "L\<lparr>childCount := childCount L + 1, parentIds := (parentIds L)[childCount L := d @ tag]\<rparr>"
  have "parseChildRef L d tag = Inr ?L"
    using 2 parse_digits [of d L tag]
    by (simp add: parseChildRef_def append_id_def next_id_def fresh_link_def)
  then show ?case using fresh_after_id [of L "d @ tag"] 2 by simp
next
  case (3 d d' ds)
  let ?L = "L\<lparr>childCount := childCount L + 1, parentIds := (parentIds L)[childCount L := d @ tag]\<rparr>"
  have "foldE (parse_char tag) L (d @ [IDREFSEP]) = Inr ?L"
    using 3 parse_digits [of d L tag] parse_separator [of "L\<lparr>parentIds := (parentIds L)[childCount L := d]\<rparr>" tag]
    by (simp add: foldE_append fresh_link_def)
  then have "foldE (parse_char tag) L (id_text (d # d' # ds)) = foldE (parse_char tag) ?L (id_text (d' # ds))"
    using foldE_append [of "parse_char tag" L "d @ [IDREFSEP]" "id_text (d' # ds)"] by simp
  then have eq: "parseChildRef L (id_text (d # d' # ds)) tag = parseChildRef ?L (id_text (d' # ds)) tag"
    by (simp only: parseChildRef_def)
  have "fresh_link ?L" "getMatchIds ?L = getMatchIds L @ [d @ tag]"
    using fresh_after_id [of L "d @ tag"] 3 by simp_all
  then show ?case unfolding eq using "3.IH" [of ?L] 3 by simp
qed simp

text \<open>
  C27. A reference names the ids of its list: for a link whose next slots are empty,
  the text \<open>i1,i2,...\<close> of a field of type \<open>T\<close> adds exactly the tags \<open>i1:T, i2:T, ...\<close>
  to the ids looked for, and keeps an entry for the first field with this tag.
\<close>

theorem reference_ids_parsed:
  assumes "fresh_link L" and "ids \<noteq> []" and "\<forall>d \<in> set ids. list_all is_dec_digit d"
    and "childCount L + length ids \<le> 255"
  shows "\<exists>L'. add_link L e f ty (id_text ids) T = Inr L' \<and> fresh_link L' \<and>
    getMatchIds L' = getMatchIds L @ map (\<lambda>d. d @ '':'' @ T) ids \<and>
    map_of (childInfo L') ('':'' @ T) =
      (case map_of (childInfo L) ('':'' @ T) of None \<Rightarrow> Some (e, f, ty) | Some i \<Rightarrow> Some i)"
proof -
  obtain L' where L': "parseChildRef L (id_text ids) ('':'' @ T) = Inr L'" "fresh_link L'"
      "childInfo L' = childInfo L" "getMatchIds L' = getMatchIds L @ map (\<lambda>d. d @ '':'' @ T) ids"
    using parse_ids [OF assms(2,3,1,4), of "'':'' @ T"] by auto
  have "('':'' @ T \<in> fst ` set (childInfo L)) = (map_of (childInfo L) ('':'' @ T) \<noteq> None)"
    by (simp add: map_of_eq_None_iff)
  then show ?thesis
    using L' by (auto simp: add_link_def Let_def emplace_def fresh_link_def getMatchIds_def split: option.splits)
qed

theorem reference_ids_parsed_witness:
  "\<exists>L'. add_link new_parent_link 0 ''pColorBlendState'' ''T*'' ''1,12'' ''T'' = Inr L' \<and>
    getMatchIds L' = [''1:T'', ''12:T'']"
proof -
  have "fresh_link new_parent_link" by (simp add: fresh_link_def new_parent_link_def MAX_CHAR_SIZE_def)
  from reference_ids_parsed [OF this, of "[''1'', ''12'']" 0 "''pColorBlendState''" "''T*''" "''T''"]
  show ?thesis
    by (auto simp: is_dec_digit_def new_parent_link_def getMatchIds_def IDREFSEP_def)
qed

text \<open>
  The ids of a reference resolved earlier come back: \<open>clearParTags\<close> resets the
  count but not the strings, so the next reference is appended to an old tag and no child has
  the tag that results.
\<close>

theorem stale_ids_concatenated:
  assumes "length (parentIds L) = 255" and "childCount L = Suc k" and "k < 255" and "list_all is_dec_digit d"
  shows "\<exists>L'. add_link (clearParTags L) e f ty d T = Inr L' \<and>
    getMatchIds L' = [hd (getMatchIds L) @ d @ '':'' @ T]"
proof -
  have ne: "parentIds L \<noteq> []" using assms(1) by auto
  have "foldE (parse_char ('':'' @ T)) (clearParTags L) d =
      Inr (clearParTags L\<lparr>parentIds := (parentIds L)[0 := parentIds L ! 0 @ d]\<rparr>)"
    using parse_digits [OF assms(4), of "clearParTags L"] assms(1) by (simp add: clearParTags_def)
  then have "\<exists>L'. parseChildRef (clearParTags L) d ('':'' @ T) = Inr L' \<and> childCount L' = 1 \<and>
      parentIds L' = (parentIds L)[0 := parentIds L ! 0 @ d @ '':'' @ T]"
    using assms(1) ne by (simp add: parseChildRef_def append_id_def next_id_def clearParTags_def)
  then show ?thesis
    using assms(1,2) ne by (auto simp: add_link_def Let_def getMatchIds_def take_Suc hd_conv_nth)
qed

theorem stale_ids_concatenated_witness:
  "\<exists>L L'. getMatchIds L = [''1:T''] \<and> add_link (clearParTags L) 0 ''f'' ''T'' ''1'' ''T'' = Inr L' \<and>
    getMatchIds L' = [''1:T1:T'']"
proof -
  let ?L = "new_parent_link\<lparr>childCount := 1, parentIds := (replicate 255 [])[0 := ''1:T'']\<rparr>"
  have g: "getMatchIds ?L = [''1:T'']" by (simp add: getMatchIds_def take_Suc hd_conv_nth)
  have "\<exists>L'. add_link (clearParTags ?L) 0 ''f'' ''T'' ''1'' ''T'' = Inr L' \<and>
      getMatchIds L' = [hd (getMatchIds ?L) @ ''1'' @ '':'' @ ''T'']"
    by (rule stale_ids_concatenated [of _ 0]) (simp_all add: is_dec_digit_def)
  then show ?thesis using g by auto
qed

section \<open>Matching children\<close>

lemma find_child_total:
  assumes "n \<le> length cs"
  shows "\<exists>j \<le> n. find_child cs n tag i = Inr (i + j) \<and> (\<forall>k < j. \<not> contains (fst (cs ! k)) tag) \<and>
    (j < n \<longrightarrow> contains (fst (cs ! j)) tag)"
  using assms
proof (induction cs n tag i rule: find_child.induct)
  case (3 c cs n tag i)
  show ?case
  proof (cases "contains (fst c) tag")
    case False
    obtain j where j: "j \<le> n" "find_child cs n tag (Suc i) = Inr (Suc i + j)"
        "\<forall>k < j. \<not> contains (fst (cs ! k)) tag" "j < n \<longrightarrow> contains (fst (cs ! j)) tag"
      using 3 False by auto
    have "\<forall>k < Suc j. \<not> contains (fst ((c # cs) ! k)) tag"
      using j(3) False by (auto simp: nth_Cons split: nat.splits)
    then show ?thesis using j False by (intro exI [of _ "Suc j"]) simp
  qed auto
qed auto

lemma find_child_overread:
  "length cs < n \<Longrightarrow> \<forall>c \<in> set cs. \<not> contains (fst c) tag \<Longrightarrow> find_child cs n tag i = Inl OutOfBounds"
proof (induction cs arbitrary: n i)
  case Nil
  then show ?case by (cases n) simp_all
next
  case (Cons c cs)
  then show ?case by (cases n) simp_all
qed

lemma tag_count: "length (filter (\<lambda>tag. tag = a) ids) = count (mset ids) a"
  by (induction ids) auto

lemma count_le_length: "count (mset ids) a \<le> length ids"
  by (metis tag_count length_filter_le)

lemma sum_list_order: "\<forall>m. mset (ord m) = mset m \<Longrightarrow> sum_list (map g (ord cs)) = (sum_list (map g cs) :: nat)"
  by (metis mset_map sum_mset_sum_list)

lemma distinct_matches:
  "distinct ids \<Longrightarrow> sum_list (map (\<lambda>kv. count (mset ids) (fst kv)) xs) = length (filter (\<lambda>kv. fst kv \<in> set ids) xs)"
  by (induction xs) (auto simp: distinct_count_atmost_1 count_eq_zero_iff)

lemma match_sum_bound:
  "sum_list (map (\<lambda>kv. count (mset ids) (fst kv)) xs) \<le> length xs * length ids"
proof (induction xs)
  case (Cons x xs)
  have "count (mset ids) (fst x) \<le> length ids" by (rule count_le_length)
  then show ?case using Cons by simp
qed simp

lemma count_Suc: "a \<in> set ids \<Longrightarrow> \<exists>n. count (mset ids) a = Suc n"
  by (simp add: count_greater_zero_iff flip: gr0_conv_Suc)

lemma match_sum_ge:
  "length (filter (\<lambda>kv. fst kv \<in> set ids) xs) \<le> sum_list (map (\<lambda>kv. count (mset ids) (fst kv)) xs)"
proof (induction xs)
  case (Cons x xs)
  then show ?case using count_Suc [of "fst x" ids] by auto
qed simp

lemma match_sum_more:
  assumes "2 \<le> count (mset ids) t" and "t \<in> fst ` set xs"
  shows "length (filter (\<lambda>kv. fst kv \<in> set ids) xs) < sum_list (map (\<lambda>kv. count (mset ids) (fst kv)) xs)"
  using assms(2)
proof (induction xs)
  case (Cons x xs)
  show ?case
  proof (cases "fst x = t")
    case True
    have "t \<in> set ids" using assms(1) by (metis count_eq_zero_iff not_numeral_le_zero set_mset_mset)
    then show ?thesis using True assms(1) match_sum_ge [of ids xs] by simp
  next
    case False
    then have "length (filter (\<lambda>kv. fst kv \<in> set ids) xs) < sum_list (map (\<lambda>kv. count (mset ids) (fst kv)) xs)"
      using Cons by auto
    then show ?thesis using count_Suc [of "fst x" ids] by auto
  qed
qed simp

text \<open>
  C22. Matching is exact when no id is referred to twice: the children copied are those
  whose tag is looked for, the count is their number, and the search of a field's tag stays
  inside the array, stopping at the first child whose tag contains it or at the count.
\<close>

theorem matching_exact:
  assumes "\<forall>m. mset (ord m) = mset m" and "distinct (getMatchIds L)" and "length cs < 256"
    and "M = ChildTypeParentFieldMatching ord cs L"
  shows "match_count M = length (children M) \<and> length (children M) \<le> capacity M \<and>
    set (children M) = {c \<in> set cs. fst c \<in> set (getMatchIds L)} \<and>
    (\<exists>j \<le> match_count M. findMatchChildLocForField M tag = Inr j \<and>
      (\<forall>k < j. \<not> contains (fst (children M ! k)) tag) \<and>
      (j < match_count M \<longrightarrow> contains (fst (children M ! j)) tag))"
proof -
  have o: "set (ord cs) = set cs" "length (ord cs) = length cs"
    using assms(1) by (metis set_mset_mset) (metis assms(1) size_mset)
  have ch: "children M = filter (\<lambda>kv. fst kv \<in> set (getMatchIds L)) (ord cs)" "capacity M = length cs"
    by (simp_all add: assms(4) ChildTypeParentFieldMatching_def)
  have len: "length (children M) \<le> length cs" using o(2) by (metis ch(1) length_filter_le)
  have n: "match_count M = length (children M)"
    using distinct_matches [OF assms(2), of "ord cs"] len assms(3)
    by (simp add: assms(4) ChildTypeParentFieldMatching_def tag_count)
  have "set (children M) = {c \<in> set cs. fst c \<in> set (getMatchIds L)}"
    using o by (auto simp: ch)
  moreover note find_child_total [of "match_count M" "children M" tag 0]
  ultimately show ?thesis using n len ch(2) by (simp add: findMatchChildLocForField_def)
qed

theorem matching_exact_witness:
  "let L = new_parent_link\<lparr>childCount := 1, parentIds := (replicate 255 [])[0 := ''1:T'']\<rparr>;
       M = ChildTypeParentFieldMatching (\<lambda>m. m) [(''1:T'', 0), (''2:T'', 1)] L
   in match_count M = 1 \<and> children M = [(''1:T'', 0)]"
proof -
  let ?L = "new_parent_link\<lparr>childCount := 1, parentIds := (replicate 255 [])[0 := ''1:T'']\<rparr>"
  have g: "getMatchIds ?L = [''1:T'']" by (simp add: getMatchIds_def take_Suc hd_conv_nth)
  have "match_count (ChildTypeParentFieldMatching (\<lambda>m. m) [(''1:T'', 0), (''2:T'', 1)] ?L) =
      length (children (ChildTypeParentFieldMatching (\<lambda>m. m) [(''1:T'', 0), (''2:T'', 1)] ?L))"
    by (rule matching_exact [of "\<lambda>m. m" ?L _ _ "''T''", THEN conjunct1, OF _ _ _ refl], unfold g) simp_all
  then show ?thesis using g by (simp add: ChildTypeParentFieldMatching_def)
qed

text \<open>
  An id referred to twice makes the search leave the array: the count then exceeds the
  number of children copied, and the search of a tag that no child has reads behind the last one.
\<close>

theorem repeated_reference_overreads:
  assumes "\<forall>m. mset (ord m) = mset m" and "2 \<le> count (mset (getMatchIds L)) t" and "t \<in> fst ` set cs"
    and "length cs * length (getMatchIds L) < 256"
    and "\<forall>c \<in> set cs. \<not> contains (fst c) tag"
  shows "findMatchChildLocForField (ChildTypeParentFieldMatching ord cs L) tag = Inl OutOfBounds"
proof -
  let ?ids = "getMatchIds L" and ?p = "\<lambda>kv. fst kv \<in> set (getMatchIds L)"
  have o: "set (ord cs) = set cs" "length (ord cs) = length cs"
    using assms(1) by (metis set_mset_mset) (metis assms(1) size_mset)
  have "sum_list (map (\<lambda>kv. count (mset ?ids) (fst kv)) (ord cs)) < 256"
    using match_sum_bound [of ?ids "ord cs"] assms(4) o by (metis le_less_trans)
  then have "length (children (ChildTypeParentFieldMatching ord cs L)) <
      match_count (ChildTypeParentFieldMatching ord cs L)"
    using match_sum_more [OF assms(2), of "ord cs"] assms(3) o by (simp add: ChildTypeParentFieldMatching_def tag_count)
  moreover have "\<forall>c \<in> set (children (ChildTypeParentFieldMatching ord cs L)). \<not> contains (fst c) tag"
    using assms(5) o by (auto simp: ChildTypeParentFieldMatching_def)
  ultimately show ?thesis unfolding findMatchChildLocForField_def by (rule find_child_overread)
qed

theorem repeated_reference_overreads_witness:
  "findMatchChildLocForField (ChildTypeParentFieldMatching (\<lambda>m. m) [(''1:T'', 0)]
     (new_parent_link\<lparr>childCount := 2, parentIds := (replicate 255 [])[0 := ''1:T'', 1 := ''1:T'']\<rparr>)) '':U'' =
   Inl OutOfBounds"
proof -
  have g: "getMatchIds (new_parent_link\<lparr>childCount := 2, parentIds := (replicate 255 [])[0 := ''1:T'', 1 := ''1:T'']\<rparr>) =
      [''1:T'', ''1:T'']"
    by (simp add: getMatchIds_def numeral_2_eq_2 take_Suc_conv_app_nth)
  show ?thesis
    by (rule repeated_reference_overreads [where t = "''1:T''"], unfold g)
      (simp_all add: contains_def string_find_def)
qed

section \<open>A child reaches its parent\<close>

lemma map_of_assign_key: "map_of (assign_key k v m) = (map_of m)(k \<mapsto> v)"
proof -
  have "map_of (map (\<lambda>e. if fst e = k then (k, v) else e) m) x =
      (if x = k \<and> map_of m k \<noteq> None then Some v else map_of m x)" for x
    by (induction m) auto
  then show ?thesis by (auto simp: assign_key_def fun_eq_iff map_of_eq_None_iff)
qed

lemma erase_key_map: "map_of (erase_key k m) k = None"
  by (auto simp: erase_key_def map_of_eq_None_iff)

lemma retag_neq: "''0:'' @ tag \<noteq> tag"
  by (metis append_self_conv2 list.distinct(1))

lemma retagged:
  "map_of (emplace (''0:'' @ tag) e (erase_key tag m)) tag = None"
  using retag_neq [of tag] erase_key_map [of tag m] by (simp add: emplace_def)

lemma convert_heap:
  "heap P = heap Q \<Longrightarrow> convertChildStructToVal P M R T = convertChildStructToVal Q M R T"
proof -
  assume h: "heap P = heap Q"
  have "child_container P T = child_container Q T"
    by (rule ext) (simp add: child_container_def get_extractor_def h)
  then show ?thesis unfolding convertChildStructToVal_def by (simp only:)
qed

text \<open>The parent of a reference: a filled extractor whose member \<open>k\<close> the field names.\<close>

definition parent_ready :: "xml_processor \<Rightarrow> nat \<Rightarrow> string \<Rightarrow> string list \<Rightarrow> cvalue list \<Rightarrow> nat \<Rightarrow> bool" where
  "parent_ready P e T fs c k =
     (e < length (heap P) \<and> filled T fs c (heap P ! e) \<and> kind_of T = KStruct \<and> T \<noteq> NullWrapper \<and>
      struct_fields T = Some fs \<and> meta_ok fs \<and> k < length fs \<and>
      (\<forall>j. k < j \<and> j < length fs \<longrightarrow> field_hash (fs ! j) \<noteq> field_hash (fs ! k)))"

lemma parent_field_set:
  assumes "parent_ready P e T fs c k" and "extractor_ptr P = Some e"
    and "castable_to (conv C) (stored_as R) T k"
  shows "processFieldInStruct C P R (fs ! k) v =
    Inr (True, P\<lparr>heap := (heap P)[e := (heap P ! e)\<lparr>container := c[k := v]\<rparr>]\<rparr>)"
proof -
  have p: "e < length (heap P)" "filled T fs c (heap P ! e)" "kind_of T = KStruct"
      "struct_fields T = Some fs" "meta_ok fs" "k < length fs"
      "\<forall>j. k < j \<and> j < length fs \<longrightarrow> field_hash (fs ! j) \<noteq> field_hash (fs ! k)"
    using assms(1) by (simp_all add: parent_ready_def)
  have "isVisitable (heap P ! e)" using p(2-4) by (simp add: isVisitable_def is_specialised_def filled_def)
  then show ?thesis
    using set_filled [where castable = "castable_to (conv C)", OF p(2,3,5-7) assms(3)] p(1) assms(2)
    by (simp add: processFieldInStruct_def get_extractor_def)
qed

lemma interaction_stores:
  assumes "parent_ready P e T fs c k" and "extractor_ptr P = Some cur" and "cur < length (heap P)"
    and "lookup_type C fty = Inr R" and "lookup_type C S = Inr U"
    and "castable_to (conv C) (stored_as R) T k"
    and "convertChildStructToVal P M R U = Inr (Some v)"
    and "map_of (childTypes P) ctag = Some ce"
  shows "\<exists>Q. processParentChildFieldInteraction C P ctag ('':'' @ S) (e, fs ! k, fty) M = Inr (True, Q) \<and>
    VulkanMap_get Q T = Inr (c[k := v]) \<and> map_of (childTypes Q) ctag = None \<and>
    extractor_ptr Q = Some cur \<and> error Q = error P \<and> parChildLink Q = parChildLink P"
proof -
  let ?P1 = "if e \<noteq> cur then P\<lparr>extractor_ptr := Some e,
      structs := assign_key (ext_getType (heap P ! cur)) (getContainer (heap P ! cur)) (structs P)\<rparr> else P"
  have e: "e < length (heap P)" "filled T fs c (heap P ! e)" "kind_of T = KStruct" "T \<noteq> NullWrapper"
    using assms(1) by (simp_all add: parent_ready_def)
  have P1: "(if e \<noteq> cur then permReplaceContainer (P\<lparr>extractor_ptr := Some e\<rparr>) cur else Inr P) = Inr ?P1"
    using assms(3) by (simp add: permReplaceContainer_def get_extractor_def)
  have h: "heap ?P1 = heap P" "extractor_ptr ?P1 = Some e" "childTypes ?P1 = childTypes P"
      "error ?P1 = error P" "parChildLink ?P1 = parChildLink P"
    using assms(2) by simp_all
  have r: "parent_ready ?P1 e T fs c k" using assms(1) by (simp add: parent_ready_def h(1))
  let ?x = "(heap P ! e)\<lparr>container := c[k := v]\<rparr>"
  let ?P2 = "?P1\<lparr>heap := (heap P)[e := ?x]\<rparr>"
  have save: "saveStructAsFieldValue C ?P1 (e, fs ! k, fty) ('':'' @ S) M = Inr (True, ?P2)"
    using parent_field_set [OF r h(2) assms(6), of v] convert_heap [OF h(1), of M R U] assms(4,5,7)
    by (simp add: saveStructAsFieldValue_def h(1))
  have t: "ext_getType ?x = T" "getContainer ?x = Some (T, c[k := v])"
    using e(2-4) by (simp_all add: ext_getType_def getContainer_def is_specialised_def filled_def)
  let ?P3 = "?P2\<lparr>structs := assign_key T (Some (T, c[k := v])) (structs ?P2)\<rparr>"
  have "permReplaceContainer ?P2 e = Inr ?P3"
    using e(1) t by (simp add: permReplaceContainer_def get_extractor_def)
  moreover have "addChildStructDeleteIndicator ?P3 ctag =
      Inr (?P3\<lparr>childTypes := emplace (''0:'' @ ctag) ce (erase_key ctag (childTypes P))\<rparr>)"
    using assms(8) by (simp add: addChildStructDeleteIndicator_def)
  ultimately have "processParentChildFieldInteraction C P ctag ('':'' @ S) (e, fs ! k, fty) M =
      Inr (True, ?P3\<lparr>childTypes := emplace (''0:'' @ ctag) ce (erase_key ctag (childTypes P)),
        extractor_ptr := Some cur\<rparr>)"
    using P1 save assms(2) by (simp add: processParentChildFieldInteraction_def Let_def)
  then show ?thesis
    using retagged [of ctag ce "childTypes P"] h(4,5)
    by (simp add: VulkanMap_get_def map_of_assign_key)
qed

text \<open>
  C4. A referenced structure reaches the field that refers to it: when the first child copied
  has the type of the field, its container becomes the value of that member of the parent, the map
  hands out the parent with it, the child is marked as used, and the current extractor is unchanged.
\<close>

theorem child_structure_stored:
  assumes "parent_ready P e T fs c k" and "extractor_ptr P = Some cur" and "cur < length (heap P)"
    and "lookup_type C fty = Inr U" and "lookup_type C S = Inr U" and "kind_of U = KStruct"
    and "U \<noteq> NullWrapper" and "castable_to (conv C) U T k"
    and "children M = (ctag, ce) # rest" and "ce < length (heap P)" and "ext_class (heap P ! ce) = U"
    and "map_of (childTypes P) ctag = Some ce"
  shows "\<exists>Q. processParentChildFieldInteraction C P ctag ('':'' @ S) (e, fs ! k, fty) M = Inr (True, Q) \<and>
    VulkanMap_get Q T = Inr (c[k := CObj U (container (heap P ! ce))]) \<and>
    map_of (childTypes Q) ctag = None \<and> extractor_ptr Q = Some cur \<and> error Q = error P"
proof -
  have "child_container P U (ctag, ce) = Inr (container (heap P ! ce))"
    using assms(6,7,10,11)
    by (simp add: child_container_def get_extractor_def getContainer_def is_specialised_def)
  then have "convertChildStructToVal P M U U = Inr (Some (CObj U (container (heap P ! ce))))"
    using assms(6,9) by (simp add: convertChildStructToVal_def struct_to_field_def)
  moreover have "castable_to (conv C) (stored_as U) T k" using assms(6,8) by (simp add: stored_as_def)
  ultimately show ?thesis
    using interaction_stores [OF assms(1-5) _ _ assms(12)] by blast
qed


lemma image_view_fields: "struct_fields ''VkImageViewCreateInfo'' = Some [''sType'', ''pNext'', ''flags'', ''image'', ''viewType'', ''format'', ''components'', ''subresourceRange'']"
  by code_simp

lemma mapping_fields: "struct_fields ''VkComponentMapping'' = Some [''r'', ''g'', ''b'', ''a'']"
  by code_simp

lemma image_view_hashes:
  "field_hash ''image'' = 178"
  "field_hash ''viewType'' = 190"
  "field_hash ''format'' = 184"
  "field_hash ''components'' = 27"
  "field_hash ''subresourceRange'' = 14"
  "field_hash ''sType'' = 14" "field_hash ''pNext'' = 220" "field_hash ''flags'' = 155"
  by (simp_all add: field_hash_ascii f32_index_def rne24_def bit_len.simps)

lemma view_lookups:
  assumes "\<forall>i < length type_keys. getType tf (type_keys ! i) = Inr i"
  shows "lookup_type (demo_config tf) ''VkImageViewCreateInfo'' = Inr ''VkImageViewCreateInfo''"
    and "lookup_type (demo_config tf) ''VkComponentMapping'' = Inr ''VkComponentMapping''"
   by (rule demo_lookup [OF assms, of 32],
      simp_all only: type_keys_length variants_length list.size, simp_all add: unique_targets type_keys_def)
     (rule demo_lookup [OF assms, of 66],
      simp_all only: type_keys_length variants_length list.size, simp_all add: unique_targets type_keys_def)

text \<open>A view and a component mapping with two swizzles, side by side in a processor.\<close>

definition demo_pair :: "extractor \<Rightarrow> xml_processor" where
  "demo_pair x = XmlProcessor\<lparr>heap := [x, (StructFieldExtractor ''VkComponentMapping'')
       \<lparr>container := [CInt 3, CInt 4, CZero, CZero]\<rparr>],
     extractor_ptr := Some 1, childTypes := [(''1:VkComponentMapping'', 1)]\<rparr>"

theorem child_structure_stored_witness:
  "\<exists>tf x Q. VulkanMap_get Q ''VkImageViewCreateInfo'' =
      Inr [CZero, CZero, CZero, CZero, CZero, CZero,
        CObj ''VkComponentMapping'' [CInt 3, CInt 4, CZero, CZero], CZero] \<and>
    processParentChildFieldInteraction (demo_config tf) (demo_pair x) ''1:VkComponentMapping'' '':VkComponentMapping''
      (0, ''components'', ''VkComponentMapping'')
      \<lparr>children = [(''1:VkComponentMapping'', 1)], match_count = 1, capacity = 1\<rparr> = Inr (True, Q)"
proof -
  obtain tf where tf: "\<forall>i < length type_keys. getType tf (type_keys ! i) = Inr i"
    using TypesFor_built [OF wrapper_spells] by blast
  let ?C = "demo_config tf" and ?T = "''VkImageViewCreateInfo''" and ?U = "''VkComponentMapping''"
  let ?fs = "[''sType'', ''pNext'', ''flags'', ''image'', ''viewType'', ''format'', ''components'', ''subresourceRange'']" and ?c = "replicate 8 CZero"
  let ?M = "\<lparr>children = [(''1:VkComponentMapping'', 1)], match_count = 1, capacity = 1\<rparr>"
  have k: "kind_of ?T = KStruct" "kind_of ?U = KStruct"
    using kind_of_struct [OF image_view_fields] kind_of_struct [OF mapping_fields]
    by (simp_all add: enum_prefix_def)
  have fill: "fillable ?C ?T ?T ?fs"
    using view_lookups(1) [OF tf] k image_view_fields
    by (simp add: fillable_def NullWrapper_def meta_ok_def image_view_hashes demo_config_def)
  obtain x where x: "filled ?T ?fs (replicate (length ?fs) CZero) x"
    using iterate_new [OF fill] by blast
  let ?P = "demo_pair x"
  have last: "field_hash (?fs ! j) \<noteq> field_hash (?fs ! 6)" if "6 < j" "j < length ?fs" for j
  proof -
    have "j = 7" using that by simp
    then show ?thesis by (simp add: image_view_hashes)
  qed
  have ready: "parent_ready ?P 0 ?T ?fs (replicate (length ?fs) CZero) 6"
    unfolding parent_ready_def using x k image_view_fields last
    by (intro conjI) (simp_all add: demo_pair_def NullWrapper_def meta_ok_def image_view_hashes)
  have "\<exists>Q. processParentChildFieldInteraction ?C ?P ''1:VkComponentMapping'' ('':'' @ ?U) (0, ?fs ! 6, ?U) ?M = Inr (True, Q) \<and>
    VulkanMap_get Q ?T = Inr ((replicate (length ?fs) CZero)[6 := CObj ?U (container (heap ?P ! 1))]) \<and>
    map_of (childTypes Q) ''1:VkComponentMapping'' = None \<and> extractor_ptr Q = Some 1 \<and> error Q = error ?P"
    by (rule child_structure_stored [OF ready _ _ view_lookups(2) [OF tf] view_lookups(2) [OF tf] k(2)])
      (simp_all add: demo_pair_def NullWrapper_def demo_config_def StructFieldExtractor_def)
  then have "\<exists>Q. VulkanMap_get Q ?T = Inr [CZero, CZero, CZero, CZero, CZero, CZero,
        CObj ?U [CInt 3, CInt 4, CZero, CZero], CZero] \<and>
      processParentChildFieldInteraction ?C ?P ''1:VkComponentMapping'' '':VkComponentMapping''
        (0, ''components'', ?U) ?M = Inr (True, Q)"
    by (auto simp: numeral_eq_Suc demo_pair_def)
  then show ?thesis by blast
qed

end
