(* ===== verification/VkGraphics.thy ===== *)
theory VkGraphics
  imports Prelude Float32 Complex_Main
begin

text \<open>
  The structures of graphics pipelines, descriptors and recorded commands, and the initializers of
  \<open>src/VulkanInitializers.hpp\<close> for them. A pointer with a count is the list it denotes; the type tag is
  implied by the record. The value of a \<open>float\<close> is a rational number.
\<close>

type_synonym u32 = "32 word"
type_synonym u64 = "64 word"
type_synonym handle = u64
type_synonym f32 = rat

text \<open>The conversion of an unsigned integer to \<open>float\<close>, to the nearest value.\<close>

definition float_of :: "u32 \<Rightarrow> f32" where
  "float_of n = of_nat (rne24 (unat n))"

abbreviation VK_FALSE :: u32 where "VK_FALSE \<equiv> 0"
abbreviation VK_TRUE :: u32 where "VK_TRUE \<equiv> 1"
abbreviation VK_DESCRIPTOR_TYPE_COMBINED_IMAGE_SAMPLER :: u32 where "VK_DESCRIPTOR_TYPE_COMBINED_IMAGE_SAMPLER \<equiv> 1"
abbreviation VK_DESCRIPTOR_TYPE_UNIFORM_BUFFER :: u32 where "VK_DESCRIPTOR_TYPE_UNIFORM_BUFFER \<equiv> 6"
abbreviation VK_DESCRIPTOR_TYPE_UNIFORM_BUFFER_DYNAMIC :: u32 where "VK_DESCRIPTOR_TYPE_UNIFORM_BUFFER_DYNAMIC \<equiv> 8"
abbreviation VK_SHADER_STAGE_VERTEX_BIT :: u32 where "VK_SHADER_STAGE_VERTEX_BIT \<equiv> 1"
abbreviation VK_SHADER_STAGE_FRAGMENT_BIT :: u32 where "VK_SHADER_STAGE_FRAGMENT_BIT \<equiv> 0x10"
abbreviation VK_COMPARE_OP_LESS_OR_EQUAL :: u32 where "VK_COMPARE_OP_LESS_OR_EQUAL \<equiv> 3"
abbreviation VK_COMPARE_OP_ALWAYS :: u32 where "VK_COMPARE_OP_ALWAYS \<equiv> 7"
abbreviation VK_PRIMITIVE_TOPOLOGY_TRIANGLE_LIST :: u32 where "VK_PRIMITIVE_TOPOLOGY_TRIANGLE_LIST \<equiv> 3"
abbreviation VK_POLYGON_MODE_FILL :: u32 where "VK_POLYGON_MODE_FILL \<equiv> 0"
abbreviation VK_CULL_MODE_NONE :: u32 where "VK_CULL_MODE_NONE \<equiv> 0"
abbreviation VK_FRONT_FACE_COUNTER_CLOCKWISE :: u32 where "VK_FRONT_FACE_COUNTER_CLOCKWISE \<equiv> 0"
abbreviation VK_SAMPLE_COUNT_1_BIT :: u32 where "VK_SAMPLE_COUNT_1_BIT \<equiv> 1"
abbreviation VK_DYNAMIC_STATE_VIEWPORT :: u32 where "VK_DYNAMIC_STATE_VIEWPORT \<equiv> 0"
abbreviation VK_DYNAMIC_STATE_SCISSOR :: u32 where "VK_DYNAMIC_STATE_SCISSOR \<equiv> 1"
abbreviation VK_FORMAT_R8G8B8A8_UNORM :: u32 where "VK_FORMAT_R8G8B8A8_UNORM \<equiv> 37"
abbreviation VK_FORMAT_R32G32_SFLOAT :: u32 where "VK_FORMAT_R32G32_SFLOAT \<equiv> 103"
abbreviation VK_FORMAT_R32G32B32_SFLOAT :: u32 where "VK_FORMAT_R32G32B32_SFLOAT \<equiv> 106"
abbreviation VK_INDEX_TYPE_UINT16 :: u32 where "VK_INDEX_TYPE_UINT16 \<equiv> 0"
abbreviation VK_INDEX_TYPE_UINT32 :: u32 where "VK_INDEX_TYPE_UINT32 \<equiv> 1"

section \<open>Recorded commands\<close>

record view_port =
  vp_width :: f32
  vp_height :: f32
  vp_minDepth :: f32
  vp_maxDepth :: f32

record rect2d =
  rect_offset :: "u32 \<times> u32"
  rect_extent :: "u32 \<times> u32"

datatype clear_value = ClearColor "f32 list" | ClearDepthStencil f32 u32

record pass_begin =
  pb_renderPass :: handle
  pb_framebuffer :: handle
  pb_area :: rect2d
  pb_clear :: "clear_value list"

definition viewport :: "f32 \<Rightarrow> f32 \<Rightarrow> f32 \<Rightarrow> f32 \<Rightarrow> view_port" where
  "viewport w h minDepth maxDepth = \<lparr>vp_width = w, vp_height = h, vp_minDepth = minDepth, vp_maxDepth = maxDepth\<rparr>"

definition rect2D :: "u32 \<Rightarrow> u32 \<Rightarrow> u32 \<Rightarrow> u32 \<Rightarrow> rect2d" where
  "rect2D w h x y = \<lparr>rect_offset = (x, y), rect_extent = (w, h)\<rparr>"

definition renderPassBeginInfo :: pass_begin where
  "renderPassBeginInfo = \<lparr>pb_renderPass = 0, pb_framebuffer = 0,
     pb_area = \<lparr>rect_offset = (0, 0), rect_extent = (0, 0)\<rparr>, pb_clear = []\<rparr>"

record image_copy =
  ic_aspect :: u32
  ic_layers :: u32
  ic_extent :: "u32 \<times> u32"

text \<open>
  What is recorded into a command buffer of a graphics queue; the bind point of pipelines and descriptor sets is
  always the graphics one, and the first set, binding count and instance count are those of the calls.
\<close>

datatype (plugins only:) command =
    CmdBeginRenderPass pass_begin
  | CmdSetViewport view_port
  | CmdSetScissor rect2d
  | CmdBindPipeline handle
  | CmdBindDescriptorSets handle "handle list" "u32 list"
  | CmdPushConstants handle u32 u32 "f32 list"
  | CmdBindVertexBuffers u32 handle u64
  | CmdBindIndexBuffer handle u64 u32
  | CmdDrawIndexed u32 u32 u32 u32 u32
  | CmdEndRenderPass
  | CmdCopyBufferToImage handle handle u32 image_copy
  | CmdDebugMarkerBegin string "f32 list"
  | CmdDebugMarkerEnd
  | CmdDebugMarkerInsert string "f32 list"

section \<open>Descriptors\<close>

record pool_size =
  ps_type :: u32
  ps_count :: u32

record pool_info =
  po_sizes :: "pool_size list"
  po_maxSets :: u32

record layout_binding =
  lb_type :: u32
  lb_stages :: u32
  lb_binding :: u32
  lb_count :: u32

record descriptor_image =
  di_sampler :: handle
  di_view :: handle
  di_layout :: u32

text \<open>A write names a buffer with offset and range, or an image.\<close>

record write_set =
  ws_set :: handle
  ws_type :: u32
  ws_binding :: u32
  ws_count :: u32
  ws_buffer :: "(handle \<times> u64 \<times> u64) option"
  ws_image :: "descriptor_image option"

definition descriptorPoolCreateInfo :: "pool_size list \<Rightarrow> u32 \<Rightarrow> pool_info" where
  "descriptorPoolCreateInfo sizes maxSets = \<lparr>po_sizes = sizes, po_maxSets = maxSets\<rparr>"

definition descriptorPoolSize :: "u32 \<Rightarrow> u32 \<Rightarrow> pool_size" where
  "descriptorPoolSize t n = \<lparr>ps_type = t, ps_count = n\<rparr>"

definition descriptorSetLayoutBinding :: "u32 \<Rightarrow> u32 \<Rightarrow> u32 \<Rightarrow> layout_binding" where
  "descriptorSetLayoutBinding t stages b = \<lparr>lb_type = t, lb_stages = stages, lb_binding = b, lb_count = 1\<rparr>"

definition descriptorSetLayoutCreateInfo :: "layout_binding list \<Rightarrow> layout_binding list" where
  "descriptorSetLayoutCreateInfo bindings = bindings"

definition descriptorImageInfo :: "handle \<Rightarrow> handle \<Rightarrow> u32 \<Rightarrow> descriptor_image" where
  "descriptorImageInfo sampler view layout = \<lparr>di_sampler = sampler, di_view = view, di_layout = layout\<rparr>"

definition writeDescriptorSet :: "handle \<Rightarrow> u32 \<Rightarrow> u32 \<Rightarrow> handle \<times> u64 \<times> u64 \<Rightarrow> write_set" where
  "writeDescriptorSet dst t b info =
     \<lparr>ws_set = dst, ws_type = t, ws_binding = b, ws_count = 1, ws_buffer = Some info, ws_image = None\<rparr>"

definition writeDescriptorSet_image :: "handle \<Rightarrow> u32 \<Rightarrow> u32 \<Rightarrow> descriptor_image \<Rightarrow> write_set" where
  "writeDescriptorSet_image dst t b info =
     \<lparr>ws_set = dst, ws_type = t, ws_binding = b, ws_count = 1, ws_buffer = None, ws_image = Some info\<rparr>"

record push_range =
  pr_stages :: u32
  pr_offset :: u32
  pr_size :: u32

record layout_info =
  li_sets :: "handle list"
  li_ranges :: "push_range list"

definition pipelineLayoutCreateInfo :: "handle list \<Rightarrow> layout_info" where
  "pipelineLayoutCreateInfo sets = \<lparr>li_sets = sets, li_ranges = []\<rparr>"

definition pushConstantRange :: "u32 \<Rightarrow> u32 \<Rightarrow> u32 \<Rightarrow> push_range" where
  "pushConstantRange stages sz off = \<lparr>pr_stages = stages, pr_offset = off, pr_size = sz\<rparr>"

record sampler_info =
  sa_magFilter :: u32
  sa_minFilter :: u32
  sa_mipmapMode :: u32
  sa_addressModes :: "u32 list"
  sa_borderColor :: u32
  sa_maxAnisotropy :: f32

definition samplerCreateInfo :: sampler_info where
  "samplerCreateInfo = \<lparr>sa_magFilter = 0, sa_minFilter = 0, sa_mipmapMode = 0, sa_addressModes = [0, 0, 0],
     sa_borderColor = 0, sa_maxAnisotropy = 1\<rparr>"

section \<open>Pipelines\<close>

record vertex_binding =
  vb_binding :: u32
  vb_stride :: u32
  vb_inputRate :: u32

record vertex_attribute =
  va_location :: u32
  va_binding :: u32
  va_format :: u32
  va_offset :: u32

record input_assembly =
  ia_topology :: u32
  ia_flags :: u32
  ia_restart :: u32

record raster_state =
  rs_polygonMode :: u32
  rs_cullMode :: u32
  rs_frontFace :: u32
  rs_flags :: u32
  rs_depthClamp :: u32
  rs_lineWidth :: f32

record blend_attachment =
  ba_writeMask :: u32
  ba_enable :: u32
  ba_color :: "u32 \<times> u32 \<times> u32"
  ba_alpha :: "u32 \<times> u32 \<times> u32"

record stencil_ops =
  so_failOp :: u32
  so_passOp :: u32
  so_compareOp :: u32

record depth_state =
  ds_test :: u32
  ds_write :: u32
  ds_compareOp :: u32
  ds_front :: stencil_ops
  ds_back :: stencil_ops

record viewport_state =
  vs_viewports :: u32
  vs_scissors :: u32
  vs_flags :: u32

record multisample_state =
  ms_samples :: u32
  ms_flags :: u32

record dynamic_state =
  dy_states :: "u32 list"
  dy_flags :: u32

record shader_stage =
  ss_stage :: u32
  ss_module :: handle
  ss_name :: string

record pipeline_info =
  pi_layout :: handle
  pi_renderPass :: handle
  pi_flags :: u32
  pi_subpass :: u32
  pi_base :: "handle \<times> int"
  pi_stages :: "shader_stage list"
  pi_input :: "vertex_binding list \<times> vertex_attribute list"
  pi_assembly :: input_assembly
  pi_raster :: raster_state
  pi_blend :: "blend_attachment list"
  pi_samples :: multisample_state
  pi_viewport :: viewport_state
  pi_depth :: depth_state
  pi_dynamic :: dynamic_state

definition vertexInputBindingDescription :: "u32 \<Rightarrow> u32 \<Rightarrow> u32 \<Rightarrow> vertex_binding" where
  "vertexInputBindingDescription b stride rate = \<lparr>vb_binding = b, vb_stride = stride, vb_inputRate = rate\<rparr>"

definition vertexInputAttributeDescription :: "u32 \<Rightarrow> u32 \<Rightarrow> u32 \<Rightarrow> u32 \<Rightarrow> vertex_attribute" where
  "vertexInputAttributeDescription b loc fmt off =
     \<lparr>va_location = loc, va_binding = b, va_format = fmt, va_offset = off\<rparr>"

definition pipelineInputAssemblyStateCreateInfo :: "u32 \<Rightarrow> u32 \<Rightarrow> u32 \<Rightarrow> input_assembly" where
  "pipelineInputAssemblyStateCreateInfo topology flags restart =
     \<lparr>ia_topology = topology, ia_flags = flags, ia_restart = restart\<rparr>"

definition pipelineRasterizationStateCreateInfo :: "u32 \<Rightarrow> u32 \<Rightarrow> u32 \<Rightarrow> u32 \<Rightarrow> raster_state" where
  "pipelineRasterizationStateCreateInfo polygon cull front flags =
     \<lparr>rs_polygonMode = polygon, rs_cullMode = cull, rs_frontFace = front, rs_flags = flags,
      rs_depthClamp = VK_FALSE, rs_lineWidth = 1\<rparr>"

definition pipelineColorBlendAttachmentState :: "u32 \<Rightarrow> u32 \<Rightarrow> blend_attachment" where
  "pipelineColorBlendAttachmentState writeMask enable =
     \<lparr>ba_writeMask = writeMask, ba_enable = enable, ba_color = (0, 0, 0), ba_alpha = (0, 0, 0)\<rparr>"

definition pipelineColorBlendStateCreateInfo :: "blend_attachment list \<Rightarrow> blend_attachment list" where
  "pipelineColorBlendStateCreateInfo attachments = attachments"

text \<open>\<open>front\<close> is copied from \<open>back\<close> before the comparison of \<open>back\<close> is set.\<close>

definition pipelineDepthStencilStateCreateInfo :: "u32 \<Rightarrow> u32 \<Rightarrow> u32 \<Rightarrow> depth_state" where
  "pipelineDepthStencilStateCreateInfo test write compare =
     (let zero = \<lparr>so_failOp = 0, so_passOp = 0, so_compareOp = 0\<rparr>;
          D = \<lparr>ds_test = test, ds_write = write, ds_compareOp = compare, ds_front = zero, ds_back = zero\<rparr>;
          D = D\<lparr>ds_front := ds_back D\<rparr>
      in D\<lparr>ds_back := (ds_back D)\<lparr>so_compareOp := VK_COMPARE_OP_ALWAYS\<rparr>\<rparr>)"

definition pipelineViewportStateCreateInfo :: "u32 \<Rightarrow> u32 \<Rightarrow> u32 \<Rightarrow> viewport_state" where
  "pipelineViewportStateCreateInfo viewports scissors flags =
     \<lparr>vs_viewports = viewports, vs_scissors = scissors, vs_flags = flags\<rparr>"

definition pipelineMultisampleStateCreateInfo :: "u32 \<Rightarrow> u32 \<Rightarrow> multisample_state" where
  "pipelineMultisampleStateCreateInfo samples flags = \<lparr>ms_samples = samples, ms_flags = flags\<rparr>"

definition pipelineDynamicStateCreateInfo :: "u32 list \<Rightarrow> u32 \<Rightarrow> dynamic_state" where
  "pipelineDynamicStateCreateInfo states flags = \<lparr>dy_states = states, dy_flags = flags\<rparr>"

text \<open>
  The initializer sets layout, render pass, flags and base; the states are null pointers until the caller sets
  them, so they are arguments here.
\<close>

definition pipelineCreateInfo :: "handle \<Rightarrow> handle \<Rightarrow> u32 \<Rightarrow> shader_stage list \<Rightarrow> vertex_binding list \<times> vertex_attribute list \<Rightarrow>
    input_assembly \<Rightarrow> raster_state \<Rightarrow> blend_attachment list \<Rightarrow> multisample_state \<Rightarrow> viewport_state \<Rightarrow> depth_state \<Rightarrow>
    dynamic_state \<Rightarrow> pipeline_info" where
  "pipelineCreateInfo layout pass flags stages input assembly raster blend samples vp depth dyn =
     \<lparr>pi_layout = layout, pi_renderPass = pass, pi_flags = flags, pi_subpass = 0, pi_base = (0, -1), pi_stages = stages,
      pi_input = input, pi_assembly = assembly, pi_raster = raster, pi_blend = blend, pi_samples = samples,
      pi_viewport = vp, pi_depth = depth, pi_dynamic = dyn\<rparr>"

end
