(* ===== verification/VkBase.thy ===== *)
theory VkBase
  imports VkGraphics "HOL-Library.Multiset"
begin

text \<open>
  The boundary to Vulkan, for the helper classes at the root of \<open>src\<close>. The driver is not part of
  the repository: it is a record of functions that answer a call from everything called before,
  so no answer is assumed stable or independent of the history. A run returns the log of the
  calls with their results and the handles they gave, also when it fails, so that the
  order of calls and the life of every object can be stated.
\<close>

section \<open>Constants of the Vulkan headers\<close>

text \<open>Their values are those of \<open>vulkan_core.h\<close>.\<close>

abbreviation VK_NULL_HANDLE :: handle where "VK_NULL_HANDLE \<equiv> 0"
abbreviation VK_SUCCESS :: int where "VK_SUCCESS \<equiv> 0"
abbreviation VK_WHOLE_SIZE :: u64 where "VK_WHOLE_SIZE \<equiv> 0xFFFFFFFFFFFFFFFF"
abbreviation UINT32_MAX :: u32 where "UINT32_MAX \<equiv> 0xFFFFFFFF"
abbreviation UINT64_MAX :: u64 where "UINT64_MAX \<equiv> 0xFFFFFFFFFFFFFFFF"
abbreviation VK_QUEUE_FAMILY_IGNORED :: u32 where "VK_QUEUE_FAMILY_IGNORED \<equiv> 0xFFFFFFFF"

abbreviation VK_QUEUE_GRAPHICS_BIT :: u32 where "VK_QUEUE_GRAPHICS_BIT \<equiv> 1"
abbreviation VK_QUEUE_COMPUTE_BIT :: u32 where "VK_QUEUE_COMPUTE_BIT \<equiv> 2"
abbreviation VK_QUEUE_TRANSFER_BIT :: u32 where "VK_QUEUE_TRANSFER_BIT \<equiv> 4"

abbreviation VK_MEMORY_PROPERTY_HOST_COHERENT_BIT :: u32 where "VK_MEMORY_PROPERTY_HOST_COHERENT_BIT \<equiv> 4"

abbreviation VK_FORMAT_UNDEFINED :: u32 where "VK_FORMAT_UNDEFINED \<equiv> 0"
abbreviation VK_FORMAT_B8G8R8A8_UNORM :: u32 where "VK_FORMAT_B8G8R8A8_UNORM \<equiv> 44"
abbreviation VK_FORMAT_D16_UNORM :: u32 where "VK_FORMAT_D16_UNORM \<equiv> 124"
abbreviation VK_FORMAT_D32_SFLOAT :: u32 where "VK_FORMAT_D32_SFLOAT \<equiv> 126"
abbreviation VK_FORMAT_D16_UNORM_S8_UINT :: u32 where "VK_FORMAT_D16_UNORM_S8_UINT \<equiv> 128"
abbreviation VK_FORMAT_D24_UNORM_S8_UINT :: u32 where "VK_FORMAT_D24_UNORM_S8_UINT \<equiv> 129"
abbreviation VK_FORMAT_D32_SFLOAT_S8_UINT :: u32 where "VK_FORMAT_D32_SFLOAT_S8_UINT \<equiv> 130"
abbreviation VK_FORMAT_FEATURE_SAMPLED_IMAGE_BIT :: u32 where "VK_FORMAT_FEATURE_SAMPLED_IMAGE_BIT \<equiv> 1"
abbreviation VK_FORMAT_FEATURE_DEPTH_STENCIL_ATTACHMENT_BIT :: u32 where
  "VK_FORMAT_FEATURE_DEPTH_STENCIL_ATTACHMENT_BIT \<equiv> 0x200"

abbreviation VK_PRESENT_MODE_IMMEDIATE_KHR :: u32 where "VK_PRESENT_MODE_IMMEDIATE_KHR \<equiv> 0"
abbreviation VK_PRESENT_MODE_MAILBOX_KHR :: u32 where "VK_PRESENT_MODE_MAILBOX_KHR \<equiv> 1"
abbreviation VK_PRESENT_MODE_FIFO_KHR :: u32 where "VK_PRESENT_MODE_FIFO_KHR \<equiv> 2"
abbreviation VK_SURFACE_TRANSFORM_IDENTITY_BIT_KHR :: u32 where "VK_SURFACE_TRANSFORM_IDENTITY_BIT_KHR \<equiv> 1"
abbreviation VK_COMPOSITE_ALPHA_OPAQUE_BIT_KHR :: u32 where "VK_COMPOSITE_ALPHA_OPAQUE_BIT_KHR \<equiv> 1"
abbreviation VK_COMPOSITE_ALPHA_PRE_MULTIPLIED_BIT_KHR :: u32 where "VK_COMPOSITE_ALPHA_PRE_MULTIPLIED_BIT_KHR \<equiv> 2"
abbreviation VK_COMPOSITE_ALPHA_POST_MULTIPLIED_BIT_KHR :: u32 where "VK_COMPOSITE_ALPHA_POST_MULTIPLIED_BIT_KHR \<equiv> 4"
abbreviation VK_COMPOSITE_ALPHA_INHERIT_BIT_KHR :: u32 where "VK_COMPOSITE_ALPHA_INHERIT_BIT_KHR \<equiv> 8"
abbreviation VK_IMAGE_USAGE_TRANSFER_SRC_BIT :: u32 where "VK_IMAGE_USAGE_TRANSFER_SRC_BIT \<equiv> 1"
abbreviation VK_IMAGE_USAGE_TRANSFER_DST_BIT :: u32 where "VK_IMAGE_USAGE_TRANSFER_DST_BIT \<equiv> 2"
abbreviation VK_IMAGE_USAGE_COLOR_ATTACHMENT_BIT :: u32 where "VK_IMAGE_USAGE_COLOR_ATTACHMENT_BIT \<equiv> 0x10"
abbreviation VK_IMAGE_ASPECT_COLOR_BIT :: u32 where "VK_IMAGE_ASPECT_COLOR_BIT \<equiv> 1"
abbreviation VK_COMMAND_POOL_CREATE_RESET_COMMAND_BUFFER_BIT :: u32 where
  "VK_COMMAND_POOL_CREATE_RESET_COMMAND_BUFFER_BIT \<equiv> 2"
abbreviation VK_COMMAND_BUFFER_LEVEL_PRIMARY :: u32 where "VK_COMMAND_BUFFER_LEVEL_PRIMARY \<equiv> 0"

abbreviation DEFAULT_FENCE_TIMEOUT :: u64 where "DEFAULT_FENCE_TIMEOUT \<equiv> 100000000000"

section \<open>Arguments and answers\<close>

record buffer_info =
  b_usage :: u32
  b_size :: u64
  b_sharing :: u32

record mem_reqs =
  r_size :: u64
  r_alignment :: u64
  r_typeBits :: u32

record buffer_copy =
  srcOffset :: u64
  dstOffset :: u64
  copy_size :: u64

record subresource_range =
  aspectMask :: u32
  baseMipLevel :: u32
  levelCount :: u32
  baseArrayLayer :: u32
  layerCount :: u32

record image_barrier =
  srcAccessMask :: u32
  dstAccessMask :: u32
  oldLayout :: u32
  newLayout :: u32
  srcQueueFamilyIndex :: u32
  dstQueueFamilyIndex :: u32
  barrier_image :: handle
  barrier_range :: subresource_range

record view_info =
  view_image :: handle
  viewType :: u32
  view_format :: u32
  components :: "u32 list"
  view_range :: subresource_range

record surface_caps =
  minImageCount :: u32
  maxImageCount :: u32
  currentExtent :: "u32 \<times> u32"
  minImageExtent :: "u32 \<times> u32"
  maxImageExtent :: "u32 \<times> u32"
  supportedTransforms :: u32
  currentTransform :: u32
  supportedCompositeAlpha :: u32
  supportedUsageFlags :: u32

record swapchain_info =
  sc_surface :: handle
  sc_minImageCount :: u32
  sc_format :: u32
  sc_colorSpace :: u32
  sc_extent :: "u32 \<times> u32"
  sc_usage :: u32
  sc_transform :: u32
  sc_alpha :: u32
  sc_presentMode :: u32
  sc_old :: handle

text \<open>\<open>families\<close>: the \<open>queueFamilyIndex\<close> of each queue asked for; \<open>features2\<close>: a chain was passed.\<close>

record device_info =
  families :: "u32 list"
  device_extensions :: "string list"
  features2 :: "handle option"

record image_info =
  img_format :: u32
  img_extent :: "u32 \<times> u32"
  img_usage :: u32

record framebuffer_info =
  fb_renderPass :: handle
  fb_attachments :: "handle list"
  fb_extent :: "u32 \<times> u32"

text \<open>The attachments and dependencies of a render pass with one subpass that draws to attachment 0 with depth in 1.\<close>

record attachment =
  at_format :: u32
  at_samples :: u32
  loadOp :: u32
  storeOp :: u32
  stencilLoadOp :: u32
  stencilStoreOp :: u32
  initialLayout :: u32
  finalLayout :: u32

record dependency =
  srcSubpass :: u32
  dstSubpass :: u32
  srcStageMask :: u32
  dstStageMask :: u32
  dep_srcAccess :: u32
  dep_dstAccess :: u32
  dependencyFlags :: u32

record render_pass_info =
  rp_attachments :: "attachment list"
  colorReference :: "u32 \<times> u32"
  depthReference :: "u32 \<times> u32"
  dependencies :: "dependency list"

record instance_info =
  applicationName :: string
  apiVersion :: u32
  instance_extensions :: "string list"
  instance_layers :: "string list"

section \<open>Calls\<close>

datatype (plugins only:) vk_call =
    CreateBuffer handle buffer_info
  | DestroyBuffer handle handle
  | GetBufferMemoryRequirements handle handle
  | AllocateMemory handle u64 u32
  | FreeMemory handle handle
  | MapMemory handle handle u64 u64
  | HostWrite handle "8 word list"
  | UnmapMemory handle handle
  | FlushMappedMemoryRanges handle handle u64 u64
  | InvalidateMappedMemoryRanges handle handle u64 u64
  | BindBufferMemory handle handle handle u64
  | CreateCommandPool handle u32 u32
  | DestroyCommandPool handle handle
  | AllocateCommandBuffers handle handle u32 u32
  | FreeCommandBuffers handle handle "handle list"
  | BeginCommandBuffer handle
  | EndCommandBuffer handle
  | CmdCopyBuffer handle handle handle buffer_copy
  | CmdPipelineBarrier handle u32 u32 image_barrier
  | CreateFence handle u32
  | DestroyFence handle handle
  | WaitForFences handle handle u64
  | QueueSubmit handle "handle list" "handle list" "handle list" handle
  | CreateDevice handle device_info
  | DestroyDevice handle
  | GetPhysicalDeviceProperties handle
  | GetPhysicalDeviceFeatures handle
  | GetPhysicalDeviceMemoryProperties handle
  | QueueFamilyCount handle
  | QueueFamilyProperties handle
  | DeviceExtensionCount handle
  | DeviceExtensionProperties handle
  | FormatProperties handle u32
  | GetInstanceProcAddr handle string
  | GetDeviceProcAddr handle string
  | CreateXcbSurface handle handle u32
  | DestroySurface handle handle
  | SurfaceSupport handle u32 handle
  | SurfaceFormatCount handle handle
  | SurfaceFormats handle handle
  | SurfaceCapabilities handle handle
  | PresentModeCount handle handle
  | PresentModes handle handle
  | CreateSwapchain handle swapchain_info
  | DestroySwapchain handle handle
  | SwapchainImageCount handle handle
  | SwapchainImages handle handle
  | AcquireNextImage handle handle u64 handle
  | QueuePresent handle handle u32 "handle option"
  | CreateImageView handle view_info
  | DestroyImageView handle handle
  | CreateShaderModule handle "8 word list"
  | DestroyShaderModule handle handle
  | DeviceWaitIdle handle
  | QueueWaitIdle handle
  | GetDeviceQueue handle u32 u32
  | CreateSemaphore handle
  | DestroySemaphore handle handle
  | ResetFences handle handle
  | CreateImage handle image_info
  | DestroyImage handle handle
  | GetImageMemoryRequirements handle handle
  | BindImageMemory handle handle handle u64
  | CreateFramebuffer handle framebuffer_info
  | DestroyFramebuffer handle handle
  | CreateRenderPass handle render_pass_info
  | DestroyRenderPass handle handle
  | CreatePipelineCache handle
  | DestroyPipelineCache handle handle
  | DestroyDescriptorPool handle handle
  | InstanceLayerCount
  | InstanceLayerProperties
  | CreateInstance instance_info
  | DestroyInstance handle
  | PhysicalDeviceCount handle
  | PhysicalDevices handle
  | Record handle command
  | CreateDescriptorPool handle pool_info
  | CreateDescriptorSetLayout handle "layout_binding list"
  | DestroyDescriptorSetLayout handle handle
  | AllocateDescriptorSets handle handle "handle list"
  | UpdateDescriptorSets handle "write_set list"
  | CreatePipelineLayout handle layout_info
  | DestroyPipelineLayout handle handle
  | CreateGraphicsPipelines handle handle pipeline_info
  | DestroyPipeline handle handle
  | CreateSampler handle sampler_info
  | DestroySampler handle handle
  | CreateDebugUtilsMessenger handle
  | DestroyDebugUtilsMessenger handle handle
  | DebugMarkerSetObjectName handle u32 u64 string
  | DebugMarkerSetObjectTag handle u32 u64 u64 "8 word list"
  | XcbConnect
  | XcbGenerateId handle
  | XcbCreateWindow handle u32 u32 "16 word \<times> 16 word" u32 "u32 list"
  | XcbInternAtom handle bool string
  | XcbChangeText handle u32 u32 string
  | XcbChangeAtoms handle u32 u32 u32 "u32 list"
  | XcbMapWindow handle u32
  | XcbDestroyWindow handle u32
  | XcbDisconnect handle

type_synonym event = "vk_call \<times> int \<times> handle"

text \<open>
  The driver: the result of a call, the handle it writes, and what the queries write. A query
  in two calls has its number of elements from the first and the elements from the second.
\<close>

record driver =
  result_of :: "event list \<Rightarrow> vk_call \<Rightarrow> int"
  handle_of :: "event list \<Rightarrow> vk_call \<Rightarrow> handle"
  count_of :: "event list \<Rightarrow> vk_call \<Rightarrow> u32"
  words_of :: "event list \<Rightarrow> vk_call \<Rightarrow> u32 list"
  pairs_of :: "event list \<Rightarrow> vk_call \<Rightarrow> (u32 \<times> u32) list"
  names_of :: "event list \<Rightarrow> vk_call \<Rightarrow> string list"
  handles_of :: "event list \<Rightarrow> vk_call \<Rightarrow> handle list"
  reqs_of :: "event list \<Rightarrow> vk_call \<Rightarrow> mem_reqs"
  caps_of :: "event list \<Rightarrow> vk_call \<Rightarrow> surface_caps"

text \<open>The arguments of \<open>QueueSubmit\<close>: queue, semaphores to wait for, commands, semaphores to signal, fence.\<close>

section \<open>Runs\<close>

text \<open>
  How a run ends early: a failed assertion (\<open>VK_CHECK_RESULT\<close> contains one), \<open>exit\<close>, an
  exception, an access outside an array.
\<close>

datatype vk_fault = Abort | Exit | Throw | BadIndex

type_synonym 'a vk = "driver \<Rightarrow> event list \<Rightarrow> (vk_fault \<times> event list) + ('a \<times> event list)"

definition retV :: "'a \<Rightarrow> 'a vk" where
  "retV x = (\<lambda>d lg. Inr (x, lg))"

definition failV :: "vk_fault \<Rightarrow> 'a vk" where
  "failV e = (\<lambda>d lg. Inl (e, lg))"

definition bindV :: "'a vk \<Rightarrow> ('a \<Rightarrow> 'b vk) \<Rightarrow> 'b vk" where
  "bindV m f = (\<lambda>d lg. case m d lg of Inl e \<Rightarrow> Inl e | Inr (x, lg') \<Rightarrow> f x d lg')"

definition thenV :: "unit vk \<Rightarrow> 'b vk \<Rightarrow> 'b vk" where
  "thenV m n = bindV m (\<lambda>_. n)"

definition assertV :: "bool \<Rightarrow> unit vk" where
  "assertV b = (if b then retV () else failV Abort)"

text \<open>A call whose result is returned together with the handle it writes.\<close>

definition callV :: "vk_call \<Rightarrow> (int \<times> handle) vk" where
  "callV c = (\<lambda>d lg. Inr ((result_of d lg c, handle_of d lg c), lg @ [(c, result_of d lg c, handle_of d lg c)]))"

text \<open>\<open>VK_CHECK_RESULT\<close>: any result but success fails the assertion.\<close>

definition VK_CHECK_RESULT :: "vk_call \<Rightarrow> handle vk" where
  "VK_CHECK_RESULT c = bindV (callV c) (\<lambda>(r, h). if r = VK_SUCCESS then retV h else failV Abort)"

text \<open>A call without result, and a call whose answer is a query.\<close>

definition doV :: "vk_call \<Rightarrow> unit vk" where
  "doV c = bindV (callV c) (\<lambda>_. retV ())"

definition queryV :: "(driver \<Rightarrow> event list \<Rightarrow> vk_call \<Rightarrow> 'a) \<Rightarrow> vk_call \<Rightarrow> 'a vk" where
  "queryV q c = (\<lambda>d lg. bindV (callV c) (\<lambda>_. retV (q d lg c)) d lg)"

definition checked_query :: "(driver \<Rightarrow> event list \<Rightarrow> vk_call \<Rightarrow> 'a) \<Rightarrow> vk_call \<Rightarrow> 'a vk" where
  "checked_query q c = (\<lambda>d lg. bindV (VK_CHECK_RESULT c) (\<lambda>_. retV (q d lg c)) d lg)"

text \<open>
  The array a second call fills: it has as many elements as the first call announced; the
  count is afterwards the number of elements written.
\<close>

definition filled_array :: "u32 \<Rightarrow> 'a \<Rightarrow> 'a list \<Rightarrow> 'a list" where
  "filled_array n x l = take (unat n) (l @ replicate (unat n) x)"

definition written_count :: "u32 \<Rightarrow> 'a list \<Rightarrow> u32" where
  "written_count n l = of_nat (min (unat n) (length l))"

fun mapV :: "('a \<Rightarrow> 'b vk) \<Rightarrow> 'a list \<Rightarrow> 'b list vk" where
  "mapV f [] = retV []"
| "mapV f (x # xs) = bindV (f x) (\<lambda>y. bindV (mapV f xs) (\<lambda>ys. retV (y # ys)))"

definition forV :: "'a list \<Rightarrow> ('a \<Rightarrow> unit vk) \<Rightarrow> unit vk" where
  "forV xs f = bindV (mapV f xs) (\<lambda>_. retV ())"

definition indexV :: "'a list \<Rightarrow> nat \<Rightarrow> 'a vk" where
  "indexV xs i = (if i < length xs then retV (xs ! i) else failV BadIndex)"

named_theorems vk_simps \<comment> \<open>equations that run the monad\<close>

lemma run_simps [vk_simps]:
  "retV x d lg = Inr (x, lg)"
  "failV e d lg = Inl (e, lg)"
  "thenV m n d lg = bindV m (\<lambda>_. n) d lg"
  "callV c d lg = Inr ((result_of d lg c, handle_of d lg c), lg @ [(c, result_of d lg c, handle_of d lg c)])"
  by (simp_all add: retV_def failV_def thenV_def callV_def)

lemma bindV_Inr [vk_simps]: "m d lg = Inr (x, lg') \<Longrightarrow> bindV m f d lg = f x d lg'"
  by (simp add: bindV_def)

lemma bindV_Inl [vk_simps]: "m d lg = Inl e \<Longrightarrow> bindV m f d lg = Inl e"
  by (simp add: bindV_def)

lemma bindV_eq_Inr: "bindV m f d lg = Inr (y, lg'') \<longleftrightarrow> (\<exists>x lg'. m d lg = Inr (x, lg') \<and> f x d lg' = Inr (y, lg''))"
  by (auto simp: bindV_def split: sum.splits prod.splits)

lemma bindV_InrE:
  assumes "bindV m f d lg = Inr (y, lg'')"
  obtains x lg' where "m d lg = Inr (x, lg')" and "f x d lg' = Inr (y, lg'')"
  using assms by (auto simp: bindV_eq_Inr)

lemma check_eq [vk_simps]:
  "VK_CHECK_RESULT c d lg =
     (if result_of d lg c = VK_SUCCESS
      then Inr (handle_of d lg c, lg @ [(c, result_of d lg c, handle_of d lg c)])
      else Inl (Abort, lg @ [(c, result_of d lg c, handle_of d lg c)]))"
  by (simp add: VK_CHECK_RESULT_def bindV_def run_simps)

lemma do_eq [vk_simps]: "doV c d lg = Inr ((), lg @ [(c, result_of d lg c, handle_of d lg c)])"
  by (simp add: doV_def bindV_def run_simps)

lemma query_eq [vk_simps]:
  "queryV q c d lg = Inr (q d lg c, lg @ [(c, result_of d lg c, handle_of d lg c)])"
  by (simp add: queryV_def bindV_def run_simps)

lemma checked_query_eq [vk_simps]:
  "checked_query q c d lg =
     (if result_of d lg c = VK_SUCCESS
      then Inr (q d lg c, lg @ [(c, result_of d lg c, handle_of d lg c)])
      else Inl (Abort, lg @ [(c, result_of d lg c, handle_of d lg c)]))"
  by (simp add: checked_query_def bindV_def check_eq run_simps)

lemma assert_eq [vk_simps]: "assertV b d lg = (if b then Inr ((), lg) else Inl (Abort, lg))"
  by (simp add: assertV_def run_simps)

lemma index_eq [vk_simps]: "indexV xs i d lg = (if i < length xs then Inr (xs ! i, lg) else Inl (BadIndex, lg))"
  by (simp add: indexV_def run_simps)

lemma filled_array_length [simp]: "length (filled_array n x l) = unat n"
  by (simp add: filled_array_def)

lemma unat_of_nat_u32: "k < 2 ^ 32 \<Longrightarrow> unat (of_nat k :: u32) = k"
  by (simp add: unsigned_of_nat take_bit_nat_eq_self)

lemma unat_u32_bound: "unat (x :: u32) < 2 ^ 32"
  using unsigned_less [where 'a = nat, of x] by simp

lemma written_count_le: "unat (written_count n l) \<le> unat n"
proof -
  have "min (unat n) (length l) \<le> unat n" by simp
  then show ?thesis unfolding written_count_def
    by (metis le_unat_uoi order_refl)
qed

end
