(* ===== verification/VkInit.thy ===== *)
theory VkInit
  imports VkBase
begin

text \<open>
  The initializers of \<open>src/VulkanInitializers.hpp\<close> that the device and tool classes call. A structure
  is the record of the members the callers set or read; the type tag is implied by the record.
\<close>

record mapped_range =
  range_memory :: handle
  range_offset :: u64
  range_size :: u64

record memory_allocate =
  allocationSize :: u64
  memoryTypeIndex :: u32

record command_buffer_allocate =
  ca_pool :: handle
  ca_level :: u32
  ca_count :: u32

text \<open>
  \<open>VkSubmitInfo\<close>: the lists its counts and pointers denote. The pointer to the command
  buffers is the address of a variable, so the record holds what is read there.
\<close>

record submit =
  waitSemaphores :: "handle list"
  commandBuffers :: "handle list"
  signalSemaphores :: "handle list"

definition memoryAllocateInfo :: memory_allocate where
  "memoryAllocateInfo = \<lparr>allocationSize = 0, memoryTypeIndex = 0\<rparr>"

definition mappedMemoryRange :: mapped_range where
  "mappedMemoryRange = \<lparr>range_memory = VK_NULL_HANDLE, range_offset = 0, range_size = 0\<rparr>"

definition commandBufferAllocateInfo :: "handle \<Rightarrow> u32 \<Rightarrow> u32 \<Rightarrow> command_buffer_allocate" where
  "commandBufferAllocateInfo pool level bufferCount =
     \<lparr>ca_pool = pool, ca_level = level, ca_count = bufferCount\<rparr>"

definition imageMemoryBarrier :: image_barrier where
  "imageMemoryBarrier =
     \<lparr>srcAccessMask = 0, dstAccessMask = 0, oldLayout = 0, newLayout = 0,
      srcQueueFamilyIndex = VK_QUEUE_FAMILY_IGNORED, dstQueueFamilyIndex = VK_QUEUE_FAMILY_IGNORED,
      barrier_image = VK_NULL_HANDLE,
      barrier_range = \<lparr>aspectMask = 0, baseMipLevel = 0, levelCount = 0, baseArrayLayer = 0, layerCount = 0\<rparr>\<rparr>"

definition fenceCreateInfo :: "u32 \<Rightarrow> u32" where
  "fenceCreateInfo flags = flags"

definition submitInfo :: submit where
  "submitInfo = \<lparr>waitSemaphores = [], commandBuffers = [], signalSemaphores = []\<rparr>"

definition bufferCreateInfo :: "u32 \<Rightarrow> u64 \<Rightarrow> buffer_info" where
  "bufferCreateInfo usage sz = \<lparr>b_usage = usage, b_size = sz, b_sharing = 0\<rparr>"

end
