(* ===== verification/VkBuffer.thy ===== *)
theory VkBuffer
  imports VkInit
begin

text \<open>
  \<open>vks::Buffer\<close> of \<open>src/VulkanBuffer.hpp\<close>. Pointers into mapped memory are handles; \<open>mapped\<close> is
  null when nothing is mapped. The record is returned updated.
\<close>

record descriptor_info =
  d_buffer :: handle
  d_offset :: u64
  d_range :: u64

record vks_buffer =
  buf_device :: handle
  buf_buffer :: handle
  buf_memory :: handle
  buf_descriptor :: descriptor_info
  buf_size :: u64
  buf_alignment :: u64
  buf_mapped :: handle
  buf_usageFlags :: u32
  buf_memoryPropertyFlags :: u32

text \<open>A default-initialised buffer; the members without initialiser have arbitrary content.\<close>

definition new_buffer :: "handle \<Rightarrow> descriptor_info \<Rightarrow> u32 \<Rightarrow> u32 \<Rightarrow> vks_buffer" where
  "new_buffer dev desc usage props =
     \<lparr>buf_device = dev, buf_buffer = VK_NULL_HANDLE, buf_memory = VK_NULL_HANDLE, buf_descriptor = desc,
      buf_size = 0, buf_alignment = 0, buf_mapped = 0, buf_usageFlags = usage, buf_memoryPropertyFlags = props\<rparr>"

text \<open>\<open>map\<close> writes \<open>mapped\<close> when the call succeeds.\<close>

definition map_buffer :: "vks_buffer \<Rightarrow> u64 \<Rightarrow> u64 \<Rightarrow> (int \<times> vks_buffer) vk" where
  "map_buffer B sz offset =
     bindV (callV (MapMemory (buf_device B) (buf_memory B) offset sz)) (\<lambda>(r, p).
       retV (r, if r = VK_SUCCESS then B\<lparr>buf_mapped := p\<rparr> else B))"

definition unmap :: "vks_buffer \<Rightarrow> vks_buffer vk" where
  "unmap B =
     (if buf_mapped B \<noteq> 0
      then thenV (doV (UnmapMemory (buf_device B) (buf_memory B))) (retV (B\<lparr>buf_mapped := 0\<rparr>))
      else retV B)"

definition bind_buffer :: "vks_buffer \<Rightarrow> u64 \<Rightarrow> int vk" where
  "bind_buffer B offset =
     bindV (callV (BindBufferMemory (buf_device B) (buf_buffer B) (buf_memory B) offset)) (\<lambda>(r, _). retV r)"

definition setupDescriptor :: "vks_buffer \<Rightarrow> u64 \<Rightarrow> u64 \<Rightarrow> vks_buffer" where
  "setupDescriptor B sz offset =
     B\<lparr>buf_descriptor := \<lparr>d_buffer = buf_buffer B, d_offset = offset, d_range = sz\<rparr>\<rparr>"

text \<open>\<open>memcpy\<close> of \<open>sz\<close> bytes to mapped memory: data that is shorter would be read behind its end.\<close>

definition copy_data :: "handle \<Rightarrow> 8 word list \<Rightarrow> u64 \<Rightarrow> unit vk" where
  "copy_data p bytes sz = (if length bytes < unat sz then failV BadIndex else doV (HostWrite p (take (unat sz) bytes)))"

definition copyTo :: "vks_buffer \<Rightarrow> 8 word list \<Rightarrow> u64 \<Rightarrow> unit vk" where
  "copyTo B data sz = thenV (assertV (buf_mapped B \<noteq> 0)) (copy_data (buf_mapped B) data sz)"

definition flush_buffer :: "vks_buffer \<Rightarrow> u64 \<Rightarrow> u64 \<Rightarrow> int vk" where
  "flush_buffer B sz offset =
     bindV (callV (FlushMappedMemoryRanges (buf_device B) (buf_memory B) offset sz)) (\<lambda>(r, _). retV r)"

definition invalidate :: "vks_buffer \<Rightarrow> u64 \<Rightarrow> u64 \<Rightarrow> int vk" where
  "invalidate B sz offset =
     bindV (callV (InvalidateMappedMemoryRanges (buf_device B) (buf_memory B) offset sz)) (\<lambda>(r, _). retV r)"

definition destroy :: "vks_buffer \<Rightarrow> unit vk" where
  "destroy B =
     thenV (if buf_buffer B \<noteq> 0 then doV (DestroyBuffer (buf_device B) (buf_buffer B)) else retV ())
       (if buf_memory B \<noteq> 0 then doV (FreeMemory (buf_device B) (buf_memory B)) else retV ())"

end
