(* ===== verification/VkDevice.thy ===== *)
theory VkDevice
  imports VkBuffer
begin

text \<open>
  \<open>vks::VulkanDevice\<close> of \<open>src/VulkanDevice.hpp\<close>: the physical device's tables, the selection of
  memory types and queue families, the creation of the logical device, of buffers and command buffers.
\<close>

section \<open>State and construction\<close>

text \<open>
  \<open>memoryTypes\<close> is the array of 32 property flags, \<open>queueFamilyProperties\<close> the flags of the
  families. Properties and features, which the class only stores, appear as calls; \<open>enabledFeatures\<close> is opaque.
\<close>

record vulkan_device =
  physicalDevice :: handle
  logicalDevice :: handle
  enabledFeatures :: handle
  memoryTypeCount :: u32
  memoryTypes :: "u32 list"
  queueFamilyProperties :: "u32 list"
  supportedExtensions :: "string list"
  commandPool :: handle
  enableDebugMarkers :: bool
  qf_graphics :: u32
  qf_compute :: u32
  qf_transfer :: u32

text \<open>
  The constructor. \<open>U\<close> is the content of the members it leaves uninitialised. The extensions are
  read through \<open>extensions.front()\<close>, so nothing is read when there are none.
\<close>

definition VulkanDevice :: "vulkan_device \<Rightarrow> handle \<Rightarrow> vulkan_device vk" where
  "VulkanDevice U pd =
     thenV (assertV (pd \<noteq> VK_NULL_HANDLE)) (
     thenV (doV (GetPhysicalDeviceProperties pd)) (
     thenV (doV (GetPhysicalDeviceFeatures pd)) (
     bindV (queryV (\<lambda>d lg c. (count_of d lg c, words_of d lg c)) (GetPhysicalDeviceMemoryProperties pd)) (\<lambda>(mn, ms).
     bindV (queryV count_of (QueueFamilyCount pd)) (\<lambda>qn.
     thenV (assertV (0 < qn)) (
     bindV (queryV words_of (QueueFamilyProperties pd)) (\<lambda>qs.
     bindV (queryV count_of (DeviceExtensionCount pd)) (\<lambda>en.
     bindV (if 0 < en
            then bindV (\<lambda>d lg. bindV (callV (DeviceExtensionProperties pd))
                          (\<lambda>(r, _). retV (r, names_of d lg (DeviceExtensionProperties pd))) d lg)
                   (\<lambda>(r, ns). retV (if r = VK_SUCCESS then filled_array en '''' ns else []))
            else retV []) (\<lambda>exts.
       retV (U\<lparr>physicalDevice := pd, memoryTypeCount := mn, memoryTypes := filled_array 32 0 ms,
         queueFamilyProperties := filled_array qn 0 qs, supportedExtensions := exts,
         commandPool := VK_NULL_HANDLE, enableDebugMarkers := False\<rparr>))))))))))"

definition destroy_device :: "vulkan_device \<Rightarrow> unit vk" where
  "destroy_device D =
     thenV (if commandPool D \<noteq> 0 then doV (DestroyCommandPool (logicalDevice D) (commandPool D)) else retV ())
       (if logicalDevice D \<noteq> 0 then doV (DestroyDevice (logicalDevice D)) else retV ())"

section \<open>Memory types\<close>

fun memory_type_loop :: "u32 list \<Rightarrow> u32 \<Rightarrow> u32 \<Rightarrow> nat \<Rightarrow> nat \<Rightarrow> nat option vk" where
  "memory_type_loop types typeBits props i 0 = retV None"
| "memory_type_loop types typeBits props i (Suc n) =
     bindV (if typeBits AND 1 = 1 then bindV (indexV types i) (\<lambda>f. retV (f AND props = props)) else retV False)
       (\<lambda>hit. if hit then retV (Some i) else memory_type_loop types (drop_bit 1 typeBits) props (Suc i) n)"

text \<open>With a pointer for the outcome, and without one: then nothing found is an exception.\<close>

definition getMemoryType_found :: "vulkan_device \<Rightarrow> u32 \<Rightarrow> u32 \<Rightarrow> (u32 \<times> bool) vk" where
  "getMemoryType_found D typeBits props =
     bindV (memory_type_loop (memoryTypes D) typeBits props 0 (unat (memoryTypeCount D))) (\<lambda>r.
       case r of Some i \<Rightarrow> retV (of_nat i, True) | None \<Rightarrow> retV (0, False))"

definition getMemoryType :: "vulkan_device \<Rightarrow> u32 \<Rightarrow> u32 \<Rightarrow> u32 vk" where
  "getMemoryType D typeBits props =
     bindV (memory_type_loop (memoryTypes D) typeBits props 0 (unat (memoryTypeCount D))) (\<lambda>r.
       case r of Some i \<Rightarrow> retV (of_nat i) | None \<Rightarrow> failV Throw)"

section \<open>Queue families\<close>

fun find_family :: "(u32 \<Rightarrow> bool) \<Rightarrow> u32 list \<Rightarrow> nat \<Rightarrow> nat option" where
  "find_family P [] i = None"
| "find_family P (q # qs) i = (if P q then Some i else find_family P qs (Suc i))"

definition dedicated_compute :: "u32 \<Rightarrow> u32 \<Rightarrow> bool" where
  "dedicated_compute flags q = (q AND flags \<noteq> 0 \<and> q AND VK_QUEUE_GRAPHICS_BIT = 0)"

definition dedicated_transfer :: "u32 \<Rightarrow> u32 \<Rightarrow> bool" where
  "dedicated_transfer flags q =
     (q AND flags \<noteq> 0 \<and> q AND VK_QUEUE_GRAPHICS_BIT = 0 \<and> q AND VK_QUEUE_COMPUTE_BIT = 0)"

definition family_index :: "u32 list \<Rightarrow> u32 \<Rightarrow> nat option" where
  "family_index qs flags =
     (case (if flags AND VK_QUEUE_COMPUTE_BIT \<noteq> 0 then find_family (dedicated_compute flags) qs 0 else None) of
        Some i \<Rightarrow> Some i
      | None \<Rightarrow>
          (case (if flags AND VK_QUEUE_TRANSFER_BIT \<noteq> 0 then find_family (dedicated_transfer flags) qs 0 else None) of
             Some i \<Rightarrow> Some i
           | None \<Rightarrow> find_family (\<lambda>q. q AND flags \<noteq> 0) qs 0))"

definition getQueueFamilyIndex :: "vulkan_device \<Rightarrow> u32 \<Rightarrow> u32 vk" where
  "getQueueFamilyIndex D flags =
     (case family_index (queueFamilyProperties D) flags of
        Some i \<Rightarrow> retV (of_nat i)
      | None \<Rightarrow> failV Throw)"

section \<open>Command pools and the logical device\<close>

definition createCommandPool :: "vulkan_device \<Rightarrow> u32 \<Rightarrow> u32 \<Rightarrow> handle vk" where
  "createCommandPool D family flags = VK_CHECK_RESULT (CreateCommandPool (logicalDevice D) flags family)"

definition extensionSupported :: "vulkan_device \<Rightarrow> string \<Rightarrow> bool" where
  "extensionSupported D ext = (ext \<in> set (supportedExtensions D))"

text \<open>The three queues: the families asked for, each at most once.\<close>

definition graphics_queue :: "vulkan_device \<Rightarrow> u32 \<Rightarrow> (vulkan_device \<times> u32 list) vk" where
  "graphics_queue D requested =
     (if requested AND VK_QUEUE_GRAPHICS_BIT \<noteq> 0
      then bindV (getQueueFamilyIndex D VK_QUEUE_GRAPHICS_BIT) (\<lambda>i. retV (D\<lparr>qf_graphics := i\<rparr>, [i]))
      else retV (D\<lparr>qf_graphics := 0\<rparr>, []))"

definition compute_queue :: "vulkan_device \<Rightarrow> u32 \<Rightarrow> u32 list \<Rightarrow> (vulkan_device \<times> u32 list) vk" where
  "compute_queue D requested infos =
     (if requested AND VK_QUEUE_COMPUTE_BIT \<noteq> 0
      then bindV (getQueueFamilyIndex D VK_QUEUE_COMPUTE_BIT) (\<lambda>i.
             retV (D\<lparr>qf_compute := i\<rparr>, if i \<noteq> qf_graphics D then infos @ [i] else infos))
      else retV (D\<lparr>qf_compute := qf_graphics D\<rparr>, infos))"

definition transfer_queue :: "vulkan_device \<Rightarrow> u32 \<Rightarrow> u32 list \<Rightarrow> (vulkan_device \<times> u32 list) vk" where
  "transfer_queue D requested infos =
     (if requested AND VK_QUEUE_TRANSFER_BIT \<noteq> 0
      then bindV (getQueueFamilyIndex D VK_QUEUE_TRANSFER_BIT) (\<lambda>i.
             retV (D\<lparr>qf_transfer := i\<rparr>,
               if i \<noteq> qf_graphics D \<and> i \<noteq> qf_compute D then infos @ [i] else infos))
      else retV (D\<lparr>qf_transfer := qf_graphics D\<rparr>, infos))"

definition device_extension_list :: "vulkan_device \<Rightarrow> string list \<Rightarrow> bool \<Rightarrow> string list" where
  "device_extension_list D enabledExtensions useSwapChain =
     enabledExtensions @ (if useSwapChain then [''VK_KHR_swapchain''] else []) @
     (if extensionSupported D ''VK_EXT_debug_marker'' then [''VK_EXT_debug_marker''] else [])"

text \<open>The call of \<open>vkCreateDevice\<close> and what follows it; \<open>D\<close> has its queue families.\<close>

definition open_device ::
  "vulkan_device \<Rightarrow> u32 list \<Rightarrow> handle \<Rightarrow> string list \<Rightarrow> handle \<Rightarrow> bool \<Rightarrow> (int \<times> vulkan_device) vk" where
  "open_device D infos features enabledExtensions pNextChain useSwapChain =
     (let D1 = D\<lparr>enableDebugMarkers := extensionSupported D ''VK_EXT_debug_marker'' \<or> enableDebugMarkers D\<rparr>
      in bindV (callV (CreateDevice (physicalDevice D)
                \<lparr>families = infos, device_extensions = device_extension_list D enabledExtensions useSwapChain,
                 features2 = (if pNextChain \<noteq> 0 then Some pNextChain else None)\<rparr>)) (\<lambda>(r, dev).
         bindV (if r = VK_SUCCESS
                then let D2 = D1\<lparr>logicalDevice := dev\<rparr>
                     in bindV (createCommandPool D2 (qf_graphics D2) VK_COMMAND_POOL_CREATE_RESET_COMMAND_BUFFER_BIT)
                          (\<lambda>p. retV (D2\<lparr>commandPool := p\<rparr>))
                else retV D1) (\<lambda>D3.
           retV (r, D3\<lparr>enabledFeatures := features\<rparr>))))"

definition createLogicalDevice ::
  "vulkan_device \<Rightarrow> handle \<Rightarrow> string list \<Rightarrow> handle \<Rightarrow> bool \<Rightarrow> u32 \<Rightarrow> (int \<times> vulkan_device) vk" where
  "createLogicalDevice D features enabledExtensions pNextChain useSwapChain requested =
     bindV (graphics_queue D requested) (\<lambda>(D1, infos1).
     bindV (compute_queue D1 requested infos1) (\<lambda>(D2, infos2).
     bindV (transfer_queue D2 requested infos2) (\<lambda>(D3, infos3).
       open_device D3 infos3 features enabledExtensions pNextChain useSwapChain)))"

section \<open>Buffers\<close>

text \<open>\<open>data = None\<close> is the null pointer.\<close>

definition createBuffer_handles ::
  "vulkan_device \<Rightarrow> u32 \<Rightarrow> u32 \<Rightarrow> u64 \<Rightarrow> 8 word list option \<Rightarrow> (int \<times> handle \<times> handle) vk" where
  "createBuffer_handles D usage props sz data =
     bindV (VK_CHECK_RESULT (CreateBuffer (logicalDevice D) (bufferCreateInfo usage sz))) (\<lambda>buf.
     bindV (queryV reqs_of (GetBufferMemoryRequirements (logicalDevice D) buf)) (\<lambda>reqs.
     bindV (getMemoryType D (r_typeBits reqs) props) (\<lambda>ti.
     bindV (VK_CHECK_RESULT (AllocateMemory (logicalDevice D) (r_size reqs) ti)) (\<lambda>mem.
     thenV (case data of
              None \<Rightarrow> retV ()
            | Some bytes \<Rightarrow>
                bindV (VK_CHECK_RESULT (MapMemory (logicalDevice D) mem 0 sz)) (\<lambda>p.
                thenV (copy_data p bytes sz) (
                thenV (if props AND VK_MEMORY_PROPERTY_HOST_COHERENT_BIT = 0
                       then doV (FlushMappedMemoryRanges (logicalDevice D) mem 0 sz) else retV ())
                  (doV (UnmapMemory (logicalDevice D) mem)))))
       (bindV (VK_CHECK_RESULT (BindBufferMemory (logicalDevice D) buf mem 0)) (\<lambda>_.
          retV (VK_SUCCESS, buf, mem)))))))"

definition fill_buffer :: "vks_buffer \<Rightarrow> u32 \<Rightarrow> u64 \<Rightarrow> 8 word list \<Rightarrow> vks_buffer vk" where
  "fill_buffer B props sz bytes =
     bindV (map_buffer B VK_WHOLE_SIZE 0) (\<lambda>(r, B1).
     thenV (assertV (r = VK_SUCCESS)) (
     thenV (copy_data (buf_mapped B1) bytes sz) (
     bindV (if props AND VK_MEMORY_PROPERTY_HOST_COHERENT_BIT = 0
            then bindV (flush_buffer B1 VK_WHOLE_SIZE 0) (\<lambda>_. retV ()) else retV ()) (\<lambda>_.
       unmap B1))))"

definition finish_buffer :: "u32 \<Rightarrow> vks_buffer \<Rightarrow> u64 \<Rightarrow> 8 word list option \<Rightarrow> (int \<times> vks_buffer) vk" where
  "finish_buffer props B sz data =
     bindV (case data of None \<Rightarrow> retV B | Some bytes \<Rightarrow> fill_buffer B props sz bytes) (\<lambda>B1.
       let B2 = setupDescriptor B1 VK_WHOLE_SIZE 0
       in bindV (bind_buffer B2 0) (\<lambda>r. retV (r, B2)))"

definition createBuffer ::
  "vulkan_device \<Rightarrow> u32 \<Rightarrow> u32 \<Rightarrow> vks_buffer \<Rightarrow> u64 \<Rightarrow> 8 word list option \<Rightarrow> (int \<times> vks_buffer) vk" where
  "createBuffer D usage props B sz data =
     bindV (VK_CHECK_RESULT (CreateBuffer (logicalDevice D) (bufferCreateInfo usage sz))) (\<lambda>buf.
     bindV (queryV reqs_of (GetBufferMemoryRequirements (logicalDevice D) buf)) (\<lambda>reqs.
     bindV (getMemoryType D (r_typeBits reqs) props) (\<lambda>ti.
     bindV (VK_CHECK_RESULT (AllocateMemory (logicalDevice D) (r_size reqs) ti)) (\<lambda>mem.
       let B1 = B\<lparr>buf_device := logicalDevice D, buf_buffer := buf, buf_memory := mem,
                  buf_alignment := r_alignment reqs, buf_size := r_size reqs,
                  buf_usageFlags := usage, buf_memoryPropertyFlags := props\<rparr>
       in finish_buffer props B1 sz data))))"

section \<open>Command buffers\<close>

definition createCommandBuffer :: "vulkan_device \<Rightarrow> u32 \<Rightarrow> bool \<Rightarrow> handle vk" where
  "createCommandBuffer D level begin =
     (let ai = commandBufferAllocateInfo (commandPool D) level 1
      in bindV (VK_CHECK_RESULT (AllocateCommandBuffers (logicalDevice D) (ca_pool ai) (ca_level ai) (ca_count ai))) (\<lambda>cmd.
         if begin then bindV (VK_CHECK_RESULT (BeginCommandBuffer cmd)) (\<lambda>_. retV cmd) else retV cmd))"

text \<open>\<open>S\<close> is the global \<open>vks::initializers::submitInfo\<close>, returned as it is left.\<close>

definition flushCommandBuffer :: "vulkan_device \<Rightarrow> submit \<Rightarrow> handle \<Rightarrow> handle \<Rightarrow> bool \<Rightarrow> submit vk" where
  "flushCommandBuffer D S cmd queue free =
     (if cmd = VK_NULL_HANDLE then retV S
      else bindV (VK_CHECK_RESULT (EndCommandBuffer cmd)) (\<lambda>_.
           let S1 = S\<lparr>commandBuffers := [cmd]\<rparr>
           in bindV (VK_CHECK_RESULT (CreateFence (logicalDevice D) (fenceCreateInfo 0))) (\<lambda>fence.
              bindV (VK_CHECK_RESULT (QueueSubmit queue (waitSemaphores S1) (commandBuffers S1)
                       (signalSemaphores S1) fence)) (\<lambda>_.
              bindV (VK_CHECK_RESULT (WaitForFences (logicalDevice D) fence DEFAULT_FENCE_TIMEOUT)) (\<lambda>_.
              thenV (doV (DestroyFence (logicalDevice D) fence)) (
              thenV (if free then doV (FreeCommandBuffers (logicalDevice D) (commandPool D) [cmd]) else retV ())
                (retV S1)))))))"

definition copyBuffer ::
  "vulkan_device \<Rightarrow> submit \<Rightarrow> vks_buffer \<Rightarrow> vks_buffer \<Rightarrow> handle \<Rightarrow> buffer_copy option \<Rightarrow> submit vk" where
  "copyBuffer D S src dst queue copyRegion =
     thenV (assertV (buf_size dst \<le> buf_size src)) (
     thenV (assertV (buf_buffer src \<noteq> VK_NULL_HANDLE)) (
     bindV (createCommandBuffer D VK_COMMAND_BUFFER_LEVEL_PRIMARY True) (\<lambda>cmd.
       let region = (case copyRegion of
             None \<Rightarrow> \<lparr>srcOffset = 0, dstOffset = 0, copy_size = buf_size src\<rparr> | Some r \<Rightarrow> r)
       in thenV (doV (CmdCopyBuffer cmd (buf_buffer src) (buf_buffer dst) region))
            (flushCommandBuffer D S cmd queue True))))"

section \<open>Depth formats\<close>

definition depth_formats :: "u32 list" where
  "depth_formats = [VK_FORMAT_D32_SFLOAT_S8_UINT, VK_FORMAT_D32_SFLOAT, VK_FORMAT_D24_UNORM_S8_UINT,
     VK_FORMAT_D16_UNORM_S8_UINT, VK_FORMAT_D16_UNORM]"

fun depth_format_loop :: "handle \<Rightarrow> bool \<Rightarrow> u32 list \<Rightarrow> u32 option vk" where
  "depth_format_loop pd sampled [] = retV None"
| "depth_format_loop pd sampled (f # fs) =
     bindV (queryV count_of (FormatProperties pd f)) (\<lambda>feat.
       if feat AND VK_FORMAT_FEATURE_DEPTH_STENCIL_ATTACHMENT_BIT \<noteq> 0 \<and>
          (sampled \<longrightarrow> feat AND VK_FORMAT_FEATURE_SAMPLED_IMAGE_BIT \<noteq> 0)
       then retV (Some f) else depth_format_loop pd sampled fs)"

definition getSupportedDepthFormat :: "vulkan_device \<Rightarrow> bool \<Rightarrow> u32 vk" where
  "getSupportedDepthFormat D checkSamplingSupport =
     bindV (depth_format_loop (physicalDevice D) checkSamplingSupport depth_formats) (\<lambda>r.
       case r of Some f \<Rightarrow> retV f | None \<Rightarrow> failV Throw)"

end
