(* ===== verification/VkDeviceProps.thy ===== *)
theory VkDeviceProps
  imports VkDevice
begin

text \<open>
  What the device class chooses and in which order it calls the driver: memory types, queue
  families, the queues asked for, buffers, the submission of command buffers, depth formats.
\<close>

section \<open>Memory types\<close>

text \<open>What \<open>getMemoryType\<close> looks for.\<close>

definition suitable_type :: "vulkan_device \<Rightarrow> u32 \<Rightarrow> u32 \<Rightarrow> nat \<Rightarrow> bool" where
  "suitable_type D typeBits props i = (bit typeBits i \<and> memoryTypes D ! i AND props = props)"

definition memory_ok :: "vulkan_device \<Rightarrow> bool" where
  "memory_ok D = (unat (memoryTypeCount D) \<le> length (memoryTypes D))"

lemma memory_type_loop_find:
  "i + n \<le> length types \<Longrightarrow> memory_type_loop types (drop_bit i typeBits) props i n d lg =
    Inr (find (\<lambda>j. bit typeBits j \<and> types ! j AND props = props) [i ..< i + n], lg)"
proof (induction n arbitrary: i)
  case (Suc n)
  have "memory_type_loop types (drop_bit (Suc i) typeBits) props (Suc i) n d lg =
      Inr (find (\<lambda>j. bit typeBits j \<and> types ! j AND props = props) [Suc i ..< i + Suc n], lg)"
    using Suc.IH [of "Suc i"] Suc.prems by simp
  moreover have "[i ..< i + Suc n] = i # [Suc i ..< i + Suc n]" by (simp add: upt_conv_Cons)
  moreover have "drop_bit 1 (drop_bit i typeBits) = drop_bit (Suc i) typeBits" by simp
  ultimately show ?case
    using Suc.prems bit_iff_and_drop_bit_eq_1 [of typeBits i]
    by (auto simp: bindV_def run_simps index_eq simp del: drop_bit_drop_bit)
qed (simp add: run_simps)

lemma memory_type_find:
  assumes "memory_ok D"
  shows "memory_type_loop (memoryTypes D) typeBits props 0 (unat (memoryTypeCount D)) d lg =
    Inr (find (suitable_type D typeBits props) [0 ..< unat (memoryTypeCount D)], lg)"
  using memory_type_loop_find [of 0 "unat (memoryTypeCount D)" "memoryTypes D" typeBits props d lg] assms
  by (simp add: memory_ok_def suitable_type_def [abs_def])

text \<open>
  C21. The memory type chosen is the first one the resource allows that has every property asked
  for; when there is none, and only then, an exception is thrown, or, where the caller passed a pointer for the
  answer, the answer is no and the index 0. The driver is not called.
\<close>

theorem memory_type_first_suitable:
  assumes "memory_ok D"
  shows "getMemoryType D typeBits props d lg =
    (case find (suitable_type D typeBits props) [0 ..< unat (memoryTypeCount D)] of
       Some i \<Rightarrow> Inr (of_nat i, lg) | None \<Rightarrow> Inl (Throw, lg)) \<and>
    getMemoryType_found D typeBits props d lg = Inr
    (case find (suitable_type D typeBits props) [0 ..< unat (memoryTypeCount D)] of
       Some i \<Rightarrow> (of_nat i, True) | None \<Rightarrow> (0, False), lg)"
  using memory_type_find [OF assms]
  by (simp add: getMemoryType_def getMemoryType_found_def bindV_def run_simps split: option.split)

definition demo_device :: vulkan_device where
  "demo_device = \<lparr>physicalDevice = 1, logicalDevice = 2, enabledFeatures = 0, memoryTypeCount = 3,
     memoryTypes = [1, 6, 7], queueFamilyProperties = [15, 6, 4], supportedExtensions = [], commandPool = 3,
     enableDebugMarkers = False, qf_graphics = 0, qf_compute = 0, qf_transfer = 0\<rparr>"

theorem memory_type_first_suitable_witness:
  "\<forall>d lg. getMemoryType demo_device 5 6 d lg = Inr (2, lg) \<and> getMemoryType_found demo_device 5 6 d lg = Inr ((2, True), lg)"
proof -
  have "memory_ok demo_device" by (simp add: memory_ok_def demo_device_def)
  from memory_type_first_suitable [OF this, of 5 6]
  show ?thesis by (simp add: demo_device_def suitable_type_def upt_rec)
qed

section \<open>Queue families\<close>

lemma find_family_None: "find_family P qs i = None \<longleftrightarrow> (\<forall>q \<in> set qs. \<not> P q)"
  by (induction qs arbitrary: i) auto

lemma find_family_Some:
  "find_family P qs i = Some k \<Longrightarrow> i \<le> k \<and> k - i < length qs \<and> P (qs ! (k - i)) \<and> (\<forall>j < k - i. \<not> P (qs ! j))"
proof (induction qs arbitrary: i)
  case (Cons q qs)
  show ?case
  proof (cases "P q")
    case False
    then have "Suc i \<le> k \<and> k - Suc i < length qs \<and> P (qs ! (k - Suc i)) \<and> (\<forall>j < k - Suc i. \<not> P (qs ! j))"
      using Cons by simp
    moreover from this have "k - i = Suc (k - Suc i)" by (simp add: Suc_diff_Suc Suc_le_eq)
    ultimately show ?thesis using False by (auto simp: less_Suc_eq_0_disj)
  qed (use Cons.prems in simp)
qed simp

lemma family_index_cases:
  "family_index qs flags =
     (case (if flags AND VK_QUEUE_COMPUTE_BIT \<noteq> 0 then find_family (dedicated_compute flags) qs 0 else None) of
        None \<Rightarrow> (case (if flags AND VK_QUEUE_TRANSFER_BIT \<noteq> 0 then find_family (dedicated_transfer flags) qs 0 else None) of
          None \<Rightarrow> find_family (\<lambda>q. q AND flags \<noteq> 0) qs 0 | Some i \<Rightarrow> Some i)
      | Some i \<Rightarrow> Some i)"
  by (simp add: family_index_def)

lemma family_index_Some:
  assumes "family_index qs flags = Some k"
  shows "k < length qs \<and> qs ! k AND flags \<noteq> 0 \<and>
    (flags AND VK_QUEUE_COMPUTE_BIT \<noteq> 0 \<and> (\<exists>q \<in> set qs. dedicated_compute flags q) \<longrightarrow>
      dedicated_compute flags (qs ! k)) \<and>
    (flags AND VK_QUEUE_COMPUTE_BIT = 0 \<and> flags AND VK_QUEUE_TRANSFER_BIT \<noteq> 0 \<and> (\<exists>q \<in> set qs. dedicated_transfer flags q) \<longrightarrow>
      dedicated_transfer flags (qs ! k))"
proof (cases "if flags AND VK_QUEUE_COMPUTE_BIT \<noteq> 0 then find_family (dedicated_compute flags) qs 0 else None")
  case None
  then have nc: "\<not> (flags AND VK_QUEUE_COMPUTE_BIT \<noteq> 0 \<and> (\<exists>q \<in> set qs. dedicated_compute flags q))"
    by (auto simp: find_family_None split: if_splits)
  have "k < length qs \<and> qs ! k AND flags \<noteq> 0"
    using assms find_family_Some [of "dedicated_transfer flags" qs 0 k]
      find_family_Some [of "\<lambda>q. q AND flags \<noteq> 0" qs 0 k]
    unfolding family_index_cases None by (auto simp: dedicated_transfer_def split: option.splits if_splits)
  moreover have "dedicated_transfer flags (qs ! k)"
    if "flags AND VK_QUEUE_TRANSFER_BIT \<noteq> 0" and "\<exists>q \<in> set qs. dedicated_transfer flags q"
    using assms that find_family_Some [of "dedicated_transfer flags" qs 0 k] find_family_None [of "dedicated_transfer flags" qs 0]
    unfolding family_index_cases None by (auto split: option.splits)
  ultimately show ?thesis using nc by blast
next
  case (Some j)
  have "k = j" using assms unfolding family_index_cases Some by simp
  moreover have "find_family (dedicated_compute flags) qs 0 = Some j" using Some by (simp split: if_splits)
  moreover have "flags AND VK_QUEUE_COMPUTE_BIT \<noteq> 0" using Some by (simp split: if_splits)
  ultimately show ?thesis
    using find_family_Some [of "dedicated_compute flags" qs 0 k] by (auto simp: dedicated_compute_def)
qed

lemma family_index_None: "family_index qs flags = None \<longleftrightarrow> (\<forall>q \<in> set qs. q AND flags = 0)"
proof
  assume "family_index qs flags = None"
  then show "\<forall>q \<in> set qs. q AND flags = 0"
    unfolding family_index_cases by (auto simp: find_family_None split: option.splits)
next
  assume "\<forall>q \<in> set qs. q AND flags = 0"
  then show "family_index qs flags = None"
    using family_index_Some nth_mem by (cases "family_index qs flags") blast+
qed

lemma getQueueFamilyIndex_InrD:
  assumes "getQueueFamilyIndex D flags d lg = Inr (i, lg')" and "length (queueFamilyProperties D) < 2 ^ 32"
  shows "lg' = lg \<and> family_index (queueFamilyProperties D) flags = Some (unat i)"
proof -
  obtain k where k: "family_index (queueFamilyProperties D) flags = Some k" "i = of_nat k" "lg' = lg"
    using assms(1) by (auto simp: getQueueFamilyIndex_def run_simps split: option.splits)
  have "unat i = k" using k(1,2) family_index_Some [OF k(1)] assms(2) by (simp add: unat_of_nat_u32)
  with k show ?thesis by simp
qed

text \<open>
  The queue family chosen supports one of the queues asked for, and an exception is
  thrown exactly when no family does. If compute is asked for and some family with it has no
  graphics, such a family is chosen; if transfer but not compute is asked for and some family with it has
  neither, such a family is chosen.
\<close>

theorem queue_family_chosen:
  assumes "length (queueFamilyProperties D) < 2 ^ 32"
  shows "(getQueueFamilyIndex D flags d lg = Inl (Throw, lg) \<longleftrightarrow> (\<forall>q \<in> set (queueFamilyProperties D). q AND flags = 0)) \<and>
    (\<forall>i lg'. getQueueFamilyIndex D flags d lg = Inr (i, lg') \<longrightarrow>
       lg' = lg \<and> unat i < length (queueFamilyProperties D) \<and> queueFamilyProperties D ! unat i AND flags \<noteq> 0 \<and>
       (flags AND VK_QUEUE_COMPUTE_BIT \<noteq> 0 \<and> (\<exists>q \<in> set (queueFamilyProperties D). dedicated_compute flags q) \<longrightarrow>
          dedicated_compute flags (queueFamilyProperties D ! unat i)) \<and>
       (flags AND VK_QUEUE_COMPUTE_BIT = 0 \<and> flags AND VK_QUEUE_TRANSFER_BIT \<noteq> 0 \<and>
          (\<exists>q \<in> set (queueFamilyProperties D). dedicated_transfer flags q) \<longrightarrow>
          dedicated_transfer flags (queueFamilyProperties D ! unat i)))"
  using getQueueFamilyIndex_InrD [OF _ assms, of flags d lg] family_index_Some [of "queueFamilyProperties D" flags]
    family_index_None [of "queueFamilyProperties D" flags]
  by (auto simp: getQueueFamilyIndex_def run_simps split: option.splits)

theorem queue_family_chosen_witness:
  "\<forall>d lg. getQueueFamilyIndex demo_device VK_QUEUE_COMPUTE_BIT d lg = Inr (1, lg) \<and>
    getQueueFamilyIndex demo_device 16 d lg = Inl (Throw, lg)"
proof (intro allI conjI)
  fix d lg
  have b: "length (queueFamilyProperties demo_device) < 2 ^ 32" by (simp add: demo_device_def)
  have "\<forall>q \<in> set (queueFamilyProperties demo_device). q AND 16 = 0" by (simp add: demo_device_def)
  then show "getQueueFamilyIndex demo_device 16 d lg = Inl (Throw, lg)"
    using queue_family_chosen [OF b, of 16 d lg] by blast
  show "getQueueFamilyIndex demo_device VK_QUEUE_COMPUTE_BIT d lg = Inr (1, lg)"
    by (simp add: demo_device_def getQueueFamilyIndex_def family_index_def dedicated_compute_def run_simps)
qed

end
