(* ===== verification/VkDeviceRun.thy ===== *)
theory VkDeviceRun
  imports VkDeviceProps
begin

text \<open>
  Runs of the device class: the queues of a new logical device, the calls that create and fill a
  buffer, the submission of a command buffer and the copy between buffers.
\<close>

section \<open>The queues of the logical device\<close>

lemma graphics_queue_InrD:
  assumes "graphics_queue D requested d lg = Inr ((D1, infos), lg1)" and "length (queueFamilyProperties D) < 2 ^ 32"
  shows "lg1 = lg \<and> queueFamilyProperties D1 = queueFamilyProperties D \<and> physicalDevice D1 = physicalDevice D \<and>
    (if requested AND VK_QUEUE_GRAPHICS_BIT \<noteq> 0
     then infos = [qf_graphics D1] \<and> family_index (queueFamilyProperties D) VK_QUEUE_GRAPHICS_BIT = Some (unat (qf_graphics D1))
     else infos = [] \<and> qf_graphics D1 = 0)"
proof (cases "requested AND VK_QUEUE_GRAPHICS_BIT = 0")
  case False
  then obtain i lg' where i: "getQueueFamilyIndex D VK_QUEUE_GRAPHICS_BIT d lg = Inr (i, lg')"
      "D1 = D\<lparr>qf_graphics := i\<rparr>" "infos = [i]" "lg1 = lg'"
    using assms(1) by (auto simp: graphics_queue_def bindV_eq_Inr run_simps)
  then show ?thesis using getQueueFamilyIndex_InrD [OF i(1) assms(2)] False by simp
qed (use assms(1) in \<open>auto simp: graphics_queue_def run_simps\<close>)

lemma compute_queue_InrD:
  assumes "compute_queue D requested infos d lg = Inr ((D1, infos1), lg1)" and "length (queueFamilyProperties D) < 2 ^ 32"
  shows "lg1 = lg \<and> queueFamilyProperties D1 = queueFamilyProperties D \<and> qf_graphics D1 = qf_graphics D \<and> physicalDevice D1 = physicalDevice D \<and>
    (if requested AND VK_QUEUE_COMPUTE_BIT \<noteq> 0
     then infos1 = (if qf_compute D1 \<noteq> qf_graphics D then infos @ [qf_compute D1] else infos) \<and>
       family_index (queueFamilyProperties D) VK_QUEUE_COMPUTE_BIT = Some (unat (qf_compute D1))
     else infos1 = infos \<and> qf_compute D1 = qf_graphics D)"
proof (cases "requested AND VK_QUEUE_COMPUTE_BIT = 0")
  case False
  then obtain i lg' where i: "getQueueFamilyIndex D VK_QUEUE_COMPUTE_BIT d lg = Inr (i, lg')"
      "D1 = D\<lparr>qf_compute := i\<rparr>" "infos1 = (if i \<noteq> qf_graphics D then infos @ [i] else infos)" "lg1 = lg'"
    using assms(1) by (auto simp: compute_queue_def bindV_eq_Inr run_simps)
  then show ?thesis using getQueueFamilyIndex_InrD [OF i(1) assms(2)] False by simp
qed (use assms(1) in \<open>auto simp: compute_queue_def run_simps\<close>)

lemma transfer_queue_InrD:
  assumes "transfer_queue D requested infos d lg = Inr ((D1, infos1), lg1)" and "length (queueFamilyProperties D) < 2 ^ 32"
  shows "lg1 = lg \<and> qf_graphics D1 = qf_graphics D \<and> qf_compute D1 = qf_compute D \<and> physicalDevice D1 = physicalDevice D \<and>
    (if requested AND VK_QUEUE_TRANSFER_BIT \<noteq> 0
     then infos1 = (if qf_transfer D1 \<noteq> qf_graphics D \<and> qf_transfer D1 \<noteq> qf_compute D
         then infos @ [qf_transfer D1] else infos) \<and>
       family_index (queueFamilyProperties D) VK_QUEUE_TRANSFER_BIT = Some (unat (qf_transfer D1))
     else infos1 = infos \<and> qf_transfer D1 = qf_graphics D)"
proof (cases "requested AND VK_QUEUE_TRANSFER_BIT = 0")
  case False
  then obtain i lg' where i: "getQueueFamilyIndex D VK_QUEUE_TRANSFER_BIT d lg = Inr (i, lg')"
      "D1 = D\<lparr>qf_transfer := i\<rparr>"
      "infos1 = (if i \<noteq> qf_graphics D \<and> i \<noteq> qf_compute D then infos @ [i] else infos)" "lg1 = lg'"
    using assms(1) by (auto simp: transfer_queue_def bindV_eq_Inr run_simps)
  then show ?thesis using getQueueFamilyIndex_InrD [OF i(1) assms(2)] False by simp
qed (use assms(1) in \<open>auto simp: transfer_queue_def run_simps\<close>)

text \<open>The call of \<open>vkCreateDevice\<close> in a run that returns.\<close>

lemma open_device_InrD:
  assumes "open_device D infos features exts chain swap d lg = Inr ((r, D'), lg')"
  shows "\<exists>info h lgs. families info = infos \<and> lg' = lg @ (CreateDevice (physicalDevice D) info, r, h) # lgs \<and>
    qf_graphics D' = qf_graphics D \<and> qf_compute D' = qf_compute D \<and> qf_transfer D' = qf_transfer D"
proof -
  let ?info = "\<lparr>families = infos, device_extensions = device_extension_list D exts swap,
      features2 = (if chain \<noteq> 0 then Some chain else None)\<rparr>"
  let ?c = "CreateDevice (physicalDevice D) ?info"
  have "r = result_of d lg ?c \<and> (\<exists>lgs. lg' = lg @ (?c, r, handle_of d lg ?c) # lgs) \<and>
      qf_graphics D' = qf_graphics D \<and> qf_compute D' = qf_compute D \<and> qf_transfer D' = qf_transfer D"
    using assms
    by (auto simp: open_device_def bindV_def run_simps Let_def createCommandPool_def check_eq split: if_splits)
  moreover have "families ?info = infos" by simp
  ultimately show ?thesis by blast
qed

lemma three_queues:
  assumes "createLogicalDevice D features exts chain swap requested d lg = Inr (x, lg')"
  obtains D1 i1 lg1 D2 i2 lg2 D3 i3 lg3 where "graphics_queue D requested d lg = Inr ((D1, i1), lg1)"
    and "compute_queue D1 requested i1 d lg1 = Inr ((D2, i2), lg2)"
    and "transfer_queue D2 requested i2 d lg2 = Inr ((D3, i3), lg3)"
    and "open_device D3 i3 features exts chain swap d lg3 = Inr (x, lg')"
  using assms by (auto simp: createLogicalDevice_def bindV_eq_Inr)

text \<open>
  C29. The queues a device is created with: when a graphics queue is asked for, the call of
  \<open>vkCreateDevice\<close> names every family that is used afterwards, each exactly once, and only
  families the device has.
\<close>

theorem device_queues_exact:
  assumes "createLogicalDevice D features exts chain swap requested d lg = Inr ((r, D'), lg')"
    and "requested AND VK_QUEUE_GRAPHICS_BIT \<noteq> 0" and "length (queueFamilyProperties D) < 2 ^ 32"
  shows "\<exists>info h lgs. lg' = lg @ (CreateDevice (physicalDevice D) info, r, h) # lgs \<and>
    distinct (families info) \<and>
    set (families info) = {qf_graphics D', qf_compute D', qf_transfer D'} \<and>
    (\<forall>i \<in> set (families info). unat i < length (queueFamilyProperties D))"
proof -
  obtain D1 i1 lg1 D2 i2 lg2 D3 i3 lg3 where q: "graphics_queue D requested d lg = Inr ((D1, i1), lg1)"
      "compute_queue D1 requested i1 d lg1 = Inr ((D2, i2), lg2)"
      "transfer_queue D2 requested i2 d lg2 = Inr ((D3, i3), lg3)"
      "open_device D3 i3 features exts chain swap d lg3 = Inr ((r, D'), lg')"
    using assms(1) by (rule three_queues)
  obtain info h lgs where f: "families info = i3" "lg' = lg3 @ (CreateDevice (physicalDevice D3) info, r, h) # lgs"
      "qf_graphics D' = qf_graphics D3" "qf_compute D' = qf_compute D3" "qf_transfer D' = qf_transfer D3"
    using open_device_InrD [OF q(4)] by blast
  note g = graphics_queue_InrD [OF q(1) assms(3)]
  have p1: "queueFamilyProperties D1 = queueFamilyProperties D" using g by blast
  note c = compute_queue_InrD [OF q(2), unfolded p1, OF assms(3)]
  have p2: "queueFamilyProperties D2 = queueFamilyProperties D" "qf_graphics D2 = qf_graphics D1" using c by blast+
  note t = transfer_queue_InrD [OF q(3), unfolded p2, OF assms(3)]
  have p3: "qf_graphics D3 = qf_graphics D1" "qf_compute D3 = qf_compute D2" "physicalDevice D3 = physicalDevice D"
    using g c t p2 by simp_all
  have lgs: "lg3 = lg" using g c t by simp
  have i3: "i3 = (if qf_transfer D3 \<in> set i2 then i2 else i2 @ [qf_transfer D3])"
      "i2 = (if qf_compute D2 \<in> set i1 then i1 else i1 @ [qf_compute D2])" "i1 = [qf_graphics D1]"
    using g c t assms(2) by (auto split: if_splits)
  have "\<forall>i \<in> {qf_graphics D1, qf_compute D2, qf_transfer D3}. unat i < length (queueFamilyProperties D)"
    using g c t assms(2) family_index_Some by (auto split: if_splits)
  then show ?thesis
    using f i3 p3 lgs by (intro exI [of _ info] exI [of _ h] exI [of _ lgs]) (auto split: if_splits)
qed

text \<open>A driver for the examples: every call succeeds, each handle is new.\<close>

definition demo_driver :: driver where
  "demo_driver = \<lparr>result_of = (\<lambda>lg c. 0), handle_of = (\<lambda>lg c. 2 * of_nat (length lg) + 11),
     count_of = (\<lambda>lg c. case c of SurfaceSupport _ i _ \<Rightarrow> (if i = 1 then 1 else 0) | FormatProperties _ f \<Rightarrow> (if f = 129 then 0x201 else 0x200)
       | _ \<Rightarrow> 2),
     words_of = (\<lambda>lg c. case c of PresentModes _ _ \<Rightarrow> [0, 1] | _ \<Rightarrow> [6, 7]),
     pairs_of = (\<lambda>lg c. [(50, 0), (44, 5)]), names_of = (\<lambda>lg c. []), handles_of = (\<lambda>lg c. [100, 101]),
     reqs_of = (\<lambda>lg c. \<lparr>r_size = 256, r_alignment = 16, r_typeBits = 7\<rparr>),
     caps_of = (\<lambda>lg c. \<lparr>minImageCount = 2, maxImageCount = 8, currentExtent = (800, 600), minImageExtent = (800, 600),
       maxImageExtent = (800, 600), supportedTransforms = 1,
       currentTransform = 1, supportedCompositeAlpha = 4, supportedUsageFlags = 0x11\<rparr>)\<rparr>"

theorem device_queues_exact_witness:
  "\<exists>D' lg' info h lgs. createLogicalDevice demo_device 0 [] 0 True 7 demo_driver [] = Inr ((0, D'), lg') \<and>
    lg' = (CreateDevice 1 info, 0, h) # lgs \<and> distinct (families info) \<and> set (families info) = {0, 1, 2}"
proof -
  have "\<exists>D' lg'. createLogicalDevice demo_device 0 [] 0 True 7 demo_driver [] = Inr ((0, D'), lg') \<and>
      qf_graphics D' = 0 \<and> qf_compute D' = 1 \<and> qf_transfer D' = 2"
    by (simp add: createLogicalDevice_def graphics_queue_def compute_queue_def transfer_queue_def open_device_def
        bindV_def run_simps check_eq createCommandPool_def getQueueFamilyIndex_def family_index_def
        dedicated_compute_def dedicated_transfer_def demo_device_def demo_driver_def Let_def)
  then obtain D' lg' where r: "createLogicalDevice demo_device 0 [] 0 True 7 demo_driver [] = Inr ((0, D'), lg')"
      "qf_graphics D' = 0" "qf_compute D' = 1" "qf_transfer D' = 2" by blast
  have "\<exists>info h lgs. lg' = [] @ (CreateDevice (physicalDevice demo_device) info, 0, h) # lgs \<and>
      distinct (families info) \<and> set (families info) = {qf_graphics D', qf_compute D', qf_transfer D'} \<and>
      (\<forall>i \<in> set (families info). unat i < length (queueFamilyProperties demo_device))"
    by (rule device_queues_exact [OF r(1)]) (simp_all add: demo_device_def)
  then show ?thesis using r by (auto simp: demo_device_def)
qed

text \<open>
  Without a graphics queue the device may get no queue at all: the graphics index is
  then 0, so a compute queue of family 0 is taken for one that is already asked for.
\<close>

theorem no_queue_without_graphics:
  assumes "requested AND VK_QUEUE_GRAPHICS_BIT = 0" and "requested AND VK_QUEUE_COMPUTE_BIT \<noteq> 0"
    and "requested AND VK_QUEUE_TRANSFER_BIT = 0"
    and "family_index (queueFamilyProperties D) VK_QUEUE_COMPUTE_BIT = Some 0"
    and "createLogicalDevice D features exts chain swap requested d lg = Inr ((r, D'), lg')"
  shows "\<exists>info h lgs. lg' = lg @ (CreateDevice (physicalDevice D) info, r, h) # lgs \<and> families info = [] \<and>
    qf_compute D' = 0"
proof -
  have "createLogicalDevice D features exts chain swap requested d lg =
      open_device (D\<lparr>qf_graphics := 0, qf_compute := 0, qf_transfer := 0\<rparr>) [] features exts chain swap d lg"
    using assms(1-4)
    by (simp add: createLogicalDevice_def graphics_queue_def compute_queue_def transfer_queue_def
        getQueueFamilyIndex_def bindV_def run_simps)
  from open_device_InrD [OF this [symmetric, unfolded assms(5)]] show ?thesis by auto
qed

theorem no_queue_without_graphics_witness:
  "\<exists>info r h lgs D' lg'. createLogicalDevice (demo_device\<lparr>queueFamilyProperties := [15]\<rparr>) 0 [] 0 True 2 demo_driver [] =
      Inr ((r, D'), lg') \<and> lg' = (CreateDevice 1 info, r, h) # lgs \<and> families info = []"
proof -
  let ?D = "demo_device\<lparr>queueFamilyProperties := [15]\<rparr>"
  have "\<exists>r D' lg'. createLogicalDevice ?D 0 [] 0 True 2 demo_driver [] = Inr ((r, D'), lg')"
    by (simp add: createLogicalDevice_def graphics_queue_def compute_queue_def transfer_queue_def open_device_def
        bindV_def run_simps check_eq createCommandPool_def getQueueFamilyIndex_def family_index_def
        dedicated_compute_def demo_device_def demo_driver_def Let_def)
  then obtain r D' lg' where r: "createLogicalDevice ?D 0 [] 0 True 2 demo_driver [] = Inr ((r, D'), lg')" by blast
  have "\<exists>info h lgs. lg' = [] @ (CreateDevice (physicalDevice ?D) info, r, h) # lgs \<and> families info = [] \<and> qf_compute D' = 0"
    by (rule no_queue_without_graphics [OF _ _ _ _ r])
      (simp_all add: demo_device_def family_index_def dedicated_compute_def)
  then show ?thesis using r by (auto simp: demo_device_def)
qed

section \<open>Submission\<close>

lemma flush_run:
  assumes "flushCommandBuffer D S cmd queue free d lg = Inr (S', lg')" and "cmd \<noteq> VK_NULL_HANDLE"
  shows "\<exists>fence. map fst lg' = map fst lg @ [EndCommandBuffer cmd, CreateFence (logicalDevice D) 0,
      QueueSubmit queue (waitSemaphores S) [cmd] (signalSemaphores S) fence,
      WaitForFences (logicalDevice D) fence DEFAULT_FENCE_TIMEOUT, DestroyFence (logicalDevice D) fence] @
      (if free then [FreeCommandBuffers (logicalDevice D) (commandPool D) [cmd]] else []) \<and>
    S' = S\<lparr>commandBuffers := [cmd]\<rparr>"
  using assms
  by (auto simp: flushCommandBuffer_def bindV_def run_simps check_eq do_eq Let_def fenceCreateInfo_def
      split: if_splits)

text \<open>The submission record the base class leaves in the global: the semaphores of the frame loop.\<close>

definition frame_submit :: "handle \<Rightarrow> handle \<Rightarrow> submit" where
  "frame_submit presentComplete renderComplete =
     submitInfo\<lparr>waitSemaphores := [presentComplete], signalSemaphores := [renderComplete]\<rparr>"

text \<open>
  A flush ends the commands, submits them with a new fence, waits for it and only then
  destroys it. It submits the global record, so after the base class has set it up the
  flush waits for the semaphore of the next image, which no call of the run acquires.
\<close>

theorem flush_waits_for_frame:
  assumes "flushCommandBuffer D (frame_submit pc rc) cmd queue free d lg = Inr (S', lg')" and "cmd \<noteq> VK_NULL_HANDLE"
  shows "\<exists>fence rest. map fst lg' = map fst lg @ [EndCommandBuffer cmd, CreateFence (logicalDevice D) 0,
      QueueSubmit queue [pc] [cmd] [rc] fence,
      WaitForFences (logicalDevice D) fence DEFAULT_FENCE_TIMEOUT, DestroyFence (logicalDevice D) fence] @ rest \<and>
    (\<forall>c \<in> set rest. c = FreeCommandBuffers (logicalDevice D) (commandPool D) [cmd])"
  using flush_run [OF assms] by (auto simp: frame_submit_def submitInfo_def)

theorem flush_waits_for_frame_witness:
  "\<exists>S' lg' fence. flushCommandBuffer demo_device (frame_submit 7 8) 5 6 True demo_driver [] = Inr (S', lg') \<and>
    QueueSubmit 6 [7] [5] [8] fence \<in> set (map fst lg')"
proof -
  have "\<exists>S' lg'. flushCommandBuffer demo_device (frame_submit 7 8) 5 6 True demo_driver [] = Inr (S', lg')"
    by (simp add: flushCommandBuffer_def bindV_def run_simps check_eq do_eq Let_def demo_driver_def)
  then obtain S' lg' where r: "flushCommandBuffer demo_device (frame_submit 7 8) 5 6 True demo_driver [] = Inr (S', lg')"
    by blast
  from flush_waits_for_frame [OF r] show ?thesis using r by auto
qed

text \<open>
  The size check of a copy is the wrong way round: a destination bigger than the source
  is refused, a smaller one is accepted, and then the whole source is copied into it.
\<close>

theorem copy_overflows_destination:
  assumes "copyBuffer D S src dst queue None d lg = Inr (S', lg')"
  shows "buf_size dst \<le> buf_size src \<and>
    (\<exists>cmd. CmdCopyBuffer cmd (buf_buffer src) (buf_buffer dst)
       \<lparr>srcOffset = 0, dstOffset = 0, copy_size = buf_size src\<rparr> \<in> set (map fst lg'))"
proof -
  let ?region = "\<lparr>srcOffset = 0, dstOffset = 0, copy_size = buf_size src\<rparr>"
  have c: "buf_size dst \<le> buf_size src" "buf_buffer src \<noteq> 0"
    using assms by (auto simp: copyBuffer_def bindV_def run_simps assert_eq split: if_splits)
  then obtain cmd lg1 where lg1: "createCommandBuffer D VK_COMMAND_BUFFER_LEVEL_PRIMARY True d lg = Inr (cmd, lg1)"
      "thenV (doV (CmdCopyBuffer cmd (buf_buffer src) (buf_buffer dst) ?region))
         (flushCommandBuffer D S cmd queue True) d lg1 = Inr (S', lg')"
    using assms by (auto simp: copyBuffer_def bindV_eq_Inr run_simps assert_eq)
  then obtain e where e: "fst e = CmdCopyBuffer cmd (buf_buffer src) (buf_buffer dst) ?region"
      "flushCommandBuffer D S cmd queue True d (lg1 @ [e]) = Inr (S', lg')"
    by (auto simp: bindV_def run_simps do_eq)
  have "fst e \<in> set (map fst lg')"
  proof (cases "cmd = VK_NULL_HANDLE")
    case True
    then show ?thesis using e(2) by (auto simp: flushCommandBuffer_def run_simps)
  next
    case False
    from flush_run [OF e(2) this] obtain es where "map fst lg' = map fst (lg1 @ [e]) @ es" by blast
    then show ?thesis by simp
  qed
  then show ?thesis using c e(1) by auto
qed

theorem copy_overflows_destination_witness:
  "\<exists>S' lg' cmd. copyBuffer demo_device submitInfo
      (new_buffer 2 \<lparr>d_buffer = 0, d_offset = 0, d_range = 0\<rparr> 0 0\<lparr>buf_buffer := 20, buf_size := 64\<rparr>)
      (new_buffer 2 \<lparr>d_buffer = 0, d_offset = 0, d_range = 0\<rparr> 0 0\<lparr>buf_buffer := 21, buf_size := 16\<rparr>)
      6 None demo_driver [] = Inr (S', lg') \<and>
    CmdCopyBuffer cmd 20 21 \<lparr>srcOffset = 0, dstOffset = 0, copy_size = 64\<rparr> \<in> set (map fst lg')"
proof -
  let ?src = "new_buffer 2 \<lparr>d_buffer = 0, d_offset = 0, d_range = 0\<rparr> 0 0\<lparr>buf_buffer := 20, buf_size := 64\<rparr>"
  let ?dst = "new_buffer 2 \<lparr>d_buffer = 0, d_offset = 0, d_range = 0\<rparr> 0 0\<lparr>buf_buffer := 21, buf_size := 16\<rparr>"
  have "\<exists>S' lg'. copyBuffer demo_device submitInfo ?src ?dst 6 None demo_driver [] = Inr (S', lg')"
    by (simp add: copyBuffer_def createCommandBuffer_def flushCommandBuffer_def bindV_def run_simps check_eq do_eq
        assert_eq Let_def demo_driver_def commandBufferAllocateInfo_def new_buffer_def)
  then obtain S' lg' where r: "copyBuffer demo_device submitInfo ?src ?dst 6 None demo_driver [] = Inr (S', lg')" by blast
  from copy_overflows_destination [OF r] show ?thesis using r by (auto simp: new_buffer_def)
qed

end
