(* ===== verification/VkBufferRun.thy ===== *)
theory VkBufferRun
  imports VkDeviceRun
begin

text \<open>
  Buffers: the calls that create, fill, bind and destroy one, and the depth format a device offers.
\<close>

section \<open>Creating a buffer\<close>

lemma getMemoryType_InrD:
  assumes "getMemoryType D typeBits props d lg = Inr (i, lg')" and "memory_ok D"
  shows "lg' = lg \<and> unat i < unat (memoryTypeCount D) \<and> suitable_type D typeBits props (unat i)"
proof -
  obtain k where k: "find (suitable_type D typeBits props) [0 ..< unat (memoryTypeCount D)] = Some k"
      "i = of_nat k" "lg' = lg"
    using assms(1) memory_type_find [OF assms(2), of typeBits props d lg]
    by (auto simp: getMemoryType_def bindV_def run_simps split: option.splits)
  then obtain j where "j < unat (memoryTypeCount D)" "suitable_type D typeBits props k" "k = j"
    by (auto simp: find_Some_iff)
  moreover have "unat (memoryTypeCount D) < 2 ^ 32" by (rule unat_u32_bound)
  ultimately show ?thesis using k by (simp add: unat_of_nat_u32)
qed

text \<open>The calls that fill a buffer.\<close>

definition fill_calls :: "handle \<Rightarrow> handle \<Rightarrow> handle \<Rightarrow> u32 \<Rightarrow> u64 \<Rightarrow> 8 word list \<Rightarrow> vk_call list" where
  "fill_calls dev mem p props sz bytes =
     [MapMemory dev mem 0 VK_WHOLE_SIZE, HostWrite p (take (unat sz) bytes)] @
     (if props AND VK_MEMORY_PROPERTY_HOST_COHERENT_BIT = 0
      then [FlushMappedMemoryRanges dev mem 0 VK_WHOLE_SIZE] else []) @
     (if p \<noteq> 0 then [UnmapMemory dev mem] else [])"

lemma fill_buffer_InrD:
  assumes "fill_buffer B props sz bytes d lg = Inr (B', lg')"
  shows "\<exists>p es. B' = B\<lparr>buf_mapped := 0\<rparr> \<and> lg' = lg @ es \<and>
    map fst es = fill_calls (buf_device B) (buf_memory B) p props sz bytes"
  using assms
  by (auto simp: fill_buffer_def copy_data_def fill_calls_def map_buffer_def unmap_def flush_buffer_def bindV_def run_simps
      assert_eq do_eq split: if_splits)

text \<open>
  C28. A buffer is made in the order Vulkan asks for: the handle, its requirements, memory
  of a type that the requirements allow and that has the properties asked for, then, when there
  is data, mapping, writing, a flush exactly for memory that is not coherent and unmapping, and last
  the binding, whose result is returned.
\<close>

theorem buffer_creation_order:
  assumes "createBuffer D usage props B sz data d lg = Inr ((r, B'), lg')" and "memory_ok D" and "buf_mapped B = 0"
  shows "\<exists>mem ti reqs fill. reqs = reqs_of d (take (Suc (length lg)) lg') (GetBufferMemoryRequirements (logicalDevice D) (buf_buffer B')) \<and>
    map fst lg' = map fst lg @
      [CreateBuffer (logicalDevice D) (bufferCreateInfo usage sz),
       GetBufferMemoryRequirements (logicalDevice D) (buf_buffer B'),
       AllocateMemory (logicalDevice D) (r_size reqs) ti] @ fill @
      [BindBufferMemory (logicalDevice D) (buf_buffer B') mem 0] \<and>
    suitable_type D (r_typeBits reqs) props (unat ti) \<and> unat ti < unat (memoryTypeCount D) \<and>
    (case data of None \<Rightarrow> fill = [] | Some bytes \<Rightarrow> (\<exists>p. fill = fill_calls (logicalDevice D) mem p props sz bytes)) \<and>
    buf_memory B' = mem \<and> buf_size B' = r_size reqs \<and> buf_mapped B' = 0 \<and>
    buf_descriptor B' = \<lparr>d_buffer = buf_buffer B', d_offset = 0, d_range = VK_WHOLE_SIZE\<rparr>"
proof -
  let ?dev = "logicalDevice D"
  obtain buf lg1 where 1: "VK_CHECK_RESULT (CreateBuffer ?dev (bufferCreateInfo usage sz)) d lg = Inr (buf, lg1)"
    using assms(1) unfolding createBuffer_def by (rule bindV_InrE)
  let ?q = "GetBufferMemoryRequirements ?dev buf"
  define reqs where "reqs = reqs_of d lg1 ?q"
  define lg2 where "lg2 = lg1 @ [(?q, result_of d lg1 ?q, handle_of d lg1 ?q)]"
  obtain ti lg3 where 2: "getMemoryType D (r_typeBits reqs) props d lg2 = Inr (ti, lg3)"
    using assms(1) 1 by (auto simp: createBuffer_def bindV_eq_Inr query_eq reqs_def lg2_def)
  note t = getMemoryType_InrD [OF 2 assms(2)]
  obtain mem lg4 where 3: "VK_CHECK_RESULT (AllocateMemory ?dev (r_size reqs) ti) d lg3 = Inr (mem, lg4)"
    using assms(1) 1 2 by (auto simp: createBuffer_def bindV_eq_Inr query_eq reqs_def lg2_def)
  let ?B1 = "B\<lparr>buf_device := ?dev, buf_buffer := buf, buf_memory := mem, buf_alignment := r_alignment reqs,
      buf_size := r_size reqs, buf_usageFlags := usage, buf_memoryPropertyFlags := props\<rparr>"
  have "finish_buffer props ?B1 sz data d lg4 = Inr ((r, B'), lg')"
    using assms(1) 1 2 3 by (auto simp: createBuffer_def bindV_eq_Inr query_eq reqs_def lg2_def Let_def)
  then obtain B2 lg5 where 4: "(case data of None \<Rightarrow> retV ?B1 | Some bytes \<Rightarrow> fill_buffer ?B1 props sz bytes) d lg4 = Inr (B2, lg5)"
      "bindV (bind_buffer (setupDescriptor B2 VK_WHOLE_SIZE 0) 0) (\<lambda>r. retV (r, setupDescriptor B2 VK_WHOLE_SIZE 0)) d lg5 = Inr ((r, B'), lg')"
    unfolding finish_buffer_def Let_def by (rule bindV_InrE)
  have l1: "length lg1 = Suc (length lg)" using 1 by (auto simp: check_eq split: if_splits)
  obtain es4 where pre: "lg4 = lg1 @ es4" "map fst lg4 = map fst lg @ [CreateBuffer ?dev (bufferCreateInfo usage sz), ?q,
      AllocateMemory ?dev (r_size reqs) ti]"
    using 1 3 t by (auto simp: check_eq lg2_def split: if_splits)
  have "\<exists>fill es5. lg5 = lg4 @ es5 \<and> map fst es5 = fill \<and> B2 = ?B1\<lparr>buf_mapped := 0\<rparr> \<and>
      (case data of None \<Rightarrow> fill = [] | Some bytes \<Rightarrow> (\<exists>p. fill = fill_calls ?dev mem p props sz bytes))"
  proof (cases data)
    case None
    then show ?thesis using 4(1) assms(3) by (auto simp: run_simps)
  next
    case (Some bytes)
    then show ?thesis using fill_buffer_InrD [of ?B1 props sz bytes d lg4 B2 lg5] 4(1) by auto
  qed
  then obtain fill es5 where f: "lg5 = lg4 @ es5" "map fst es5 = fill" "B2 = ?B1\<lparr>buf_mapped := 0\<rparr>"
      "case data of None \<Rightarrow> fill = [] | Some bytes \<Rightarrow> (\<exists>p. fill = fill_calls ?dev mem p props sz bytes)" by blast
  obtain e where b: "B' = setupDescriptor B2 VK_WHOLE_SIZE 0" "lg' = lg5 @ [e]" "fst e = BindBufferMemory ?dev buf mem 0"
    using 4(2) f(3) by (auto simp: bind_buffer_def bindV_def run_simps setupDescriptor_def)
  have "buf_buffer B' = buf" using b(1) f(3) by (simp add: setupDescriptor_def)
  then have "reqs = reqs_of d (take (Suc (length lg)) lg') (GetBufferMemoryRequirements ?dev (buf_buffer B'))"
    using l1 b(2) f(1) pre(1) by (simp add: reqs_def)
  then show ?thesis using pre t f b
    by (intro exI [of _ mem] exI [of _ ti] exI [of _ reqs] exI [of _ fill]) (simp add: setupDescriptor_def)
qed

definition demo_buffer :: vks_buffer where
  "demo_buffer = new_buffer 0 \<lparr>d_buffer = 0, d_offset = 0, d_range = 0\<rparr> 0 0"

lemma demo_memory: "memory_ok demo_device" "getMemoryType demo_device 7 2 d lg = Inr (1, lg)"
proof -
  show m: "memory_ok demo_device" by (simp add: memory_ok_def demo_device_def)
  have "memory_type_loop (memoryTypes demo_device) 7 2 0 (unat (memoryTypeCount demo_device)) d lg = Inr (Some 1, lg)"
    using memory_type_find [OF m, of 7 2 d lg] by (simp add: suitable_type_def demo_device_def upt_rec)
  then show "getMemoryType demo_device 7 2 d lg = Inr (1, lg)"
    by (simp add: getMemoryType_def bindV_def run_simps)
qed

theorem buffer_creation_order_witness:
  "\<exists>B' lg'. createBuffer demo_device 0x80 2 demo_buffer 4 (Some [1, 2, 3, 4]) demo_driver [] = Inr ((0, B'), lg') \<and>
    (\<exists>mem ti p. suitable_type demo_device 7 2 (unat ti) \<and>
      map fst lg' = [CreateBuffer 2 (bufferCreateInfo 0x80 4), GetBufferMemoryRequirements 2 (buf_buffer B'),
        AllocateMemory 2 256 ti] @ fill_calls 2 mem p 2 4 [1, 2, 3, 4] @ [BindBufferMemory 2 (buf_buffer B') mem 0])"
proof -
  have "\<exists>B' lg'. createBuffer demo_device 0x80 2 demo_buffer 4 (Some [1, 2, 3, 4]) demo_driver [] = Inr ((0, B'), lg')"
    using demo_memory(2)
    by (simp add: createBuffer_def finish_buffer_def bindV_def check_eq query_eq run_simps do_eq assert_eq
        demo_driver_def Let_def fill_buffer_def copy_data_def map_buffer_def flush_buffer_def unmap_def bind_buffer_def)
  then obtain B' lg' where r: "createBuffer demo_device 0x80 2 demo_buffer 4 (Some [1, 2, 3, 4]) demo_driver [] = Inr ((0, B'), lg')"
    by blast
  have m: "buf_mapped demo_buffer = 0" by (simp add: demo_buffer_def new_buffer_def)
  have l: "logicalDevice demo_device = 2" by (simp add: demo_device_def)
  have q: "reqs_of demo_driver x c = \<lparr>r_size = 256, r_alignment = 16, r_typeBits = 7\<rparr>" for x c
    by (simp add: demo_driver_def)
  have "\<exists>mem ti p. suitable_type demo_device 7 2 (unat ti) \<and>
      map fst lg' = [CreateBuffer 2 (bufferCreateInfo 0x80 4), GetBufferMemoryRequirements 2 (buf_buffer B'),
        AllocateMemory 2 256 ti] @ fill_calls 2 mem p 2 4 [1, 2, 3, 4] @ [BindBufferMemory 2 (buf_buffer B') mem 0]"
    using buffer_creation_order [OF r demo_memory(1) m] by (clarsimp simp only: l q option.case mem_reqs.simps list.map append_Nil) blast
  with r show ?thesis by blast
qed

end
