(* ===== verification/VkSwapChain.thy ===== *)
theory VkSwapChain
  imports VkBase
begin

text \<open>
  \<open>VulkanSwapChain\<close> of \<open>src/VulkanSwapChain.hpp\<close>, with the XCB branch of \<open>initSurface\<close>: the
  surface, the queue family and format it is used with, the swap chain and its image views. The
  function pointers that \<open>connect\<close> loads are kept by name; the other operations, which call through
  them, are called after \<open>connect\<close>.
\<close>

record swap_chain =
  sc_instance :: handle
  sc_device :: handle
  sc_physical :: handle
  procs :: "(string \<times> handle) list"
  surface :: handle
  colorFormat :: u32
  colorSpace :: u32
  swapChain :: handle
  imageCount :: u32
  images :: "handle list"
  buffers :: "(handle \<times> handle) list"
  queueNodeIndex :: u32

section \<open>Connecting\<close>

text \<open>\<open>GET_INSTANCE_PROC_ADDR\<close> and \<open>GET_DEVICE_PROC_ADDR\<close>: a null address ends the program.\<close>

definition load_proc :: "vk_call \<Rightarrow> string \<Rightarrow> (string \<times> handle) vk" where
  "load_proc c name = bindV (callV c) (\<lambda>(_, p). if p = 0 then failV Exit else retV (name, p))"

definition instance_procs :: "string list" where
  "instance_procs = [''vkGetPhysicalDeviceSurfaceSupportKHR'', ''vkGetPhysicalDeviceSurfaceCapabilitiesKHR'',
     ''vkGetPhysicalDeviceSurfaceFormatsKHR'', ''vkGetPhysicalDeviceSurfacePresentModesKHR'']"

definition device_procs :: "string list" where
  "device_procs = [''vkCreateSwapchainKHR'', ''vkDestroySwapchainKHR'', ''vkGetSwapchainImagesKHR'',
     ''vkAcquireNextImageKHR'', ''vkQueuePresentKHR'']"

definition connect :: "swap_chain \<Rightarrow> handle \<Rightarrow> handle \<Rightarrow> handle \<Rightarrow> swap_chain vk" where
  "connect C inst pd dev =
     bindV (mapV (\<lambda>n. load_proc (GetInstanceProcAddr inst n) n) instance_procs) (\<lambda>ps.
     bindV (mapV (\<lambda>n. load_proc (GetDeviceProcAddr dev n) n) device_procs) (\<lambda>qs.
       retV (C\<lparr>sc_instance := inst, sc_physical := pd, sc_device := dev, procs := ps @ qs\<rparr>)))"

section \<open>The surface\<close>

text \<open>The two searches; a family is its queue flags and whether it can present.\<close>

fun graphics_loop :: "(u32 \<times> u32) list \<Rightarrow> u32 \<Rightarrow> u32 \<times> u32 \<Rightarrow> u32 \<times> u32" where
  "graphics_loop [] i (g, p) = (g, p)"
| "graphics_loop ((flags, present) # qs) i (g, p) =
     (if flags AND VK_QUEUE_GRAPHICS_BIT \<noteq> 0
      then if present = 1 then (i, i)
           else graphics_loop qs (i + 1) (if g = UINT32_MAX then i else g, p)
      else graphics_loop qs (i + 1) (g, p))"

fun present_loop :: "(u32 \<times> u32) list \<Rightarrow> u32 \<Rightarrow> u32" where
  "present_loop [] i = UINT32_MAX"
| "present_loop ((flags, present) # qs) i = (if present = 1 then i else present_loop qs (i + 1))"

definition select_queue :: "(u32 \<times> u32) list \<Rightarrow> u32 vk" where
  "select_queue qs =
     (case graphics_loop qs 0 (UINT32_MAX, UINT32_MAX) of (g, p) \<Rightarrow>
        let p' = (if p = UINT32_MAX then present_loop qs 0 else p)
        in if g = UINT32_MAX \<or> p' = UINT32_MAX then failV Exit
           else if g \<noteq> p' then failV Exit
           else retV g)"

text \<open>The surface format: \<open>n\<close> is the count after the second call.\<close>

definition select_format :: "u32 \<Rightarrow> (u32 \<times> u32) list \<Rightarrow> (u32 \<times> u32) vk" where
  "select_format n formats =
     bindV (if n = 1 then bindV (indexV formats 0) (\<lambda>f. retV (fst f = VK_FORMAT_UNDEFINED)) else retV False) (\<lambda>undef.
       if undef then bindV (indexV formats 0) (\<lambda>f. retV (VK_FORMAT_B8G8R8A8_UNORM, snd f))
       else (case find (\<lambda>f. fst f = VK_FORMAT_B8G8R8A8_UNORM) formats of
               Some f \<Rightarrow> retV f
             | None \<Rightarrow> indexV formats 0))"

definition surface_support :: "handle \<Rightarrow> handle \<Rightarrow> u32 \<Rightarrow> u32 vk" where
  "surface_support pd surf i =
     queryV (\<lambda>d lg c. if result_of d lg c = VK_SUCCESS then count_of d lg c else 0) (SurfaceSupport pd i surf)"

definition initSurface :: "swap_chain \<Rightarrow> handle \<Rightarrow> u32 \<Rightarrow> swap_chain vk" where
  "initSurface C connection window =
     bindV (callV (CreateXcbSurface (sc_instance C) connection window)) (\<lambda>(r, surf).
     if r \<noteq> VK_SUCCESS then failV Exit
     else
     bindV (queryV count_of (QueueFamilyCount (sc_physical C))) (\<lambda>n.
     thenV (assertV (1 \<le> n)) (
     bindV (queryV words_of (QueueFamilyProperties (sc_physical C))) (\<lambda>l.
     let m = unat (written_count n l)
     in bindV (mapV (\<lambda>i. surface_support (sc_physical C) surf (of_nat i)) [0 ..< m]) (\<lambda>supports.
        bindV (select_queue (zip (filled_array n 0 l) supports)) (\<lambda>node.
        bindV (checked_query count_of (SurfaceFormatCount (sc_physical C) surf)) (\<lambda>fn.
        thenV (assertV (0 < fn)) (
        bindV (checked_query pairs_of (SurfaceFormats (sc_physical C) surf)) (\<lambda>fl.
        bindV (select_format (written_count fn fl) (filled_array fn (0, 0) fl)) (\<lambda>(fmt, space).
          retV (C\<lparr>surface := surf, queueNodeIndex := node, colorFormat := fmt, colorSpace := space\<rparr>)))))))))))"

section \<open>Creating the swap chain\<close>

definition chosen_extent :: "surface_caps \<Rightarrow> u32 \<Rightarrow> u32 \<Rightarrow> u32 \<times> u32" where
  "chosen_extent caps width height =
     (if fst (currentExtent caps) = 0xFFFFFFFF then (width, height) else currentExtent caps)"

fun present_mode_loop :: "u32 list \<Rightarrow> u32 \<Rightarrow> u32" where
  "present_mode_loop [] m = m"
| "present_mode_loop (x # xs) m =
     (if x = VK_PRESENT_MODE_MAILBOX_KHR then VK_PRESENT_MODE_MAILBOX_KHR
      else present_mode_loop xs
        (if m \<noteq> VK_PRESENT_MODE_MAILBOX_KHR \<and> x = VK_PRESENT_MODE_IMMEDIATE_KHR
         then VK_PRESENT_MODE_IMMEDIATE_KHR else m))"

definition chosen_present_mode :: "u32 list \<Rightarrow> bool \<Rightarrow> u32" where
  "chosen_present_mode modes vsync =
     (if vsync then VK_PRESENT_MODE_FIFO_KHR else present_mode_loop modes VK_PRESENT_MODE_FIFO_KHR)"

definition chosen_image_count :: "surface_caps \<Rightarrow> u32" where
  "chosen_image_count caps =
     (let desired = minImageCount caps + 1
      in if 0 < maxImageCount caps \<and> maxImageCount caps < desired then maxImageCount caps else desired)"

definition chosen_transform :: "surface_caps \<Rightarrow> u32" where
  "chosen_transform caps =
     (if supportedTransforms caps AND VK_SURFACE_TRANSFORM_IDENTITY_BIT_KHR \<noteq> 0
      then VK_SURFACE_TRANSFORM_IDENTITY_BIT_KHR else currentTransform caps)"

definition alpha_flags :: "u32 list" where
  "alpha_flags = [VK_COMPOSITE_ALPHA_OPAQUE_BIT_KHR, VK_COMPOSITE_ALPHA_PRE_MULTIPLIED_BIT_KHR,
     VK_COMPOSITE_ALPHA_POST_MULTIPLIED_BIT_KHR, VK_COMPOSITE_ALPHA_INHERIT_BIT_KHR]"

definition chosen_alpha :: "surface_caps \<Rightarrow> u32" where
  "chosen_alpha caps =
     (case find (\<lambda>f. supportedCompositeAlpha caps AND f \<noteq> 0) alpha_flags of
        Some f \<Rightarrow> f | None \<Rightarrow> VK_COMPOSITE_ALPHA_OPAQUE_BIT_KHR)"

definition chosen_usage :: "surface_caps \<Rightarrow> u32" where
  "chosen_usage caps =
     VK_IMAGE_USAGE_COLOR_ATTACHMENT_BIT OR
     (if supportedUsageFlags caps AND VK_IMAGE_USAGE_TRANSFER_SRC_BIT \<noteq> 0 then VK_IMAGE_USAGE_TRANSFER_SRC_BIT else 0) OR
     (if supportedUsageFlags caps AND VK_IMAGE_USAGE_TRANSFER_DST_BIT \<noteq> 0 then VK_IMAGE_USAGE_TRANSFER_DST_BIT else 0)"

definition swapchain_create_info :: "swap_chain \<Rightarrow> surface_caps \<Rightarrow> u32 list \<Rightarrow> u32 \<Rightarrow> u32 \<Rightarrow> bool \<Rightarrow> swapchain_info" where
  "swapchain_create_info C caps modes width height vsync =
     \<lparr>sc_surface = surface C, sc_minImageCount = chosen_image_count caps, sc_format = colorFormat C,
      sc_colorSpace = colorSpace C, sc_extent = chosen_extent caps width height, sc_usage = chosen_usage caps,
      sc_transform = chosen_transform caps, sc_alpha = chosen_alpha caps,
      sc_presentMode = chosen_present_mode modes vsync, sc_old = swapChain C\<rparr>"

definition destroy_views :: "swap_chain \<Rightarrow> unit vk" where
  "destroy_views C =
     forV [0 ..< unat (imageCount C)] (\<lambda>i.
       bindV (indexV (buffers C) i) (\<lambda>b. doV (DestroyImageView (sc_device C) (snd b))))"

definition color_view :: "u32 \<Rightarrow> handle \<Rightarrow> view_info" where
  "color_view format img =
     \<lparr>view_image = img, viewType = 1, view_format = format, components = [3, 4, 5, 6],
      view_range = \<lparr>aspectMask = VK_IMAGE_ASPECT_COLOR_BIT, baseMipLevel = 0, levelCount = 1,
        baseArrayLayer = 0, layerCount = 1\<rparr>\<rparr>"

text \<open>\<open>vector::resize\<close>, and the elements a query then writes.\<close>

definition resize :: "nat \<Rightarrow> 'a \<Rightarrow> 'a list \<Rightarrow> 'a list" where
  "resize n x xs = take n xs @ replicate (n - length xs) x"

definition overwrite :: "'a list \<Rightarrow> 'a list \<Rightarrow> 'a list" where
  "overwrite xs ys = take (length xs) ys @ drop (length ys) xs"

text \<open>The images of the new swap chain and one view of each.\<close>

definition make_buffers :: "swap_chain \<Rightarrow> swap_chain vk" where
  "make_buffers C =
     bindV (checked_query count_of (SwapchainImageCount (sc_device C) (swapChain C))) (\<lambda>n.
     bindV (checked_query handles_of (SwapchainImages (sc_device C) (swapChain C))) (\<lambda>l.
     let m = unat (written_count n l);
         imgs = overwrite (resize (unat n) 0 (images C)) l
     in bindV (mapV (\<lambda>i. bindV (indexV imgs i) (\<lambda>img.
                 bindV (VK_CHECK_RESULT (CreateImageView (sc_device C) (color_view (colorFormat C) img))) (\<lambda>v.
                   retV (img, v)))) [0 ..< m]) (\<lambda>bs.
          retV (C\<lparr>imageCount := written_count n l, images := imgs,
            buffers := overwrite (resize m (0, 0) (buffers C)) bs\<rparr>))))"

text \<open>\<open>create\<close>, with the width and height it leaves behind.\<close>

definition create :: "swap_chain \<Rightarrow> u32 \<Rightarrow> u32 \<Rightarrow> bool \<Rightarrow> (swap_chain \<times> u32 \<times> u32) vk" where
  "create C width height vsync =
     bindV (checked_query caps_of (SurfaceCapabilities (sc_physical C) (surface C))) (\<lambda>caps.
     bindV (checked_query count_of (PresentModeCount (sc_physical C) (surface C))) (\<lambda>n.
     thenV (assertV (0 < n)) (
     bindV (checked_query words_of (PresentModes (sc_physical C) (surface C))) (\<lambda>l.
     let modes = take (unat (written_count n l)) (filled_array n 0 l);
         old = swapChain C
     in bindV (VK_CHECK_RESULT (CreateSwapchain (sc_device C)
                 (swapchain_create_info C caps modes width height vsync))) (\<lambda>sc.
        thenV (if old \<noteq> VK_NULL_HANDLE
               then thenV (destroy_views C) (doV (DestroySwapchain (sc_device C) old))
               else retV ()) (
        bindV (make_buffers (C\<lparr>swapChain := sc\<rparr>)) (\<lambda>C'.
          retV (C', chosen_extent caps width height))))))))"

section \<open>Presenting and cleaning up\<close>

text \<open>\<open>acquireNextImage\<close> with what the driver leaves in the index.\<close>

definition acquireNextImage :: "swap_chain \<Rightarrow> handle \<Rightarrow> (int \<times> u32) vk" where
  "acquireNextImage C semaphore =
     (\<lambda>d lg. bindV (callV (AcquireNextImage (sc_device C) (swapChain C) UINT64_MAX semaphore)) (\<lambda>(r, _).
        retV (r, count_of d lg (AcquireNextImage (sc_device C) (swapChain C) UINT64_MAX semaphore))) d lg)"

definition queuePresent :: "swap_chain \<Rightarrow> handle \<Rightarrow> u32 \<Rightarrow> handle \<Rightarrow> int vk" where
  "queuePresent C queue imageIndex waitSemaphore =
     bindV (callV (QueuePresent queue (swapChain C) imageIndex
       (if waitSemaphore \<noteq> VK_NULL_HANDLE then Some waitSemaphore else None))) (\<lambda>(r, _). retV r)"

definition cleanup :: "swap_chain \<Rightarrow> swap_chain vk" where
  "cleanup C =
     thenV (if swapChain C \<noteq> VK_NULL_HANDLE then destroy_views C else retV ()) (
     thenV (if surface C \<noteq> VK_NULL_HANDLE
            then thenV (doV (DestroySwapchain (sc_device C) (swapChain C)))
                   (doV (DestroySurface (sc_instance C) (surface C)))
            else retV ()) (
     retV (C\<lparr>surface := VK_NULL_HANDLE, swapChain := VK_NULL_HANDLE\<rparr>)))"

end
