(* ===== verification/VkOwner.thy ===== *)
theory VkOwner
  imports VkBase
begin

text \<open>
  The contract of a class that owns Vulkan objects: what its operations create they hold, and
  what they destroy they held. The lemmas of the locale, proved once, say that any sequence of
  operations keeps the balance of objects and never destroys one twice.
\<close>

section \<open>Balance of a stretch of calls\<close>

text \<open>
  A stretch of events leads from the objects \<open>A\<close> to the objects \<open>B\<close>: made and old ones are
  freed or kept, and at no point more has been freed than was there.
\<close>

definition gathered :: "(event \<Rightarrow> handle option) \<Rightarrow> event list \<Rightarrow> handle multiset" where
  "gathered f es = mset (List.map_filter f es)"

definition owns :: "(event \<Rightarrow> handle option) \<Rightarrow> (event \<Rightarrow> handle option) \<Rightarrow> event list \<Rightarrow> handle multiset \<Rightarrow> handle multiset \<Rightarrow> bool" where
  "owns made freed es A B =
     (gathered made es + A = gathered freed es + B \<and>
      (\<forall>n. gathered freed (take n es) \<subseteq># gathered made (take n es) + A))"

lemma gathered_simps [simp]:
  "gathered f [] = {#}"
  "gathered f (e # es) = (case f e of Some h \<Rightarrow> add_mset h (gathered f es) | None \<Rightarrow> gathered f es)"
  "gathered f (es @ fs) = gathered f es + gathered f fs"
  by (simp_all add: gathered_def List.map_filter_simps List.map_filter_def split: option.split)

lemma owns_Nil [simp]: "owns made freed [] A B \<longleftrightarrow> A = B"
  by (simp add: owns_def)

lemma owns_append:
  assumes "owns made freed es A B" and "owns made freed fs B C"
  shows "owns made freed (es @ fs) A C"
proof -
  have eq: "gathered made es + A = gathered freed es + B" using assms(1) by (simp add: owns_def)
  have "gathered freed (take n (es @ fs)) \<subseteq># gathered made (take n (es @ fs)) + A" for n
  proof (cases "n \<le> length es")
    case True
    then show ?thesis using assms(1) by (simp add: owns_def)
  next
    case False
    have "gathered freed es + gathered freed (take (n - length es) fs) \<subseteq>#
        gathered freed es + (gathered made (take (n - length es) fs) + B)"
      using assms(2) by (simp add: owns_def)
    also have "\<dots> = (gathered freed es + B) + gathered made (take (n - length es) fs)" by (simp add: ac_simps)
    also have "\<dots> = (gathered made es + A) + gathered made (take (n - length es) fs)" by (simp only: eq)
    finally show ?thesis using False by (simp add: ac_simps)
  qed
  moreover have "gathered made (es @ fs) + A = gathered freed (es @ fs) + C"
  proof -
    have fs: "gathered made fs + B = gathered freed fs + C" using assms(2) by (simp add: owns_def)
    have "gathered made (es @ fs) + A = (gathered made es + A) + gathered made fs" by (simp add: ac_simps)
    also have "\<dots> = (gathered freed es + B) + gathered made fs" by (simp only: eq)
    also have "\<dots> = gathered freed es + (gathered made fs + B)" by (simp add: ac_simps)
    also have "\<dots> = gathered freed es + (gathered freed fs + C)" by (simp only: fs)
    also have "\<dots> = gathered freed (es @ fs) + C" by (simp add: ac_simps)
    finally show ?thesis .
  qed
  ultimately show ?thesis by (simp add: owns_def)
qed

lemma gathered_none: "\<forall>e \<in> set es. f e = None \<Longrightarrow> gathered f es = {#}"
  by (induction es) auto

lemma owns_quiet:
  assumes "\<forall>e \<in> set es. made e = None \<and> freed e = None"
  shows "owns made freed es A A"
proof -
  have "gathered made es = {#}" using assms by (intro gathered_none) blast
  moreover have "gathered freed (take n es) = {#}" for n
    using assms by (intro gathered_none) (meson in_set_takeD)
  moreover have "gathered freed es = {#}" using assms by (intro gathered_none) blast
  ultimately show ?thesis by (simp add: owns_def)
qed

section \<open>Objects by their calls\<close>

text \<open>
  Which calls make an object, and which handle a call frees. A handle made is one that the driver wrote with
  success; the null handle is no object, and destroying it does nothing, as Vulkan has it.
\<close>

definition made_by :: "(vk_call \<Rightarrow> bool) \<Rightarrow> event \<Rightarrow> handle option" where
  "made_by makes e = (case e of (c, r, h) \<Rightarrow> if makes c \<and> r = VK_SUCCESS \<and> h \<noteq> VK_NULL_HANDLE then Some h else None)"

definition freed_by :: "(vk_call \<Rightarrow> handle option) \<Rightarrow> event \<Rightarrow> handle option" where
  "freed_by frees e = (case frees (fst e) of Some h \<Rightarrow> if h = VK_NULL_HANDLE then None else Some h | None \<Rightarrow> None)"

definition objects :: "handle list \<Rightarrow> handle multiset" where
  "objects hs = filter_mset (\<lambda>h. h \<noteq> VK_NULL_HANDLE) (mset hs)"

lemma objects_simps [simp]:
  "objects [] = {#}"
  "objects (h # hs) = (if h = VK_NULL_HANDLE then objects hs else add_mset h (objects hs))"
  "objects (hs @ hs') = objects hs + objects hs'"
  by (simp_all add: objects_def)

lemma owns_Cons: "owns made freed [e] A B \<Longrightarrow> owns made freed es B C \<Longrightarrow> owns made freed (e # es) A C"
  using owns_append [of made freed "[e]" A B es C] by simp

lemma owns_single:
  "owns made freed [e] A B \<longleftrightarrow>
    gathered made [e] + A = gathered freed [e] + B \<and> gathered freed [e] \<subseteq># gathered made [e] + A"
proof -
  have "take n [e] = [] \<or> take n [e] = [e]" for n by (cases n) auto
  then show ?thesis unfolding owns_def
    by (metis empty_le gathered_simps(1) take_all_iff le_refl)
qed

lemma owns_neither:
  assumes "\<forall>e \<in> set es. \<not> makes (fst e) \<and> frees (fst e) = None"
  shows "owns (made_by makes) (freed_by frees) es A A"
  using assms by (intro owns_quiet) (auto simp: made_by_def freed_by_def split: prod.split)

lemma owns_frees:
  assumes "list_all2 (\<lambda>e h. frees (fst e) = Some h) es hs" and "\<forall>e \<in> set es. \<not> makes (fst e)"
  shows "owns (made_by makes) (freed_by frees) es (A + objects hs) A"
  using assms
proof (induction es hs rule: list_all2_induct)
  case (Cons e es h hs)
  have "owns (made_by makes) (freed_by frees) [e] (A + objects (h # hs)) (A + objects hs)"
    using Cons.hyps Cons.prems by (cases e) (auto simp: owns_single made_by_def freed_by_def)
  moreover have "owns (made_by makes) (freed_by frees) es (A + objects hs) A" using Cons by simp
  ultimately show ?case by (rule owns_Cons)
qed simp

lemma owns_makes:
  assumes "list_all2 (\<lambda>e h. makes (fst e) \<and> snd e = (VK_SUCCESS, h)) es hs" and "\<forall>e \<in> set es. frees (fst e) = None"
  shows "owns (made_by makes) (freed_by frees) es A (A + objects hs)"
  using assms
proof (induction es hs arbitrary: A rule: list_all2_induct)
  case (Cons e es h hs)
  have "owns (made_by makes) (freed_by frees) [e] A (A + objects [h])"
    using Cons.hyps Cons.prems by (auto simp: owns_single made_by_def freed_by_def split: prod.split)
  moreover have "owns (made_by makes) (freed_by frees) es (A + objects [h]) (A + objects [h] + objects hs)"
    using Cons by simp
  ultimately have "owns (made_by makes) (freed_by frees) (e # es) A (A + objects [h] + objects hs)"
    by (rule owns_Cons)
  then show ?case by (simp split: if_splits)
qed simp

text \<open>One event after another.\<close>

lemma owns_skip:
  assumes "\<not> makes c" and "frees c = None" and "owns (made_by makes) (freed_by frees) es A B"
  shows "owns (made_by makes) (freed_by frees) ((c, r) # es) A B"
  using owns_neither [of "[(c, r)]" makes frees A] assms by (intro owns_Cons [OF _ assms(3)]) simp

lemma owns_free:
  assumes "\<not> makes c" and "frees c = Some h" and "owns (made_by makes) (freed_by frees) es A B"
  shows "owns (made_by makes) (freed_by frees) ((c, r) # es) (A + objects [h]) B"
  using owns_frees [of frees "[(c, r)]" "[h]" makes A] assms(1,2) by (intro owns_Cons [OF _ assms(3)]) simp

lemma owns_make:
  assumes "makes c" and "frees c = None" and "owns (made_by makes) (freed_by frees) es (A + objects [h]) B"
  shows "owns (made_by makes) (freed_by frees) ((c, VK_SUCCESS, h) # es) A B"
  using owns_makes [of makes "[(c, VK_SUCCESS, h)]" "[h]" frees A] assms(1,2) by (intro owns_Cons [OF _ assms(3)]) simp

lemma list_all2_left: "list_all2 P xs ys \<Longrightarrow> \<forall>x \<in> set xs. \<exists>y \<in> set ys. P x y"
  by (induction rule: list_all2_induct) auto

section \<open>Events of a loop\<close>

lemma mapV_events:
  assumes "mapV f xs d lg = Inr (ys, lg')"
    and "\<And>x lg y lg'. x \<in> set xs \<Longrightarrow> f x d lg = Inr (y, lg') \<Longrightarrow> \<exists>e. lg' = lg @ [e] \<and> Q x e y"
  shows "\<exists>es. lg' = lg @ es \<and> length es = length xs \<and> length ys = length xs \<and>
    (\<forall>i < length xs. Q (xs ! i) (es ! i) (ys ! i))"
  using assms
proof (induction xs arbitrary: lg ys)
  case (Cons x xs)
  obtain y lg1 where y: "f x d lg = Inr (y, lg1)"
    using Cons.prems(1) by (auto simp: bindV_eq_Inr)
  obtain zs where zs: "mapV f xs d lg1 = Inr (zs, lg')" "ys = y # zs"
    using Cons.prems(1) y by (auto simp: bindV_eq_Inr run_simps)
  obtain e where e: "lg1 = lg @ [e]" "Q x e y" using Cons.prems(2) [OF _ y] by auto
  obtain es where es: "lg' = lg1 @ es" "length es = length xs" "length zs = length xs"
      "\<forall>i < length xs. Q (xs ! i) (es ! i) (zs ! i)"
    using Cons.IH [OF zs(1)] Cons.prems(2) by (metis list.set_intros(2))
  have "\<forall>i < length (x # xs). Q ((x # xs) ! i) ((e # es) ! i) (ys ! i)"
    using e(2) es(4) zs(2) by (auto simp: nth_Cons split: nat.split)
  then show ?case using e(1) es zs(2) by (intro exI [of _ "e # es"]) simp
qed (simp add: run_simps)

lemma forV_eq: "forV xs f d lg = Inr (u, lg') \<longleftrightarrow> (\<exists>us. mapV f xs d lg = Inr (us, lg'))"
  by (auto simp: forV_def bindV_eq_Inr run_simps)

section \<open>The contract\<close>

text \<open>A driver that reports success has written a handle that is not null.\<close>

definition nonnull :: "driver \<Rightarrow> bool" where
  "nonnull d = (\<forall>lg c. result_of d lg c = VK_SUCCESS \<longrightarrow> handle_of d lg c \<noteq> VK_NULL_HANDLE)"

text \<open>Sequences of operations, each allowed where it is called.\<close>

inductive op_runs :: "('op \<Rightarrow> 's \<Rightarrow> 's vk) \<Rightarrow> ('op \<Rightarrow> 's \<Rightarrow> bool) \<Rightarrow> driver \<Rightarrow> 's \<Rightarrow> event list \<Rightarrow> 's \<Rightarrow> event list \<Rightarrow> bool"
  for step pre d s lg where
  runs_refl: "op_runs step pre d s lg s lg"
| runs_step: "op_runs step pre d s lg s' lg' \<Longrightarrow> pre op s' \<Longrightarrow> step op s' d lg' = Inr (s'', lg'') \<Longrightarrow>
    op_runs step pre d s lg s'' lg''"

locale vk_owner =
  fixes made :: "event \<Rightarrow> handle option"
    and freed :: "event \<Rightarrow> handle option"
    and live :: "'s \<Rightarrow> handle multiset"
    and ok :: "'s \<Rightarrow> bool"
    and pre :: "'op \<Rightarrow> 's \<Rightarrow> bool"
    and step :: "'op \<Rightarrow> 's \<Rightarrow> 's vk"
  assumes step_owns: "nonnull d \<Longrightarrow> ok s \<Longrightarrow> pre op s \<Longrightarrow> step op s d lg = Inr (s', lg') \<Longrightarrow>
    ok s' \<and> (\<exists>es. lg' = lg @ es \<and> owns made freed es (live s) (live s'))"
begin

lemma runs_own:
  assumes "op_runs step pre d s lg s' lg'" and "nonnull d" and "ok s"
  shows "ok s' \<and> (\<exists>es. lg' = lg @ es \<and> owns made freed es (live s) (live s'))"
  using assms
proof (induction rule: op_runs.induct)
  case runs_refl
  then show ?case by simp
next
  case (runs_step s1 lg1 op s2 lg2)
  then obtain es where es: "lg1 = lg @ es" "owns made freed es (live s) (live s1)" "ok s1" by blast
  from step_owns [OF runs_step.prems(1) es(3) runs_step.hyps(2,3)]
  obtain fs where "ok s2" "lg2 = lg1 @ fs" "owns made freed fs (live s1) (live s2)" by blast
  then show ?case using es owns_append by (metis append_assoc)
qed

lemma all_freed:
  assumes "op_runs step pre d s [] s' lg'" and "nonnull d" and "ok s" and "live s = {#}" and "live s' = {#}"
  shows "gathered made lg' = gathered freed lg'"
  using runs_own [OF assms(1-3)] assms(4,5) by (simp add: owns_def)

lemma never_freed_twice:
  assumes "op_runs step pre d s [] s' lg'" and "nonnull d" and "ok s" and "live s = {#}"
  shows "gathered freed (take n lg') \<subseteq># gathered made (take n lg')"
  using runs_own [OF assms(1-3)] assms(4) by (simp add: owns_def)

end

end
