(* ===== verification/VkSwapRun.thy ===== *)
theory VkSwapRun
  imports VkSwapChain VkOwner
begin

text \<open>
  The swap chain class keeps the contract of an owner for its three kinds of objects, picks the
  right queue family, and asks for a swap chain that the surface supports.
\<close>

section \<open>The calls of its operations\<close>

lemma destroy_views_InrD:
  assumes "destroy_views C d lg = Inr (u, lg')"
  shows "unat (imageCount C) \<le> length (buffers C) \<and>
    (\<exists>es. lg' = lg @ es \<and>
      list_all2 (\<lambda>e b. fst e = DestroyImageView (sc_device C) (snd b)) es (take (unat (imageCount C)) (buffers C)))"
proof -
  let ?n = "unat (imageCount C)"
  obtain us where us: "mapV (\<lambda>i. bindV (indexV (buffers C) i) (\<lambda>b. doV (DestroyImageView (sc_device C) (snd b))))
      [0 ..< ?n] d lg = Inr (us, lg')"
    using assms unfolding destroy_views_def forV_eq by blast
  have "\<exists>es. lg' = lg @ es \<and> length es = length [0 ..< ?n] \<and> length us = length [0 ..< ?n] \<and>
      (\<forall>i < length [0 ..< ?n]. [0 ..< ?n] ! i < length (buffers C) \<and>
        fst (es ! i) = DestroyImageView (sc_device C) (snd (buffers C ! ([0 ..< ?n] ! i))))"
    by (rule mapV_events [OF us]) (auto simp: bindV_eq_Inr index_eq do_eq split: if_splits)
  then obtain es where es: "lg' = lg @ es" "length es = ?n"
      "\<forall>i < ?n. i < length (buffers C) \<and> fst (es ! i) = DestroyImageView (sc_device C) (snd (buffers C ! i))"
    by auto
  have n: "?n \<le> length (buffers C)" using es(3) by (meson leI order_less_irrefl)
  then show ?thesis using es by (auto simp: list_all2_conv_all_nth)
qed

lemma take_overwrite: "length ys \<le> length xs \<Longrightarrow> take (length ys) (overwrite xs ys) = ys"
  by (simp add: overwrite_def)

lemma length_overwrite [simp]: "length (overwrite xs ys) = length xs"
  by (auto simp: overwrite_def)

lemma length_resize [simp]: "length (resize n x xs) = n"
  by (simp add: resize_def)

lemma make_buffers_InrD:
  assumes "make_buffers C d lg = Inr (C', lg')"
  shows "\<exists>n imgs bs r1 r2 h1 h2 es.
    C' = C\<lparr>imageCount := n, images := imgs, buffers := bs\<rparr> \<and> unat n \<le> length bs \<and>
    lg' = lg @ [(SwapchainImageCount (sc_device C) (swapChain C), r1, h1),
      (SwapchainImages (sc_device C) (swapChain C), r2, h2)] @ es \<and>
    list_all2 (\<lambda>e b. e = (CreateImageView (sc_device C) (color_view (colorFormat C) (fst b)), VK_SUCCESS, snd b))
      es (take (unat n) bs)"
proof -
  let ?c1 = "SwapchainImageCount (sc_device C) (swapChain C)"
  let ?c2 = "SwapchainImages (sc_device C) (swapChain C)"
  define lg1 where "lg1 = lg @ [(?c1, result_of d lg ?c1, handle_of d lg ?c1)]"
  define lg2 where "lg2 = lg1 @ [(?c2, result_of d lg1 ?c2, handle_of d lg1 ?c2)]"
  define m where "m = count_of d lg ?c1"
  define l where "l = handles_of d lg1 ?c2"
  define n where "n = written_count m l"
  define imgs where "imgs = overwrite (resize (unat m) 0 (images C)) l"
  let ?f = "\<lambda>i. bindV (indexV imgs i) (\<lambda>img.
      bindV (VK_CHECK_RESULT (CreateImageView (sc_device C) (color_view (colorFormat C) img))) (\<lambda>v. retV (img, v)))"
  obtain bs where bs: "mapV ?f [0 ..< unat n] d lg2 = Inr (bs, lg')"
      "C' = C\<lparr>imageCount := n, images := imgs, buffers := overwrite (resize (unat n) (0, 0) (buffers C)) bs\<rparr>"
    using assms
    by (auto simp: make_buffers_def bindV_eq_Inr checked_query_eq run_simps Let_def lg1_def lg2_def m_def l_def n_def imgs_def
        split: if_splits)
  have "\<exists>es. lg' = lg2 @ es \<and> length es = length [0 ..< unat n] \<and> length bs = length [0 ..< unat n] \<and>
      (\<forall>i < length [0 ..< unat n]. es ! i =
        (CreateImageView (sc_device C) (color_view (colorFormat C) (fst (bs ! i))), VK_SUCCESS, snd (bs ! i)))"
    by (rule mapV_events [OF bs(1)]) (auto simp: bindV_eq_Inr index_eq check_eq run_simps split: if_splits)
  then obtain es where es: "lg' = lg2 @ es" "length es = unat n" "length bs = unat n"
      "\<forall>i < unat n. es ! i =
        (CreateImageView (sc_device C) (color_view (colorFormat C) (fst (bs ! i))), VK_SUCCESS, snd (bs ! i))"
    by auto
  have t: "take (unat n) (overwrite (resize (unat n) (0, 0) (buffers C)) bs) = bs"
    using take_overwrite [of bs "resize (unat n) (0, 0) (buffers C)"] es(3) by simp
  have "list_all2 (\<lambda>e b. e = (CreateImageView (sc_device C) (color_view (colorFormat C) (fst b)), VK_SUCCESS, snd b)) es bs"
    using es by (auto simp: list_all2_conv_all_nth)
  then show ?thesis using bs(2) es(1,3) t unfolding lg2_def lg1_def
    by (intro exI [of _ n] exI [of _ imgs] exI [of _ "overwrite (resize (unat n) (0, 0) (buffers C)) bs"]) auto
qed


text \<open>The views a swap chain object holds, and the calls that release them.\<close>

definition held_views :: "swap_chain \<Rightarrow> handle list" where
  "held_views C = (if swapChain C \<noteq> VK_NULL_HANDLE then map snd (take (unat (imageCount C)) (buffers C)) else [])"

definition releases_views :: "swap_chain \<Rightarrow> event list \<Rightarrow> bool" where
  "releases_views C es = list_all2 (\<lambda>e v. fst e = DestroyImageView (sc_device C) v) es (held_views C)"

lemma destroy_views_held:
  assumes "(if swapChain C \<noteq> VK_NULL_HANDLE then destroy_views C else retV ()) d lg = Inr (u, lg')"
  shows "\<exists>es. lg' = lg @ es \<and> releases_views C es"
proof (cases "swapChain C = VK_NULL_HANDLE")
  case True
  then show ?thesis using assms by (simp add: run_simps releases_views_def held_views_def)
next
  case False
  then show ?thesis using destroy_views_InrD [of C d lg u lg'] assms
    by (auto simp: releases_views_def held_views_def list.rel_map)
qed

text \<open>Everything \<open>create\<close> does: three queries, the new swap chain, the old one released, the views made.\<close>

lemma create_InrD:
  assumes "create C width height vsync d lg = Inr ((C', w, h), lg')"
  shows "\<exists>caps n l sc q1 q2 q3 es1 old q4 q5 es2.
    caps = caps_of d lg (SurfaceCapabilities (sc_physical C) (surface C)) \<and> 0 < n \<and>
    lg' = lg @ [(SurfaceCapabilities (sc_physical C) (surface C), q1), (PresentModeCount (sc_physical C) (surface C), q2),
        (PresentModes (sc_physical C) (surface C), q3),
        (CreateSwapchain (sc_device C) (swapchain_create_info C caps
           (take (unat (written_count n l)) (filled_array n 0 l)) width height vsync), VK_SUCCESS, sc)] @
      es1 @ old @ [(SwapchainImageCount (sc_device C) sc, q4), (SwapchainImages (sc_device C) sc, q5)] @ es2 \<and>
    releases_views C es1 \<and>
    list_all2 (\<lambda>e c. fst e = c) old
      (if swapChain C \<noteq> VK_NULL_HANDLE then [DestroySwapchain (sc_device C) (swapChain C)] else []) \<and>
    list_all2 (\<lambda>e b. e = (CreateImageView (sc_device C) (color_view (colorFormat C) (fst b)), VK_SUCCESS, snd b))
      es2 (take (unat (imageCount C')) (buffers C')) \<and>
    unat (imageCount C') \<le> length (buffers C') \<and> swapChain C' = sc \<and> surface C' = surface C \<and>
    sc_device C' = sc_device C \<and> sc_instance C' = sc_instance C \<and> sc_physical C' = sc_physical C \<and>
    (nonnull d \<longrightarrow> sc \<noteq> VK_NULL_HANDLE)"
proof -
  let ?q1 = "SurfaceCapabilities (sc_physical C) (surface C)"
  let ?q2 = "PresentModeCount (sc_physical C) (surface C)"
  let ?q3 = "PresentModes (sc_physical C) (surface C)"
  define caps where "caps = caps_of d lg ?q1"
  define lg1 where "lg1 = lg @ [(?q1, result_of d lg ?q1, handle_of d lg ?q1)]"
  define n where "n = count_of d lg1 ?q2"
  define lg2 where "lg2 = lg1 @ [(?q2, result_of d lg1 ?q2, handle_of d lg1 ?q2)]"
  define l where "l = words_of d lg2 ?q3"
  define lg3 where "lg3 = lg2 @ [(?q3, result_of d lg2 ?q3, handle_of d lg2 ?q3)]"
  let ?c = "CreateSwapchain (sc_device C) (swapchain_create_info C caps
      (take (unat (written_count n l)) (filled_array n 0 l)) width height vsync)"
  define sc where "sc = handle_of d lg3 ?c"
  let ?rel = "thenV (destroy_views C) (doV (DestroySwapchain (sc_device C) (swapChain C)))"
  obtain lg5 C1 where 1: "(if swapChain C \<noteq> VK_NULL_HANDLE then ?rel else retV ()) d (lg3 @ [(?c, VK_SUCCESS, sc)]) = Inr ((), lg5)"
      and 2: "make_buffers (C\<lparr>swapChain := sc\<rparr>) d lg5 = Inr (C1, lg')" and "C' = C1" and n: "0 < n"
      and rs: "result_of d lg3 ?c = VK_SUCCESS"
    using assms
    by (auto simp: create_def bindV_eq_Inr checked_query_eq run_simps assert_eq check_eq Let_def caps_def lg1_def n_def
        lg2_def l_def lg3_def sc_def split: if_splits)
  obtain es1 old where r: "lg5 = lg3 @ [(?c, VK_SUCCESS, sc)] @ es1 @ old" "releases_views C es1"
      "list_all2 (\<lambda>e c. fst e = c) old
        (if swapChain C \<noteq> VK_NULL_HANDLE then [DestroySwapchain (sc_device C) (swapChain C)] else [])"
  proof (cases "swapChain C = VK_NULL_HANDLE")
    case True
    then show thesis using 1 that [of "[]" "[]"] by (simp add: run_simps releases_views_def held_views_def)
  next
    case False
    then obtain lg4 where 3: "destroy_views C d (lg3 @ [(?c, VK_SUCCESS, sc)]) = Inr ((), lg4)"
        "doV (DestroySwapchain (sc_device C) (swapChain C)) d lg4 = Inr ((), lg5)"
      using 1 by (auto simp: run_simps bindV_eq_Inr)
    have "(if swapChain C \<noteq> VK_NULL_HANDLE then destroy_views C else retV ()) d (lg3 @ [(?c, VK_SUCCESS, sc)]) = Inr ((), lg4)"
      using 3(1) False by (simp only: if_True not_False_eq_True)
    from destroy_views_held [OF this]
    obtain es where es: "lg4 = (lg3 @ [(?c, VK_SUCCESS, sc)]) @ es" "releases_views C es"
      by (elim exE conjE)
    obtain e where "lg5 = lg4 @ [e]" "fst e = DestroySwapchain (sc_device C) (swapChain C)"
      using 3(2) by (auto simp: do_eq)
    then show thesis using es False that [of es "[e]"] by (simp only: append_assoc) simp
  qed
  obtain k imgs bs r1 r2 h1 h2 es2 where m: "C1 = C\<lparr>swapChain := sc, imageCount := k, images := imgs, buffers := bs\<rparr>"
      "unat k \<le> length bs"
      "lg' = lg5 @ [(SwapchainImageCount (sc_device C) sc, r1, h1), (SwapchainImages (sc_device C) sc, r2, h2)] @ es2"
      "list_all2 (\<lambda>e b. e = (CreateImageView (sc_device C) (color_view (colorFormat C) (fst b)), VK_SUCCESS, snd b))
        es2 (take (unat k) bs)"
    using make_buffers_InrD [OF 2] by auto
  have C': "C' = C\<lparr>swapChain := sc, imageCount := k, images := imgs, buffers := bs\<rparr>" using m(1) \<open>C' = C1\<close> by simp
  have L: "lg' = lg @ [(?q1, result_of d lg ?q1, handle_of d lg ?q1), (?q2, result_of d lg1 ?q2, handle_of d lg1 ?q2),
      (?q3, result_of d lg2 ?q3, handle_of d lg2 ?q3), (?c, VK_SUCCESS, sc)] @ es1 @ old @
      [(SwapchainImageCount (sc_device C) sc, r1, h1), (SwapchainImages (sc_device C) sc, r2, h2)] @ es2"
    unfolding m(3) r(1) lg3_def lg2_def lg1_def append_assoc append_Cons append_Nil by (rule refl)
  have V: "list_all2 (\<lambda>e b. e = (CreateImageView (sc_device C) (color_view (colorFormat C) (fst b)), VK_SUCCESS, snd b))
      es2 (take (unat (imageCount C')) (buffers C'))"
    unfolding C' using m(4) by simp
  have N: "nonnull d \<longrightarrow> sc \<noteq> VK_NULL_HANDLE" using rs by (simp add: nonnull_def sc_def)
  show ?thesis
    by (rule exI [of _ caps], rule exI [of _ n], rule exI [of _ l], rule exI [of _ sc], rule exI, rule exI, rule exI,
        rule exI [of _ es1], rule exI [of _ old], rule exI, rule exI, rule exI [of _ es2],
        intro conjI, rule caps_def, rule n, rule L, rule r(2), rule r(3), rule V) (simp_all add: C' m(2) N)
qed

lemma cleanup_InrD:
  assumes "cleanup C d lg = Inr (C', lg')"
  shows "C' = C\<lparr>surface := VK_NULL_HANDLE, swapChain := VK_NULL_HANDLE\<rparr> \<and>
    (\<exists>es1 es2. lg' = lg @ es1 @ es2 \<and> releases_views C es1 \<and>
      list_all2 (\<lambda>e c. fst e = c) es2
        (if surface C \<noteq> VK_NULL_HANDLE
         then [DestroySwapchain (sc_device C) (swapChain C), DestroySurface (sc_instance C) (surface C)] else []))"
proof -
  obtain lg1 where 1: "(if swapChain C \<noteq> VK_NULL_HANDLE then destroy_views C else retV ()) d lg = Inr ((), lg1)"
      and 2: "(if surface C \<noteq> VK_NULL_HANDLE then thenV (doV (DestroySwapchain (sc_device C) (swapChain C)))
          (doV (DestroySurface (sc_instance C) (surface C))) else retV ()) d lg1 = Inr ((), lg')"
      and c: "C' = C\<lparr>surface := VK_NULL_HANDLE, swapChain := VK_NULL_HANDLE\<rparr>"
    using assms by (auto simp: cleanup_def run_simps bindV_eq_Inr simp del: if_split split del: if_split)
  obtain es1 where es1: "lg1 = lg @ es1" "releases_views C es1" using destroy_views_held [OF 1] by blast
  have "\<exists>es2. lg' = lg1 @ es2 \<and> list_all2 (\<lambda>e c. fst e = c) es2
      (if surface C \<noteq> VK_NULL_HANDLE
       then [DestroySwapchain (sc_device C) (swapChain C), DestroySurface (sc_instance C) (surface C)] else [])"
    using 2 by (auto simp: run_simps bindV_eq_Inr do_eq split: if_splits)
  with es1 c show ?thesis by (simp only: append_assoc) blast
qed


definition surface_queries :: "handle \<Rightarrow> handle \<Rightarrow> vk_call set" where
  "surface_queries pd surf = {QueueFamilyCount pd, QueueFamilyProperties pd, SurfaceFormatCount pd surf, SurfaceFormats pd surf} \<union>
     range (\<lambda>i. SurfaceSupport pd i surf)"

lemma supports_InrD:
  assumes "mapV (\<lambda>i. surface_support pd surf (of_nat i)) [0 ..< m] d lg = Inr (ys, lg')"
  shows "length ys = m \<and> (\<exists>es. lg' = lg @ es \<and> fst ` set es \<subseteq> surface_queries pd surf)"
proof -
  have "\<exists>es. lg' = lg @ es \<and> length es = length [0 ..< m] \<and> length ys = length [0 ..< m] \<and>
      (\<forall>i < length [0 ..< m]. fst (es ! i) \<in> surface_queries pd surf)"
    by (rule mapV_events [OF assms]) (auto simp: surface_support_def query_eq surface_queries_def)
  then obtain es where es: "lg' = lg @ es" "length es = m" "length ys = m"
      "\<forall>i < m. fst (es ! i) \<in> surface_queries pd surf" by auto
  have "fst ` set es \<subseteq> surface_queries pd surf"
    using es by (metis (no_types, lifting) image_subsetI in_set_conv_nth)
  then show ?thesis using es by blast
qed

lemma select_queue_log: "select_queue qs d lg = Inr (g, lg') \<Longrightarrow> lg' = lg"
  by (auto simp: select_queue_def run_simps Let_def split: prod.splits if_splits)

lemma select_format_log: "select_format n fs d lg = Inr (f, lg') \<Longrightarrow> lg' = lg"
  by (auto simp: select_format_def bindV_eq_Inr run_simps index_eq split: if_splits option.splits)

lemma initSurface_InrD:
  assumes "initSurface C connection window d lg = Inr (C', lg')"
  shows "\<exists>surf node fmt space es. C' = C\<lparr>surface := surf, queueNodeIndex := node, colorFormat := fmt, colorSpace := space\<rparr> \<and>
    lg' = lg @ (CreateXcbSurface (sc_instance C) connection window, VK_SUCCESS, surf) # es \<and>
    fst ` set es \<subseteq> surface_queries (sc_physical C) surf"
proof -
  let ?pd = "sc_physical C"
  let ?c = "CreateXcbSurface (sc_instance C) connection window"
  define surf where "surf = handle_of d lg ?c"
  define lg1 where "lg1 = lg @ [(?c, VK_SUCCESS, surf)]"
  have r: "result_of d lg ?c = VK_SUCCESS"
    using assms by (auto simp: initSurface_def bindV_def run_simps split: if_splits)
  obtain e1 e2 where e: "fst e1 = QueueFamilyCount ?pd" "fst e2 = QueueFamilyProperties ?pd"
    and "\<exists>n l. bindV (mapV (\<lambda>i. surface_support ?pd surf (of_nat i)) [0 ..< unat (written_count n l)]) (\<lambda>supports.
        bindV (select_queue (zip (filled_array n 0 l) supports)) (\<lambda>node.
        bindV (checked_query count_of (SurfaceFormatCount ?pd surf)) (\<lambda>fn.
        thenV (assertV (0 < fn)) (
        bindV (checked_query pairs_of (SurfaceFormats ?pd surf)) (\<lambda>fl.
        bindV (select_format (written_count fn fl) (filled_array fn (0, 0) fl)) (\<lambda>(fmt, space).
          retV (C\<lparr>surface := surf, queueNodeIndex := node, colorFormat := fmt, colorSpace := space\<rparr>)))))))
        d (lg1 @ [e1, e2]) = Inr (C', lg')"
    using assms r unfolding initSurface_def
    by (simp add: bindV_def [of "callV c" for c] bindV_def [of "queryV q c" for q c] bindV_def [of "assertV b" for b] run_simps
        query_eq assert_eq surf_def lg1_def Let_def split: if_splits) force
  then obtain n l where run: "bindV (mapV (\<lambda>i. surface_support ?pd surf (of_nat i)) [0 ..< unat (written_count n l)]) (\<lambda>supports.
        bindV (select_queue (zip (filled_array n 0 l) supports)) (\<lambda>node.
        bindV (checked_query count_of (SurfaceFormatCount ?pd surf)) (\<lambda>fn.
        thenV (assertV (0 < fn)) (
        bindV (checked_query pairs_of (SurfaceFormats ?pd surf)) (\<lambda>fl.
        bindV (select_format (written_count fn fl) (filled_array fn (0, 0) fl)) (\<lambda>(fmt, space).
          retV (C\<lparr>surface := surf, queueNodeIndex := node, colorFormat := fmt, colorSpace := space\<rparr>)))))))
        d (lg1 @ [e1, e2]) = Inr (C', lg')" by blast
  then obtain supports lg2 where s: "mapV (\<lambda>i. surface_support ?pd surf (of_nat i)) [0 ..< unat (written_count n l)] d (lg1 @ [e1, e2])
      = Inr (supports, lg2)"
    by (auto simp: bindV_eq_Inr)
  obtain es where es: "lg2 = lg1 @ [e1, e2] @ es" "fst ` set es \<subseteq> surface_queries ?pd surf"
    using supports_InrD [OF s] by auto
  obtain node lg3 fn fl fmt space e3 e4 where
      "select_queue (zip (filled_array n 0 l) supports) d lg2 = Inr (node, lg3)"
      "fst e3 = SurfaceFormatCount ?pd surf" "fst e4 = SurfaceFormats ?pd surf"
      "select_format (written_count fn fl) (filled_array fn (0, 0) fl) d (lg3 @ [e3, e4]) = Inr ((fmt, space), lg')"
      "C' = C\<lparr>surface := surf, queueNodeIndex := node, colorFormat := fmt, colorSpace := space\<rparr>"
    using run s by (auto simp: bindV_eq_Inr checked_query_eq run_simps assert_eq split: if_splits)
  then have "lg' = lg1 @ [e1, e2] @ es @ [e3, e4]" "C' = C\<lparr>surface := surf, queueNodeIndex := node, colorFormat := fmt, colorSpace := space\<rparr>"
      "fst ` set ([e1, e2] @ es @ [e3, e4]) \<subseteq> surface_queries ?pd surf"
    using es e by (auto dest!: select_queue_log select_format_log simp: surface_queries_def)
  then show ?thesis unfolding lg1_def
    by (intro exI [of _ surf] exI [of _ node] exI [of _ fmt] exI [of _ space] exI [of _ "[e1, e2] @ es @ [e3, e4]"]) simp
qed

end
