(* ===== verification/VkSwapOwner.thy ===== *)
theory VkSwapOwner
  imports VkSwapRun
begin

text \<open>
  The swap chain object as an owner: its surface, its swap chain and its image views. The program calls
  the operations in an order where \<open>initSurface\<close> finds no surface and \<open>create\<close> finds one.
\<close>

datatype swap_op =
    InitSurface handle u32
  | Create u32 u32 bool
  | Acquire handle
  | Present handle u32 handle
  | Cleanup

fun swap_step :: "swap_op \<Rightarrow> swap_chain \<Rightarrow> swap_chain vk" where
  "swap_step (InitSurface connection window) C = initSurface C connection window"
| "swap_step (Create width height vsync) C = bindV (create C width height vsync) (\<lambda>(C', _, _). retV C')"
| "swap_step (Acquire semaphore) C = bindV (acquireNextImage C semaphore) (\<lambda>_. retV C)"
| "swap_step (Present queue i semaphore) C = bindV (queuePresent C queue i semaphore) (\<lambda>_. retV C)"
| "swap_step Cleanup C = cleanup C"

fun swap_pre :: "swap_op \<Rightarrow> swap_chain \<Rightarrow> bool" where
  "swap_pre (InitSurface _ _) C = (surface C = VK_NULL_HANDLE)"
| "swap_pre (Create _ _ _) C = (surface C \<noteq> VK_NULL_HANDLE)"
| "swap_pre _ C = True"

text \<open>The invariant of the object: a swap chain has a surface, and a buffer for each of its images.\<close>

definition swap_ok :: "swap_chain \<Rightarrow> bool" where
  "swap_ok C = (swapChain C \<noteq> VK_NULL_HANDLE \<longrightarrow> surface C \<noteq> VK_NULL_HANDLE \<and> unat (imageCount C) \<le> length (buffers C))"

section \<open>What makes and frees each kind of object\<close>

text \<open>Destroying the null handle does nothing, as Vulkan has it.\<close>

definition makes_view :: "vk_call \<Rightarrow> bool" where
  [simp]: "makes_view c = (case c of CreateImageView _ _ \<Rightarrow> True | _ \<Rightarrow> False)"

definition frees_view :: "vk_call \<Rightarrow> handle option" where
  [simp]: "frees_view c = (case c of DestroyImageView _ v \<Rightarrow> Some v | _ \<Rightarrow> None)"

definition makes_chain :: "vk_call \<Rightarrow> bool" where
  [simp]: "makes_chain c = (case c of CreateSwapchain _ _ \<Rightarrow> True | _ \<Rightarrow> False)"

definition frees_chain :: "vk_call \<Rightarrow> handle option" where
  [simp]: "frees_chain c = (case c of DestroySwapchain _ sc \<Rightarrow> Some sc | _ \<Rightarrow> None)"

definition makes_surface :: "vk_call \<Rightarrow> bool" where
  [simp]: "makes_surface c = (case c of CreateXcbSurface _ _ _ \<Rightarrow> True | _ \<Rightarrow> False)"

definition frees_surface :: "vk_call \<Rightarrow> handle option" where
  [simp]: "frees_surface c = (case c of DestroySurface _ s \<Rightarrow> Some s | _ \<Rightarrow> None)"




lemma surface_queries_neutral:
  assumes "fst ` set es \<subseteq> surface_queries pd surf"
  shows "\<forall>e \<in> set es. \<not> makes_view (fst e) \<and> frees_view (fst e) = None"
    and "\<forall>e \<in> set es. \<not> makes_chain (fst e) \<and> frees_chain (fst e) = None"
    and "\<forall>e \<in> set es. \<not> makes_surface (fst e) \<and> frees_surface (fst e) = None"
  using assms by (auto simp: surface_queries_def)

section \<open>Each operation keeps the balance\<close>

lemma owns_append3:
  "owns made freed es A B \<Longrightarrow> owns made freed fs B C \<Longrightarrow> owns made freed gs C D \<Longrightarrow> owns made freed (es @ fs @ gs) A D"
  by (intro owns_append)

abbreviation view_balance :: "event list \<Rightarrow> swap_chain \<Rightarrow> swap_chain \<Rightarrow> bool" where
  "view_balance es C C' \<equiv> owns (made_by makes_view) (freed_by frees_view) es (objects (held_views C)) (objects (held_views C'))"

abbreviation chain_balance :: "event list \<Rightarrow> swap_chain \<Rightarrow> swap_chain \<Rightarrow> bool" where
  "chain_balance es C C' \<equiv> owns (made_by makes_chain) (freed_by frees_chain) es (objects [swapChain C]) (objects [swapChain C'])"

abbreviation surface_balance :: "event list \<Rightarrow> swap_chain \<Rightarrow> swap_chain \<Rightarrow> bool" where
  "surface_balance es C C' \<equiv> owns (made_by makes_surface) (freed_by frees_surface) es (objects [surface C]) (objects [surface C'])"

definition balanced :: "event list \<Rightarrow> swap_chain \<Rightarrow> swap_chain \<Rightarrow> bool" where
  "balanced es C C' = (view_balance es C C' \<and> chain_balance es C C' \<and> surface_balance es C C')"

lemma releases_views_kinds:
  assumes "releases_views C es"
  shows "owns (made_by makes_view) (freed_by frees_view) es (objects (held_views C)) {#}"
    and "owns (made_by makes_chain) (freed_by frees_chain) es A A"
    and "owns (made_by makes_surface) (freed_by frees_surface) es B B"
proof -
  have l: "list_all2 (\<lambda>e v. fst e = DestroyImageView (sc_device C) v) es (held_views C)"
    using assms by (simp add: releases_views_def)
  then have e: "\<forall>e \<in> set es. \<exists>v. fst e = DestroyImageView (sc_device C) v"
    using list_all2_left by fastforce
  have "list_all2 (\<lambda>e v. frees_view (fst e) = Some v) es (held_views C)"
    using l by (rule list_all2_mono) simp
  moreover have "\<forall>e \<in> set es. \<not> makes_view (fst e)" using e by auto
  ultimately show "owns (made_by makes_view) (freed_by frees_view) es (objects (held_views C)) {#}"
    using owns_frees [of frees_view es "held_views C" makes_view "{#}"] by simp
  show "owns (made_by makes_chain) (freed_by frees_chain) es A A" using e by (intro owns_neither) auto
  show "owns (made_by makes_surface) (freed_by frees_surface) es B B" using e by (intro owns_neither) auto
qed

lemma initSurface_balance:
  assumes "initSurface C connection window d lg = Inr (C', lg')" and "surface C = VK_NULL_HANDLE" and "swap_ok C"
  shows "swap_ok C' \<and> (\<exists>es. lg' = lg @ es \<and> balanced es C C')"
proof -
  let ?c = "CreateXcbSurface (sc_instance C) connection window"
  obtain surf node fmt space es where s: "C' = C\<lparr>surface := surf, queueNodeIndex := node, colorFormat := fmt, colorSpace := space\<rparr>"
      "lg' = lg @ (?c, VK_SUCCESS, surf) # es" "fst ` set es \<subseteq> surface_queries (sc_physical C) surf"
    using initSurface_InrD [OF assms(1)] by blast
  have "swapChain C = VK_NULL_HANDLE" using assms(2,3) by (auto simp: swap_ok_def)
  then have "swap_ok C'" "held_views C' = held_views C" "swapChain C' = swapChain C"
    using s(1) by (simp_all add: swap_ok_def held_views_def)
  moreover note q = surface_queries_neutral [OF s(3)]
  have "surface_balance ((?c, VK_SUCCESS, surf) # es) C C'"
    using s(1) assms(2) owns_make [of makes_surface ?c frees_surface es "{#}" surf "objects [surf]"]
      owns_neither [OF q(3)] by simp
  moreover have "owns (made_by makes_view) (freed_by frees_view) ((?c, VK_SUCCESS, surf) # es) A A" for A
    by (rule owns_skip) (simp_all add: owns_neither [OF q(1)])
  moreover have "owns (made_by makes_chain) (freed_by frees_chain) ((?c, VK_SUCCESS, surf) # es) A A" for A
    by (rule owns_skip) (simp_all add: owns_neither [OF q(2)])
  ultimately have "swap_ok C'" "balanced ((?c, VK_SUCCESS, surf) # es) C C'"
    unfolding balanced_def by (simp_all only: simp_thms)
  then show ?thesis using s(2) \<open>swap_ok C'\<close> by blast
qed

lemma cleanup_balance:
  assumes "cleanup C d lg = Inr (C', lg')" and "swap_ok C"
  shows "swap_ok C' \<and> (\<exists>es. lg' = lg @ es \<and> balanced es C C')"
proof -
  let ?cs = "if surface C \<noteq> VK_NULL_HANDLE
      then [DestroySwapchain (sc_device C) (swapChain C), DestroySurface (sc_instance C) (surface C)] else []"
  obtain es1 es2 where c: "C' = C\<lparr>surface := VK_NULL_HANDLE, swapChain := VK_NULL_HANDLE\<rparr>" "lg' = lg @ es1 @ es2"
      "releases_views C es1" "list_all2 (\<lambda>e c. fst e = c) es2 ?cs"
    using cleanup_InrD [OF assms(1)] by blast
  have empty: "held_views C' = []" "swapChain C' = VK_NULL_HANDLE" "surface C' = VK_NULL_HANDLE" "swap_ok C'"
    using c(1) by (simp_all add: held_views_def swap_ok_def)
  have "owns (made_by makes_view) (freed_by frees_view) es2 {#} {#} \<and>
      owns (made_by makes_chain) (freed_by frees_chain) es2 (objects [swapChain C]) {#} \<and>
      owns (made_by makes_surface) (freed_by frees_surface) es2 (objects [surface C]) {#}"
  proof (cases "surface C = VK_NULL_HANDLE")
    case True
    then show ?thesis using c(4) assms(2) by (auto simp: swap_ok_def)
  next
    case False
    obtain r1 r2 where es2: "es2 = [(DestroySwapchain (sc_device C) (swapChain C), r1), (DestroySurface (sc_instance C) (surface C), r2)]"
      using c(4) False by (auto simp: list_all2_Cons2)
    have "owns (made_by makes_view) (freed_by frees_view) es2 {#} {#}"
      unfolding es2 by (intro owns_skip) simp_all
    moreover have "owns (made_by makes_chain) (freed_by frees_chain) es2 ({#} + objects [swapChain C]) {#}"
      unfolding es2 by (intro owns_free owns_skip) simp_all
    moreover have "owns (made_by makes_surface) (freed_by frees_surface) es2 ({#} + objects [surface C]) {#}"
      unfolding es2 by (intro owns_free owns_skip) simp_all
    ultimately show ?thesis by (simp del: objects_simps)
  qed
  then have v: "owns (made_by makes_view) (freed_by frees_view) es2 {#} {#}"
    and sc: "owns (made_by makes_chain) (freed_by frees_chain) es2 (objects [swapChain C]) {#}"
    and sf: "owns (made_by makes_surface) (freed_by frees_surface) es2 (objects [surface C]) {#}" by simp_all
  note r = releases_views_kinds [OF c(3)]
  have "balanced (es1 @ es2) C C'"
    unfolding balanced_def empty
    using owns_append [OF r(1) v] owns_append [OF r(2) sc] owns_append [OF r(3) sf] by simp
  then show ?thesis using c(2) empty(4) by blast
qed

lemma create_balance:
  assumes "create C width height vsync d lg = Inr ((C', w, h), lg')" and "nonnull d" and "surface C \<noteq> VK_NULL_HANDLE"
  shows "swap_ok C' \<and> (\<exists>es. lg' = lg @ es \<and> balanced es C C')"
proof -
  obtain q1 q2 q3 i sc es1 old q4 q5 es2 where c:
      "lg' = lg @ [(SurfaceCapabilities (sc_physical C) (surface C), q1), (PresentModeCount (sc_physical C) (surface C), q2),
        (PresentModes (sc_physical C) (surface C), q3), (CreateSwapchain (sc_device C) i, VK_SUCCESS, sc)] @
      es1 @ old @ [(SwapchainImageCount (sc_device C) sc, q4), (SwapchainImages (sc_device C) sc, q5)] @ es2"
      "releases_views C es1"
      "list_all2 (\<lambda>e c. fst e = c) old
        (if swapChain C \<noteq> VK_NULL_HANDLE then [DestroySwapchain (sc_device C) (swapChain C)] else [])"
      "list_all2 (\<lambda>e b. e = (CreateImageView (sc_device C) (color_view (colorFormat C) (fst b)), VK_SUCCESS, snd b))
        es2 (take (unat (imageCount C')) (buffers C'))"
      "unat (imageCount C') \<le> length (buffers C')" "swapChain C' = sc" "surface C' = surface C"
      "nonnull d \<longrightarrow> sc \<noteq> VK_NULL_HANDLE"
    using create_InrD [OF assms(1)] by (elim exE conjE) (erule that; assumption)
  let ?first = "[(SurfaceCapabilities (sc_physical C) (surface C), q1), (PresentModeCount (sc_physical C) (surface C), q2),
        (PresentModes (sc_physical C) (surface C), q3), (CreateSwapchain (sc_device C) i, VK_SUCCESS, sc)]"
  let ?count = "[(SwapchainImageCount (sc_device C) sc, q4), (SwapchainImages (sc_device C) sc, q5)]"
  have ok: "swap_ok C'" using assms(3) c(5,7) by (simp add: swap_ok_def)
  note r = releases_views_kinds [OF c(2)]
  have e2: "\<forall>e \<in> set es2. \<exists>v. fst e = CreateImageView (sc_device C) v"
    using list_all2_left [OF c(4)] by fastforce
  have olds: "old = [] \<or> (\<exists>r. old = [(DestroySwapchain (sc_device C) (swapChain C), r)])"
    using c(3) by (auto simp: list_all2_Cons2 split: if_splits)
  have "list_all2 (\<lambda>e v. makes_view (fst e) \<and> snd e = (VK_SUCCESS, v)) es2 (map snd (take (unat (imageCount C')) (buffers C')))"
    unfolding list.rel_map using c(4) by (rule list_all2_mono) simp
  moreover have "\<forall>e \<in> set es2. frees_view (fst e) = None" using e2 by fastforce
  ultimately have "owns (made_by makes_view) (freed_by frees_view) es2 {#} (objects (map snd (take (unat (imageCount C')) (buffers C'))))"
    using owns_makes [of makes_view es2 _ frees_view "{#}"] by simp
  moreover have "held_views C' = map snd (take (unat (imageCount C')) (buffers C'))"
    using c(6,8) assms(2) by (simp add: held_views_def)
  ultimately have V2: "owns (made_by makes_view) (freed_by frees_view) es2 {#} (objects (held_views C'))" by simp
  have "view_balance (?first @ es1 @ old @ ?count @ es2) C C'"
  proof -
    have "owns (made_by makes_view) (freed_by frees_view) old {#} {#}"
      using olds by (auto intro!: owns_skip)
    moreover have "owns (made_by makes_view) (freed_by frees_view) ?first A A" for A by (intro owns_neither) simp
    moreover have "owns (made_by makes_view) (freed_by frees_view) ?count {#} {#}" by (intro owns_neither) simp
    ultimately show ?thesis using V2 r(1) by (intro owns_append)
  qed
  moreover have "chain_balance (?first @ es1 @ old @ ?count @ es2) C C'"
  proof -
    have "owns (made_by makes_chain) (freed_by frees_chain) ?first (objects [swapChain C]) (objects [swapChain C] + objects [sc])"
      by (intro owns_skip owns_make) simp_all
    moreover have "owns (made_by makes_chain) (freed_by frees_chain) old (objects [sc] + objects [swapChain C]) (objects [sc])"
    proof (cases "swapChain C = VK_NULL_HANDLE")
      case False
      then obtain r where "old = [(DestroySwapchain (sc_device C) (swapChain C), r)]"
        using c(3) by (auto simp: list_all2_Cons2)
      then show ?thesis by (simp only:) (intro owns_free, simp_all)
    qed (use c(3) in simp)
    moreover have "owns (made_by makes_chain) (freed_by frees_chain) (?count @ es2) A A" for A
      using e2 by (intro owns_neither) fastforce
    ultimately show ?thesis unfolding c(6)
      by (metis (no_types, lifting) owns_append r(2) add.commute)
  qed
  moreover have "surface_balance (?first @ es1 @ old @ ?count @ es2) C C'"
  proof -
    have f: "owns (made_by makes_surface) (freed_by frees_surface) ?first A A" for A by (intro owns_neither) simp
    have o: "owns (made_by makes_surface) (freed_by frees_surface) old A A" for A
      using olds by (auto intro!: owns_skip)
    have t: "owns (made_by makes_surface) (freed_by frees_surface) (?count @ es2) A A" for A
      using e2 by (intro owns_neither) fastforce
    show ?thesis unfolding c(7) by (rule owns_append [OF f owns_append [OF r(3) owns_append [OF o t]]])
  qed
  ultimately show ?thesis using ok c(1) unfolding balanced_def by blast
qed

lemma swap_step_balance:
  assumes "nonnull d" and "swap_ok C" and "swap_pre op C" and "swap_step op C d lg = Inr (C', lg')"
  shows "swap_ok C' \<and> (\<exists>es. lg' = lg @ es \<and> balanced es C C')"
proof (cases op)
  case (InitSurface connection window)
  then show ?thesis using initSurface_balance assms by simp
next
  case (Create width height vsync)
  then show ?thesis using create_balance assms by (auto simp: bindV_eq_Inr run_simps)
next
  case (Acquire semaphore)
  then obtain e where "C' = C" "lg' = lg @ [e]" "\<exists>a b c' e'. fst e = AcquireNextImage a b c' e'"
    using assms(4) by (auto simp: bindV_eq_Inr acquireNextImage_def run_simps)
  then show ?thesis using assms(2) by (auto simp: balanced_def intro!: owns_neither)
next
  case (Present queue i semaphore)
  then obtain e where "C' = C" "lg' = lg @ [e]" "\<exists>a b c' e'. fst e = QueuePresent a b c' e'"
    using assms(4) by (auto simp: bindV_eq_Inr queuePresent_def run_simps)
  then show ?thesis using assms(2) by (auto simp: balanced_def intro!: owns_neither)
next
  case Cleanup
  then show ?thesis using cleanup_balance assms by simp
qed

interpretation views: vk_owner "made_by makes_view" "freed_by frees_view" "\<lambda>C. objects (held_views C)" swap_ok swap_pre swap_step
proof unfold_locales
  fix d C op lg C' lg'
  assume "nonnull d" and "swap_ok C" and "swap_pre op C" and "swap_step op C d lg = Inr (C', lg')"
  from swap_step_balance [OF this]
  show "swap_ok C' \<and> (\<exists>es. lg' = lg @ es \<and> view_balance es C C')" unfolding balanced_def by blast
qed

interpretation chains: vk_owner "made_by makes_chain" "freed_by frees_chain" "\<lambda>C. objects [swapChain C]" swap_ok swap_pre swap_step
proof unfold_locales
  fix d C op lg C' lg'
  assume "nonnull d" and "swap_ok C" and "swap_pre op C" and "swap_step op C d lg = Inr (C', lg')"
  from swap_step_balance [OF this]
  show "swap_ok C' \<and> (\<exists>es. lg' = lg @ es \<and> chain_balance es C C')" unfolding balanced_def by blast
qed

interpretation surfaces: vk_owner "made_by makes_surface" "freed_by frees_surface" "\<lambda>C. objects [surface C]" swap_ok swap_pre swap_step
proof unfold_locales
  fix d C op lg C' lg'
  assume "nonnull d" and "swap_ok C" and "swap_pre op C" and "swap_step op C d lg = Inr (C', lg')"
  from swap_step_balance [OF this]
  show "swap_ok C' \<and> (\<exists>es. lg' = lg @ es \<and> surface_balance es C C')" unfolding balanced_def by blast
qed

end
