(* ===== verification/VkSwapProps.thy ===== *)
theory VkSwapProps
  imports VkSwapOwner VkDeviceRun
begin

text \<open>What the program relies on the swap chain class for.\<close>

section \<open>No object is leaked or destroyed twice\<close>

definition unused_swap_chain :: "swap_chain \<Rightarrow> bool" where
  "unused_swap_chain C = (surface C = VK_NULL_HANDLE \<and> swapChain C = VK_NULL_HANDLE)"

lemma unused_holds_nothing:
  assumes "unused_swap_chain C"
  shows "swap_ok C" "objects (held_views C) = {#}" "objects [swapChain C] = {#}" "objects [surface C] = {#}"
  using assms by (simp_all add: unused_swap_chain_def swap_ok_def held_views_def)

text \<open>
  C8. However often the window is resized and presented to, once \<open>cleanup\<close> has run every surface, swap chain
  and image view that the object has created has been destroyed.
\<close>

theorem cleanup_frees_everything:
  assumes "op_runs swap_step swap_pre d C [] C1 lg1" and "cleanup C1 d lg1 = Inr (C2, lg2)"
    and "nonnull d" and "unused_swap_chain C"
  shows "gathered (made_by makes_surface) lg2 = gathered (freed_by frees_surface) lg2 \<and>
    gathered (made_by makes_chain) lg2 = gathered (freed_by frees_chain) lg2 \<and>
    gathered (made_by makes_view) lg2 = gathered (freed_by frees_view) lg2"
proof -
  have r: "op_runs swap_step swap_pre d C [] C2 lg2"
    using runs_step [OF assms(1), of Cleanup C2 lg2] assms(2) by simp
  have "unused_swap_chain C2" using cleanup_InrD [OF assms(2)] by (auto simp: unused_swap_chain_def)
  note e = unused_holds_nothing [OF assms(4)] unused_holds_nothing [OF this]
  show ?thesis
    using surfaces.all_freed [OF r assms(3) e(1) e(4,8)] chains.all_freed [OF r assms(3) e(1) e(3,7)]
      views.all_freed [OF r assms(3) e(1) e(2,6)] by blast
qed

text \<open>
  C23. At every moment of every run, each handle destroyed had been created before and not been destroyed
  since: there is no double destruction, and no destruction of a foreign object.
\<close>

theorem destroys_only_what_it_made:
  assumes "op_runs swap_step swap_pre d C [] C1 lg1" and "nonnull d" and "unused_swap_chain C"
  shows "gathered (freed_by frees_surface) (take n lg1) \<subseteq># gathered (made_by makes_surface) (take n lg1) \<and>
    gathered (freed_by frees_chain) (take n lg1) \<subseteq># gathered (made_by makes_chain) (take n lg1) \<and>
    gathered (freed_by frees_view) (take n lg1) \<subseteq># gathered (made_by makes_view) (take n lg1)"
  using surfaces.never_freed_twice [OF assms(1,2)] chains.never_freed_twice [OF assms(1,2)]
    views.never_freed_twice [OF assms(1,2)] unused_holds_nothing [OF assms(3)] by blast

section \<open>The queue family that presents\<close>

definition draws_and_presents :: "u32 \<times> u32 \<Rightarrow> bool" where
  "draws_and_presents q = (fst q AND VK_QUEUE_GRAPHICS_BIT \<noteq> 0 \<and> snd q = 1)"

text \<open>The first position of a list with a property.\<close>

definition first_at :: "('a \<Rightarrow> bool) \<Rightarrow> 'a list \<Rightarrow> nat option" where
  "first_at P xs = find (\<lambda>i. P (xs ! i)) [0 ..< length xs]"

lemma find_map: "find P (map f xs) = map_option f (find (\<lambda>x. P (f x)) xs)"
  by (induction xs) auto

lemma first_at_simps [simp]:
  "first_at P [] = None"
  "first_at P (x # xs) = (if P x then Some 0 else map_option Suc (first_at P xs))"
proof -
  have "[0 ..< length (x # xs)] = 0 # map Suc [0 ..< length xs]" by (simp add: map_Suc_upt upt_conv_Cons del: upt_Suc)
  then show "first_at P (x # xs) = (if P x then Some 0 else map_option Suc (first_at P xs))"
    by (simp add: first_at_def find_map del: upt_Suc)
qed (simp add: first_at_def)

lemma first_at_SomeD: "first_at P xs = Some i \<Longrightarrow> i < length xs \<and> P (xs ! i) \<and> (\<forall>j < i. \<not> P (xs ! j))"
  by (auto simp: first_at_def find_Some_iff)

lemma first_at_None: "first_at P xs = None \<longleftrightarrow> (\<forall>x \<in> set xs. \<not> P x)"
  by (induction xs) simp_all

lemma u32_step:
  assumes "unat (i :: u32) + Suc n < 2 ^ 32"
  shows "i \<noteq> UINT32_MAX" and "unat (i + 1) + n < 2 ^ 32"
proof -
  show "i \<noteq> UINT32_MAX" using assms by auto
  show "unat (i + 1) + n < 2 ^ 32" using assms by (simp add: unat_word_ariths)
qed

lemma graphics_loop_eq:
  assumes "unat k + length qs < 2 ^ 32"
  shows "graphics_loop qs k (g, p) =
    (case first_at draws_and_presents qs of
       Some i \<Rightarrow> (k + of_nat i, k + of_nat i)
     | None \<Rightarrow> (if g = UINT32_MAX
        then (case first_at (\<lambda>q. fst q AND VK_QUEUE_GRAPHICS_BIT \<noteq> 0) qs of Some i \<Rightarrow> k + of_nat i | None \<Rightarrow> UINT32_MAX)
        else g, p))"
  using assms
proof (induction qs arbitrary: k g)
  case (Cons q qs)
  obtain flags present where q: "q = (flags, present)" by (cases q)
  have b: "unat k + Suc (length qs) < 2 ^ 32" using Cons.prems by simp
  show ?case using u32_step(1) [OF b] Cons.IH [OF u32_step(2) [OF b]]
    by (auto simp: q draws_and_presents_def split: option.splits)
qed simp

lemma present_loop_eq:
  "present_loop qs k = (case first_at (\<lambda>q. snd q = 1) qs of Some i \<Rightarrow> k + of_nat i | None \<Rightarrow> UINT32_MAX)"
  by (induction qs k rule: present_loop.induct) (auto split: option.splits)

lemma first_at_u32:
  assumes "first_at P xs = Some i" and "length xs < 2 ^ 32"
  shows "unat (of_nat i :: u32) = i" and "(of_nat i :: u32) \<noteq> UINT32_MAX"
proof -
  have i: "i < length xs" using first_at_SomeD [OF assms(1)] by blast
  then show u: "unat (of_nat i :: u32) = i" using assms(2) by (intro unat_of_nat_u32) simp
  show "(of_nat i :: u32) \<noteq> UINT32_MAX"
  proof
    assume "(of_nat i :: u32) = UINT32_MAX"
    then have "i = 2 ^ 32 - 1" using u by simp
    then show False using i assms(2) by simp
  qed
qed

text \<open>
  C25. The two searches of \<open>initSurface\<close> together are one: the queue family used is the first that can draw
  and also present, and the program ends exactly when there is none, although families that can do one
  of the two are remembered on the way.
\<close>

theorem select_queue_first:
  assumes "length qs < 2 ^ 32"
  shows "select_queue qs = (case first_at draws_and_presents qs of Some i \<Rightarrow> retV (of_nat i) | None \<Rightarrow> failV Exit)"
proof -
  let ?dp = "first_at draws_and_presents qs"
  let ?g = "first_at (\<lambda>q. fst q AND VK_QUEUE_GRAPHICS_BIT \<noteq> 0) qs"
  let ?p = "first_at (\<lambda>q. snd q = 1) qs"
  have loop: "graphics_loop qs 0 (UINT32_MAX, UINT32_MAX) =
      (case ?dp of Some i \<Rightarrow> (of_nat i, of_nat i)
       | None \<Rightarrow> (case ?g of Some i \<Rightarrow> of_nat i | None \<Rightarrow> UINT32_MAX, UINT32_MAX))"
    using graphics_loop_eq [of 0 qs UINT32_MAX UINT32_MAX] assms by (simp only: unsigned_0 add_0 if_True simp_thms if_cancel refl)
  have present: "present_loop qs 0 = (case ?p of Some i \<Rightarrow> of_nat i | None \<Rightarrow> UINT32_MAX)"
    using present_loop_eq [of qs 0] by (simp only: add_0)
  show ?thesis
  proof (cases ?dp)
    case (Some i)
    then show ?thesis using first_at_u32(2) [OF Some assms]
      by (simp only: select_queue_def loop option.case prod.case Let_def if_False simp_thms)
  next
    case None
    have "i \<noteq> j" if "?g = Some i" and "?p = Some j" for i j
    proof
      assume "i = j"
      then have "i < length qs \<and> draws_and_presents (qs ! i)"
        using first_at_SomeD [OF that(1)] first_at_SomeD [OF that(2)] by (simp add: draws_and_presents_def)
      then show False using None unfolding first_at_None by (meson nth_mem)
    qed
    then have differ: "of_nat i \<noteq> (of_nat j :: u32)" if "?g = Some i" and "?p = Some j" for i j
      using first_at_u32(1) [OF that(1) assms] first_at_u32(1) [OF that(2) assms] that by metis
    then show ?thesis
      by (cases ?g; cases ?p) (simp_all only: None select_queue_def loop present option.case prod.case Let_def if_True if_False if_cancel simp_thms)
  qed
qed

section \<open>The swap chain asked for\<close>

text \<open>
  What Vulkan guarantees of the capabilities of a surface: at least one image, a maximum that is zero (no
  limit) or not below the minimum, a current extent that is within the limits or has the value that leaves it
  open, a current transform and a composite alpha that are supported, colour attachments; and of its present
  modes: FIFO is one.
\<close>

definition extent_supported :: "surface_caps \<Rightarrow> u32 \<times> u32 \<Rightarrow> bool" where
  "extent_supported caps e =
     (fst (minImageExtent caps) \<le> fst e \<and> fst e \<le> fst (maxImageExtent caps) \<and>
      snd (minImageExtent caps) \<le> snd e \<and> snd e \<le> snd (maxImageExtent caps))"

definition valid_caps :: "surface_caps \<Rightarrow> bool" where
  "valid_caps caps =
     (1 \<le> minImageCount caps \<and> minImageCount caps < UINT32_MAX \<and>
      (maxImageCount caps = 0 \<or> minImageCount caps \<le> maxImageCount caps) \<and>
      (currentExtent caps = (UINT32_MAX, UINT32_MAX) \<or> fst (currentExtent caps) \<noteq> UINT32_MAX \<and> extent_supported caps (currentExtent caps)) \<and>
      supportedTransforms caps AND currentTransform caps = currentTransform caps \<and>
      (\<exists>f \<in> set alpha_flags. supportedCompositeAlpha caps AND f \<noteq> 0) \<and>
      supportedUsageFlags caps AND VK_IMAGE_USAGE_COLOR_ATTACHMENT_BIT = VK_IMAGE_USAGE_COLOR_ATTACHMENT_BIT)"

lemma chosen_image_count_bounds:
  assumes "minImageCount caps < UINT32_MAX" and "maxImageCount caps = 0 \<or> minImageCount caps \<le> maxImageCount caps"
  shows "minImageCount caps \<le> chosen_image_count caps \<and>
    (maxImageCount caps = 0 \<or> chosen_image_count caps \<le> maxImageCount caps) \<and>
    (maxImageCount caps = 0 \<or> minImageCount caps < maxImageCount caps \<longrightarrow> minImageCount caps < chosen_image_count caps)"
proof -
  have "minImageCount caps < minImageCount caps + 1"
    using assms(1) by (simp add: word_less_nat_alt unat_word_ariths)
  then show ?thesis using assms by (auto simp: chosen_image_count_def Let_def not_less)
qed

lemma chosen_present_mode_cases:
  "chosen_present_mode modes vsync =
    (if vsync then VK_PRESENT_MODE_FIFO_KHR
     else if VK_PRESENT_MODE_MAILBOX_KHR \<in> set modes then VK_PRESENT_MODE_MAILBOX_KHR
     else if VK_PRESENT_MODE_IMMEDIATE_KHR \<in> set modes then VK_PRESENT_MODE_IMMEDIATE_KHR
     else VK_PRESENT_MODE_FIFO_KHR)"
proof -
  have "present_mode_loop modes m =
      (if VK_PRESENT_MODE_MAILBOX_KHR \<in> set modes then VK_PRESENT_MODE_MAILBOX_KHR
       else if VK_PRESENT_MODE_IMMEDIATE_KHR \<in> set modes then VK_PRESENT_MODE_IMMEDIATE_KHR else m)"
    if "m \<noteq> VK_PRESENT_MODE_MAILBOX_KHR" for m
    using that by (induction modes m rule: present_mode_loop.induct) auto
  then show ?thesis by (simp add: chosen_present_mode_def)
qed

lemma flag_set:
  assumes "(S :: u32) AND 2 ^ n \<noteq> 0"
  shows "S AND 2 ^ n = 2 ^ n"
proof -
  have "bit S n" using assms by (simp add: and_exp_eq_0_iff_not_bit)
  then show ?thesis by (intro bit_eqI) (auto simp: bit_and_iff bit_exp_iff)
qed

lemma chosen_transform_supported:
  assumes "supportedTransforms caps AND currentTransform caps = currentTransform caps"
  shows "supportedTransforms caps AND chosen_transform caps = chosen_transform caps"
  using assms flag_set [of "supportedTransforms caps" 0] by (simp add: chosen_transform_def)

lemma chosen_usage_supported:
  assumes "supportedUsageFlags caps AND VK_IMAGE_USAGE_COLOR_ATTACHMENT_BIT = VK_IMAGE_USAGE_COLOR_ATTACHMENT_BIT"
  shows "supportedUsageFlags caps AND chosen_usage caps = chosen_usage caps"
  using assms flag_set [of "supportedUsageFlags caps" 0] flag_set [of "supportedUsageFlags caps" 1]
  unfolding chosen_usage_def bit.conj_disj_distrib
  by auto

lemma chosen_alpha_supported:
  assumes "\<exists>f \<in> set alpha_flags. supportedCompositeAlpha caps AND f \<noteq> 0"
  shows "supportedCompositeAlpha caps AND chosen_alpha caps \<noteq> 0 \<and> chosen_alpha caps \<in> set alpha_flags"
proof -
  obtain f where "find (\<lambda>f. supportedCompositeAlpha caps AND f \<noteq> 0) alpha_flags = Some f"
    using assms by (metis (mono_tags, lifting) find_None_iff not_Some_eq)
  moreover from this have "supportedCompositeAlpha caps AND f \<noteq> 0 \<and> f \<in> set alpha_flags"
    by (auto simp: find_Some_iff)
  ultimately show ?thesis by (simp add: chosen_alpha_def)
qed

text \<open>
  C24. Which swap chain \<open>create\<close> asks for. Everything but the extent is supported by the surface: an image count within
  the limits, and above the minimum where the maximum leaves room; usage, transform and
  composite alpha among the supported ones; a present mode that was listed, FIFO with vertical
  synchronisation and otherwise the best of mailbox, immediate and FIFO. The extent is the one the surface dictates, or, where the
  surface leaves it open, the size asked for, which is not limited: it is supported exactly if the surface dictates
  it or the size asked for is within the limits.
\<close>

theorem swapchain_request_supported:
  assumes "valid_caps caps" and "VK_PRESENT_MODE_FIFO_KHR \<in> set modes"
  shows "let i = swapchain_create_info C caps modes width height vsync in
    minImageCount caps \<le> sc_minImageCount i \<and>
    (maxImageCount caps = 0 \<or> sc_minImageCount i \<le> maxImageCount caps) \<and>
    (maxImageCount caps \<noteq> minImageCount caps \<longrightarrow> minImageCount caps < sc_minImageCount i) \<and>
    sc_extent i = (if fst (currentExtent caps) = UINT32_MAX then (width, height) else currentExtent caps) \<and>
    (extent_supported caps (sc_extent i) \<longleftrightarrow>
       currentExtent caps \<noteq> (UINT32_MAX, UINT32_MAX) \<or> extent_supported caps (width, height)) \<and>
    supportedUsageFlags caps AND sc_usage i = sc_usage i \<and>
    supportedTransforms caps AND sc_transform i = sc_transform i \<and>
    supportedCompositeAlpha caps AND sc_alpha i \<noteq> 0 \<and> sc_alpha i \<in> set alpha_flags \<and>
    sc_presentMode i \<in> set modes \<and>
    (sc_presentMode i = VK_PRESENT_MODE_FIFO_KHR \<longleftrightarrow>
       vsync \<or> VK_PRESENT_MODE_MAILBOX_KHR \<notin> set modes \<and> VK_PRESENT_MODE_IMMEDIATE_KHR \<notin> set modes) \<and>
    sc_old i = swapChain C"
proof -
  have v: "1 \<le> minImageCount caps" "minImageCount caps < UINT32_MAX"
      "maxImageCount caps = 0 \<or> minImageCount caps \<le> maxImageCount caps"
    using assms(1) by (simp_all only: valid_caps_def)
  have less: "maxImageCount caps \<noteq> minImageCount caps \<longrightarrow> minImageCount caps < chosen_image_count caps"
    using chosen_image_count_bounds [OF v(2,3)] v(3) by (auto simp: order.order_iff_strict)
  have m: "chosen_present_mode modes vsync \<in> set modes"
      "chosen_present_mode modes vsync = VK_PRESENT_MODE_FIFO_KHR \<longleftrightarrow>
       vsync \<or> VK_PRESENT_MODE_MAILBOX_KHR \<notin> set modes \<and> VK_PRESENT_MODE_IMMEDIATE_KHR \<notin> set modes"
    using assms(2) by (simp_all add: chosen_present_mode_cases)
  have u: "supportedUsageFlags caps AND chosen_usage caps = chosen_usage caps"
    using assms(1) by (intro chosen_usage_supported) (simp only: valid_caps_def)
  have t: "supportedTransforms caps AND chosen_transform caps = chosen_transform caps"
    using assms(1) by (intro chosen_transform_supported) (simp only: valid_caps_def)
  have a: "supportedCompositeAlpha caps AND chosen_alpha caps \<noteq> 0 \<and> chosen_alpha caps \<in> set alpha_flags"
    using assms(1) by (intro chosen_alpha_supported) (simp only: valid_caps_def)
  have e: "extent_supported caps (if fst (currentExtent caps) = UINT32_MAX then (width, height) else currentExtent caps) \<longleftrightarrow>
      currentExtent caps \<noteq> (UINT32_MAX, UINT32_MAX) \<or> extent_supported caps (width, height)"
    using assms(1) by (cases "currentExtent caps") (auto simp: valid_caps_def)
  show ?thesis
    unfolding Let_def swapchain_create_info_def swapchain_info.simps chosen_extent_def
    using chosen_image_count_bounds [OF v(2,3)] less m u t a e by (intro conjI) (simp_all only: simp_thms)
qed

section \<open>Witnesses\<close>

definition demo_chain :: swap_chain where
  "demo_chain = \<lparr>sc_instance = 1, sc_device = 2, sc_physical = 3, procs = [], surface = 0, colorFormat = 0,
     colorSpace = 0, swapChain = 0, imageCount = 0, images = [], buffers = [], queueNodeIndex = 0\<rparr>"

definition demo_caps :: surface_caps where
  "demo_caps = \<lparr>minImageCount = 2, maxImageCount = 8, currentExtent = (800, 600), minImageExtent = (800, 600),
     maxImageExtent = (800, 600), supportedTransforms = 1,
     currentTransform = 1, supportedCompositeAlpha = 4, supportedUsageFlags = 0x11\<rparr>"

text \<open>A surface that leaves the extent open, with a limit: the size asked for goes beyond it.\<close>

definition open_caps :: surface_caps where
  "open_caps = demo_caps\<lparr>currentExtent := (UINT32_MAX, UINT32_MAX), minImageExtent := (1, 1), maxImageExtent := (4096, 4096)\<rparr>"

theorem swapchain_request_supported_witness:
  "(let i = swapchain_create_info demo_chain open_caps [2, 1] 5000 600 False in
     sc_minImageCount i \<le> 8 \<and> sc_presentMode i \<in> {2, 1} \<and> sc_extent i = (5000, 600) \<and> \<not> extent_supported open_caps (sc_extent i))"
proof -
  have v: "valid_caps open_caps" by (simp add: valid_caps_def open_caps_def demo_caps_def alpha_flags_def)
  have m: "maxImageCount open_caps = 8" "currentExtent open_caps = (UINT32_MAX, UINT32_MAX)" "\<not> extent_supported open_caps (5000, 600)"
    by (simp_all add: open_caps_def demo_caps_def extent_supported_def)
  show ?thesis using swapchain_request_supported [OF v, of "[2, 1]" demo_chain 5000 600 False] m
    by (auto simp: Let_def)
qed

theorem select_queue_first_witness:
  "select_queue [(1, 0), (2, 1), (3, 1)] = retV 2"
  using select_queue_first [of "[(1, 0), (2, 1), (3, 1)]"] by (simp add: draws_and_presents_def)

lemma initSurface_demo:
  "\<exists>C' lg'. initSurface demo_chain 7 8 demo_driver [] = Inr (C', lg') \<and> C' = demo_chain\<lparr>surface := 11, queueNodeIndex := 1,
     colorFormat := 44, colorSpace := 5\<rparr>"
proof -
  have q: "select_queue [(6, 0), (7, 1)] = retV 1"
    by (simp add: select_queue_def)
  show ?thesis
    by (simp add: initSurface_def bindV_def run_simps query_eq checked_query_eq assert_eq index_eq Let_def demo_chain_def
        demo_driver_def written_count_def filled_array_def surface_support_def upt_rec q select_format_def)
qed

lemma create_demo:
  assumes "C = demo_chain\<lparr>surface := 11, queueNodeIndex := 1, colorFormat := 44, colorSpace := 5\<rparr>"
  shows "\<exists>sc v1 v2 lg'. create C 640 480 False demo_driver lg = Inr ((C\<lparr>swapChain := sc, imageCount := 2, images := [100, 101],
      buffers := [(100, v1), (101, v2)]\<rparr>, 800, 600), lg')"
  using assms
  by (simp add: create_def make_buffers_def bindV_def run_simps checked_query_eq assert_eq check_eq index_eq Let_def demo_chain_def
      demo_driver_def written_count_def resize_def overwrite_def upt_rec chosen_extent_def)

lemma cleanup_demo:
  assumes "imageCount C = 2" and "buffers C = [(100, v1), (101, v2)]"
  shows "\<exists>C' lg'. cleanup C demo_driver lg = Inr (C', lg')"
  using assms
  by (auto simp: cleanup_def destroy_views_def forV_def bindV_def run_simps do_eq index_eq upt_rec)

lemma nonnull_demo: "nonnull demo_driver"
proof -
  have "2 * x + 11 \<noteq> (0 :: handle)" for x
  proof
    assume "2 * x + 11 = 0"
    then have "even (2 * x + 11)" by simp
    then show False by simp
  qed
  then show ?thesis by (simp add: nonnull_def demo_driver_def)
qed

lemma demo_unused: "unused_swap_chain demo_chain"
  by (simp add: unused_swap_chain_def demo_chain_def)

lemma demo_run:
  "\<exists>C' lg. op_runs swap_step swap_pre demo_driver demo_chain [] C' lg \<and> lg \<noteq> [] \<and>
     (\<exists>C2 lg2. cleanup C' demo_driver lg = Inr (C2, lg2))"
proof -
  obtain C1 lg1 where 1: "initSurface demo_chain 7 8 demo_driver [] = Inr (C1, lg1)"
      "C1 = demo_chain\<lparr>surface := 11, queueNodeIndex := 1, colorFormat := 44, colorSpace := 5\<rparr>"
    using initSurface_demo by blast
  obtain sc v1 v2 lg2 where 2: "create C1 640 480 False demo_driver lg1 =
      Inr ((C1\<lparr>swapChain := sc, imageCount := 2, images := [100, 101], buffers := [(100, v1), (101, v2)]\<rparr>, 800, 600), lg2)"
    using create_demo [OF 1(2)] by blast
  have r1: "op_runs swap_step swap_pre demo_driver demo_chain [] C1 lg1"
    by (rule runs_step [OF runs_refl, of _ "InitSurface 7 8"]) (simp_all add: 1(1) demo_chain_def [THEN arg_cong, of surface])
  have r2: "op_runs swap_step swap_pre demo_driver demo_chain []
      (C1\<lparr>swapChain := sc, imageCount := 2, images := [100, 101], buffers := [(100, v1), (101, v2)]\<rparr>) lg2"
    by (rule runs_step [OF r1, of "Create 640 480 False"]) (simp_all add: 1(2) bindV_def 2 [unfolded 1(2)] run_simps)
  obtain e es where "lg2 = lg1 @ e # es" using create_InrD [OF 2] by auto
  then show ?thesis
    using r2 cleanup_demo [of "C1\<lparr>swapChain := sc, imageCount := 2, images := [100, 101], buffers := [(100, v1), (101, v2)]\<rparr>" v1 v2 lg2]
    by auto
qed

theorem cleanup_frees_everything_witness:
  "\<exists>C' lg. op_runs swap_step swap_pre demo_driver demo_chain [] C' lg \<and> lg \<noteq> [] \<and>
     (\<exists>C2 lg2. cleanup C' demo_driver lg = Inr (C2, lg2) \<and>
       gathered (made_by makes_view) lg2 = gathered (freed_by frees_view) lg2)"
  using demo_run cleanup_frees_everything [OF _ _ nonnull_demo demo_unused] by blast

theorem destroys_only_what_it_made_witness:
  "\<exists>C' lg. op_runs swap_step swap_pre demo_driver demo_chain [] C' lg \<and> lg \<noteq> [] \<and>
     gathered (freed_by frees_view) (take 3 lg) \<subseteq># gathered (made_by makes_view) (take 3 lg)"
  using demo_run destroys_only_what_it_made [OF _ nonnull_demo demo_unused] by blast

end
