(* ===== verification/VkTools.thy ===== *)
theory VkTools
  imports VkDevice
begin

text \<open>
  The helper functions of \<open>src/VulkanTools.cpp\<close>: names of results and device types, the
  choice of a depth format, image layout transitions, text files and shaders. The file system is a function
  from names to contents; a stream that is open is what is left to read and its end-of-file flag.
\<close>

section \<open>Names\<close>

definition result_names :: "(int \<times> string) list" where
  "result_names =
     [(1, ''NOT_READY''), (2, ''TIMEOUT''), (3, ''EVENT_SET''), (4, ''EVENT_RESET''), (5, ''INCOMPLETE''),
      (- 1, ''ERROR_OUT_OF_HOST_MEMORY''), (- 2, ''ERROR_OUT_OF_DEVICE_MEMORY''), (- 3, ''ERROR_INITIALIZATION_FAILED''),
      (- 4, ''ERROR_DEVICE_LOST''), (- 5, ''ERROR_MEMORY_MAP_FAILED''), (- 6, ''ERROR_LAYER_NOT_PRESENT''),
      (- 7, ''ERROR_EXTENSION_NOT_PRESENT''), (- 8, ''ERROR_FEATURE_NOT_PRESENT''), (- 9, ''ERROR_INCOMPATIBLE_DRIVER''),
      (- 10, ''ERROR_TOO_MANY_OBJECTS''), (- 11, ''ERROR_FORMAT_NOT_SUPPORTED''), (- 1000000000, ''ERROR_SURFACE_LOST_KHR''),
      (- 1000000001, ''ERROR_NATIVE_WINDOW_IN_USE_KHR''), (1000001003, ''SUBOPTIMAL_KHR''), (- 1000001004, ''ERROR_OUT_OF_DATE_KHR''),
      (- 1000003001, ''ERROR_INCOMPATIBLE_DISPLAY_KHR''), (- 1000011001, ''ERROR_VALIDATION_FAILED_EXT''),
      (- 1000012000, ''ERROR_INVALID_SHADER_NV'')]"

definition errorString :: "int \<Rightarrow> string" where
  "errorString errorCode = (case map_of result_names errorCode of Some s \<Rightarrow> s | None \<Rightarrow> ''UNKNOWN_ERROR'')"

definition physicalDeviceTypeString :: "u32 \<Rightarrow> string" where
  "physicalDeviceTypeString ty =
     (if ty = 0 then ''OTHER'' else if ty = 1 then ''INTEGRATED_GPU'' else if ty = 2 then ''DISCRETE_GPU''
      else if ty = 3 then ''VIRTUAL_GPU'' else ''UNKNOWN_DEVICE_TYPE'')"

section \<open>Depth format\<close>

text \<open>
  The function of the same name in \<open>VulkanDevice\<close> throws; this one answers whether a format was found, and leaves
  the variable it is given alone otherwise.
\<close>

fun tools_depth_loop :: "handle \<Rightarrow> u32 list \<Rightarrow> u32 \<Rightarrow> (bool \<times> u32) vk" where
  "tools_depth_loop pd [] depthFormat = retV (False, depthFormat)"
| "tools_depth_loop pd (f # fs) depthFormat =
     bindV (queryV count_of (FormatProperties pd f)) (\<lambda>feat.
       if feat AND VK_FORMAT_FEATURE_DEPTH_STENCIL_ATTACHMENT_BIT \<noteq> 0 then retV (True, f)
       else tools_depth_loop pd fs depthFormat)"

definition tools_getSupportedDepthFormat :: "handle \<Rightarrow> u32 \<Rightarrow> (bool \<times> u32) vk" where
  "tools_getSupportedDepthFormat pd depthFormat = tools_depth_loop pd
     [VK_FORMAT_D32_SFLOAT_S8_UINT, VK_FORMAT_D32_SFLOAT, VK_FORMAT_D24_UNORM_S8_UINT,
      VK_FORMAT_D16_UNORM_S8_UINT, VK_FORMAT_D16_UNORM] depthFormat"

section \<open>Image layouts\<close>

abbreviation LAYOUT_UNDEFINED :: u32 where "LAYOUT_UNDEFINED \<equiv> 0"
abbreviation LAYOUT_COLOR_ATTACHMENT_OPTIMAL :: u32 where "LAYOUT_COLOR_ATTACHMENT_OPTIMAL \<equiv> 2"
abbreviation LAYOUT_DEPTH_STENCIL_ATTACHMENT_OPTIMAL :: u32 where "LAYOUT_DEPTH_STENCIL_ATTACHMENT_OPTIMAL \<equiv> 3"
abbreviation LAYOUT_SHADER_READ_ONLY_OPTIMAL :: u32 where "LAYOUT_SHADER_READ_ONLY_OPTIMAL \<equiv> 5"
abbreviation LAYOUT_TRANSFER_SRC_OPTIMAL :: u32 where "LAYOUT_TRANSFER_SRC_OPTIMAL \<equiv> 6"
abbreviation LAYOUT_TRANSFER_DST_OPTIMAL :: u32 where "LAYOUT_TRANSFER_DST_OPTIMAL \<equiv> 7"
abbreviation LAYOUT_PREINITIALIZED :: u32 where "LAYOUT_PREINITIALIZED \<equiv> 8"

abbreviation ACCESS_SHADER_READ :: u32 where "ACCESS_SHADER_READ \<equiv> 0x20"
abbreviation ACCESS_COLOR_ATTACHMENT_WRITE :: u32 where "ACCESS_COLOR_ATTACHMENT_WRITE \<equiv> 0x100"
abbreviation ACCESS_DEPTH_STENCIL_ATTACHMENT_WRITE :: u32 where "ACCESS_DEPTH_STENCIL_ATTACHMENT_WRITE \<equiv> 0x400"
abbreviation ACCESS_TRANSFER_READ :: u32 where "ACCESS_TRANSFER_READ \<equiv> 0x800"
abbreviation ACCESS_TRANSFER_WRITE :: u32 where "ACCESS_TRANSFER_WRITE \<equiv> 0x1000"
abbreviation ACCESS_HOST_WRITE :: u32 where "ACCESS_HOST_WRITE \<equiv> 0x4000"

text \<open>The two switches, each a function that updates the barrier.\<close>

definition source_access :: "u32 \<Rightarrow> image_barrier \<Rightarrow> image_barrier" where
  "source_access l b =
     (if l = LAYOUT_UNDEFINED then b\<lparr>srcAccessMask := 0\<rparr>
      else if l = LAYOUT_PREINITIALIZED then b\<lparr>srcAccessMask := ACCESS_HOST_WRITE\<rparr>
      else if l = LAYOUT_COLOR_ATTACHMENT_OPTIMAL then b\<lparr>srcAccessMask := ACCESS_COLOR_ATTACHMENT_WRITE\<rparr>
      else if l = LAYOUT_DEPTH_STENCIL_ATTACHMENT_OPTIMAL then b\<lparr>srcAccessMask := ACCESS_DEPTH_STENCIL_ATTACHMENT_WRITE\<rparr>
      else if l = LAYOUT_TRANSFER_SRC_OPTIMAL then b\<lparr>srcAccessMask := ACCESS_TRANSFER_READ\<rparr>
      else if l = LAYOUT_TRANSFER_DST_OPTIMAL then b\<lparr>srcAccessMask := ACCESS_TRANSFER_WRITE\<rparr>
      else if l = LAYOUT_SHADER_READ_ONLY_OPTIMAL then b\<lparr>srcAccessMask := ACCESS_SHADER_READ\<rparr>
      else b)"

definition target_access :: "u32 \<Rightarrow> image_barrier \<Rightarrow> image_barrier" where
  "target_access l b =
     (if l = LAYOUT_TRANSFER_DST_OPTIMAL then b\<lparr>dstAccessMask := ACCESS_TRANSFER_WRITE\<rparr>
      else if l = LAYOUT_TRANSFER_SRC_OPTIMAL then b\<lparr>dstAccessMask := ACCESS_TRANSFER_READ\<rparr>
      else if l = LAYOUT_COLOR_ATTACHMENT_OPTIMAL then b\<lparr>dstAccessMask := ACCESS_COLOR_ATTACHMENT_WRITE\<rparr>
      else if l = LAYOUT_DEPTH_STENCIL_ATTACHMENT_OPTIMAL
      then b\<lparr>dstAccessMask := dstAccessMask b OR ACCESS_DEPTH_STENCIL_ATTACHMENT_WRITE\<rparr>
      else if l = LAYOUT_SHADER_READ_ONLY_OPTIMAL
      then (if srcAccessMask b = 0 then b\<lparr>srcAccessMask := ACCESS_HOST_WRITE OR ACCESS_TRANSFER_WRITE\<rparr> else b)
             \<lparr>dstAccessMask := ACCESS_SHADER_READ\<rparr>
      else b)"

definition layout_barrier :: "handle \<Rightarrow> u32 \<Rightarrow> u32 \<Rightarrow> subresource_range \<Rightarrow> image_barrier" where
  "layout_barrier img old new rng =
     target_access new (source_access old
       (imageMemoryBarrier\<lparr>oldLayout := old, newLayout := new, barrier_image := img, barrier_range := rng\<rparr>))"

definition setImageLayout :: "handle \<Rightarrow> handle \<Rightarrow> u32 \<Rightarrow> u32 \<Rightarrow> subresource_range \<Rightarrow> u32 \<Rightarrow> u32 \<Rightarrow> unit vk" where
  "setImageLayout cmdbuffer img old new rng srcStage dstStage =
     doV (CmdPipelineBarrier cmdbuffer srcStage dstStage (layout_barrier img old new rng))"

definition setImageLayout_aspect :: "handle \<Rightarrow> handle \<Rightarrow> u32 \<Rightarrow> u32 \<Rightarrow> u32 \<Rightarrow> u32 \<Rightarrow> u32 \<Rightarrow> unit vk" where
  "setImageLayout_aspect cmdbuffer img aspect old new srcStage dstStage =
     setImageLayout cmdbuffer img old new
       \<lparr>aspectMask = aspect, baseMipLevel = 0, levelCount = 1, baseArrayLayer = 0, layerCount = 1\<rparr> srcStage dstStage"

definition insertImageMemoryBarrier ::
  "handle \<Rightarrow> handle \<Rightarrow> u32 \<Rightarrow> u32 \<Rightarrow> u32 \<Rightarrow> u32 \<Rightarrow> u32 \<Rightarrow> u32 \<Rightarrow> subresource_range \<Rightarrow> unit vk" where
  "insertImageMemoryBarrier cmdbuffer img srcAccess dstAccess old new srcStage dstStage rng =
     doV (CmdPipelineBarrier cmdbuffer srcStage dstStage
       (imageMemoryBarrier\<lparr>srcAccessMask := srcAccess, dstAccessMask := dstAccess, oldLayout := old, newLayout := new,
          barrier_image := img, barrier_range := rng\<rparr>))"

section \<open>Files\<close>

text \<open>
  \<open>getline\<close> on an open stream whose end-of-file flag is not set: the characters up to a line feed, which is
  consumed, or up to the end, which sets the flag.
\<close>

record text_stream =
  unread :: string
  eof :: bool

fun getline :: "string \<Rightarrow> string \<times> text_stream" where
  "getline [] = ([], \<lparr>unread = [], eof = True\<rparr>)"
| "getline (c # cs) =
     (if c = CHR 0x0A then ([], \<lparr>unread = cs, eof = False\<rparr>)
      else (case getline cs of (line, st) \<Rightarrow> (c # line, st)))"

text \<open>The loop; it is not known beforehand to end, so its result is an option.\<close>

partial_function (option) read_lines :: "text_stream \<Rightarrow> string \<Rightarrow> string option" where
  "read_lines st fileContent =
     (if eof st then Some fileContent
      else (case getline (unread st) of (line, st') \<Rightarrow> read_lines st' (fileContent @ line @ [CHR 0x0A])))"

definition readTextFile :: "(string \<Rightarrow> string option) \<Rightarrow> string \<Rightarrow> string option" where
  "readTextFile files fileName =
     (case files fileName of
        None \<Rightarrow> Some []
      | Some content \<Rightarrow> read_lines \<lparr>unread = content, eof = False\<rparr> [])"

text \<open>\<open>loadShader\<close>: the bytes of the file are the code of the module.\<close>

definition loadShader :: "(string \<Rightarrow> 8 word list option) \<Rightarrow> string \<Rightarrow> handle \<Rightarrow> handle vk" where
  "loadShader files fileName device =
     (case files fileName of
        None \<Rightarrow> retV VK_NULL_HANDLE
      | Some code \<Rightarrow>
          thenV (assertV (0 < length code)) (VK_CHECK_RESULT (CreateShaderModule device code)))"

definition fileExists :: "(string \<Rightarrow> 'a option) \<Rightarrow> string \<Rightarrow> bool" where
  "fileExists files filename = (files filename \<noteq> None)"

definition exitFatal :: "string \<Rightarrow> int \<Rightarrow> 'a vk" where
  "exitFatal message exitCode = failV Exit"

section \<open>Properties\<close>

lemma getline_content:
  "getline cs = (line, st) \<Longrightarrow>
    (if eof st then cs = line \<and> unread st = [] else cs = line @ CHR 0x0A # unread st)"
  by (induction cs arbitrary: line st rule: getline.induct) (auto split: if_splits prod.splits)

text \<open>
  C34. Reading a text file always ends, and what is read is the content with one line feed more, whether or not the
  file ended in one: the last call of \<open>getline\<close> finds nothing and still adds its line feed.
\<close>

theorem text_file_read:
  assumes "files fileName = Some content"
  shows "readTextFile files fileName = Some (content @ [CHR 0x0A])"
proof -
  have "read_lines \<lparr>unread = content, eof = False\<rparr> acc = Some (acc @ content @ [CHR 0x0A])" for acc
  proof (induction "length content" arbitrary: content acc rule: less_induct)
    case less
    obtain line st where l: "getline content = (line, st)" by (cases "getline content")
    show ?case
    proof (cases "eof st")
      case True
      then show ?thesis using getline_content [OF l] l
        by (subst read_lines.simps) (simp add: read_lines.simps [of st])
    next
      case False
      then have c: "content = line @ CHR 0x0A # unread st" using getline_content [OF l] by simp
      have st: "st = \<lparr>unread = unread st, eof = False\<rparr>" using False by simp
      have "read_lines st (acc @ line @ [CHR 0x0A]) = Some ((acc @ line @ [CHR 0x0A]) @ unread st @ [CHR 0x0A])"
        using less [of "unread st" "acc @ line @ [CHR 0x0A]"] c st by simp
      then show ?thesis using c l by (subst read_lines.simps) simp
    qed
  qed
  then show ?thesis using assms by (simp add: readTextFile_def)
qed

theorem text_file_read_witness:
  "readTextFile [''a.txt'' \<mapsto> ''ab''] ''a.txt'' = Some (''ab'' @ [CHR 0x0A])"
  using text_file_read [of "[''a.txt'' \<mapsto> ''ab'']" "''a.txt''" "''ab''"] by simp

lemma source_access_masks:
  "srcAccessMask (source_access l b) =
    (if l = LAYOUT_UNDEFINED then 0 else if l = LAYOUT_PREINITIALIZED then ACCESS_HOST_WRITE
     else if l = LAYOUT_COLOR_ATTACHMENT_OPTIMAL then ACCESS_COLOR_ATTACHMENT_WRITE
     else if l = LAYOUT_DEPTH_STENCIL_ATTACHMENT_OPTIMAL then ACCESS_DEPTH_STENCIL_ATTACHMENT_WRITE
     else if l = LAYOUT_TRANSFER_SRC_OPTIMAL then ACCESS_TRANSFER_READ
     else if l = LAYOUT_TRANSFER_DST_OPTIMAL then ACCESS_TRANSFER_WRITE
     else if l = LAYOUT_SHADER_READ_ONLY_OPTIMAL then ACCESS_SHADER_READ else srcAccessMask b)"
  "dstAccessMask (source_access l b) = dstAccessMask b" "oldLayout (source_access l b) = oldLayout b"
  "newLayout (source_access l b) = newLayout b"
  by (simp_all add: source_access_def)

lemma target_access_masks:
  "srcAccessMask (target_access l b) =
    (if l = LAYOUT_SHADER_READ_ONLY_OPTIMAL \<and> srcAccessMask b = 0 then ACCESS_HOST_WRITE OR ACCESS_TRANSFER_WRITE
     else srcAccessMask b)"
  "dstAccessMask (target_access l b) =
    (if l = LAYOUT_TRANSFER_DST_OPTIMAL then ACCESS_TRANSFER_WRITE else if l = LAYOUT_TRANSFER_SRC_OPTIMAL then ACCESS_TRANSFER_READ
     else if l = LAYOUT_COLOR_ATTACHMENT_OPTIMAL then ACCESS_COLOR_ATTACHMENT_WRITE
     else if l = LAYOUT_DEPTH_STENCIL_ATTACHMENT_OPTIMAL then dstAccessMask b OR ACCESS_DEPTH_STENCIL_ATTACHMENT_WRITE
     else if l = LAYOUT_SHADER_READ_ONLY_OPTIMAL then ACCESS_SHADER_READ else dstAccessMask b)"
  "oldLayout (target_access l b) = oldLayout b" "newLayout (target_access l b) = newLayout b"
  by (simp_all add: target_access_def)

text \<open>
  The barriers of an image that goes through two transitions fit together: what the first makes available for
  the layout in the middle is what the second waits for, when that layout is one both switches know.
\<close>

theorem layout_transitions_chain:
  assumes "middle \<in> {LAYOUT_TRANSFER_DST_OPTIMAL, LAYOUT_TRANSFER_SRC_OPTIMAL, LAYOUT_COLOR_ATTACHMENT_OPTIMAL,
      LAYOUT_DEPTH_STENCIL_ATTACHMENT_OPTIMAL, LAYOUT_SHADER_READ_ONLY_OPTIMAL}"
  shows "srcAccessMask (layout_barrier img middle new rng) = dstAccessMask (layout_barrier img old middle rng) \<and>
    srcAccessMask (layout_barrier img middle new rng) \<noteq> 0 \<and>
    newLayout (layout_barrier img old middle rng) = oldLayout (layout_barrier img middle new rng)"
  using assms unfolding layout_barrier_def
  by (elim insertE emptyE) (simp_all add: target_access_masks source_access_masks imageMemoryBarrier_def)

definition color_range :: subresource_range where
  "color_range = \<lparr>aspectMask = VK_IMAGE_ASPECT_COLOR_BIT, baseMipLevel = 0, levelCount = 1, baseArrayLayer = 0, layerCount = 1\<rparr>"

theorem layout_transitions_chain_witness:
  "srcAccessMask (layout_barrier 1 LAYOUT_TRANSFER_DST_OPTIMAL LAYOUT_SHADER_READ_ONLY_OPTIMAL color_range) =
     dstAccessMask (layout_barrier 1 LAYOUT_UNDEFINED LAYOUT_TRANSFER_DST_OPTIMAL color_range)"
  using layout_transitions_chain [of LAYOUT_TRANSFER_DST_OPTIMAL 1 LAYOUT_SHADER_READ_ONLY_OPTIMAL color_range LAYOUT_UNDEFINED] by simp

end
