(* ===== verification/VkDebug.thy ===== *)
theory VkDebug
  imports VkBase
begin

text \<open>
  The debugging aids of \<open>src/VulkanDebug.cpp\<close>: the function the validation layers call with a message, and the
  markers that name objects and mark regions of command buffers when the program runs under a debugger that offers
  them. The messenger itself is created and destroyed in \<open>VkStart\<close>.
\<close>

section \<open>Messages\<close>

abbreviation VK_SEVERITY_VERBOSE :: u32 where "VK_SEVERITY_VERBOSE \<equiv> 1"
abbreviation VK_SEVERITY_INFO :: u32 where "VK_SEVERITY_INFO \<equiv> 0x10"
abbreviation VK_SEVERITY_WARNING :: u32 where "VK_SEVERITY_WARNING \<equiv> 0x100"
abbreviation VK_SEVERITY_ERROR :: u32 where "VK_SEVERITY_ERROR \<equiv> 0x1000"

text \<open>\<open>std::to_string\<close> of an unsigned number and what \<open><<\<close> writes for a 32 bit integer.\<close>

fun decimal :: "nat \<Rightarrow> string" where
  "decimal n = (if n < 10 then [char_of (48 + n)] else decimal (n div 10) @ [char_of (48 + n mod 10)])"

declare decimal.simps [simp del]

definition signed_decimal :: "32 word \<Rightarrow> string" where
  "signed_decimal w = (if sint w < 0 then CHR ''-'' # decimal (nat (- sint w)) else decimal (nat (sint w)))"

text \<open>The name of a message may be a null pointer.\<close>

record message =
  messageIdNumber :: "32 word"
  pMessageIdName :: "string option"
  pMessage :: string

datatype stream = Cout | Cerr

definition message_prefix :: "u32 \<Rightarrow> string" where
  "message_prefix severity =
     (if severity AND VK_SEVERITY_VERBOSE \<noteq> 0 then ''VERBOSE: ''
      else if severity AND VK_SEVERITY_INFO \<noteq> 0 then ''INFO: ''
      else if severity AND VK_SEVERITY_WARNING \<noteq> 0 then ''WARNING: ''
      else if severity AND VK_SEVERITY_ERROR \<noteq> 0 then ''ERROR: ''
      else [])"

text \<open>
  What is written where, and the result; \<open>None\<close> when a null pointer is written to the stream, which the language
  leaves undefined.
\<close>

definition debugUtilsMessengerCallback :: "u32 \<Rightarrow> message \<Rightarrow> (u32 \<times> stream \<times> string) option" where
  "debugUtilsMessengerCallback severity m =
     (case pMessageIdName m of
        None \<Rightarrow> None
      | Some name \<Rightarrow>
          let txt = message_prefix severity @ ''['' @ signed_decimal (messageIdNumber m) @ '']['' @ name @ ''] : '' @ pMessage m
          in Some (VK_FALSE, if VK_SEVERITY_ERROR \<le> severity then Cerr else Cout, txt @ [CHR 0x0A]))"

subsection \<open>What a message shows\<close>

text \<open>The digits of a number, and the number they stand for.\<close>

lemma decimal_digits: "c \<in> set (decimal n) \<Longrightarrow> of_char c \<in> {48 .. 57 :: nat}"
proof (induction n rule: decimal.induct)
  case (1 n)
  have c: "c \<in> set (if n < 10 then [char_of (48 + n)] else decimal (n div 10) @ [char_of (48 + n mod 10)])"
    using 1(2) by (simp only: decimal.simps [of n])
  then show ?case
  proof (cases "n < 10")
    case False
    then show ?thesis using c 1(1) by auto
  qed auto
qed

definition decimal_value :: "string \<Rightarrow> nat" where
  "decimal_value s = foldl (\<lambda>v c. 10 * v + (of_char c - 48)) 0 s"

lemma decimal_value: "decimal_value (decimal n) = n"
proof (induction n rule: decimal.induct)
  case (1 n)
  then show ?case by (subst decimal.simps) (auto simp: decimal_value_def)
qed

lemma signed_decimal_inj:
  assumes "signed_decimal v = signed_decimal w"
  shows "v = w"
proof -
  have minus: "decimal m \<noteq> CHR ''-'' # t" for m t using decimal_digits [of "CHR ''-''" m] by fastforce
  have inj: "decimal m = decimal n \<Longrightarrow> m = n" for m n by (metis decimal_value)
  have "sint v = sint w"
    using assms by (auto simp: signed_decimal_def minus minus [symmetric] dest!: inj split: if_splits)
  then show ?thesis by (simp add: signed_word_eqI)
qed

lemma bracket_free: "CHR '']'' \<notin> set (signed_decimal w)"
  using decimal_digits [of "CHR '']''"] by (auto simp: signed_decimal_def)

text \<open>
  The severities that \<open>setupDebugging\<close> asks for: each has its prefix, errors go to the error stream, and the text
  determines the number of the message.
\<close>

lemma callback_severities:
  assumes "pMessageIdName m = Some name"
  shows "\<exists>t. debugUtilsMessengerCallback VK_SEVERITY_WARNING m = Some (VK_FALSE, Cout, ''WARNING: '' @ t) \<and>
    debugUtilsMessengerCallback VK_SEVERITY_ERROR m = Some (VK_FALSE, Cerr, ''ERROR: '' @ t)"
  using assms by (simp add: debugUtilsMessengerCallback_def message_prefix_def)

lemma callback_tells_numbers:
  assumes "debugUtilsMessengerCallback severity m = Some r" and "debugUtilsMessengerCallback severity m' = Some r"
  shows "messageIdNumber m = messageIdNumber m'"
proof -
  have same: "a = a'" if "a @ CHR '']'' # b = a' @ CHR '']'' # b'" and "CHR '']'' \<notin> set a" and "CHR '']'' \<notin> set a'" for a a' b b' :: string
    using that by (induction a arbitrary: a') (auto simp: Cons_eq_append_conv append_eq_Cons_conv)
  obtain b b' where "signed_decimal (messageIdNumber m) @ CHR '']'' # b = signed_decimal (messageIdNumber m') @ CHR '']'' # b'"
    using assms by (auto simp: debugUtilsMessengerCallback_def Let_def split: option.splits intro!: that [OF sym])
  from same [OF this] show ?thesis using bracket_free signed_decimal_inj by blast
qed

lemma callback_null_name: "debugUtilsMessengerCallback severity m = None \<longleftrightarrow> pMessageIdName m = None"
  by (simp add: debugUtilsMessengerCallback_def Let_def split: option.splits)

section \<open>Markers\<close>

text \<open>The function pointers of the namespace \<open>debugmarker\<close>, null until \<open>setup\<close>.\<close>

record markers =
  marker_active :: bool
  pfnDebugMarkerSetObjectTag :: handle
  pfnDebugMarkerSetObjectName :: handle
  pfnCmdDebugMarkerBegin :: handle
  pfnCmdDebugMarkerEnd :: handle
  pfnCmdDebugMarkerInsert :: handle

definition no_markers :: markers where
  "no_markers = \<lparr>marker_active = False, pfnDebugMarkerSetObjectTag = VK_NULL_HANDLE,
     pfnDebugMarkerSetObjectName = VK_NULL_HANDLE, pfnCmdDebugMarkerBegin = VK_NULL_HANDLE,
     pfnCmdDebugMarkerEnd = VK_NULL_HANDLE, pfnCmdDebugMarkerInsert = VK_NULL_HANDLE\<rparr>"

definition device_proc :: "handle \<Rightarrow> string \<Rightarrow> handle vk" where
  "device_proc dev name = bindV (callV (GetDeviceProcAddr dev name)) (\<lambda>(_, p). retV p)"

definition marker_setup :: "handle \<Rightarrow> markers vk" where
  "marker_setup dev =
     bindV (device_proc dev ''vkDebugMarkerSetObjectTagEXT'') (\<lambda>tg.
     bindV (device_proc dev ''vkDebugMarkerSetObjectNameEXT'') (\<lambda>nm.
     bindV (device_proc dev ''vkCmdDebugMarkerBeginEXT'') (\<lambda>bg.
     bindV (device_proc dev ''vkCmdDebugMarkerEndEXT'') (\<lambda>en.
     bindV (device_proc dev ''vkCmdDebugMarkerInsertEXT'') (\<lambda>ins.
       retV \<lparr>marker_active = (nm \<noteq> VK_NULL_HANDLE), pfnDebugMarkerSetObjectTag = tg, pfnDebugMarkerSetObjectName = nm,
         pfnCmdDebugMarkerBegin = bg, pfnCmdDebugMarkerEnd = en, pfnCmdDebugMarkerInsert = ins\<rparr>)))))"

definition setObjectName :: "markers \<Rightarrow> handle \<Rightarrow> u64 \<Rightarrow> u32 \<Rightarrow> string \<Rightarrow> unit vk" where
  "setObjectName M dev obj objectType name =
     (if pfnDebugMarkerSetObjectName M \<noteq> VK_NULL_HANDLE then doV (DebugMarkerSetObjectName dev objectType obj name) else retV ())"

text \<open>The size of a tag is the number of its bytes.\<close>

definition setObjectTag :: "markers \<Rightarrow> handle \<Rightarrow> u64 \<Rightarrow> u32 \<Rightarrow> u64 \<Rightarrow> 8 word list \<Rightarrow> unit vk" where
  "setObjectTag M dev obj objectType name tag =
     (if pfnDebugMarkerSetObjectTag M \<noteq> VK_NULL_HANDLE then doV (DebugMarkerSetObjectTag dev objectType obj name tag) else retV ())"

definition beginRegion :: "markers \<Rightarrow> handle \<Rightarrow> string \<Rightarrow> f32 list \<Rightarrow> unit vk" where
  "beginRegion M cmd name color =
     (if pfnCmdDebugMarkerBegin M \<noteq> VK_NULL_HANDLE then doV (Record cmd (CmdDebugMarkerBegin name (take 4 color))) else retV ())"

definition marker_insert :: "markers \<Rightarrow> handle \<Rightarrow> string \<Rightarrow> f32 list \<Rightarrow> unit vk" where
  "marker_insert M cmd name color =
     (if pfnCmdDebugMarkerInsert M \<noteq> VK_NULL_HANDLE then doV (Record cmd (CmdDebugMarkerInsert name (take 4 color))) else retV ())"

definition endRegion :: "markers \<Rightarrow> handle \<Rightarrow> unit vk" where
  "endRegion M cmd = (if pfnCmdDebugMarkerEnd M \<noteq> VK_NULL_HANDLE then doV (Record cmd CmdDebugMarkerEnd) else retV ())"

subsection \<open>Names by type\<close>

text \<open>The numbers are those of \<open>VkDebugReportObjectTypeEXT\<close>.\<close>

definition setCommandBufferName :: "markers \<Rightarrow> handle \<Rightarrow> handle \<Rightarrow> string \<Rightarrow> unit vk" where
  "setCommandBufferName M dev h name = setObjectName M dev h 6 name"

definition setQueueName :: "markers \<Rightarrow> handle \<Rightarrow> handle \<Rightarrow> string \<Rightarrow> unit vk" where
  "setQueueName M dev h name = setObjectName M dev h 4 name"

definition setImageName :: "markers \<Rightarrow> handle \<Rightarrow> handle \<Rightarrow> string \<Rightarrow> unit vk" where
  "setImageName M dev h name = setObjectName M dev h 10 name"

definition setSamplerName :: "markers \<Rightarrow> handle \<Rightarrow> handle \<Rightarrow> string \<Rightarrow> unit vk" where
  "setSamplerName M dev h name = setObjectName M dev h 21 name"

definition setBufferName :: "markers \<Rightarrow> handle \<Rightarrow> handle \<Rightarrow> string \<Rightarrow> unit vk" where
  "setBufferName M dev h name = setObjectName M dev h 9 name"

definition setDeviceMemoryName :: "markers \<Rightarrow> handle \<Rightarrow> handle \<Rightarrow> string \<Rightarrow> unit vk" where
  "setDeviceMemoryName M dev h name = setObjectName M dev h 8 name"

definition setShaderModuleName :: "markers \<Rightarrow> handle \<Rightarrow> handle \<Rightarrow> string \<Rightarrow> unit vk" where
  "setShaderModuleName M dev h name = setObjectName M dev h 15 name"

definition setPipelineName :: "markers \<Rightarrow> handle \<Rightarrow> handle \<Rightarrow> string \<Rightarrow> unit vk" where
  "setPipelineName M dev h name = setObjectName M dev h 19 name"

definition setPipelineLayoutName :: "markers \<Rightarrow> handle \<Rightarrow> handle \<Rightarrow> string \<Rightarrow> unit vk" where
  "setPipelineLayoutName M dev h name = setObjectName M dev h 17 name"

definition setRenderPassName :: "markers \<Rightarrow> handle \<Rightarrow> handle \<Rightarrow> string \<Rightarrow> unit vk" where
  "setRenderPassName M dev h name = setObjectName M dev h 18 name"

definition setFramebufferName :: "markers \<Rightarrow> handle \<Rightarrow> handle \<Rightarrow> string \<Rightarrow> unit vk" where
  "setFramebufferName M dev h name = setObjectName M dev h 24 name"

definition setDescriptorSetLayoutName :: "markers \<Rightarrow> handle \<Rightarrow> handle \<Rightarrow> string \<Rightarrow> unit vk" where
  "setDescriptorSetLayoutName M dev h name = setObjectName M dev h 20 name"

definition setDescriptorSetName :: "markers \<Rightarrow> handle \<Rightarrow> handle \<Rightarrow> string \<Rightarrow> unit vk" where
  "setDescriptorSetName M dev h name = setObjectName M dev h 23 name"

definition setSemaphoreName :: "markers \<Rightarrow> handle \<Rightarrow> handle \<Rightarrow> string \<Rightarrow> unit vk" where
  "setSemaphoreName M dev h name = setObjectName M dev h 5 name"

definition setFenceName :: "markers \<Rightarrow> handle \<Rightarrow> handle \<Rightarrow> string \<Rightarrow> unit vk" where
  "setFenceName M dev h name = setObjectName M dev h 7 name"

definition setEventName :: "markers \<Rightarrow> handle \<Rightarrow> handle \<Rightarrow> string \<Rightarrow> unit vk" where
  "setEventName M dev h name = setObjectName M dev h 11 name"

lemmas naming_defs = setCommandBufferName_def setQueueName_def setImageName_def setSamplerName_def setBufferName_def
  setDeviceMemoryName_def setShaderModuleName_def setPipelineName_def setPipelineLayoutName_def setRenderPassName_def
  setFramebufferName_def setDescriptorSetLayoutName_def setDescriptorSetName_def setSemaphoreName_def setFenceName_def
  setEventName_def setObjectName_def

text \<open>
  Before \<open>setup\<close>, and under a driver without the extension, nothing is called. The flag tells of the pointer for
  names alone: a driver with the other four only leaves it unset though regions are marked.
\<close>

lemma markers_off:
  "setObjectName no_markers dev obj ty name = retV ()" "setObjectTag no_markers dev obj ty tname tag = retV ()"
  "beginRegion no_markers cmd name color = retV ()" "marker_insert no_markers cmd name color = retV ()"
  "endRegion no_markers cmd = retV ()"
  by (simp_all add: no_markers_def setObjectName_def setObjectTag_def beginRegion_def marker_insert_def endRegion_def)

lemma marker_setup_flag: "marker_setup dev d lg = Inr (M, lg') \<Longrightarrow> marker_active M \<longleftrightarrow> pfnDebugMarkerSetObjectName M \<noteq> VK_NULL_HANDLE"
  by (auto simp: marker_setup_def device_proc_def bindV_def run_simps)

lemma regions_without_flag:
  assumes "\<And>lg n. handle_of d lg (GetDeviceProcAddr dev n) = (if n = ''vkDebugMarkerSetObjectNameEXT'' then VK_NULL_HANDLE else 1)"
  shows "\<exists>M lg'. marker_setup dev d lg = Inr (M, lg') \<and> \<not> marker_active M \<and> beginRegion M cmd name color = doV (Record cmd (CmdDebugMarkerBegin name (take 4 color)))"
  by (simp add: marker_setup_def device_proc_def bindV_def run_simps assms beginRegion_def)

end
