(* ===== verification/VkExample.thy ===== *)
theory VkExample
  imports VkSwapChain VkTools VkDebug
begin

text \<open>
  The resources of \<open>VulkanExampleBase\<close> (\<open>src/vulkanexamplebase.cpp\<close>) that live with the window: swap chain,
  depth buffer, frame buffers, command buffers and fences; their creation in \<open>prepare\<close>, their renewal in
  \<open>windowResize\<close>, the frame around them and their destruction. The overlay and the functions that examples
  override are parameters: computations that may call the driver; those called after the setup cannot touch these
  members.
\<close>

record example =
  instance_handle :: handle
  ex_device :: handle
  queue :: handle
  vulkanDevice :: vulkan_device
  memoryProperties :: "u32 \<times> u32 list"
  depthFormat :: u32
  prepared :: bool
  width :: u32
  height :: u32
  destWidth :: u32
  destHeight :: u32
  vsync :: bool
  overlay :: bool
  benchmark_active :: bool
  chain :: swap_chain
  cmdPool :: handle
  drawCmdBuffers :: "handle list"
  waitFences :: "handle list"
  depth_image :: handle
  depth_mem :: handle
  depth_view :: handle
  renderPass :: handle
  pipelineCache :: handle
  frameBuffers :: "handle list"
  shaderModules :: "handle list"
  descriptorPool :: handle
  presentComplete :: handle
  renderComplete :: handle
  currentBuffer :: u32
  ex_markers :: markers

text \<open>What an example or the overlay does at the places where it is called, and the setup functions an example may override.\<close>

record hooks =
  depth_setup :: "example \<Rightarrow> example vk"
  frame_setup :: "example \<Rightarrow> example vk"
  pass_setup :: "example \<Rightarrow> example vk"
  buildCommandBuffers :: "example \<Rightarrow> unit vk"
  windowResized :: "example \<Rightarrow> unit vk"
  viewChanged :: "example \<Rightarrow> unit vk"
  overlay_resize :: "u32 \<Rightarrow> u32 \<Rightarrow> unit vk"
  overlay_free :: "unit vk"

section \<open>Command buffers and synchronisation\<close>

definition checkCommandBuffers :: "example \<Rightarrow> bool" where
  "checkCommandBuffers E = list_all (\<lambda>c. c \<noteq> VK_NULL_HANDLE) (drawCmdBuffers E)"

definition createCommandBuffers :: "example \<Rightarrow> example vk" where
  "createCommandBuffers E =
     (let bufs = resize (unat (imageCount (chain E))) VK_NULL_HANDLE (drawCmdBuffers E);
          ai = commandBufferAllocateInfo (cmdPool E) VK_COMMAND_BUFFER_LEVEL_PRIMARY (of_nat (length bufs))
      in bindV (checked_query handles_of (AllocateCommandBuffers (ex_device E) (ca_pool ai) (ca_level ai) (ca_count ai))) (\<lambda>l.
           retV (E\<lparr>drawCmdBuffers := overwrite bufs l\<rparr>)))"

definition destroyCommandBuffers :: "example \<Rightarrow> unit vk" where
  "destroyCommandBuffers E = doV (FreeCommandBuffers (ex_device E) (cmdPool E) (drawCmdBuffers E))"

definition ex_createCommandBuffer :: "example \<Rightarrow> u32 \<Rightarrow> bool \<Rightarrow> handle vk" where
  "ex_createCommandBuffer E level begin =
     (let ai = commandBufferAllocateInfo (cmdPool E) level 1
      in bindV (VK_CHECK_RESULT (AllocateCommandBuffers (ex_device E) (ca_pool ai) (ca_level ai) (ca_count ai))) (\<lambda>cmd.
         if begin then bindV (VK_CHECK_RESULT (BeginCommandBuffer cmd)) (\<lambda>_. retV cmd) else retV cmd))"

definition ex_flushCommandBuffer :: "example \<Rightarrow> handle \<Rightarrow> handle \<Rightarrow> bool \<Rightarrow> unit vk" where
  "ex_flushCommandBuffer E cmd q free =
     (if cmd = VK_NULL_HANDLE then retV ()
      else bindV (VK_CHECK_RESULT (EndCommandBuffer cmd)) (\<lambda>_.
           bindV (VK_CHECK_RESULT (QueueSubmit q [] [cmd] [] VK_NULL_HANDLE)) (\<lambda>_.
           bindV (VK_CHECK_RESULT (QueueWaitIdle q)) (\<lambda>_.
             if free then doV (FreeCommandBuffers (ex_device E) (cmdPool E) [cmd]) else retV ()))))"

definition createPipelineCache :: "example \<Rightarrow> example vk" where
  "createPipelineCache E =
     bindV (VK_CHECK_RESULT (CreatePipelineCache (ex_device E))) (\<lambda>h. retV (E\<lparr>pipelineCache := h\<rparr>))"

abbreviation VK_FENCE_CREATE_SIGNALED_BIT :: u32 where "VK_FENCE_CREATE_SIGNALED_BIT \<equiv> 1"

definition createSynchronizationPrimitives :: "example \<Rightarrow> example vk" where
  "createSynchronizationPrimitives E =
     bindV (mapV (\<lambda>_. VK_CHECK_RESULT (CreateFence (ex_device E) (fenceCreateInfo VK_FENCE_CREATE_SIGNALED_BIT)))
             [0 ..< length (drawCmdBuffers E)]) (\<lambda>fs.
       retV (E\<lparr>waitFences := fs\<rparr>))"

definition ex_createCommandPool :: "example \<Rightarrow> example vk" where
  "ex_createCommandPool E =
     bindV (VK_CHECK_RESULT (CreateCommandPool (ex_device E) VK_COMMAND_POOL_CREATE_RESET_COMMAND_BUFFER_BIT
             (queueNodeIndex (chain E)))) (\<lambda>h. retV (E\<lparr>cmdPool := h\<rparr>))"

section \<open>Depth buffer, frame buffers and render pass\<close>

abbreviation VK_MEMORY_PROPERTY_DEVICE_LOCAL_BIT :: u32 where "VK_MEMORY_PROPERTY_DEVICE_LOCAL_BIT \<equiv> 1"
abbreviation VK_IMAGE_USAGE_DEPTH_STENCIL_ATTACHMENT_BIT :: u32 where "VK_IMAGE_USAGE_DEPTH_STENCIL_ATTACHMENT_BIT \<equiv> 0x20"
abbreviation VK_IMAGE_ASPECT_DEPTH_BIT :: u32 where "VK_IMAGE_ASPECT_DEPTH_BIT \<equiv> 2"
abbreviation VK_IMAGE_ASPECT_STENCIL_BIT :: u32 where "VK_IMAGE_ASPECT_STENCIL_BIT \<equiv> 4"

definition depth_view_info :: "u32 \<Rightarrow> handle \<Rightarrow> view_info" where
  "depth_view_info fmt img =
     \<lparr>view_image = img, viewType = 1, view_format = fmt, components = [0, 0, 0, 0],
      view_range = \<lparr>aspectMask = VK_IMAGE_ASPECT_DEPTH_BIT OR (if VK_FORMAT_D16_UNORM_S8_UINT \<le> fmt then VK_IMAGE_ASPECT_STENCIL_BIT else 0),
        baseMipLevel = 0, levelCount = 1, baseArrayLayer = 0, layerCount = 1\<rparr>\<rparr>"

definition setupDepthStencil :: "example \<Rightarrow> example vk" where
  "setupDepthStencil E =
     bindV (VK_CHECK_RESULT (CreateImage (ex_device E)
        \<lparr>img_format = depthFormat E, img_extent = (width E, height E),
         img_usage = VK_IMAGE_USAGE_DEPTH_STENCIL_ATTACHMENT_BIT OR VK_IMAGE_USAGE_TRANSFER_SRC_BIT\<rparr>)) (\<lambda>img.
     bindV (queryV reqs_of (GetImageMemoryRequirements (ex_device E) img)) (\<lambda>reqs.
     bindV (getMemoryType (vulkanDevice E) (r_typeBits reqs) VK_MEMORY_PROPERTY_DEVICE_LOCAL_BIT) (\<lambda>ti.
     bindV (VK_CHECK_RESULT (AllocateMemory (ex_device E) (r_size reqs) ti)) (\<lambda>mem.
     bindV (VK_CHECK_RESULT (BindImageMemory (ex_device E) img mem 0)) (\<lambda>_.
     bindV (VK_CHECK_RESULT (CreateImageView (ex_device E) (depth_view_info (depthFormat E) img))) (\<lambda>v.
       retV (E\<lparr>depth_image := img, depth_mem := mem, depth_view := v\<rparr>)))))))"

definition setupFrameBuffer :: "example \<Rightarrow> example vk" where
  "setupFrameBuffer E =
     bindV (mapV (\<lambda>i. bindV (indexV (buffers (chain E)) i) (\<lambda>b.
              VK_CHECK_RESULT (CreateFramebuffer (ex_device E)
                \<lparr>fb_renderPass = renderPass E, fb_attachments = [snd b, depth_view E], fb_extent = (width E, height E)\<rparr>)))
            [0 ..< unat (imageCount (chain E))]) (\<lambda>fbs.
       retV (E\<lparr>frameBuffers := fbs\<rparr>))"

text \<open>The numbers are those of \<open>vulkan_core.h\<close>: load and store operations, layouts, stages and accesses.\<close>

definition render_pass_of :: "example \<Rightarrow> render_pass_info" where
  "render_pass_of E =
     \<lparr>rp_attachments =
        [\<lparr>at_format = colorFormat (chain E), at_samples = 1, loadOp = 1, storeOp = 0, stencilLoadOp = 2, stencilStoreOp = 1,
          initialLayout = LAYOUT_UNDEFINED, finalLayout = 1000001002\<rparr>,
         \<lparr>at_format = depthFormat E, at_samples = 1, loadOp = 1, storeOp = 0, stencilLoadOp = 1, stencilStoreOp = 1,
          initialLayout = LAYOUT_UNDEFINED, finalLayout = LAYOUT_DEPTH_STENCIL_ATTACHMENT_OPTIMAL\<rparr>],
      colorReference = (0, LAYOUT_COLOR_ATTACHMENT_OPTIMAL),
      depthReference = (1, LAYOUT_DEPTH_STENCIL_ATTACHMENT_OPTIMAL),
      dependencies =
        [\<lparr>srcSubpass = 0xFFFFFFFF, dstSubpass = 0, srcStageMask = 0x2000, dstStageMask = 0x400,
          dep_srcAccess = 0x8000, dep_dstAccess = 0x80 OR 0x100, dependencyFlags = 1\<rparr>,
         \<lparr>srcSubpass = 0, dstSubpass = 0xFFFFFFFF, srcStageMask = 0x400, dstStageMask = 0x2000,
          dep_srcAccess = 0x80 OR 0x100, dep_dstAccess = 0x8000, dependencyFlags = 1\<rparr>]\<rparr>"

definition setupRenderPass :: "example \<Rightarrow> example vk" where
  "setupRenderPass E =
     bindV (VK_CHECK_RESULT (CreateRenderPass (ex_device E) (render_pass_of E))) (\<lambda>h. retV (E\<lparr>renderPass := h\<rparr>))"

section \<open>Swap chain, preparation and resize\<close>

definition setupSwapChain :: "example \<Rightarrow> example vk" where
  "setupSwapChain E =
     bindV (create (chain E) (width E) (height E) (vsync E)) (\<lambda>(C, w, h).
       retV (E\<lparr>chain := C, width := w, height := h\<rparr>))"

definition initSwapchain :: "example \<Rightarrow> handle \<Rightarrow> u32 \<Rightarrow> example vk" where
  "initSwapchain E connection window =
     bindV (initSurface (chain E) connection window) (\<lambda>C. retV (E\<lparr>chain := C\<rparr>))"

text \<open>
  \<open>prepare\<close>, up to the preparation of the overlay. The pointers of the debug markers are global variables; they are
  kept with the members here.
\<close>

definition load_markers :: "example \<Rightarrow> example vk" where
  "load_markers E =
     (if enableDebugMarkers (vulkanDevice E) then bindV (marker_setup (ex_device E)) (\<lambda>M. retV (E\<lparr>ex_markers := M\<rparr>)) else retV E)"

definition prepare :: "hooks \<Rightarrow> example \<Rightarrow> handle \<Rightarrow> u32 \<Rightarrow> example vk" where
  "prepare H E connection window =
     bindV (load_markers E) (\<lambda>E0.
     bindV (initSwapchain E0 connection window) (\<lambda>E1.
     bindV (ex_createCommandPool E1) (\<lambda>E2.
     bindV (setupSwapChain E2) (\<lambda>E3.
     bindV (createCommandBuffers E3) (\<lambda>E4.
     bindV (createSynchronizationPrimitives E4) (\<lambda>E5.
     bindV (depth_setup H E5) (\<lambda>E6.
     bindV (pass_setup H E6) (\<lambda>E7.
     bindV (createPipelineCache E7) (\<lambda>E8.
     bindV (frame_setup H E8) (\<lambda>E9.
       retV (E9\<lparr>overlay := overlay E9 \<and> \<not> benchmark_active E9\<rparr>)))))))))))"

definition destroy_depth :: "example \<Rightarrow> unit vk" where
  "destroy_depth E =
     thenV (doV (DestroyImageView (ex_device E) (depth_view E))) (
     thenV (doV (DestroyImage (ex_device E) (depth_image E)))
       (doV (FreeMemory (ex_device E) (depth_mem E))))"

definition destroy_framebuffers :: "example \<Rightarrow> unit vk" where
  "destroy_framebuffers E = forV (frameBuffers E) (\<lambda>f. doV (DestroyFramebuffer (ex_device E) f))"

text \<open>The three parts of \<open>windowResize\<close>: swap chain, depth and frame buffers, command buffers.\<close>

definition resize_targets :: "hooks \<Rightarrow> example \<Rightarrow> example vk" where
  "resize_targets H E =
     thenV (doV (DeviceWaitIdle (ex_device E))) (
     bindV (setupSwapChain (E\<lparr>width := destWidth E, height := destHeight E\<rparr>)) (\<lambda>E1.
     thenV (destroy_depth E1) (
     bindV (depth_setup H E1) (\<lambda>E2.
     thenV (destroy_framebuffers E2) (frame_setup H E2)))))"

definition renew_commands :: "hooks \<Rightarrow> example \<Rightarrow> example vk" where
  "renew_commands H E =
     thenV (if 0 < width E \<and> 0 < height E \<and> overlay E then overlay_resize H (width E) (height E) else retV ()) (
     thenV (destroyCommandBuffers E) (
     bindV (createCommandBuffers E) (\<lambda>E1.
     thenV (buildCommandBuffers H E1) (
     thenV (doV (DeviceWaitIdle (ex_device E1))) (
     thenV (windowResized H E1) (
     thenV (viewChanged H E1) (retV E1)))))))"

definition windowResize :: "hooks \<Rightarrow> example \<Rightarrow> example vk" where
  "windowResize H E =
     (if \<not> prepared E then retV E
      else bindV (resize_targets H (E\<lparr>prepared := False\<rparr>)) (\<lambda>E1.
           bindV (renew_commands H E1) (\<lambda>E2.
             retV (E2\<lparr>prepared := True\<rparr>))))"

section \<open>Frames\<close>

abbreviation VK_ERROR_OUT_OF_DATE_KHR :: int where "VK_ERROR_OUT_OF_DATE_KHR \<equiv> - 1000001004"
abbreviation VK_SUBOPTIMAL_KHR :: int where "VK_SUBOPTIMAL_KHR \<equiv> 1000001003"

text \<open>\<open>VK_CHECK_RESULT\<close> of a result at hand.\<close>

definition check_result :: "int \<Rightarrow> unit vk" where
  "check_result r = assertV (r = VK_SUCCESS)"

definition prepareFrame :: "hooks \<Rightarrow> example \<Rightarrow> example vk" where
  "prepareFrame H E =
     bindV (acquireNextImage (chain E) (presentComplete E)) (\<lambda>(r, i).
       let E1 = E\<lparr>currentBuffer := i\<rparr>
       in if r = VK_ERROR_OUT_OF_DATE_KHR \<or> r = VK_SUBOPTIMAL_KHR then windowResize H E1
          else thenV (check_result r) (retV E1))"

definition submitFrame :: "hooks \<Rightarrow> example \<Rightarrow> example vk" where
  "submitFrame H E =
     bindV (queuePresent (chain E) (queue E) (currentBuffer E) (renderComplete E)) (\<lambda>r.
       if r = VK_ERROR_OUT_OF_DATE_KHR then windowResize H E
       else thenV (if r = VK_SUCCESS \<or> r = VK_SUBOPTIMAL_KHR then retV () else check_result r) (
            bindV (VK_CHECK_RESULT (QueueWaitIdle (queue E))) (\<lambda>_. retV E)))"

section \<open>Destruction\<close>

text \<open>\<open>~VulkanExampleBase\<close>: what it does up to the device, and with the instance, without debug messenger and window.\<close>

definition destroy_resources :: "hooks \<Rightarrow> example \<Rightarrow> unit vk" where
  "destroy_resources H E =
     bindV (cleanup (chain E)) (\<lambda>_.
     thenV (if descriptorPool E \<noteq> VK_NULL_HANDLE then doV (DestroyDescriptorPool (ex_device E) (descriptorPool E)) else retV ()) (
     thenV (destroyCommandBuffers E) (
     thenV (doV (DestroyRenderPass (ex_device E) (renderPass E))) (
     thenV (destroy_framebuffers E) (
     thenV (forV (shaderModules E) (\<lambda>m. doV (DestroyShaderModule (ex_device E) m))) (
     thenV (destroy_depth E) (
     thenV (doV (DestroyPipelineCache (ex_device E) (pipelineCache E))) (
     thenV (doV (DestroyCommandPool (ex_device E) (cmdPool E))) (
     thenV (doV (DestroySemaphore (ex_device E) (presentComplete E))) (
     thenV (doV (DestroySemaphore (ex_device E) (renderComplete E))) (
     thenV (forV (waitFences E) (\<lambda>f. doV (DestroyFence (ex_device E) f))) (
     thenV (if overlay E then overlay_free H else retV ()) (
       destroy_device (vulkanDevice E))))))))))))))"

definition destroy_example :: "hooks \<Rightarrow> example \<Rightarrow> unit vk" where
  "destroy_example H E = thenV (destroy_resources H E) (doV (DestroyInstance (instance_handle E)))"

end
