(* ===== verification/VkLogic.thy ===== *)
theory VkLogic
  imports VkOwner VkDevice
begin

text \<open>
  Three small program logics for runs against the driver, each with one rule for each operation of the monad:
  \<open>finishes\<close>, total correctness; \<open>only\<close>, what holds of the result and of every call made; \<open>balances\<close>, which
  objects are held before and after. They let a property of a long operation be proved along its text, without
  mention of the log.
\<close>

section \<open>Total correctness\<close>

definition finishes :: "driver \<Rightarrow> 'a vk \<Rightarrow> ('a \<Rightarrow> bool) \<Rightarrow> bool" where
  "finishes d m P = (\<forall>lg. \<exists>x lg'. m d lg = Inr (x, lg') \<and> P x)"

lemma finishes_weaken: "finishes d m P \<Longrightarrow> (\<And>x. P x \<Longrightarrow> Q x) \<Longrightarrow> finishes d m Q"
  unfolding finishes_def by blast

lemma finishes_ret: "P x \<Longrightarrow> finishes d (retV x) P"
  by (simp add: finishes_def run_simps)

lemma finishes_bind:
  assumes "finishes d m P" and "\<And>x. P x \<Longrightarrow> finishes d (f x) Q"
  shows "finishes d (bindV m f) Q"
  unfolding finishes_def
proof
  fix lg
  obtain x lg1 where 1: "m d lg = Inr (x, lg1)" "P x" using assms(1) unfolding finishes_def by blast
  obtain y lg2 where "f x d lg1 = Inr (y, lg2)" "Q y" using assms(2) [OF 1(2)] unfolding finishes_def by blast
  then show "\<exists>y lg'. bindV m f d lg = Inr (y, lg') \<and> Q y" using 1(1) by (simp add: bindV_def)
qed

lemma finishes_then: "finishes d m (\<lambda>_. True) \<Longrightarrow> finishes d n Q \<Longrightarrow> finishes d (thenV m n) Q"
  unfolding thenV_def by (rule finishes_bind)

lemma finishes_assert: "b \<Longrightarrow> finishes d (assertV b) (\<lambda>_. True)"
  by (simp add: finishes_def assert_eq)

lemma finishes_do: "finishes d (doV c) (\<lambda>_. True)"
  by (simp add: finishes_def do_eq)

lemma finishes_index: "i < length xs \<Longrightarrow> finishes d (indexV xs i) (\<lambda>x. x = xs ! i)"
  by (simp add: finishes_def index_eq)

lemma finishes_map:
  assumes "\<And>x. x \<in> set xs \<Longrightarrow> finishes d (f x) (\<lambda>_. True)"
  shows "finishes d (mapV f xs) (\<lambda>ys. length ys = length xs)"
  using assms
proof (induction xs)
  case (Cons x xs)
  have "finishes d (mapV f xs) (\<lambda>ys. length ys = length xs)" using Cons by simp
  then have "finishes d (bindV (mapV f xs) (\<lambda>ys. retV (y # ys))) (\<lambda>ys. length ys = length (x # xs))" for y
    by (rule finishes_bind) (simp add: finishes_ret)
  then show ?case using Cons.prems [of x] by (simp add: finishes_bind)
qed (simp add: finishes_ret)

lemma finishes_for:
  assumes "\<And>x. x \<in> set xs \<Longrightarrow> finishes d (f x) (\<lambda>_. True)"
  shows "finishes d (forV xs f) (\<lambda>_. True)"
  unfolding forV_def using finishes_map [OF assms] by (rule finishes_bind) (simp_all add: finishes_ret)

text \<open>
  A driver that offers present modes and reports success, except perhaps where an image is acquired or presented:
  there it may say that the surface no longer fits.
\<close>

definition frame_call :: "vk_call \<Rightarrow> bool" where
  [simp]: "frame_call c = (case c of AcquireNextImage _ _ _ _ \<Rightarrow> True | QueuePresent _ _ _ _ \<Rightarrow> True | _ \<Rightarrow> False)"

definition successful :: "driver \<Rightarrow> bool" where
  "successful d =
     ((\<forall>lg c. \<not> frame_call c \<longrightarrow> result_of d lg c = VK_SUCCESS) \<and>
      (\<forall>lg pd s. 0 < count_of d lg (PresentModeCount pd s)))"

lemma finishes_check: "successful d \<Longrightarrow> \<not> frame_call c \<Longrightarrow> finishes d (VK_CHECK_RESULT c) (\<lambda>_. True)"
  by (simp add: finishes_def check_eq successful_def)

lemma finishes_query: "finishes d (queryV q c) (\<lambda>x. \<exists>lg. x = q d lg c)"
  by (auto simp: finishes_def query_eq)

lemma finishes_checked_query: "successful d \<Longrightarrow> \<not> frame_call c \<Longrightarrow> finishes d (checked_query q c) (\<lambda>x. \<exists>lg. x = q d lg c)"
  by (auto simp: finishes_def checked_query_eq successful_def)

section \<open>What a returned value satisfies\<close>

definition gives :: "'a vk \<Rightarrow> ('a \<Rightarrow> bool) \<Rightarrow> bool" where
  "gives m Q = (\<forall>d lg x lg'. m d lg = Inr (x, lg') \<longrightarrow> Q x)"

lemma gives_D: "gives m Q \<Longrightarrow> m d lg = Inr (x, lg') \<Longrightarrow> Q x"
  unfolding gives_def by blast

lemma gives_weaken: "gives m P \<Longrightarrow> (\<And>x. P x \<Longrightarrow> Q x) \<Longrightarrow> gives m Q"
  unfolding gives_def by blast

lemma gives_any [simp]: "gives m (\<lambda>_. True)"
  by (simp add: gives_def)

lemma gives_ret: "gives (retV x) Q \<longleftrightarrow> Q x"
  by (simp add: gives_def run_simps)

lemma gives_bind:
  assumes "gives m P" and "\<And>x. P x \<Longrightarrow> gives (f x) Q"
  shows "gives (bindV m f) Q"
  unfolding gives_def
proof (intro allI impI)
  fix d lg y lg'
  assume "bindV m f d lg = Inr (y, lg')"
  then obtain x lg1 where "m d lg = Inr (x, lg1)" "f x d lg1 = Inr (y, lg')" by (rule bindV_InrE)
  then have "P x" using assms(1) by (blast dest: gives_D)
  then show "Q y" using assms(2) \<open>f x d lg1 = Inr (y, lg')\<close> by (blast dest: gives_D)
qed

lemma gives_bind_any: "(\<And>x. gives (f x) Q) \<Longrightarrow> gives (bindV m f) Q"
  by (rule gives_bind [OF gives_any])

lemma gives_then: "gives n Q \<Longrightarrow> gives (thenV m n) Q"
  unfolding thenV_def by (rule gives_bind_any)

lemma finishes_gives: "finishes d m P \<Longrightarrow> gives m Q \<Longrightarrow> finishes d m (\<lambda>x. P x \<and> Q x)"
  unfolding finishes_def gives_def by blast

lemma gives_map: "gives (mapV f xs) (\<lambda>ys. length ys = length xs)"
proof (induction xs)
  case (Cons x xs)
  then show ?case unfolding mapV.simps by (intro gives_bind_any gives_bind [OF Cons.IH]) (simp add: gives_ret)
qed (simp add: gives_ret)

section \<open>What holds of every call\<close>

definition only :: "(vk_call \<Rightarrow> bool) \<Rightarrow> 'a vk \<Rightarrow> ('a \<Rightarrow> bool) \<Rightarrow> bool" where
  "only P m Q = (\<forall>d lg x lg'. m d lg = Inr (x, lg') \<longrightarrow> Q x \<and> (\<exists>es. lg' = lg @ es \<and> (\<forall>e \<in> set es. P (fst e))))"

lemma only_D:
  assumes "only P m Q" and "m d lg = Inr (x, lg')"
  obtains es where "Q x" and "lg' = lg @ es" and "\<forall>e \<in> set es. P (fst e)"
  using assms unfolding only_def by blast

lemma only_weaken: "only P m Q \<Longrightarrow> (\<And>c. P c \<Longrightarrow> P' c) \<Longrightarrow> (\<And>x. Q x \<Longrightarrow> Q' x) \<Longrightarrow> only P' m Q'"
  unfolding only_def by blast

lemma only_ret: "Q x \<Longrightarrow> only P (retV x) Q"
  by (simp add: only_def run_simps)

lemma only_fail: "only P (failV e) Q"
  by (simp add: only_def run_simps)

lemma only_bind:
  assumes "only P m R" and "\<And>x. R x \<Longrightarrow> only P (f x) Q"
  shows "only P (bindV m f) Q"
  unfolding only_def
proof (intro allI impI)
  fix d lg y lg'
  assume "bindV m f d lg = Inr (y, lg')"
  then obtain x lg1 where r: "m d lg = Inr (x, lg1)" "f x d lg1 = Inr (y, lg')" by (rule bindV_InrE)
  obtain es where es: "R x" "lg1 = lg @ es" "\<forall>e \<in> set es. P (fst e)" using only_D [OF assms(1) r(1)] .
  obtain fs where fs: "Q y" "lg' = lg1 @ fs" "\<forall>e \<in> set fs. P (fst e)" using only_D [OF assms(2) [OF es(1)] r(2)] .
  then show "Q y \<and> (\<exists>es. lg' = lg @ es \<and> (\<forall>e \<in> set es. P (fst e)))" using es by (auto intro!: exI [of _ "es @ fs"])
qed

lemma only_then: "only P m (\<lambda>_. True) \<Longrightarrow> only P n Q \<Longrightarrow> only P (thenV m n) Q"
  unfolding thenV_def by (rule only_bind)

lemma only_call: "P c \<Longrightarrow> only P (callV c) (\<lambda>_. True)"
  by (simp add: only_def run_simps)

lemma only_do: "P c \<Longrightarrow> only P (doV c) (\<lambda>_. True)"
  by (simp add: only_def do_eq)

lemma only_check: "P c \<Longrightarrow> only P (VK_CHECK_RESULT c) (\<lambda>_. True)"
  by (auto simp: only_def check_eq split: if_splits)

lemma only_query: "P c \<Longrightarrow> only P (queryV q c) (\<lambda>_. True)"
  by (simp add: only_def query_eq)

lemma only_checked_query: "P c \<Longrightarrow> only P (checked_query q c) (\<lambda>_. True)"
  by (auto simp: only_def checked_query_eq split: if_splits)

lemma only_assert: "only P (assertV b) (\<lambda>_. b)"
  by (auto simp: only_def assert_eq split: if_splits)

lemma only_index: "only P (indexV xs i) (\<lambda>x. i < length xs \<and> x = xs ! i)"
  by (auto simp: only_def index_eq split: if_splits)

lemma only_map:
  assumes "\<And>x. x \<in> set xs \<Longrightarrow> only P (f x) (\<lambda>_. True)"
  shows "only P (mapV f xs) (\<lambda>ys. length ys = length xs)"
  using assms
proof (induction xs)
  case (Cons x xs)
  have "only P (mapV f xs) (\<lambda>ys. length ys = length xs)" using Cons by simp
  then have "only P (bindV (mapV f xs) (\<lambda>ys. retV (y # ys))) (\<lambda>ys. length ys = length (x # xs))" for y
    by (rule only_bind) (simp add: only_ret)
  then show ?case using Cons.prems [of x] by (simp add: only_bind)
qed (simp add: only_ret)

lemma only_for: "(\<And>x. x \<in> set xs \<Longrightarrow> only P (f x) (\<lambda>_. True)) \<Longrightarrow> only P (forV xs f) (\<lambda>_. True)"
  unfolding forV_def by (rule only_bind [OF only_map]) (simp_all add: only_ret)

text \<open>The rules without a condition on results, which decompose a whole operation into its calls.\<close>

named_theorems only_intros

abbreviation only_calls :: "(vk_call \<Rightarrow> bool) \<Rightarrow> 'a vk \<Rightarrow> bool" where
  "only_calls P m \<equiv> only P m (\<lambda>_. True)"

lemma only_calls_bind [only_intros]: "only_calls P m \<Longrightarrow> (\<And>x. only_calls P (f x)) \<Longrightarrow> only_calls P (bindV m f)"
  by (rule only_bind)

lemma only_calls_simple [only_intros]:
  "only_calls P (retV x)"
  "only_calls P (failV e)"
  "only_calls P (assertV b)"
  "only_calls P (indexV xs i)"
  by (auto intro: only_ret only_fail only_weaken [OF only_assert] only_weaken [OF only_index])

lemmas [only_intros] = only_then

lemma only_calls_cases [only_intros]:
  "(\<And>a b. only_calls P (g a b)) \<Longrightarrow> only_calls P (case p of (a, b) \<Rightarrow> g a b)"
  "(b \<Longrightarrow> only_calls P m) \<Longrightarrow> (\<not> b \<Longrightarrow> only_calls P m') \<Longrightarrow> only_calls P (if b then m else m')"
  "only_calls P n \<Longrightarrow> (\<And>y. only_calls P (f y)) \<Longrightarrow> only_calls P (case q of None \<Rightarrow> n | Some y \<Rightarrow> f y)"
  by (auto split: option.split prod.split)

lemma only_calls_map [only_intros]: "(\<And>x. x \<in> set xs \<Longrightarrow> only_calls P (f x)) \<Longrightarrow> only_calls P (mapV f xs)"
  by (auto intro: only_weaken [OF only_map])

lemmas [only_intros] = only_for

lemmas only_calls_events [only_intros] = only_call only_do only_check only_query only_checked_query

text \<open>The search for a memory type calls nothing.\<close>

lemma memory_type_loop_log: "memory_type_loop ts tb p i n d lg = Inr (r, lg') \<Longrightarrow> lg' = lg"
  by (induction n arbitrary: tb i) (auto simp: bindV_eq_Inr index_eq run_simps split: if_splits)

lemma getMemoryType_log: "getMemoryType D tb p d lg = Inr (i, lg') \<Longrightarrow> lg' = lg"
  by (auto simp: getMemoryType_def bindV_eq_Inr run_simps dest: memory_type_loop_log split: option.splits)

lemma only_memory_type [only_intros]: "only_calls P (getMemoryType D tb p)"
  by (auto simp: only_def dest: getMemoryType_log)

section \<open>Objects held\<close>

text \<open>
  Started with the objects \<open>A\<close> of a kind, a run that returns \<open>x\<close> leaves objects \<open>B\<close> with \<open>Q x B\<close>, and never
  frees one that was not there. The drivers are those that write a handle where they report success.
\<close>

definition balances ::
  "(vk_call \<Rightarrow> bool) \<Rightarrow> (vk_call \<Rightarrow> handle option) \<Rightarrow> 'a vk \<Rightarrow> handle multiset \<Rightarrow> ('a \<Rightarrow> handle multiset \<Rightarrow> bool) \<Rightarrow> bool" where
  "balances mk fr m A Q =
     (\<forall>d lg x lg'. nonnull d \<longrightarrow> m d lg = Inr (x, lg') \<longrightarrow>
        (\<exists>es B. lg' = lg @ es \<and> owns (made_by mk) (freed_by fr) es A B \<and> Q x B))"

lemma balances_D:
  assumes "balances mk fr m A Q" and "nonnull d" and "m d lg = Inr (x, lg')"
  obtains es B where "lg' = lg @ es" and "owns (made_by mk) (freed_by fr) es A B" and "Q x B"
  using assms unfolding balances_def by blast

lemma balances_weaken: "balances mk fr m A Q \<Longrightarrow> (\<And>x B. Q x B \<Longrightarrow> Q' x B) \<Longrightarrow> balances mk fr m A Q'"
  unfolding balances_def by blast

lemma balances_ret: "Q x A \<Longrightarrow> balances mk fr (retV x) A Q"
  by (auto simp: balances_def run_simps intro!: exI [of _ "[]"])

lemma balances_fail: "balances mk fr (failV e) A Q"
  by (simp add: balances_def run_simps)

lemma balances_bind:
  assumes "balances mk fr m A R" and "\<And>x B. R x B \<Longrightarrow> balances mk fr (f x) B Q"
  shows "balances mk fr (bindV m f) A Q"
  unfolding balances_def
proof (intro allI impI)
  fix d lg y lg'
  assume d: "nonnull d" and "bindV m f d lg = Inr (y, lg')"
  then obtain x lg1 where r: "m d lg = Inr (x, lg1)" "f x d lg1 = Inr (y, lg')" by (elim bindV_InrE)
  obtain es B where es: "lg1 = lg @ es" "owns (made_by mk) (freed_by fr) es A B" "R x B"
    using balances_D [OF assms(1) d r(1)] .
  obtain fs C where fs: "lg' = lg1 @ fs" "owns (made_by mk) (freed_by fr) fs B C" "Q y C"
    using balances_D [OF assms(2) [OF es(3)] d r(2)] .
  show "\<exists>es B. lg' = lg @ es \<and> owns (made_by mk) (freed_by fr) es A B \<and> Q y B"
    using es(1) fs(1,3) owns_append [OF es(2) fs(2)] by (intro exI [of _ "es @ fs"] exI [of _ C]) simp
qed

lemma balances_then:
  "balances mk fr m A (\<lambda>_ B. R B) \<Longrightarrow> (\<And>B. R B \<Longrightarrow> balances mk fr n B Q) \<Longrightarrow> balances mk fr (thenV m n) A Q"
  unfolding thenV_def by (rule balances_bind)

text \<open>Calls that neither make nor free.\<close>

lemma balances_quiet:
  assumes "only (\<lambda>c. \<not> mk c \<and> fr c = None) m Q"
  shows "balances mk fr m A (\<lambda>x B. Q x \<and> B = A)"
  unfolding balances_def
proof (intro allI impI)
  fix d lg x lg'
  assume "m d lg = Inr (x, lg')"
  then obtain es where "Q x" "lg' = lg @ es" "\<forall>e \<in> set es. \<not> mk (fst e) \<and> fr (fst e) = None"
    by (rule only_D [OF assms])
  then show "\<exists>es B. lg' = lg @ es \<and> owns (made_by mk) (freed_by fr) es A B \<and> Q x \<and> B = A"
    using owns_neither by blast
qed

text \<open>A call that frees an object that is held, or the null handle.\<close>

lemma balances_free:
  assumes "fr c = Some h" and "\<not> mk c"
  shows "balances mk fr (doV c) (A + objects [h]) (\<lambda>_ B. B = A)"
  unfolding balances_def
proof (intro allI impI)
  fix d lg u lg'
  assume "doV c d lg = Inr (u, lg')"
  then have "lg' = lg @ [(c, result_of d lg c, handle_of d lg c)]" by (simp add: do_eq)
  moreover have "owns (made_by mk) (freed_by fr) [(c, result_of d lg c, handle_of d lg c)] (A + objects [h]) A"
    using owns_free [of mk c fr h "[]" A A] assms by simp
  ultimately show "\<exists>es B. lg' = lg @ es \<and> owns (made_by mk) (freed_by fr) es (A + objects [h]) B \<and> B = A" by blast
qed

text \<open>A call that makes an object.\<close>

lemma balances_make:
  assumes "mk c" and "fr c = None"
  shows "balances mk fr (VK_CHECK_RESULT c) A (\<lambda>h B. h \<noteq> VK_NULL_HANDLE \<and> B = A + objects [h])"
  unfolding balances_def
proof (intro allI impI)
  fix d lg h lg'
  assume d: "nonnull d" and "VK_CHECK_RESULT c d lg = Inr (h, lg')"
  then have e: "lg' = lg @ [(c, VK_SUCCESS, h)]" "h = handle_of d lg c" "result_of d lg c = VK_SUCCESS"
    by (auto simp: check_eq split: if_splits)
  then have "h \<noteq> VK_NULL_HANDLE" using d by (simp add: nonnull_def)
  moreover have "owns (made_by mk) (freed_by fr) [(c, VK_SUCCESS, h)] A (A + objects [h])"
    using owns_make [of mk c fr "[]" A h "A + objects [h]"] assms by simp
  ultimately show "\<exists>es B. lg' = lg @ es \<and> owns (made_by mk) (freed_by fr) es A B \<and> h \<noteq> VK_NULL_HANDLE \<and> B = A + objects [h]"
    using e(1) by blast
qed

lemma balances_map_make:
  assumes "\<And>x A. x \<in> set xs \<Longrightarrow> balances mk fr (f x) A (\<lambda>h B. B = A + objects [h])"
  shows "balances mk fr (mapV f xs) A (\<lambda>hs B. length hs = length xs \<and> B = A + objects hs)"
  using assms
proof (induction xs arbitrary: A)
  case (Cons x xs)
  have tail: "balances mk fr (mapV f xs) B (\<lambda>hs C. length hs = length xs \<and> C = B + objects hs)" for B
    using Cons by simp
  have "balances mk fr (bindV (mapV f xs) (\<lambda>hs. retV (h # hs))) (A + objects [h])
      (\<lambda>hs B. length hs = length (x # xs) \<and> B = A + objects hs)" for h
    by (rule balances_bind [OF tail]) (auto intro!: balances_ret split: if_splits)
  then have rest: "\<And>h B. B = A + objects [h] \<Longrightarrow> balances mk fr (bindV (mapV f xs) (\<lambda>hs. retV (h # hs))) B
      (\<lambda>hs B. length hs = length (x # xs) \<and> B = A + objects hs)" by (simp only:)
  have "balances mk fr (f x) A (\<lambda>h B. B = A + objects [h])" by (rule Cons.prems) simp
  then show ?case unfolding mapV.simps by (rule balances_bind) (rule rest)
qed (simp add: balances_ret)

lemma balances_for_free:
  assumes "\<And>x. x \<in> set xs \<Longrightarrow> fr (c x) = Some (h x) \<and> \<not> mk (c x)"
  shows "balances mk fr (forV xs (\<lambda>x. doV (c x))) (A + objects (map h xs)) (\<lambda>_ B. B = A)"
  unfolding forV_def
proof (rule balances_bind)
  show "balances mk fr (mapV (\<lambda>x. doV (c x)) xs) (A + objects (map h xs)) (\<lambda>_ B. B = A)"
    using assms
  proof (induction xs)
    case (Cons x xs)
    have "balances mk fr (doV (c x)) ((A + objects (map h xs)) + objects [h x]) (\<lambda>_ B. B = A + objects (map h xs))"
      using Cons.prems [of x] by (intro balances_free) simp_all
    then have first: "balances mk fr (doV (c x)) (A + objects (map h (x # xs))) (\<lambda>_ B. B = A + objects (map h xs))"
      by (simp split: if_splits)
    show ?case unfolding mapV.simps
    proof (rule balances_bind [OF first])
      fix u B assume "B = A + objects (map h xs)"
      then have "balances mk fr (mapV (\<lambda>x. doV (c x)) xs) B (\<lambda>_ B. B = A)" using Cons by simp
      then show "balances mk fr (bindV (mapV (\<lambda>x. doV (c x)) xs) (\<lambda>ys. retV (u # ys))) B (\<lambda>_ B. B = A)"
        by (rule balances_bind) (simp add: balances_ret)
    qed
  qed (simp add: balances_ret)
qed (simp add: balances_ret)

end
