(* ===== verification/VkExampleRun.thy ===== *)
theory VkExampleRun
  imports VkExample VkSwapRun VkDeviceRun VkLogic
begin

text \<open>The calls made by the operations on the window's resources, and what a resize leaves behind.\<close>

section \<open>The calls of the single operations\<close>

text \<open>
  The setup of a depth buffer with the image asked for, the device whose memory types are searched and the view left
  open: that of the base class and the override of the triangle differ only in these.
\<close>

definition depth_run :: "(example \<Rightarrow> vulkan_device) \<Rightarrow> (example \<Rightarrow> handle \<Rightarrow> view_info) \<Rightarrow> example \<Rightarrow> example vk" where
  "depth_run D view E =
     bindV (VK_CHECK_RESULT (CreateImage (ex_device E)
        \<lparr>img_format = depthFormat E, img_extent = (width E, height E),
         img_usage = VK_IMAGE_USAGE_DEPTH_STENCIL_ATTACHMENT_BIT OR VK_IMAGE_USAGE_TRANSFER_SRC_BIT\<rparr>)) (\<lambda>img.
     bindV (queryV reqs_of (GetImageMemoryRequirements (ex_device E) img)) (\<lambda>reqs.
     bindV (getMemoryType (D E) (r_typeBits reqs) VK_MEMORY_PROPERTY_DEVICE_LOCAL_BIT) (\<lambda>ti.
     bindV (VK_CHECK_RESULT (AllocateMemory (ex_device E) (r_size reqs) ti)) (\<lambda>mem.
     bindV (VK_CHECK_RESULT (BindImageMemory (ex_device E) img mem 0)) (\<lambda>_.
     bindV (VK_CHECK_RESULT (CreateImageView (ex_device E) (view E img))) (\<lambda>v.
       retV (E\<lparr>depth_image := img, depth_mem := mem, depth_view := v\<rparr>)))))))"

lemma base_depth_run: "setupDepthStencil = depth_run vulkanDevice (\<lambda>E. depth_view_info (depthFormat E))"
  by (simp add: fun_eq_iff setupDepthStencil_def depth_run_def)

definition depth_calls :: "(example \<Rightarrow> handle \<Rightarrow> view_info) \<Rightarrow> example \<Rightarrow> handle \<Rightarrow> handle \<Rightarrow> u64 \<Rightarrow> u32 \<Rightarrow> vk_call list" where
  "depth_calls view E img mem sz ti =
     [CreateImage (ex_device E) \<lparr>img_format = depthFormat E, img_extent = (width E, height E),
        img_usage = VK_IMAGE_USAGE_DEPTH_STENCIL_ATTACHMENT_BIT OR VK_IMAGE_USAGE_TRANSFER_SRC_BIT\<rparr>,
      GetImageMemoryRequirements (ex_device E) img, AllocateMemory (ex_device E) sz ti,
      BindImageMemory (ex_device E) img mem 0, CreateImageView (ex_device E) (view E img)]"

lemma depth_run_InrD:
  assumes "depth_run D view E d lg = Inr (E', lg')"
  shows "\<exists>img mem v sz ti r1 r2. E' = E\<lparr>depth_image := img, depth_mem := mem, depth_view := v\<rparr> \<and>
    lg' = lg @ zip (depth_calls view E img mem sz ti) [(VK_SUCCESS, img), r1, (VK_SUCCESS, mem), r2, (VK_SUCCESS, v)]"
proof -
  let ?c = "CreateImage (ex_device E) \<lparr>img_format = depthFormat E, img_extent = (width E, height E),
        img_usage = VK_IMAGE_USAGE_DEPTH_STENCIL_ATTACHMENT_BIT OR VK_IMAGE_USAGE_TRANSFER_SRC_BIT\<rparr>"
  obtain img lg1 where 1: "lg1 = lg @ [(?c, VK_SUCCESS, img)]" "VK_CHECK_RESULT ?c d lg = Inr (img, lg1)"
    using assms by (auto simp: depth_run_def bindV_eq_Inr check_eq split: if_splits)
  let ?q = "GetImageMemoryRequirements (ex_device E) img"
  define reqs where "reqs = reqs_of d lg1 ?q"
  define lg2 where "lg2 = lg1 @ [(?q, result_of d lg1 ?q, handle_of d lg1 ?q)]"
  obtain ti lg3 mem lg4 lg5 v where 2: "getMemoryType (D E) (r_typeBits reqs) VK_MEMORY_PROPERTY_DEVICE_LOCAL_BIT d lg2 = Inr (ti, lg3)"
      "VK_CHECK_RESULT (AllocateMemory (ex_device E) (r_size reqs) ti) d lg3 = Inr (mem, lg4)"
      "VK_CHECK_RESULT (BindImageMemory (ex_device E) img mem 0) d lg4 = Inr lg5"
      "VK_CHECK_RESULT (CreateImageView (ex_device E) (view E img)) d (snd lg5) = Inr (v, lg')"
      "E' = E\<lparr>depth_image := img, depth_mem := mem, depth_view := v\<rparr>"
    using assms 1(2) unfolding depth_run_def
    by (auto simp: bindV_eq_Inr query_eq run_simps reqs_def lg2_def)
  have "lg3 = lg2" by (rule getMemoryType_log [OF 2(1)])
  then obtain r2 where "lg' = lg2 @ [(AllocateMemory (ex_device E) (r_size reqs) ti, VK_SUCCESS, mem),
      (BindImageMemory (ex_device E) img mem 0, r2), (CreateImageView (ex_device E) (view E img), VK_SUCCESS, v)]"
    using 2(2-4) by (auto simp: check_eq split: if_splits)
  then have "lg' = lg @ zip (depth_calls view E img mem (r_size reqs) ti)
      [(VK_SUCCESS, img), (result_of d lg1 ?q, handle_of d lg1 ?q), (VK_SUCCESS, mem), r2, (VK_SUCCESS, v)]"
    by (simp add: depth_calls_def lg2_def 1(1))
  then show ?thesis using 2(5) by blast
qed

lemma setupFrameBuffer_InrD:
  assumes "setupFrameBuffer E d lg = Inr (E', lg')"
  shows "\<exists>fbs es. E' = E\<lparr>frameBuffers := fbs\<rparr> \<and> lg' = lg @ es \<and>
    length fbs = unat (imageCount (chain E)) \<and> unat (imageCount (chain E)) \<le> length (buffers (chain E)) \<and>
    list_all2 (\<lambda>e (f, b). e = (CreateFramebuffer (ex_device E)
        \<lparr>fb_renderPass = renderPass E, fb_attachments = [snd b, depth_view E], fb_extent = (width E, height E)\<rparr>, VK_SUCCESS, f))
      es (zip fbs (buffers (chain E)))"
proof -
  let ?n = "unat (imageCount (chain E))" and ?bs = "buffers (chain E)"
  let ?call = "\<lambda>b. CreateFramebuffer (ex_device E)
        \<lparr>fb_renderPass = renderPass E, fb_attachments = [snd b, depth_view E], fb_extent = (width E, height E)\<rparr>"
  obtain fbs where f: "mapV (\<lambda>i. bindV (indexV ?bs i) (\<lambda>b. VK_CHECK_RESULT (?call b))) [0 ..< ?n] d lg = Inr (fbs, lg')"
      "E' = E\<lparr>frameBuffers := fbs\<rparr>"
    using assms by (auto simp: setupFrameBuffer_def bindV_eq_Inr run_simps)
  have "\<exists>es. lg' = lg @ es \<and> length es = length [0 ..< ?n] \<and> length fbs = length [0 ..< ?n] \<and>
      (\<forall>i < length [0 ..< ?n]. [0 ..< ?n] ! i < length ?bs \<and> es ! i = (?call (?bs ! ([0 ..< ?n] ! i)), VK_SUCCESS, fbs ! i))"
    by (rule mapV_events [OF f(1)]) (auto simp: bindV_eq_Inr index_eq check_eq split: if_splits)
  then obtain es where es: "lg' = lg @ es" "length es = ?n" "length fbs = ?n"
      "\<forall>i < ?n. i < length ?bs \<and> es ! i = (?call (?bs ! i), VK_SUCCESS, fbs ! i)" by auto
  have n: "?n \<le> length ?bs" using es(4) by (meson leI order_less_irrefl)
  have "list_all2 (\<lambda>e (f, b). e = (?call b, VK_SUCCESS, f)) es (zip fbs ?bs)"
    using es n by (auto simp: list_all2_conv_all_nth)
  then show ?thesis using f(2) es(1,3) n by blast
qed

lemma createCommandBuffers_InrD:
  assumes "createCommandBuffers E d lg = Inr (E', lg')"
  shows "\<exists>cs r. E' = E\<lparr>drawCmdBuffers := cs\<rparr> \<and> length cs = unat (imageCount (chain E)) \<and>
    lg' = lg @ [(AllocateCommandBuffers (ex_device E) (cmdPool E) VK_COMMAND_BUFFER_LEVEL_PRIMARY (imageCount (chain E)), r)]"
  using assms
  by (auto simp: createCommandBuffers_def Let_def bindV_eq_Inr checked_query_eq run_simps commandBufferAllocateInfo_def
      split: if_splits)

lemma for_each_InrD:
  assumes "forV xs (\<lambda>x. doV (c x)) d lg = Inr (u, lg')"
  shows "\<exists>es. lg' = lg @ es \<and> list_all2 (\<lambda>e x. fst e = c x) es xs"
proof -
  obtain us where us: "mapV (\<lambda>x. doV (c x)) xs d lg = Inr (us, lg')" using assms unfolding forV_eq by blast
  have "\<exists>es. lg' = lg @ es \<and> length es = length xs \<and> length us = length xs \<and> (\<forall>i < length xs. fst (es ! i) = c (xs ! i))"
    by (rule mapV_events [OF us]) (auto simp: do_eq)
  then show ?thesis by (auto simp: list_all2_conv_all_nth)
qed

lemma destroy_framebuffers_InrD:
  assumes "destroy_framebuffers E d lg = Inr (u, lg')"
  shows "\<exists>es. lg' = lg @ es \<and> list_all2 (\<lambda>e f. fst e = DestroyFramebuffer (ex_device E) f) es (frameBuffers E)"
  using for_each_InrD assms unfolding destroy_framebuffers_def .

lemma destroy_depth_InrD:
  assumes "destroy_depth E d lg = Inr (u, lg')"
  shows "\<exists>r1 r2 r3. lg' = lg @ [(DestroyImageView (ex_device E) (depth_view E), r1),
    (DestroyImage (ex_device E) (depth_image E), r2), (FreeMemory (ex_device E) (depth_mem E), r3)]"
  using assms by (auto simp: destroy_depth_def run_simps bindV_eq_Inr do_eq)

section \<open>What a hook may do\<close>

text \<open>
  Calls that make or free what the base class holds for the window, and the acquisition of an image. A hook is
  quiet if it makes none of them and adds its calls to the log.
\<close>

definition window_call :: "vk_call \<Rightarrow> bool" where
  [simp]: "window_call c = (case c of
     CreateFramebuffer _ _ \<Rightarrow> True | DestroyFramebuffer _ _ \<Rightarrow> True | CreateImage _ _ \<Rightarrow> True | DestroyImage _ _ \<Rightarrow> True
   | AllocateMemory _ _ _ \<Rightarrow> True | FreeMemory _ _ \<Rightarrow> True | AcquireNextImage _ _ _ _ \<Rightarrow> True | _ \<Rightarrow> False)"

text \<open>
  A setup of the depth buffer: it makes an image, its memory and a view of it by the five calls there are for that,
  and keeps all else. The base class has one, and an example may override it with another.
\<close>

definition depth_call :: "vk_call \<Rightarrow> bool" where
  [simp]: "depth_call c = (case c of
     CreateImage _ _ \<Rightarrow> True | GetImageMemoryRequirements _ _ \<Rightarrow> True | AllocateMemory _ _ _ \<Rightarrow> True
   | BindImageMemory _ _ _ _ \<Rightarrow> True | CreateImageView _ _ \<Rightarrow> True | _ \<Rightarrow> False)"

definition depth_made :: "example \<Rightarrow> event list \<Rightarrow> bool" where
  "depth_made E es =
     ((\<forall>e \<in> set es. depth_call (fst e)) \<and> (\<exists>i. (CreateImage (ex_device E) i, VK_SUCCESS, depth_image E) \<in> set es) \<and>
      (\<exists>sz ti. (AllocateMemory (ex_device E) sz ti, VK_SUCCESS, depth_mem E) \<in> set es) \<and>
      (\<exists>i. view_image i = depth_image E \<and> (CreateImageView (ex_device E) i, VK_SUCCESS, depth_view E) \<in> set es))"

definition sets_up_depth :: "(example \<Rightarrow> example vk) \<Rightarrow> bool" where
  "sets_up_depth f =
     (\<forall>E d lg E' lg'. f E d lg = Inr (E', lg') \<longrightarrow>
        (\<exists>i m v es. E' = E\<lparr>depth_image := i, depth_mem := m, depth_view := v\<rparr> \<and> lg' = lg @ es \<and> depth_made E' es))"

lemma sets_up_depthD:
  assumes "sets_up_depth f" and "f E d lg = Inr (E', lg')"
  obtains i m v es where "E' = E\<lparr>depth_image := i, depth_mem := m, depth_view := v\<rparr>" and "lg' = lg @ es" and "depth_made E' es"
  using assms unfolding sets_up_depth_def by blast

lemma depth_run_sets_up:
  assumes "\<And>E img. view_image (view E img) = img"
  shows "sets_up_depth (depth_run D view)"
  unfolding sets_up_depth_def
proof (intro allI impI)
  fix E E' :: example and d lg lg'
  assume r: "depth_run D view E d lg = Inr (E', lg')"
  obtain img mem v sz ti r1 r2 where s: "E' = E\<lparr>depth_image := img, depth_mem := mem, depth_view := v\<rparr>"
      "lg' = lg @ zip (depth_calls view E img mem sz ti) [(VK_SUCCESS, img), r1, (VK_SUCCESS, mem), r2, (VK_SUCCESS, v)]"
    using depth_run_InrD [OF r] by blast
  have "depth_made E' (zip (depth_calls view E img mem sz ti) [(VK_SUCCESS, img), r1, (VK_SUCCESS, mem), r2, (VK_SUCCESS, v)])"
    unfolding depth_made_def depth_calls_def s(1)
    by (intro conjI exI [of _ sz] exI [of _ ti] exI [of _ "view E img"]) (auto simp: assms)
  then show "\<exists>i m v es. E' = E\<lparr>depth_image := i, depth_mem := m, depth_view := v\<rparr> \<and> lg' = lg @ es \<and> depth_made E' es"
    using s by blast
qed

lemma base_sets_up_depth: "sets_up_depth setupDepthStencil"
  unfolding base_depth_run by (rule depth_run_sets_up) (simp add: depth_view_info_def)

definition quiet :: "unit vk \<Rightarrow> bool" where
  "quiet m = only (\<lambda>c. \<not> window_call c) m (\<lambda>_. True)"

definition hooks_quiet :: "hooks \<Rightarrow> bool" where
  "hooks_quiet H =
     (sets_up_depth (depth_setup H) \<and> frame_setup H = setupFrameBuffer \<and> (\<forall>E. quiet (buildCommandBuffers H E)) \<and> (\<forall>E. quiet (windowResized H E)) \<and> (\<forall>E. quiet (viewChanged H E)) \<and>
      (\<forall>w h. quiet (overlay_resize H w h)))"

lemma quiet_ret [simp]: "quiet (retV ())"
  by (simp add: quiet_def only_ret)

lemma quiet_do [simp]: "quiet (doV c) \<longleftrightarrow> \<not> window_call c"
  by (auto simp: quiet_def only_def do_eq)

lemma quiet_then: "quiet m \<Longrightarrow> quiet n \<Longrightarrow> quiet (thenV m n)"
  unfolding quiet_def by (rule only_then)

lemma quiet_InrD:
  assumes "quiet m" and "m d lg = Inr (u, lg')"
  obtains es where "lg' = lg @ es" and "\<forall>e \<in> set es. \<not> window_call (fst e)"
  using only_D assms unfolding quiet_def .

section \<open>The parts of a resize\<close>

definition fb_call :: "example \<Rightarrow> handle \<times> handle \<Rightarrow> vk_call" where
  "fb_call E b = CreateFramebuffer (ex_device E)
     \<lparr>fb_renderPass = renderPass E, fb_attachments = [snd b, depth_view E], fb_extent = (width E, height E)\<rparr>"

lemma renew_commands_InrD:
  assumes "renew_commands H E d lg = Inr (E', lg')" and "hooks_quiet H"
  shows "\<exists>cs es. E' = E\<lparr>drawCmdBuffers := cs\<rparr> \<and> length cs = unat (imageCount (chain E)) \<and>
    lg' = lg @ es \<and> (\<forall>e \<in> set es. \<not> window_call (fst e))"
proof -
  let ?first = "thenV (if 0 < width E \<and> 0 < height E \<and> overlay E then overlay_resize H (width E) (height E) else retV ())
      (destroyCommandBuffers E)"
  let ?last = "\<lambda>E1. thenV (buildCommandBuffers H E1) (thenV (doV (DeviceWaitIdle (ex_device E1)))
      (thenV (windowResized H E1) (viewChanged H E1)))"
  obtain lg1 E1 lg2 where r: "?first d lg = Inr ((), lg1)" "createCommandBuffers E d lg1 = Inr (E1, lg2)"
      "?last E1 d lg2 = Inr ((), lg')" "E' = E1"
    using assms(1) by (auto simp: renew_commands_def run_simps bindV_eq_Inr simp del: if_split split del: if_split)
  have "quiet ?first" using assms(2) by (intro quiet_then) (simp_all add: hooks_quiet_def destroyCommandBuffers_def)
  then obtain es1 where es1: "lg1 = lg @ es1" "\<forall>e \<in> set es1. \<not> window_call (fst e)" using r(1) by (rule quiet_InrD)
  obtain cs q where c: "E1 = E\<lparr>drawCmdBuffers := cs\<rparr>" "length cs = unat (imageCount (chain E))"
      "lg2 = lg1 @ [(AllocateCommandBuffers (ex_device E) (cmdPool E) VK_COMMAND_BUFFER_LEVEL_PRIMARY (imageCount (chain E)), q)]"
    using createCommandBuffers_InrD [OF r(2)] by blast
  have "quiet (?last E1)" using assms(2) by (intro quiet_then) (simp_all add: hooks_quiet_def)
  then obtain es3 where es3: "lg' = lg2 @ es3" "\<forall>e \<in> set es3. \<not> window_call (fst e)" using r(3) by (rule quiet_InrD)
  show ?thesis using c es1 es3 r(4)
    by (intro exI [of _ cs] exI [of _ "es1 @ (AllocateCommandBuffers (ex_device E) (cmdPool E) VK_COMMAND_BUFFER_LEVEL_PRIMARY
        (imageCount (chain E)), q) # es3"]) auto
qed

text \<open>The calls that destroy what a resize renews.\<close>

definition frees_target :: "vk_call \<Rightarrow> bool" where
  [simp]: "frees_target c = (case c of
     DestroyImageView _ _ \<Rightarrow> True | DestroyImage _ _ \<Rightarrow> True | FreeMemory _ _ \<Rightarrow> True | DestroyFramebuffer _ _ \<Rightarrow> True | _ \<Rightarrow> False)"

lemma filter_none: "\<forall>e \<in> set es. \<not> P (fst e) \<Longrightarrow> filter P (map fst es) = []"
  by (auto simp: filter_empty_conv)

lemma filter_calls: "list_all2 (\<lambda>e x. fst e = c x) es xs \<Longrightarrow> (\<And>x. P (c x)) \<Longrightarrow> filter P (map fst es) = map c xs"
  by (induction rule: list_all2_induct) simp_all

text \<open>The calls of \<open>create\<close>, which touch none of the other resources but the views of the old swap chain.\<close>

lemma create_quiet:
  assumes "create C w0 h0 vs d lg = Inr ((C', w, h), lg')"
  shows "unat (imageCount C') \<le> length (buffers C') \<and>
    (w, h) = chosen_extent (caps_of d lg (SurfaceCapabilities (sc_physical C) (surface C))) w0 h0 \<and>
    (\<exists>es. lg' = lg @ es \<and> (\<forall>e \<in> set es. \<not> window_call (fst e)) \<and>
      filter frees_target (map fst es) = map (DestroyImageView (sc_device C)) (held_views C) \<and>
      (\<exists>i. (CreateSwapchain (sc_device C) i, VK_SUCCESS, swapChain C') \<in> set es))"
proof -
  obtain caps n l sc q1 q2 q3 es1 old q4 q5 es2 where c:
    "lg' = lg @ [(SurfaceCapabilities (sc_physical C) (surface C), q1), (PresentModeCount (sc_physical C) (surface C), q2),
        (PresentModes (sc_physical C) (surface C), q3),
        (CreateSwapchain (sc_device C) (swapchain_create_info C caps
           (take (unat (written_count n l)) (filled_array n 0 l)) w0 h0 vs), VK_SUCCESS, sc)] @
      es1 @ old @ [(SwapchainImageCount (sc_device C) sc, q4), (SwapchainImages (sc_device C) sc, q5)] @ es2"
    "releases_views C es1"
    "list_all2 (\<lambda>e c. fst e = c) old
      (if swapChain C \<noteq> VK_NULL_HANDLE then [DestroySwapchain (sc_device C) (swapChain C)] else [])"
    "list_all2 (\<lambda>e b. e = (CreateImageView (sc_device C) (color_view (colorFormat C) (fst b)), VK_SUCCESS, snd b))
      es2 (take (unat (imageCount C')) (buffers C'))"
    "unat (imageCount C') \<le> length (buffers C')" "swapChain C' = sc"
    using create_InrD [OF assms] by (elim exE conjE) (erule that; assumption)
  have e1: "\<forall>e \<in> set es1. \<not> window_call (fst e)"
    using list_all2_left [OF c(2) [unfolded releases_views_def]] by fastforce
  have e2: "\<forall>e \<in> set es2. \<not> window_call (fst e)" using list_all2_left [OF c(4)] by fastforce
  have o: "\<forall>e \<in> set old. \<not> window_call (fst e)" using c(3) by (auto simp: list_all2_Cons2 split: if_splits)
  have "filter frees_target (map fst es1) = map (DestroyImageView (sc_device C)) (held_views C)"
    using c(2) unfolding releases_views_def by (rule filter_calls) simp
  moreover have "filter frees_target (map fst es2) = []" using list_all2_left [OF c(4)] by (intro filter_none) fastforce
  moreover have "filter frees_target (map fst old) = []" using c(3) by (auto simp: list_all2_Cons2 split: if_splits)
  moreover have "(w, h) = chosen_extent (caps_of d lg (SurfaceCapabilities (sc_physical C) (surface C))) w0 h0"
    using assms by (auto simp: create_def bindV_eq_Inr checked_query_eq run_simps Let_def split: if_splits prod.splits)
  ultimately show ?thesis using c(1,5,6) e1 e2 o by auto
qed

definition renewed :: "example \<Rightarrow> example \<Rightarrow> event list \<Rightarrow> bool" where
  "renewed E E' es =
     (\<exists>a b1 b2 b3 dep fs gs.
        es = a @ [(DestroyImageView (ex_device E) (depth_view E), b1), (DestroyImage (ex_device E) (depth_image E), b2),
                  (FreeMemory (ex_device E) (depth_mem E), b3)] @ dep @ fs @ gs \<and>
        (\<forall>e \<in> set a. \<not> window_call (fst e)) \<and>
        filter frees_target (map fst a) = map (DestroyImageView (sc_device (chain E))) (held_views (chain E)) \<and>
        (\<exists>i. (CreateSwapchain (sc_device (chain E)) i, VK_SUCCESS, swapChain (chain E')) \<in> set a) \<and>
        depth_made E' dep \<and>
        list_all2 (\<lambda>e f. fst e = DestroyFramebuffer (ex_device E) f) fs (frameBuffers E) \<and>
        list_all2 (\<lambda>e (f, b). e = (fb_call E' b, VK_SUCCESS, f)) gs (zip (frameBuffers E') (buffers (chain E'))))"

text \<open>What stays as it was: everything but the swap chain, the size, the depth buffer and the frame buffers.\<close>

definition same_but_targets :: "example \<Rightarrow> example \<Rightarrow> bool" where
  "same_but_targets E E' =
     (\<exists>C w h i m v fbs. E' = E\<lparr>chain := C, width := w, height := h, depth_image := i, depth_mem := m, depth_view := v,
        frameBuffers := fbs\<rparr>)"

lemma resize_targets_InrD:
  assumes "resize_targets H E d lg = Inr (E', lg')" and "sets_up_depth (depth_setup H)" and "frame_setup H = setupFrameBuffer"
  shows "same_but_targets E E' \<and> (\<exists>es. lg' = lg @ es \<and> renewed E E' es) \<and>
    length (frameBuffers E') = unat (imageCount (chain E')) \<and>
    unat (imageCount (chain E')) \<le> length (buffers (chain E')) \<and>
    (\<exists>caps. (width E', height E') = chosen_extent caps (destWidth E) (destHeight E))"
proof -
  let ?E0 = "E\<lparr>width := destWidth E, height := destHeight E\<rparr>"
  obtain lg1 E1 lg2 lg3 E2 lg4 lg5 where r: "doV (DeviceWaitIdle (ex_device E)) d lg = Inr ((), lg1)"
      "setupSwapChain ?E0 d lg1 = Inr (E1, lg2)" "destroy_depth E1 d lg2 = Inr ((), lg3)"
      "depth_setup H E1 d lg3 = Inr (E2, lg4)" "destroy_framebuffers E2 d lg4 = Inr ((), lg5)"
      "setupFrameBuffer E2 d lg5 = Inr (E', lg')"
    using assms(1,3) by (auto simp: resize_targets_def run_simps bindV_eq_Inr)
  obtain C w h where c: "create (chain E) (destWidth E) (destHeight E) (vsync E) d lg1 = Inr ((C, w, h), lg2)"
      "E1 = E\<lparr>chain := C, width := w, height := h\<rparr>"
    using r(2) by (auto simp: setupSwapChain_def bindV_eq_Inr run_simps)
  note q = create_quiet [OF c(1)]
  obtain es1 i where es1: "lg2 = lg1 @ es1" "\<forall>e \<in> set es1. \<not> window_call (fst e)"
      "(CreateSwapchain (sc_device (chain E)) i, VK_SUCCESS, swapChain C) \<in> set es1"
      "filter frees_target (map fst es1) = map (DestroyImageView (sc_device (chain E))) (held_views (chain E))" using q by blast
  obtain e0 where e0: "lg1 = lg @ [e0]" "\<not> window_call (fst e0)" "\<not> frees_target (fst e0)" using r(1) by (auto simp: do_eq)
  obtain b1 b2 b3 where b: "lg3 = lg2 @ [(DestroyImageView (ex_device E1) (depth_view E1), b1),
      (DestroyImage (ex_device E1) (depth_image E1), b2), (FreeMemory (ex_device E1) (depth_mem E1), b3)]"
    using destroy_depth_InrD [OF r(3)] by blast
  obtain img mem v des where dep: "E2 = E1\<lparr>depth_image := img, depth_mem := mem, depth_view := v\<rparr>" "lg4 = lg3 @ des" "depth_made E2 des"
    using sets_up_depthD [OF assms(2) r(4)] .
  obtain fs where fs: "lg5 = lg4 @ fs" "list_all2 (\<lambda>e f. fst e = DestroyFramebuffer (ex_device E2) f) fs (frameBuffers E2)"
    using destroy_framebuffers_InrD [OF r(5)] by blast
  obtain fbs gs where g: "E' = E2\<lparr>frameBuffers := fbs\<rparr>" "lg' = lg5 @ gs" "length fbs = unat (imageCount (chain E2))"
      "list_all2 (\<lambda>e (f, b). e = (fb_call E2 b, VK_SUCCESS, f)) gs (zip fbs (buffers (chain E2)))"
    using setupFrameBuffer_InrD [OF r(6)] unfolding fb_call_def by blast
  have E': "E' = E\<lparr>chain := C, width := w, height := h, depth_image := img, depth_mem := mem, depth_view := v, frameBuffers := fbs\<rparr>"
    by (simp add: g(1) dep(1) c(2))
  have calls: "depth_made E' des" "fb_call E2 = fb_call E'"
    using dep(3) by (simp_all add: depth_made_def fb_call_def fun_eq_iff E' dep(1) c(2))
  have "list_all2 (\<lambda>e f. fst e = DestroyFramebuffer (ex_device E) f) fs (frameBuffers E)"
    using fs(2) by (simp add: dep(1) c(2))
  moreover have "list_all2 (\<lambda>e (f, b). e = (fb_call E' b, VK_SUCCESS, f)) gs (zip (frameBuffers E') (buffers (chain E')))"
    using g(4) calls(2) by (simp add: E' dep(1) c(2))
  moreover note calls(1)
  moreover have "filter frees_target (map fst (e0 # es1)) = map (DestroyImageView (sc_device (chain E))) (held_views (chain E))"
    using es1(4) e0(3) by simp
  moreover have "\<forall>e \<in> set (e0 # es1). \<not> window_call (fst e)" using e0(2) es1(2) by simp
  moreover have "(CreateSwapchain (sc_device (chain E)) i, VK_SUCCESS, swapChain (chain E')) \<in> set (e0 # es1)"
    using es1(3) by (simp add: E')
  ultimately have "renewed E E' ((e0 # es1) @ [(DestroyImageView (ex_device E) (depth_view E), b1),
      (DestroyImage (ex_device E) (depth_image E), b2), (FreeMemory (ex_device E) (depth_mem E), b3)] @ des @ fs @ gs)"
    unfolding renewed_def by blast
  moreover have "lg' = lg @ (e0 # es1) @ [(DestroyImageView (ex_device E) (depth_view E), b1),
      (DestroyImage (ex_device E) (depth_image E), b2), (FreeMemory (ex_device E) (depth_mem E), b3)] @ des @ fs @ gs"
    by (simp add: g(2) fs(1) dep(2) b es1(1) e0(1) c(2))
  moreover have "same_but_targets E E'" unfolding same_but_targets_def using E' by blast
  moreover have "length (frameBuffers E') = unat (imageCount (chain E'))" using g(3) by (simp add: E' dep(1) c(2))
  ultimately show ?thesis using q by (simp add: E') blast
qed

lemma windowResize_InrD:
  assumes "windowResize H E d lg = Inr (E', lg')" and "prepared E" and "hooks_quiet H"
  shows "\<exists>E1 cs es fs. E' = E1\<lparr>drawCmdBuffers := cs, prepared := True\<rparr> \<and> same_but_targets (E\<lparr>prepared := False\<rparr>) E1 \<and>
    lg' = lg @ es @ fs \<and> renewed (E\<lparr>prepared := False\<rparr>) E1 es \<and> (\<forall>e \<in> set fs. \<not> window_call (fst e)) \<and>
    length cs = unat (imageCount (chain E1)) \<and> length (frameBuffers E1) = unat (imageCount (chain E1)) \<and>
    unat (imageCount (chain E1)) \<le> length (buffers (chain E1)) \<and>
    (\<exists>caps. (width E1, height E1) = chosen_extent caps (destWidth E) (destHeight E))"
proof -
  obtain E1 lg1 E2 where r: "resize_targets H (E\<lparr>prepared := False\<rparr>) d lg = Inr (E1, lg1)"
      "renew_commands H E1 d lg1 = Inr (E2, lg')" "E' = E2\<lparr>prepared := True\<rparr>"
    using assms(1,2) by (auto simp: windowResize_def bindV_eq_Inr run_simps)
  have "sets_up_depth (depth_setup H)" "frame_setup H = setupFrameBuffer" using assms(3) by (simp_all add: hooks_quiet_def)
  note t = resize_targets_InrD [OF r(1) this]
  obtain es where es: "lg1 = lg @ es" "renewed (E\<lparr>prepared := False\<rparr>) E1 es" using t by blast
  obtain cs fs where c: "E2 = E1\<lparr>drawCmdBuffers := cs\<rparr>" "length cs = unat (imageCount (chain E1))"
      "lg' = lg1 @ fs" "\<forall>e \<in> set fs. \<not> window_call (fst e)"
    using renew_commands_InrD [OF r(2) assms(3)] by blast
  show ?thesis using t es c r(3)
    by (intro exI [of _ E1] exI [of _ cs] exI [of _ es] exI [of _ fs]) simp
qed

lemma renewed_no_acquire:
  assumes "renewed E E' es"
  shows "AcquireNextImage dev sc t s \<notin> fst ` set es"
proof -
  obtain a b1 b2 b3 dep fs gs where es: "es = a @ [(DestroyImageView (ex_device E) (depth_view E), b1),
        (DestroyImage (ex_device E) (depth_image E), b2), (FreeMemory (ex_device E) (depth_mem E), b3)] @ dep @ fs @ gs"
      and a: "\<forall>e \<in> set a. \<not> window_call (fst e)"
      and dep: "depth_made E' dep"
      and fs: "list_all2 (\<lambda>e f. fst e = DestroyFramebuffer (ex_device E) f) fs (frameBuffers E)"
      and gs: "list_all2 (\<lambda>e (f, b). e = (fb_call E' b, VK_SUCCESS, f)) gs (zip (frameBuffers E') (buffers (chain E')))"
    using assms unfolding renewed_def by blast
  have "AcquireNextImage dev sc t s \<notin> fst ` set a" using a by force
  moreover have "AcquireNextImage dev sc t s \<notin> fst ` set dep" using dep by (force simp: depth_made_def)
  moreover have "AcquireNextImage dev sc t s \<notin> fst ` set fs" using list_all2_left [OF fs] by fastforce
  moreover have "AcquireNextImage dev sc t s \<notin> fst ` set gs"
    using list_all2_left [OF gs] by (fastforce simp: fb_call_def)
  ultimately show ?thesis unfolding es by (simp add: image_Un)
qed

section \<open>Properties\<close>

text \<open>One frame buffer and one command buffer for each image of the swap chain, and a view behind each.\<close>

definition window_ok :: "example \<Rightarrow> bool" where
  "window_ok E =
     (length (frameBuffers E) = unat (imageCount (chain E)) \<and> length (drawCmdBuffers E) = unat (imageCount (chain E)) \<and>
      unat (imageCount (chain E)) \<le> length (buffers (chain E)))"

text \<open>What the resize destroys of the resources it had, in the order it does so.\<close>

definition old_targets :: "example \<Rightarrow> vk_call list" where
  "old_targets E =
     map (DestroyImageView (sc_device (chain E))) (held_views (chain E)) @
     [DestroyImageView (ex_device E) (depth_view E), DestroyImage (ex_device E) (depth_image E), FreeMemory (ex_device E) (depth_mem E)] @
     map (DestroyFramebuffer (ex_device E)) (frameBuffers E)"

lemma depth_made_frees: "depth_made E es \<Longrightarrow> filter frees_target (map fst es) = []"
  by (rule filter_none) (auto simp: depth_made_def split: vk_call.splits)

lemma renewed_parts:
  assumes "renewed E E' es"
  shows "filter frees_target (map fst es) = old_targets E" and "\<exists>dep. set dep \<subseteq> set es \<and> depth_made E' dep"
    and "\<exists>gs. set gs \<subseteq> set es \<and>
      list_all2 (\<lambda>e (f, b). e = (fb_call E' b, VK_SUCCESS, f)) gs (zip (frameBuffers E') (buffers (chain E')))"
proof -
  obtain a b1 b2 b3 dep fs gs where es: "es = a @ [(DestroyImageView (ex_device E) (depth_view E), b1),
        (DestroyImage (ex_device E) (depth_image E), b2), (FreeMemory (ex_device E) (depth_mem E), b3)] @ dep @ fs @ gs"
      and a: "filter frees_target (map fst a) = map (DestroyImageView (sc_device (chain E))) (held_views (chain E))"
      and dep: "depth_made E' dep"
      and fs: "list_all2 (\<lambda>e f. fst e = DestroyFramebuffer (ex_device E) f) fs (frameBuffers E)"
      and gs: "list_all2 (\<lambda>e (f, b). e = (fb_call E' b, VK_SUCCESS, f)) gs (zip (frameBuffers E') (buffers (chain E')))"
    using assms unfolding renewed_def by blast
  have "filter frees_target (map fst fs) = map (DestroyFramebuffer (ex_device E)) (frameBuffers E)"
    using fs by (rule filter_calls) simp
  moreover have "filter frees_target (map fst gs) = []"
    using list_all2_left [OF gs] by (intro filter_none) (fastforce simp: fb_call_def)
  ultimately show "filter frees_target (map fst es) = old_targets E"
    using a depth_made_frees [OF dep] by (simp add: es old_targets_def)
  show "\<exists>dep. set dep \<subseteq> set es \<and> depth_made E' dep" using dep by (intro exI [of _ dep]) (auto simp: es)
  show "\<exists>gs. set gs \<subseteq> set es \<and>
      list_all2 (\<lambda>e (f, b). e = (fb_call E' b, VK_SUCCESS, f)) gs (zip (frameBuffers E') (buffers (chain E')))"
    using gs by (intro exI [of _ gs]) (auto simp: es)
qed


text \<open>
  C18. When the swap chain is out of date or no longer optimal, the frame is begun with the index that was asked of the
  old swap chain: the resize creates a new one, but no image of it is acquired before the frame is drawn
  and presented.
\<close>

theorem frame_image_stale:
  assumes "prepareFrame H E d lg = Inr (E', lg')" and "prepared E" and "hooks_quiet H"
    and "result_of d lg (AcquireNextImage (sc_device (chain E)) (swapChain (chain E)) UINT64_MAX (presentComplete E))
      \<in> {VK_ERROR_OUT_OF_DATE_KHR, VK_SUBOPTIMAL_KHR}"
  shows "\<exists>e es i. lg' = lg @ e # es \<and>
    fst e = AcquireNextImage (sc_device (chain E)) (swapChain (chain E)) UINT64_MAX (presentComplete E) \<and>
    (CreateSwapchain (sc_device (chain E)) i, VK_SUCCESS, swapChain (chain E')) \<in> set es \<and>
    (\<forall>dev sc t s. AcquireNextImage dev sc t s \<notin> fst ` set es) \<and>
    currentBuffer E' = count_of d lg (fst e)"
proof -
  let ?c = "AcquireNextImage (sc_device (chain E)) (swapChain (chain E)) UINT64_MAX (presentComplete E)"
  let ?e = "(?c, result_of d lg ?c, handle_of d lg ?c)"
  let ?E1 = "E\<lparr>currentBuffer := count_of d lg ?c\<rparr>"
  have "windowResize H ?E1 d (lg @ [?e]) = Inr (E', lg')"
    using assms(1,4) by (auto simp: prepareFrame_def acquireNextImage_def bindV_eq_Inr run_simps Let_def split: if_splits)
  from windowResize_InrD [OF this _ assms(3)] assms(2)
  obtain E2 cs es fs where w: "E' = E2\<lparr>drawCmdBuffers := cs, prepared := True\<rparr>"
      "same_but_targets (?E1\<lparr>prepared := False\<rparr>) E2" "lg' = (lg @ [?e]) @ es @ fs"
      "renewed (?E1\<lparr>prepared := False\<rparr>) E2 es" "\<forall>e \<in> set fs. \<not> window_call (fst e)"
    by auto
  have cur: "currentBuffer E' = count_of d lg ?c" using w(1,2) by (auto simp: same_but_targets_def)
  have new: "\<exists>i. (CreateSwapchain (sc_device (chain E)) i, VK_SUCCESS, swapChain (chain E')) \<in> set es"
    using w(4) unfolding renewed_def by (elim exE conjE) (auto simp: w(1))
  have "AcquireNextImage dev sc t s \<notin> fst ` set es" for dev sc t s using renewed_no_acquire [OF w(4)] .
  moreover have "AcquireNextImage dev sc t s \<notin> fst ` set fs" for dev sc t s using w(5) by force
  ultimately have none: "\<forall>dev sc t s. AcquireNextImage dev sc t s \<notin> fst ` set (es @ fs)" unfolding set_append image_Un by blast
  obtain i where i: "(CreateSwapchain (sc_device (chain E)) i, VK_SUCCESS, swapChain (chain E')) \<in> set es" using new by blast
  show ?thesis
    by (rule exI [of _ ?e], rule exI [of _ "es @ fs"], rule exI [of _ i], intro conjI, simp add: w(3), simp, simp add: i, rule none)
      (simp add: cur)
qed

end
