(* ===== verification/VkExampleLive.thy ===== *)
theory VkExampleLive
  imports VkExampleRun VkSwapProps
begin

text \<open>Total correctness: under a driver that reports success, a resize is carried through to the end.\<close>

section \<open>The operations of a resize\<close>

text \<open>
  How many images there are: every swap chain has at least \<open>m\<close>, and the index of an acquired one is below that.
\<close>

definition images_at_least :: "driver \<Rightarrow> nat \<Rightarrow> bool" where
  "images_at_least d m =
     ((\<forall>lg dev sc. m \<le> unat (count_of d lg (SwapchainImageCount dev sc)) \<and> m \<le> length (handles_of d lg (SwapchainImages dev sc))) \<and>
      (\<forall>lg dev sc t s. unat (count_of d lg (AcquireNextImage dev sc t s)) < m))"

definition enough :: "driver \<Rightarrow> swap_chain \<Rightarrow> bool" where
  "enough d C = (\<forall>m. images_at_least d m \<longrightarrow> m \<le> unat (imageCount C))"

lemma written_enough:
  assumes "n = count_of d lg (SwapchainImageCount dev sc)" and "l = handles_of d lg1 (SwapchainImages dev sc)"
    and "imageCount C = written_count n l"
  shows "enough d C"
  unfolding enough_def
proof (intro allI impI)
  fix m assume "images_at_least d m"
  then have "m \<le> unat n" "m \<le> length l" using assms(1,2) by (simp_all add: images_at_least_def)
  moreover from this(1) have "unat (written_count n l) = min (unat n) (length l)"
    by (metis written_count_def le_unat_uoi min.cobounded1)
  ultimately show "m \<le> unat (imageCount C)" using assms(3) by simp
qed

lemma finishes_destroy_views:
  assumes "unat (imageCount C) \<le> length (buffers C)"
  shows "finishes d (destroy_views C) (\<lambda>_. True)"
  unfolding destroy_views_def
proof (rule finishes_for)
  fix i assume "i \<in> set [0 ..< unat (imageCount C)]"
  then have "i < length (buffers C)" using assms by simp
  then show "finishes d (bindV (indexV (buffers C) i) (\<lambda>b. doV (DestroyImageView (sc_device C) (snd b)))) (\<lambda>_. True)"
    by (rule finishes_bind [OF finishes_index]) (rule finishes_do)
qed

lemma finishes_make_buffers:
  assumes "successful d"
  shows "finishes d (make_buffers C) (\<lambda>C'. unat (imageCount C') \<le> length (buffers C') \<and> enough d C')"
  unfolding make_buffers_def Let_def
proof (rule finishes_bind [OF finishes_checked_query [OF assms]], simp, rule finishes_bind [OF finishes_checked_query [OF assms]], simp)
  fix n :: u32 and l :: "handle list"
  assume q: "\<exists>lg. n = count_of d lg (SwapchainImageCount (sc_device C) (swapChain C))"
    "\<exists>lg. l = handles_of d lg (SwapchainImages (sc_device C) (swapChain C))"
  have e: "enough d C'" if "imageCount C' = written_count n l" for C'
    using q written_enough that by blast
  let ?m = "unat (written_count n l)"
  let ?imgs = "overwrite (resize (unat n) 0 (images C)) l"
  show "finishes d (bindV (mapV (\<lambda>i. bindV (indexV ?imgs i) (\<lambda>img.
        bindV (VK_CHECK_RESULT (CreateImageView (sc_device C) (color_view (colorFormat C) img))) (\<lambda>v. retV (img, v)))) [0 ..< ?m])
      (\<lambda>bs. retV (C\<lparr>imageCount := written_count n l, images := ?imgs,
        buffers := overwrite (resize ?m (0, 0) (buffers C)) bs\<rparr>))) (\<lambda>C'. unat (imageCount C') \<le> length (buffers C') \<and> enough d C')"
  proof (rule finishes_bind [OF finishes_map])
    fix i assume "i \<in> set [0 ..< ?m]"
    then have "i < length ?imgs" using written_count_le [of n l] by simp
    then show "finishes d (bindV (indexV ?imgs i) (\<lambda>img. bindV (VK_CHECK_RESULT (CreateImageView (sc_device C)
        (color_view (colorFormat C) img))) (\<lambda>v. retV (img, v)))) (\<lambda>_. True)"
      by (intro finishes_bind [OF finishes_index] finishes_bind [OF finishes_check [OF assms]] finishes_ret) simp_all
  qed (simp add: finishes_ret e)
qed

lemma finishes_create:
  assumes "successful d" and "swapChain C \<noteq> VK_NULL_HANDLE \<longrightarrow> unat (imageCount C) \<le> length (buffers C)"
  shows "finishes d (create C w h vs) (\<lambda>(C', _, _). unat (imageCount C') \<le> length (buffers C') \<and> enough d C')"
proof -
  have "finishes d (if swapChain C \<noteq> VK_NULL_HANDLE
      then thenV (destroy_views C) (doV (DestroySwapchain (sc_device C) (swapChain C))) else retV ()) (\<lambda>_. True)"
    using assms(2) by (auto intro!: finishes_then finishes_destroy_views finishes_do finishes_ret)
  then have last: "finishes d (thenV (if swapChain C \<noteq> VK_NULL_HANDLE
      then thenV (destroy_views C) (doV (DestroySwapchain (sc_device C) (swapChain C))) else retV ())
      (bindV (make_buffers (C\<lparr>swapChain := sc\<rparr>)) (\<lambda>C'. retV (C', chosen_extent caps w h))))
      (\<lambda>(C', _, _). unat (imageCount C') \<le> length (buffers C') \<and> enough d C')" for sc caps
    by (rule finishes_then) (rule finishes_bind [OF finishes_make_buffers [OF assms(1)]], rule finishes_ret, simp split: prod.split)
  show ?thesis unfolding create_def Let_def
  proof (rule finishes_bind [OF finishes_checked_query [OF assms(1)]], simp, rule finishes_bind [OF finishes_checked_query [OF assms(1)]],
      simp, rule finishes_then)
    fix n assume "\<exists>lg. n = count_of d lg (PresentModeCount (sc_physical C) (surface C))"
    then show "finishes d (assertV (0 < n)) (\<lambda>_. True)" using assms(1) by (auto simp: successful_def intro: finishes_assert)
  qed (intro finishes_bind [OF finishes_checked_query [OF assms(1)]] finishes_bind [OF finishes_check [OF assms(1)]] last, simp_all)
qed

text \<open>Memory of the device is offered for whatever an image requires.\<close>

definition offers_memory :: "driver \<Rightarrow> vulkan_device \<Rightarrow> bool" where
  "offers_memory d D =
     (memory_ok D \<and> (\<forall>lg c. \<exists>i < unat (memoryTypeCount D). suitable_type D (r_typeBits (reqs_of d lg c)) VK_MEMORY_PROPERTY_DEVICE_LOCAL_BIT i))"

lemma finishes_memory_type:
  assumes "offers_memory d D" and "reqs = reqs_of d lg0 c"
  shows "finishes d (getMemoryType D (r_typeBits reqs) VK_MEMORY_PROPERTY_DEVICE_LOCAL_BIT) (\<lambda>_. True)"
proof -
  obtain i where "find (suitable_type D (r_typeBits reqs) VK_MEMORY_PROPERTY_DEVICE_LOCAL_BIT) [0 ..< unat (memoryTypeCount D)] = Some i"
    using assms unfolding offers_memory_def
    by (metis (no_types, lifting) atLeastLessThan_iff find_None_iff not_None_eq set_upt zero_le)
  then show ?thesis using memory_type_find assms(1)
    by (auto simp: finishes_def getMemoryType_def bindV_def run_simps offers_memory_def)
qed

lemma finishes_depth_run:
  assumes "successful d" and "offers_memory d (D E)"
  shows "finishes d (depth_run D view E) (\<lambda>_. True)"
  unfolding depth_run_def
proof (rule finishes_bind [OF finishes_check [OF assms(1)]], simp, rule finishes_bind [OF finishes_query])
  fix img reqs
  assume "\<exists>lg. reqs = reqs_of d lg (GetImageMemoryRequirements (ex_device E) img)"
  then have m: "finishes d (getMemoryType (D E) (r_typeBits reqs) VK_MEMORY_PROPERTY_DEVICE_LOCAL_BIT) (\<lambda>_. True)"
    using finishes_memory_type [OF assms(2)] by blast
  show "finishes d (bindV (getMemoryType (D E) (r_typeBits reqs) VK_MEMORY_PROPERTY_DEVICE_LOCAL_BIT) (\<lambda>ti.
      bindV (VK_CHECK_RESULT (AllocateMemory (ex_device E) (r_size reqs) ti)) (\<lambda>mem.
      bindV (VK_CHECK_RESULT (BindImageMemory (ex_device E) img mem 0)) (\<lambda>_.
      bindV (VK_CHECK_RESULT (CreateImageView (ex_device E) (view E img))) (\<lambda>v.
        retV (E\<lparr>depth_image := img, depth_mem := mem, depth_view := v\<rparr>)))))) (\<lambda>_. True)"
    by (intro finishes_bind [OF m] finishes_bind [OF finishes_check [OF assms(1)]] finishes_ret) simp_all
qed

lemma finishes_setupFrameBuffer:
  assumes "successful d" and "unat (imageCount (chain E)) \<le> length (buffers (chain E))"
  shows "finishes d (setupFrameBuffer E) (\<lambda>_. True)"
  unfolding setupFrameBuffer_def
proof (rule finishes_bind [OF finishes_map])
  fix i assume "i \<in> set [0 ..< unat (imageCount (chain E))]"
  then have "i < length (buffers (chain E))" using assms(2) by simp
  then show "finishes d (bindV (indexV (buffers (chain E)) i) (\<lambda>b. VK_CHECK_RESULT (CreateFramebuffer (ex_device E)
      \<lparr>fb_renderPass = renderPass E, fb_attachments = [snd b, depth_view E], fb_extent = (width E, height E)\<rparr>))) (\<lambda>_. True)"
    by (rule finishes_bind [OF finishes_index]) (rule finishes_check [OF assms(1)], simp)
qed (simp add: finishes_ret)

lemma finishes_destroy_depth: "finishes d (destroy_depth E) (\<lambda>_. True)"
  unfolding destroy_depth_def by (intro finishes_then finishes_do)

lemma finishes_destroy_framebuffers: "finishes d (destroy_framebuffers E) (\<lambda>_. True)"
  unfolding destroy_framebuffers_def by (intro finishes_for finishes_do)

lemma finishes_createCommandBuffers: "successful d \<Longrightarrow> finishes d (createCommandBuffers E) (\<lambda>_. True)"
  unfolding createCommandBuffers_def Let_def by (rule finishes_bind [OF finishes_checked_query]) (simp_all add: finishes_ret)

text \<open>
  An example may take the memory types from its device or from the properties it read itself; both are a device's.
\<close>

definition own_memory :: "example \<Rightarrow> vulkan_device" where
  "own_memory E = (vulkanDevice E)\<lparr>memoryTypeCount := fst (memoryProperties E), memoryTypes := snd (memoryProperties E)\<rparr>"

definition memory_ready :: "driver \<Rightarrow> example \<Rightarrow> bool" where
  "memory_ready d E = (offers_memory d (vulkanDevice E) \<and> offers_memory d (own_memory E))"

text \<open>
  Hooks that come back: the setup of the depth buffer where there is memory for it, the recording of the command
  buffers where there is a frame buffer for each, the others always.
\<close>

definition hooks_return :: "driver \<Rightarrow> hooks \<Rightarrow> bool" where
  "hooks_return d H =
     ((\<forall>E. memory_ready d E \<longrightarrow> finishes d (depth_setup H E) (\<lambda>_. True)) \<and>
      (\<forall>E. length (drawCmdBuffers E) \<le> length (frameBuffers E) \<longrightarrow> finishes d (buildCommandBuffers H E) (\<lambda>_. True)) \<and>
      (\<forall>E. finishes d (windowResized H E) (\<lambda>_. True)) \<and> (\<forall>E. finishes d (viewChanged H E) (\<lambda>_. True)) \<and>
      (\<forall>w h. finishes d (overlay_resize H w h) (\<lambda>_. True)))"

lemma gives_depth:
  assumes "hooks_quiet H"
  shows "gives (depth_setup H E) (\<lambda>E'. \<exists>i m v. E' = E\<lparr>depth_image := i, depth_mem := m, depth_view := v\<rparr>)"
  unfolding gives_def
proof (intro allI impI)
  fix d lg E' lg'
  assume r: "depth_setup H E d lg = Inr (E', lg')"
  have "sets_up_depth (depth_setup H)" using assms by (simp add: hooks_quiet_def)
  then show "\<exists>i m v. E' = E\<lparr>depth_image := i, depth_mem := m, depth_view := v\<rparr>"
    by (rule sets_up_depthD [where f = "depth_setup H", OF _ r]) blast
qed

lemma gives_frames: "gives (setupFrameBuffer E) (\<lambda>E'. length (frameBuffers E') = unat (imageCount (chain E')) \<and> chain E' = chain E)"
  unfolding setupFrameBuffer_def by (rule gives_bind [OF gives_map]) (simp add: gives_ret)

lemma finishes_resize_targets:
  assumes "successful d" and "memory_ready d E" and "hooks_return d H" and "hooks_quiet H"
    and "swapChain (chain E) \<noteq> VK_NULL_HANDLE \<longrightarrow> unat (imageCount (chain E)) \<le> length (buffers (chain E))"
  shows "finishes d (resize_targets H E) (\<lambda>E'. length (frameBuffers E') = unat (imageCount (chain E')) \<and> enough d (chain E'))"
proof -
  have frames: "frame_setup H = setupFrameBuffer" using assms(4) by (simp add: hooks_quiet_def)
  show ?thesis unfolding resize_targets_def frames
  proof (rule finishes_then [OF finishes_do], rule finishes_bind)
    show "finishes d (setupSwapChain (E\<lparr>width := destWidth E, height := destHeight E\<rparr>))
        (\<lambda>E'. unat (imageCount (chain E')) \<le> length (buffers (chain E')) \<and> enough d (chain E') \<and> memory_ready d E')"
      unfolding setupSwapChain_def
      by (rule finishes_bind [OF finishes_create [OF assms(1)]])
        (use assms(2,5) in \<open>auto intro: finishes_ret simp: memory_ready_def own_memory_def\<close>)
  next
    fix E1 :: example
    assume E1: "unat (imageCount (chain E1)) \<le> length (buffers (chain E1)) \<and> enough d (chain E1) \<and> memory_ready d E1"
    then have "finishes d (depth_setup H E1) (\<lambda>_. True)" using assms(3) by (simp add: hooks_return_def)
    then have "finishes d (depth_setup H E1) (\<lambda>E'. True \<and> (\<exists>i m v. E' = E1\<lparr>depth_image := i, depth_mem := m, depth_view := v\<rparr>))"
      by (rule finishes_gives [OF _ gives_depth [OF assms(4)]])
    then have dep: "finishes d (depth_setup H E1) (\<lambda>E'. unat (imageCount (chain E')) \<le> length (buffers (chain E')) \<and> enough d (chain E'))"
      by (rule finishes_weaken) (use E1 in auto)
    show "finishes d (thenV (destroy_depth E1) (bindV (depth_setup H E1)
        (\<lambda>E2. thenV (destroy_framebuffers E2) (setupFrameBuffer E2))))
        (\<lambda>E'. length (frameBuffers E') = unat (imageCount (chain E')) \<and> enough d (chain E'))"
      by (rule finishes_then [OF finishes_destroy_depth finishes_bind [OF dep]],
          rule finishes_then [OF finishes_destroy_framebuffers],
          rule finishes_weaken [OF finishes_gives [OF finishes_setupFrameBuffer [OF assms(1)] gives_frames]]) simp_all
  qed
qed

lemma finishes_renew_commands:
  assumes "successful d" and "hooks_return d H" and "length (frameBuffers E) = unat (imageCount (chain E))"
  shows "finishes d (renew_commands H E) (\<lambda>E'. chain E' = chain E)"
proof -
  have len: "gives (createCommandBuffers E) (\<lambda>E'. length (drawCmdBuffers E') \<le> length (frameBuffers E') \<and> chain E' = chain E)"
    unfolding createCommandBuffers_def Let_def by (rule gives_bind_any) (simp add: gives_ret assms(3))
  have cmds: "finishes d (createCommandBuffers E) (\<lambda>E'. True \<and> length (drawCmdBuffers E') \<le> length (frameBuffers E') \<and> chain E' = chain E)"
    by (rule finishes_gives [OF finishes_createCommandBuffers [OF assms(1)] len])
  show ?thesis
    unfolding renew_commands_def destroyCommandBuffers_def
    using assms(2)
    by (intro finishes_then finishes_bind [OF cmds] finishes_do finishes_ret) (auto simp: hooks_return_def intro: finishes_ret)
qed

lemma finishes_windowResize:
  assumes "successful d" and "hooks_return d H" and "hooks_quiet H" and "memory_ready d E"
    and "swapChain (chain E) \<noteq> VK_NULL_HANDLE \<longrightarrow> unat (imageCount (chain E)) \<le> length (buffers (chain E))" and "prepared E"
  shows "finishes d (windowResize H E) (\<lambda>E'. prepared E' \<and> enough d (chain E'))"
proof -
  have "finishes d (resize_targets H (E\<lparr>prepared := False\<rparr>))
      (\<lambda>E'. length (frameBuffers E') = unat (imageCount (chain E')) \<and> enough d (chain E'))"
    using assms by (intro finishes_resize_targets) (simp_all add: memory_ready_def own_memory_def)
  then have "finishes d (bindV (resize_targets H (E\<lparr>prepared := False\<rparr>)) (\<lambda>E1. bindV (renew_commands H E1) (\<lambda>E2.
      retV (E2\<lparr>prepared := True\<rparr>)))) (\<lambda>E'. prepared E' \<and> enough d (chain E'))"
    by (rule finishes_bind)
      (intro finishes_bind [OF finishes_renew_commands [OF assms(1,2)]] finishes_ret, simp_all)
  then show ?thesis using assms(6) by (simp add: windowResize_def)
qed

lemma windowResize_ready:
  assumes "successful d" and "hooks_return d H" and "hooks_quiet H" and "memory_ready d E"
    and "swapChain (chain E) \<noteq> VK_NULL_HANDLE \<longrightarrow> unat (imageCount (chain E)) \<le> length (buffers (chain E))"
    and "prepared E"
  shows "finishes d (windowResize H E) (\<lambda>E'. prepared E' \<and> window_ok E' \<and>
    vulkanDevice E' = vulkanDevice E \<and> memory_ready d E' \<and> enough d (chain E') \<and>
    currentBuffer E' = currentBuffer E \<and> overlay E' = overlay E)"
  unfolding finishes_def
proof
  fix lg
  obtain E' lg' where r: "windowResize H E d lg = Inr (E', lg')" "prepared E'" "enough d (chain E')"
    using finishes_windowResize [OF assms] unfolding finishes_def by blast
  obtain E1 cs where w: "E' = E1\<lparr>drawCmdBuffers := cs, prepared := True\<rparr>" "same_but_targets (E\<lparr>prepared := False\<rparr>) E1"
      "length cs = unat (imageCount (chain E1))" "length (frameBuffers E1) = unat (imageCount (chain E1))"
      "unat (imageCount (chain E1)) \<le> length (buffers (chain E1))"
    using windowResize_InrD [OF r(1) assms(6,3)] by blast
  have "memory_ready d E'" using assms(4) w(1,2) by (auto simp: same_but_targets_def memory_ready_def own_memory_def)
  moreover have "vulkanDevice E' = vulkanDevice E" using w(1,2) by (auto simp: same_but_targets_def)
  moreover have "currentBuffer E' = currentBuffer E" "overlay E' = overlay E" using w(1,2) by (auto simp: same_but_targets_def)
  moreover have "window_ok E'" using w by (simp add: window_ok_def)
  ultimately show "\<exists>E' lg'. windowResize H E d lg = Inr (E', lg') \<and> prepared E' \<and> window_ok E' \<and>
    vulkanDevice E' = vulkanDevice E \<and> memory_ready d E' \<and> enough d (chain E') \<and>
      currentBuffer E' = currentBuffer E \<and> overlay E' = overlay E"
    using r by blast
qed

section \<open>Properties\<close>

text \<open>
  C11. A resize comes back. Under a driver that reports success and offers memory for the depth buffer, a prepared example
  whose swap chain has a view for each image is carried through the whole resize: the call returns, the example is
  prepared again, its arrays fit the new swap chain, and there is memory as before, so that the next resize comes back too.
  Of the hooks it is asked that the depth buffer is set up where there is memory, that command buffers are recorded where
  each has a frame buffer, and that the others return.
\<close>

theorem resize_completes:
  assumes "successful d" and "hooks_return d H" and "hooks_quiet H" and "memory_ready d E"
    and "swapChain (chain E) \<noteq> VK_NULL_HANDLE \<longrightarrow> unat (imageCount (chain E)) \<le> length (buffers (chain E))"
    and "prepared E"
  shows "\<exists>E' lg'. windowResize H E d lg = Inr (E', lg') \<and> prepared E' \<and> window_ok E' \<and>
    vulkanDevice E' = vulkanDevice E \<and> memory_ready d E'"
  using windowResize_ready [OF assms] unfolding finishes_def by blast

section \<open>A run\<close>

definition demo_hooks :: hooks where
  "demo_hooks = \<lparr>depth_setup = setupDepthStencil, frame_setup = setupFrameBuffer, pass_setup = setupRenderPass,
     buildCommandBuffers = (\<lambda>E. retV ()), windowResized = (\<lambda>E. retV ()), viewChanged = (\<lambda>E. retV ()),
     overlay_resize = (\<lambda>w h. retV ()), overlay_free = retV ()\<rparr>"

definition demo_example :: example where
  "demo_example = \<lparr>instance_handle = 1, ex_device = 2, queue = 3, vulkanDevice = demo_device,
     memoryProperties = (1, [7]), depthFormat = 129, prepared = True,
     width = 640, height = 480, destWidth = 320, destHeight = 200, vsync = False, overlay = True, benchmark_active = False,
     chain = demo_chain\<lparr>surface := 11, swapChain := 13, imageCount := 2, images := [100, 101],
       buffers := [(100, 15), (101, 17)]\<rparr>,
     cmdPool = 4, drawCmdBuffers = [5, 6], waitFences = [7, 8], depth_image = 19, depth_mem = 21, depth_view = 23,
     renderPass = 25, pipelineCache = 27, frameBuffers = [29, 31], shaderModules = [], descriptorPool = 0,
     presentComplete = 33, renderComplete = 35, currentBuffer = 0, ex_markers = no_markers\<rparr>"

text \<open>The driver of the examples, with a surface that no longer fits.\<close>

definition stale_driver :: driver where
  "stale_driver = demo_driver\<lparr>result_of := (\<lambda>lg c. case c of AcquireNextImage _ _ _ _ \<Rightarrow> VK_ERROR_OUT_OF_DATE_KHR | _ \<Rightarrow> 0)\<rparr>"

lemma demo_successful: "successful demo_driver"
  by (simp add: successful_def demo_driver_def)

lemma base_depth_returns: "successful d \<Longrightarrow> memory_ready d E \<Longrightarrow> finishes d (setupDepthStencil E) (\<lambda>_. True)"
  unfolding base_depth_run by (rule finishes_depth_run) (simp_all add: memory_ready_def)

lemma demo_hooks_ok: "successful d \<Longrightarrow> hooks_return d demo_hooks" "hooks_quiet demo_hooks"
  by (simp_all add: hooks_return_def hooks_quiet_def base_sets_up_depth base_depth_returns demo_hooks_def finishes_ret)

lemma demo_offers: "offers_memory demo_driver demo_device"
proof -
  have "suitable_type demo_device 7 VK_MEMORY_PROPERTY_DEVICE_LOCAL_BIT 0" by (simp add: suitable_type_def demo_device_def)
  moreover have "memory_ok demo_device" "r_typeBits (reqs_of demo_driver lg c) = 7" "0 < unat (memoryTypeCount demo_device)" for lg c
    by (simp_all add: memory_ok_def demo_device_def demo_driver_def)
  ultimately show ?thesis unfolding offers_memory_def by metis
qed

lemma own_demo_offers:
  assumes "memoryProperties E = (1, [7]) \<or> memoryProperties E = (3, [1, 6, 7])" and "vulkanDevice E = demo_device"
  shows "memory_ready demo_driver E"
proof -
  have "suitable_type (own_memory E) 7 VK_MEMORY_PROPERTY_DEVICE_LOCAL_BIT 0" "memory_ok (own_memory E)"
      "0 < unat (memoryTypeCount (own_memory E))" "r_typeBits (reqs_of demo_driver lg c) = 7" for lg c
    using assms(1) by (auto simp: suitable_type_def own_memory_def memory_ok_def demo_driver_def)
  then have "offers_memory demo_driver (own_memory E)" unfolding offers_memory_def by metis
  then show ?thesis using assms(2) demo_offers by (simp add: memory_ready_def)
qed

lemma stale_ok: "successful stale_driver" "memory_ready stale_driver demo_example"
proof -
  show "successful stale_driver"
    by (auto simp: successful_def stale_driver_def demo_driver_def split: vk_call.splits)
  have "memory_ready demo_driver demo_example" by (rule own_demo_offers) (simp_all add: demo_example_def)
  then show "memory_ready stale_driver demo_example" by (simp add: memory_ready_def offers_memory_def stale_driver_def)
qed

theorem frame_image_stale_witness:
  "\<exists>E' lg' i. prepareFrame demo_hooks demo_example stale_driver [] = Inr (E', lg') \<and> currentBuffer E' = 2 \<and>
    (CreateSwapchain 2 i, VK_SUCCESS, swapChain (chain E')) \<in> set (tl lg') \<and>
    (\<forall>dev sc t s. AcquireNextImage dev sc t s \<notin> fst ` set (tl lg'))"
proof -
  let ?c = "AcquireNextImage 2 13 UINT64_MAX 33" and ?E = "demo_example\<lparr>currentBuffer := 2\<rparr>"
  have "finishes stale_driver (windowResize demo_hooks ?E) (\<lambda>E'. prepared E' \<and> enough stale_driver (chain E'))"
    by (rule finishes_windowResize [OF stale_ok(1) demo_hooks_ok(1) [OF stale_ok(1)] demo_hooks_ok(2)])
      (use stale_ok(2) in \<open>simp_all add: demo_example_def memory_ready_def own_memory_def\<close>)
  then obtain E' lg' where "windowResize demo_hooks ?E stale_driver [(?c, VK_ERROR_OUT_OF_DATE_KHR, 11)] = Inr (E', lg')"
    unfolding finishes_def by blast
  then have r: "prepareFrame demo_hooks demo_example stale_driver [] = Inr (E', lg')"
    by (simp add: prepareFrame_def acquireNextImage_def bindV_def run_simps demo_example_def demo_chain_def
        stale_driver_def demo_driver_def)
  have "prepared demo_example" by (simp add: demo_example_def)
  from frame_image_stale [OF r this demo_hooks_ok(2)]
  have "\<exists>e es i. lg' = [] @ e # es \<and> fst e = ?c \<and> (CreateSwapchain 2 i, VK_SUCCESS, swapChain (chain E')) \<in> set es \<and>
      (\<forall>dev sc t s. AcquireNextImage dev sc t s \<notin> fst ` set es) \<and> currentBuffer E' = count_of stale_driver [] (fst e)"
    by (simp add: demo_example_def demo_chain_def stale_driver_def)
  then obtain e es i where f: "lg' = [] @ e # es" "fst e = ?c" "(CreateSwapchain 2 i, VK_SUCCESS, swapChain (chain E')) \<in> set es"
      "\<forall>dev sc t s. AcquireNextImage dev sc t s \<notin> fst ` set es" "currentBuffer E' = count_of stale_driver [] (fst e)" by blast
  have "currentBuffer E' = 2" unfolding f(5,2) by (simp add: stale_driver_def demo_driver_def)
  then show ?thesis using r f(3,4) unfolding f(1) by auto
qed

end
