(* ===== verification/VkOverlay.thy ===== *)
theory VkOverlay
  imports VkTools
begin

text \<open>
  \<open>vks::UIOverlay\<close> (\<open>src/VulkanUIOverlay.cpp\<close>, \<open>src/VulkanUIOverlay.h\<close>): the resources that draw the lists of
  ImGui, their upload in every frame and the commands recorded for them. ImGui is third-party code: its font
  texture, its draw data and the answers of its widgets are arguments.
\<close>

record ui_overlay =
  ui_device :: vulkan_device
  ui_queue :: handle
  rasterizationSamples :: u32
  ui_subpass :: u32
  vertexBuffer :: vks_buffer
  indexBuffer :: vks_buffer
  vertexCount :: int
  indexCount :: int
  ui_shaders :: "shader_stage list"
  ui_descriptorPool :: handle
  ui_setLayout :: handle
  ui_set :: handle
  ui_pipelineLayout :: handle
  ui_pipeline :: handle
  fontMemory :: handle
  fontImage :: handle
  fontView :: handle
  fontSampler :: handle
  ui_updated :: bool

text \<open>
  What \<open>ImGui::GetDrawData\<close> returns: the vertices and indices of each list as their bytes, its commands, and the
  totals. Of a clip rectangle, the corner and the two differences the code computes in \<open>float\<close>.
\<close>

record draw_cmd =
  clip_corner :: "f32 \<times> f32"
  clip_size :: "f32 \<times> f32"
  elemCount :: u32

record draw_list =
  vtx :: "8 word list list"
  idx :: "8 word list list"
  cmds :: "draw_cmd list"

record draw_data =
  totalVtxCount :: int
  totalIdxCount :: int
  cmdLists :: "draw_list list"

abbreviation SIZEOF_ImDrawVert :: u64 where "SIZEOF_ImDrawVert \<equiv> 20"
abbreviation SIZEOF_ImDrawIdx :: u64 where "SIZEOF_ImDrawIdx \<equiv> 2"

abbreviation VK_BUFFER_USAGE_TRANSFER_SRC_BIT :: u32 where "VK_BUFFER_USAGE_TRANSFER_SRC_BIT \<equiv> 1"
abbreviation VK_BUFFER_USAGE_INDEX_BUFFER_BIT :: u32 where "VK_BUFFER_USAGE_INDEX_BUFFER_BIT \<equiv> 0x40"
abbreviation VK_BUFFER_USAGE_VERTEX_BUFFER_BIT :: u32 where "VK_BUFFER_USAGE_VERTEX_BUFFER_BIT \<equiv> 0x80"
abbreviation VK_MEMORY_PROPERTY_HOST_VISIBLE_BIT :: u32 where "VK_MEMORY_PROPERTY_HOST_VISIBLE_BIT \<equiv> 2"
abbreviation VK_IMAGE_USAGE_SAMPLED_BIT :: u32 where "VK_IMAGE_USAGE_SAMPLED_BIT \<equiv> 4"

text \<open>\<open>memcpy\<close> to mapped memory: through the null pointer it is no write.\<close>

definition host_write :: "handle \<Rightarrow> 8 word list \<Rightarrow> unit vk" where
  "host_write p bytes =
     (if bytes = [] then retV () else if p = 0 then failV BadIndex else doV (HostWrite p bytes))"

text \<open>\<open>VK_CHECK_RESULT\<close> of a function of the repository that returns a result besides the buffer.\<close>

definition checked :: "(int \<times> 'a) vk \<Rightarrow> 'a vk" where
  "checked m = bindV m (\<lambda>(r, x). thenV (assertV (r = VK_SUCCESS)) (retV x))"

abbreviation fresh_buffer :: vks_buffer where
  "fresh_buffer \<equiv> new_buffer 0 \<lparr>d_buffer = 0, d_offset = 0, d_range = 0\<rparr> 0 0"

section \<open>Resources\<close>

text \<open>\<open>prepareResources\<close> in the order of the code: image, upload, sampler, descriptors.\<close>

definition font_view_info :: "handle \<Rightarrow> view_info" where
  "font_view_info img =
     \<lparr>view_image = img, viewType = 1, view_format = VK_FORMAT_R8G8B8A8_UNORM, components = [0, 0, 0, 0],
      view_range = \<lparr>aspectMask = VK_IMAGE_ASPECT_COLOR_BIT, baseMipLevel = 0, levelCount = 1, baseArrayLayer = 0, layerCount = 1\<rparr>\<rparr>"

definition create_font_image :: "ui_overlay \<Rightarrow> u32 \<Rightarrow> u32 \<Rightarrow> ui_overlay vk" where
  "create_font_image U w h =
     (let dev = logicalDevice (ui_device U)
      in bindV (VK_CHECK_RESULT (CreateImage dev
           \<lparr>img_format = VK_FORMAT_R8G8B8A8_UNORM, img_extent = (w, h),
            img_usage = VK_IMAGE_USAGE_SAMPLED_BIT OR VK_IMAGE_USAGE_TRANSFER_DST_BIT\<rparr>)) (\<lambda>img.
         bindV (queryV reqs_of (GetImageMemoryRequirements dev img)) (\<lambda>reqs.
         bindV (getMemoryType (ui_device U) (r_typeBits reqs) 1) (\<lambda>ti.
         bindV (VK_CHECK_RESULT (AllocateMemory dev (r_size reqs) ti)) (\<lambda>mem.
         bindV (VK_CHECK_RESULT (BindImageMemory dev img mem 0)) (\<lambda>_.
         bindV (VK_CHECK_RESULT (CreateImageView dev (font_view_info img))) (\<lambda>v.
           retV (U\<lparr>fontImage := img, fontMemory := mem, fontView := v\<rparr>))))))))"

text \<open>The copy from the staging buffer, between two changes of the layout, submitted and waited for.\<close>

definition copy_font :: "ui_overlay \<Rightarrow> submit \<Rightarrow> handle \<Rightarrow> u32 \<Rightarrow> u32 \<Rightarrow> submit vk" where
  "copy_font U S staging w h =
     bindV (createCommandBuffer (ui_device U) VK_COMMAND_BUFFER_LEVEL_PRIMARY True) (\<lambda>copyCmd.
     thenV (setImageLayout_aspect copyCmd (fontImage U) VK_IMAGE_ASPECT_COLOR_BIT LAYOUT_UNDEFINED LAYOUT_TRANSFER_DST_OPTIMAL
              0x4000 0x1000) (
     thenV (doV (Record copyCmd (CmdCopyBufferToImage staging (fontImage U) LAYOUT_TRANSFER_DST_OPTIMAL
              \<lparr>ic_aspect = VK_IMAGE_ASPECT_COLOR_BIT, ic_layers = 1, ic_extent = (w, h)\<rparr>))) (
     thenV (setImageLayout_aspect copyCmd (fontImage U) VK_IMAGE_ASPECT_COLOR_BIT LAYOUT_TRANSFER_DST_OPTIMAL
              LAYOUT_SHADER_READ_ONLY_OPTIMAL 0x1000 0x80)
       (flushCommandBuffer (ui_device U) S copyCmd (ui_queue U) True))))"

definition upload_font :: "ui_overlay \<Rightarrow> submit \<Rightarrow> 8 word list \<Rightarrow> u32 \<Rightarrow> u32 \<Rightarrow> submit vk" where
  "upload_font U S fontData w h =
     (let uploadSize = of_nat (unat w * unat h * 4)
      in bindV (checked (createBuffer (ui_device U) VK_BUFFER_USAGE_TRANSFER_SRC_BIT
            (VK_MEMORY_PROPERTY_HOST_VISIBLE_BIT OR VK_MEMORY_PROPERTY_HOST_COHERENT_BIT) fresh_buffer uploadSize None)) (\<lambda>st.
         bindV (map_buffer st VK_WHOLE_SIZE 0) (\<lambda>(_, st1).
         thenV (if length fontData < unat uploadSize then failV BadIndex
                else host_write (buf_mapped st1) (take (unat uploadSize) fontData)) (
         bindV (unmap st1) (\<lambda>st2.
         bindV (copy_font U S (buf_buffer st2) w h) (\<lambda>S1.
         thenV (destroy st2) (retV S1)))))))"

definition font_sampler_info :: sampler_info where
  "font_sampler_info = samplerCreateInfo\<lparr>sa_magFilter := 1, sa_minFilter := 1, sa_mipmapMode := 1,
     sa_addressModes := [2, 2, 2], sa_borderColor := 4\<rparr>"

definition create_descriptors :: "ui_overlay \<Rightarrow> ui_overlay vk" where
  "create_descriptors U =
     (let dev = logicalDevice (ui_device U)
      in bindV (VK_CHECK_RESULT (CreateSampler dev font_sampler_info)) (\<lambda>sampler.
         bindV (VK_CHECK_RESULT (CreateDescriptorPool dev
           (descriptorPoolCreateInfo [descriptorPoolSize VK_DESCRIPTOR_TYPE_COMBINED_IMAGE_SAMPLER 1] 2))) (\<lambda>pool.
         bindV (VK_CHECK_RESULT (CreateDescriptorSetLayout dev (descriptorSetLayoutCreateInfo
           [descriptorSetLayoutBinding VK_DESCRIPTOR_TYPE_COMBINED_IMAGE_SAMPLER VK_SHADER_STAGE_FRAGMENT_BIT 0]))) (\<lambda>layout.
         bindV (VK_CHECK_RESULT (AllocateDescriptorSets dev pool [layout])) (\<lambda>dset.
         thenV (doV (UpdateDescriptorSets dev
           [writeDescriptorSet_image dset VK_DESCRIPTOR_TYPE_COMBINED_IMAGE_SAMPLER 0
              (descriptorImageInfo sampler (fontView U) LAYOUT_SHADER_READ_ONLY_OPTIMAL)])) (
           retV (U\<lparr>fontSampler := sampler, ui_descriptorPool := pool, ui_setLayout := layout, ui_set := dset\<rparr>)))))))"

definition prepareResources :: "ui_overlay \<Rightarrow> submit \<Rightarrow> 8 word list \<Rightarrow> u32 \<Rightarrow> u32 \<Rightarrow> (ui_overlay \<times> submit) vk" where
  "prepareResources U S fontData w h =
     bindV (create_font_image U w h) (\<lambda>U1.
     bindV (upload_font U1 S fontData w h) (\<lambda>S1.
     bindV (create_descriptors U1) (\<lambda>U2. retV (U2, S1))))"

section \<open>The pipeline\<close>

text \<open>Blending: source alpha, one minus source alpha, add; for alpha one minus source alpha, zero, add.\<close>

definition ui_blend :: blend_attachment where
  "ui_blend = \<lparr>ba_writeMask = 0xF, ba_enable = VK_TRUE, ba_color = (6, 7, 0), ba_alpha = (7, 0, 0)\<rparr>"

definition ui_vertex_input :: "vertex_binding list \<times> vertex_attribute list" where
  "ui_vertex_input =
     ([vertexInputBindingDescription 0 20 0],
      [vertexInputAttributeDescription 0 0 VK_FORMAT_R32G32_SFLOAT 0, vertexInputAttributeDescription 0 1 VK_FORMAT_R32G32_SFLOAT 8,
       vertexInputAttributeDescription 0 2 VK_FORMAT_R8G8B8A8_UNORM 16])"

definition preparePipeline :: "ui_overlay \<Rightarrow> handle \<Rightarrow> handle \<Rightarrow> ui_overlay vk" where
  "preparePipeline U cache pass =
     (let dev = logicalDevice (ui_device U);
          layout_info = (pipelineLayoutCreateInfo [ui_setLayout U])
            \<lparr>li_ranges := [pushConstantRange VK_SHADER_STAGE_VERTEX_BIT 16 0]\<rparr>
      in bindV (VK_CHECK_RESULT (CreatePipelineLayout dev layout_info)) (\<lambda>layout.
         let info = (pipelineCreateInfo layout pass 0 (ui_shaders U) ui_vertex_input
               (pipelineInputAssemblyStateCreateInfo VK_PRIMITIVE_TOPOLOGY_TRIANGLE_LIST 0 VK_FALSE)
               (pipelineRasterizationStateCreateInfo VK_POLYGON_MODE_FILL VK_CULL_MODE_NONE VK_FRONT_FACE_COUNTER_CLOCKWISE 0)
               (pipelineColorBlendStateCreateInfo [ui_blend])
               (pipelineMultisampleStateCreateInfo (rasterizationSamples U) 0)
               (pipelineViewportStateCreateInfo 1 1 0)
               (pipelineDepthStencilStateCreateInfo VK_FALSE VK_FALSE VK_COMPARE_OP_ALWAYS)
               (pipelineDynamicStateCreateInfo [VK_DYNAMIC_STATE_VIEWPORT, VK_DYNAMIC_STATE_SCISSOR] 0))
               \<lparr>pi_subpass := ui_subpass U\<rparr>
         in bindV (VK_CHECK_RESULT (CreateGraphicsPipelines dev cache info)) (\<lambda>p.
            retV (U\<lparr>ui_pipelineLayout := layout, ui_pipeline := p\<rparr>))))"

section \<open>Upload\<close>

definition renew_vertices :: "ui_overlay \<Rightarrow> draw_data \<Rightarrow> (bool \<times> ui_overlay) vk" where
  "renew_vertices U dd =
     (if buf_buffer (vertexBuffer U) = VK_NULL_HANDLE \<or> vertexCount U \<noteq> totalVtxCount dd
      then bindV (unmap (vertexBuffer U)) (\<lambda>b1.
           thenV (destroy b1) (
           bindV (checked (createBuffer (ui_device U) VK_BUFFER_USAGE_VERTEX_BUFFER_BIT VK_MEMORY_PROPERTY_HOST_VISIBLE_BIT b1
                    (of_int (totalVtxCount dd) * SIZEOF_ImDrawVert) None)) (\<lambda>b2.
           bindV (unmap b2) (\<lambda>b3.
           bindV (map_buffer b3 VK_WHOLE_SIZE 0) (\<lambda>(_, b4).
             retV (True, U\<lparr>vertexBuffer := b4, vertexCount := totalVtxCount dd\<rparr>))))))
      else retV (False, U))"

definition renew_indices :: "ui_overlay \<Rightarrow> draw_data \<Rightarrow> (bool \<times> ui_overlay) vk" where
  "renew_indices U dd =
     (if buf_buffer (indexBuffer U) = VK_NULL_HANDLE \<or> indexCount U < totalIdxCount dd
      then bindV (unmap (indexBuffer U)) (\<lambda>b1.
           thenV (destroy b1) (
           bindV (checked (createBuffer (ui_device U) VK_BUFFER_USAGE_INDEX_BUFFER_BIT VK_MEMORY_PROPERTY_HOST_VISIBLE_BIT b1
                    (of_int (totalIdxCount dd) * SIZEOF_ImDrawIdx) None)) (\<lambda>b2.
           bindV (map_buffer b2 VK_WHOLE_SIZE 0) (\<lambda>(_, b3).
             retV (True, U\<lparr>indexBuffer := b3, indexCount := totalIdxCount dd\<rparr>)))))
      else retV (False, U))"

fun upload_lists :: "handle \<Rightarrow> handle \<Rightarrow> draw_list list \<Rightarrow> unit vk" where
  "upload_lists vtxDst idxDst [] = retV ()"
| "upload_lists vtxDst idxDst (l # ls) =
     thenV (host_write vtxDst (concat (vtx l))) (
     thenV (host_write idxDst (concat (idx l)))
       (upload_lists (vtxDst + of_nat (length (vtx l)) * SIZEOF_ImDrawVert)
          (idxDst + of_nat (length (idx l)) * SIZEOF_ImDrawIdx) ls))"

text \<open>\<open>update\<close>: no draw data is the null pointer. The result says whether the command buffers are to be recorded again.\<close>

definition update :: "ui_overlay \<Rightarrow> draw_data option \<Rightarrow> (bool \<times> ui_overlay) vk" where
  "update U data =
     (case data of
        None \<Rightarrow> retV (False, U)
      | Some dd \<Rightarrow>
          if of_int (totalVtxCount dd) * SIZEOF_ImDrawVert = 0 \<or> of_int (totalIdxCount dd) * SIZEOF_ImDrawIdx = 0
          then retV (False, U)
          else bindV (renew_vertices U dd) (\<lambda>(v, U1).
               bindV (renew_indices U1 dd) (\<lambda>(i, U2).
               thenV (upload_lists (buf_mapped (vertexBuffer U2)) (buf_mapped (indexBuffer U2)) (cmdLists dd)) (
               bindV (flush_buffer (vertexBuffer U2) VK_WHOLE_SIZE 0) (\<lambda>_.
               bindV (flush_buffer (indexBuffer U2) VK_WHOLE_SIZE 0) (\<lambda>_.
                 retV (v \<or> i, U2)))))))"

section \<open>Drawing\<close>

text \<open>Conversion of a \<open>float\<close> to an integer drops the fraction.\<close>

definition trunc_f32 :: "f32 \<Rightarrow> int" where
  "trunc_f32 x = (if x < 0 then - \<lfloor>- x\<rfloor> else \<lfloor>x\<rfloor>)"

definition clip_rect :: "draw_cmd \<Rightarrow> rect2d" where
  "clip_rect c =
     \<lparr>rect_offset = (of_int (max (trunc_f32 (fst (clip_corner c))) 0), of_int (max (trunc_f32 (snd (clip_corner c))) 0)),
      rect_extent = (of_int (trunc_f32 (fst (clip_size c))), of_int (trunc_f32 (snd (clip_size c))))\<rparr>"

fun draw_commands :: "u32 \<Rightarrow> u32 \<Rightarrow> draw_cmd list \<Rightarrow> command list \<times> u32" where
  "draw_commands vertexOffset indexOffset [] = ([], indexOffset)"
| "draw_commands vertexOffset indexOffset (c # cs) =
     (case draw_commands vertexOffset (indexOffset + elemCount c) cs of (rest, i) \<Rightarrow>
        (CmdSetScissor (clip_rect c) # CmdDrawIndexed (elemCount c) 1 indexOffset vertexOffset 0 # rest, i))"

fun draw_lists :: "u32 \<Rightarrow> u32 \<Rightarrow> draw_list list \<Rightarrow> command list" where
  "draw_lists vertexOffset indexOffset [] = []"
| "draw_lists vertexOffset indexOffset (l # ls) =
     (case draw_commands vertexOffset indexOffset (cmds l) of (cs, i) \<Rightarrow>
        cs @ draw_lists (vertexOffset + of_nat (length (vtx l))) i ls)"

text \<open>\<open>scaling\<close>: the push constants, computed in \<open>float\<close> from ImGui's display size.\<close>

definition overlay_commands :: "ui_overlay \<Rightarrow> f32 list \<Rightarrow> draw_data \<Rightarrow> command list" where
  "overlay_commands U scaling dd =
     [CmdBindPipeline (ui_pipeline U), CmdBindDescriptorSets (ui_pipelineLayout U) [ui_set U] [],
      CmdPushConstants (ui_pipelineLayout U) VK_SHADER_STAGE_VERTEX_BIT 0 scaling,
      CmdBindVertexBuffers 0 (buf_buffer (vertexBuffer U)) 0,
      CmdBindIndexBuffer (buf_buffer (indexBuffer U)) 0 VK_INDEX_TYPE_UINT16] @
     draw_lists 0 0 (cmdLists dd)"

definition draw_overlay :: "ui_overlay \<Rightarrow> handle \<Rightarrow> f32 list \<Rightarrow> draw_data option \<Rightarrow> unit vk" where
  "draw_overlay U cmd scaling data =
     (case data of
        None \<Rightarrow> retV ()
      | Some dd \<Rightarrow> if cmdLists dd = [] then retV () else forV (overlay_commands U scaling dd) (\<lambda>c. doV (Record cmd c)))"

section \<open>Release and widgets\<close>

definition freeResources :: "ui_overlay \<Rightarrow> unit vk" where
  "freeResources U =
     (let dev = logicalDevice (ui_device U)
      in thenV (destroy (vertexBuffer U)) (
         thenV (destroy (indexBuffer U)) (
         thenV (doV (DestroyImageView dev (fontView U))) (
         thenV (doV (DestroyImage dev (fontImage U))) (
         thenV (doV (FreeMemory dev (fontMemory U))) (
         thenV (doV (DestroySampler dev (fontSampler U))) (
         thenV (doV (DestroyDescriptorSetLayout dev (ui_setLayout U))) (
         thenV (doV (DestroyDescriptorPool dev (ui_descriptorPool U))) (
         thenV (doV (DestroyPipelineLayout dev (ui_pipelineLayout U)))
           (doV (DestroyPipeline dev (ui_pipeline U))))))))))))"

text \<open>
  The widgets: \<open>res\<close> is what ImGui answers. \<open>checkBox\<close> on an integer passes a flag and stores what ImGui leaves in
  it; \<open>comboBox\<close> without items asks nothing.
\<close>

definition widget :: "ui_overlay \<Rightarrow> bool \<Rightarrow> bool \<times> ui_overlay" where
  "widget U res = (res, if res then U\<lparr>ui_updated := True\<rparr> else U)"

definition checkBox_int :: "ui_overlay \<Rightarrow> (bool \<Rightarrow> bool \<times> bool) \<Rightarrow> int \<Rightarrow> (bool \<times> int) \<times> ui_overlay" where
  "checkBox_int U checkbox value =
     (case checkbox (value = 1) of (res, val) \<Rightarrow>
        ((res, if val then 1 else 0), if res then U\<lparr>ui_updated := True\<rparr> else U))"

definition comboBox :: "ui_overlay \<Rightarrow> (string list \<Rightarrow> bool) \<Rightarrow> string list \<Rightarrow> bool \<times> ui_overlay" where
  "comboBox U combo items = (if items = [] then (False, U) else widget U (combo items))"

end
