(* ===== verification/VkOverlayRun.thy ===== *)
theory VkOverlayRun
  imports VkOverlay VkLogic VkBufferRun
begin

text \<open>
  What the overlay's upload and drawing stay within: the memory of its two buffers, and the vertices and indices of
  the list that is drawn.
\<close>

section \<open>Contracts of the third parties\<close>

text \<open>A driver asks for at least the size of a buffer when it is asked right after its creation.\<close>

definition covers :: "driver \<Rightarrow> bool" where
  "covers d = (\<forall>lg dev i b. b_size i \<le> r_size (reqs_of d (lg @ [(CreateBuffer dev i, VK_SUCCESS, b)])
     (GetBufferMemoryRequirements dev b)))"

text \<open>
  ImGui's totals are the sums over its lists, its elements have the size of their type, and the commands of a list use
  up its indices.
\<close>

definition vtx_total :: "draw_list list \<Rightarrow> nat" where
  "vtx_total ls = sum_list (map (\<lambda>l. length (vtx l)) ls)"

definition idx_total :: "draw_list list \<Rightarrow> nat" where
  "idx_total ls = sum_list (map (\<lambda>l. length (idx l)) ls)"

definition list_ok :: "draw_list \<Rightarrow> bool" where
  "list_ok l = ((\<forall>v \<in> set (vtx l). length v = 20) \<and> (\<forall>i \<in> set (idx l). length i = 2) \<and>
     sum_list (map (\<lambda>c. unat (elemCount c)) (cmds l)) = length (idx l))"

definition data_ok :: "draw_data \<Rightarrow> bool" where
  "data_ok dd = (totalVtxCount dd = int (vtx_total (cmdLists dd)) \<and> totalIdxCount dd = int (idx_total (cmdLists dd)) \<and>
     totalVtxCount dd < 2 ^ 31 \<and> totalIdxCount dd < 2 ^ 31 \<and> (\<forall>l \<in> set (cmdLists dd). list_ok l))"

text \<open>The invariant of the overlay: each buffer that exists has room for the count it was made for.\<close>

definition overlay_ok :: "ui_overlay \<Rightarrow> bool" where
  "overlay_ok U =
     (0 \<le> vertexCount U \<and> 0 \<le> indexCount U \<and>
      (buf_buffer (vertexBuffer U) \<noteq> VK_NULL_HANDLE \<longrightarrow> 20 * nat (vertexCount U) \<le> unat (buf_size (vertexBuffer U))) \<and>
      (buf_buffer (indexBuffer U) \<noteq> VK_NULL_HANDLE \<longrightarrow> 2 * nat (indexCount U) \<le> unat (buf_size (indexBuffer U))))"

section \<open>The buffers\<close>

definition writes :: "vk_call \<Rightarrow> bool" where
  [simp]: "writes c = (case c of HostWrite _ _ \<Rightarrow> True | _ \<Rightarrow> False)"

lemma covers_D: "covers d \<Longrightarrow> sz \<le> r_size (reqs_of d (lg @ [(CreateBuffer dev (bufferCreateInfo u sz), VK_SUCCESS, b)])
    (GetBufferMemoryRequirements dev b))"
  unfolding covers_def by (drule spec [of _ lg], drule spec [of _ dev], drule spec [of _ "bufferCreateInfo u sz"], drule spec [of _ b])
    (simp add: bufferCreateInfo_def)

lemma checked_createBuffer_InrD:
  assumes "checked (createBuffer D u p B sz None) d lg = Inr (B', lg')" and "covers d"
  shows "sz \<le> buf_size B' \<and> buf_mapped B' = buf_mapped B"
proof -
  let ?dev = "logicalDevice D"
  obtain r lg2 where c: "createBuffer D u p B sz None d lg = Inr ((r, B'), lg2)"
    using assms(1) by (auto simp: checked_def bindV_eq_Inr run_simps assert_eq split: if_splits)
  obtain buf lg1 where 1: "VK_CHECK_RESULT (CreateBuffer ?dev (bufferCreateInfo u sz)) d lg = Inr (buf, lg1)"
    using c unfolding createBuffer_def by (rule bindV_InrE)
  have l1: "lg1 = lg @ [(CreateBuffer ?dev (bufferCreateInfo u sz), VK_SUCCESS, buf)]"
    using 1 by (auto simp: check_eq split: if_splits)
  let ?reqs = "reqs_of d lg1 (GetBufferMemoryRequirements ?dev buf)"
  have "buf_size B' = r_size ?reqs" "buf_mapped B' = buf_mapped B"
    using c 1 by (auto simp: createBuffer_def finish_buffer_def bind_buffer_def setupDescriptor_def bindV_eq_Inr query_eq run_simps Let_def)
  then show ?thesis using covers_D [OF assms(2)] unfolding l1 by simp
qed

lemma only_createBuffer [only_intros]:
  assumes "\<And>c. \<not> writes c \<Longrightarrow> P c"
  shows "only_calls P (checked (createBuffer D u p B sz None))"
  unfolding checked_def createBuffer_def finish_buffer_def bind_buffer_def Let_def option.case
  by (intro only_intros) (simp_all add: assms)

lemma size_in_bytes:
  assumes "0 \<le> t" and "t < 2 ^ 31"
  shows "unat (of_int t * 20 :: u64) = 20 * nat t" and "unat (of_int t * 2 :: u64) = 2 * nat t"
proof -
  obtain n where n: "t = int n" "n < 2 ^ 31" using assms by (metis int_eq_iff nat_less_numeral_power_cancel_iff)
  have "of_int t * 20 = (of_nat (20 * n) :: u64)" "of_int t * 2 = (of_nat (2 * n) :: u64)" using n(1) by (simp_all add: mult.commute)
  moreover have "unat (of_nat (20 * n) :: u64) = 20 * n" "unat (of_nat (2 * n) :: u64) = 2 * n"
    using n(2) by (simp_all only: unat_of_nat) simp_all
  ultimately show "unat (of_int t * 20 :: u64) = 20 * nat t" "unat (of_int t * 2 :: u64) = 2 * nat t"
    using n(1) by (simp_all add: mult.commute)
qed

lemma unmap_InrD: "unmap B d lg = Inr (B', lg') \<Longrightarrow> B' = B\<lparr>buf_mapped := 0\<rparr>"
  by (cases "buf_mapped B = 0") (auto simp: unmap_def run_simps bindV_eq_Inr do_eq)

lemma map_buffer_InrD: "map_buffer B sz off d lg = Inr ((r, B'), lg') \<Longrightarrow> \<exists>p. B' = B\<lparr>buf_mapped := p\<rparr>"
  by (cases B) (auto simp: map_buffer_def bindV_eq_Inr run_simps split: if_splits)

lemma renew_vertices_InrD:
  assumes "renew_vertices U dd d lg = Inr ((b, U'), lg')" and "covers d" and "overlay_ok U" and "data_ok dd"
  shows "\<exists>B. U' = U\<lparr>vertexBuffer := B, vertexCount := totalVtxCount dd\<rparr> \<and> 20 * nat (totalVtxCount dd) \<le> unat (buf_size B)"
proof (cases "buf_buffer (vertexBuffer U) = VK_NULL_HANDLE \<or> vertexCount U \<noteq> totalVtxCount dd")
  case True
  have t: "0 \<le> totalVtxCount dd" "totalVtxCount dd < 2 ^ 31" using assms(4) by (simp_all add: data_ok_def)
  obtain b1 lg1 lg2 b2 lg3 b3 lg4 r b4 where
      c: "checked (createBuffer (ui_device U) VK_BUFFER_USAGE_VERTEX_BUFFER_BIT VK_MEMORY_PROPERTY_HOST_VISIBLE_BIT b1
        (of_int (totalVtxCount dd) * SIZEOF_ImDrawVert) None) d lg2 = Inr (b2, lg3)"
      "unmap b2 d lg3 = Inr (b3, lg4)" "map_buffer b3 VK_WHOLE_SIZE 0 d lg4 = Inr ((r, b4), lg')"
      "U' = U\<lparr>vertexBuffer := b4, vertexCount := totalVtxCount dd\<rparr>"
    using assms(1) True by (auto simp: renew_vertices_def bindV_eq_Inr run_simps)
  have "of_int (totalVtxCount dd) * SIZEOF_ImDrawVert \<le> buf_size b2" using checked_createBuffer_InrD [OF c(1) assms(2)] by simp
  then have "20 * nat (totalVtxCount dd) \<le> unat (buf_size b2)" by (simp add: word_le_nat_alt size_in_bytes(1) [OF t])
  moreover have "buf_size b4 = buf_size b2" using unmap_InrD [OF c(2)] map_buffer_InrD [OF c(3)] by auto
  ultimately show ?thesis using c(4) by auto
next
  case False
  then have "U' = U" using assms(1) by (simp add: renew_vertices_def run_simps)
  then show ?thesis using False assms(3) by (intro exI [of _ "vertexBuffer U"]) (auto simp: overlay_ok_def)
qed

lemma renew_indices_InrD:
  assumes "renew_indices U dd d lg = Inr ((b, U'), lg')" and "covers d" and "overlay_ok U" and "data_ok dd"
  shows "\<exists>B n. U' = U\<lparr>indexBuffer := B, indexCount := n\<rparr> \<and> totalIdxCount dd \<le> n \<and> 0 \<le> n \<and>
    2 * nat n \<le> unat (buf_size B)"
proof (cases "buf_buffer (indexBuffer U) = VK_NULL_HANDLE \<or> indexCount U < totalIdxCount dd")
  case True
  have t: "0 \<le> totalIdxCount dd" "totalIdxCount dd < 2 ^ 31" using assms(4) by (simp_all add: data_ok_def)
  obtain b1 lg2 b2 lg3 r b3 where
      c: "checked (createBuffer (ui_device U) VK_BUFFER_USAGE_INDEX_BUFFER_BIT VK_MEMORY_PROPERTY_HOST_VISIBLE_BIT b1
        (of_int (totalIdxCount dd) * SIZEOF_ImDrawIdx) None) d lg2 = Inr (b2, lg3)"
      "map_buffer b2 VK_WHOLE_SIZE 0 d lg3 = Inr ((r, b3), lg')"
      "U' = U\<lparr>indexBuffer := b3, indexCount := totalIdxCount dd\<rparr>"
    using assms(1) True by (auto simp: renew_indices_def bindV_eq_Inr run_simps)
  have "of_int (totalIdxCount dd) * SIZEOF_ImDrawIdx \<le> buf_size b2" using checked_createBuffer_InrD [OF c(1) assms(2)] by simp
  then have "2 * nat (totalIdxCount dd) \<le> unat (buf_size b2)" by (simp add: word_le_nat_alt size_in_bytes(2) [OF t])
  moreover have "buf_size b3 = buf_size b2" using map_buffer_InrD [OF c(2)] by auto
  ultimately show ?thesis using c(3) t by (intro exI [of _ b3] exI [of _ "totalIdxCount dd"]) simp
next
  case False
  then have "U' = U" using assms(1) by (simp add: renew_indices_def run_simps)
  then show ?thesis using False assms(3)
    by (intro exI [of _ "indexBuffer U"] exI [of _ "indexCount U"]) (auto simp: overlay_ok_def)
qed

lemma only_unmap_map_destroy [only_intros]:
  assumes "\<And>c. \<not> writes c \<Longrightarrow> P c"
  shows "only_calls P (unmap B)" and "only_calls P (map_buffer B sz off)" and "only_calls P (destroy B)"
    and "only_calls P (flush_buffer B sz off)"
  unfolding unmap_def map_buffer_def destroy_def flush_buffer_def by (intro only_intros; simp add: assms)+

lemma only_renew:
  assumes "\<And>c. \<not> writes c \<Longrightarrow> P c"
  shows "only_calls P (renew_vertices U dd)" and "only_calls P (renew_indices U dd)"
  unfolding renew_vertices_def renew_indices_def by ((intro only_intros; (simp add: assms)?)+)

lemma bindV_assoc: "bindV (bindV m f) g = bindV m (\<lambda>x. bindV (f x) g)"
  by (auto simp: bindV_def fun_eq_iff split: sum.split prod.split)

section \<open>The upload stays in the buffers\<close>

definition inside :: "vks_buffer \<Rightarrow> handle \<Rightarrow> 8 word list \<Rightarrow> bool" where
  "inside B p bytes = (\<exists>off. p = buf_mapped B + of_nat off \<and> off + length bytes \<le> unat (buf_size B))"

lemma concat_length: "\<forall>x \<in> set xs. length x = k \<Longrightarrow> length (concat xs) = k * length xs"
  by (induction xs) auto

lemma only_host_write:
  assumes "bytes \<noteq> [] \<Longrightarrow> P (HostWrite p bytes)"
  shows "only_calls P (host_write p bytes)"
  unfolding host_write_def using assms by (intro only_intros) simp_all

lemma upload_lists_within:
  assumes "\<forall>l \<in> set ls. list_ok l" and "v + 20 * vtx_total ls \<le> unat (buf_size V)" and "i + 2 * idx_total ls \<le> unat (buf_size I)"
  shows "only_calls (\<lambda>c. \<forall>p bytes. c = HostWrite p bytes \<longrightarrow> inside V p bytes \<or> inside I p bytes)
    (upload_lists (buf_mapped V + of_nat v) (buf_mapped I + of_nat i) ls)"
  using assms
proof (induction ls arbitrary: v i)
  case (Cons l ls)
  have n: "length (concat (vtx l)) = 20 * length (vtx l)" "length (concat (idx l)) = 2 * length (idx l)"
    using Cons.prems(1) by (simp_all add: list_ok_def concat_length)
  have t: "vtx_total (l # ls) = length (vtx l) + vtx_total ls" "idx_total (l # ls) = length (idx l) + idx_total ls"
    by (simp_all add: vtx_total_def idx_total_def)
  have w: "inside V (buf_mapped V + of_nat v) (concat (vtx l))" "inside I (buf_mapped I + of_nat i) (concat (idx l))"
    unfolding inside_def using Cons.prems(2,3) n t by (auto intro: exI [of _ v] exI [of _ i])
  have "only_calls (\<lambda>c. \<forall>p bytes. c = HostWrite p bytes \<longrightarrow> inside V p bytes \<or> inside I p bytes)
      (upload_lists (buf_mapped V + of_nat (v + 20 * length (vtx l))) (buf_mapped I + of_nat (i + 2 * length (idx l))) ls)"
    using Cons.prems t by (intro Cons.IH) simp_all
  then have "only_calls (\<lambda>c. \<forall>p bytes. c = HostWrite p bytes \<longrightarrow> inside V p bytes \<or> inside I p bytes)
      (upload_lists (buf_mapped V + of_nat v + of_nat (length (vtx l)) * SIZEOF_ImDrawVert)
        (buf_mapped I + of_nat i + of_nat (length (idx l)) * SIZEOF_ImDrawIdx) ls)"
    by (simp add: algebra_simps)
  then show ?case unfolding upload_lists.simps using w by (intro only_then only_host_write) auto
qed (simp add: only_ret)

text \<open>
  C9. The overlay's upload stays in its two buffers. When the totals of ImGui are the sums over its lists, every byte that
  \<open>update\<close> writes lies in the mapped memory of the vertex or the index buffer, whether these were kept or
  made again for new counts, and both afterwards have room for what they were filled with.
\<close>

theorem overlay_update_in_bounds:
  assumes "update U (Some dd) d lg = Inr ((flag, U'), lg')" and "covers d" and "overlay_ok U" and "data_ok dd"
  shows "overlay_ok U' \<and> (\<exists>es. lg' = lg @ es \<and> (\<forall>e \<in> set es. \<forall>p bytes. fst e = HostWrite p bytes \<longrightarrow>
    inside (vertexBuffer U') p bytes \<or> inside (indexBuffer U') p bytes))"
proof (cases "of_int (totalVtxCount dd) * SIZEOF_ImDrawVert = 0 \<or> of_int (totalIdxCount dd) * SIZEOF_ImDrawIdx = 0")
  case True
  then show ?thesis using assms(1,3) by (simp add: update_def run_simps)
next
  case False
  let ?P = "\<lambda>c. \<forall>p bytes. c = HostWrite p bytes \<longrightarrow> inside (vertexBuffer U') p bytes \<or> inside (indexBuffer U') p bytes"
  let ?last = "\<lambda>U. bindV (flush_buffer (vertexBuffer U) VK_WHOLE_SIZE 0) (\<lambda>_. flush_buffer (indexBuffer U) VK_WHOLE_SIZE 0)"
  let ?rest = "\<lambda>v U1. bindV (renew_indices U1 dd) (\<lambda>(i, U2).
      thenV (upload_lists (buf_mapped (vertexBuffer U2)) (buf_mapped (indexBuffer U2)) (cmdLists dd))
        (bindV (?last U2) (\<lambda>_. retV (v \<or> i, U2))))"
  have "bindV (renew_vertices U dd) (\<lambda>(v, U1). ?rest v U1) d lg = Inr ((flag, U'), lg')"
    using assms(1) False by (simp add: update_def bindV_assoc)
  then obtain p1 lg1 where p1: "renew_vertices U dd d lg = Inr (p1, lg1)" "(case p1 of (v, U1) \<Rightarrow> ?rest v U1) d lg1 = Inr ((flag, U'), lg')"
    by (rule bindV_InrE)
  obtain b1 U1 where "p1 = (b1, U1)" by (cases p1)
  then have r1: "renew_vertices U dd d lg = Inr ((b1, U1), lg1)" "?rest b1 U1 d lg1 = Inr ((flag, U'), lg')"
    using p1 by simp_all
  obtain p2 lg2 where p2: "renew_indices U1 dd d lg1 = Inr (p2, lg2)" "(case p2 of (i, U2) \<Rightarrow>
      thenV (upload_lists (buf_mapped (vertexBuffer U2)) (buf_mapped (indexBuffer U2)) (cmdLists dd))
        (bindV (?last U2) (\<lambda>_. retV (b1 \<or> i, U2)))) d lg2 = Inr ((flag, U'), lg')"
    using r1(2) by (rule bindV_InrE)
  obtain b2 U2 where "p2 = (b2, U2)" by (cases p2)
  then have r2: "renew_indices U1 dd d lg1 = Inr ((b2, U2), lg2)"
      "bindV (upload_lists (buf_mapped (vertexBuffer U2)) (buf_mapped (indexBuffer U2)) (cmdLists dd))
        (\<lambda>_. bindV (?last U2) (\<lambda>_. retV (b1 \<or> b2, U2))) d lg2 = Inr ((flag, U'), lg')"
    using p2 by (simp_all add: thenV_def)
  obtain u lg3 where u: "upload_lists (buf_mapped (vertexBuffer U2)) (buf_mapped (indexBuffer U2)) (cmdLists dd) d lg2 = Inr (u, lg3)"
      "bindV (?last U2) (\<lambda>_. retV (b1 \<or> b2, U2)) d lg3 = Inr ((flag, U'), lg')"
    using r2(2) by (rule bindV_InrE)
  obtain r lg4 where l: "?last U2 d lg3 = Inr (r, lg4)" "retV (b1 \<or> b2, U2) d lg4 = Inr ((flag, U'), lg')"
    using u(2) by (rule bindV_InrE)
  have r3: "?last U2 d lg3 = Inr (r, lg')" "U' = U2" using l by (simp_all add: run_simps)
  note r = r1(1) r2(1) u(1) r3
  obtain V where V: "U1 = U\<lparr>vertexBuffer := V, vertexCount := totalVtxCount dd\<rparr>" "20 * nat (totalVtxCount dd) \<le> unat (buf_size V)"
    using renew_vertices_InrD [OF r(1) assms(2-4)] by blast
  have t: "0 \<le> totalVtxCount dd" "nat (totalVtxCount dd) = vtx_total (cmdLists dd)" "nat (totalIdxCount dd) = idx_total (cmdLists dd)"
    "\<forall>l \<in> set (cmdLists dd). list_ok l"
    using assms(4) by (simp_all add: data_ok_def)
  have "overlay_ok U1" using assms(3) V t(1) by (simp add: overlay_ok_def)
  from renew_indices_InrD [OF r(2) assms(2) this assms(4)]
  obtain I n where I: "U2 = U1\<lparr>indexBuffer := I, indexCount := n\<rparr>" "totalIdxCount dd \<le> n" "0 \<le> n" "2 * nat n \<le> unat (buf_size I)"
    by blast
  have ok: "overlay_ok U'" using V I t(1) r(5) by (simp add: overlay_ok_def)
  have bufs: "vertexBuffer U2 = V" "indexBuffer U2 = I" using V(1) I(1) by simp_all
  have "20 * vtx_total (cmdLists dd) \<le> unat (buf_size V)" "2 * idx_total (cmdLists dd) \<le> unat (buf_size I)"
    using V(2) I(2,4) t(2,3) by simp_all
  then have up: "only_calls ?P (upload_lists (buf_mapped (vertexBuffer U2)) (buf_mapped (indexBuffer U2)) (cmdLists dd))"
    using upload_lists_within [OF t(4), of 0 V 0 I] unfolding r(5) bufs by simp
  have free: "\<not> writes c \<Longrightarrow> ?P c" for c by (cases c) auto
  have ren: "only_calls ?P (renew_vertices U dd)" "only_calls ?P (renew_indices U1 dd)" by (rule only_renew, rule free, assumption)+
  have fl: "only_calls ?P (?last U2)" by (intro only_intros free) simp_all
  obtain es1 where 1: "lg1 = lg @ es1" "\<forall>e \<in> set es1. ?P (fst e)" using only_D [OF ren(1) r(1)] .
  obtain es2 where 2: "lg2 = lg1 @ es2" "\<forall>e \<in> set es2. ?P (fst e)" using only_D [OF ren(2) r(2)] .
  obtain es3 where 3: "lg3 = lg2 @ es3" "\<forall>e \<in> set es3. ?P (fst e)" using only_D [OF up r(3)] .
  obtain es4 where 4: "lg' = lg3 @ es4" "\<forall>e \<in> set es4. ?P (fst e)" using only_D [OF fl r(4)] .
  have "\<forall>e \<in> set (es1 @ es2 @ es3 @ es4). ?P (fst e)" using 1(2) 2(2) 3(2) 4(2) unfolding set_append ball_Un by blast
  moreover have "lg' = lg @ es1 @ es2 @ es3 @ es4" unfolding 4(1) 3(1) 2(1) 1(1) append_assoc by (rule refl)
  ultimately show ?thesis using ok by blast
qed

section \<open>A draw reads its own list\<close>

definition elem_total :: "draw_cmd list \<Rightarrow> nat" where
  "elem_total cs = sum_list (map (\<lambda>c. unat (elemCount c)) cs)"

text \<open>
  Where the j-th command of the k-th list has its indices, and the list its vertices: after all that comes before in
  the buffers. The commands drawn of a list are all it has, in order, each with its own clipping.
\<close>

definition first_index :: "draw_list list \<Rightarrow> nat \<Rightarrow> nat \<Rightarrow> u32" where
  "first_index ls k j = of_nat (idx_total (take k ls) + elem_total (take j (cmds (ls ! k))))"

definition first_vertex :: "draw_list list \<Rightarrow> nat \<Rightarrow> u32" where
  "first_vertex ls k = of_nat (vtx_total (take k ls))"

definition own_draws :: "draw_list list \<Rightarrow> nat \<Rightarrow> command list" where
  "own_draws ls k =
     concat (map (\<lambda>j. let c = cmds (ls ! k) ! j
                      in [CmdSetScissor (clip_rect c), CmdDrawIndexed (elemCount c) 1 (first_index ls k j) (first_vertex ls k) 0])
               [0 ..< length (cmds (ls ! k))])"

lemma draw_commands_eq:
  "draw_commands v i cs =
     (concat (map (\<lambda>j. [CmdSetScissor (clip_rect (cs ! j)),
                         CmdDrawIndexed (elemCount (cs ! j)) 1 (i + of_nat (elem_total (take j cs))) v 0]) [0 ..< length cs]),
      i + of_nat (elem_total cs))"
proof (induction cs arbitrary: i)
  case (Cons c cs)
  then show ?case by (simp add: elem_total_def map_upt_Suc add.assoc del: upt_Suc)
qed (simp add: elem_total_def)

lemma draw_lists_eq:
  assumes "\<forall>l \<in> set ls. list_ok l"
  shows "draw_lists v i ls =
    concat (map (\<lambda>k. concat (map (\<lambda>j. [CmdSetScissor (clip_rect (cmds (ls ! k) ! j)),
        CmdDrawIndexed (elemCount (cmds (ls ! k) ! j)) 1 (i + first_index ls k j) (v + first_vertex ls k) 0])
      [0 ..< length (cmds (ls ! k))])) [0 ..< length ls])"
  using assms
proof (induction ls arbitrary: v i)
  case (Cons l ls)
  have e: "elem_total (cmds l) = length (idx l)" using Cons.prems by (simp add: list_ok_def elem_total_def)
  have "first_index (l # ls) (Suc k) j = of_nat (length (idx l)) + first_index ls k j"
      "first_vertex (l # ls) (Suc k) = of_nat (length (vtx l)) + first_vertex ls k"
      "first_index (l # ls) 0 j = of_nat (elem_total (take j (cmds l)))" "first_vertex (l # ls) 0 = 0" for k j
    by (simp_all add: first_index_def first_vertex_def idx_total_def vtx_total_def)
  then show ?case using Cons e by (simp add: draw_commands_eq map_upt_Suc add.assoc del: upt_Suc)
qed simp

lemma elem_total_take_le:
  assumes "j < length cs"
  shows "elem_total (take j cs) + unat (elemCount (cs ! j)) \<le> elem_total cs"
proof -
  have "elem_total cs = elem_total (take (Suc j) cs @ drop (Suc j) cs)" by simp
  also have "\<dots> = elem_total (take j cs) + unat (elemCount (cs ! j)) + elem_total (drop (Suc j) cs)"
    using assms by (simp only: elem_total_def map_append sum_list_append take_Suc_conv_app_nth) simp
  finally show ?thesis by simp
qed

lemma totals_take_Suc:
  assumes "k < length ls"
  shows "idx_total (take (Suc k) ls) = idx_total (take k ls) + length (idx (ls ! k))"
    and "vtx_total (take k ls) \<le> vtx_total ls" and "idx_total (take (Suc k) ls) \<le> idx_total ls"
proof -
  show "idx_total (take (Suc k) ls) = idx_total (take k ls) + length (idx (ls ! k))"
    using assms by (simp add: idx_total_def take_Suc_conv_app_nth)
  have "idx_total ls = idx_total (take (Suc k) ls @ drop (Suc k) ls)" "vtx_total ls = vtx_total (take k ls @ drop k ls)" by simp_all
  then show "vtx_total (take k ls) \<le> vtx_total ls" "idx_total (take (Suc k) ls) \<le> idx_total ls"
    unfolding idx_total_def vtx_total_def map_append sum_list_append by simp_all
qed

text \<open>
  C37. The overlay draws all that ImGui asked for, from where it was uploaded. What is recorded after the five bindings is,
  for every list in order and every command of it in order, the clipping rectangle of the command and one indexed draw
  of its number of indices; the draw starts behind the indices of the lists and commands before it, adds to the indices
  the number of vertices of the lists before it, and stays inside the indices its list has in the buffer.
\<close>

theorem overlay_draws_own_list:
  assumes "data_ok dd"
  shows "drop 5 (overlay_commands U scaling dd) = concat (map (own_draws (cmdLists dd)) [0 ..< length (cmdLists dd)]) \<and>
    (\<forall>k < length (cmdLists dd). \<forall>j < length (cmds (cmdLists dd ! k)).
       unat (first_vertex (cmdLists dd) k) = vtx_total (take k (cmdLists dd)) \<and>
       unat (first_index (cmdLists dd) k j) = idx_total (take k (cmdLists dd)) + elem_total (take j (cmds (cmdLists dd ! k))) \<and>
       unat (first_index (cmdLists dd) k j) + unat (elemCount (cmds (cmdLists dd ! k) ! j)) \<le> idx_total (take (Suc k) (cmdLists dd)))"
proof (intro conjI allI impI)
  let ?ls = "cmdLists dd"
  have ok: "\<forall>l \<in> set ?ls. list_ok l" and t: "vtx_total ?ls < 2 ^ 31" "idx_total ?ls < 2 ^ 31" using assms by (simp_all add: data_ok_def)
  show "drop 5 (overlay_commands U scaling dd) = concat (map (own_draws ?ls) [0 ..< length ?ls])"
    by (simp add: overlay_commands_def draw_lists_eq [OF ok] own_draws_def [abs_def] Let_def)
  fix k j assume k: "k < length ?ls" and j: "j < length (cmds (?ls ! k))"
  have "elem_total (cmds (?ls ! k)) = length (idx (?ls ! k))" using ok k by (simp add: list_ok_def elem_total_def)
  then have e: "idx_total (take k ?ls) + elem_total (take j (cmds (?ls ! k))) + unat (elemCount (cmds (?ls ! k) ! j)) \<le> idx_total (take (Suc k) ?ls)"
    using elem_total_take_le [OF j] totals_take_Suc(1) [OF k] by simp
  then have "idx_total (take k ?ls) + elem_total (take j (cmds (?ls ! k))) < 2 ^ 32" using t(2) totals_take_Suc(3) [OF k] by simp
  then show f: "unat (first_index ?ls k j) = idx_total (take k ?ls) + elem_total (take j (cmds (?ls ! k)))"
    unfolding first_index_def by (rule unat_of_nat_u32)
  show "unat (first_index ?ls k j) + unat (elemCount (cmds (?ls ! k) ! j)) \<le> idx_total (take (Suc k) ?ls)" unfolding f using e .
  show "unat (first_vertex ?ls k) = vtx_total (take k ?ls)"
    unfolding first_vertex_def using t(1) totals_take_Suc(2) [OF k] by (intro unat_of_nat_u32) simp
qed

section \<open>An example\<close>

definition triangle_list :: draw_list where
  "triangle_list = \<lparr>vtx = replicate 3 (replicate 20 7), idx = replicate 3 [1, 0],
     cmds = [\<lparr>clip_corner = (0, 0), clip_size = (5, 5), elemCount = 3\<rparr>]\<rparr>"

definition triangle_data :: draw_data where
  "triangle_data = \<lparr>totalVtxCount = 6, totalIdxCount = 6, cmdLists = [triangle_list, triangle_list]\<rparr>"

definition demo_overlay :: ui_overlay where
  "demo_overlay = \<lparr>ui_device = demo_device, ui_queue = 3, rasterizationSamples = 1, ui_subpass = 0,
     vertexBuffer = fresh_buffer, indexBuffer = fresh_buffer, vertexCount = 0, indexCount = 0, ui_shaders = [],
     ui_descriptorPool = 0, ui_setLayout = 0, ui_set = 0, ui_pipelineLayout = 0, ui_pipeline = 0, fontMemory = 0,
     fontImage = 0, fontView = 0, fontSampler = 0, ui_updated = False\<rparr>"

definition exact_driver :: driver where
  "exact_driver = demo_driver\<lparr>reqs_of := (\<lambda>lg c. \<lparr>r_size = (case last lg of (CreateBuffer dev i, r, h) \<Rightarrow> b_size i | _ \<Rightarrow> 256),
     r_alignment = 16, r_typeBits = 7\<rparr>)\<rparr>"

lemma exact_covers: "covers exact_driver"
  by (simp add: covers_def exact_driver_def)

lemma triangle_data_ok: "data_ok triangle_data"
  by (simp add: data_ok_def triangle_data_def list_ok_def triangle_list_def vtx_total_def idx_total_def)

lemma demo_overlay_ok: "overlay_ok demo_overlay"
  by (simp add: overlay_ok_def demo_overlay_def new_buffer_def)

theorem overlay_draws_own_list_witness:
  "\<exists>r. drop 5 (overlay_commands demo_overlay [] triangle_data) =
    [CmdSetScissor r, CmdDrawIndexed 3 1 0 0 0, CmdSetScissor r, CmdDrawIndexed 3 1 3 3 0]"
proof -
  have "drop 5 (overlay_commands demo_overlay [] triangle_data) = concat (map (own_draws (cmdLists triangle_data)) [0 ..< 2])"
  proof -
    have "length (cmdLists triangle_data) = 2" by (simp add: triangle_data_def)
    then show ?thesis using overlay_draws_own_list [OF triangle_data_ok, of demo_overlay "[]", THEN conjunct1] by (simp only:)
  qed
  then show ?thesis
    by (simp add: upt_rec own_draws_def triangle_data_def triangle_list_def first_index_def first_vertex_def elem_total_def
        idx_total_def vtx_total_def Let_def)
qed

lemma demo_update: "\<exists>U' lg'. update demo_overlay (Some triangle_data) exact_driver [] = Inr ((True, U'), lg')"
    using demo_memory(2)
    by (simp add: update_def renew_vertices_def renew_indices_def checked_def createBuffer_def finish_buffer_def bind_buffer_def
        setupDescriptor_def unmap_def destroy_def map_buffer_def flush_buffer_def host_write_def bindV_def run_simps check_eq query_eq
        do_eq assert_eq Let_def demo_overlay_def triangle_data_def triangle_list_def new_buffer_def exact_driver_def demo_driver_def)

theorem overlay_update_in_bounds_witness:
  "\<exists>U' lg'. update demo_overlay (Some triangle_data) exact_driver [] = Inr ((True, U'), lg') \<and> overlay_ok U' \<and>
    (\<exists>es. lg' = [] @ es \<and> (\<forall>e \<in> set es. \<forall>p bytes. fst e = HostWrite p bytes \<longrightarrow>
      inside (vertexBuffer U') p bytes \<or> inside (indexBuffer U') p bytes))"
proof -
  obtain U' lg' where r: "update demo_overlay (Some triangle_data) exact_driver [] = Inr ((True, U'), lg')"
    using demo_update by blast
  from overlay_update_in_bounds [OF r exact_covers demo_overlay_ok triangle_data_ok] r show ?thesis by blast
qed

end
