(* ===== verification/VkOverlayOwner.thy ===== *)
theory VkOverlayOwner
  imports VkOverlayRun
begin

text \<open>
  The overlay as an owner of its buffers and of device memory: whatever the frames make it create, \<open>freeResources\<close>
  returns, and the upload of the font leaves nothing behind.
\<close>

datatype overlay_op =
    Prepare submit "8 word list" u32 u32
  | Pipeline handle handle
  | Update "draw_data option"
  | Draw handle "f32 list" "draw_data option"

fun overlay_step :: "overlay_op \<Rightarrow> ui_overlay \<Rightarrow> ui_overlay vk" where
  "overlay_step (Prepare S fontData w h) U = bindV (prepareResources U S fontData w h) (\<lambda>(U', _). retV U')"
| "overlay_step (Pipeline cache pass) U = preparePipeline U cache pass"
| "overlay_step (Update data) U = bindV (update U data) (\<lambda>(_, U'). retV U')"
| "overlay_step (Draw cmd scaling data) U = thenV (draw_overlay U cmd scaling data) (retV U)"

text \<open>The resources are prepared once.\<close>

fun overlay_pre :: "overlay_op \<Rightarrow> ui_overlay \<Rightarrow> bool" where
  "overlay_pre (Prepare S fontData w h) U = (fontMemory U = VK_NULL_HANDLE)"
| "overlay_pre _ U = True"

section \<open>Buffers and memory\<close>

definition makes_buffer :: "vk_call \<Rightarrow> bool" where
  [simp]: "makes_buffer c = (case c of CreateBuffer _ _ \<Rightarrow> True | _ \<Rightarrow> False)"

definition frees_buffer :: "vk_call \<Rightarrow> handle option" where
  [simp]: "frees_buffer c = (case c of DestroyBuffer _ b \<Rightarrow> Some b | _ \<Rightarrow> None)"

definition makes_memory :: "vk_call \<Rightarrow> bool" where
  [simp]: "makes_memory c = (case c of AllocateMemory _ _ _ \<Rightarrow> True | _ \<Rightarrow> False)"

definition frees_memory :: "vk_call \<Rightarrow> handle option" where
  [simp]: "frees_memory c = (case c of FreeMemory _ m \<Rightarrow> Some m | _ \<Rightarrow> None)"

abbreviation neutral :: "(vk_call \<Rightarrow> bool) \<Rightarrow> (vk_call \<Rightarrow> handle option) \<Rightarrow> vk_call \<Rightarrow> bool" where
  "neutral mk fr \<equiv> \<lambda>c. \<not> mk c \<and> fr c = None"

lemma balances_bind_quiet:
  assumes "only (neutral mk fr) m R" and "\<And>x. R x \<Longrightarrow> balances mk fr (f x) A Q"
  shows "balances mk fr (bindV m f) A Q"
  using balances_quiet [OF assms(1)] by (rule balances_bind) (simp add: assms(2))

lemma balances_calls: "only_calls (neutral mk fr) m \<Longrightarrow> balances mk fr m A (\<lambda>_ B. B = A)"
  using balances_quiet [of mk fr m "\<lambda>_. True" A] by simp

lemma balances_then_quiet:
  "only_calls (neutral mk fr) m \<Longrightarrow> balances mk fr n A Q \<Longrightarrow> balances mk fr (thenV m n) A Q"
  unfolding thenV_def by (rule balances_bind_quiet)

lemma balances_bind_make:
  assumes "mk c" and "fr c = None" and "\<And>h. h \<noteq> VK_NULL_HANDLE \<Longrightarrow> balances mk fr (f h) (A + objects [h]) Q"
  shows "balances mk fr (bindV (VK_CHECK_RESULT c) f) A Q"
  by (rule balances_bind [OF balances_make [of mk c fr, OF assms(1,2)]]) (use assms(3) in blast)

lemma balances_then_eq:
  "balances mk fr m A (\<lambda>_ B. B = A') \<Longrightarrow> balances mk fr n A' Q \<Longrightarrow> balances mk fr (thenV m n) A Q"
  unfolding thenV_def by (erule balances_bind) simp

text \<open>Both balances of a buffer's life.\<close>

lemma only_unmap:
  assumes "\<And>dev m. neutral mk fr (UnmapMemory dev m)"
  shows "only (neutral mk fr) (unmap B) (\<lambda>B'. buf_buffer B' = buf_buffer B \<and> buf_memory B' = buf_memory B)"
  using assms by (auto simp: only_def unmap_def run_simps bindV_eq_Inr do_eq split: if_splits)

lemma only_map_buffer:
  assumes "\<And>dev m off sz. neutral mk fr (MapMemory dev m off sz)"
  shows "only (neutral mk fr) (map_buffer B sz off) (\<lambda>(r, B'). buf_buffer B' = buf_buffer B \<and> buf_memory B' = buf_memory B)"
  using assms by (auto simp: only_def map_buffer_def run_simps bindV_eq_Inr split: if_splits)

text \<open>A buffer without data: four calls, two objects.\<close>

lemma createBuffer_events:
  assumes "checked (createBuffer D u p B sz None) d lg = Inr (B', lg')"
  shows "\<exists>i r1 n ti c4 r4. lg' = lg @ [(CreateBuffer (logicalDevice D) i, VK_SUCCESS, buf_buffer B'),
      (GetBufferMemoryRequirements (logicalDevice D) (buf_buffer B'), r1),
      (AllocateMemory (logicalDevice D) n ti, VK_SUCCESS, buf_memory B'),
      (BindBufferMemory (logicalDevice D) (buf_buffer B') (buf_memory B') c4, r4)]"
proof -
  let ?dev = "logicalDevice D"
  obtain buf lg1 where 1: "VK_CHECK_RESULT (CreateBuffer ?dev (bufferCreateInfo u sz)) d lg = Inr (buf, lg1)"
      "lg1 = lg @ [(CreateBuffer ?dev (bufferCreateInfo u sz), VK_SUCCESS, buf)]"
    using assms by (auto simp: checked_def createBuffer_def bindV_eq_Inr check_eq split: if_splits)
  let ?q = "GetBufferMemoryRequirements ?dev buf"
  define reqs where "reqs = reqs_of d lg1 ?q"
  define lg2 where "lg2 = lg1 @ [(?q, result_of d lg1 ?q, handle_of d lg1 ?q)]"
  obtain ti where 2: "getMemoryType D (r_typeBits reqs) p d lg2 = Inr (ti, lg2)"
    using assms 1(1) by (auto simp: checked_def createBuffer_def bindV_eq_Inr query_eq reqs_def lg2_def dest: getMemoryType_log)
  show ?thesis using assms 1(1) 2
    unfolding checked_def createBuffer_def finish_buffer_def bind_buffer_def setupDescriptor_def option.case
    by (auto simp: bindV_eq_Inr query_eq check_eq run_simps assert_eq Let_def reqs_def lg2_def 1(2) bindV_def split: if_splits)
qed

lemma create_balances:
  "balances makes_buffer frees_buffer (checked (createBuffer D u p B sz None)) A (\<lambda>B' C. C = A + objects [buf_buffer B'])"
  "balances makes_memory frees_memory (checked (createBuffer D u p B sz None)) A (\<lambda>B' C. C = A + objects [buf_memory B'])"
  unfolding balances_def
proof (safe)
  fix d lg B' lg'
  assume "checked (createBuffer D u p B sz None) d lg = Inr (B', lg')"
  from createBuffer_events [OF this] obtain i r1 n ti c4 r4 where e:
    "lg' = lg @ [(CreateBuffer (logicalDevice D) i, VK_SUCCESS, buf_buffer B'),
      (GetBufferMemoryRequirements (logicalDevice D) (buf_buffer B'), r1),
      (AllocateMemory (logicalDevice D) n ti, VK_SUCCESS, buf_memory B'),
      (BindBufferMemory (logicalDevice D) (buf_buffer B') (buf_memory B') c4, r4)]" (is "_ = _ @ ?es") by blast
  have "owns (made_by makes_buffer) (freed_by frees_buffer) ?es A (A + objects [buf_buffer B'])"
    by (intro owns_make owns_skip) simp_all
  then show "\<exists>es C. lg' = lg @ es \<and> owns (made_by makes_buffer) (freed_by frees_buffer) es A C \<and> C = A + objects [buf_buffer B']"
    using e by blast
  have "owns (made_by makes_memory) (freed_by frees_memory) ?es A (A + objects [buf_memory B'])"
    by (rule owns_skip, simp, simp, rule owns_skip, simp, simp, rule owns_make, simp, simp, rule owns_skip) simp_all
  then show "\<exists>es C. lg' = lg @ es \<and> owns (made_by makes_memory) (freed_by frees_memory) es A C \<and> C = A + objects [buf_memory B']"
    using e by blast
qed

lemma destroy_balances:
  "balances makes_buffer frees_buffer (destroy B) (A + objects [buf_buffer B]) (\<lambda>_ C. C = A)"
  "balances makes_memory frees_memory (destroy B) (A + objects [buf_memory B]) (\<lambda>_ C. C = A)"
proof -
  have b: "balances makes_buffer frees_buffer (if buf_buffer B \<noteq> 0 then doV (DestroyBuffer (buf_device B) (buf_buffer B)) else retV ())
      (A + objects [buf_buffer B]) (\<lambda>_ C. C = A)"
    using balances_free [of frees_buffer "DestroyBuffer (buf_device B) (buf_buffer B)" "buf_buffer B" makes_buffer A]
    by (cases "buf_buffer B = 0") (simp_all add: balances_ret)
  have m: "balances makes_memory frees_memory (if buf_memory B \<noteq> 0 then doV (FreeMemory (buf_device B) (buf_memory B)) else retV ())
      (A + objects [buf_memory B]) (\<lambda>_ C. C = A)"
    using balances_free [of frees_memory "FreeMemory (buf_device B) (buf_memory B)" "buf_memory B" makes_memory A]
    by (cases "buf_memory B = 0") (simp_all add: balances_ret)
  show "balances makes_buffer frees_buffer (destroy B) (A + objects [buf_buffer B]) (\<lambda>_ C. C = A)"
    unfolding destroy_def by (rule balances_then_eq [OF b], rule balances_calls, intro only_intros) simp_all
  show "balances makes_memory frees_memory (destroy B) (A + objects [buf_memory B]) (\<lambda>_ C. C = A)"
    unfolding destroy_def by (rule balances_then_quiet, intro only_intros, simp, rule m)
qed

section \<open>A kind of object that buffers have\<close>

text \<open>
  What the overlay relies on for a kind of which every buffer has one object, \<open>sel\<close>: a buffer made has a new one, a
  buffer destroyed had one, and no other call of the overlay makes or frees any.
\<close>

definition buffer_call :: "vk_call \<Rightarrow> bool" where
  [simp]: "buffer_call c = (case c of
     CreateBuffer _ _ \<Rightarrow> True | DestroyBuffer _ _ \<Rightarrow> True | AllocateMemory _ _ _ \<Rightarrow> True | FreeMemory _ _ \<Rightarrow> True | _ \<Rightarrow> False)"

locale buffer_kind =
  fixes mk :: "vk_call \<Rightarrow> bool" and fr :: "vk_call \<Rightarrow> handle option" and sel :: "vks_buffer \<Rightarrow> handle"
  assumes create: "balances mk fr (checked (createBuffer D u p B sz None)) A (\<lambda>B' C. C = A + objects [sel B'])"
    and destroys: "balances mk fr (destroy B) (A + objects [sel B]) (\<lambda>_ C. C = A)"
    and others: "\<not> buffer_call c \<Longrightarrow> neutral mk fr c"
    and selects: "buf_buffer B' = buf_buffer B \<Longrightarrow> buf_memory B' = buf_memory B \<Longrightarrow> sel B' = sel B"
begin

lemma unmap_keeps: "only (neutral mk fr) (unmap B) (\<lambda>B'. sel B' = sel B)"
proof -
  have "only (neutral mk fr) (unmap B) (\<lambda>B'. buf_buffer B' = buf_buffer B \<and> buf_memory B' = buf_memory B)"
    by (rule only_unmap, rule others) simp
  then show ?thesis
  proof (rule only_weaken)
    show "sel B' = sel B" if "buf_buffer B' = buf_buffer B \<and> buf_memory B' = buf_memory B" for B'
      using that by (elim conjE) (rule selects)
  qed
qed

lemma map_keeps: "only (neutral mk fr) (map_buffer B sz off) (\<lambda>p. sel (snd p) = sel B)"
proof -
  have "only (neutral mk fr) (map_buffer B sz off) (\<lambda>(r, B'). buf_buffer B' = buf_buffer B \<and> buf_memory B' = buf_memory B)"
    by (rule only_map_buffer, rule others) simp
  then show ?thesis
  proof (rule only_weaken)
    show "sel (snd p) = sel B" if "case p of (r, B') \<Rightarrow> buf_buffer B' = buf_buffer B \<and> buf_memory B' = buf_memory B"
      for p :: "int \<times> vks_buffer"
      using that unfolding split_beta by (elim conjE) (rule selects)
  qed
qed

lemma calls_keep: "only_calls (\<lambda>c. \<not> buffer_call c) m \<Longrightarrow> only_calls (neutral mk fr) m"
  by (erule only_weaken) (rule others, assumption, rule TrueI)

text \<open>A buffer is unmapped, destroyed and made again.\<close>

lemma remake_keeps:
  assumes "\<And>b2. balances mk fr (f b2) (A + objects [sel b2]) Q"
  shows "balances mk fr (bindV (unmap B) (\<lambda>b1. thenV (destroy b1) (bindV (checked (createBuffer D u p b1 sz None)) f)))
    (A + objects [sel B]) Q"
proof (rule balances_bind_quiet [OF unmap_keeps])
  fix b1 assume b1: "sel b1 = sel B"
  show "balances mk fr (thenV (destroy b1) (bindV (checked (createBuffer D u p b1 sz None)) f)) (A + objects [sel B]) Q"
    unfolding b1 [symmetric]
    by (rule balances_then_eq [OF destroys], rule balances_bind [OF create]) (simp only: assms)
qed

lemma renew_vertices_keeps:
  "balances mk fr (renew_vertices U dd) (A + objects [sel (vertexBuffer U)])
     (\<lambda>p C. indexBuffer (snd p) = indexBuffer U \<and> fontMemory (snd p) = fontMemory U \<and> C = A + objects [sel (vertexBuffer (snd p))])"
  (is "balances mk fr _ _ ?Q")
proof (cases "buf_buffer (vertexBuffer U) = VK_NULL_HANDLE \<or> vertexCount U \<noteq> totalVtxCount dd")
  case True
  have "balances mk fr (bindV (unmap b2) (\<lambda>b3. bindV (map_buffer b3 VK_WHOLE_SIZE 0) (\<lambda>(_, b4).
      retV (True, U\<lparr>vertexBuffer := b4, vertexCount := totalVtxCount dd\<rparr>)))) (A + objects [sel b2]) ?Q" for b2
    by (intro balances_bind_quiet [OF unmap_keeps] balances_bind_quiet [OF map_keeps])
      (simp add: split_beta balances_ret del: objects_simps)
  from remake_keeps [OF this] show ?thesis unfolding renew_vertices_def if_P [OF True] .
qed (simp add: renew_vertices_def balances_ret del: objects_simps)

lemma renew_indices_keeps:
  "balances mk fr (renew_indices U dd) (A + objects [sel (indexBuffer U)])
     (\<lambda>p C. vertexBuffer (snd p) = vertexBuffer U \<and> fontMemory (snd p) = fontMemory U \<and> C = A + objects [sel (indexBuffer (snd p))])"
  (is "balances mk fr _ _ ?Q")
proof (cases "buf_buffer (indexBuffer U) = VK_NULL_HANDLE \<or> indexCount U < totalIdxCount dd")
  case True
  have "balances mk fr (bindV (map_buffer b2 VK_WHOLE_SIZE 0) (\<lambda>(_, b4).
      retV (True, U\<lparr>indexBuffer := b4, indexCount := totalIdxCount dd\<rparr>))) (A + objects [sel b2]) ?Q" for b2
    by (intro balances_bind_quiet [OF map_keeps]) (simp add: split_beta balances_ret del: objects_simps)
  from remake_keeps [OF this] show ?thesis unfolding renew_indices_def if_P [OF True] .
qed (simp add: renew_indices_def balances_ret del: objects_simps)

lemma only_upload: "only_calls (\<lambda>c. \<not> buffer_call c) (upload_lists v i ls)"
  by (induction ls arbitrary: v i) (auto simp: host_write_def intro!: only_intros)

lemma update_keeps:
  "balances mk fr (update U data) (A + objects [sel (vertexBuffer U)] + objects [sel (indexBuffer U)])
     (\<lambda>p C. fontMemory (snd p) = fontMemory U \<and>
        C = A + objects [sel (vertexBuffer (snd p))] + objects [sel (indexBuffer (snd p))])"
  (is "balances mk fr _ _ ?Q")
proof (cases data)
  case (Some dd)
  show ?thesis
  proof (cases "of_int (totalVtxCount dd) * SIZEOF_ImDrawVert = 0 \<or> of_int (totalIdxCount dd) * SIZEOF_ImDrawIdx = 0")
    case False
    have rest: "balances mk fr (thenV (upload_lists v i (cmdLists dd)) (bindV (flush_buffer V VK_WHOLE_SIZE 0) (\<lambda>_.
        bindV (flush_buffer I VK_WHOLE_SIZE 0) (\<lambda>_. retV (b, U2))))) C ?Q" if "?Q (b, U2) C" for v i V I b U2 C
      by (intro balances_then_quiet balances_bind_quiet [where R = "\<lambda>_. True"] calls_keep only_upload balances_ret that)
        (auto simp: flush_buffer_def intro!: only_intros)
    have v: "balances mk fr (renew_vertices U dd) (A + objects [sel (vertexBuffer U)] + objects [sel (indexBuffer U)])
        (\<lambda>p C. indexBuffer (snd p) = indexBuffer U \<and> fontMemory (snd p) = fontMemory U \<and>
          C = (A + objects [sel (indexBuffer U)]) + objects [sel (vertexBuffer (snd p))])"
      using renew_vertices_keeps [of U dd "A + objects [sel (indexBuffer U)]"] by (simp only: ac_simps)
    show ?thesis unfolding update_def Some option.case if_not_P [OF False]
    proof (rule balances_bind [OF v], unfold split_beta, rule balances_bind)
      fix p1 :: "bool \<times> ui_overlay" and C
      let ?U1 = "snd p1"
      assume p1: "indexBuffer ?U1 = indexBuffer U \<and> fontMemory ?U1 = fontMemory U \<and>
          C = (A + objects [sel (indexBuffer U)]) + objects [sel (vertexBuffer ?U1)]"
      then have C: "C = (A + objects [sel (vertexBuffer ?U1)]) + objects [sel (indexBuffer ?U1)]" by (simp only: ac_simps)
      show "balances mk fr (renew_indices ?U1 dd) C (\<lambda>p C. vertexBuffer (snd p) = vertexBuffer ?U1 \<and> fontMemory (snd p) = fontMemory ?U1 \<and>
          C = (A + objects [sel (vertexBuffer ?U1)]) + objects [sel (indexBuffer (snd p))])"
        unfolding C by (rule renew_indices_keeps)
      fix p2 :: "bool \<times> ui_overlay" and C2
      assume p2: "vertexBuffer (snd p2) = vertexBuffer ?U1 \<and> fontMemory (snd p2) = fontMemory ?U1 \<and>
          C2 = (A + objects [sel (vertexBuffer ?U1)]) + objects [sel (indexBuffer (snd p2))]"
      show "balances mk fr (thenV (upload_lists (buf_mapped (vertexBuffer (snd p2))) (buf_mapped (indexBuffer (snd p2))) (cmdLists dd))
          (bindV (flush_buffer (vertexBuffer (snd p2)) VK_WHOLE_SIZE 0) (\<lambda>_. bindV (flush_buffer (indexBuffer (snd p2)) VK_WHOLE_SIZE 0)
            (\<lambda>_. retV (fst p1 \<or> fst p2, snd p2))))) C2 ?Q"
        by (rule rest) (use p1 p2 in \<open>simp del: objects_simps\<close>)
    qed
  qed (simp add: update_def Some balances_ret del: objects_simps)
qed (simp add: update_def balances_ret del: objects_simps)

text \<open>The upload of the font makes a staging buffer and destroys it.\<close>

lemma upload_font_keeps: "balances mk fr (upload_font U S fontData w h) A (\<lambda>_ C. C = A)"
proof -
  have last: "balances mk fr (bindV (copy_font U S b w h) (\<lambda>S1. thenV (destroy st2) (retV S1))) (A + objects [sel st2]) (\<lambda>_ C. C = A)"
    for st2 b
    by (intro balances_bind_quiet [where R = "\<lambda>_. True"] balances_then_eq [OF destroys] balances_ret calls_keep)
      (auto simp: copy_font_def createCommandBuffer_def setImageLayout_aspect_def setImageLayout_def flushCommandBuffer_def Let_def
        intro!: only_intros)
  let ?wr = "\<lambda>p bytes n. if length bytes < n then failV BadIndex else host_write p (take n bytes)"
  have wr: "only_calls (neutral mk fr) (?wr p bytes n)" for p bytes n
    by (rule calls_keep) (auto simp: host_write_def intro!: only_intros)
  have "balances mk fr (bindV (map_buffer st VK_WHOLE_SIZE 0) (\<lambda>(_, st1). thenV (?wr (buf_mapped st1) bytes n) (
      bindV (unmap st1) (\<lambda>st2. bindV (copy_font U S (buf_buffer st2) w h) (\<lambda>S1. thenV (destroy st2) (retV S1))))))
      (A + objects [sel st]) (\<lambda>_ C. C = A)" for st bytes n
  proof (rule balances_bind_quiet [OF map_keeps], unfold split_beta, rule balances_then_quiet [OF wr], rule balances_bind_quiet [OF unmap_keeps])
    fix p :: "int \<times> vks_buffer" and st2
    assume "sel (snd p) = sel st" and "sel st2 = sel (snd p)"
    then show "balances mk fr (bindV (copy_font U S (buf_buffer st2) w h) (\<lambda>S1. thenV (destroy st2) (retV S1)))
        (A + objects [sel st]) (\<lambda>_ C. C = A)" using last [of "buf_buffer st2" st2] by (simp only:)
  qed
  then show ?thesis unfolding upload_font_def Let_def by (intro balances_bind [OF create]) (simp only:)
qed

end

interpretation ui_buffers: buffer_kind makes_buffer frees_buffer buf_buffer
proof unfold_locales
  show "\<not> buffer_call c \<Longrightarrow> neutral makes_buffer frees_buffer c" for c by (cases c) simp_all
qed (rule create_balances, rule destroy_balances, assumption)

interpretation ui_memory: buffer_kind makes_memory frees_memory buf_memory
proof unfold_locales
  show "\<not> buffer_call c \<Longrightarrow> neutral makes_memory frees_memory c" for c by (cases c) simp_all
qed (rule create_balances, rule destroy_balances, assumption)

section \<open>The overlay as an owner\<close>

definition held_buffers :: "ui_overlay \<Rightarrow> handle multiset" where
  "held_buffers U = objects [buf_buffer (vertexBuffer U)] + objects [buf_buffer (indexBuffer U)]"

definition held_memory :: "ui_overlay \<Rightarrow> handle multiset" where
  "held_memory U = objects [fontMemory U] + objects [buf_memory (vertexBuffer U)] + objects [buf_memory (indexBuffer U)]"

definition same_objects :: "ui_overlay \<Rightarrow> ui_overlay \<Rightarrow> bool" where
  "same_objects U U' = (vertexBuffer U' = vertexBuffer U \<and> indexBuffer U' = indexBuffer U \<and> fontMemory U' = fontMemory U)"

lemma same_objects_held: "same_objects U U' \<Longrightarrow> held_buffers U' = held_buffers U \<and> held_memory U' = held_memory U"
  by (simp add: same_objects_def held_buffers_def held_memory_def)

lemma only_descriptors: "only (\<lambda>c. \<not> buffer_call c) (create_descriptors U) (same_objects U)"
  unfolding create_descriptors_def Let_def
  by (intro only_bind [where R = "\<lambda>_. True"] only_intros only_ret only_then) (simp_all add: same_objects_def)

lemma only_pipeline: "only (\<lambda>c. \<not> buffer_call c) (preparePipeline U cache pass) (same_objects U)"
  unfolding preparePipeline_def Let_def
  by (intro only_bind [where R = "\<lambda>_. True"] only_intros only_ret) (simp_all add: same_objects_def)

lemma only_draw: "only_calls (\<lambda>c. \<not> buffer_call c) (draw_overlay U cmd scaling data)"
  unfolding draw_overlay_def by (intro only_intros) simp

lemma font_image_buffers:
  "only (neutral makes_buffer frees_buffer) (create_font_image U w h) (\<lambda>U'. held_buffers U' = held_buffers U)"
  unfolding create_font_image_def Let_def
  by (intro only_bind [where R = "\<lambda>_. True"] only_intros only_ret) (simp_all add: held_buffers_def)

lemma font_image_memory:
  assumes "fontMemory U = VK_NULL_HANDLE"
  shows "balances makes_memory frees_memory (create_font_image U w h) (held_memory U) (\<lambda>U' C. C = held_memory U')"
proof -
  let ?dev = "logicalDevice (ui_device U)"
  have held: "held_memory U = objects [buf_memory (vertexBuffer U)] + objects [buf_memory (indexBuffer U)]"
    using assms by (simp add: held_memory_def)
  have alloc: "balances makes_memory frees_memory (bindV (VK_CHECK_RESULT (AllocateMemory ?dev n ti)) (\<lambda>mem.
      bindV (VK_CHECK_RESULT (BindImageMemory ?dev img mem 0)) (\<lambda>_.
      bindV (VK_CHECK_RESULT (CreateImageView ?dev (font_view_info img))) (\<lambda>v.
        retV (U\<lparr>fontImage := img, fontMemory := mem, fontView := v\<rparr>))))) (held_memory U) (\<lambda>U' C. C = held_memory U')" for n ti img
    unfolding held
    by (rule balances_bind_make, simp, simp, (rule balances_bind_quiet [where R = "\<lambda>_. True"], intro only_intros, simp)+, rule balances_ret)
      (simp add: held_memory_def ac_simps del: objects_simps)
  show ?thesis unfolding create_font_image_def Let_def
    by (rule balances_bind_quiet [where R = "\<lambda>_. True"], intro only_intros, simp, rule balances_bind_quiet [where R = "\<lambda>_. True"],
      intro only_intros, simp, rule balances_bind_quiet [where R = "\<lambda>_. True"], intro only_intros, rule alloc)
qed

text \<open>Each operation, then the release.\<close>

lemma prepareResources_balances:
  assumes "fontMemory U = VK_NULL_HANDLE"
  shows "balances makes_buffer frees_buffer (prepareResources U S fontData w h) (held_buffers U) (\<lambda>p C. C = held_buffers (fst p))"
    and "balances makes_memory frees_memory (prepareResources U S fontData w h) (held_memory U) (\<lambda>p C. C = held_memory (fst p))"
proof -
  have desc: "balances mk fr (create_descriptors U1) A (\<lambda>U' C. same_objects U1 U' \<and> C = A)"
    if "\<And>c. \<not> buffer_call c \<Longrightarrow> neutral mk fr c" for mk fr U1 A
    by (rule balances_quiet, rule only_weaken [OF only_descriptors]) (use that in blast)+
  have d1: "balances makes_buffer frees_buffer (create_descriptors U1) A (\<lambda>U' C. same_objects U1 U' \<and> C = A)" for U1 A
    by (rule desc, rule ui_buffers.others)
  have d2: "balances makes_memory frees_memory (create_descriptors U1) A (\<lambda>U' C. same_objects U1 U' \<and> C = A)" for U1 A
    by (rule desc, rule ui_memory.others)
  have "balances makes_buffer frees_buffer (bindV (upload_font U1 S fontData w h) (\<lambda>S1. bindV (create_descriptors U1) (\<lambda>U2. retV (U2, S1))))
      (held_buffers U) (\<lambda>p C. C = held_buffers (fst p))" if "held_buffers U1 = held_buffers U" for U1
    by (rule balances_bind [OF ui_buffers.upload_font_keeps], simp only:, rule balances_bind [OF d1], rule balances_ret)
      (use that same_objects_held in auto)
  then show "balances makes_buffer frees_buffer (prepareResources U S fontData w h) (held_buffers U) (\<lambda>p C. C = held_buffers (fst p))"
    unfolding prepareResources_def by (rule balances_bind_quiet [OF font_image_buffers])
  show "balances makes_memory frees_memory (prepareResources U S fontData w h) (held_memory U) (\<lambda>p C. C = held_memory (fst p))"
    unfolding prepareResources_def
    by (rule balances_bind [OF font_image_memory [OF assms]], simp only:, rule balances_bind [OF ui_memory.upload_font_keeps], simp only:,
      rule balances_bind [OF d2], rule balances_ret) (use same_objects_held in auto)
qed

lemma overlay_step_balances:
  assumes "overlay_pre op U"
  shows "balances makes_buffer frees_buffer (overlay_step op U) (held_buffers U) (\<lambda>U' C. C = held_buffers U') \<and>
    balances makes_memory frees_memory (overlay_step op U) (held_memory U) (\<lambda>U' C. C = held_memory U')"
proof (cases op)
  case (Prepare S fontData w h)
  then have "fontMemory U = VK_NULL_HANDLE" using assms by simp
  note p = prepareResources_balances [OF this, of S fontData w h]
  have b: "balances makes_buffer frees_buffer (overlay_step op U) (held_buffers U) (\<lambda>U' C. C = held_buffers U')"
    unfolding Prepare overlay_step.simps split_beta by (rule balances_bind [OF p(1)], rule balances_ret)
  have m: "balances makes_memory frees_memory (overlay_step op U) (held_memory U) (\<lambda>U' C. C = held_memory U')"
    unfolding Prepare overlay_step.simps split_beta by (rule balances_bind [OF p(2)], rule balances_ret)
  show ?thesis using b m ..
next
  case (Pipeline cache pass)
  have q: "balances mk fr (preparePipeline U cache pass) A (\<lambda>U' C. same_objects U U' \<and> C = A)"
    if "\<And>c. \<not> buffer_call c \<Longrightarrow> neutral mk fr c" for mk fr A
    by (rule balances_quiet, rule only_weaken [OF only_pipeline]) (use that in blast)+
  have b: "balances makes_buffer frees_buffer (overlay_step op U) (held_buffers U) (\<lambda>U' C. C = held_buffers U')"
    unfolding Pipeline overlay_step.simps by (rule balances_weaken [OF q], rule ui_buffers.others) (use same_objects_held in auto)
  have m: "balances makes_memory frees_memory (overlay_step op U) (held_memory U) (\<lambda>U' C. C = held_memory U')"
    unfolding Pipeline overlay_step.simps by (rule balances_weaken [OF q], rule ui_memory.others) (use same_objects_held in auto)
  show ?thesis using b m ..
next
  case (Update data)
  have b: "balances makes_buffer frees_buffer (overlay_step op U) (held_buffers U) (\<lambda>U' C. C = held_buffers U')"
    unfolding Update overlay_step.simps split_beta held_buffers_def
    by (rule balances_bind [OF ui_buffers.update_keeps [of U data "{#}", unfolded add_0]], rule balances_ret) (elim conjE, simp only:)
  have m: "balances makes_memory frees_memory (overlay_step op U) (held_memory U) (\<lambda>U' C. C = held_memory U')"
    unfolding Update overlay_step.simps split_beta held_memory_def
    by (rule balances_bind [OF ui_memory.update_keeps [of U data]], rule balances_ret) (elim conjE, simp only:)
  show ?thesis using b m ..
next
  case (Draw cmd scaling data)
  have b: "balances makes_buffer frees_buffer (overlay_step op U) (held_buffers U) (\<lambda>U' C. C = held_buffers U')"
    unfolding Draw overlay_step.simps
    by (rule balances_then_quiet [OF ui_buffers.calls_keep [OF only_draw]], rule balances_ret, rule refl)
  have m: "balances makes_memory frees_memory (overlay_step op U) (held_memory U) (\<lambda>U' C. C = held_memory U')"
    unfolding Draw overlay_step.simps
    by (rule balances_then_quiet [OF ui_memory.calls_keep [OF only_draw]], rule balances_ret, rule refl)
  show ?thesis using b m ..
qed

lemma freeResources_balances:
  "balances makes_buffer frees_buffer (freeResources U) (held_buffers U) (\<lambda>_ C. C = {#})"
  "balances makes_memory frees_memory (freeResources U) (held_memory U) (\<lambda>_ C. C = {#})"
proof -
  let ?dev = "logicalDevice (ui_device U)"
  let ?handles = "thenV (doV (DestroySampler ?dev (fontSampler U))) (
         thenV (doV (DestroyDescriptorSetLayout ?dev (ui_setLayout U))) (
         thenV (doV (DestroyDescriptorPool ?dev (ui_descriptorPool U))) (
         thenV (doV (DestroyPipelineLayout ?dev (ui_pipelineLayout U)))
           (doV (DestroyPipeline ?dev (ui_pipeline U))))))"
  have rest: "only_calls (\<lambda>c. \<not> buffer_call c) ?handles" by (intro only_intros) simp_all
  have views: "only_calls (\<lambda>c. \<not> buffer_call c) (doV (DestroyImageView ?dev (fontView U)))"
      "only_calls (\<lambda>c. \<not> buffer_call c) (doV (DestroyImage ?dev (fontImage U)))"
    by (intro only_intros, simp)+
  have b: "held_buffers U = ({#} + objects [buf_buffer (indexBuffer U)]) + objects [buf_buffer (vertexBuffer U)]"
    by (simp add: held_buffers_def ac_simps del: objects_simps)
  have free: "only_calls (neutral makes_buffer frees_buffer) (doV (FreeMemory ?dev (fontMemory U)))" by (intro only_intros) simp
  show "balances makes_buffer frees_buffer (freeResources U) (held_buffers U) (\<lambda>_ C. C = {#})"
    unfolding freeResources_def Let_def b
    by (rule balances_then_eq [OF ui_buffers.destroys], rule balances_then_eq [OF ui_buffers.destroys],
      rule balances_then_quiet [OF ui_buffers.calls_keep [OF views(1)]], rule balances_then_quiet [OF ui_buffers.calls_keep [OF views(2)]],
      rule balances_then_quiet [OF free], rule balances_calls, rule ui_buffers.calls_keep [OF rest])
  have m: "held_memory U = (({#} + objects [fontMemory U]) + objects [buf_memory (indexBuffer U)]) + objects [buf_memory (vertexBuffer U)]"
    by (simp add: held_memory_def ac_simps del: objects_simps)
  have font: "balances makes_memory frees_memory (doV (FreeMemory ?dev (fontMemory U))) ({#} + objects [fontMemory U]) (\<lambda>_ C. C = {#})"
    by (rule balances_free) simp_all
  show "balances makes_memory frees_memory (freeResources U) (held_memory U) (\<lambda>_ C. C = {#})"
    unfolding freeResources_def Let_def m
    by (rule balances_then_eq [OF ui_memory.destroys], rule balances_then_eq [OF ui_memory.destroys],
      rule balances_then_quiet [OF ui_memory.calls_keep [OF views(1)]], rule balances_then_quiet [OF ui_memory.calls_keep [OF views(2)]],
      rule balances_then_eq [OF font], rule balances_calls, rule ui_memory.calls_keep [OF rest])
qed

interpretation overlay_buffers: vk_owner "made_by makes_buffer" "freed_by frees_buffer" held_buffers "\<lambda>_. True" overlay_pre overlay_step
proof unfold_locales
  fix d :: driver and U U' :: ui_overlay and op lg lg'
  assume d: "nonnull d" and pre: "overlay_pre op U" and r: "overlay_step op U d lg = Inr (U', lg')"
  have "balances makes_buffer frees_buffer (overlay_step op U) (held_buffers U) (\<lambda>U' C. C = held_buffers U')"
    using overlay_step_balances [OF pre] ..
  from balances_D [OF this d r]
  show "True \<and> (\<exists>es. lg' = lg @ es \<and> owns (made_by makes_buffer) (freed_by frees_buffer) es (held_buffers U) (held_buffers U'))"
    by blast
qed

interpretation overlay_memory: vk_owner "made_by makes_memory" "freed_by frees_memory" held_memory "\<lambda>_. True" overlay_pre overlay_step
proof unfold_locales
  fix d :: driver and U U' :: ui_overlay and op lg lg'
  assume d: "nonnull d" and pre: "overlay_pre op U" and r: "overlay_step op U d lg = Inr (U', lg')"
  have "balances makes_memory frees_memory (overlay_step op U) (held_memory U) (\<lambda>U' C. C = held_memory U')"
    using overlay_step_balances [OF pre] ..
  from balances_D [OF this d r]
  show "True \<and> (\<exists>es. lg' = lg @ es \<and> owns (made_by makes_memory) (freed_by frees_memory) es (held_memory U) (held_memory U'))"
    by blast
qed

section \<open>Nothing is lost\<close>

text \<open>An overlay as it is constructed: no buffer, no memory.\<close>

definition unused_overlay :: "ui_overlay \<Rightarrow> bool" where
  "unused_overlay U = (held_buffers U = {#} \<and> held_memory U = {#})"

text \<open>
  C10. Whatever the frames made the overlay do, once \<open>freeResources\<close> has run every buffer and every piece of memory that
  it created has been destroyed, and at no moment was one destroyed that was not there: the staging buffer of
  the font, the buffers replaced when the lists grew, and the two that were left.
\<close>

theorem overlay_frees_everything:
  assumes "op_runs overlay_step overlay_pre d U [] U1 lg1" and "freeResources U1 d lg1 = Inr (u, lg2)"
    and "nonnull d" and "unused_overlay U"
  shows "gathered (made_by makes_buffer) lg2 = gathered (freed_by frees_buffer) lg2 \<and>
    gathered (made_by makes_memory) lg2 = gathered (freed_by frees_memory) lg2 \<and>
    (\<forall>n. gathered (freed_by frees_buffer) (take n lg2) \<subseteq># gathered (made_by makes_buffer) (take n lg2) \<and>
       gathered (freed_by frees_memory) (take n lg2) \<subseteq># gathered (made_by makes_memory) (take n lg2))"
proof -
  have empty: "held_buffers U = {#}" "held_memory U = {#}" using assms(4) by (simp_all add: unused_overlay_def)
  obtain es fs where b: "lg1 = [] @ es" "owns (made_by makes_buffer) (freed_by frees_buffer) es {#} (held_buffers U1)"
      "lg2 = lg1 @ fs" "owns (made_by makes_buffer) (freed_by frees_buffer) fs (held_buffers U1) {#}"
    using overlay_buffers.runs_own [OF assms(1,3) TrueI] balances_D [OF freeResources_balances(1) assms(3,2)] empty by metis
  obtain es' fs' where m: "lg1 = [] @ es'" "owns (made_by makes_memory) (freed_by frees_memory) es' {#} (held_memory U1)"
      "lg2 = lg1 @ fs'" "owns (made_by makes_memory) (freed_by frees_memory) fs' (held_memory U1) {#}"
    using overlay_memory.runs_own [OF assms(1,3) TrueI] balances_D [OF freeResources_balances(2) assms(3,2)] empty by metis
  have "owns (made_by makes_buffer) (freed_by frees_buffer) lg2 {#} {#}" using owns_append [OF b(2,4)] b(1,3) by simp
  moreover have "owns (made_by makes_memory) (freed_by frees_memory) lg2 {#} {#}" using owns_append [OF m(2,4)] m(1,3) by simp
  ultimately show ?thesis by (simp add: owns_def)
qed

lemma demo_overlay_unused: "unused_overlay demo_overlay"
  by (simp add: unused_overlay_def held_buffers_def held_memory_def demo_overlay_def new_buffer_def)

lemma exact_nonnull: "nonnull exact_driver"
proof -
  have "2 * x + 11 \<noteq> (0 :: handle)" for x
  proof
    assume "2 * x + 11 = 0"
    then have "even (2 * x + 11)" by simp
    then show False by simp
  qed
  then show ?thesis by (simp add: nonnull_def exact_driver_def demo_driver_def)
qed

theorem overlay_frees_everything_witness:
  "\<exists>U lg1 lg2 u. update demo_overlay (Some triangle_data) exact_driver [] = Inr ((True, U), lg1) \<and>
    freeResources U exact_driver lg1 = Inr (u, lg2) \<and>
    gathered (made_by makes_buffer) lg2 = gathered (freed_by frees_buffer) lg2"
proof -
  obtain U lg1 where r: "update demo_overlay (Some triangle_data) exact_driver [] = Inr ((True, U), lg1)"
    using demo_update by blast
  have "finishes exact_driver (freeResources U) (\<lambda>_. True)"
    unfolding freeResources_def destroy_def Let_def by (intro finishes_then; (simp add: finishes_do finishes_ret)?)
  then obtain u lg2 where f: "freeResources U exact_driver lg1 = Inr (u, lg2)" unfolding finishes_def by blast
  have "op_runs overlay_step overlay_pre exact_driver demo_overlay [] U lg1"
    by (rule runs_step [OF runs_refl, of _ "Update (Some triangle_data)"]) (simp_all add: bindV_def r run_simps)
  from overlay_frees_everything [OF this f exact_nonnull demo_overlay_unused]
  show ?thesis by (intro exI [of _ U] exI [of _ lg1] exI [of _ lg2] exI [of _ u] conjI r f) (elim conjE)
qed

end
