(* ===== verification/VkLoop.thy ===== *)
theory VkLoop
  imports VkExample VkOverlay
begin

text \<open>
  The application around the window: \<open>prepare\<close> with the overlay, the events of XCB (\<open>handleEvent\<close>,
  \<open>handleMouseMove\<close>), one turn of the render loop, the loop, and the update of the overlay
  (\<open>src/vulkanexamplebase.cpp\<close>, \<open>src/keycodes.hpp\<close>). A class derived from \<open>VulkanExampleBase\<close> extends the
  record \<open>app\<close>, and the functions it overrides are the fields of \<open>virtuals\<close>. Of the camera, the keys held and
  the moves asked for are kept, with the integer distances they are computed from; their arithmetic in
  \<open>float\<close> is not carried out.
\<close>

section \<open>State\<close>

datatype camera_move = Rotate int int | Zoom int | Translate int int

text \<open>
  What the start of the program leaves: the settings from the command line, the texts shown, the requirements of a
  derived class, and the connection to the X server. A screen is that of XCB.
\<close>

record screen =
  root :: u32
  root_visual :: u32
  black_pixel :: u32
  in_pixels :: "16 word \<times> 16 word"

record startup =
  validation :: bool
  fullscreen :: bool
  warmup :: u32
  duration :: u32
  bench_filename :: string
  outputFrameTimes :: bool
  errorModeSilent :: bool
  app_title :: string
  app_name :: string
  deviceName :: string
  app_apiVersion :: u32
  enabledInstanceExtensions :: "string list"
  enabledDeviceExtensions :: "string list"
  ex_enabledFeatures :: handle
  deviceCreatepNextChain :: handle
  debugUtilsMessenger :: handle
  the_connection :: handle
  the_window :: u32
  the_screen :: screen

record app =
  base :: example
  ui :: ui_overlay
  global_submit :: submit
  imgui_data :: "draw_data option"
  quit :: bool
  paused :: bool
  viewUpdated :: bool
  button_left :: bool
  button_middle :: bool
  button_right :: bool
  keys_left :: bool
  keys_right :: bool
  keys_up :: bool
  keys_down :: bool
  mousePos :: "int \<times> int"
  camera_moves :: "camera_move list"
  frameCounter :: u32
  lastFPS :: u32
  atom_wm_delete_window :: u32
  start :: startup

text \<open>The virtual functions.\<close>

record 'a virtuals =
  v_setupDepthStencil :: "example \<Rightarrow> example vk"
  v_setupFrameBuffer :: "example \<Rightarrow> example vk"
  v_setupRenderPass :: "example \<Rightarrow> example vk"
  v_render :: "'a app_scheme \<Rightarrow> 'a app_scheme vk"
  v_viewChanged :: "'a app_scheme \<Rightarrow> unit vk"
  v_buildCommandBuffers :: "'a app_scheme \<Rightarrow> unit vk"
  v_windowResized :: "'a app_scheme \<Rightarrow> unit vk"
  v_keyPressed :: "'a app_scheme \<Rightarrow> u32 \<Rightarrow> 'a app_scheme vk"
  v_mouseMoved :: "'a app_scheme \<Rightarrow> int \<Rightarrow> int \<Rightarrow> bool \<Rightarrow> ('a app_scheme \<times> bool) vk"
  v_OnUpdateUIOverlay :: "'a app_scheme \<Rightarrow> 'a app_scheme vk"

text \<open>\<open>UIOverlay::resize\<close> only tells ImGui the size of the display.\<close>

definition hooks_at :: "'a virtuals \<Rightarrow> 'a app_scheme \<Rightarrow> hooks" where
  "hooks_at V A =
     \<lparr>depth_setup = v_setupDepthStencil V, frame_setup = v_setupFrameBuffer V, pass_setup = v_setupRenderPass V,
      buildCommandBuffers = (\<lambda>E. v_buildCommandBuffers V (A\<lparr>base := E\<rparr>)),
      windowResized = (\<lambda>E. v_windowResized V (A\<lparr>base := E\<rparr>)),
      viewChanged = (\<lambda>E. v_viewChanged V (A\<lparr>base := E\<rparr>)),
      overlay_resize = (\<lambda>w h. retV ()),
      overlay_free = freeResources (ui A)\<rparr>"

definition on_base :: "(example \<Rightarrow> example vk) \<Rightarrow> 'a app_scheme \<Rightarrow> 'a app_scheme vk" where
  "on_base f A = bindV (f (base A)) (\<lambda>E. retV (A\<lparr>base := E\<rparr>))"

section \<open>Preparation\<close>

text \<open>\<open>loadShader\<close> of the base class: the module is kept for the destructor.\<close>

definition base_loadShader :: "(string \<Rightarrow> 8 word list option) \<Rightarrow> 'a app_scheme \<Rightarrow> string \<Rightarrow> u32 \<Rightarrow> (shader_stage \<times> 'a app_scheme) vk" where
  "base_loadShader fs A fileName stage =
     bindV (loadShader fs fileName (ex_device (base A))) (\<lambda>m.
     thenV (assertV (m \<noteq> VK_NULL_HANDLE))
       (retV (\<lparr>ss_stage = stage, ss_module = m, ss_name = ''main''\<rparr>,
          A\<lparr>base := (base A)\<lparr>shaderModules := shaderModules (base A) @ [m]\<rparr>\<rparr>)))"

text \<open>\<open>prepare\<close>: what the base needs, then the overlay. \<open>font\<close> is the texture that ImGui builds.\<close>

definition prepare_overlay :: "(string \<Rightarrow> 8 word list option) \<Rightarrow> string \<Rightarrow> 8 word list \<times> u32 \<times> u32 \<Rightarrow> 'a app_scheme \<Rightarrow> 'a app_scheme vk" where
  "prepare_overlay fs assets font A =
     (case font of (fontData, w, h) \<Rightarrow>
        bindV (base_loadShader fs A (assets @ ''shaders/base/uioverlay.vert.spv'') VK_SHADER_STAGE_VERTEX_BIT) (\<lambda>(vs, A1).
        bindV (base_loadShader fs A1 (assets @ ''shaders/base/uioverlay.frag.spv'') VK_SHADER_STAGE_FRAGMENT_BIT) (\<lambda>(ps, A2).
        let U = (ui A2)\<lparr>ui_device := vulkanDevice (base A2), ui_queue := queue (base A2), ui_shaders := [vs, ps]\<rparr>
        in bindV (prepareResources U (global_submit A2) fontData w h) (\<lambda>(U1, S).
           bindV (preparePipeline U1 (pipelineCache (base A2)) (renderPass (base A2))) (\<lambda>U2.
             retV (A2\<lparr>ui := U2, global_submit := S\<rparr>))))))"

definition prepare_app :: "'a virtuals \<Rightarrow> (string \<Rightarrow> 8 word list option) \<Rightarrow> string \<Rightarrow> 8 word list \<times> u32 \<times> u32 \<Rightarrow> handle \<Rightarrow> u32 \<Rightarrow>
    'a app_scheme \<Rightarrow> 'a app_scheme vk" where
  "prepare_app V fs assets font connection window A =
     bindV (on_base (\<lambda>E. prepare (hooks_at V A) E connection window) A) (\<lambda>A1.
       if overlay (base A1) then prepare_overlay fs assets font A1 else retV A1)"

section \<open>Events\<close>

text \<open>
  An event of XCB: its type and the fields of the structure that the code reads it as. \<open>wants_mouse\<close> is what ImGui
  answers, when the event is handled, to whether it wants the mouse.
\<close>

record xcb_event =
  response_type :: "8 word"
  ev_detail :: "8 word"
  ev_data32 :: u32
  event_x :: "16 word"
  event_y :: "16 word"
  ev_width :: "16 word"
  ev_height :: "16 word"
  wants_mouse :: bool

abbreviation XCB_KEY_PRESS :: "8 word" where "XCB_KEY_PRESS \<equiv> 2"
abbreviation XCB_KEY_RELEASE :: "8 word" where "XCB_KEY_RELEASE \<equiv> 3"
abbreviation XCB_BUTTON_PRESS :: "8 word" where "XCB_BUTTON_PRESS \<equiv> 4"
abbreviation XCB_BUTTON_RELEASE :: "8 word" where "XCB_BUTTON_RELEASE \<equiv> 5"
abbreviation XCB_MOTION_NOTIFY :: "8 word" where "XCB_MOTION_NOTIFY \<equiv> 6"
abbreviation XCB_DESTROY_NOTIFY :: "8 word" where "XCB_DESTROY_NOTIFY \<equiv> 17"
abbreviation XCB_CONFIGURE_NOTIFY :: "8 word" where "XCB_CONFIGURE_NOTIFY \<equiv> 22"
abbreviation XCB_CLIENT_MESSAGE :: "8 word" where "XCB_CLIENT_MESSAGE \<equiv> 33"

definition KEY_ESCAPE :: "8 word" where "KEY_ESCAPE = 0x9"
definition KEY_F1 :: "8 word" where "KEY_F1 = 0x43"
definition KEY_W :: "8 word" where "KEY_W = 0x19"
definition KEY_A :: "8 word" where "KEY_A = 0x26"
definition KEY_S :: "8 word" where "KEY_S = 0x27"
definition KEY_D :: "8 word" where "KEY_D = 0x28"
definition KEY_P :: "8 word" where "KEY_P = 0x21"

lemmas key_defs = KEY_ESCAPE_def KEY_F1_def KEY_W_def KEY_A_def KEY_S_def KEY_D_def KEY_P_def

text \<open>The type without the bit of events that were sent.\<close>

definition event_code :: "xcb_event \<Rightarrow> 8 word" where
  "event_code e = response_type e AND 0x7F"

definition moves_for :: "int \<Rightarrow> int \<Rightarrow> 'a app_scheme \<Rightarrow> camera_move list" where
  "moves_for dx dy A =
     (if button_left A then [Rotate dx dy] else []) @ (if button_right A then [Zoom dy] else []) @
     (if button_middle A then [Translate dx dy] else [])"

definition handleMouseMove :: "'a virtuals \<Rightarrow> bool \<Rightarrow> int \<Rightarrow> int \<Rightarrow> 'a app_scheme \<Rightarrow> 'a app_scheme vk" where
  "handleMouseMove V wants x y A =
     (let dx = fst (mousePos A) - x; dy = snd (mousePos A) - y
      in bindV (v_mouseMoved V A x y (overlay (base A) \<and> wants)) (\<lambda>(A1, handled).
           let moves = (if handled then [] else moves_for dx dy A1)
           in retV (A1\<lparr>camera_moves := camera_moves A1 @ moves, viewUpdated := viewUpdated A1 \<or> moves \<noteq> [], mousePos := (x, y)\<rparr>)))"

definition set_button :: "8 word \<Rightarrow> bool \<Rightarrow> 'a app_scheme \<Rightarrow> 'a app_scheme" where
  "set_button i down A =
     (if i = 1 then A\<lparr>button_left := down\<rparr> else if i = 2 then A\<lparr>button_middle := down\<rparr>
      else if i = 3 then A\<lparr>button_right := down\<rparr> else A)"

definition set_key :: "8 word \<Rightarrow> bool \<Rightarrow> 'a app_scheme \<Rightarrow> 'a app_scheme" where
  "set_key k down A =
     (if k = KEY_W then A\<lparr>keys_up := down\<rparr> else if k = KEY_S then A\<lparr>keys_down := down\<rparr>
      else if k = KEY_A then A\<lparr>keys_left := down\<rparr> else if k = KEY_D then A\<lparr>keys_right := down\<rparr> else A)"

definition key_press :: "8 word \<Rightarrow> 'a app_scheme \<Rightarrow> 'a app_scheme" where
  "key_press k A =
     (if k = KEY_P then A\<lparr>paused := \<not> paused A\<rparr>
      else if k = KEY_F1 then (if overlay (base A) then A\<lparr>base := (base A)\<lparr>overlay := \<not> overlay (base A)\<rparr>\<rparr> else A)
      else set_key k True A)"

definition key_release :: "'a virtuals \<Rightarrow> 8 word \<Rightarrow> 'a app_scheme \<Rightarrow> 'a app_scheme vk" where
  "key_release V k A = v_keyPressed V (if k = KEY_ESCAPE then A\<lparr>quit := True\<rparr> else set_key k False A) (ucast k)"

definition configure :: "'a virtuals \<Rightarrow> u32 \<Rightarrow> u32 \<Rightarrow> 'a app_scheme \<Rightarrow> 'a app_scheme vk" where
  "configure V w h A =
     (let E = base A
      in if prepared E \<and> (w \<noteq> width E \<or> h \<noteq> height E)
         then let A1 = A\<lparr>base := E\<lparr>destWidth := w, destHeight := h\<rparr>\<rparr>
              in if 0 < w \<and> 0 < h then on_base (windowResize (hooks_at V A1)) A1 else retV A1
         else retV A)"

definition handleEvent :: "'a virtuals \<Rightarrow> xcb_event \<Rightarrow> 'a app_scheme \<Rightarrow> 'a app_scheme vk" where
  "handleEvent V e A =
     (let c = event_code e
      in if c = XCB_CLIENT_MESSAGE then retV (if ev_data32 e = atom_wm_delete_window A then A\<lparr>quit := True\<rparr> else A)
         else if c = XCB_MOTION_NOTIFY then handleMouseMove V (wants_mouse e) (sint (event_x e)) (sint (event_y e)) A
         else if c = XCB_BUTTON_PRESS then retV (set_button (ev_detail e) True A)
         else if c = XCB_BUTTON_RELEASE then retV (set_button (ev_detail e) False A)
         else if c = XCB_KEY_PRESS then retV (key_press (ev_detail e) A)
         else if c = XCB_KEY_RELEASE then key_release V (ev_detail e) A
         else if c = XCB_DESTROY_NOTIFY then retV (A\<lparr>quit := True\<rparr>)
         else if c = XCB_CONFIGURE_NOTIFY then configure V (ucast (ev_width e)) (ucast (ev_height e)) A
         else retV A)"

fun handle_events :: "'a virtuals \<Rightarrow> xcb_event list \<Rightarrow> 'a app_scheme \<Rightarrow> 'a app_scheme vk" where
  "handle_events V [] A = retV A"
| "handle_events V (e # es) A = bindV (handleEvent V e A) (handle_events V es)"

section \<open>Frames\<close>

definition drawUI :: "'a app_scheme \<Rightarrow> f32 list \<Rightarrow> handle \<Rightarrow> unit vk" where
  "drawUI A scaling cmd =
     (if overlay (base A)
      then thenV (doV (Record cmd (CmdSetViewport (viewport (float_of (width (base A))) (float_of (height (base A))) 0 1)))) (
           thenV (doV (Record cmd (CmdSetScissor (rect2D (width (base A)) (height (base A)) 0 0))))
             (draw_overlay (ui A) cmd scaling (imgui_data A)))
      else retV ())"

text \<open>The lists are those that \<open>ImGui::Render\<close> builds from the widgets of this frame.\<close>

definition updateOverlay :: "'a virtuals \<Rightarrow> draw_data option \<Rightarrow> 'a app_scheme \<Rightarrow> 'a app_scheme vk" where
  "updateOverlay V drawn A =
     (if \<not> overlay (base A) then retV A
      else bindV (v_OnUpdateUIOverlay V A) (\<lambda>A0.
           let A1 = A0\<lparr>imgui_data := drawn\<rparr>
           in bindV (update (ui A1) drawn) (\<lambda>(changed, U).
              if changed \<or> ui_updated U
              then thenV (v_buildCommandBuffers V (A1\<lparr>ui := U\<rparr>)) (retV (A1\<lparr>ui := U\<lparr>ui_updated := False\<rparr>\<rparr>))
              else retV (A1\<lparr>ui := U\<rparr>))))"

definition moving :: "'a app_scheme \<Rightarrow> bool" where
  "moving A = (keys_left A \<or> keys_right A \<or> keys_up A \<or> keys_down A)"

text \<open>
  What a frame meets: the events waiting, whether a second has gone by since the last measurement and the rate that
  is then computed in \<open>float\<close>, and the lists of ImGui.
\<close>

record frame_input =
  in_events :: "xcb_event list"
  over_second :: bool
  in_fps :: u32
  in_lists :: "draw_data option"

definition begin_frame :: "'a virtuals \<Rightarrow> 'a app_scheme \<Rightarrow> 'a app_scheme vk" where
  "begin_frame V A =
     (if viewUpdated A then let A1 = A\<lparr>viewUpdated := False\<rparr> in thenV (v_viewChanged V A1) (retV A1) else retV A)"

text \<open>The title of the window.\<close>

definition getWindowTitle :: "'a app_scheme \<Rightarrow> string" where
  "getWindowTitle A =
     app_title (start A) @ '' - '' @ deviceName (start A) @
     (if overlay (base A) then [] else '' - '' @ decimal (unat (frameCounter A)) @ '' fps'')"

abbreviation XCB_ATOM_WM_NAME :: u32 where "XCB_ATOM_WM_NAME \<equiv> 39"

definition show_rate :: "'a app_scheme \<Rightarrow> unit vk" where
  "show_rate A =
     (if overlay (base A) then retV ()
      else doV (XcbChangeText (the_connection (start A)) (the_window (start A)) XCB_ATOM_WM_NAME (getWindowTitle A)))"

definition count_frame :: "frame_input \<Rightarrow> 'a app_scheme \<Rightarrow> 'a app_scheme vk" where
  "count_frame f A =
     (let A1 = A\<lparr>frameCounter := frameCounter A + 1, viewUpdated := viewUpdated A \<or> moving A\<rparr>
      in if over_second f then thenV (show_rate A1) (retV (A1\<lparr>lastFPS := in_fps f, frameCounter := 0\<rparr>)) else retV A1)"

definition end_frame :: "'a virtuals \<Rightarrow> frame_input \<Rightarrow> 'a app_scheme \<Rightarrow> 'a app_scheme vk" where
  "end_frame V f A = bindV (v_render V A) (\<lambda>A1. bindV (count_frame f A1) (updateOverlay V (in_lists f)))"

text \<open>
  \<open>renderFrame\<close> is the turn of the loop on platforms whose events are handled elsewhere; only on Windows it
  shows the rate.
\<close>

definition renderFrame :: "'a virtuals \<Rightarrow> frame_input \<Rightarrow> 'a app_scheme \<Rightarrow> 'a app_scheme vk" where
  "renderFrame V f A =
     bindV (begin_frame V A) (\<lambda>A0.
     bindV (v_render V A0) (\<lambda>A1.
     let A2 = A1\<lparr>frameCounter := frameCounter A1 + 1, viewUpdated := viewUpdated A1 \<or> moving A1\<rparr>;
         A3 = (if over_second f then A2\<lparr>lastFPS := in_fps f, frameCounter := 0\<rparr> else A2)
     in updateOverlay V (in_lists f) A3))"

definition loop_frame :: "'a virtuals \<Rightarrow> frame_input \<Rightarrow> 'a app_scheme \<Rightarrow> 'a app_scheme vk" where
  "loop_frame V f A = bindV (begin_frame V A) (\<lambda>A1. bindV (handle_events V (in_events f) A1) (end_frame V f))"

text \<open>The loop over what the frames meet; when the list is used up the loop is still running.\<close>

fun event_loop :: "'a virtuals \<Rightarrow> frame_input list \<Rightarrow> 'a app_scheme \<Rightarrow> 'a app_scheme vk" where
  "event_loop V [] A = retV A"
| "event_loop V (f # fs) A = (if quit A then retV A else bindV (loop_frame V f A) (event_loop V fs))"

fun render_times :: "'a virtuals \<Rightarrow> nat \<Rightarrow> 'a app_scheme \<Rightarrow> 'a app_scheme vk" where
  "render_times V 0 A = retV A"
| "render_times V (Suc n) A = bindV (v_render V A) (render_times V n)"

text \<open>A benchmark renders as many frames as fit into its time, \<open>n\<close>.\<close>

definition benchmark_loop :: "'a virtuals \<Rightarrow> nat \<Rightarrow> 'a app_scheme \<Rightarrow> 'a app_scheme vk" where
  "benchmark_loop V n A =
     bindV (render_times V n A) (\<lambda>A1. thenV (doV (DeviceWaitIdle (ex_device (base A1)))) (retV A1))"

definition start_loop :: "'a app_scheme \<Rightarrow> 'a app_scheme" where
  "start_loop A = A\<lparr>base := (base A)\<lparr>destWidth := width (base A), destHeight := height (base A)\<rparr>\<rparr>"

text \<open>\<open>renderLoop\<close> on what the frames meet. The result says whether the function has returned.\<close>

definition renderLoop :: "'a virtuals \<Rightarrow> nat \<Rightarrow> frame_input list \<Rightarrow> 'a app_scheme \<Rightarrow> ('a app_scheme \<times> bool) vk" where
  "renderLoop V n fs A =
     (if benchmark_active (base A) then bindV (benchmark_loop V n A) (\<lambda>A1. retV (A1, True))
      else bindV (event_loop V fs (start_loop A)) (\<lambda>A1.
           if quit A1
           then thenV (if ex_device (base A1) \<noteq> VK_NULL_HANDLE then doV (DeviceWaitIdle (ex_device (base A1))) else retV ())
                  (retV (A1, True))
           else retV (A1, False)))"

end
