(* ===== verification/VkTriangle.thy ===== *)
theory VkTriangle
  imports VkLoop
begin

text \<open>
  The example of \<open>src/triangle.cpp\<close>: a class derived from the base, which makes its own buffers, pipeline,
  semaphores and fences, overrides the depth buffer, the frame buffers and the render pass, and draws without
  \<open>prepareFrame\<close> and \<open>submitFrame\<close>. The matrices, which glm computes in \<open>float\<close> from the size of the window
  and the moves of the mouse, are the bytes that an argument gives.
\<close>

section \<open>State\<close>

record memory_buffer =
  mb_memory :: handle
  mb_buffer :: handle

record triangle = app +
  tri_vertices :: memory_buffer
  tri_indices :: memory_buffer
  tri_count :: u32
  tri_uniform :: memory_buffer
  tri_descriptor :: descriptor_info
  tri_pipelineLayout :: handle
  tri_pipeline :: handle
  tri_setLayout :: handle
  tri_set :: handle
  presentCompleteSemaphore :: handle
  renderCompleteSemaphore :: handle
  tri_waitFences :: "handle list"

type_synonym matrices = "u32 \<Rightarrow> u32 \<Rightarrow> camera_move list \<Rightarrow> 8 word list"

abbreviation tri_device :: "'a app_scheme \<Rightarrow> handle" where "tri_device A \<equiv> ex_device (base A)"

abbreviation VK_BUFFER_USAGE_TRANSFER_DST_BIT :: u32 where "VK_BUFFER_USAGE_TRANSFER_DST_BIT \<equiv> 2"
abbreviation VK_BUFFER_USAGE_UNIFORM_BUFFER_BIT :: u32 where "VK_BUFFER_USAGE_UNIFORM_BUFFER_BIT \<equiv> 0x10"

abbreviation host_memory :: u32 where
  "host_memory \<equiv> VK_MEMORY_PROPERTY_HOST_VISIBLE_BIT OR VK_MEMORY_PROPERTY_HOST_COHERENT_BIT"

section \<open>Memory types, synchronisation and commands\<close>

fun type_index_loop :: "u32 list \<Rightarrow> u32 \<Rightarrow> u32 \<Rightarrow> nat \<Rightarrow> nat \<Rightarrow> u32 vk" where
  "type_index_loop ts typeBits properties i 0 = failV Throw"
| "type_index_loop ts typeBits properties i (Suc n) =
     (if typeBits AND 1 = 1
      then bindV (indexV ts i) (\<lambda>f.
             if f AND properties = properties then retV (of_nat i)
             else type_index_loop ts (drop_bit 1 typeBits) properties (Suc i) n)
      else type_index_loop ts (drop_bit 1 typeBits) properties (Suc i) n)"

definition getMemoryTypeIndex :: "example \<Rightarrow> u32 \<Rightarrow> u32 \<Rightarrow> u32 vk" where
  "getMemoryTypeIndex E typeBits properties =
     (case memoryProperties E of (n, ts) \<Rightarrow> type_index_loop ts typeBits properties 0 (unat n))"

definition prepareSynchronizationPrimitives :: "triangle \<Rightarrow> triangle vk" where
  "prepareSynchronizationPrimitives T =
     bindV (VK_CHECK_RESULT (CreateSemaphore (tri_device T))) (\<lambda>p.
     bindV (VK_CHECK_RESULT (CreateSemaphore (tri_device T))) (\<lambda>r.
     bindV (mapV (\<lambda>_. VK_CHECK_RESULT (CreateFence (tri_device T) VK_FENCE_CREATE_SIGNALED_BIT))
              [0 ..< length (drawCmdBuffers (base T))]) (\<lambda>fs.
       retV (T\<lparr>presentCompleteSemaphore := p, renderCompleteSemaphore := r, tri_waitFences := fs\<rparr>))))"

definition getCommandBuffer :: "example \<Rightarrow> bool \<Rightarrow> handle vk" where
  "getCommandBuffer E begin =
     bindV (VK_CHECK_RESULT (AllocateCommandBuffers (ex_device E) (cmdPool E) VK_COMMAND_BUFFER_LEVEL_PRIMARY 1)) (\<lambda>cmd.
       if begin then bindV (VK_CHECK_RESULT (BeginCommandBuffer cmd)) (\<lambda>_. retV cmd) else retV cmd)"

definition tri_flushCommandBuffer :: "example \<Rightarrow> handle \<Rightarrow> unit vk" where
  "tri_flushCommandBuffer E cmd =
     thenV (assertV (cmd \<noteq> VK_NULL_HANDLE)) (
     bindV (VK_CHECK_RESULT (EndCommandBuffer cmd)) (\<lambda>_.
     bindV (VK_CHECK_RESULT (CreateFence (ex_device E) 0)) (\<lambda>fence.
     bindV (VK_CHECK_RESULT (QueueSubmit (queue E) [] [cmd] [] fence)) (\<lambda>_.
     bindV (VK_CHECK_RESULT (WaitForFences (ex_device E) fence DEFAULT_FENCE_TIMEOUT)) (\<lambda>_.
     thenV (doV (DestroyFence (ex_device E) fence))
       (doV (FreeCommandBuffers (ex_device E) (cmdPool E) [cmd])))))))"

section \<open>Recording and drawing\<close>

text \<open>The blue of the background is the \<open>float\<close> nearest to 0.2.\<close>

definition tri_pass_begin :: "triangle \<Rightarrow> handle \<Rightarrow> pass_begin" where
  "tri_pass_begin T fb =
     \<lparr>pb_renderPass = renderPass (base T), pb_framebuffer = fb,
      pb_area = \<lparr>rect_offset = (0, 0), rect_extent = (width (base T), height (base T))\<rparr>,
      pb_clear = [ClearColor [0, 0, 13421773 / 67108864, 1], ClearDepthStencil 1 0]\<rparr>"

definition tri_commands :: "triangle \<Rightarrow> handle \<Rightarrow> command list" where
  "tri_commands T fb =
     [CmdBeginRenderPass (tri_pass_begin T fb),
      CmdSetViewport \<lparr>vp_width = float_of (width (base T)), vp_height = float_of (height (base T)), vp_minDepth = 0, vp_maxDepth = 1\<rparr>,
      CmdSetScissor \<lparr>rect_offset = (0, 0), rect_extent = (width (base T), height (base T))\<rparr>,
      CmdBindDescriptorSets (tri_pipelineLayout T) [tri_set T] [],
      CmdBindPipeline (tri_pipeline T),
      CmdBindVertexBuffers 0 (mb_buffer (tri_vertices T)) 0,
      CmdBindIndexBuffer (mb_buffer (tri_indices T)) 0 VK_INDEX_TYPE_UINT32,
      CmdDrawIndexed (tri_count T) 1 0 0 1,
      CmdEndRenderPass]"

definition tri_buildCommandBuffers :: "triangle \<Rightarrow> unit vk" where
  "tri_buildCommandBuffers T =
     forV [0 ..< length (drawCmdBuffers (base T))] (\<lambda>i.
       bindV (indexV (frameBuffers (base T)) i) (\<lambda>fb.
       let cmd = drawCmdBuffers (base T) ! i
       in bindV (VK_CHECK_RESULT (BeginCommandBuffer cmd)) (\<lambda>_.
          thenV (forV (tri_commands T fb) (\<lambda>c. doV (Record cmd c))) (
          bindV (VK_CHECK_RESULT (EndCommandBuffer cmd)) (\<lambda>_. retV ())))))"

definition tri_draw :: "triangle \<Rightarrow> triangle vk" where
  "tri_draw T =
     bindV (acquireNextImage (chain (base T)) (presentCompleteSemaphore T)) (\<lambda>(r, i).
     let E = (base T)\<lparr>currentBuffer := i\<rparr>
     in thenV (check_result r) (
        bindV (indexV (tri_waitFences T) (unat i)) (\<lambda>fence.
        bindV (VK_CHECK_RESULT (WaitForFences (ex_device E) fence UINT64_MAX)) (\<lambda>_.
        bindV (VK_CHECK_RESULT (ResetFences (ex_device E) fence)) (\<lambda>_.
        bindV (indexV (drawCmdBuffers E) (unat i)) (\<lambda>cmd.
        bindV (VK_CHECK_RESULT (QueueSubmit (queue E) [presentCompleteSemaphore T] [cmd] [renderCompleteSemaphore T] fence)) (\<lambda>_.
        bindV (queuePresent (chain E) (queue E) i (renderCompleteSemaphore T)) (\<lambda>r2.
        thenV (check_result r2) (retV (T\<lparr>base := E\<rparr>)))))))))) "

definition tri_render :: "triangle \<Rightarrow> triangle vk" where
  "tri_render T = (if \<not> prepared (base T) then retV T else tri_draw T)"

section \<open>Vertices\<close>

definition bytes_le :: "u32 \<Rightarrow> 8 word list" where
  "bytes_le w = map (\<lambda>i. ucast (drop_bit (8 * i) w)) [0, 1, 2, 3]"

text \<open>The bits of 1 and of -1 in \<open>float\<close>.\<close>

abbreviation one_f :: u32 where "one_f \<equiv> 0x3F800000"
abbreviation minus_one_f :: u32 where "minus_one_f \<equiv> 0xBF800000"

definition tri_vertex_data :: "u32 list list" where
  "tri_vertex_data =
     [[one_f, one_f, 0, one_f, 0, 0],
      [minus_one_f, one_f, 0, 0, one_f, 0],
      [0, minus_one_f, 0, 0, 0, one_f]]"

definition tri_index_data :: "u32 list" where
  "tri_index_data = [0, 1, 2]"

text \<open>
  The four blocks that make a buffer in memory of the host and fill it, and the two that make one on the device.
  The vertex blocks map the whole allocation, the index blocks the bytes written.
\<close>

definition host_buffer :: "example \<Rightarrow> u32 \<Rightarrow> 8 word list \<Rightarrow> bool \<Rightarrow> memory_buffer vk" where
  "host_buffer E usage bytes whole =
     (let dev = ex_device E; n = of_nat (length bytes)
      in bindV (VK_CHECK_RESULT (CreateBuffer dev \<lparr>b_usage = usage, b_size = n, b_sharing = 0\<rparr>)) (\<lambda>b.
         bindV (queryV reqs_of (GetBufferMemoryRequirements dev b)) (\<lambda>reqs.
         bindV (getMemoryTypeIndex E (r_typeBits reqs) host_memory) (\<lambda>ti.
         bindV (VK_CHECK_RESULT (AllocateMemory dev (r_size reqs) ti)) (\<lambda>mem.
         bindV (VK_CHECK_RESULT (MapMemory dev mem 0 (if whole then r_size reqs else n))) (\<lambda>p.
         thenV (host_write p bytes) (
         thenV (doV (UnmapMemory dev mem)) (
         bindV (VK_CHECK_RESULT (BindBufferMemory dev b mem 0)) (\<lambda>_.
           retV \<lparr>mb_memory = mem, mb_buffer = b\<rparr>)))))))))"

definition device_buffer :: "example \<Rightarrow> u32 \<Rightarrow> u64 \<Rightarrow> memory_buffer vk" where
  "device_buffer E usage n =
     (let dev = ex_device E
      in bindV (VK_CHECK_RESULT (CreateBuffer dev \<lparr>b_usage = usage, b_size = n, b_sharing = 0\<rparr>)) (\<lambda>b.
         bindV (queryV reqs_of (GetBufferMemoryRequirements dev b)) (\<lambda>reqs.
         bindV (getMemoryTypeIndex E (r_typeBits reqs) VK_MEMORY_PROPERTY_DEVICE_LOCAL_BIT) (\<lambda>ti.
         bindV (VK_CHECK_RESULT (AllocateMemory dev (r_size reqs) ti)) (\<lambda>mem.
         bindV (VK_CHECK_RESULT (BindBufferMemory dev b mem 0)) (\<lambda>_.
           retV \<lparr>mb_memory = mem, mb_buffer = b\<rparr>))))))"

definition free_buffer :: "example \<Rightarrow> memory_buffer \<Rightarrow> unit vk" where
  "free_buffer E b = thenV (doV (DestroyBuffer (ex_device E) (mb_buffer b))) (doV (FreeMemory (ex_device E) (mb_memory b)))"

definition prepareVertices :: "bool \<Rightarrow> triangle \<Rightarrow> triangle vk" where
  "prepareVertices useStagingBuffers T =
     (let E = base T;
          vbytes = concat (map bytes_le (concat tri_vertex_data)); ibytes = concat (map bytes_le tri_index_data);
          vsize = of_nat (length tri_vertex_data) * 24; isize = of_nat (length tri_index_data) * 4;
          T1 = T\<lparr>tri_count := of_nat (length tri_index_data)\<rparr>
      in if useStagingBuffers
         then bindV (host_buffer E VK_BUFFER_USAGE_TRANSFER_SRC_BIT vbytes True) (\<lambda>sv.
              bindV (device_buffer E (VK_BUFFER_USAGE_VERTEX_BUFFER_BIT OR VK_BUFFER_USAGE_TRANSFER_DST_BIT) vsize) (\<lambda>v.
              bindV (host_buffer E VK_BUFFER_USAGE_TRANSFER_SRC_BIT ibytes False) (\<lambda>si.
              bindV (device_buffer E (VK_BUFFER_USAGE_INDEX_BUFFER_BIT OR VK_BUFFER_USAGE_TRANSFER_DST_BIT) isize) (\<lambda>i.
              bindV (getCommandBuffer E True) (\<lambda>copyCmd.
              thenV (doV (CmdCopyBuffer copyCmd (mb_buffer sv) (mb_buffer v) \<lparr>srcOffset = 0, dstOffset = 0, copy_size = vsize\<rparr>)) (
              thenV (doV (CmdCopyBuffer copyCmd (mb_buffer si) (mb_buffer i) \<lparr>srcOffset = 0, dstOffset = 0, copy_size = isize\<rparr>)) (
              thenV (tri_flushCommandBuffer E copyCmd) (
              thenV (free_buffer E sv) (
              thenV (free_buffer E si)
                (retV (T1\<lparr>tri_vertices := v, tri_indices := i\<rparr>)))))))))))
         else bindV (host_buffer E VK_BUFFER_USAGE_VERTEX_BUFFER_BIT vbytes True) (\<lambda>v.
              bindV (host_buffer E VK_BUFFER_USAGE_INDEX_BUFFER_BIT ibytes False) (\<lambda>i.
                retV (T1\<lparr>tri_vertices := v, tri_indices := i\<rparr>))))"

section \<open>Descriptors\<close>

definition tri_setupDescriptorPool :: "triangle \<Rightarrow> triangle vk" where
  "tri_setupDescriptorPool T =
     bindV (VK_CHECK_RESULT (CreateDescriptorPool (tri_device T)
        \<lparr>po_sizes = [\<lparr>ps_type = VK_DESCRIPTOR_TYPE_UNIFORM_BUFFER, ps_count = 1\<rparr>], po_maxSets = 1\<rparr>)) (\<lambda>p.
       retV (T\<lparr>base := (base T)\<lparr>descriptorPool := p\<rparr>\<rparr>))"

definition tri_setupDescriptorSetLayout :: "triangle \<Rightarrow> triangle vk" where
  "tri_setupDescriptorSetLayout T =
     bindV (VK_CHECK_RESULT (CreateDescriptorSetLayout (tri_device T)
        [\<lparr>lb_type = VK_DESCRIPTOR_TYPE_UNIFORM_BUFFER, lb_stages = VK_SHADER_STAGE_VERTEX_BIT, lb_binding = 0, lb_count = 1\<rparr>])) (\<lambda>l.
     bindV (VK_CHECK_RESULT (CreatePipelineLayout (tri_device T) \<lparr>li_sets = [l], li_ranges = []\<rparr>)) (\<lambda>p.
       retV (T\<lparr>tri_setLayout := l, tri_pipelineLayout := p\<rparr>)))"

definition tri_setupDescriptorSet :: "triangle \<Rightarrow> triangle vk" where
  "tri_setupDescriptorSet T =
     bindV (VK_CHECK_RESULT (AllocateDescriptorSets (tri_device T) (descriptorPool (base T)) [tri_setLayout T])) (\<lambda>s.
     let d = tri_descriptor T
     in thenV (doV (UpdateDescriptorSets (tri_device T)
          [\<lparr>ws_set = s, ws_type = VK_DESCRIPTOR_TYPE_UNIFORM_BUFFER, ws_binding = 0, ws_count = 1,
            ws_buffer = Some (d_buffer d, d_offset d, d_range d), ws_image = None\<rparr>]))
          (retV (T\<lparr>tri_set := s\<rparr>)))"

section \<open>Overrides of the base class\<close>

definition tri_setupDepthStencil :: "example \<Rightarrow> example vk" where
  "tri_setupDepthStencil E =
     bindV (VK_CHECK_RESULT (CreateImage (ex_device E)
        \<lparr>img_format = depthFormat E, img_extent = (width E, height E),
         img_usage = VK_IMAGE_USAGE_DEPTH_STENCIL_ATTACHMENT_BIT OR VK_IMAGE_USAGE_TRANSFER_SRC_BIT\<rparr>)) (\<lambda>img.
     bindV (queryV reqs_of (GetImageMemoryRequirements (ex_device E) img)) (\<lambda>reqs.
     bindV (getMemoryTypeIndex E (r_typeBits reqs) VK_MEMORY_PROPERTY_DEVICE_LOCAL_BIT) (\<lambda>ti.
     bindV (VK_CHECK_RESULT (AllocateMemory (ex_device E) (r_size reqs) ti)) (\<lambda>mem.
     bindV (VK_CHECK_RESULT (BindImageMemory (ex_device E) img mem 0)) (\<lambda>_.
     bindV (VK_CHECK_RESULT (CreateImageView (ex_device E)
        \<lparr>view_image = img, viewType = 1, view_format = depthFormat E, components = [0, 0, 0, 0],
         view_range = \<lparr>aspectMask = VK_IMAGE_ASPECT_DEPTH_BIT OR VK_IMAGE_ASPECT_STENCIL_BIT, baseMipLevel = 0, levelCount = 1,
           baseArrayLayer = 0, layerCount = 1\<rparr>\<rparr>)) (\<lambda>v.
       retV (E\<lparr>depth_image := img, depth_mem := mem, depth_view := v\<rparr>)))))))"

definition tri_setupFrameBuffer :: "example \<Rightarrow> example vk" where
  "tri_setupFrameBuffer E =
     bindV (mapV (\<lambda>i. bindV (indexV (buffers (chain E)) i) (\<lambda>b.
              VK_CHECK_RESULT (CreateFramebuffer (ex_device E)
                \<lparr>fb_renderPass = renderPass E, fb_attachments = [snd b, depth_view E], fb_extent = (width E, height E)\<rparr>)))
            [0 ..< unat (imageCount (chain E))]) (\<lambda>fbs.
       retV (E\<lparr>frameBuffers := fbs\<rparr>))"

definition tri_render_pass :: "example \<Rightarrow> render_pass_info" where
  "tri_render_pass E =
     \<lparr>rp_attachments =
        [\<lparr>at_format = colorFormat (chain E), at_samples = 1, loadOp = 1, storeOp = 0, stencilLoadOp = 2, stencilStoreOp = 1,
          initialLayout = LAYOUT_UNDEFINED, finalLayout = 1000001002\<rparr>,
         \<lparr>at_format = depthFormat E, at_samples = 1, loadOp = 1, storeOp = 1, stencilLoadOp = 2, stencilStoreOp = 1,
          initialLayout = LAYOUT_UNDEFINED, finalLayout = LAYOUT_DEPTH_STENCIL_ATTACHMENT_OPTIMAL\<rparr>],
      colorReference = (0, LAYOUT_COLOR_ATTACHMENT_OPTIMAL),
      depthReference = (1, LAYOUT_DEPTH_STENCIL_ATTACHMENT_OPTIMAL),
      dependencies =
        [\<lparr>srcSubpass = 0xFFFFFFFF, dstSubpass = 0, srcStageMask = 0x2000, dstStageMask = 0x400,
          dep_srcAccess = 0x8000, dep_dstAccess = 0x80 OR 0x100, dependencyFlags = 1\<rparr>,
         \<lparr>srcSubpass = 0, dstSubpass = 0xFFFFFFFF, srcStageMask = 0x400, dstStageMask = 0x2000,
          dep_srcAccess = 0x80 OR 0x100, dep_dstAccess = 0x8000, dependencyFlags = 1\<rparr>]\<rparr>"

definition tri_setupRenderPass :: "example \<Rightarrow> example vk" where
  "tri_setupRenderPass E =
     bindV (VK_CHECK_RESULT (CreateRenderPass (ex_device E) (tri_render_pass E))) (\<lambda>h. retV (E\<lparr>renderPass := h\<rparr>))"

section \<open>Pipeline\<close>

definition loadSPIRVShader :: "(string \<Rightarrow> 8 word list option) \<Rightarrow> handle \<Rightarrow> string \<Rightarrow> handle vk" where
  "loadSPIRVShader fs dev filename =
     (case fs filename of
        None \<Rightarrow> retV VK_NULL_HANDLE
      | Some code \<Rightarrow> thenV (assertV (0 < length code)) (VK_CHECK_RESULT (CreateShaderModule dev code)))"

definition tri_depth_state :: depth_state where
  "tri_depth_state =
     (let keep = \<lparr>so_failOp = 0, so_passOp = 0, so_compareOp = VK_COMPARE_OP_ALWAYS\<rparr>
      in \<lparr>ds_test = VK_TRUE, ds_write = VK_TRUE, ds_compareOp = VK_COMPARE_OP_LESS_OR_EQUAL, ds_front = keep, ds_back = keep\<rparr>)"

definition tri_pipeline_info :: "triangle \<Rightarrow> handle \<Rightarrow> handle \<Rightarrow> pipeline_info" where
  "tri_pipeline_info T vert frag =
     \<lparr>pi_layout = tri_pipelineLayout T, pi_renderPass = renderPass (base T), pi_flags = 0, pi_subpass = 0, pi_base = (0, 0),
      pi_stages = [\<lparr>ss_stage = VK_SHADER_STAGE_VERTEX_BIT, ss_module = vert, ss_name = ''main''\<rparr>,
        \<lparr>ss_stage = VK_SHADER_STAGE_FRAGMENT_BIT, ss_module = frag, ss_name = ''main''\<rparr>],
      pi_input = ([\<lparr>vb_binding = 0, vb_stride = 24, vb_inputRate = 0\<rparr>],
        [\<lparr>va_location = 0, va_binding = 0, va_format = VK_FORMAT_R32G32B32_SFLOAT, va_offset = 0\<rparr>,
         \<lparr>va_location = 1, va_binding = 0, va_format = VK_FORMAT_R32G32B32_SFLOAT, va_offset = 12\<rparr>]),
      pi_assembly = \<lparr>ia_topology = VK_PRIMITIVE_TOPOLOGY_TRIANGLE_LIST, ia_flags = 0, ia_restart = 0\<rparr>,
      pi_raster = \<lparr>rs_polygonMode = VK_POLYGON_MODE_FILL, rs_cullMode = VK_CULL_MODE_NONE,
        rs_frontFace = VK_FRONT_FACE_COUNTER_CLOCKWISE, rs_flags = 0, rs_depthClamp = VK_FALSE, rs_lineWidth = 1\<rparr>,
      pi_blend = [\<lparr>ba_writeMask = 0xF, ba_enable = VK_FALSE, ba_color = (0, 0, 0), ba_alpha = (0, 0, 0)\<rparr>],
      pi_samples = \<lparr>ms_samples = VK_SAMPLE_COUNT_1_BIT, ms_flags = 0\<rparr>,
      pi_viewport = \<lparr>vs_viewports = 1, vs_scissors = 1, vs_flags = 0\<rparr>,
      pi_depth = tri_depth_state,
      pi_dynamic = \<lparr>dy_states = [VK_DYNAMIC_STATE_VIEWPORT, VK_DYNAMIC_STATE_SCISSOR], dy_flags = 0\<rparr>\<rparr>"

definition tri_preparePipelines :: "(string \<Rightarrow> 8 word list option) \<Rightarrow> string \<Rightarrow> triangle \<Rightarrow> triangle vk" where
  "tri_preparePipelines fs assets T =
     bindV (loadSPIRVShader fs (tri_device T) (assets @ ''shaders/triangle/triangle.vert.spv'')) (\<lambda>vert.
     thenV (assertV (vert \<noteq> VK_NULL_HANDLE)) (
     bindV (loadSPIRVShader fs (tri_device T) (assets @ ''shaders/triangle/triangle.frag.spv'')) (\<lambda>frag.
     thenV (assertV (frag \<noteq> VK_NULL_HANDLE)) (
     bindV (VK_CHECK_RESULT (CreateGraphicsPipelines (tri_device T) (pipelineCache (base T)) (tri_pipeline_info T vert frag))) (\<lambda>p.
     thenV (doV (DestroyShaderModule (tri_device T) vert)) (
     thenV (doV (DestroyShaderModule (tri_device T) frag))
       (retV (T\<lparr>tri_pipeline := p\<rparr>))))))))"

section \<open>Uniform buffer, preparation and destruction\<close>

text \<open>Three matrices of sixteen \<open>float\<close>.\<close>

abbreviation SIZEOF_uboVS :: u64 where "SIZEOF_uboVS \<equiv> 192"

definition tri_updateUniformBuffers :: "matrices \<Rightarrow> triangle \<Rightarrow> unit vk" where
  "tri_updateUniformBuffers mats T =
     bindV (VK_CHECK_RESULT (MapMemory (tri_device T) (mb_memory (tri_uniform T)) 0 SIZEOF_uboVS)) (\<lambda>p.
     thenV (host_write p (take (unat SIZEOF_uboVS) (mats (width (base T)) (height (base T)) (camera_moves T))))
       (doV (UnmapMemory (tri_device T) (mb_memory (tri_uniform T)))))"

definition tri_prepareUniformBuffers :: "matrices \<Rightarrow> triangle \<Rightarrow> triangle vk" where
  "tri_prepareUniformBuffers mats T =
     bindV (VK_CHECK_RESULT (CreateBuffer (tri_device T)
        \<lparr>b_usage = VK_BUFFER_USAGE_UNIFORM_BUFFER_BIT, b_size = SIZEOF_uboVS, b_sharing = 0\<rparr>)) (\<lambda>b.
     bindV (queryV reqs_of (GetBufferMemoryRequirements (tri_device T) b)) (\<lambda>reqs.
     bindV (getMemoryTypeIndex (base T) (r_typeBits reqs) host_memory) (\<lambda>ti.
     bindV (VK_CHECK_RESULT (AllocateMemory (tri_device T) (r_size reqs) ti)) (\<lambda>mem.
     bindV (VK_CHECK_RESULT (BindBufferMemory (tri_device T) b mem 0)) (\<lambda>_.
     let T1 = T\<lparr>tri_uniform := \<lparr>mb_memory = mem, mb_buffer = b\<rparr>,
           tri_descriptor := \<lparr>d_buffer = b, d_offset = 0, d_range = SIZEOF_uboVS\<rparr>\<rparr>
     in thenV (tri_updateUniformBuffers mats T1) (retV T1))))))"

definition triangle_virtuals :: "matrices \<Rightarrow> unit triangle_ext virtuals" where
  "triangle_virtuals mats =
     \<lparr>v_setupDepthStencil = tri_setupDepthStencil, v_setupFrameBuffer = tri_setupFrameBuffer, v_setupRenderPass = tri_setupRenderPass,
      v_render = tri_render, v_viewChanged = tri_updateUniformBuffers mats, v_buildCommandBuffers = tri_buildCommandBuffers,
      v_windowResized = (\<lambda>T. retV ()), v_keyPressed = (\<lambda>T k. retV T), v_mouseMoved = (\<lambda>T x y handled. retV (T, handled)),
      v_OnUpdateUIOverlay = retV\<rparr>"

definition USE_STAGING :: bool where "USE_STAGING = True"

text \<open>What the constructor sets after that of the base, apart from the distance of the viewer.\<close>

definition tri_construct :: "triangle \<Rightarrow> triangle" where
  "tri_construct T = T\<lparr>start := (start T)\<lparr>app_title := ''Vulkan Example - Basic indexed triangle''\<rparr>\<rparr>"

definition tri_prepare :: "matrices \<Rightarrow> (string \<Rightarrow> 8 word list option) \<Rightarrow> string \<Rightarrow> 8 word list \<times> u32 \<times> u32 \<Rightarrow> handle \<Rightarrow> u32 \<Rightarrow>
    triangle \<Rightarrow> triangle vk" where
  "tri_prepare mats fs assets font connection window T =
     bindV (prepare_app (triangle_virtuals mats) fs assets font connection window T) (\<lambda>T1.
     bindV (prepareSynchronizationPrimitives T1) (\<lambda>T2.
     bindV (prepareVertices USE_STAGING T2) (\<lambda>T3.
     bindV (tri_prepareUniformBuffers mats T3) (\<lambda>T4.
     bindV (tri_setupDescriptorSetLayout T4) (\<lambda>T5.
     bindV (tri_preparePipelines fs assets T5) (\<lambda>T6.
     bindV (tri_setupDescriptorPool T6) (\<lambda>T7.
     bindV (tri_setupDescriptorSet T7) (\<lambda>T8.
     thenV (tri_buildCommandBuffers T8)
       (retV (T8\<lparr>base := (base T8)\<lparr>prepared := True\<rparr>\<rparr>))))))))))"

text \<open>\<open>~VulkanExample\<close>, then the destructor of the base.\<close>

definition tri_destroy :: "triangle \<Rightarrow> unit vk" where
  "tri_destroy T =
     (let dev = tri_device T
      in thenV (doV (DestroyPipeline dev (tri_pipeline T))) (
         thenV (doV (DestroyPipelineLayout dev (tri_pipelineLayout T))) (
         thenV (doV (DestroyDescriptorSetLayout dev (tri_setLayout T))) (
         thenV (free_buffer (base T) (tri_vertices T)) (
         thenV (free_buffer (base T) (tri_indices T)) (
         thenV (free_buffer (base T) (tri_uniform T)) (
         thenV (doV (DestroySemaphore dev (presentCompleteSemaphore T))) (
         thenV (doV (DestroySemaphore dev (renderCompleteSemaphore T)))
           (forV (tri_waitFences T) (\<lambda>f. doV (DestroyFence dev f)))))))))))"

end
