(* ===== verification/VkDynamic.thy ===== *)
theory VkDynamic
  imports VkTriangle
begin

text \<open>
  The example of \<open>src/dynamicuniformbuffer.cpp\<close>: 125 cubes whose matrices lie in one uniform buffer, each at an
  offset the device's alignment allows, and a command buffer that moves a dynamic descriptor from one to the next.
  The matrices that glm computes from camera and rotations are arguments; whether a sixtieth of a second has passed
  is what \<open>dy_due\<close> answers, call by call.
\<close>

section \<open>State\<close>

abbreviation OBJECT_INSTANCES :: nat where "OBJECT_INSTANCES \<equiv> 125"
abbreviation VERTEX_BUFFER_BIND_ID :: u32 where "VERTEX_BUFFER_BIND_ID \<equiv> 0"
abbreviation SIZEOF_mat4 :: u64 where "SIZEOF_mat4 \<equiv> 64"
abbreviation SIZEOF_view :: u64 where "SIZEOF_view \<equiv> 128"

record dynamic = app +
  dy_inputs :: "vertex_binding list \<times> vertex_attribute list"
  dy_vertexBuffer :: vks_buffer
  dy_indexBuffer :: vks_buffer
  dy_indexCount :: u32
  dy_view :: vks_buffer
  dy_dynamic :: vks_buffer
  dy_model :: "8 word list option"
  dy_pipeline :: handle
  dy_pipelineLayout :: handle
  dy_set :: handle
  dy_setLayout :: handle
  dynamicAlignment :: u64
  dy_due :: "bool list"
  dy_updates :: nat
  dy_submit :: submit

text \<open>
  The matrix of an object at the n-th update, the two of the view, and what the heap returns for a size and an
  alignment: no block, or one of that size with arbitrary content.
\<close>

type_synonym object_matrix = "nat \<Rightarrow> nat \<Rightarrow> 8 word list"
type_synonym view_matrices = "u32 \<Rightarrow> u32 \<Rightarrow> camera_move list \<Rightarrow> 8 word list"

section \<open>Recording and drawing\<close>

text \<open>\<open>defaultClearColor\<close> has three times the \<open>float\<close> nearest to 0.025.\<close>

definition defaultClearColor :: "f32 list" where
  "defaultClearColor = (let c = 13421773 / 536870912 in [c, c, c, 1])"

definition dynamic_offset :: "dynamic \<Rightarrow> nat \<Rightarrow> u32" where
  "dynamic_offset T j = of_nat j * ucast (dynamicAlignment T)"

definition dy_commands :: "dynamic \<Rightarrow> handle \<Rightarrow> command list" where
  "dy_commands T fb =
     (let E = base T
      in [CmdBeginRenderPass (renderPassBeginInfo\<lparr>pb_renderPass := renderPass E, pb_framebuffer := fb,
            pb_area := \<lparr>rect_offset = (0, 0), rect_extent = (width E, height E)\<rparr>,
            pb_clear := [ClearColor defaultClearColor, ClearDepthStencil 1 0]\<rparr>),
          CmdSetViewport (viewport (float_of (width E)) (float_of (height E)) 0 1),
          CmdSetScissor (rect2D (width E) (height E) 0 0),
          CmdBindPipeline (dy_pipeline T),
          CmdBindVertexBuffers VERTEX_BUFFER_BIND_ID (buf_buffer (dy_vertexBuffer T)) 0,
          CmdBindIndexBuffer (buf_buffer (dy_indexBuffer T)) 0 VK_INDEX_TYPE_UINT32] @
         concat (map (\<lambda>j. [CmdBindDescriptorSets (dy_pipelineLayout T) [dy_set T] [dynamic_offset T j],
                           CmdDrawIndexed (dy_indexCount T) 1 0 0 0]) [0 ..< OBJECT_INSTANCES]))"

definition dy_buildCommandBuffers :: "f32 list \<Rightarrow> dynamic \<Rightarrow> unit vk" where
  "dy_buildCommandBuffers scaling T =
     forV [0 ..< length (drawCmdBuffers (base T))] (\<lambda>i.
       bindV (indexV (frameBuffers (base T)) i) (\<lambda>fb.
       let cmd = drawCmdBuffers (base T) ! i
       in bindV (VK_CHECK_RESULT (BeginCommandBuffer cmd)) (\<lambda>_.
          thenV (forV (dy_commands T fb) (\<lambda>c. doV (Record cmd c))) (
          thenV (drawUI T scaling cmd) (
          thenV (doV (Record cmd CmdEndRenderPass)) (
          bindV (VK_CHECK_RESULT (EndCommandBuffer cmd)) (\<lambda>_. retV ())))))))"

text \<open>
  \<open>draw\<close>. The member \<open>submitInfo\<close> of the base class is submitted, not the variable of the same name that
  \<open>initVulkan\<close> fills; nothing ever initialises it, so its semaphores are those it happens to hold.
\<close>

definition dy_draw :: "(dynamic \<Rightarrow> hooks) \<Rightarrow> dynamic \<Rightarrow> dynamic vk" where
  "dy_draw H T =
     bindV (on_base (prepareFrame (H T)) T) (\<lambda>T1.
     bindV (indexV (drawCmdBuffers (base T1)) (unat (currentBuffer (base T1)))) (\<lambda>cmd.
     let T2 = T1\<lparr>dy_submit := (dy_submit T1)\<lparr>commandBuffers := [cmd]\<rparr>\<rparr>; S = dy_submit T2
     in bindV (VK_CHECK_RESULT (QueueSubmit (queue (base T2)) (waitSemaphores S) (commandBuffers S) (signalSemaphores S) VK_NULL_HANDLE)) (\<lambda>_.
        on_base (submitFrame (H T2)) T2)))"

section \<open>The cube\<close>

definition cube_vertices :: "u32 list list" where
  "cube_vertices =
     [[minus_one_f, minus_one_f, one_f, one_f, 0, 0],
      [one_f, minus_one_f, one_f, 0, one_f, 0],
      [one_f, one_f, one_f, 0, 0, one_f],
      [minus_one_f, one_f, one_f, 0, 0, 0],
      [minus_one_f, minus_one_f, minus_one_f, one_f, 0, 0],
      [one_f, minus_one_f, minus_one_f, 0, one_f, 0],
      [one_f, one_f, minus_one_f, 0, 0, one_f],
      [minus_one_f, one_f, minus_one_f, 0, 0, 0]]"

definition cube_indices :: "u32 list" where
  "cube_indices = [0,1,2, 2,3,0, 1,5,6, 6,2,1, 7,6,5, 5,4,7, 4,0,3, 3,7,4, 4,5,1, 1,0,4, 3,2,6, 6,7,3]"

definition generateCube :: "dynamic \<Rightarrow> dynamic vk" where
  "generateCube T =
     (let D = vulkanDevice (base T); T1 = T\<lparr>dy_indexCount := of_nat (length cube_indices)\<rparr>
      in bindV (checked (createBuffer D VK_BUFFER_USAGE_VERTEX_BUFFER_BIT host_memory (dy_vertexBuffer T)
            (of_nat (length cube_vertices) * 24) (Some (concat (map bytes_le (concat cube_vertices)))))) (\<lambda>vb.
         bindV (checked (createBuffer D VK_BUFFER_USAGE_INDEX_BUFFER_BIT host_memory (dy_indexBuffer T)
            (of_nat (length cube_indices) * 4) (Some (concat (map bytes_le cube_indices))))) (\<lambda>ib.
           retV (T1\<lparr>dy_vertexBuffer := vb, dy_indexBuffer := ib\<rparr>))))"

definition setupVertexDescriptions :: "dynamic \<Rightarrow> dynamic" where
  "setupVertexDescriptions T = T\<lparr>dy_inputs :=
     ([vertexInputBindingDescription VERTEX_BUFFER_BIND_ID 24 0],
      [vertexInputAttributeDescription VERTEX_BUFFER_BIND_ID 0 VK_FORMAT_R32G32B32_SFLOAT 0,
       vertexInputAttributeDescription VERTEX_BUFFER_BIND_ID 1 VK_FORMAT_R32G32B32_SFLOAT 12])\<rparr>"

section \<open>Descriptors and pipeline\<close>

definition dy_setupDescriptorPool :: "dynamic \<Rightarrow> dynamic vk" where
  "dy_setupDescriptorPool T =
     bindV (VK_CHECK_RESULT (CreateDescriptorPool (ex_device (base T)) (descriptorPoolCreateInfo
        [descriptorPoolSize VK_DESCRIPTOR_TYPE_UNIFORM_BUFFER 1, descriptorPoolSize VK_DESCRIPTOR_TYPE_UNIFORM_BUFFER_DYNAMIC 1,
         descriptorPoolSize VK_DESCRIPTOR_TYPE_COMBINED_IMAGE_SAMPLER 1] 2))) (\<lambda>p.
       retV (T\<lparr>base := (base T)\<lparr>descriptorPool := p\<rparr>\<rparr>))"

definition dy_setupDescriptorSetLayout :: "dynamic \<Rightarrow> dynamic vk" where
  "dy_setupDescriptorSetLayout T =
     bindV (VK_CHECK_RESULT (CreateDescriptorSetLayout (ex_device (base T)) (descriptorSetLayoutCreateInfo
        [descriptorSetLayoutBinding VK_DESCRIPTOR_TYPE_UNIFORM_BUFFER VK_SHADER_STAGE_VERTEX_BIT 0,
         descriptorSetLayoutBinding VK_DESCRIPTOR_TYPE_UNIFORM_BUFFER_DYNAMIC VK_SHADER_STAGE_VERTEX_BIT 1,
         descriptorSetLayoutBinding VK_DESCRIPTOR_TYPE_COMBINED_IMAGE_SAMPLER VK_SHADER_STAGE_FRAGMENT_BIT 2]))) (\<lambda>l.
     bindV (VK_CHECK_RESULT (CreatePipelineLayout (ex_device (base T)) (pipelineLayoutCreateInfo [l]))) (\<lambda>p.
       retV (T\<lparr>dy_setLayout := l, dy_pipelineLayout := p\<rparr>)))"

text \<open>The descriptor of a buffer as the fields of the write.\<close>

definition buffer_fields :: "vks_buffer \<Rightarrow> handle \<times> u64 \<times> u64" where
  "buffer_fields B = (let d = buf_descriptor B in (d_buffer d, d_offset d, d_range d))"

definition dy_setupDescriptorSet :: "dynamic \<Rightarrow> dynamic vk" where
  "dy_setupDescriptorSet T =
     bindV (VK_CHECK_RESULT (AllocateDescriptorSets (ex_device (base T)) (descriptorPool (base T)) [dy_setLayout T])) (\<lambda>s.
     thenV (doV (UpdateDescriptorSets (ex_device (base T))
        [writeDescriptorSet s VK_DESCRIPTOR_TYPE_UNIFORM_BUFFER 0 (buffer_fields (dy_view T)),
         writeDescriptorSet s VK_DESCRIPTOR_TYPE_UNIFORM_BUFFER_DYNAMIC 1 (buffer_fields (dy_dynamic T))]))
       (retV (T\<lparr>dy_set := s\<rparr>)))"

definition dy_preparePipelines :: "(string \<Rightarrow> 8 word list option) \<Rightarrow> string \<Rightarrow> dynamic \<Rightarrow> dynamic vk" where
  "dy_preparePipelines fs assets T =
     bindV (base_loadShader fs T (assets @ ''shaders/dynamicuniformbuffer/base.vert.spv'') VK_SHADER_STAGE_VERTEX_BIT) (\<lambda>(vert, T1).
     bindV (base_loadShader fs T1 (assets @ ''shaders/dynamicuniformbuffer/base.frag.spv'') VK_SHADER_STAGE_FRAGMENT_BIT) (\<lambda>(frag, T2).
     let info = pipelineCreateInfo (dy_pipelineLayout T2) (renderPass (base T2)) 0 [vert, frag] (dy_inputs T2)
           (pipelineInputAssemblyStateCreateInfo VK_PRIMITIVE_TOPOLOGY_TRIANGLE_LIST 0 VK_FALSE)
           (pipelineRasterizationStateCreateInfo VK_POLYGON_MODE_FILL VK_CULL_MODE_NONE VK_FRONT_FACE_COUNTER_CLOCKWISE 0)
           (pipelineColorBlendStateCreateInfo [pipelineColorBlendAttachmentState 0xF VK_FALSE])
           (pipelineMultisampleStateCreateInfo VK_SAMPLE_COUNT_1_BIT 0)
           (pipelineViewportStateCreateInfo 1 1 0)
           (pipelineDepthStencilStateCreateInfo VK_TRUE VK_TRUE VK_COMPARE_OP_LESS_OR_EQUAL)
           (pipelineDynamicStateCreateInfo [VK_DYNAMIC_STATE_VIEWPORT, VK_DYNAMIC_STATE_SCISSOR] 0)
     in bindV (VK_CHECK_RESULT (CreateGraphicsPipelines (ex_device (base T2)) (pipelineCache (base T2)) info)) (\<lambda>p.
          retV (T2\<lparr>dy_pipeline := p\<rparr>))))"

section \<open>Uniform buffers\<close>

definition align_ubo :: "u64 \<Rightarrow> u64" where
  "align_ubo minUboAlignment =
     (if 0 < minUboAlignment then (SIZEOF_mat4 + minUboAlignment - 1) AND NOT (minUboAlignment - 1) else SIZEOF_mat4)"

definition dy_updateUniformBuffers :: "view_matrices \<Rightarrow> dynamic \<Rightarrow> unit vk" where
  "dy_updateUniformBuffers views T =
     host_write (buf_mapped (dy_view T)) (take (unat SIZEOF_view) (views (width (base T)) (height (base T)) (camera_moves T)))"

text \<open>A matrix is stored through a pointer into the block: outside of it there is no such object.\<close>

definition store_matrix :: "8 word list \<Rightarrow> nat \<Rightarrow> 8 word list \<Rightarrow> 8 word list vk" where
  "store_matrix block offset m =
     (if offset + length m \<le> length block then retV (take offset block @ m @ drop (offset + length m) block) else failV BadIndex)"

text \<open>The cube root of 125, taken by \<open>pow\<close> with a third in \<open>float\<close>, is a little more than 5.\<close>

definition dim :: nat where "dim = 5"

definition object_indices :: "nat list" where
  "object_indices = concat (map (\<lambda>x. concat (map (\<lambda>y. map (\<lambda>z. x * dim * dim + y * dim + z) [0 ..< dim]) [0 ..< dim])) [0 ..< dim])"

fun store_objects :: "(nat \<Rightarrow> 8 word list) \<Rightarrow> u64 \<Rightarrow> nat list \<Rightarrow> 8 word list \<Rightarrow> 8 word list vk" where
  "store_objects m al [] block = retV block"
| "store_objects m al (i # is) block =
     bindV (store_matrix block (unat (of_nat i * al)) (m i)) (store_objects m al is)"

definition updateDynamicUniformBuffer :: "object_matrix \<Rightarrow> bool \<Rightarrow> dynamic \<Rightarrow> dynamic vk" where
  "updateDynamicUniformBuffer mats force T =
     (let due = (dy_due T \<noteq> [] \<and> hd (dy_due T)); T1 = T\<lparr>dy_due := tl (dy_due T)\<rparr>
      in if \<not> due \<and> \<not> force then retV T1
         else case dy_model T1 of
             None \<Rightarrow> failV BadIndex
           | Some block \<Rightarrow>
               bindV (store_objects (mats (dy_updates T1)) (dynamicAlignment T1) object_indices block) (\<lambda>block1.
               let n = unat (buf_size (dy_dynamic T1))
               in thenV (if length block1 < n then failV BadIndex else host_write (buf_mapped (dy_dynamic T1)) (take n block1)) (
                  thenV (doV (FlushMappedMemoryRanges (ex_device (base T1)) (buf_memory (dy_dynamic T1)) 0 (buf_size (dy_dynamic T1))))
                    (retV (T1\<lparr>dy_model := Some block1, dy_updates := Suc (dy_updates T1)\<rparr>)))))"

text \<open>\<open>alignedAlloc\<close>: the block of \<open>posix_memalign\<close>, none where that reports an error.\<close>

definition alignedAlloc :: "(u64 \<Rightarrow> u64 \<Rightarrow> int \<times> 8 word list option) \<Rightarrow> u64 \<Rightarrow> u64 \<Rightarrow> 8 word list option" where
  "alignedAlloc posix_memalign sz alignment =
     (case posix_memalign alignment sz of (res, block) \<Rightarrow> if res \<noteq> 0 then None else block)"

definition dy_prepareUniformBuffers :: "object_matrix \<Rightarrow> view_matrices \<Rightarrow> (u64 \<Rightarrow> u64 \<Rightarrow> int \<times> 8 word list option) \<Rightarrow> u64 \<Rightarrow> dynamic \<Rightarrow> dynamic vk" where
  "dy_prepareUniformBuffers mats views posix_memalign minUboAlignment T =
     (let al = align_ubo minUboAlignment; bufferSize = of_nat OBJECT_INSTANCES * al; D = vulkanDevice (base T);
          T1 = T\<lparr>dynamicAlignment := al, dy_model := alignedAlloc posix_memalign bufferSize al\<rparr>
      in thenV (assertV (dy_model T1 \<noteq> None)) (
         bindV (checked (createBuffer D VK_BUFFER_USAGE_UNIFORM_BUFFER_BIT host_memory (dy_view T1) SIZEOF_view None)) (\<lambda>v.
         bindV (checked (createBuffer D VK_BUFFER_USAGE_UNIFORM_BUFFER_BIT VK_MEMORY_PROPERTY_HOST_VISIBLE_BIT (dy_dynamic T1)
                  bufferSize None)) (\<lambda>b.
         bindV (checked (map_buffer v VK_WHOLE_SIZE 0)) (\<lambda>v1.
         bindV (checked (map_buffer b VK_WHOLE_SIZE 0)) (\<lambda>b1.
         let T2 = T1\<lparr>dy_view := v1, dy_dynamic := b1\<rparr>
         in thenV (dy_updateUniformBuffers views T2) (updateDynamicUniformBuffer mats True T2)))))))"

section \<open>The class\<close>

definition dy_render :: "(dynamic \<Rightarrow> hooks) \<Rightarrow> object_matrix \<Rightarrow> dynamic \<Rightarrow> dynamic vk" where
  "dy_render H mats T =
     (if \<not> prepared (base T) then retV T
      else bindV (dy_draw H T) (\<lambda>T1. if paused T1 then retV T1 else updateDynamicUniformBuffer mats False T1))"

text \<open>The functions the base class calls in a frame and in a resize, and those the render loop calls.\<close>

definition dy_hooks :: "f32 list \<Rightarrow> view_matrices \<Rightarrow> dynamic \<Rightarrow> hooks" where
  "dy_hooks scaling views T =
     \<lparr>depth_setup = setupDepthStencil, frame_setup = setupFrameBuffer, pass_setup = setupRenderPass,
      buildCommandBuffers = (\<lambda>E. dy_buildCommandBuffers scaling (T\<lparr>base := E\<rparr>)), windowResized = (\<lambda>E. retV ()),
      viewChanged = (\<lambda>E. dy_updateUniformBuffers views (T\<lparr>base := E\<rparr>)),
      overlay_resize = (\<lambda>w h. retV ()), overlay_free = freeResources (ui T)\<rparr>"

definition dynamic_virtuals :: "f32 list \<Rightarrow> object_matrix \<Rightarrow> view_matrices \<Rightarrow> unit dynamic_ext virtuals" where
  "dynamic_virtuals scaling mats views =
     \<lparr>v_setupDepthStencil = setupDepthStencil, v_setupFrameBuffer = setupFrameBuffer, v_setupRenderPass = setupRenderPass,
      v_render = dy_render (dy_hooks scaling views) mats, v_viewChanged = dy_updateUniformBuffers views,
      v_buildCommandBuffers = dy_buildCommandBuffers scaling,
      v_windowResized = (\<lambda>T. retV ()), v_keyPressed = (\<lambda>T k. retV T), v_mouseMoved = (\<lambda>T x y handled. retV (T, handled)),
      v_OnUpdateUIOverlay = retV\<rparr>"

lemma dy_hooks_at: "dy_hooks scaling views = hooks_at (dynamic_virtuals scaling mats views)"
  by (intro ext) (simp add: dy_hooks_def hooks_at_def dynamic_virtuals_def)

text \<open>What the constructor sets after that of the base, apart from the camera.\<close>

definition dy_construct :: "dynamic \<Rightarrow> dynamic" where
  "dy_construct T = T\<lparr>start := (start T)\<lparr>app_title := ''Dynamic uniform buffers''\<rparr>, base := (base T)\<lparr>overlay := True\<rparr>\<rparr>"

definition dy_prepare :: "f32 list \<Rightarrow> object_matrix \<Rightarrow> view_matrices \<Rightarrow> (u64 \<Rightarrow> u64 \<Rightarrow> int \<times> 8 word list option) \<Rightarrow> u64 \<Rightarrow>
    (string \<Rightarrow> 8 word list option) \<Rightarrow> string \<Rightarrow> 8 word list \<times> u32 \<times> u32 \<Rightarrow> handle \<Rightarrow> u32 \<Rightarrow> dynamic \<Rightarrow> dynamic vk" where
  "dy_prepare scaling mats views posix_memalign minUboAlignment fs assets font connection window T =
     bindV (prepare_app (dynamic_virtuals scaling mats views) fs assets font connection window T) (\<lambda>T1.
     bindV (generateCube T1) (\<lambda>T2.
     bindV (dy_prepareUniformBuffers mats views posix_memalign minUboAlignment (setupVertexDescriptions T2)) (\<lambda>T3.
     bindV (dy_setupDescriptorSetLayout T3) (\<lambda>T4.
     bindV (dy_preparePipelines fs assets T4) (\<lambda>T5.
     bindV (dy_setupDescriptorPool T5) (\<lambda>T6.
     bindV (dy_setupDescriptorSet T6) (\<lambda>T7.
     thenV (dy_buildCommandBuffers scaling T7)
       (retV (T7\<lparr>base := (base T7)\<lparr>prepared := True\<rparr>\<rparr>)))))))))"

text \<open>\<open>~VulkanExample\<close>, then the destructor of the base; the block of the matrices goes back to the heap.\<close>

definition dy_destroy :: "dynamic \<Rightarrow> unit vk" where
  "dy_destroy T =
     (let dev = ex_device (base T)
      in thenV (doV (DestroyPipeline dev (dy_pipeline T))) (
         thenV (doV (DestroyPipelineLayout dev (dy_pipelineLayout T))) (
         thenV (doV (DestroyDescriptorSetLayout dev (dy_setLayout T))) (
         thenV (destroy (dy_vertexBuffer T)) (
         thenV (destroy (dy_indexBuffer T)) (
         thenV (destroy (dy_view T))
           (destroy (dy_dynamic T))))))))"

end
