(* ===== verification/VkLoopRun.thy ===== *)
theory VkLoopRun
  imports VkLoop VkExampleLive VkOverlayRun
begin

text \<open>
  The input state after any sequence of events, that closing the window ends the loop, and what switching
  the overlay off leaves behind.
\<close>

section \<open>Virtual functions that leave the input alone\<close>

definition same_input :: "'a app_scheme \<Rightarrow> 'a app_scheme \<Rightarrow> bool" where
  "same_input A A' =
     (quit A' = quit A \<and> paused A' = paused A \<and> overlay (base A') = overlay (base A) \<and>
      button_left A' = button_left A \<and> button_middle A' = button_middle A \<and> button_right A' = button_right A \<and>
      keys_left A' = keys_left A \<and> keys_right A' = keys_right A \<and> keys_up A' = keys_up A \<and> keys_down A' = keys_down A \<and>
      atom_wm_delete_window A' = atom_wm_delete_window A)"

definition virtuals_keep_input :: "'a virtuals \<Rightarrow> bool" where
  "virtuals_keep_input V =
     ((\<forall>E. gives (v_setupDepthStencil V E) (\<lambda>E'. overlay E' = overlay E)) \<and>
      (\<forall>E. gives (v_setupFrameBuffer V E) (\<lambda>E'. overlay E' = overlay E)) \<and>
      (\<forall>A k. gives (v_keyPressed V A k) (same_input A)) \<and>
      (\<forall>A x y b. gives (v_mouseMoved V A x y b) (\<lambda>p. same_input A (fst p))))"

section \<open>What an event says\<close>

datatype control = LeftButton | MiddleButton | RightButton | UpKey | DownKey | LeftKey | RightKey

fun held :: "control \<Rightarrow> 'a app_scheme \<Rightarrow> bool" where
  "held LeftButton A = button_left A"
| "held MiddleButton A = button_middle A"
| "held RightButton A = button_right A"
| "held UpKey A = keys_up A"
| "held DownKey A = keys_down A"
| "held LeftKey A = keys_left A"
| "held RightKey A = keys_right A"

text \<open>The events by which a control is pressed and released.\<close>

fun control_detail :: "control \<Rightarrow> 8 word" where
  "control_detail LeftButton = 1"
| "control_detail MiddleButton = 2"
| "control_detail RightButton = 3"
| "control_detail UpKey = KEY_W"
| "control_detail DownKey = KEY_S"
| "control_detail LeftKey = KEY_A"
| "control_detail RightKey = KEY_D"

definition is_button :: "control \<Rightarrow> bool" where
  "is_button i = (i = LeftButton \<or> i = MiddleButton \<or> i = RightButton)"

definition presses :: "control \<Rightarrow> xcb_event \<Rightarrow> bool" where
  "presses i e = (event_code e = (if is_button i then XCB_BUTTON_PRESS else XCB_KEY_PRESS) \<and> ev_detail e = control_detail i)"

definition releases :: "control \<Rightarrow> xcb_event \<Rightarrow> bool" where
  "releases i e = (event_code e = (if is_button i then XCB_BUTTON_RELEASE else XCB_KEY_RELEASE) \<and> ev_detail e = control_detail i)"

definition closes :: "u32 \<Rightarrow> xcb_event \<Rightarrow> bool" where
  "closes atom e =
     ((event_code e = XCB_CLIENT_MESSAGE \<and> ev_data32 e = atom) \<or> event_code e = XCB_DESTROY_NOTIFY \<or>
      (event_code e = XCB_KEY_RELEASE \<and> ev_detail e = KEY_ESCAPE))"

definition pause_key :: "xcb_event \<Rightarrow> bool" where
  "pause_key e = (event_code e = XCB_KEY_PRESS \<and> ev_detail e = KEY_P)"

definition overlay_key :: "xcb_event \<Rightarrow> bool" where
  "overlay_key e = (event_code e = XCB_KEY_PRESS \<and> ev_detail e = KEY_F1)"

text \<open>The last event about a control decides.\<close>

definition last_said :: "control \<Rightarrow> xcb_event list \<Rightarrow> bool \<Rightarrow> bool" where
  "last_said i es b =
     (case filter (\<lambda>e. presses i e \<or> releases i e) es of [] \<Rightarrow> b | cs \<Rightarrow> presses i (last cs))"

section \<open>One event\<close>

lemma base_setup_keeps_overlay:
  "gives (setupDepthStencil E) (\<lambda>E'. overlay E' = overlay E)" "gives (setupFrameBuffer E) (\<lambda>E'. overlay E' = overlay E)"
  unfolding setupDepthStencil_def setupFrameBuffer_def by (intro gives_bind_any, simp add: gives_ret)+

lemma resize_keeps_overlay:
  assumes depth: "\<And>E. gives (depth_setup H E) (\<lambda>E'. overlay E' = overlay E)"
    and frames: "\<And>E. gives (frame_setup H E) (\<lambda>E'. overlay E' = overlay E)"
  shows "gives (windowResize H E) (\<lambda>E'. overlay E' = overlay E)"
proof -
  have chain: "gives (setupSwapChain E) (\<lambda>E'. overlay E' = overlay E)" for E
    unfolding setupSwapChain_def by (rule gives_bind_any) (simp add: gives_ret split_beta)
  have commands: "gives (renew_commands H E) (\<lambda>E'. overlay E' = overlay E)" for E
    unfolding renew_commands_def createCommandBuffers_def Let_def
    by (rule gives_then, rule gives_then, rule gives_bind [where P = "\<lambda>E'. overlay E' = overlay E"])
      (intro gives_bind_any gives_then, simp_all add: gives_ret gives_then)
  have targets: "gives (resize_targets H E) (\<lambda>E'. overlay E' = overlay E)" for E
    unfolding resize_targets_def
  proof (rule gives_then, rule gives_bind [OF chain], rule gives_then, rule gives_bind [OF depth], rule gives_then)
    fix E1 E2 :: example
    assume e: "overlay E1 = overlay (E\<lparr>width := destWidth E, height := destHeight E\<rparr>)" "overlay E2 = overlay E1"
    show "gives (frame_setup H E2) (\<lambda>E'. overlay E' = overlay E)"
      by (rule gives_weaken [OF frames]) (use e in simp)
  qed
  show ?thesis
  proof (cases "prepared E")
    case True
    have rest: "gives (bindV (renew_commands H E1) (\<lambda>E2. retV (E2\<lparr>prepared := True\<rparr>))) (\<lambda>E'. overlay E' = overlay E)"
      if "overlay E1 = overlay (E\<lparr>prepared := False\<rparr>)" for E1
      by (rule gives_bind [OF commands]) (use that in \<open>simp add: gives_ret\<close>)
    show ?thesis unfolding windowResize_def using True by (simp add: gives_bind [OF targets rest])
  qed (simp add: windowResize_def gives_ret)
qed

text \<open>What one event does to the input: every control for itself, the flags of the loop, the overlay.\<close>

definition said :: "xcb_event \<Rightarrow> 'a app_scheme \<Rightarrow> 'a app_scheme \<Rightarrow> bool" where
  "said e A A' =
     ((\<forall>i. held i A' = last_said i [e] (held i A)) \<and> quit A' = (quit A \<or> closes (atom_wm_delete_window A) e) \<and>
      paused A' = (paused A \<noteq> pause_key e) \<and> overlay (base A') = (overlay (base A) \<and> \<not> overlay_key e) \<and>
      atom_wm_delete_window A' = atom_wm_delete_window A)"

lemma all_controls: "(\<forall>i. P i) \<longleftrightarrow> P LeftButton \<and> P MiddleButton \<and> P RightButton \<and> P UpKey \<and> P DownKey \<and> P LeftKey \<and> P RightKey"
  by (metis control.exhaust)

lemma same_input_held: "same_input A A' \<Longrightarrow> held i A' = held i A"
  by (cases i) (simp_all add: same_input_def)

lemmas said_simps = said_def all_controls last_said_def presses_def releases_def is_button_def closes_def pause_key_def overlay_key_def

lemma same_input_said:
  assumes "same_input A1 A'" and "said e A A1"
  shows "said e A A'"
  using assms(1) assms(2) by (simp add: said_def same_input_held) (simp add: same_input_def)

lemma handleEvent_said:
  fixes A :: "'a app_scheme"
  assumes "virtuals_keep_input V"
  shows "gives (handleEvent V e A) (said e A)"
proof -
  have key: "gives (v_keyPressed V A k) (same_input A)" and mouse: "gives (v_mouseMoved V A x y b) (\<lambda>p. same_input A (fst p))"
    for A :: "'a app_scheme" and k x y b
    using assms by (simp_all add: virtuals_keep_input_def)
  show ?thesis
  proof (cases "event_code e \<in> {XCB_MOTION_NOTIFY, XCB_KEY_RELEASE, XCB_CONFIGURE_NOTIFY}")
    case False
    then show ?thesis
      by (simp add: handleEvent_def Let_def gives_ret said_simps set_button_def key_press_def set_key_def key_defs)
  next
    case True
    then consider "event_code e = XCB_MOTION_NOTIFY" | "event_code e = XCB_KEY_RELEASE" | "event_code e = XCB_CONFIGURE_NOTIFY" by blast
    then show ?thesis
    proof cases
      case 1
      have "said e A A" using 1 by (simp add: said_simps)
      have "gives (handleMouseMove V w x y A) (said e A)" for w x y
        unfolding handleMouseMove_def Let_def
      proof (rule gives_bind [OF mouse])
        fix p :: "'a app_scheme \<times> bool" assume "same_input A (fst p)"
        then have "said e A (fst p)" using \<open>said e A A\<close> by (rule same_input_said)
        then have "said e A ((fst p)\<lparr>camera_moves := ms, viewUpdated := v, mousePos := (x, y)\<rparr>)" for ms v
          by (simp add: said_def all_controls)
        then show "gives (case p of (A1, handled) \<Rightarrow> retV (A1\<lparr>camera_moves := camera_moves A1 @
             (if handled then [] else moves_for (fst (mousePos A) - x) (snd (mousePos A) - y) A1),
           viewUpdated := viewUpdated A1 \<or> (if handled then [] else moves_for (fst (mousePos A) - x) (snd (mousePos A) - y) A1) \<noteq> [],
           mousePos := (x, y)\<rparr>)) (said e A)"
          unfolding split_beta gives_ret .
      qed
      then show ?thesis using 1 by (simp add: handleEvent_def)
    next
      case 2
      have "said e A (if ev_detail e = KEY_ESCAPE then A\<lparr>quit := True\<rparr> else set_key (ev_detail e) False A)"
        using 2 by (simp add: said_simps set_key_def key_defs)
      then show ?thesis using 2 unfolding handleEvent_def key_release_def
        by (simp add: gives_weaken [OF key same_input_said])
    next
      case 3
      have A: "said e A (A\<lparr>base := E\<rparr>)" if "overlay E = overlay (base A)" for E using 3 that by (simp add: said_simps)
      have resize: "gives (windowResize (hooks_at V A') E) (\<lambda>E'. overlay E' = overlay E)" for A' :: "'a app_scheme" and E
        by (rule resize_keeps_overlay) (use assms in \<open>simp_all add: virtuals_keep_input_def hooks_at_def\<close>)
      have "gives (configure V w h A) (said e A)" for w h
        unfolding configure_def Let_def on_base_def
        using A [of "base A"]
        by (auto simp: gives_ret A intro!: gives_bind [OF resize])
      then show ?thesis using 3 by (simp add: handleEvent_def)
    qed
  qed
qed

section \<open>Any sequence of events\<close>

lemma last_said_Cons: "last_said i (e # es) b = last_said i es (last_said i [e] b)"
proof (cases "filter (\<lambda>e. presses i e \<or> releases i e) es")
  case (Cons c cs)
  then have "last (c # cs) \<in> set (filter (\<lambda>e. presses i e \<or> releases i e) es)" by (metis last_in_set list.distinct(1))
  then show ?thesis using Cons by (simp add: last_said_def)
qed (simp add: last_said_def)

definition said_all :: "xcb_event list \<Rightarrow> 'a app_scheme \<Rightarrow> 'a app_scheme \<Rightarrow> bool" where
  "said_all es A A' =
     ((\<forall>i. held i A' = last_said i es (held i A)) \<and>
      quit A' = (quit A \<or> (\<exists>e \<in> set es. closes (atom_wm_delete_window A) e)) \<and>
      paused A' = (paused A \<noteq> odd (length (filter pause_key es))) \<and>
      overlay (base A') = (overlay (base A) \<and> (\<forall>e \<in> set es. \<not> overlay_key e)) \<and>
      atom_wm_delete_window A' = atom_wm_delete_window A)"

lemma said_all_Nil: "said_all [] A A"
  by (simp add: said_all_def last_said_def)

lemma said_all_Cons: "said e A A1 \<Longrightarrow> said_all es A1 A' \<Longrightarrow> said_all (e # es) A A'"
  by (auto simp: said_def said_all_def last_said_Cons [of _ e es])

lemma handle_events_said:
  assumes "virtuals_keep_input V"
  shows "gives (handle_events V es A) (said_all es A)"
proof (induction es arbitrary: A)
  case (Cons e es)
  have "gives (handle_events V es A1) (said_all (e # es) A)" if "said e A A1" for A1
    using gives_weaken [OF Cons.IH said_all_Cons [OF that]] .
  then show ?case unfolding handle_events.simps using gives_bind [OF handleEvent_said [OF assms]] by blast
qed (simp add: gives_ret said_all_Nil)

text \<open>
  C12. The input after any sequence of events. For every button and every key the camera uses, it counts as held
  exactly when the last event about it was a press (or, without any, when it was held before), whatever
  other events, mouse moves and resizes came between; the loop is asked to end exactly when one of the
  events closes the window; an odd number of presses of P turns the pause round; and the overlay stays on
  exactly when F1 was not pressed: no number of presses switches it on again.
\<close>

theorem input_follows_events:
  assumes "handle_events V es A d lg = Inr (A', lg')" and "virtuals_keep_input V"
  shows "(\<forall>i. held i A' = last_said i es (held i A)) \<and>
    quit A' = (quit A \<or> (\<exists>e \<in> set es. closes (atom_wm_delete_window A) e)) \<and>
    paused A' = (paused A \<noteq> odd (length (filter pause_key es))) \<and>
    overlay (base A') = (overlay (base A) \<and> (\<forall>e \<in> set es. \<not> overlay_key e))"
  using gives_D [OF handle_events_said [OF assms(2)] assms(1)] by (simp add: said_all_def)

section \<open>The loop ends\<close>

text \<open>
  A prepared example without overlay, on a device that offers memory, with a command buffer for every image that may be
  acquired and a frame buffer for every command buffer.
\<close>

definition ready :: "driver \<Rightarrow> nat \<Rightarrow> 'a app_scheme \<Rightarrow> bool" where
  "ready d m A =
     (prepared (base A) \<and> \<not> overlay (base A) \<and> memory_ready d (base A) \<and>
      (swapChain (chain (base A)) \<noteq> VK_NULL_HANDLE \<longrightarrow>
         unat (imageCount (chain (base A))) \<le> length (buffers (chain (base A)))) \<and>
      m \<le> length (drawCmdBuffers (base A)) \<and> length (drawCmdBuffers (base A)) \<le> length (frameBuffers (base A)))"

text \<open>
  Virtual functions that return and keep that state, wherever the members \<open>keep\<close> speaks of are as the class needs
  them: those it adds to the base class. Rendering does not touch the input either.
\<close>

definition virtuals_return :: "driver \<Rightarrow> nat \<Rightarrow> ('a app_scheme \<Rightarrow> bool) \<Rightarrow> 'a virtuals \<Rightarrow> bool" where
  "virtuals_return d m keep V =
     ((\<forall>A A'. app.more A' = app.more A \<longrightarrow> keep A \<longrightarrow> keep A') \<and>
      (\<forall>A. ready d m A \<longrightarrow> keep A \<longrightarrow> finishes d (v_render V A) (\<lambda>A'. (ready d m A' \<and> keep A') \<and> same_input A A')) \<and>
      (\<forall>A k. ready d m A \<longrightarrow> keep A \<longrightarrow> finishes d (v_keyPressed V A k) (\<lambda>A'. ready d m A' \<and> keep A')) \<and>
      (\<forall>A x y b. ready d m A \<longrightarrow> keep A \<longrightarrow> finishes d (v_mouseMoved V A x y b) (\<lambda>p. ready d m (fst p) \<and> keep (fst p))) \<and>
      (\<forall>A. keep A \<longrightarrow> finishes d (v_viewChanged V A) (\<lambda>_. True)) \<and>
      (\<forall>A. keep A \<longrightarrow> hooks_return d (hooks_at V A) \<and> hooks_quiet (hooks_at V A)))"

lemma keep_more:
  assumes "virtuals_return d m keep V" and "keep A" and "app.more A' = app.more A"
  shows "keep A'"
  using assms unfolding virtuals_return_def by blast

lemma base_of: "base (A\<lparr>base := E\<rparr>) = E"
  by simp

text \<open>A resize by the hooks of a class leaves the example ready again.\<close>

lemma finishes_resize_ready:
  fixes A :: "'a app_scheme"
  assumes "successful d" and "images_at_least d m" and "hooks_return d H" and "hooks_quiet H" and "ready d m A"
  shows "finishes d (on_base (windowResize H) A) (\<lambda>A'. ready d m A' \<and>
    (\<exists>E. A' = A\<lparr>base := E\<rparr> \<and> overlay E = overlay (base A) \<and> currentBuffer E = currentBuffer (base A)))"
  unfolding on_base_def
  by (rule finishes_bind [OF windowResize_ready [OF assms(1,3,4)]])
    (use assms(2,5) in \<open>auto simp: ready_def window_ok_def enough_def intro!: finishes_ret\<close>)

lemma finishes_configure:
  assumes "successful d" and "images_at_least d m" and "virtuals_return d m keep V" and "ready d m A" and "keep A"
  shows "finishes d (configure V w h A) (\<lambda>A'. ready d m A' \<and> keep A')"
proof -
  let ?A = "A\<lparr>base := (base A)\<lparr>destWidth := w, destHeight := h\<rparr>\<rparr>"
  have A: "ready d m ?A" "keep ?A"
    using assms(4) keep_more [OF assms(3,5), of ?A] by (simp_all add: ready_def memory_ready_def own_memory_def)
  have H: "hooks_return d (hooks_at V ?A)" "hooks_quiet (hooks_at V ?A)" using assms(3) A(2) by (simp_all add: virtuals_return_def)
  have "finishes d (on_base (windowResize (hooks_at V ?A)) ?A) (\<lambda>A'. ready d m A' \<and> keep A')"
    by (rule finishes_weaken [OF finishes_resize_ready [OF assms(1,2) H A(1)]]) (use keep_more [OF assms(3) A(2)] in auto)
  then show ?thesis using assms(4,5) A unfolding configure_def Let_def by (auto intro: finishes_ret)
qed

lemma ready_controls:
  assumes "ready d m A"
  shows "ready d m (A\<lparr>quit := b\<rparr>)" "ready d m (set_button i b A)" "ready d m (set_key k b A)" "ready d m (key_press k A)"
    "ready d m (A\<lparr>camera_moves := ms, viewUpdated := v, mousePos := p\<rparr>)" "ready d m (A\<lparr>viewUpdated := b\<rparr>)"
  using assms by (simp_all add: ready_def set_button_def set_key_def key_press_def memory_ready_def own_memory_def Let_def)

lemma more_controls [simp]:
  "app.more (set_button i b A) = app.more A" "app.more (set_key k b A) = app.more A" "app.more (key_press k A) = app.more A"
  by (simp_all add: set_button_def set_key_def key_press_def)

lemma finishes_count_frame:
  assumes "ready d m A"
  shows "finishes d (count_frame f A) (\<lambda>A'. ready d m A' \<and> app.more A' = app.more A \<and> quit A' = quit A \<and>
    atom_wm_delete_window A' = atom_wm_delete_window A)"
  using assms
  by (auto simp: count_frame_def show_rate_def ready_def memory_ready_def own_memory_def Let_def intro!: finishes_ret finishes_then finishes_do)

text \<open>What the proofs below share: a class that returns, an example that is ready for it.\<close>

lemma finishes_handleEvent:
  assumes "successful d" and "images_at_least d m" and "virtuals_return d m keep V" and "ready d m A" and "keep A"
  shows "finishes d (handleEvent V e A) (\<lambda>A'. ready d m A' \<and> keep A')"
proof -
  note keep = keep_more [OF assms(3,5)]
  have key: "finishes d (key_release V k A) (\<lambda>A'. ready d m A' \<and> keep A')" for k
  proof -
    have "ready d m (if k = KEY_ESCAPE then A\<lparr>quit := True\<rparr> else set_key k False A)"
        "keep (if k = KEY_ESCAPE then A\<lparr>quit := True\<rparr> else set_key k False A)"
      using assms(4) by (simp_all add: ready_controls keep)
    then show ?thesis using assms(3) unfolding key_release_def virtuals_return_def by blast
  qed
  have mouse: "finishes d (handleMouseMove V b x y A) (\<lambda>A'. ready d m A' \<and> keep A')" for b x y
    unfolding handleMouseMove_def Let_def split_beta
  proof (rule finishes_bind)
    show "finishes d (v_mouseMoved V A x y (overlay (base A) \<and> b)) (\<lambda>p. ready d m (fst p) \<and> keep (fst p))"
      using assms(3-5) by (simp add: virtuals_return_def)
  qed (intro finishes_ret conjI ready_controls, simp, erule conjE, rule keep_more [OF assms(3)], assumption, simp)
  show ?thesis unfolding handleEvent_def Let_def
    by (simp add: key mouse finishes_configure [OF assms] finishes_ret ready_controls [OF assms(4)] assms(4,5) keep)
qed

lemma finishes_handle_events:
  "successful d \<Longrightarrow> images_at_least d m \<Longrightarrow> virtuals_return d m keep V \<Longrightarrow> ready d m A \<Longrightarrow> keep A \<Longrightarrow>
    finishes d (handle_events V es A) (\<lambda>A'. ready d m A' \<and> keep A')"
  by (induction es arbitrary: A) (auto intro: finishes_ret finishes_bind finishes_handleEvent)

text \<open>The end of the frame: the overlay is off.\<close>

lemma finishes_end_frame:
  assumes "virtuals_return d m keep V" and "ready d m A" and "keep A"
  shows "finishes d (end_frame V f A) (\<lambda>A'. (ready d m A' \<and> keep A') \<and> quit A' = quit A \<and> atom_wm_delete_window A' = atom_wm_delete_window A)"
  unfolding end_frame_def
proof (rule finishes_bind)
  show "finishes d (v_render V A) (\<lambda>A'. (ready d m A' \<and> keep A') \<and> same_input A A')" using assms by (simp add: virtuals_return_def)
next
  fix A1 assume A1: "(ready d m A1 \<and> keep A1) \<and> same_input A A1"
  show "finishes d (bindV (count_frame f A1) (updateOverlay V (in_lists f)))
      (\<lambda>A'. (ready d m A' \<and> keep A') \<and> quit A' = quit A \<and> atom_wm_delete_window A' = atom_wm_delete_window A)"
  proof (rule finishes_bind [OF finishes_count_frame])
    fix A2 assume A2: "ready d m A2 \<and> app.more A2 = app.more A1 \<and> quit A2 = quit A1 \<and> atom_wm_delete_window A2 = atom_wm_delete_window A1"
    then have "keep A2" using A1 keep_more [OF assms(1), of A1 A2] by simp
    moreover have "updateOverlay V (in_lists f) A2 = retV A2" using A2 by (simp add: updateOverlay_def ready_def)
    ultimately show "finishes d (updateOverlay V (in_lists f) A2)
        (\<lambda>A'. (ready d m A' \<and> keep A') \<and> quit A' = quit A \<and> atom_wm_delete_window A' = atom_wm_delete_window A)"
      using A1 A2 by (simp add: same_input_def finishes_ret)
  qed (use A1 in simp)
qed

lemma finishes_begin_frame:
  assumes "virtuals_return d m keep V" and "ready d m A" and "keep A"
  shows "finishes d (begin_frame V A) (\<lambda>A'. (ready d m A' \<and> keep A') \<and> same_input A A')"
proof -
  have k: "keep (A\<lparr>viewUpdated := b\<rparr>)" for b by (rule keep_more [OF assms(1,3)]) simp
  then have "finishes d (v_viewChanged V (A\<lparr>viewUpdated := b\<rparr>)) (\<lambda>_. True)" for b using assms(1) by (simp add: virtuals_return_def)
  then show ?thesis using assms(2,3) k
    by (auto simp: begin_frame_def Let_def same_input_def ready_controls intro!: finishes_ret finishes_then)
qed

lemma finishes_loop_frame:
  assumes "successful d" and "images_at_least d m" and "virtuals_return d m keep V" and "virtuals_keep_input V"
    and "ready d m A" and "keep A"
  shows "finishes d (loop_frame V f A) (\<lambda>A'. (ready d m A' \<and> keep A') \<and> atom_wm_delete_window A' = atom_wm_delete_window A \<and>
    quit A' = (quit A \<or> (\<exists>e \<in> set (in_events f). closes (atom_wm_delete_window A) e)))"
  unfolding loop_frame_def
proof (rule finishes_bind [OF finishes_begin_frame [OF assms(3,5,6)]])
  fix A1 assume A1: "(ready d m A1 \<and> keep A1) \<and> same_input A A1"
  then have h: "finishes d (handle_events V (in_events f) A1) (\<lambda>A2. (ready d m A2 \<and> keep A2) \<and> said_all (in_events f) A1 A2)"
    by (intro finishes_gives finishes_handle_events [OF assms(1-3)] handle_events_said [OF assms(4)]) simp_all
  show "finishes d (bindV (handle_events V (in_events f) A1) (end_frame V f)) (\<lambda>A'. (ready d m A' \<and> keep A') \<and>
      atom_wm_delete_window A' = atom_wm_delete_window A \<and>
      quit A' = (quit A \<or> (\<exists>e \<in> set (in_events f). closes (atom_wm_delete_window A) e)))"
  proof (rule finishes_bind [OF h])
    fix A2 assume A2: "(ready d m A2 \<and> keep A2) \<and> said_all (in_events f) A1 A2"
    then have "finishes d (end_frame V f A2) (\<lambda>A'. (ready d m A' \<and> keep A') \<and> quit A' = quit A2 \<and>
        atom_wm_delete_window A' = atom_wm_delete_window A2)"
      by (intro finishes_end_frame [OF assms(3)]) simp_all
    then show "finishes d (end_frame V f A2) (\<lambda>A'. (ready d m A' \<and> keep A') \<and> atom_wm_delete_window A' = atom_wm_delete_window A \<and>
        quit A' = (quit A \<or> (\<exists>e \<in> set (in_events f). closes (atom_wm_delete_window A) e)))"
      by (rule finishes_weaken) (use A1 A2 in \<open>auto simp: same_input_def said_all_def\<close>)
  qed
qed

lemma event_loop_quit: "quit A \<Longrightarrow> event_loop V fs A = retV A"
  by (cases fs) simp_all

lemma event_loop_append: "event_loop V (fs @ gs) A d lg = bindV (event_loop V fs A) (event_loop V gs) d lg"
proof (induction fs arbitrary: A lg)
  case (Cons f fs)
  then show ?case by (simp add: bindV_def event_loop_quit run_simps split: sum.split prod.split)
qed (simp add: bindV_def run_simps)

lemma event_loop_ends:
  fixes A :: "'a app_scheme"
  assumes "successful d" and "images_at_least d m" and "virtuals_return d m keep V" and "virtuals_keep_input V"
    and "ready d m A" and "keep A" and "f \<in> set fs" and "\<exists>e \<in> set (in_events f). closes (atom_wm_delete_window A) e"
  shows "finishes d (event_loop V fs A) quit"
  using assms(5-8)
proof (induction fs arbitrary: A)
  case (Cons g fs)
  show ?case
  proof (cases "quit A")
    case False
    have "finishes d (bindV (loop_frame V g A) (event_loop V fs)) quit"
    proof (rule finishes_bind [OF finishes_loop_frame [OF assms(1-4) Cons.prems(1,2)]])
      fix A' :: "'a app_scheme" assume A': "(ready d m A' \<and> keep A') \<and> atom_wm_delete_window A' = atom_wm_delete_window A \<and>
          quit A' = (quit A \<or> (\<exists>e \<in> set (in_events g). closes (atom_wm_delete_window A) e))"
      show "finishes d (event_loop V fs A') quit"
      proof (cases "quit A'")
        case False
        then have "f \<noteq> g" using A' Cons.prems(4) by blast
        then show ?thesis using Cons.IH [of A'] A' Cons.prems(3,4) by simp
      qed (simp add: event_loop_quit finishes_ret)
    qed
    then show ?thesis using False by simp
  qed (simp add: finishes_ret)
qed simp


section \<open>The overlay switched off\<close>

text \<open>
  C35. The overlay cannot be switched on again and its resources are lost with it. The press of F1 turns
  \<open>settings.overlay\<close> off, every later press leaves it off, and the destructor then makes no call for the overlay: it
  is the same computation whatever freeing the overlay's resources would do.
\<close>

theorem overlay_off_leaks:
  assumes "handle_events V (e # es) A d lg = Inr (A', lg')" and "overlay_key e" and "virtuals_keep_input V"
  shows "\<not> overlay (base A') \<and>
    destroy_example (hooks_at V A') (base A') = destroy_example ((hooks_at V A')\<lparr>overlay_free := m\<rparr>) (base A')"
proof -
  have "said_all (e # es) A A'" using gives_D [OF handle_events_said [OF assms(3)] assms(1)] .
  then have "\<not> overlay (base A')" using assms(2) by (simp add: said_all_def)
  then show ?thesis by (simp add: destroy_example_def destroy_resources_def)
qed

section \<open>A run\<close>

definition demo_virtuals :: "unit virtuals" where
  "demo_virtuals = \<lparr>v_setupDepthStencil = setupDepthStencil, v_setupFrameBuffer = setupFrameBuffer, v_setupRenderPass = setupRenderPass,
     v_render = retV, v_viewChanged = (\<lambda>A. retV ()), v_buildCommandBuffers = (\<lambda>A. retV ()),
     v_windowResized = (\<lambda>A. retV ()), v_keyPressed = (\<lambda>A k. retV A), v_mouseMoved = (\<lambda>A x y b. retV (A, b)),
     v_OnUpdateUIOverlay = retV\<rparr>"

definition demo_startup :: startup where
  "demo_startup = \<lparr>validation = False, fullscreen = False, warmup = 1, duration = 10, bench_filename = [], outputFrameTimes = False,
     errorModeSilent = False, app_title = ''Demo'', app_name = ''vulkanExample'', deviceName = ''GPU'', app_apiVersion = 0x400000,
     enabledInstanceExtensions = [], enabledDeviceExtensions = [], ex_enabledFeatures = 0, deviceCreatepNextChain = 0,
     debugUtilsMessenger = 0, the_connection = 91, the_window = 93,
     the_screen = \<lparr>root = 95, root_visual = 97, black_pixel = 0, in_pixels = (1920, 1080)\<rparr>\<rparr>"

definition demo_app :: app where
  "demo_app = \<lparr>base = demo_example\<lparr>overlay := False\<rparr>, ui = demo_overlay, global_submit = submitInfo, imgui_data = None,
     quit = False, paused = False, viewUpdated = False, button_left = False, button_middle = False, button_right = False,
     keys_left = False, keys_right = False, keys_up = False, keys_down = False, mousePos = (0, 0), camera_moves = [],
     frameCounter = 0, lastFPS = 0, atom_wm_delete_window = 77, start = demo_startup\<rparr>"

text \<open>A key, by its press or its release.\<close>

definition demo_key :: "8 word \<Rightarrow> 8 word \<Rightarrow> xcb_event" where
  "demo_key c k = \<lparr>response_type = c, ev_detail = k, ev_data32 = 0, event_x = 0, event_y = 0, ev_width = 0, ev_height = 0,
     wants_mouse = False\<rparr>"

lemma demo_virtuals_ok: "virtuals_keep_input demo_virtuals"
  by (simp add: virtuals_keep_input_def demo_virtuals_def gives_ret same_input_def base_setup_keeps_overlay)

lemmas demo_event_simps = handleEvent_def event_code_def key_press_def key_release_def set_key_def key_defs demo_key_def
  demo_virtuals_def demo_app_def bindV_def run_simps

theorem input_follows_events_witness:
  "\<exists>A' lg'. handle_events demo_virtuals [demo_key 2 KEY_W, demo_key 2 KEY_P, demo_key 3 KEY_W, demo_key 0x82 KEY_D] demo_app demo_driver [] =
      Inr (A', lg') \<and> \<not> held UpKey A' \<and> held RightKey A' \<and> paused A' \<and> \<not> quit A'"
proof -
  obtain A' lg' where r: "handle_events demo_virtuals [demo_key 2 KEY_W, demo_key 2 KEY_P, demo_key 3 KEY_W, demo_key 0x82 KEY_D]
      demo_app demo_driver [] = Inr (A', lg')"
    by (simp add: demo_event_simps)
  note f = input_follows_events [OF r demo_virtuals_ok]
  note last = last_said_def presses_def releases_def is_button_def event_code_def key_defs demo_key_def
  have "\<not> held UpKey A'" using f by (elim conjE allE [of _ UpKey]) (simp only:, simp add: last)
  moreover have "held RightKey A'" using f by (elim conjE allE [of _ RightKey]) (simp only:, simp add: last)
  moreover have "paused A'" using f by (elim conjE) (simp only:, simp add: pause_key_def event_code_def key_defs demo_key_def demo_app_def)
  moreover have "\<not> quit A'" using f by (elim conjE) (simp only:, simp add: closes_def event_code_def key_defs demo_key_def demo_app_def)
  ultimately show ?thesis using r by blast
qed

theorem overlay_off_leaks_witness:
  "\<exists>A' lg'. handle_events demo_virtuals [demo_key 2 KEY_F1, demo_key 2 KEY_F1] (demo_app\<lparr>base := demo_example\<rparr>) demo_driver [] = Inr (A', lg') \<and>
    \<not> overlay (base A') \<and> destroy_example (hooks_at demo_virtuals A') (base A') =
      destroy_example ((hooks_at demo_virtuals A')\<lparr>overlay_free := failV BadIndex\<rparr>) (base A')"
proof -
  obtain A' lg' where r: "handle_events demo_virtuals [demo_key 2 KEY_F1, demo_key 2 KEY_F1] (demo_app\<lparr>base := demo_example\<rparr>) demo_driver [] =
      Inr (A', lg')"
    by (simp add: demo_event_simps)
  have "overlay_key (demo_key 2 KEY_F1)" by (simp add: overlay_key_def event_code_def demo_key_def)
  from overlay_off_leaks [OF r this demo_virtuals_ok] show ?thesis using r by blast
qed

end
