(* ===== verification/VkTriangleRun.thy ===== *)
theory VkTriangleRun
  imports VkTriangle VkLoopRun
begin

text \<open>
  The triangle: its overrides against the base class, the use of its fences from frame to frame, and what a
  resize and an outdated surface do to it.
\<close>

section \<open>Overrides\<close>

lemma type_index_loop_eq:
  "type_index_loop ts tb p i n = bindV (memory_type_loop ts tb p i n) (\<lambda>r. case r of Some j \<Rightarrow> retV (of_nat j) | None \<Rightarrow> failV Throw)"
proof (induction n arbitrary: tb i)
  case (Suc n)
  then show ?case
    by (intro ext) (auto simp: bindV_def run_simps index_eq split: sum.split)
qed (intro ext, simp add: bindV_def run_simps)

lemma type_index_eq:
  "memoryProperties E = (memoryTypeCount D, memoryTypes D) \<Longrightarrow> getMemoryTypeIndex E tb p = getMemoryType D tb p"
  by (simp add: getMemoryTypeIndex_def getMemoryType_def type_index_loop_eq)

lemma tri_frames_eq: "tri_setupFrameBuffer = setupFrameBuffer"
  by (simp add: tri_setupFrameBuffer_def [abs_def] setupFrameBuffer_def [abs_def])

definition triangle_memory :: "example \<Rightarrow> bool" where
  "triangle_memory E =
     (memoryProperties E = (memoryTypeCount (vulkanDevice E), memoryTypes (vulkanDevice E)) \<and>
      VK_FORMAT_D16_UNORM_S8_UINT \<le> depthFormat E)"

lemma tri_depth_eq: "triangle_memory E \<Longrightarrow> tri_setupDepthStencil E = setupDepthStencil E"
  by (simp add: triangle_memory_def tri_setupDepthStencil_def setupDepthStencil_def type_index_eq depth_view_info_def)

text \<open>
  The overrides agree with the base class: the frame buffers are set up by the same calls, and so is the depth
  buffer wherever the example's memory properties are those of its device and the depth format has a stencil
  part, which the override always names as an aspect of the view.
\<close>

theorem triangle_overrides_agree:
  "tri_setupFrameBuffer = setupFrameBuffer \<and>
   (memoryProperties E = (memoryTypeCount (vulkanDevice E), memoryTypes (vulkanDevice E)) \<longrightarrow>
    VK_FORMAT_D16_UNORM_S8_UINT \<le> depthFormat E \<longrightarrow> tri_setupDepthStencil E = setupDepthStencil E)"
  by (simp add: tri_frames_eq tri_depth_eq triangle_memory_def)

text \<open>In any case the override makes an image, memory and a view as the base class does, from the memory types it has read.\<close>

definition tri_view_info :: "example \<Rightarrow> handle \<Rightarrow> view_info" where
  "tri_view_info E img =
     \<lparr>view_image = img, viewType = 1, view_format = depthFormat E, components = [0, 0, 0, 0],
      view_range = \<lparr>aspectMask = VK_IMAGE_ASPECT_DEPTH_BIT OR VK_IMAGE_ASPECT_STENCIL_BIT, baseMipLevel = 0, levelCount = 1,
        baseArrayLayer = 0, layerCount = 1\<rparr>\<rparr>"

lemma tri_depth_run: "tri_setupDepthStencil = depth_run own_memory tri_view_info"
proof
  fix E
  have "getMemoryTypeIndex E tb p = getMemoryType (own_memory E) tb p" for tb p
    by (rule type_index_eq) (simp add: own_memory_def)
  then show "tri_setupDepthStencil E = depth_run own_memory tri_view_info E"
    by (simp add: tri_setupDepthStencil_def depth_run_def tri_view_info_def)
qed

lemma tri_sets_up_depth: "sets_up_depth tri_setupDepthStencil"
  unfolding tri_depth_run by (rule depth_run_sets_up) (simp add: tri_view_info_def)

section \<open>Fences\<close>

definition draw_calls :: "triangle \<Rightarrow> u32 \<Rightarrow> vk_call list" where
  "draw_calls T i =
     (let E = base T; fence = tri_waitFences T ! unat i
      in [AcquireNextImage (sc_device (chain E)) (swapChain (chain E)) UINT64_MAX (presentCompleteSemaphore T),
          WaitForFences (ex_device E) fence UINT64_MAX, ResetFences (ex_device E) fence,
          QueueSubmit (queue E) [presentCompleteSemaphore T] [drawCmdBuffers E ! unat i] [renderCompleteSemaphore T] fence,
          QueuePresent (queue E) (swapChain (chain E)) i
            (if renderCompleteSemaphore T \<noteq> VK_NULL_HANDLE then Some (renderCompleteSemaphore T) else None)])"

lemma draw_calls_length: "length (draw_calls T i) = 5"
  by (simp add: draw_calls_def Let_def)

lemma tri_draw_events:
  assumes "tri_draw T d lg = Inr (T', lg')"
  obtains i es where "T' = T\<lparr>base := (base T)\<lparr>currentBuffer := i\<rparr>\<rparr>" and "lg' = lg @ es"
    and "unat i < length (tri_waitFences T)" and "unat i < length (drawCmdBuffers (base T))"
    and "map fst es = draw_calls T i" and "\<forall>e \<in> set es. fst (snd e) = VK_SUCCESS"
proof -
  let ?c = "AcquireNextImage (sc_device (chain (base T))) (swapChain (chain (base T))) UINT64_MAX (presentCompleteSemaphore T)"
  let ?i = "count_of d lg ?c"
  have r: "T' = T\<lparr>base := (base T)\<lparr>currentBuffer := ?i\<rparr>\<rparr> \<and> unat ?i < length (tri_waitFences T) \<and>
      unat ?i < length (drawCmdBuffers (base T)) \<and>
      (\<exists>es. lg' = lg @ es \<and> map fst es = draw_calls T ?i \<and> (\<forall>e \<in> set es. fst (snd e) = VK_SUCCESS))"
    using assms
    by (auto simp: tri_draw_def acquireNextImage_def queuePresent_def check_result_def bindV_eq_Inr run_simps check_eq assert_eq
        index_eq Let_def draw_calls_def split: if_splits)
  then obtain es where "lg' = lg @ es" "map fst es = draw_calls T ?i" "\<forall>e \<in> set es. fst (snd e) = VK_SUCCESS" by blast
  with r show thesis by (intro that [of ?i es]) simp_all
qed

text \<open>Frames after frames: only the current buffer changes, so the calls are those of the first triangle.\<close>

lemma draw_calls_current: "draw_calls (T\<lparr>base := (base T)\<lparr>currentBuffer := i\<rparr>\<rparr>) j = draw_calls T j"
  by (simp add: draw_calls_def Let_def)

definition valid_frame :: "triangle \<Rightarrow> u32 \<Rightarrow> bool" where
  "valid_frame T i = (unat i < length (tri_waitFences T) \<and> unat i < length (drawCmdBuffers (base T)))"

lemma renders_events:
  assumes "render_times (triangle_virtuals mats) n T d lg = Inr (T', lg')" and "prepared (base T)"
  shows "\<exists>ims es. lg' = lg @ es \<and> length ims = n \<and> (\<forall>i \<in> set ims. valid_frame T i) \<and>
    map fst es = concat (map (draw_calls T) ims) \<and> (\<forall>e \<in> set es. fst (snd e) = VK_SUCCESS)"
  using assms
proof (induction n arbitrary: T lg)
  case 0
  then show ?case by (simp add: run_simps)
next
  case (Suc n)
  then obtain T1 lg1 where 1: "tri_draw T d lg = Inr (T1, lg1)" and 2: "render_times (triangle_virtuals mats) n T1 d lg1 = Inr (T', lg')"
    by (auto simp: triangle_virtuals_def tri_render_def bindV_eq_Inr)
  obtain i es where i: "T1 = T\<lparr>base := (base T)\<lparr>currentBuffer := i\<rparr>\<rparr>" "lg1 = lg @ es" "unat i < length (tri_waitFences T)"
      "unat i < length (drawCmdBuffers (base T))" "map fst es = draw_calls T i" "\<forall>e \<in> set es. fst (snd e) = VK_SUCCESS"
    by (rule tri_draw_events [OF 1])
  have "prepared (base T1)" using Suc.prems(2) i(1) by simp
  from Suc.IH [OF 2 this] obtain ims fs where ims: "lg' = lg1 @ fs" "length ims = n" "\<forall>j \<in> set ims. valid_frame T1 j"
      "map fst fs = concat (map (draw_calls T1) ims)" "\<forall>e \<in> set fs. fst (snd e) = VK_SUCCESS" by blast
  have v: "valid_frame T j \<longleftrightarrow> valid_frame T1 j" "draw_calls T j = draw_calls T1 j" for j
    by (simp_all add: i(1) valid_frame_def draw_calls_def Let_def)
  have dc: "draw_calls T = draw_calls T1" using v(2) by (intro ext)
  have vi: "valid_frame T i" using i(3,4) by (simp add: valid_frame_def)
  have "lg' = lg @ (es @ fs) \<and> length (i # ims) = Suc n \<and> (\<forall>j \<in> set (i # ims). valid_frame T j) \<and>
      map fst (es @ fs) = concat (map (draw_calls T) (i # ims)) \<and> (\<forall>e \<in> set (es @ fs). fst (snd e) = VK_SUCCESS)"
  proof (intro conjI)
    show "\<forall>j \<in> set (i # ims). valid_frame T j" using vi ims(3) v(1) by simp
    show "map fst (es @ fs) = concat (map (draw_calls T) (i # ims))" using i(5) ims(4) by (simp add: dc)
  qed (use i ims in auto)
  then show ?case by blast
qed

lemma concat_blocks_nth:
  assumes "\<And>x. length (g x) = m" and "0 < m" and "k < length (concat (map g xs))"
  shows "k div m < length xs \<and> concat (map g xs) ! k = g (xs ! (k div m)) ! (k mod m)"
  using assms(3)
proof (induction xs arbitrary: k)
  case (Cons x xs)
  show ?case
  proof (cases "k < m")
    case True
    then show ?thesis using assms(1) by (simp add: nth_append)
  next
    case False
    then have "k - m < length (concat (map g xs))" using Cons.prems assms(1) by simp
    from Cons.IH [OF this] have ih: "(k - m) div m < length xs"
        "concat (map g xs) ! (k - m) = g (xs ! ((k - m) div m)) ! ((k - m) mod m)" by blast+
    have "k div m = Suc ((k - m) div m)" "k mod m = (k - m) mod m"
      using False assms(2) by (simp_all add: le_div_geq le_mod_geq)
    then show ?thesis using ih False assms(1) by (simp add: nth_append)
  qed
qed simp

text \<open>
  C13. No frame reuses what the device may still be working on. However many frames are drawn, every submission
  is preceded, directly, by a successful wait for its fence and the reset of that fence, and before them the
  acquisition of an image with the semaphore the submission waits for; it submits the one command buffer that
  belongs to that fence; and the presentation that follows waits for the semaphore it signals.
\<close>

theorem frames_wait_for_fence:
  assumes "render_times (triangle_virtuals mats) n T d lg = Inr (T', lg @ es)" and "prepared (base T)"
    and "k < length es" and "fst (es ! k) = QueueSubmit q ws cs ss f"
  shows "3 \<le> k \<and> Suc k < length es \<and>
    (\<exists>i. valid_frame T i \<and> f = tri_waitFences T ! unat i \<and> cs = [drawCmdBuffers (base T) ! unat i] \<and>
      fst (es ! (k - 2)) = WaitForFences (tri_device T) f UINT64_MAX \<and> fst (snd (es ! (k - 2))) = VK_SUCCESS \<and>
      fst (es ! (k - 1)) = ResetFences (tri_device T) f \<and> ws = [presentCompleteSemaphore T] \<and>
      fst (es ! (k - 3)) = AcquireNextImage (sc_device (chain (base T))) (swapChain (chain (base T))) UINT64_MAX (presentCompleteSemaphore T) \<and>
      fst (es ! Suc k) = QueuePresent (queue (base T)) (swapChain (chain (base T))) i
        (if renderCompleteSemaphore T \<noteq> VK_NULL_HANDLE then Some (renderCompleteSemaphore T) else None))"
proof -
  obtain ims where r: "\<forall>i \<in> set ims. valid_frame T i" "map fst es = concat (map (draw_calls T) ims)"
      "\<forall>e \<in> set es. fst (snd e) = VK_SUCCESS"
    using renders_events [OF assms(1,2)] by auto
  have len: "length es = 5 * length ims"
  proof -
    have "length es = length (concat (map (draw_calls T) ims))" using r(2) by (metis length_map)
    also have "\<dots> = 5 * length ims" by (induction ims) (simp_all add: draw_calls_length)
    finally show ?thesis .
  qed
  have at: "j div 5 < length ims \<and> fst (es ! j) = draw_calls T (ims ! (j div 5)) ! (j mod 5)" if "j < length es" for j
    using concat_blocks_nth [of "draw_calls T" 5 j ims] that r(2) by (metis length_map nth_map draw_calls_length zero_less_numeral)
  define b where "b = k div 5"
  let ?i = "ims ! b"
  have "draw_calls T ?i ! (k mod 5) = QueueSubmit q ws cs ss f" using at [OF assms(3)] assms(4) by (simp add: b_def)
  moreover have "k mod 5 = 0 \<or> k mod 5 = 1 \<or> k mod 5 = 2 \<or> k mod 5 = 3 \<or> k mod 5 = 4" by presburger
  ultimately have m: "k mod 5 = 3" and c: "QueueSubmit q ws cs ss f = draw_calls T ?i ! 3"
    by (auto simp: draw_calls_def Let_def)
  then have k: "k = 5 * b + 3" unfolding b_def by presburger
  have b: "b < length ims" using at [OF assms(3)] by (simp add: b_def)
  have j: "fst (es ! (5 * b + r)) = draw_calls T ?i ! r" if "r < 5" for r
  proof -
    have "5 * b + r < length es" using b that len by linarith
    from at [OF this] show ?thesis using that by simp
  qed
  have "valid_frame T ?i" using r(1) b by simp
  moreover have "fst (es ! (k - 3)) = draw_calls T ?i ! 0" "fst (es ! (k - 2)) = draw_calls T ?i ! 1"
      "fst (es ! (k - 1)) = draw_calls T ?i ! 2" "fst (es ! Suc k) = draw_calls T ?i ! 4"
    using j [of 0] j [of 1] j [of 2] j [of 4] k by (simp_all add: add.commute [of 4])
  moreover have "3 \<le> k" "Suc k < length es" using k b len by linarith+
  moreover have "fst (snd (es ! (k - 2))) = VK_SUCCESS" using r(3) assms(3) by simp
  ultimately show ?thesis using c by (intro conjI exI [of _ ?i]) (simp_all add: draw_calls_def Let_def)
qed

section \<open>Outdated surfaces\<close>

text \<open>
  Where the base class rebuilds the swap chain, the triangle stops: an acquisition that reports an outdated
  or only suboptimal surface aborts the program in the check of the result, before any other call.
\<close>

theorem triangle_aborts_when_outdated:
  assumes "prepared (base T)"
    and "c = AcquireNextImage (sc_device (chain (base T))) (swapChain (chain (base T))) UINT64_MAX (presentCompleteSemaphore T)"
    and "result_of d lg c = VK_ERROR_OUT_OF_DATE_KHR \<or> result_of d lg c = VK_SUBOPTIMAL_KHR"
  shows "tri_render T d lg = Inl (Abort, lg @ [(c, result_of d lg c, handle_of d lg c)])"
  using assms by (auto simp: tri_render_def tri_draw_def acquireNextImage_def check_result_def bindV_def run_simps assert_eq Let_def)

section \<open>A resize\<close>

lemma triangle_resize:
  assumes "prepared E"
  shows "gives (windowResize H E) (\<lambda>E'. prepared E' \<and> length (drawCmdBuffers E') = unat (imageCount (chain E')))"
proof -
  have commands: "gives (renew_commands H E) (\<lambda>E'. length (drawCmdBuffers E') = unat (imageCount (chain E')))" for E
    unfolding renew_commands_def createCommandBuffers_def Let_def
    by (rule gives_then, rule gives_then, rule gives_bind [where P = "\<lambda>E'. length (drawCmdBuffers E') = unat (imageCount (chain E'))"])
      (intro gives_bind_any gives_then, simp_all add: gives_ret gives_then)
  have "gives (bindV (renew_commands H E1) (\<lambda>E2. retV (E2\<lparr>prepared := True\<rparr>)))
      (\<lambda>E'. prepared E' \<and> length (drawCmdBuffers E') = unat (imageCount (chain E')))" for E1
    by (rule gives_bind [OF commands]) (simp add: gives_ret)
  then show ?thesis using assms by (simp add: windowResize_def gives_bind_any)
qed

text \<open>
  C36. The fences do not follow the swap chain. A resize of the window leaves the triangle with a command buffer for
  every image of the new swap chain but with the fences of the first one, and a frame that then acquires an
  image beyond them reads behind the vector of fences.
\<close>

theorem triangle_fences_left_behind:
  assumes "configure (triangle_virtuals mats) w h T d lg = Inr (T1, lg1)"
    and "prepared (base T)" and "w \<noteq> width (base T)" and "0 < w" and "0 < h"
    and "c = AcquireNextImage (sc_device (chain (base T1))) (swapChain (chain (base T1))) UINT64_MAX (presentCompleteSemaphore T1)"
    and "result_of d lg1 c = VK_SUCCESS" and "length (tri_waitFences T) \<le> unat (count_of d lg1 c)"
  shows "length (drawCmdBuffers (base T1)) = unat (imageCount (chain (base T1))) \<and> tri_waitFences T1 = tri_waitFences T \<and>
    tri_render T1 d lg1 = Inl (BadIndex, lg1 @ [(c, VK_SUCCESS, handle_of d lg1 c)])"
proof -
  let ?E = "(base T)\<lparr>destWidth := w, destHeight := h\<rparr>"
  let ?T = "T\<lparr>base := ?E\<rparr>"
  have "gives (on_base (windowResize (hooks_at (triangle_virtuals mats) ?T)) ?T)
      (\<lambda>T1. prepared (base T1) \<and> length (drawCmdBuffers (base T1)) = unat (imageCount (chain (base T1))) \<and>
        tri_waitFences T1 = tri_waitFences T)"
    unfolding on_base_def base_of
    by (rule gives_bind [OF triangle_resize]) (use assms(2) in \<open>simp_all add: gives_ret\<close>)
  moreover have "on_base (windowResize (hooks_at (triangle_virtuals mats) ?T)) ?T d lg = Inr (T1, lg1)"
    using assms(1-5) by (simp add: configure_def Let_def)
  ultimately have T1: "prepared (base T1)" "length (drawCmdBuffers (base T1)) = unat (imageCount (chain (base T1)))"
      "tri_waitFences T1 = tri_waitFences T" by (blast dest: gives_D)+
  have "tri_render T1 d lg1 = Inl (BadIndex, lg1 @ [(c, VK_SUCCESS, handle_of d lg1 c)])"
    using T1(1,3) assms(6-8)
    by (simp add: tri_render_def tri_draw_def acquireNextImage_def check_result_def bindV_def run_simps assert_eq index_eq Let_def)
  then show ?thesis using T1(2,3) by blast
qed

section \<open>A run\<close>

text \<open>A triangle on the device of the examples, whose memory properties it has read.\<close>

definition demo_matrices :: matrices where
  "demo_matrices = (\<lambda>w h ms. replicate 192 0)"

definition demo_triangle :: triangle where
  "demo_triangle = app.extend (demo_app\<lparr>base := (base demo_app)\<lparr>memoryProperties := (3, [1, 6, 7]), drawCmdBuffers := [5, 6, 9]\<rparr>\<rparr>)
     (triangle.fields \<lparr>mb_memory = 51, mb_buffer = 53\<rparr> \<lparr>mb_memory = 55, mb_buffer = 57\<rparr> 3 \<lparr>mb_memory = 59, mb_buffer = 61\<rparr>
        \<lparr>d_buffer = 61, d_offset = 0, d_range = 192\<rparr> 63 65 67 69 71 73 [75, 77, 79])"

lemma demo_triangle_simps [simp]:
  "base demo_triangle = demo_example\<lparr>overlay := False, memoryProperties := (3, [1, 6, 7]), drawCmdBuffers := [5, 6, 9]\<rparr>"
  "tri_waitFences demo_triangle = [75, 77, 79]"
  "presentCompleteSemaphore demo_triangle = 71" "renderCompleteSemaphore demo_triangle = 73"
  "tri_uniform demo_triangle = \<lparr>mb_memory = 59, mb_buffer = 61\<rparr>"
  by (simp_all add: demo_triangle_def demo_app_def app.defs triangle.defs)

lemma demo_draw:
  assumes "tri_waitFences T = [75, 77, 79]" and "drawCmdBuffers (base T) = [5, 6, 9]"
  shows "\<exists>es. tri_draw T demo_driver lg = Inr (T\<lparr>base := (base T)\<lparr>currentBuffer := 2\<rparr>\<rparr>, lg @ es) \<and> length es = 5 \<and>
    fst (es ! 3) = QueueSubmit (queue (base T)) [presentCompleteSemaphore T] [9] [renderCompleteSemaphore T] 79"
  using assms
  by (simp add: tri_draw_def acquireNextImage_def queuePresent_def check_result_def bindV_def run_simps check_eq assert_eq index_eq
      Let_def demo_driver_def)

theorem frames_wait_for_fence_witness:
  "\<exists>T' es. render_times (triangle_virtuals demo_matrices) 2 demo_triangle demo_driver [] = Inr (T', es) \<and>
    fst (es ! 8) = QueueSubmit 3 [71] [9] [73] 79 \<and> fst (es ! 6) = WaitForFences 2 79 UINT64_MAX \<and>
    fst (snd (es ! 6)) = VK_SUCCESS \<and> fst (es ! 7) = ResetFences 2 79"
proof -
  let ?T1 = "demo_triangle\<lparr>base := (base demo_triangle)\<lparr>currentBuffer := 2\<rparr>\<rparr>"
  let ?T2 = "?T1\<lparr>base := (base ?T1)\<lparr>currentBuffer := 2\<rparr>\<rparr>"
  obtain es where 1: "tri_draw demo_triangle demo_driver [] = Inr (?T1, [] @ es)" "length es = 5"
    using demo_draw [of demo_triangle "[]"] by auto
  obtain fs where 2: "tri_draw ?T1 demo_driver es = Inr (?T2, es @ fs)" "length fs = 5"
      "fst (fs ! 3) = QueueSubmit 3 [71] [9] [73] 79"
    using demo_draw [of ?T1 es] by (auto simp: demo_example_def)
  have p: "prepared (base demo_triangle)" "prepared (base ?T1)" by (simp_all add: demo_example_def)
  have r: "render_times (triangle_virtuals demo_matrices) 2 demo_triangle demo_driver [] = Inr (?T2, [] @ (es @ fs))"
    using 1(1) 2(1) p by (simp add: numeral_2_eq_2 triangle_virtuals_def tri_render_def bindV_def run_simps)
  have k: "8 < length (es @ fs)" "fst ((es @ fs) ! 8) = QueueSubmit 3 [71] [9] [73] 79"
    using 1(2) 2(2,3) by (simp_all add: nth_append)
  from frames_wait_for_fence [OF r p(1) k]
  have "fst ((es @ fs) ! 6) = WaitForFences 2 79 UINT64_MAX \<and> fst (snd ((es @ fs) ! 6)) = VK_SUCCESS \<and> fst ((es @ fs) ! 7) = ResetFences 2 79"
    by (auto simp: demo_example_def)
  then show ?thesis using r k(2) by auto
qed

theorem triangle_aborts_when_outdated_witness:
  "tri_render demo_triangle stale_driver [] =
    Inl (Abort, [(AcquireNextImage 2 13 UINT64_MAX 71, VK_ERROR_OUT_OF_DATE_KHR, 11)])"
  using triangle_aborts_when_outdated [of demo_triangle "AcquireNextImage 2 13 UINT64_MAX 71" stale_driver "[]"]
  by (simp add: demo_example_def demo_chain_def stale_driver_def demo_driver_def)

text \<open>A resize of the triangle comes back.\<close>

lemma finishes_tri_build:
  assumes "successful d" and "length (drawCmdBuffers (base T)) \<le> length (frameBuffers (base T))"
  shows "finishes d (tri_buildCommandBuffers T) (\<lambda>_. True)"
  unfolding tri_buildCommandBuffers_def Let_def
proof (rule finishes_for, rule finishes_bind [OF finishes_index])
  fix i assume "i \<in> set [0 ..< length (drawCmdBuffers (base T))]"
  then show "i < length (frameBuffers (base T))" using assms(2) by simp
qed (intro finishes_bind [OF finishes_check [OF assms(1)]] finishes_then finishes_for finishes_do finishes_ret, simp_all)

lemma finishes_tri_matrices:
  assumes "successful d" and "nonnull d"
  shows "finishes d (tri_updateUniformBuffers mats T) (\<lambda>_. True)"
  unfolding tri_updateUniformBuffers_def
proof (rule finishes_bind)
  show "finishes d (VK_CHECK_RESULT (MapMemory (tri_device T) (mb_memory (tri_uniform T)) 0 SIZEOF_uboVS)) (\<lambda>p. p \<noteq> 0)"
    using assms by (simp add: finishes_def check_eq successful_def nonnull_def)
qed (auto simp: host_write_def intro!: finishes_then finishes_do finishes_ret)

text \<open>The functions that a resize calls come back, and make and free nothing of the window.\<close>

lemma tri_hooks_return:
  assumes "successful d" and "nonnull d"
  shows "hooks_return d (hooks_at (triangle_virtuals mats) T)"
  using assms
  by (auto simp: hooks_return_def hooks_at_def triangle_virtuals_def tri_depth_run memory_ready_def
      intro!: finishes_depth_run finishes_tri_build finishes_tri_matrices finishes_ret)

lemma tri_hooks_quiet: "hooks_quiet (hooks_at (triangle_virtuals mats) T)"
proof -
  have "quiet (tri_buildCommandBuffers T')" "quiet (tri_updateUniformBuffers mats T')" for T'
    unfolding quiet_def tri_buildCommandBuffers_def tri_updateUniformBuffers_def host_write_def Let_def
    by (intro only_intros; simp)+
  then show ?thesis
    by (simp add: hooks_quiet_def hooks_at_def triangle_virtuals_def tri_sets_up_depth tri_frames_eq)
qed

lemma finishes_tri_configure:
  assumes "successful d" and "nonnull d" and "memory_ready d (base T)"
    and "swapChain (chain (base T)) \<noteq> VK_NULL_HANDLE \<longrightarrow> unat (imageCount (chain (base T))) \<le> length (buffers (chain (base T)))"
  shows "finishes d (configure (triangle_virtuals mats) w h T) (\<lambda>_. True)"
proof -
  let ?E = "(base T)\<lparr>destWidth := w, destHeight := h\<rparr>"
  let ?T = "T\<lparr>base := ?E\<rparr>"
  have "finishes d (windowResize (hooks_at (triangle_virtuals mats) ?T) ?E) (\<lambda>E'. prepared E' \<and> enough d (chain E'))" if "prepared (base T)"
    using assms(3,4) that by (intro finishes_windowResize tri_hooks_return tri_hooks_quiet assms(1,2))
      (simp_all add: memory_ready_def own_memory_def)
  then have "finishes d (on_base (windowResize (hooks_at (triangle_virtuals mats) ?T)) ?T) (\<lambda>_. True)" if "prepared (base T)"
    unfolding on_base_def base_of using that by (intro finishes_bind [where P = "\<lambda>_. True"]) (auto intro: finishes_ret finishes_weaken)
  then show ?thesis unfolding configure_def Let_def by (auto intro: finishes_ret)
qed

theorem triangle_fences_left_behind_witness:
  "\<exists>T1 lg1. configure (triangle_virtuals demo_matrices) 320 200 (demo_triangle\<lparr>tri_waitFences := [75]\<rparr>) demo_driver [] = Inr (T1, lg1) \<and>
    tri_waitFences T1 = [75] \<and> (\<exists>lg2. tri_render T1 demo_driver lg1 = Inl (BadIndex, lg2))"
proof -
  let ?T = "demo_triangle\<lparr>tri_waitFences := [75]\<rparr>"
  have "memory_ready demo_driver (base ?T)" by (rule own_demo_offers) (simp_all add: demo_example_def)
  moreover have "swapChain (chain (base ?T)) \<noteq> VK_NULL_HANDLE \<longrightarrow> unat (imageCount (chain (base ?T))) \<le> length (buffers (chain (base ?T)))"
    by (simp add: demo_example_def)
  ultimately have "finishes demo_driver (configure (triangle_virtuals demo_matrices) 320 200 ?T) (\<lambda>_. True)"
    by (rule finishes_tri_configure [OF demo_successful nonnull_demo])
  then obtain T1 lg1 where r: "configure (triangle_virtuals demo_matrices) 320 200 ?T demo_driver [] = Inr (T1, lg1)"
    unfolding finishes_def by blast
  have "length (drawCmdBuffers (base T1)) = unat (imageCount (chain (base T1))) \<and> tri_waitFences T1 = tri_waitFences ?T \<and>
      tri_render T1 demo_driver lg1 = Inl (BadIndex, lg1 @ [(AcquireNextImage (sc_device (chain (base T1))) (swapChain (chain (base T1)))
        UINT64_MAX (presentCompleteSemaphore T1), VK_SUCCESS, handle_of demo_driver lg1 (AcquireNextImage (sc_device (chain (base T1)))
        (swapChain (chain (base T1))) UINT64_MAX (presentCompleteSemaphore T1)))])"
    by (rule triangle_fences_left_behind [OF r]) (simp_all add: demo_example_def demo_driver_def)
  then show ?thesis using r by auto
qed

end
