(* ===== verification/VkDynamicRun.thy ===== *)
theory VkDynamicRun
  imports VkDynamic VkTriangleRun
begin

text \<open>
  The matrices of the cubes: where they are written, where the command buffers look for them, and where the sizes and
  ranges that the code uses do not fit.
\<close>

section \<open>Alignment\<close>

text \<open>What Vulkan promises of the limit: a power of two. The bound is far above every device's.\<close>

definition ubo_alignment :: "u64 \<Rightarrow> bool" where
  "ubo_alignment a = (a = 0 \<or> (\<exists>k \<le> 20. a = 2 ^ k))"

lemma align_ubo_power:
  assumes "k \<le> 20"
  shows "align_ubo (2 ^ k) = (if k \<le> 6 then 64 else 2 ^ k)"
proof -
  have "k \<in> set [0 ..< 21]" using assms by simp
  then show ?thesis by (auto simp: align_ubo_def upt_rec)
qed

lemma power_words:
  assumes "k \<le> 20"
  shows "unat (2 ^ k :: u64) = 2 ^ k" and "(ucast (2 ^ k :: u64) :: u32) = of_nat (2 ^ k)"
proof -
  have "k \<in> set [0 ..< 21]" using assms by simp
  then show "unat (2 ^ k :: u64) = 2 ^ k" "(ucast (2 ^ k :: u64) :: u32) = of_nat (2 ^ k)" by (auto simp: upt_rec)
qed

lemma align_ubo_cases:
  assumes "ubo_alignment a"
  obtains m where "align_ubo a = 2 ^ m" and "6 \<le> m" and "m \<le> 20" and "unat a dvd 2 ^ m \<or> a = 0"
proof (cases "a = 0")
  case True
  then show thesis by (intro that [of 6]) (simp_all add: align_ubo_def)
next
  case False
  then obtain k where k: "k \<le> 20" "a = 2 ^ k" using assms by (auto simp: ubo_alignment_def)
  have u: "unat a = 2 ^ k" using power_words(1) [OF k(1)] k(2) by simp
  show thesis
  proof (cases "k \<le> 6")
    case True
    then have "(2 :: nat) ^ k dvd 2 ^ 6" by (rule le_imp_power_dvd)
    then show thesis using align_ubo_power [OF k(1)] k u True by (intro that [of 6]) simp_all
  next
    case False
    then show thesis using align_ubo_power [OF k(1)] k u by (intro that [of k]) simp_all
  qed
qed

lemma dynamic_offset_nat:
  assumes "dynamicAlignment T = 2 ^ m" and "m \<le> 20" and "j < OBJECT_INSTANCES"
  shows "unat (dynamic_offset T j) = j * 2 ^ m"
proof -
  have "j * 2 ^ m < 2 ^ 7 * 2 ^ 20" using assms(2,3) by (intro mult_less_le_imp_less power_increasing) simp_all
  then have lt: "j * 2 ^ m < 2 ^ 32" by simp
  have "dynamic_offset T j = of_nat (j * 2 ^ m)"
    using assms(1) power_words(2) [OF assms(2)] by (simp add: dynamic_offset_def)
  then show ?thesis using lt by (intro of_nat_inverse) simp_all
qed

lemma object_indices_all: "object_indices = [0 ..< OBJECT_INSTANCES]"
  by (simp add: object_indices_def dim_def upt_rec)

section \<open>Storing the matrices\<close>

lemma blocks_apart:
  fixes s :: nat
  assumes "i \<noteq> j" and "64 \<le> s"
  shows "i * s + 64 \<le> j * s \<or> j * s + 64 \<le> i * s"
proof (cases "i < j")
  case True
  then have "Suc i * s \<le> j * s" by (intro mult_le_mono1) simp
  then show ?thesis using assms(2) by simp
next
  case False
  then have "Suc j * s \<le> i * s" using assms(1) by (intro mult_le_mono1) simp
  then show ?thesis using assms(2) by simp
qed

lemma slice_stored:
  assumes "o1 + 64 \<le> length block" and "length m = 64"
  shows "take 64 (drop o1 (take o1 block @ m @ drop (o1 + 64) block)) = m"
    and "o2 + 64 \<le> length block \<Longrightarrow> o2 + 64 \<le> o1 \<or> o1 + 64 \<le> o2 \<Longrightarrow>
      take 64 (drop o2 (take o1 block @ m @ drop (o1 + 64) block)) = take 64 (drop o2 block)"
proof -
  show "take 64 (drop o1 (take o1 block @ m @ drop (o1 + 64) block)) = m" using assms by simp
  assume o2: "o2 + 64 \<le> length block" and apart: "o2 + 64 \<le> o1 \<or> o1 + 64 \<le> o2"
  show "take 64 (drop o2 (take o1 block @ m @ drop (o1 + 64) block)) = take 64 (drop o2 block)"
    by (rule nth_equalityI) (use assms o2 apart in \<open>auto simp: nth_append\<close>)
qed

lemma store_objects_spec:
  assumes "length block = OBJECT_INSTANCES * s" and "64 \<le> s" and "\<And>i. length (m i) = 64"
    and "\<forall>i \<in> set js. i < OBJECT_INSTANCES \<and> unat (of_nat i * al) = i * s"
  shows "\<exists>block'. store_objects m al js block d lg = Inr (block', lg) \<and> length block' = length block \<and>
    (\<forall>i < OBJECT_INSTANCES. take 64 (drop (i * s) block') = (if i \<in> set js then m i else take 64 (drop (i * s) block)))"
  using assms(1,4)
proof (induction js arbitrary: block)
  case Nil
  then show ?case by (simp add: run_simps)
next
  case (Cons j js)
  have inside: "i * s + 64 \<le> length block" if "i < OBJECT_INSTANCES" for i
  proof -
    have "Suc i * s \<le> OBJECT_INSTANCES * s" using that by (intro mult_le_mono1) simp
    then have "i * s + s \<le> length block" unfolding Cons.prems(1) by (simp only: mult_Suc add.commute)
    then show ?thesis using assms(2) by linarith
  qed
  have j: "j < OBJECT_INSTANCES" "unat (of_nat j * al) = j * s" using Cons.prems(2) by simp_all
  define b where "b = take (j * s) block @ m j @ drop (j * s + 64) block"
  have len: "length b = length block" using inside [OF j(1)] assms(3) by (simp add: b_def)
  then have "length b = OBJECT_INSTANCES * s" using Cons.prems(1) by simp
  from Cons.IH [OF this] obtain block' where r: "store_objects m al js b d lg = Inr (block', lg)" "length block' = length b"
      "\<forall>i < OBJECT_INSTANCES. take 64 (drop (i * s) block') = (if i \<in> set js then m i else take 64 (drop (i * s) b))"
    using Cons.prems(2) by auto
  have st: "store_matrix block (unat (of_nat j * al)) (m j) = retV b"
    using inside [OF j(1)] assms(3) by (simp add: store_matrix_def j(2) b_def)
  have "store_objects m al (j # js) block d lg = Inr (block', lg)"
    using r(1) unfolding store_objects.simps st by (simp add: bindV_def run_simps)
  moreover have "take 64 (drop (i * s) b) = (if i = j then m j else take 64 (drop (i * s) block))" if i: "i < OBJECT_INSTANCES" for i
    unfolding b_def using slice_stored(1) [OF inside [OF j(1)] assms(3)] slice_stored(2) [OF inside [OF j(1)] assms(3) inside [OF i]]
      blocks_apart [OF _ assms(2), of i j] by auto
  ultimately show ?case using r(2,3) len by (intro exI [of _ block']) auto
qed

text \<open>One update, forced: the matrices are stored, and then as many bytes are copied as the buffer has.\<close>

lemma update_stores:
  assumes "ubo_alignment a" and "dynamicAlignment T = align_ubo a" and "dy_model T = Some block"
    and "length block = OBJECT_INSTANCES * unat (align_ubo a)" and "\<forall>n i. length (mats n i) = 64"
  obtains block' where "store_objects (mats (dy_updates T)) (dynamicAlignment T) object_indices block d lg = Inr (block', lg)"
    and "length block' = length block"
    and "\<forall>j < OBJECT_INSTANCES. take 64 (drop (unat (dynamic_offset T j)) block') = mats (dy_updates T) j \<and>
      unat (dynamic_offset T j) + 64 \<le> length block \<and> (a = 0 \<or> unat a dvd unat (dynamic_offset T j))"
proof -
  obtain m where m: "align_ubo a = 2 ^ m" "6 \<le> m" "m \<le> 20" "unat a dvd 2 ^ m \<or> a = 0" by (rule align_ubo_cases [OF assms(1)])
  have s: "(64 :: nat) \<le> 2 ^ m" using power_increasing [OF m(2), of "2 :: nat"] by simp
  have off: "unat (dynamic_offset T j) = j * 2 ^ m" if "j < OBJECT_INSTANCES" for j
    using dynamic_offset_nat [of T m j] assms(2) m that by simp
  have len: "length block = OBJECT_INSTANCES * 2 ^ m" using assms(4) power_words(1) [OF m(3)] m(1) by simp
  have idx: "unat (of_nat j * (2 ^ m) :: u64) = j * 2 ^ m" if "j < OBJECT_INSTANCES" for j
  proof -
    have "j * 2 ^ m < 2 ^ 7 * 2 ^ 20" using that m(3) by (intro mult_less_le_imp_less power_increasing) simp_all
    then have lt: "j * 2 ^ m < 2 ^ LENGTH(64)" by simp
    have "of_nat j * (2 ^ m :: u64) = of_nat (j * 2 ^ m)" by simp
    then show ?thesis using lt by (intro of_nat_inverse) simp_all
  qed
  obtain block' where b: "store_objects (mats (dy_updates T)) (dynamicAlignment T) object_indices block d lg = Inr (block', lg)"
      "length block' = length block"
      "\<forall>i < OBJECT_INSTANCES. take 64 (drop (i * 2 ^ m) block') =
        (if i \<in> set object_indices then mats (dy_updates T) i else take 64 (drop (i * 2 ^ m) block))"
    using store_objects_spec [OF len s, of "mats (dy_updates T)" object_indices "dynamicAlignment T" d lg] assms(2,5) idx m(1)
    by (auto simp: object_indices_all)
  show thesis
  proof (rule that [OF b(1,2)], intro allI impI conjI)
    fix j assume j: "j < OBJECT_INSTANCES"
    show "take 64 (drop (unat (dynamic_offset T j)) block') = mats (dy_updates T) j"
      using b(3) j off [OF j] by (simp add: object_indices_all)
    have "Suc j * 2 ^ m \<le> OBJECT_INSTANCES * 2 ^ m" using j by (intro mult_le_mono1) simp
    then have "j * 2 ^ m + 2 ^ m \<le> length block" unfolding len by (simp only: mult_Suc add.commute)
    then show "unat (dynamic_offset T j) + 64 \<le> length block" using s off [OF j] by linarith
    show "a = 0 \<or> unat a dvd unat (dynamic_offset T j)" using m(4) off [OF j] by (auto intro: dvd_mult)
  qed
qed

text \<open>
  C14. Every cube finds its matrix. When the device's alignment is a power of two, a block of the size asked for is at hand
  and the buffer is mapped and at least that large, an update does one of two things. If the buffer has just the size of
  the block, it is written in one copy, and at the offset with which the command buffer binds the descriptor for the j-th
  cube lies the j-th matrix, all of it inside the buffer, at a multiple of the alignment. If the driver has rounded the
  size up, the copy reads behind the block, and nothing is written.
\<close>

theorem objects_at_their_offsets:
  assumes "ubo_alignment a" and "dynamicAlignment T = align_ubo a" and "dy_model T = Some block"
    and "length block = OBJECT_INSTANCES * unat (align_ubo a)" and "\<forall>n i. length (mats n i) = 64"
    and "length block \<le> unat (buf_size (dy_dynamic T))" and "buf_mapped (dy_dynamic T) \<noteq> 0"
  shows "if unat (buf_size (dy_dynamic T)) = length block
    then \<exists>T' es w. updateDynamicUniformBuffer mats True T d lg = Inr (T', lg @ es) \<and>
      HostWrite (buf_mapped (dy_dynamic T)) w \<in> fst ` set es \<and> length w = length block \<and>
      (\<forall>j < OBJECT_INSTANCES. take 64 (drop (unat (dynamic_offset T j)) w) = mats (dy_updates T) j \<and>
         unat (dynamic_offset T j) + 64 \<le> length w \<and> (a = 0 \<or> unat a dvd unat (dynamic_offset T j)))
    else updateDynamicUniformBuffer mats True T d lg = Inl (BadIndex, lg)"
proof -
  obtain block' where b: "store_objects (mats (dy_updates T)) (dynamicAlignment T) object_indices block d lg = Inr (block', lg)"
      "length block' = length block"
      "\<forall>j < OBJECT_INSTANCES. take 64 (drop (unat (dynamic_offset T j)) block') = mats (dy_updates T) j \<and>
        unat (dynamic_offset T j) + 64 \<le> length block \<and> (a = 0 \<or> unat a dvd unat (dynamic_offset T j))"
    by (rule update_stores [OF assms(1-5)])
  show ?thesis
  proof (cases "unat (buf_size (dy_dynamic T)) = length block")
    case True
    have "block' \<noteq> []" using b(2,3) by force
    then have "\<exists>T' es. updateDynamicUniformBuffer mats True T d lg = Inr (T', lg @ es) \<and>
        HostWrite (buf_mapped (dy_dynamic T)) block' \<in> fst ` set es"
      using b(1,2) assms(3,7) True
      by (auto simp: updateDynamicUniformBuffer_def host_write_def bindV_def run_simps do_eq Let_def)
    then show ?thesis using b(2,3) True by (simp only: if_True) metis
  next
    case False
    then have "length block' < unat (buf_size (dy_dynamic T))" using assms(6) b(2) by simp
    then have "updateDynamicUniformBuffer mats True T d lg = Inl (BadIndex, lg)"
      using b(1) assms(3) by (simp add: updateDynamicUniformBuffer_def bindV_def run_simps thenV_def Let_def)
    then show ?thesis using False by simp
  qed
qed

text \<open>The example with its buffers in memory, on a device with no alignment requirement.\<close>

definition no_buffer :: vks_buffer where
  "no_buffer = new_buffer 0 \<lparr>d_buffer = 0, d_offset = 0, d_range = 0\<rparr> 0 0"

definition demo_dynamic :: dynamic where
  "demo_dynamic = app.extend demo_app (dynamic.fields ([], []) no_buffer no_buffer 0 no_buffer
     (no_buffer\<lparr>buf_size := 8000, buf_mapped := 81\<rparr>) (Some (replicate 8000 0)) 0 0 0 0 64 [] 0
     \<lparr>waitSemaphores = [], commandBuffers = [], signalSemaphores = []\<rparr>)"

lemma demo_dynamic_simps [simp]:
  "base demo_dynamic = base demo_app" "dynamicAlignment demo_dynamic = 64" "dy_model demo_dynamic = Some (replicate 8000 0)"
  "dy_dynamic demo_dynamic = no_buffer\<lparr>buf_size := 8000, buf_mapped := 81\<rparr>" "dy_updates demo_dynamic = 0"
  by (simp_all add: demo_dynamic_def demo_app_def app.defs dynamic.defs)

definition demo_objects :: object_matrix where
  "demo_objects = (\<lambda>n i. replicate 64 (of_nat i))"

theorem objects_at_their_offsets_witness:
  "\<exists>T' es w. updateDynamicUniformBuffer demo_objects True demo_dynamic demo_driver [] = Inr (T', es) \<and>
     HostWrite 81 w \<in> fst ` set es \<and> length w = 8000 \<and>
     take 64 (drop (unat (dynamic_offset demo_dynamic 124)) w) = replicate 64 124"
proof -
  have "ubo_alignment 0" "\<forall>n i. length (demo_objects n i) = 64" by (simp_all add: ubo_alignment_def demo_objects_def)
  then have "\<exists>T' es w. updateDynamicUniformBuffer demo_objects True demo_dynamic demo_driver [] = Inr (T', [] @ es) \<and>
      HostWrite (buf_mapped (dy_dynamic demo_dynamic)) w \<in> fst ` set es \<and> length w = length (replicate 8000 (0 :: 8 word)) \<and>
      (\<forall>j < OBJECT_INSTANCES. take 64 (drop (unat (dynamic_offset demo_dynamic j)) w) = demo_objects (dy_updates demo_dynamic) j \<and>
         unat (dynamic_offset demo_dynamic j) + 64 \<le> length w \<and>
         ((0 :: u64) = 0 \<or> unat (0 :: u64) dvd unat (dynamic_offset demo_dynamic j)))"
    using objects_at_their_offsets [of 0 demo_dynamic "replicate 8000 0" demo_objects demo_driver "[]"] by (simp add: align_ubo_def)
  then obtain T' es w where "updateDynamicUniformBuffer demo_objects True demo_dynamic demo_driver [] = Inr (T', es)"
      "HostWrite 81 w \<in> fst ` set es" "length w = 8000"
      "\<forall>j < OBJECT_INSTANCES. take 64 (drop (unat (dynamic_offset demo_dynamic j)) w) = demo_objects 0 j" by auto
  moreover from this(4) have "take 64 (drop (unat (dynamic_offset demo_dynamic 124)) w) = demo_objects 0 124" by simp
  ultimately show ?thesis by (auto simp: demo_objects_def)
qed

section \<open>Sizes and ranges\<close>

text \<open>Memory of the device is offered, with some properties, for whatever a resource requires.\<close>

definition offers :: "driver \<Rightarrow> vulkan_device \<Rightarrow> u32 \<Rightarrow> bool" where
  "offers d D p = (memory_ok D \<and> (\<forall>lg c. \<exists>i < unat (memoryTypeCount D). suitable_type D (r_typeBits (reqs_of d lg c)) p i))"

lemma offers_finds:
  assumes "offers d D p"
  shows "\<exists>ti. getMemoryType D (r_typeBits (reqs_of d lg0 c)) p d lg = Inr (ti, lg)"
proof -
  have "find (suitable_type D (r_typeBits (reqs_of d lg0 c)) p) [0 ..< unat (memoryTypeCount D)] \<noteq> None"
    using assms unfolding offers_def find_None_iff by force
  then show ?thesis using memory_type_find assms
    by (auto simp: getMemoryType_def bindV_def run_simps offers_def)
qed

lemma offers_weaker:
  assumes "offers d D (p OR q)"
  shows "offers d D p"
proof -
  have "m AND p = p" if m: "m AND (p OR q) = p OR q" for m :: u32
  proof (rule bit_word_eqI)
    fix n assume "n < LENGTH(32)"
    from m have "bit (m AND (p OR q)) n = bit (p OR q) n" by simp
    then show "bit (m AND p) n = bit p n" by (auto simp: bit_simps)
  qed
  then show ?thesis using assms unfolding offers_def suitable_type_def by blast
qed

text \<open>What creating and mapping a buffer of the device class comes to when the driver plays along.\<close>

lemma create_run:
  assumes "successful d" and "offers d D p"
  shows "\<exists>B' h es. checked (createBuffer D u p B sz None) d lg = Inr (B', lg @ es) \<and> buf_buffer B' = h \<and>
    buf_device B' = logicalDevice D \<and> (CreateBuffer (logicalDevice D) (bufferCreateInfo u sz), VK_SUCCESS, h) \<in> set es \<and>
    buf_size B' = r_size (reqs_of d (lg @ [(CreateBuffer (logicalDevice D) (bufferCreateInfo u sz), VK_SUCCESS, h)])
      (GetBufferMemoryRequirements (logicalDevice D) h))"
proof -
  have ok: "result_of d lg' c = VK_SUCCESS" if "\<not> frame_call c" for lg' c using assms(1) that by (simp add: successful_def)
  let ?c = "CreateBuffer (logicalDevice D) (bufferCreateInfo u sz)"
  let ?h = "handle_of d lg ?c"
  obtain ti where ti: "getMemoryType D (r_typeBits (reqs_of d (lg @ [(?c, VK_SUCCESS, ?h)]) (GetBufferMemoryRequirements (logicalDevice D) ?h))) p d
      (lg @ [(?c, VK_SUCCESS, ?h), (GetBufferMemoryRequirements (logicalDevice D) ?h, VK_SUCCESS,
         handle_of d (lg @ [(?c, VK_SUCCESS, ?h)]) (GetBufferMemoryRequirements (logicalDevice D) ?h))]) =
      Inr (ti, lg @ [(?c, VK_SUCCESS, ?h), (GetBufferMemoryRequirements (logicalDevice D) ?h, VK_SUCCESS,
         handle_of d (lg @ [(?c, VK_SUCCESS, ?h)]) (GetBufferMemoryRequirements (logicalDevice D) ?h))])"
    using offers_finds [OF assms(2)] by blast
  show ?thesis
    using ti
    by (simp add: checked_def createBuffer_def finish_buffer_def bind_buffer_def setupDescriptor_def bindV_def run_simps
        check_eq query_eq assert_eq ok Let_def)
qed

lemma map_run:
  assumes "successful d" and "nonnull d"
  shows "\<exists>h es. checked (map_buffer B sz off) d lg = Inr (B\<lparr>buf_mapped := h\<rparr>, lg @ es) \<and> h \<noteq> 0 \<and>
    (MapMemory (buf_device B) (buf_memory B) off sz, VK_SUCCESS, h) \<in> set es"
proof -
  have "result_of d lg' c = VK_SUCCESS" if "\<not> frame_call c" for lg' c using assms(1) that by (simp add: successful_def)
  then show ?thesis using assms(2) by (simp add: checked_def map_buffer_def bindV_def run_simps assert_eq nonnull_def)
qed

lemma host_write_run: "p \<noteq> 0 \<Longrightarrow> \<exists>es. host_write p bytes d lg = Inr ((), lg @ es)"
  by (simp add: host_write_def run_simps do_eq)

lemma align_ubo_small:
  assumes "ubo_alignment a"
  shows "unat (125 * align_ubo a) = OBJECT_INSTANCES * unat (align_ubo a)"
proof -
  obtain m where m: "align_ubo a = 2 ^ m" "m \<le> 20" using align_ubo_cases [OF assms] by metis
  then have u: "unat (align_ubo a) = 2 ^ m" using power_words(1) by simp
  have "(2 :: nat) ^ m \<le> 2 ^ 20" using m(2) by (intro power_increasing) simp_all
  then have "OBJECT_INSTANCES * unat (align_ubo a) < 2 ^ LENGTH(64)" unfolding u by simp
  moreover have "125 * align_ubo a = of_nat (OBJECT_INSTANCES * unat (align_ubo a))" by simp
  ultimately show ?thesis by (metis of_nat_inverse)
qed

text \<open>
  C38. The copy can read behind the matrices. The block that \<open>alignedAlloc\<close> returns has the size the program asked
  for, but an update copies the size of the buffer's memory, which the driver may round up. On a driver that does and
  otherwise succeeds, the preparation of the uniform buffers creates and maps the buffer, stores all matrices in the
  block, and then faults in that copy: it would take more bytes than the block has.
\<close>

theorem copy_exceeds_block:
  fixes T :: dynamic and a :: u64
  defines "D \<equiv> vulkanDevice (base T)"
  defines "info \<equiv> bufferCreateInfo VK_BUFFER_USAGE_UNIFORM_BUFFER_BIT (125 * align_ubo a)"
  assumes "successful d" and "nonnull d" and "offers d D host_memory" and "ubo_alignment a" and "\<forall>n i. length (mats n i) = 64"
    and "\<forall>al sz. \<exists>b. posix_memalign al sz = (0, Some b) \<and> length b = unat sz"
    and "\<forall>lg h. 125 * align_ubo a < r_size (reqs_of d (lg @ [(CreateBuffer (logicalDevice D) info, VK_SUCCESS, h)])
      (GetBufferMemoryRequirements (logicalDevice D) h))"
  shows "\<exists>T1 block block1 lg1. dy_prepareUniformBuffers mats views posix_memalign a T d lg = Inl (BadIndex, lg1) \<and>
    updateDynamicUniformBuffer mats True T1 d lg1 = Inl (BadIndex, lg1) \<and>
    (CreateBuffer (logicalDevice D) info, VK_SUCCESS, buf_buffer (dy_dynamic T1)) \<in> set lg1 \<and>
    (MapMemory (logicalDevice D) (buf_memory (dy_dynamic T1)) 0 VK_WHOLE_SIZE, VK_SUCCESS, buf_mapped (dy_dynamic T1)) \<in> set lg1 \<and>
    dy_model T1 = Some block \<and> length block = OBJECT_INSTANCES * unat (align_ubo a) \<and>
    store_objects (mats (dy_updates T1)) (dynamicAlignment T1) object_indices block d lg1 = Inr (block1, lg1) \<and>
    length block1 = length block \<and> length block < unat (buf_size (dy_dynamic T1))"
proof -
  obtain block where block: "posix_memalign (align_ubo a) (125 * align_ubo a) = (0, Some block)"
      "length block = OBJECT_INSTANCES * unat (align_ubo a)"
    using assms(8) align_ubo_small [OF assms(6)] by metis
  obtain v es1 where 1: "checked (createBuffer D VK_BUFFER_USAGE_UNIFORM_BUFFER_BIT host_memory (dy_view T) SIZEOF_view None) d lg =
      Inr (v, lg @ es1)" using create_run [OF assms(3,5)] by blast
  have "offers d D VK_MEMORY_PROPERTY_HOST_VISIBLE_BIT" using assms(5) by (rule offers_weaker)
  from create_run [OF assms(3) this] obtain b es2 where
      2: "checked (createBuffer D VK_BUFFER_USAGE_UNIFORM_BUFFER_BIT VK_MEMORY_PROPERTY_HOST_VISIBLE_BIT (dy_dynamic T)
          (125 * align_ubo a) None) d (lg @ es1) = Inr (b, (lg @ es1) @ es2)"
      and b: "buf_device b = logicalDevice D" "(CreateBuffer (logicalDevice D) info, VK_SUCCESS, buf_buffer b) \<in> set es2"
        "125 * align_ubo a < buf_size b"
    using assms(9) unfolding info_def by metis
  obtain p es3 where 3: "checked (map_buffer v VK_WHOLE_SIZE 0) d ((lg @ es1) @ es2) =
      Inr (v\<lparr>buf_mapped := p\<rparr>, ((lg @ es1) @ es2) @ es3)" "p \<noteq> 0"
    using map_run [OF assms(3,4)] by metis
  obtain q es4 where 4: "checked (map_buffer b VK_WHOLE_SIZE 0) d (((lg @ es1) @ es2) @ es3) =
      Inr (b\<lparr>buf_mapped := q\<rparr>, (((lg @ es1) @ es2) @ es3) @ es4)" "q \<noteq> 0"
      "(MapMemory (buf_device b) (buf_memory b) 0 VK_WHOLE_SIZE, VK_SUCCESS, q) \<in> set es4"
    using map_run [OF assms(3,4)] by metis
  define T1 where "T1 = T\<lparr>dynamicAlignment := align_ubo a, dy_model := Some block, dy_view := v\<lparr>buf_mapped := p\<rparr>,
      dy_dynamic := b\<lparr>buf_mapped := q\<rparr>\<rparr>"
  have "buf_mapped (dy_view T1) \<noteq> 0" using 3(2) by (simp add: T1_def)
  then obtain es5 where 5: "dy_updateUniformBuffers views T1 d ((((lg @ es1) @ es2) @ es3) @ es4) =
      Inr ((), ((((lg @ es1) @ es2) @ es3) @ es4) @ es5)"
    unfolding dy_updateUniformBuffers_def using host_write_run by blast
  define lg1 where "lg1 = ((((lg @ es1) @ es2) @ es3) @ es4) @ es5"
  have T1: "dynamicAlignment T1 = align_ubo a" "dy_model T1 = Some block" "dy_dynamic T1 = b\<lparr>buf_mapped := q\<rparr>"
    by (simp_all add: T1_def)
  obtain block1 where st: "store_objects (mats (dy_updates T1)) (dynamicAlignment T1) object_indices block d lg1 = Inr (block1, lg1)"
      "length block1 = length block"
    by (rule update_stores [OF assms(6) T1(1,2) block(2) assms(7)])
  have "unat (125 * align_ubo a) < unat (buf_size b)" using b(3) by (simp add: word_less_nat_alt)
  then have lt: "length block1 < unat (buf_size (dy_dynamic T1))"
    using st(2) block(2) T1(3) align_ubo_small [OF assms(6)] by simp
  have up: "updateDynamicUniformBuffer mats True T1 d lg1 = Inl (BadIndex, lg1)"
    using st(1) lt T1(2) by (simp add: updateDynamicUniformBuffer_def bindV_def run_simps thenV_def Let_def)
  have "dy_prepareUniformBuffers mats views posix_memalign a T d lg = Inl (BadIndex, lg1)"
    using 1 2 3(1) 4(1) 5 up block(1)
    by (simp add: dy_prepareUniformBuffers_def D_def alignedAlloc_def bindV_def run_simps thenV_def assert_eq Let_def T1_def lg1_def)
  then show ?thesis using up st lt T1 block(2) b(1,2) 4(3)
    by (intro exI [of _ T1] exI [of _ block] exI [of _ block1] exI [of _ lg1]) (auto simp: lg1_def)
qed

text \<open>A driver that rounds the size of a buffer up to the next multiple of 256.\<close>

definition rounding_driver :: driver where
  "rounding_driver = demo_driver\<lparr>reqs_of := (\<lambda>lg c. \<lparr>r_size = (case last lg of (CreateBuffer dev i, r, h) \<Rightarrow>
     (b_size i + 255) AND NOT 255 | _ \<Rightarrow> 256), r_alignment = 16, r_typeBits = 7\<rparr>)\<rparr>"

definition demo_memalign :: "u64 \<Rightarrow> u64 \<Rightarrow> int \<times> 8 word list option" where
  "demo_memalign al sz = (0, Some (replicate (unat sz) 0))"

lemma rounding_ok: "successful rounding_driver" "nonnull rounding_driver" "offers rounding_driver demo_device host_memory"
proof -
  show "successful rounding_driver" by (simp add: successful_def rounding_driver_def demo_driver_def)
  show "nonnull rounding_driver" using nonnull_demo by (simp add: nonnull_def rounding_driver_def demo_driver_def)
  have "suitable_type demo_device (r_typeBits (reqs_of rounding_driver lg c)) host_memory 1" for lg c
    by (simp add: suitable_type_def demo_device_def rounding_driver_def)
  moreover have "1 < unat (memoryTypeCount demo_device)" by (simp add: demo_device_def)
  ultimately show "offers rounding_driver demo_device host_memory"
    unfolding offers_def using demo_memory(1) by blast
qed

theorem copy_exceeds_block_witness:
  "\<exists>T1 block lg1. dy_prepareUniformBuffers demo_objects (\<lambda>w h ms. replicate 128 0) demo_memalign 0 demo_dynamic rounding_driver [] =
      Inl (BadIndex, lg1) \<and>
    updateDynamicUniformBuffer demo_objects True T1 rounding_driver lg1 = Inl (BadIndex, lg1) \<and>
    (CreateBuffer 2 (bufferCreateInfo VK_BUFFER_USAGE_UNIFORM_BUFFER_BIT 8000), VK_SUCCESS, buf_buffer (dy_dynamic T1)) \<in> set lg1 \<and>
    dy_model T1 = Some block \<and> length block = 8000 \<and> 8000 < unat (buf_size (dy_dynamic T1))"
proof -
  have D: "vulkanDevice (base demo_dynamic) = demo_device" by (simp add: demo_app_def demo_example_def)
  have al: "align_ubo 0 = 64" by (simp add: align_ubo_def)
  have m: "\<forall>n i. length (demo_objects n i) = 64" by (simp add: demo_objects_def)
  have p: "\<forall>al sz. \<exists>b. demo_memalign al sz = (0, Some b) \<and> length b = unat sz" by (simp add: demo_memalign_def)
  have u: "ubo_alignment 0" by (simp add: ubo_alignment_def)
  have r: "\<forall>lg h. 125 * align_ubo 0 < r_size (reqs_of rounding_driver (lg @ [(CreateBuffer (logicalDevice demo_device)
      (bufferCreateInfo VK_BUFFER_USAGE_UNIFORM_BUFFER_BIT (125 * align_ubo 0)), VK_SUCCESS, h)])
      (GetBufferMemoryRequirements (logicalDevice demo_device) h))"
    by (simp add: rounding_driver_def bufferCreateInfo_def al)
  obtain T1 block block1 lg1 where
      "dy_prepareUniformBuffers demo_objects (\<lambda>w h ms. replicate 128 0) demo_memalign 0 demo_dynamic rounding_driver [] = Inl (BadIndex, lg1)"
      "updateDynamicUniformBuffer demo_objects True T1 rounding_driver lg1 = Inl (BadIndex, lg1)"
      "(CreateBuffer (logicalDevice demo_device) (bufferCreateInfo VK_BUFFER_USAGE_UNIFORM_BUFFER_BIT (125 * align_ubo 0)), VK_SUCCESS,
         buf_buffer (dy_dynamic T1)) \<in> set lg1"
      "dy_model T1 = Some block" "length block = OBJECT_INSTANCES * unat (align_ubo 0)" "length block < unat (buf_size (dy_dynamic T1))"
    using copy_exceeds_block [of rounding_driver demo_dynamic 0 demo_objects demo_memalign "\<lambda>w h ms. replicate 128 0" "[]",
        unfolded D, OF rounding_ok u m p r] by blast
  then show ?thesis unfolding al
    by (intro exI [of _ T1] exI [of _ block] exI [of _ lg1]) (simp add: demo_device_def)
qed

end
