(* ===== verification/VkStart.thy ===== *)
theory VkStart
  imports VkLoopRun VkDeviceRun
begin

text \<open>
  The start of the program (\<open>src/vulkanexamplebase.cpp\<close>): the arguments of the command line, the connection to the
  X server, the instance, the choice of a physical device and the logical device, the window, and at the end the
  destructor with the window and the debug messenger of \<open>src/VulkanDebug.cpp\<close>. Text that is printed is left out.
\<close>

section \<open>Arguments\<close>

text \<open>\<open>strtol\<close> to base ten with a \<open>long\<close> of 64 bits: the value and the text from \<open>endptr\<close> on.\<close>

definition is_space :: "char \<Rightarrow> bool" where
  "is_space c = (c \<in> {CHR '' '', CHR 0x09, CHR 0x0A, CHR 0x0B, CHR 0x0C, CHR 0x0D})"

definition is_decimal :: "char \<Rightarrow> bool" where
  "is_decimal c = (48 \<le> (of_char c :: nat) \<and> (of_char c :: nat) \<le> 57)"

fun digits_value :: "int \<Rightarrow> string \<Rightarrow> int" where
  "digits_value n [] = n"
| "digits_value n (c # cs) = digits_value (10 * n + (of_char c - 48)) cs"

definition strtol :: "string \<Rightarrow> int \<times> string" where
  "strtol s =
     (let s1 = dropWhile is_space s;
          neg = (s1 \<noteq> [] \<and> hd s1 = CHR ''-'');
          s2 = (if s1 \<noteq> [] \<and> (hd s1 = CHR ''-'' \<or> hd s1 = CHR ''+'') then tl s1 else s1);
          ds = takeWhile is_decimal s2;
          v = (if neg then - digits_value 0 ds else digits_value 0 ds)
      in if ds = [] then (0, s) else (max (- (2 ^ 63)) (min (2 ^ 63 - 1) v), dropWhile is_decimal s2))"

text \<open>The number an argument gives, none where \<open>endptr\<close> is its beginning.\<close>

definition number_arg :: "string \<Rightarrow> u32 option" where
  "number_arg s = (case strtol s of (v, rest) \<Rightarrow> if rest = s then None else Some (word_of_int v))"

definition next_number :: "string list \<Rightarrow> nat \<Rightarrow> u32 option vk" where
  "next_number args i = bindV (indexV args (i + 1)) (\<lambda>s. retV (number_arg s))"

definition in_start :: "(startup \<Rightarrow> startup) \<Rightarrow> 'a app_scheme \<Rightarrow> 'a app_scheme" where
  "in_start f A = A\<lparr>start := f (start A)\<rparr>"

definition in_base :: "(example \<Rightarrow> example) \<Rightarrow> 'a app_scheme \<Rightarrow> 'a app_scheme" where
  "in_base f A = A\<lparr>base := f (base A)\<rparr>"

text \<open>The flags, then the sizes, whose number is read without a check, then the options of the benchmark.\<close>

definition flag_arg :: "string \<Rightarrow> 'a app_scheme \<Rightarrow> 'a app_scheme" where
  "flag_arg a A =
     (let A1 = (if a = ''-validation'' then in_start (\<lambda>S. S\<lparr>validation := True\<rparr>) A else A);
          A2 = (if a = ''-vsync'' then in_base (\<lambda>E. E\<lparr>vsync := True\<rparr>) A1 else A1)
      in if a = ''-f'' \<or> a = ''--fullscreen'' then in_start (\<lambda>S. S\<lparr>fullscreen := True\<rparr>) A2 else A2)"

definition size_arg :: "string list \<Rightarrow> nat \<Rightarrow> 'a app_scheme \<Rightarrow> 'a app_scheme vk" where
  "size_arg args i A =
     bindV (if args ! i = ''-w'' \<or> args ! i = ''-width''
            then bindV (next_number args i) (\<lambda>n. retV (case n of None \<Rightarrow> A | Some w \<Rightarrow> in_base (\<lambda>E. E\<lparr>width := w\<rparr>) A)) else retV A) (\<lambda>A1.
      if args ! i = ''-h'' \<or> args ! i = ''-height''
      then bindV (next_number args i) (\<lambda>n. retV (case n of None \<Rightarrow> A1 | Some h \<Rightarrow> in_base (\<lambda>E. E\<lparr>height := h\<rparr>) A1)) else retV A1)"

text \<open>A number for the benchmark, where there is a next argument.\<close>

definition number_option :: "string list \<Rightarrow> nat \<Rightarrow> string list \<Rightarrow> (u32 \<Rightarrow> startup \<Rightarrow> startup) \<Rightarrow> 'a app_scheme \<Rightarrow> 'a app_scheme" where
  "number_option args i names f A =
     (if args ! i \<in> set names \<and> i + 1 < length args
      then (case number_arg (args ! (i + 1)) of None \<Rightarrow> A | Some n \<Rightarrow> in_start (f n) A) else A)"

definition filename_option :: "string list \<Rightarrow> nat \<Rightarrow> 'a app_scheme \<Rightarrow> 'a app_scheme" where
  "filename_option args i A =
     (if (args ! i = ''-bf'' \<or> args ! i = ''--benchfilename'') \<and> i + 1 < length args
      then (let f = args ! (i + 1) in if f \<noteq> [] \<and> hd f = CHR ''-'' then A else in_start (\<lambda>S. S\<lparr>bench_filename := f\<rparr>) A) else A)"

definition bench_arg :: "string list \<Rightarrow> nat \<Rightarrow> 'a app_scheme \<Rightarrow> 'a app_scheme" where
  "bench_arg args i A =
     (let a = args ! i;
          A1 = (if a = ''-b'' \<or> a = ''--benchmark''
                then in_start (\<lambda>S. S\<lparr>errorModeSilent := True\<rparr>) (in_base (\<lambda>E. E\<lparr>benchmark_active := True\<rparr>) A) else A);
          A2 = number_option args i [''-bw'', ''--benchwarmup''] (\<lambda>n S. S\<lparr>warmup := n\<rparr>) A1;
          A3 = number_option args i [''-br'', ''--benchruntime''] (\<lambda>n S. S\<lparr>duration := n\<rparr>) A2;
          A4 = filename_option args i A3
      in if a = ''-bt'' \<or> a = ''--benchframetimes'' then in_start (\<lambda>S. S\<lparr>outputFrameTimes := True\<rparr>) A4 else A4)"

definition parse_arg :: "string list \<Rightarrow> 'a app_scheme \<Rightarrow> nat \<Rightarrow> 'a app_scheme vk" where
  "parse_arg args A i = bindV (size_arg args i (flag_arg (args ! i) A)) (\<lambda>A1. retV (bench_arg args i A1))"

fun parse_from :: "string list \<Rightarrow> nat list \<Rightarrow> 'a app_scheme \<Rightarrow> 'a app_scheme vk" where
  "parse_from args [] A = retV A"
| "parse_from args (i # js) A = bindV (parse_arg args A i) (parse_from args js)"

definition parse_args :: "string list \<Rightarrow> 'a app_scheme \<Rightarrow> 'a app_scheme vk" where
  "parse_args args = parse_from args [0 ..< length args]"

section \<open>Connection and construction\<close>

text \<open>The screens of the server are an argument; behind the last one there is nothing to read.\<close>

definition initxcbConnection :: "screen list \<Rightarrow> 'a app_scheme \<Rightarrow> 'a app_scheme vk" where
  "initxcbConnection screens A =
     bindV (queryV (\<lambda>d lg c. (handle_of d lg c, count_of d lg c)) XcbConnect) (\<lambda>(conn, scr).
     if conn = 0 then failV Exit
     else bindV (indexV screens (unat scr)) (\<lambda>s. retV (in_start (\<lambda>S. S\<lparr>the_connection := conn, the_screen := s\<rparr>) A)))"

text \<open>\<open>VulkanExampleBase::VulkanExampleBase\<close>; whether the path of the assets exists is an argument.\<close>

definition VulkanExampleBase :: "bool \<Rightarrow> string list \<Rightarrow> screen list \<Rightarrow> 'a app_scheme \<Rightarrow> 'a app_scheme vk" where
  "VulkanExampleBase assetsFound args screens A =
     (if \<not> assetsFound then failV Exit else bindV (parse_args args A) (initxcbConnection screens))"

section \<open>Instance\<close>

definition ENABLE_VALIDATION :: bool where "ENABLE_VALIDATION = False"

definition validation_layer :: "(string list) vk" where
  "validation_layer =
     bindV (queryV count_of InstanceLayerCount) (\<lambda>n.
     bindV (queryV names_of InstanceLayerProperties) (\<lambda>l.
       retV (if ''VK_LAYER_KHRONOS_validation'' \<in> set (filled_array n [] l) then [''VK_LAYER_KHRONOS_validation''] else [])))"

definition instance_exts :: "startup \<Rightarrow> string list" where
  "instance_exts S =
     [''VK_KHR_surface'', ''VK_KHR_xcb_surface''] @ enabledInstanceExtensions S @ (if validation S then [''VK_EXT_debug_utils''] else [])"

definition createInstance :: "bool \<Rightarrow> 'a app_scheme \<Rightarrow> (int \<times> 'a app_scheme) vk" where
  "createInstance enableValidation A =
     (let A1 = in_start (\<lambda>S. S\<lparr>validation := enableValidation\<rparr>) A; S = start A1
      in bindV (if validation S then validation_layer else retV []) (\<lambda>layers.
         bindV (callV (CreateInstance \<lparr>applicationName = app_name S, apiVersion = app_apiVersion S,
              instance_extensions = instance_exts S, instance_layers = layers\<rparr>)) (\<lambda>(r, h).
           retV (r, if r = VK_SUCCESS then in_base (\<lambda>E. E\<lparr>instance_handle := h\<rparr>) A1 else A1))))"

definition setupDebugging :: "handle \<Rightarrow> 'a app_scheme \<Rightarrow> 'a app_scheme vk" where
  "setupDebugging inst A =
     bindV (callV (GetInstanceProcAddr inst ''vkCreateDebugUtilsMessengerEXT'')) (\<lambda>(_, f).
     bindV (callV (GetInstanceProcAddr inst ''vkDestroyDebugUtilsMessengerEXT'')) (\<lambda>_.
     if f = VK_NULL_HANDLE then failV BadIndex
     else bindV (VK_CHECK_RESULT (CreateDebugUtilsMessenger inst)) (\<lambda>m.
            retV (in_start (\<lambda>S. S\<lparr>debugUtilsMessenger := m\<rparr>) A))))"

definition freeDebugCallback :: "handle \<Rightarrow> startup \<Rightarrow> unit vk" where
  "freeDebugCallback inst S =
     (if debugUtilsMessenger S \<noteq> VK_NULL_HANDLE then doV (DestroyDebugUtilsMessenger inst (debugUtilsMessenger S)) else retV ())"

section \<open>Physical device\<close>

text \<open>\<open>-listgpus\<close> asks for the devices again, and for the properties of each.\<close>

definition list_gpus :: "handle \<Rightarrow> unit vk" where
  "list_gpus inst =
     bindV (checked_query count_of (PhysicalDeviceCount inst)) (\<lambda>n.
     if n = 0 then retV ()
     else bindV (checked_query handles_of (PhysicalDevices inst)) (\<lambda>l.
            forV (filled_array n VK_NULL_HANDLE l) (\<lambda>pd. doV (GetPhysicalDeviceProperties pd))))"

fun select_from :: "handle \<Rightarrow> u32 \<Rightarrow> string list \<Rightarrow> nat list \<Rightarrow> u32 vk" where
  "select_from inst gpuCount args [] = retV 0"
| "select_from inst gpuCount args (i # js) =
     (if args ! i = ''-g'' \<or> args ! i = ''-gpu''
      then bindV (next_number args i) (\<lambda>n. retV (case n of None \<Rightarrow> 0 | Some k \<Rightarrow> if gpuCount - 1 < k then 0 else k))
      else thenV (if args ! i = ''-listgpus'' then list_gpus inst else retV ()) (select_from inst gpuCount args js))"

definition select_gpu :: "handle \<Rightarrow> u32 \<Rightarrow> string list \<Rightarrow> u32 vk" where
  "select_gpu inst gpuCount args = select_from inst gpuCount args [0 ..< length args]"

definition physical_device :: "string list \<Rightarrow> handle \<Rightarrow> handle vk" where
  "physical_device args inst =
     bindV (checked_query count_of (PhysicalDeviceCount inst)) (\<lambda>n.
     thenV (assertV (0 < n)) (
     bindV (\<lambda>d lg. bindV (callV (PhysicalDevices inst)) (\<lambda>(r, _). retV (r, handles_of d lg (PhysicalDevices inst))) d lg) (\<lambda>(err, l).
     if err \<noteq> VK_SUCCESS then exitFatal (''Could not enumerate physical devices : '' @ [CHR 0x0A] @ errorString err) err
     else bindV (select_gpu inst (written_count n l) args) (\<lambda>i. indexV (filled_array n VK_NULL_HANDLE l) (unat i)))))"

section \<open>\<open>initVulkan\<close>\<close>

text \<open>The properties that are kept: the name of the device and its memory types.\<close>

definition read_properties :: "handle \<Rightarrow> 'a app_scheme \<Rightarrow> 'a app_scheme vk" where
  "read_properties pd A =
     bindV (queryV names_of (GetPhysicalDeviceProperties pd)) (\<lambda>names.
     thenV (doV (GetPhysicalDeviceFeatures pd)) (
     bindV (queryV (\<lambda>d lg c. (count_of d lg c, words_of d lg c)) (GetPhysicalDeviceMemoryProperties pd)) (\<lambda>mem.
       retV (in_base (\<lambda>E. E\<lparr>memoryProperties := mem\<rparr>) (in_start (\<lambda>S. S\<lparr>deviceName := concat (take 1 names)\<rparr>) A)))))"

definition VK_QUEUE_DEFAULT :: u32 where "VK_QUEUE_DEFAULT = VK_QUEUE_GRAPHICS_BIT OR VK_QUEUE_COMPUTE_BIT"

text \<open>\<open>U\<close> is what the memory of the new \<open>VulkanDevice\<close> holds before its constructor runs.\<close>

definition open_logical :: "vulkan_device \<Rightarrow> handle \<Rightarrow> 'a app_scheme \<Rightarrow> 'a app_scheme vk" where
  "open_logical U pd A =
     (let S = start A
      in bindV (VulkanDevice U pd) (\<lambda>D.
         bindV (createLogicalDevice D (ex_enabledFeatures S) (enabledDeviceExtensions S) (deviceCreatepNextChain S) True VK_QUEUE_DEFAULT) (\<lambda>(res, D1).
         if res \<noteq> VK_SUCCESS then exitFatal (''Could not create Vulkan device: '' @ [CHR 0x0A] @ errorString res) res
         else retV (in_base (\<lambda>E. E\<lparr>vulkanDevice := D1, ex_device := logicalDevice D1\<rparr>) A))))"

definition frame_objects :: "handle \<Rightarrow> 'a app_scheme \<Rightarrow> 'a app_scheme vk" where
  "frame_objects pd A =
     (let dev = ex_device (base A); D = vulkanDevice (base A)
      in bindV (callV (GetDeviceQueue dev (qf_graphics D) 0)) (\<lambda>(_, q).
         bindV (tools_getSupportedDepthFormat pd (depthFormat (base A))) (\<lambda>(valid, fmt).
         thenV (assertV valid) (
         bindV (connect (chain (base A)) (instance_handle (base A)) pd dev) (\<lambda>C.
         bindV (VK_CHECK_RESULT (CreateSemaphore dev)) (\<lambda>pc.
         bindV (VK_CHECK_RESULT (CreateSemaphore dev)) (\<lambda>rc.
           retV ((in_base (\<lambda>E. E\<lparr>queue := q, depthFormat := fmt, chain := C, presentComplete := pc, renderComplete := rc\<rparr>) A)
              \<lparr>global_submit := frame_submit pc rc\<rparr>))))))))"

definition initVulkan :: "string list \<Rightarrow> vulkan_device \<Rightarrow> 'a app_scheme \<Rightarrow> 'a app_scheme vk" where
  "initVulkan args U A =
     bindV (createInstance ENABLE_VALIDATION A) (\<lambda>(err, A1).
     if err \<noteq> VK_SUCCESS then exitFatal (''Could not create Vulkan instance : '' @ [CHR 0x0A] @ errorString err) err
     else bindV (if validation (start A1) then setupDebugging (instance_handle (base A1)) A1 else retV A1) (\<lambda>A2.
          bindV (physical_device args (instance_handle (base A2))) (\<lambda>pd.
          bindV (read_properties pd A2) (\<lambda>A3.
          bindV (open_logical U pd A3) (\<lambda>A4. frame_objects pd A4)))))"

section \<open>The window\<close>

abbreviation XCB_ATOM_ATOM :: u32 where "XCB_ATOM_ATOM \<equiv> 4"
abbreviation XCB_WINDOW_MASK :: u32 where "XCB_WINDOW_MASK \<equiv> 0x802"

text \<open>The reply is a pointer, null where the server reports an error.\<close>

definition intern_atom :: "handle \<Rightarrow> bool \<Rightarrow> string \<Rightarrow> u32 option vk" where
  "intern_atom conn existing name =
     bindV (queryV (\<lambda>d lg c. (result_of d lg c, count_of d lg c)) (XcbInternAtom conn existing name)) (\<lambda>(r, a).
       retV (if r = 0 then Some a else None))"

definition the_atom :: "u32 option \<Rightarrow> u32 vk" where
  "the_atom a = (case a of None \<Rightarrow> failV BadIndex | Some x \<Rightarrow> retV x)"

text \<open>Key release and press, exposure, structure, motion of the pointer, press and release of a button.\<close>

definition window_events :: u32 where
  "window_events = 2 OR 1 OR 0x8000 OR 0x20000 OR 0x40 OR 4 OR 8"

definition full_screen :: "handle \<Rightarrow> u32 \<Rightarrow> unit vk" where
  "full_screen conn win =
     bindV (intern_atom conn False ''_NET_WM_STATE'') (\<lambda>s.
     bindV (intern_atom conn False ''_NET_WM_STATE_FULLSCREEN'') (\<lambda>f.
     bindV (the_atom s) (\<lambda>state. bindV (the_atom f) (\<lambda>full.
       doV (XcbChangeAtoms conn win state XCB_ATOM_ATOM [full])))))"

text \<open>\<open>xcb_create_window\<close> takes the sizes as 16 bit numbers.\<close>

definition setupWindow :: "'a app_scheme \<Rightarrow> 'a app_scheme vk" where
  "setupWindow A =
     (let conn = the_connection (start A); scr = the_screen (start A); (sw, sh) = in_pixels scr
      in bindV (queryV (\<lambda>d lg c. ucast (handle_of d lg c)) (XcbGenerateId conn)) (\<lambda>win.
         let A1 = in_start (\<lambda>S. S\<lparr>the_window := win\<rparr>) A;
             A2 = (if fullscreen (start A1)
                   then in_base (\<lambda>E. E\<lparr>width := ucast sw, destWidth := ucast sw, height := ucast sh, destHeight := ucast sh\<rparr>) A1 else A1)
         in thenV (doV (XcbCreateWindow conn win (root scr) (ucast (width (base A2)), ucast (height (base A2))) XCB_WINDOW_MASK
                     [black_pixel scr, window_events])) (
            bindV (intern_atom conn True ''WM_PROTOCOLS'') (\<lambda>reply.
            bindV (intern_atom conn False ''WM_DELETE_WINDOW'') (\<lambda>del.
            bindV (the_atom reply) (\<lambda>protocols. bindV (the_atom del) (\<lambda>delete.
            let A3 = A2\<lparr>atom_wm_delete_window := delete\<rparr>
            in thenV (doV (XcbChangeAtoms conn win protocols XCB_ATOM_ATOM [delete])) (
               thenV (doV (XcbChangeText conn win XCB_ATOM_WM_NAME (take (length (app_title (start A3))) (getWindowTitle A3)))) (
               thenV (if fullscreen (start A3) then full_screen conn win else retV ()) (
               thenV (doV (XcbMapWindow conn win))
                 (retV A3)))))))))))"

section \<open>The program\<close>

text \<open>A member of type \<open>vks::Buffer\<close> as its initialisers leave it.\<close>

definition constructed :: "vks_buffer \<Rightarrow> vks_buffer" where
  "constructed B = new_buffer (buf_device B) (buf_descriptor B) (buf_usageFlags B) (buf_memoryPropertyFlags B)"

text \<open>
  The members that the class and the classes of its members initialise where they declare them; the others hold what
  the memory held. The pointers of the debug markers are global variables and null at first.
\<close>

definition default_members :: "'a app_scheme \<Rightarrow> 'a app_scheme" where
  "default_members A =
     A\<lparr>quit := False, paused := False, viewUpdated := False, button_left := False, button_middle := False, button_right := False,
       keys_left := False, keys_right := False, keys_up := False, keys_down := False, frameCounter := 0, lastFPS := 0,
       base := (base A)\<lparr>prepared := False, width := 1280, height := 720, vsync := False, overlay := False, benchmark_active := False,
         descriptorPool := VK_NULL_HANDLE, currentBuffer := 0, drawCmdBuffers := [], waitFences := [], frameBuffers := [],
         shaderModules := [], chain := (chain (base A))\<lparr>swapChain := VK_NULL_HANDLE, images := [], buffers := [],
           queueNodeIndex := UINT32_MAX\<rparr>, ex_markers := no_markers\<rparr>,
       start := (start A)\<lparr>validation := False, fullscreen := False, warmup := 1, duration := 10, bench_filename := [],
         outputFrameTimes := False, app_title := ''Vulkan Example'', app_name := ''vulkanExample'', app_apiVersion := 0x400000,
         enabledInstanceExtensions := [], enabledDeviceExtensions := [], deviceCreatepNextChain := VK_NULL_HANDLE\<rparr>,
       ui := (ui A)\<lparr>rasterizationSamples := 1, ui_subpass := 0, vertexBuffer := constructed (vertexBuffer (ui A)),
         indexBuffer := constructed (indexBuffer (ui A)), vertexCount := 0, indexCount := 0, ui_shaders := [],
         fontMemory := VK_NULL_HANDLE, fontImage := VK_NULL_HANDLE, fontView := VK_NULL_HANDLE, ui_updated := False\<rparr>\<rparr>"

text \<open>\<open>~VulkanExampleBase\<close> to its end.\<close>

definition destroy_app :: "'a virtuals \<Rightarrow> 'a app_scheme \<Rightarrow> unit vk" where
  "destroy_app V A =
     thenV (destroy_resources (hooks_at V A) (base A)) (
     thenV (if validation (start A) then freeDebugCallback (instance_handle (base A)) (start A) else retV ()) (
     thenV (doV (DestroyInstance (instance_handle (base A)))) (
     thenV (doV (XcbDestroyWindow (the_connection (start A)) (the_window (start A))))
       (doV (XcbDisconnect (the_connection (start A)))))))"

text \<open>
  \<open>main\<close> for a class derived from \<open>VulkanExampleBase\<close>: its constructor, which runs after that of the base, its
  \<open>prepare\<close> and its destructor, which runs before, are arguments. \<open>A\<close> is what the memory of the new object holds; the
  result says whether the program has come to its end on these frames.
\<close>

definition VULKAN_EXAMPLE_MAIN :: "'a virtuals \<Rightarrow> ('a app_scheme \<Rightarrow> 'a app_scheme) \<Rightarrow> ('a app_scheme \<Rightarrow> 'a app_scheme vk) \<Rightarrow>
    ('a app_scheme \<Rightarrow> unit vk) \<Rightarrow> bool \<Rightarrow> string list \<Rightarrow> screen list \<Rightarrow> vulkan_device \<Rightarrow> nat \<Rightarrow> frame_input list \<Rightarrow>
    'a app_scheme \<Rightarrow> bool vk" where
  "VULKAN_EXAMPLE_MAIN V constructor prepareV destructor assetsFound args screens U n fs A =
     bindV (VulkanExampleBase assetsFound args screens (default_members A)) (\<lambda>A1.
     bindV (initVulkan args U (constructor A1)) (\<lambda>A2.
     bindV (setupWindow A2) (\<lambda>A3.
     bindV (prepareV A3) (\<lambda>A4.
     bindV (renderLoop V n fs A4) (\<lambda>(A5, returned).
       if returned then thenV (destructor A5) (thenV (destroy_app V A5) (retV True)) else retV False)))))"

end
