(* ===== verification/VkKinds.thy ===== *)
theory VkKinds
  imports VkStart VkSwapProps VkOverlayOwner
begin

text \<open>
  The kinds of objects a program makes with Vulkan, the calls that make and free each, and the operations of the
  start that make and free none of them.
\<close>

section \<open>Kinds\<close>

datatype object_kind = Instances | Devices | CommandPools | Semaphores | Fences | Images | MemoryBlocks | ImageViews
  | RenderPasses | PipelineCaches | Framebuffers | Swapchains | Surfaces | Buffers | DescriptorPools | SetLayouts
  | PipelineLayouts | Pipelines | ShaderModules

fun makes :: "object_kind \<Rightarrow> vk_call \<Rightarrow> bool" where
  "makes Instances c = (case c of CreateInstance _ \<Rightarrow> True | _ \<Rightarrow> False)"
| "makes Devices c = (case c of CreateDevice _ _ \<Rightarrow> True | _ \<Rightarrow> False)"
| "makes CommandPools c = (case c of CreateCommandPool _ _ _ \<Rightarrow> True | _ \<Rightarrow> False)"
| "makes Semaphores c = (case c of CreateSemaphore _ \<Rightarrow> True | _ \<Rightarrow> False)"
| "makes Fences c = (case c of CreateFence _ _ \<Rightarrow> True | _ \<Rightarrow> False)"
| "makes Images c = (case c of CreateImage _ _ \<Rightarrow> True | _ \<Rightarrow> False)"
| "makes MemoryBlocks c = (case c of AllocateMemory _ _ _ \<Rightarrow> True | _ \<Rightarrow> False)"
| "makes ImageViews c = (case c of CreateImageView _ _ \<Rightarrow> True | _ \<Rightarrow> False)"
| "makes RenderPasses c = (case c of CreateRenderPass _ _ \<Rightarrow> True | _ \<Rightarrow> False)"
| "makes PipelineCaches c = (case c of CreatePipelineCache _ \<Rightarrow> True | _ \<Rightarrow> False)"
| "makes Framebuffers c = (case c of CreateFramebuffer _ _ \<Rightarrow> True | _ \<Rightarrow> False)"
| "makes Swapchains c = (case c of CreateSwapchain _ _ \<Rightarrow> True | _ \<Rightarrow> False)"
| "makes Surfaces c = (case c of CreateXcbSurface _ _ _ \<Rightarrow> True | _ \<Rightarrow> False)"
| "makes Buffers c = (case c of CreateBuffer _ _ \<Rightarrow> True | _ \<Rightarrow> False)"
| "makes DescriptorPools c = (case c of CreateDescriptorPool _ _ \<Rightarrow> True | _ \<Rightarrow> False)"
| "makes SetLayouts c = (case c of CreateDescriptorSetLayout _ _ \<Rightarrow> True | _ \<Rightarrow> False)"
| "makes PipelineLayouts c = (case c of CreatePipelineLayout _ _ \<Rightarrow> True | _ \<Rightarrow> False)"
| "makes Pipelines c = (case c of CreateGraphicsPipelines _ _ _ \<Rightarrow> True | _ \<Rightarrow> False)"
| "makes ShaderModules c = (case c of CreateShaderModule _ _ \<Rightarrow> True | _ \<Rightarrow> False)"

fun frees :: "object_kind \<Rightarrow> vk_call \<Rightarrow> handle option" where
  "frees Instances c = (case c of DestroyInstance h \<Rightarrow> Some h | _ \<Rightarrow> None)"
| "frees Devices c = (case c of DestroyDevice h \<Rightarrow> Some h | _ \<Rightarrow> None)"
| "frees CommandPools c = (case c of DestroyCommandPool _ h \<Rightarrow> Some h | _ \<Rightarrow> None)"
| "frees Semaphores c = (case c of DestroySemaphore _ h \<Rightarrow> Some h | _ \<Rightarrow> None)"
| "frees Fences c = (case c of DestroyFence _ h \<Rightarrow> Some h | _ \<Rightarrow> None)"
| "frees Images c = (case c of DestroyImage _ h \<Rightarrow> Some h | _ \<Rightarrow> None)"
| "frees MemoryBlocks c = (case c of FreeMemory _ h \<Rightarrow> Some h | _ \<Rightarrow> None)"
| "frees ImageViews c = (case c of DestroyImageView _ h \<Rightarrow> Some h | _ \<Rightarrow> None)"
| "frees RenderPasses c = (case c of DestroyRenderPass _ h \<Rightarrow> Some h | _ \<Rightarrow> None)"
| "frees PipelineCaches c = (case c of DestroyPipelineCache _ h \<Rightarrow> Some h | _ \<Rightarrow> None)"
| "frees Framebuffers c = (case c of DestroyFramebuffer _ h \<Rightarrow> Some h | _ \<Rightarrow> None)"
| "frees Swapchains c = (case c of DestroySwapchain _ h \<Rightarrow> Some h | _ \<Rightarrow> None)"
| "frees Surfaces c = (case c of DestroySurface _ h \<Rightarrow> Some h | _ \<Rightarrow> None)"
| "frees Buffers c = (case c of DestroyBuffer _ h \<Rightarrow> Some h | _ \<Rightarrow> None)"
| "frees DescriptorPools c = (case c of DestroyDescriptorPool _ h \<Rightarrow> Some h | _ \<Rightarrow> None)"
| "frees SetLayouts c = (case c of DestroyDescriptorSetLayout _ h \<Rightarrow> Some h | _ \<Rightarrow> None)"
| "frees PipelineLayouts c = (case c of DestroyPipelineLayout _ h \<Rightarrow> Some h | _ \<Rightarrow> None)"
| "frees Pipelines c = (case c of DestroyPipeline _ h \<Rightarrow> Some h | _ \<Rightarrow> None)"
| "frees ShaderModules c = (case c of DestroyShaderModule _ h \<Rightarrow> Some h | _ \<Rightarrow> None)"

text \<open>A call that makes or frees an object of any kind.\<close>

definition all_kinds :: "object_kind list" where
  "all_kinds = [Instances, Devices, CommandPools, Semaphores, Fences, Images, MemoryBlocks, ImageViews, RenderPasses, PipelineCaches,
     Framebuffers, Swapchains, Surfaces, Buffers, DescriptorPools, SetLayouts, PipelineLayouts, Pipelines, ShaderModules]"

definition owning :: "vk_call \<Rightarrow> bool" where
  "owning c = list_ex (\<lambda>k. makes k c \<or> frees k c \<noteq> None) all_kinds"

lemma kind_listed: "k \<in> set all_kinds"
  by (cases k) (simp_all add: all_kinds_def)

lemma not_owning:
  assumes "\<not> owning c"
  shows "\<not> makes k c \<and> frees k c = None"
proof -
  have "\<forall>k \<in> set all_kinds. \<not> makes k c \<and> frees k c = None" using assms by (simp only: owning_def list_ex_iff) blast
  then show ?thesis using kind_listed by (rule bspec)
qed

lemmas owning_simps = owning_def all_kinds_def

text \<open>Samplers, which only the overlay makes, and the debug messenger are left out.\<close>

lemma quiet_calls [simp]:
  "\<not> owning (GetBufferMemoryRequirements a1 b1)" "\<not> owning (MapMemory a2 b2 c2 d2)"
  "\<not> owning (HostWrite a3 b3)" "\<not> owning (UnmapMemory a4 b4)" "\<not> owning (FlushMappedMemoryRanges a5 b5 c5 d5)"
  "\<not> owning (InvalidateMappedMemoryRanges a6 b6 c6 d6)" "\<not> owning (BindBufferMemory a7 b7 c7 d7)"
  "\<not> owning (AllocateCommandBuffers a8 b8 c8 d8)" "\<not> owning (FreeCommandBuffers a9 b9 c9)"
  "\<not> owning (BeginCommandBuffer a10)" "\<not> owning (EndCommandBuffer a11)"
  "\<not> owning (CmdCopyBuffer a12 b12 c12 d12)" "\<not> owning (CmdPipelineBarrier a13 b13 c13 d13)"
  "\<not> owning (WaitForFences a14 b14 c14)" "\<not> owning (QueueSubmit a15 b15 c15 d15 e15)"
  "\<not> owning (GetPhysicalDeviceProperties a16)" "\<not> owning (GetPhysicalDeviceFeatures a17)"
  "\<not> owning (GetPhysicalDeviceMemoryProperties a18)" "\<not> owning (QueueFamilyCount a19)"
  "\<not> owning (QueueFamilyProperties a20)" "\<not> owning (DeviceExtensionCount a21)"
  "\<not> owning (DeviceExtensionProperties a22)" "\<not> owning (FormatProperties a23 b23)"
  "\<not> owning (GetInstanceProcAddr a24 b24)" "\<not> owning (GetDeviceProcAddr a25 b25)"
  "\<not> owning (SurfaceSupport a26 b26 c26)" "\<not> owning (SurfaceFormatCount a27 b27)"
  "\<not> owning (SurfaceFormats a28 b28)" "\<not> owning (SurfaceCapabilities a29 b29)"
  "\<not> owning (PresentModeCount a30 b30)" "\<not> owning (PresentModes a31 b31)"
  "\<not> owning (SwapchainImageCount a32 b32)" "\<not> owning (SwapchainImages a33 b33)"
  "\<not> owning (AcquireNextImage a34 b34 c34 d34)" "\<not> owning (QueuePresent a35 b35 c35 d35)"
  "\<not> owning (DeviceWaitIdle a36)" "\<not> owning (QueueWaitIdle a37)" "\<not> owning (GetDeviceQueue a38 b38 c38)"
  "\<not> owning (ResetFences a39 b39)" "\<not> owning (GetImageMemoryRequirements a40 b40)"
  "\<not> owning (BindImageMemory a41 b41 c41 d41)" "\<not> owning InstanceLayerCount" "\<not> owning InstanceLayerProperties"
  "\<not> owning (PhysicalDeviceCount a42)" "\<not> owning (PhysicalDevices a43)" "\<not> owning (Record a44 b44)"
  "\<not> owning (AllocateDescriptorSets a45 b45 c45)" "\<not> owning (UpdateDescriptorSets a46 b46)"
  "\<not> owning (CreateSampler a47 b47)" "\<not> owning (DestroySampler a48 b48)"
  "\<not> owning (CreateDebugUtilsMessenger a49)" "\<not> owning (DestroyDebugUtilsMessenger a50 b50)"
  "\<not> owning XcbConnect" "\<not> owning (XcbGenerateId a51)" "\<not> owning (XcbCreateWindow a52 b52 c52 d52 e52 f52)"
  "\<not> owning (XcbInternAtom a53 b53 c53)" "\<not> owning (XcbChangeText a54 b54 c54 d54)"
  "\<not> owning (XcbChangeAtoms a55 b55 c55 d55 e55)" "\<not> owning (XcbMapWindow a56 b56)"
  "\<not> owning (DebugMarkerSetObjectName a59 b59 c59 d59)" "\<not> owning (DebugMarkerSetObjectTag a60 b60 c60 d60 e60)"
  "\<not> owning (XcbDestroyWindow a57 b57)" "\<not> owning (XcbDisconnect a58)"
  by (simp_all add: owning_simps)

section \<open>Balances by kind\<close>

text \<open>What a run makes and frees, for each kind at once.\<close>

abbreviation lives :: "object_kind \<Rightarrow> 'a vk \<Rightarrow> handle multiset \<Rightarrow> ('a \<Rightarrow> handle multiset \<Rightarrow> bool) \<Rightarrow> bool" where
  "lives k \<equiv> balances (makes k) (frees k)"

lemma lives_quiet:
  assumes "only (\<lambda>c. \<not> owning c) m Q"
  shows "lives k m A (\<lambda>x B. Q x \<and> B = A)"
  by (rule balances_quiet, rule only_weaken [OF assms]) (use not_owning in blast)

lemma lives_calls: "only_calls (\<lambda>c. \<not> owning c) m \<Longrightarrow> lives k m A (\<lambda>_ B. B = A)"
  using lives_quiet [of m "\<lambda>_. True"] by simp

lemma lives_bind_calls: "only_calls (\<lambda>c. \<not> owning c) m \<Longrightarrow> (\<And>x. lives k (f x) A Q) \<Longrightarrow> lives k (bindV m f) A Q"
  by (rule balances_bind [OF lives_calls]) (simp_all only:)

lemma lives_bind_quiet: "only (\<lambda>c. \<not> owning c) m R \<Longrightarrow> (\<And>x. R x \<Longrightarrow> lives k (f x) A Q) \<Longrightarrow> lives k (bindV m f) A Q"
  by (rule balances_bind [OF lives_quiet [where Q = R]]) (simp_all only: simp_thms)

lemma lives_then_calls: "only_calls (\<lambda>c. \<not> owning c) m \<Longrightarrow> lives k n A Q \<Longrightarrow> lives k (thenV m n) A Q"
  unfolding thenV_def by (rule lives_bind_calls)

definition made :: "object_kind \<Rightarrow> object_kind \<Rightarrow> handle list \<Rightarrow> handle multiset" where
  "made k k' hs = (if k = k' then objects hs else {#})"

lemma made_append: "made k k' (hs @ hs') = made k k' hs + made k k' hs'"
  by (simp add: made_def)

lemma lives_make:
  assumes "makes k c = (k = k')" and "frees k c = None"
  shows "lives k (VK_CHECK_RESULT c) A (\<lambda>h B. h \<noteq> VK_NULL_HANDLE \<and> B = A + made k k' [h])"
proof (cases "k = k'")
  case True
  then show ?thesis using balances_make [of "makes k" c "frees k" A] assms by (simp add: made_def)
next
  case False
  show ?thesis
    unfolding balances_def
  proof (intro allI impI)
    fix d lg h lg'
    assume d: "nonnull d" and "VK_CHECK_RESULT c d lg = Inr (h, lg')"
    then have e: "lg' = lg @ [(c, VK_SUCCESS, h)]" "h = handle_of d lg c" "result_of d lg c = VK_SUCCESS"
      by (auto simp: check_eq split: if_splits)
    then have "h \<noteq> VK_NULL_HANDLE" using d by (simp add: nonnull_def)
    moreover have "owns (made_by (makes k)) (freed_by (frees k)) [(c, VK_SUCCESS, h)] A A"
      using False assms by (intro owns_neither) simp
    ultimately show "\<exists>es B. lg' = lg @ es \<and> owns (made_by (makes k)) (freed_by (frees k)) es A B \<and>
        h \<noteq> VK_NULL_HANDLE \<and> B = A + made k k' [h]" using e(1) False by (auto simp: made_def)
  qed
qed

lemma lives_free:
  assumes "frees k c = (if k = k' then Some h else None)" and "\<not> makes k c"
  shows "lives k (doV c) (A + made k k' [h]) (\<lambda>_ B. B = A)"
proof (cases "k = k'")
  case True
  then show ?thesis using balances_free [of "frees k" c h "makes k" A] assms by (simp add: made_def)
next
  case False
  have "only_calls (neutral (makes k) (frees k)) (doV c)" by (rule only_do) (use False assms in simp)
  then show ?thesis using balances_quiet [of "makes k" "frees k" _ "\<lambda>_. True" A] False by (simp add: made_def)
qed

lemma lives_make_all:
  assumes "\<And>x. makes k (c x) = (k = k')" and "\<And>x. frees k (c x) = None"
  shows "lives k (mapV (\<lambda>x. VK_CHECK_RESULT (c x)) xs) A (\<lambda>hs B. length hs = length xs \<and> B = A + made k k' hs)"
proof (induction xs arbitrary: A)
  case (Cons x xs)
  show ?case unfolding mapV.simps
  proof (rule balances_bind [OF lives_make [OF assms]], rule balances_bind [OF Cons.IH])
    fix h B hs C assume "h \<noteq> VK_NULL_HANDLE \<and> B = A + made k k' [h]" "length hs = length xs \<and> C = B + made k k' hs"
    then show "lives k (retV (h # hs)) C (\<lambda>hs B. length hs = length (x # xs) \<and> B = A + made k k' hs)"
      using made_append [of k k' "[h]" hs] by (intro balances_ret) (simp add: ac_simps)
  qed
qed (simp add: balances_ret made_def)

lemma lives_free_all:
  assumes "\<And>h. frees k (c h) = (if k = k' then Some h else None)" and "\<And>h. \<not> makes k (c h)"
  shows "lives k (forV hs (\<lambda>h. doV (c h))) (A + made k k' hs) (\<lambda>_ B. B = A)"
proof (cases "k = k'")
  case True
  then show ?thesis using balances_for_free [of hs "frees k" c "\<lambda>h. h" "makes k" A] assms by (simp add: made_def)
next
  case False
  have "only_calls (neutral (makes k) (frees k)) (forV hs (\<lambda>h. doV (c h)))"
    by (intro only_intros) (use False assms in simp)
  then show ?thesis using balances_quiet [of "makes k" "frees k" _ "\<lambda>_. True" A] False by (simp add: made_def)
qed

text \<open>A part of a program sees only its own objects.\<close>

lemma owns_frame:
  assumes "owns mk fr es A B"
  shows "owns mk fr es (A + X) (B + X)"
proof -
  have "gathered mk es + (A + X) = gathered fr es + (B + X)" using assms by (simp add: owns_def flip: add.assoc)
  moreover have "gathered fr (take n es) \<subseteq># gathered mk (take n es) + (A + X)" for n
  proof -
    have "gathered fr (take n es) \<subseteq># gathered mk (take n es) + A" using assms by (simp add: owns_def)
    also have "\<dots> \<subseteq># gathered mk (take n es) + (A + X)" by simp
    finally show ?thesis .
  qed
  ultimately show ?thesis by (simp add: owns_def)
qed

lemma balances_frame:
  assumes "balances mk fr m A Q"
  shows "balances mk fr m (A + X) (\<lambda>x C. \<exists>B. C = B + X \<and> Q x B)"
  unfolding balances_def
proof (intro allI impI)
  fix d lg x lg'
  assume "nonnull d" "m d lg = Inr (x, lg')"
  then obtain es B where "lg' = lg @ es" "owns (made_by mk) (freed_by fr) es A B" "Q x B" by (rule balances_D [OF assms])
  then show "\<exists>es C. lg' = lg @ es \<and> owns (made_by mk) (freed_by fr) es (A + X) C \<and> (\<exists>B. C = B + X \<and> Q x B)"
    using owns_frame by blast
qed

end
