(* ===== verification/VkStartRun.thy ===== *)
theory VkStartRun
  imports VkKinds
begin

text \<open>
  What the command line decides, which physical device is opened, what becomes of the request for validation, and
  the title of the window.
\<close>

section \<open>The command line\<close>

text \<open>The value after the last of some names that is followed by a usable one.\<close>

fun given_after :: "(string \<Rightarrow> 'v option) \<Rightarrow> string list \<Rightarrow> string list \<Rightarrow> 'v \<Rightarrow> 'v" where
  "given_after f names [] v = v"
| "given_after f names [a] v = v"
| "given_after f names (a # b # args) v =
     given_after f names (b # args) (if a \<in> set names then (case f b of None \<Rightarrow> v | Some x \<Rightarrow> x) else v)"

definition size_names :: "string list" where
  "size_names = [''-w'', ''-width'', ''-h'', ''-height'']"

definition file_arg :: "string \<Rightarrow> string option" where
  "file_arg s = (if s \<noteq> [] \<and> hd s = CHR ''-'' then None else Some s)"

text \<open>The effect of one argument.\<close>

definition sized :: "string list \<Rightarrow> nat \<Rightarrow> 'a app_scheme \<Rightarrow> 'a app_scheme" where
  "sized args i A =
     (let n = number_arg (args ! (i + 1));
          A1 = (if args ! i = ''-w'' \<or> args ! i = ''-width'' then (case n of None \<Rightarrow> A | Some w \<Rightarrow> in_base (\<lambda>E. E\<lparr>width := w\<rparr>) A) else A)
      in if args ! i = ''-h'' \<or> args ! i = ''-height'' then (case n of None \<Rightarrow> A1 | Some h \<Rightarrow> in_base (\<lambda>E. E\<lparr>height := h\<rparr>) A1) else A1)"

definition parsed :: "string list \<Rightarrow> 'a app_scheme \<Rightarrow> nat \<Rightarrow> 'a app_scheme" where
  "parsed args A i = bench_arg args i (sized args i (flag_arg (args ! i) A))"

lemma size_arg_eq:
  assumes "i < length args"
  shows "size_arg args i A d lg =
    (if args ! i \<in> set size_names \<and> Suc i = length args then Inl (BadIndex, lg) else Inr (sized args i A, lg))"
  using assms
  by (auto simp: size_arg_def sized_def size_names_def next_number_def bindV_def run_simps index_eq split: option.splits)

lemma parse_arg_eq:
  assumes "i < length args"
  shows "parse_arg args A i d lg =
    (if args ! i \<in> set size_names \<and> Suc i = length args then Inl (BadIndex, lg) else Inr (parsed args A i, lg))"
  by (simp add: parse_arg_def parsed_def bindV_def run_simps size_arg_eq [OF assms])

text \<open>One stage at a time, one field at a time.\<close>

lemma in_start_base [simp]: "base (in_start f A) = base A" "start (in_start f A) = f (start A)"
  by (simp_all add: in_start_def)

lemma in_base_start [simp]: "start (in_base f A) = start A" "base (in_base f A) = f (base A)"
  by (simp_all add: in_base_def)

lemma flag_arg_fields [simp]:
  "validation (start (flag_arg a A)) = (validation (start A) \<or> a = ''-validation'')"
  "fullscreen (start (flag_arg a A)) = (fullscreen (start A) \<or> a \<in> {''-f'', ''--fullscreen''})"
  "vsync (base (flag_arg a A)) = (vsync (base A) \<or> a = ''-vsync'')"
  "benchmark_active (base (flag_arg a A)) = benchmark_active (base A)"
  "outputFrameTimes (start (flag_arg a A)) = outputFrameTimes (start A)"
  "width (base (flag_arg a A)) = width (base A)" "height (base (flag_arg a A)) = height (base A)"
  "warmup (start (flag_arg a A)) = warmup (start A)" "duration (start (flag_arg a A)) = duration (start A)"
  "bench_filename (start (flag_arg a A)) = bench_filename (start A)"
  by (auto simp: flag_arg_def Let_def)

lemma sized_fields [simp]:
  "start (sized args i A) = start A" "vsync (base (sized args i A)) = vsync (base A)"
  "benchmark_active (base (sized args i A)) = benchmark_active (base A)"
  "width (base (sized args i A)) = (if args ! i \<in> {''-w'', ''-width''}
     then (case number_arg (args ! (i + 1)) of None \<Rightarrow> width (base A) | Some n \<Rightarrow> n) else width (base A))"
  "height (base (sized args i A)) = (if args ! i \<in> {''-h'', ''-height''}
     then (case number_arg (args ! (i + 1)) of None \<Rightarrow> height (base A) | Some n \<Rightarrow> n) else height (base A))"
  by (auto simp: sized_def Let_def split: option.split)

lemma number_option_fields [simp]:
  "base (number_option args i names f A) = base A"
  "start (number_option args i names f A) = (if args ! i \<in> set names \<and> Suc i < length args
     then (case number_arg (args ! (i + 1)) of None \<Rightarrow> start A | Some n \<Rightarrow> f n (start A)) else start A)"
  by (auto simp: number_option_def split: option.split)

lemma filename_option_fields [simp]:
  "base (filename_option args i A) = base A"
  "start (filename_option args i A) = (if args ! i \<in> {''-bf'', ''--benchfilename''} \<and> Suc i < length args
     then (case file_arg (args ! (i + 1)) of None \<Rightarrow> start A | Some f \<Rightarrow> (start A)\<lparr>bench_filename := f\<rparr>) else start A)"
  by (auto simp: filename_option_def file_arg_def Let_def)

lemma bench_arg_fields [simp]:
  "vsync (base (bench_arg args i A)) = vsync (base A)" "width (base (bench_arg args i A)) = width (base A)"
  "height (base (bench_arg args i A)) = height (base A)"
  "benchmark_active (base (bench_arg args i A)) = (benchmark_active (base A) \<or> args ! i \<in> {''-b'', ''--benchmark''})"
  "validation (start (bench_arg args i A)) = validation (start A)" "fullscreen (start (bench_arg args i A)) = fullscreen (start A)"
  "outputFrameTimes (start (bench_arg args i A)) = (outputFrameTimes (start A) \<or> args ! i \<in> {''-bt'', ''--benchframetimes''})"
  by (auto simp: bench_arg_def Let_def split: option.split)

lemma bench_arg_values [simp]:
  "warmup (start (bench_arg args i A)) = (if args ! i \<in> {''-bw'', ''--benchwarmup''} \<and> Suc i < length args
     then (case number_arg (args ! (i + 1)) of None \<Rightarrow> warmup (start A) | Some n \<Rightarrow> n) else warmup (start A))"
  "duration (start (bench_arg args i A)) = (if args ! i \<in> {''-br'', ''--benchruntime''} \<and> Suc i < length args
     then (case number_arg (args ! (i + 1)) of None \<Rightarrow> duration (start A) | Some n \<Rightarrow> n) else duration (start A))"
  "bench_filename (start (bench_arg args i A)) = (if args ! i \<in> {''-bf'', ''--benchfilename''} \<and> Suc i < length args
     then (case file_arg (args ! (i + 1)) of None \<Rightarrow> bench_filename (start A) | Some n \<Rightarrow> n) else bench_filename (start A))"
  by (simp_all add: bench_arg_def Let_def) (auto split: option.split)

text \<open>All arguments from one position on.\<close>

definition parsed_all :: "string list \<Rightarrow> nat list \<Rightarrow> 'a app_scheme \<Rightarrow> 'a app_scheme" where
  "parsed_all args js A = foldl (parsed args) A js"

lemma parse_from_eq:
  fixes A :: "'a app_scheme"
  assumes "k \<le> length args"
  shows "parse_from args [k ..< length args] A d lg =
    (if k < length args \<and> last args \<in> set size_names then Inl (BadIndex, lg) else Inr (parsed_all args [k ..< length args] A, lg))"
  using assms
proof (induction "length args - k" arbitrary: k A)
  case 0
  then show ?case by (simp add: run_simps parsed_all_def)
next
  case (Suc m)
  then have k: "k < length args" "[k ..< length args] = k # [Suc k ..< length args]" by (simp_all add: upt_conv_Cons)
  have ih: "parse_from args [Suc k ..< length args] A' d lg =
      (if Suc k < length args \<and> last args \<in> set size_names then Inl (BadIndex, lg)
       else Inr (parsed_all args [Suc k ..< length args] A', lg))" for A' :: "'a app_scheme"
    by (rule Suc.hyps(1)) (use Suc.hyps(2) k(1) in simp_all)
  have "args ! k = last args" if "Suc k = length args" using that by (metis diff_Suc_1 last_conv_nth list.size(3) nat.distinct(1))
  then show ?case using k(1) unfolding k(2)
    by (auto simp: bindV_def parse_arg_eq ih parsed_all_def less_Suc_eq not_less_eq)
qed

lemma parsed_flag_all:
  assumes "\<And>A i. f (parsed args A i) = (f A \<or> args ! i \<in> S)"
  shows "f (parsed_all args [0 ..< length args] A) = (f A \<or> set args \<inter> S \<noteq> {})"
proof -
  have "f (parsed_all args js A) = (f A \<or> (\<exists>i \<in> set js. args ! i \<in> S))" for js
    by (induction js arbitrary: A) (auto simp: parsed_all_def assms)
  moreover have "(\<exists>i \<in> set [0 ..< length args]. args ! i \<in> S) = (set args \<inter> S \<noteq> {})"
    by (auto simp: in_set_conv_nth) (metis disjoint_iff nth_mem)
  ultimately show ?thesis by simp
qed

lemma parsed_value_all:
  assumes "\<And>A i. i < length args \<Longrightarrow> Suc i < length args \<or> args ! i \<notin> set size_names \<Longrightarrow>
      f (parsed args A i) = (if args ! i \<in> set names \<and> Suc i < length args
        then (case g (args ! (i + 1)) of None \<Rightarrow> f A | Some n \<Rightarrow> n) else f A)"
    and "args = [] \<or> last args \<notin> set size_names"
  shows "f (parsed_all args [0 ..< length args] A) = given_after g names args (f A)"
proof -
  have "f (parsed_all args [k ..< length args] A) = given_after g names (drop k args) (f A)" if "k \<le> length args" for k
    using that
  proof (induction "length args - k" arbitrary: k A)
    case 0
    then show ?case by (simp add: parsed_all_def)
  next
    case (Suc m)
    then have k: "k < length args" "[k ..< length args] = k # [Suc k ..< length args]" by (simp_all add: upt_conv_Cons)
    have ih: "f (parsed_all args [Suc k ..< length args] A') = given_after g names (drop (Suc k) args) (f A')" for A'
      by (rule Suc.hyps(1)) (use Suc.hyps(2) k(1) in simp_all)
    have "f (parsed_all args [k ..< length args] A) = given_after g names (drop (Suc k) args) (f (parsed args A k))"
      unfolding k(2) using ih by (simp add: parsed_all_def)
    also have "\<dots> = given_after g names (drop k args) (f A)"
    proof (cases "Suc k < length args")
      case True
      then have "drop k args = args ! k # args ! Suc k # drop (Suc (Suc k)) args" "drop (Suc k) args = args ! Suc k # drop (Suc (Suc k)) args"
        by (simp_all add: Cons_nth_drop_Suc)
      then show ?thesis using assms(1) [OF k(1), of A] True by simp
    next
      case False
      then have e: "Suc k = length args" using k(1) by simp
      then have "args ! k = last args" by (metis diff_Suc_1 last_conv_nth list.size(3) nat.distinct(1))
      then have "args ! k \<notin> set size_names" using assms(2) k(1) by auto
      then have "f (parsed args A k) = f A" using assms(1) [OF k(1), of A] False by simp
      moreover have "drop k args = [args ! k]" "drop (Suc k) args = []"
        using e Cons_nth_drop_Suc [OF k(1)] by simp_all
      ultimately show ?thesis by simp
    qed
    finally show ?case .
  qed
  from this [of 0] show ?thesis by simp
qed

text \<open>
  C15. What the command line decides. Unless its last argument asks for a size, the whole line is read: a flag is on
  exactly if it was on or is among the arguments, and each size, each time of the benchmark and the file name is the
  one after the last of its options that a usable value follows. If the last argument asks for a size, its missing
  value is read behind the vector of the arguments.
\<close>

theorem arguments_decide:
  "(if args \<noteq> [] \<and> last args \<in> set size_names then parse_args args A d lg = Inl (BadIndex, lg)
    else \<exists>A'. parse_args args A d lg = Inr (A', lg) \<and>
      validation (start A') = (validation (start A) \<or> ''-validation'' \<in> set args) \<and>
      vsync (base A') = (vsync (base A) \<or> ''-vsync'' \<in> set args) \<and>
      fullscreen (start A') = (fullscreen (start A) \<or> set args \<inter> {''-f'', ''--fullscreen''} \<noteq> {}) \<and>
      benchmark_active (base A') = (benchmark_active (base A) \<or> set args \<inter> {''-b'', ''--benchmark''} \<noteq> {}) \<and>
      outputFrameTimes (start A') = (outputFrameTimes (start A) \<or> set args \<inter> {''-bt'', ''--benchframetimes''} \<noteq> {}) \<and>
      width (base A') = given_after number_arg [''-w'', ''-width''] args (width (base A)) \<and>
      height (base A') = given_after number_arg [''-h'', ''-height''] args (height (base A)) \<and>
      warmup (start A') = given_after number_arg [''-bw'', ''--benchwarmup''] args (warmup (start A)) \<and>
      duration (start A') = given_after number_arg [''-br'', ''--benchruntime''] args (duration (start A)) \<and>
      bench_filename (start A') = given_after file_arg [''-bf'', ''--benchfilename''] args (bench_filename (start A)))"
proof (cases "args \<noteq> [] \<and> last args \<in> set size_names")
  case True
  then show ?thesis using parse_from_eq [of 0 args A d lg] by (simp add: parse_args_def)
next
  case False
  let ?A = "parsed_all args [0 ..< length args] A"
  have r: "parse_args args A d lg = Inr (?A, lg)"
    using False parse_from_eq [of 0 args A d lg] by (auto simp: parse_args_def)
  have l: "args = [] \<or> last args \<notin> set size_names" using False by blast
  note flag = parsed_flag_all [where args = args and A = A] and val = parsed_value_all [OF _ l, where A = A]
  have "validation (start ?A) = (validation (start A) \<or> set args \<inter> {''-validation''} \<noteq> {})"
    by (rule flag [where f = "\<lambda>A. validation (start A)"]) (simp add: parsed_def)
  moreover have "vsync (base ?A) = (vsync (base A) \<or> set args \<inter> {''-vsync''} \<noteq> {})"
    by (rule flag [where f = "\<lambda>A. vsync (base A)"]) (simp add: parsed_def)
  moreover have "fullscreen (start ?A) = (fullscreen (start A) \<or> set args \<inter> {''-f'', ''--fullscreen''} \<noteq> {})"
    by (rule flag [where f = "\<lambda>A. fullscreen (start A)"]) (simp add: parsed_def)
  moreover have "benchmark_active (base ?A) = (benchmark_active (base A) \<or> set args \<inter> {''-b'', ''--benchmark''} \<noteq> {})"
    by (rule flag [where f = "\<lambda>A. benchmark_active (base A)"]) (simp add: parsed_def)
  moreover have "outputFrameTimes (start ?A) = (outputFrameTimes (start A) \<or> set args \<inter> {''-bt'', ''--benchframetimes''} \<noteq> {})"
    by (rule flag [where f = "\<lambda>A. outputFrameTimes (start A)"]) (simp add: parsed_def)
  moreover have "width (base ?A) = given_after number_arg [''-w'', ''-width''] args (width (base A))"
    by (rule val [where f = "\<lambda>A. width (base A)"]) (auto simp: parsed_def size_names_def split: option.split)
  moreover have "height (base ?A) = given_after number_arg [''-h'', ''-height''] args (height (base A))"
    by (rule val [where f = "\<lambda>A. height (base A)"]) (auto simp: parsed_def size_names_def split: option.split)
  moreover have "warmup (start ?A) = given_after number_arg [''-bw'', ''--benchwarmup''] args (warmup (start A))"
    by (rule val [where f = "\<lambda>A. warmup (start A)"]) (auto simp: parsed_def split: option.split)
  moreover have "duration (start ?A) = given_after number_arg [''-br'', ''--benchruntime''] args (duration (start A))"
    by (rule val [where f = "\<lambda>A. duration (start A)"]) (auto simp: parsed_def split: option.split)
  moreover have "bench_filename (start ?A) = given_after file_arg [''-bf'', ''--benchfilename''] args (bench_filename (start A))"
    by (rule val [where f = "\<lambda>A. bench_filename (start A)"]) (auto simp: parsed_def split: option.split)
  ultimately show ?thesis using r False by simp
qed

section \<open>Which device is opened\<close>

lemma not_above_last:
  fixes n m :: u32
  assumes "\<not> n - 1 < m" and "0 < n"
  shows "m < n"
proof -
  have "unat (n - 1) = unat n - 1" using assms(2) by (intro unat_minus_one) simp
  moreover have "0 < unat n" using assms(2) by (simp add: word_less_nat_alt)
  ultimately show ?thesis using assms(1) by (simp add: word_less_nat_alt)
qed

lemma list_gpus_faults:
  assumes "list_gpus inst d lg = Inl (f, lg')"
  shows "f = Abort"
proof -
  have "finishes d (forV hs (\<lambda>pd. doV (GetPhysicalDeviceProperties pd))) (\<lambda>_. True)" for hs
    by (intro finishes_for finishes_do)
  then have "forV hs (\<lambda>pd. doV (GetPhysicalDeviceProperties pd)) d lg \<noteq> Inl e" for hs lg e
    unfolding finishes_def by (metis Inl_Inr_False)
  then show ?thesis using assms
    by (auto simp: list_gpus_def bindV_def run_simps checked_query_eq split: sum.splits if_splits)
qed

lemma select_from_cases:
  assumes "0 < n" and "args = [] \<or> last args \<notin> {''-g'', ''-gpu''}" and "k \<le> length args"
  shows "case select_from inst n args [k ..< length args] d lg of Inl (f, _) \<Rightarrow> f = Abort | Inr (i, _) \<Rightarrow> i < n"
  using assms(3)
proof (induction "length args - k" arbitrary: k lg)
  case 0
  then show ?case using assms(1) by (simp add: run_simps)
next
  case (Suc m)
  then have k: "k < length args" "[k ..< length args] = k # [Suc k ..< length args]" by (simp_all add: upt_conv_Cons)
  have ih: "case select_from inst n args [Suc k ..< length args] d lg of Inl (f, _) \<Rightarrow> f = Abort | Inr (i, _) \<Rightarrow> i < n" for lg
    by (rule Suc.hyps(1)) (use Suc.hyps(2) k(1) in simp_all)
  show ?case
  proof (cases "args ! k = ''-g'' \<or> args ! k = ''-gpu''")
    case True
    have "Suc k < length args"
    proof (rule ccontr)
      assume "\<not> ?thesis"
      then have "args ! k = last args" using k(1) by (metis Suc_lessI diff_Suc_1 last_conv_nth list.size(3) nat.distinct(1))
      then show False using True assms(2) k(1) by auto
    qed
    then show ?thesis using True assms(1) not_above_last [of n] unfolding k(2)
      by (auto simp: next_number_def bindV_def run_simps index_eq split: option.split)
  next
    case False
    show ?thesis
    proof (cases "args ! k = ''-listgpus''")
      case True
      show ?thesis
      proof (cases "list_gpus inst d lg")
        case (Inl e)
        then show ?thesis using True list_gpus_faults [of inst d lg "fst e" "snd e"]
          unfolding k(2) by (simp add: bindV_def run_simps split_beta)
      next
        case (Inr r)
        then show ?thesis using True ih [of "snd r"] unfolding k(2) by (simp add: bindV_def run_simps split_beta)
      qed
    qed (use False ih in \<open>simp add: k(2) bindV_def run_simps\<close>)
  qed
qed

text \<open>
  C16. The device opened exists. Unless \<open>-g\<close> is the last argument, no number on the command line makes the program
  index outside the list of devices: the device it opens is one that the driver listed, given that the driver lists
  as many as it has announced.
\<close>

theorem device_among_listed:
  assumes "args = [] \<or> last args \<notin> {''-g'', ''-gpu''}"
    and "\<forall>lg lg'. unat (count_of d lg (PhysicalDeviceCount inst)) \<le> length (handles_of d lg' (PhysicalDevices inst))"
  shows "case physical_device args inst d lg of
      Inl (f, _) \<Rightarrow> f \<noteq> BadIndex
    | Inr (pd, _) \<Rightarrow> \<exists>lg1. pd \<in> set (handles_of d lg1 (PhysicalDevices inst))"
proof -
  let ?c = "PhysicalDeviceCount inst" and ?l = "PhysicalDevices inst"
  let ?n = "count_of d lg ?c"
  define lg1 where "lg1 = lg @ [(?c, result_of d lg ?c, handle_of d lg ?c)]"
  define lg2 where "lg2 = lg1 @ [(?l, result_of d lg1 ?l, handle_of d lg1 ?l)]"
  let ?hs = "handles_of d lg1 ?l"
  have listed: "filled_array ?n VK_NULL_HANDLE ?hs ! unat i \<in> set ?hs" if "i < ?n" for i
  proof -
    have "unat i < unat ?n" using that by (simp add: word_less_nat_alt)
    moreover have "unat ?n \<le> length ?hs" using assms(2) by blast
    ultimately show ?thesis by (simp add: filled_array_def nth_append)
  qed
  have all: "written_count ?n (handles_of d lg' ?l) = ?n" for lg'
    using assms(2) unfolding written_count_def by (simp add: min_absorb1)
  have sel: "case select_gpu inst ?n args d lg2 of Inl (f, _) \<Rightarrow> f = Abort | Inr (i, _) \<Rightarrow> i < ?n" if "0 < ?n"
    using select_from_cases [OF that assms(1), of 0 inst d lg2] by (simp add: select_gpu_def)
  have run: "physical_device args inst d lg =
      (if result_of d lg ?c \<noteq> VK_SUCCESS \<or> \<not> 0 < ?n then Inl (Abort, lg1)
       else if result_of d lg1 ?l \<noteq> VK_SUCCESS then Inl (Exit, lg2)
       else bindV (select_gpu inst ?n args) (\<lambda>i. indexV (filled_array ?n VK_NULL_HANDLE ?hs) (unat i)) d lg2)"
    by (simp add: physical_device_def bindV_def run_simps checked_query_eq assert_eq exitFatal_def lg1_def lg2_def all)
  show ?thesis
  proof (cases "result_of d lg ?c \<noteq> VK_SUCCESS \<or> \<not> 0 < ?n \<or> result_of d lg1 ?l \<noteq> VK_SUCCESS")
    case False
    then show ?thesis using sel listed unfolding run
      by (auto simp: bindV_def index_eq word_less_nat_alt split: sum.splits)
  qed (auto simp: run)
qed

section \<open>The calls of the start\<close>

text \<open>A predicate that lets every call through that makes and frees nothing.\<close>

definition lets_through :: "(vk_call \<Rightarrow> bool) \<Rightarrow> bool" where
  "lets_through P = (\<forall>c. \<not> owning c \<longrightarrow> P c)"

lemma lets: "lets_through P \<Longrightarrow> \<not> owning c \<Longrightarrow> P c"
  by (simp add: lets_through_def)

lemma lets_quiet [simp]: "lets_through (\<lambda>c. \<not> owning c)" "lets_through (\<lambda>c. True)"
  by (simp_all add: lets_through_def)

lemma only_answer [only_intros]: "P c \<Longrightarrow> only_calls P (\<lambda>d lg. bindV (callV c) (\<lambda>(r, h). retV (r, g d lg)) d lg)"
  by (simp add: only_def run_simps bindV_def)

lemma only_select:
  assumes "lets_through P"
  shows "only_calls P (select_from inst n args is)"
proof (induction "is")
  case (Cons i js)
  then show ?case unfolding select_from.simps next_number_def list_gpus_def by (intro only_intros; simp add: lets [OF assms])
qed (simp add: only_ret)

lemma only_depth_loop:
  assumes "lets_through P"
  shows "only_calls P (tools_depth_loop pd fs fmt)"
proof (induction fs)
  case (Cons f fs)
  then show ?case unfolding tools_depth_loop.simps by (intro only_intros; simp add: lets [OF assms])
qed (simp add: only_ret)

lemma only_startup [only_intros]:
  assumes "lets_through P"
  shows "only_calls P (physical_device args inst)" and "only_calls P (VulkanDevice U pd)"
    and "only_calls P (tools_getSupportedDepthFormat pd fmt)" and "only_calls P (connect C inst pd dev)"
proof -
  have c: "only_calls P (exitFatal msg code)" for msg code by (simp add: exitFatal_def only_fail)
  show "only_calls P (physical_device args inst)"
    unfolding physical_device_def select_gpu_def by (intro only_intros c only_select [OF assms]; simp add: lets [OF assms])
  show "only_calls P (VulkanDevice U pd)"
    unfolding VulkanDevice_def by (intro only_intros; simp add: lets [OF assms])
  show "only_calls P (tools_getSupportedDepthFormat pd fmt)"
    unfolding tools_getSupportedDepthFormat_def by (rule only_depth_loop [OF assms])
  show "only_calls P (connect C inst pd dev)"
    unfolding connect_def load_proc_def by (intro only_intros; simp add: lets [OF assms])
qed

lemma only_queues [only_intros]:
  "only_calls P (graphics_queue D req)" "only_calls P (compute_queue D req infos)" "only_calls P (transfer_queue D req infos)"
  unfolding graphics_queue_def compute_queue_def transfer_queue_def getQueueFamilyIndex_def by (intro only_intros)+

lemma only_logical [only_intros]: "only_calls (\<lambda>_. True) (createLogicalDevice D features exts next swap req)"
  unfolding createLogicalDevice_def open_device_def createCommandPool_def Let_def by (intro only_intros TrueI)

lemma only_exit [only_intros]: "only P (exitFatal msg code) Q"
  by (simp add: exitFatal_def only_fail)

text \<open>What the rest of \<open>initVulkan\<close> leaves of the start.\<close>

lemma keeps_start:
  "only (\<lambda>_. True) (read_properties pd A) (\<lambda>A'. \<exists>names. start A' = (start A)\<lparr>deviceName := names\<rparr>)"
  "only (\<lambda>_. True) (open_logical U pd A) (\<lambda>A'. start A' = start A)"
  "only (\<lambda>_. True) (frame_objects pd A) (\<lambda>A'. start A' = start A)"
proof -
  show "only (\<lambda>_. True) (read_properties pd A) (\<lambda>A'. \<exists>names. start A' = (start A)\<lparr>deviceName := names\<rparr>)"
    by (auto simp: only_def read_properties_def bindV_eq_Inr query_eq run_simps do_eq)
  have dev: "only_calls (\<lambda>_. True) (VulkanDevice U pd)" by (intro only_startup lets_quiet)
  show "only (\<lambda>_. True) (open_logical U pd A) (\<lambda>A'. start A' = start A)"
    unfolding open_logical_def Let_def
    by (rule only_bind [OF dev], rule only_bind [OF only_logical])
      (auto simp: exitFatal_def split: prod.split intro!: only_ret only_fail)
  have "only_calls (\<lambda>_. True) (tools_getSupportedDepthFormat pd fmt)" "only_calls (\<lambda>_. True) (connect C inst pd dev)"
    for fmt C inst dev by (intro only_startup lets_quiet)+
  note [only_intros] = this
  show "only (\<lambda>_. True) (frame_objects pd A) (\<lambda>A'. start A' = start A)"
    unfolding frame_objects_def Let_def thenV_def split_beta
    by (rule only_bind [where R = "\<lambda>_. True"], intro only_intros TrueI)+ (simp add: only_ret)
qed

section \<open>Validation\<close>

text \<open>
  C39. The request for validation is lost. Although the argument \<open>-validation\<close> has turned it on, after
  \<open>initVulkan\<close> it is off: creating the instance overwrites the setting with the constant of the build, and the
  instance is asked for with neither the layer nor the extension of the debug messages.
\<close>

theorem validation_overwritten:
  assumes "initVulkan args U A d lg = Inr (A', lg')"
  shows "\<not> validation (start A') \<and>
    (\<exists>info r h es. lg' = lg @ (CreateInstance info, r, h) # es \<and> instance_layers info = [] \<and>
      instance_extensions info = [''VK_KHR_surface'', ''VK_KHR_xcb_surface''] @ enabledInstanceExtensions (start A))"
proof -
  define info where "info = \<lparr>applicationName = app_name (start A), apiVersion = app_apiVersion (start A),
      instance_extensions = instance_exts ((start A)\<lparr>validation := False\<rparr>), instance_layers = []\<rparr>"
  let ?r = "result_of d lg (CreateInstance info)" and ?h = "handle_of d lg (CreateInstance info)"
  define A1 where "A1 = in_base (\<lambda>E. E\<lparr>instance_handle := ?h\<rparr>) (in_start (\<lambda>S. S\<lparr>validation := False\<rparr>) A)"
  let ?rest = "bindV (physical_device args (instance_handle (base A1))) (\<lambda>pd. bindV (read_properties pd A1) (\<lambda>A3.
      bindV (open_logical U pd A3) (\<lambda>A4. frame_objects pd A4)))"
  have v: "\<not> validation (start A1)" by (simp add: A1_def)
  have "createInstance False A d lg = Inr ((?r, if ?r = VK_SUCCESS then A1 else in_start (\<lambda>S. S\<lparr>validation := False\<rparr>) A),
      lg @ [(CreateInstance info, ?r, ?h)])"
    by (simp add: createInstance_def A1_def info_def bindV_def run_simps Let_def)
  then have rest: "?rest d (lg @ [(CreateInstance info, ?r, ?h)]) = Inr (A', lg')"
    using assms v by (auto simp: initVulkan_def ENABLE_VALIDATION_def bindV_def run_simps exitFatal_def split: if_splits)
  have pd: "only_calls (\<lambda>_. True) (physical_device args (instance_handle (base A1)))" by (intro only_startup lets_quiet)
  have "only (\<lambda>_. True) ?rest (\<lambda>A'. \<not> validation (start A'))"
    by (rule only_bind [OF pd], rule only_bind [OF keeps_start(1)], rule only_bind [OF keeps_start(2)],
        rule only_weaken [OF keeps_start(3)]) (use v in auto)
  from only_D [OF this rest] obtain es where "\<not> validation (start A')" "lg' = (lg @ [(CreateInstance info, ?r, ?h)]) @ es" by blast
  then show ?thesis by (auto simp: instance_exts_def info_def)
qed

section \<open>The window\<close>

text \<open>A logic for the calls of a run in their order.\<close>

definition traces :: "'a vk \<Rightarrow> ('a \<Rightarrow> vk_call list \<Rightarrow> bool) \<Rightarrow> bool" where
  "traces m Q = (\<forall>d lg x lg'. m d lg = Inr (x, lg') \<longrightarrow> (\<exists>es. lg' = lg @ es \<and> Q x (map fst es)))"

lemma traces_ret: "Q x [] \<Longrightarrow> traces (retV x) Q"
  by (simp add: traces_def run_simps)

lemma traces_do: "Q () [c] \<Longrightarrow> traces (doV c) Q"
  by (simp add: traces_def do_eq)

lemma traces_query: "(\<And>x. Q x [c]) \<Longrightarrow> traces (queryV q c) Q"
  by (simp add: traces_def query_eq)

lemma traces_bind:
  assumes "traces m R" and "\<And>x cs. R x cs \<Longrightarrow> traces (f x) (\<lambda>y ds. Q y (cs @ ds))"
  shows "traces (bindV m f) Q"
  unfolding traces_def
proof (intro allI impI)
  fix d lg y lg'
  assume "bindV m f d lg = Inr (y, lg')"
  then obtain x lg1 where r: "m d lg = Inr (x, lg1)" "f x d lg1 = Inr (y, lg')" by (rule bindV_InrE)
  obtain es where es: "lg1 = lg @ es" "R x (map fst es)" using assms(1) r(1) unfolding traces_def by blast
  obtain fs where "lg' = lg1 @ fs" "Q y (map fst es @ map fst fs)" using assms(2) [OF es(2)] r(2) unfolding traces_def by blast
  then show "\<exists>es. lg' = lg @ es \<and> Q y (map fst es)" using es(1) by (intro exI [of _ "es @ fs"]) simp
qed

lemma traces_only:
  assumes "only P m R"
  shows "traces m (\<lambda>x cs. R x \<and> (\<forall>c \<in> set cs. P c))"
  unfolding traces_def
proof (intro allI impI)
  fix d lg x lg'
  assume "m d lg = Inr (x, lg')"
  then obtain es where "R x" "lg' = lg @ es" "\<forall>e \<in> set es. P (fst e)" by (rule only_D [OF assms])
  then show "\<exists>es. lg' = lg @ es \<and> R x \<and> (\<forall>c \<in> set (map fst es). P c)" by auto
qed

definition text_call :: "vk_call \<Rightarrow> bool" where
  [simp]: "text_call c = (case c of XcbChangeText _ _ _ _ \<Rightarrow> True | _ \<Rightarrow> False)"

lemma only_atoms:
  "only_calls (\<lambda>c. \<not> text_call c) (intern_atom conn b name)" "only_calls (\<lambda>c. \<not> text_call c) (the_atom a)"
  "only_calls (\<lambda>c. \<not> text_call c) (full_screen conn win)"
proof -
  show i: "only_calls (\<lambda>c. \<not> text_call c) (intern_atom conn b name)" for conn b name
    unfolding intern_atom_def by (intro only_intros) simp
  show t: "only_calls (\<lambda>c. \<not> text_call c) (the_atom a)" for a
    unfolding the_atom_def by (intro only_intros)
  show "only_calls (\<lambda>c. \<not> text_call c) (full_screen conn win)"
    unfolding full_screen_def by (intro only_intros i t) simp
qed

lemma pixels_kept: "ucast (ucast (w :: 16 word) :: u32) = w"
  by (rule ucast_up_ucast_id) (simp add: is_up)

lemma title_prefix: "app_title (start A) = t \<Longrightarrow> take (length t) (getWindowTitle A) = t"
  by (auto simp: getWindowTitle_def)

text \<open>
  C40. Which text the window gets. Its title is set to the title of the program alone: the text passed is the one with
  the name of the device and the frame rate, but the length passed is that of the title. The window has the size of
  the screen if full screen was asked for, and otherwise that of the example, of which XCB takes the lower 16 bits.
\<close>

theorem window_title_cut:
  assumes "setupWindow A d lg = Inr (A', lg')"
  shows "\<exists>es. lg' = lg @ es \<and>
    XcbCreateWindow (the_connection (start A)) (the_window (start A')) (root (the_screen (start A)))
      (if fullscreen (start A) then in_pixels (the_screen (start A)) else (ucast (width (base A)), ucast (height (base A)))) XCB_WINDOW_MASK
      [black_pixel (the_screen (start A)), window_events] \<in> fst ` set es \<and>
    {t. \<exists>c w a. XcbChangeText c w a t \<in> fst ` set es} = {app_title (start A)}"
proof -
  let ?conn = "the_connection (start A)" and ?scr = "the_screen (start A)" and ?title = "app_title (start A)"
  let ?size = "if fullscreen (start A) then in_pixels ?scr else (ucast (width (base A)), ucast (height (base A)))"
  let ?Q = "\<lambda>A' cs. XcbCreateWindow ?conn (the_window (start A')) (root ?scr) ?size XCB_WINDOW_MASK
      [black_pixel ?scr, window_events] \<in> set cs \<and> {t. \<exists>c w a. XcbChangeText c w a t \<in> set cs} = {?title}"
  note atoms = traces_only [OF only_atoms(1)] traces_only [OF only_atoms(2)]
  have screen: "traces (if fullscreen S then full_screen ?conn win else retV ()) (\<lambda>_ cs. \<forall>c \<in> set cs. \<not> text_call c)" for S win
    using traces_only [OF only_atoms(3), of ?conn win] by (cases "fullscreen S") (simp_all add: traces_ret)
  have no_text: "\<forall>c \<in> set cs. \<not> text_call c \<Longrightarrow> XcbChangeText c w a t \<notin> set cs" for cs c w a t by fastforce
  have "traces (setupWindow A) ?Q"
    unfolding setupWindow_def Let_def thenV_def split_beta
    by (rule traces_bind [OF traces_query [where Q = "\<lambda>_ cs. cs = [XcbGenerateId ?conn]"]], simp,
        rule traces_bind [OF traces_do [where Q = "\<lambda>_ cs. cs = [_]"]], simp,
        (rule traces_bind, rule atoms)+,
        rule traces_bind [OF traces_do [where Q = "\<lambda>_ cs. cs = [_]"]], simp,
        rule traces_bind [OF traces_do [where Q = "\<lambda>_ cs. cs = [_]"]], simp,
        rule traces_bind [OF screen],
        rule traces_bind [OF traces_do [where Q = "\<lambda>_ cs. cs = [_]"]], simp,
        rule traces_ret) (auto simp: title_prefix pixels_kept dest: no_text)
  then obtain es where "lg' = lg @ es" "?Q A' (map fst es)" using assms unfolding traces_def by blast
  then show ?thesis by (intro exI [of _ es]) simp
qed

section \<open>A run\<close>

theorem arguments_decide_witness:
  "\<exists>A'. parse_args [''demo'', ''-f'', ''-w'', ''640px''] demo_app demo_driver [] = Inr (A', []) \<and>
     fullscreen (start A') \<and> width (base A') = 640 \<and> height (base A') = height (base demo_app)"
proof -
  let ?args = "[''demo'', ''-f'', ''-w'', ''640px'']"
  have "given_after number_arg [''-w'', ''-width''] ?args x = 640" "given_after number_arg [''-h'', ''-height''] ?args x = x" for x
    by (simp_all add: number_arg_def strtol_def is_space_def is_decimal_def upt_rec)
  then show ?thesis using arguments_decide [of ?args demo_app demo_driver "[]"] by (auto simp: size_names_def)
qed

theorem device_among_listed_witness:
  "case physical_device [''demo'', ''-g'', ''7''] 11 demo_driver [] of
      Inl (f, _) \<Rightarrow> f \<noteq> BadIndex
    | Inr (pd, _) \<Rightarrow> \<exists>lg1. pd \<in> set (handles_of demo_driver lg1 (PhysicalDevices 11))"
  by (rule device_among_listed) (simp_all add: demo_driver_def)

theorem window_title_cut_witness:
  "\<exists>A' es. setupWindow demo_app demo_driver [] = Inr (A', es) \<and> {t. \<exists>c w a. XcbChangeText c w a t \<in> fst ` set es} = {''Demo''}"
proof -
  have "\<exists>A' es. setupWindow demo_app demo_driver [] = Inr (A', es)"
    by (simp add: setupWindow_def intern_atom_def the_atom_def demo_app_def demo_startup_def demo_driver_def bindV_def run_simps query_eq do_eq Let_def in_start_def)
  then obtain A' es where r: "setupWindow demo_app demo_driver [] = Inr (A', es)" by blast
  from window_title_cut [OF r] have "{t. \<exists>c w a. XcbChangeText c w a t \<in> fst ` set es} = {app_title (start demo_app)}" by auto
  then show ?thesis using r by (simp add: demo_app_def demo_startup_def)
qed

text \<open>A driver for whole runs: that of the examples, which always acquires the second image.\<close>

definition start_driver :: driver where
  "start_driver = demo_driver\<lparr>count_of := (\<lambda>lg c. case c of AcquireNextImage _ _ _ _ \<Rightarrow> 1 | _ \<Rightarrow> count_of demo_driver lg c)\<rparr>"

lemmas start_driver_simps = start_driver_def demo_driver_def

lemma start_successful: "successful start_driver"
  by (simp add: successful_def start_driver_simps)

lemma start_handle: "handle_of start_driver lg c \<noteq> 0"
proof
  assume "handle_of start_driver lg c = 0"
  then have "bit (handle_of start_driver lg c) 0 = bit (0 :: 64 word) 0" by simp
  then show False by (simp add: start_driver_simps bit_0)
qed

definition starts_as :: "example \<Rightarrow> example \<Rightarrow> bool" where
  [simp]: "starts_as E E' = (benchmark_active E' = benchmark_active E \<and> overlay E' = overlay E \<and> memoryProperties E' = memoryProperties E \<and>
     swapChain (chain E') = swapChain (chain E))"

lemma start_instance:
  "finishes start_driver (createInstance ENABLE_VALIDATION A) (\<lambda>(err, A1). err = VK_SUCCESS \<and> \<not> validation (start A1) \<and>
     starts_as (base A) (base A1))"
  by (auto simp: createInstance_def ENABLE_VALIDATION_def finishes_def bindV_def run_simps Let_def start_driver_simps)

lemma start_physical:
  assumes "a \<in> {''-validation'', ''-b''}"
  shows "finishes start_driver (physical_device [''demo'', a] inst) (\<lambda>pd. pd = 100)"
  using assms
  by (auto simp: physical_device_def select_gpu_def finishes_def bindV_def thenV_def run_simps checked_query_eq assert_eq index_eq
      start_driver_simps upt_rec filled_array_def written_count_def)

lemma start_properties: "finishes start_driver (read_properties pd A) (\<lambda>A'. base A' = (base A)\<lparr>memoryProperties := (2, [6, 7])\<rparr>)"
  by (simp add: read_properties_def finishes_def bindV_def run_simps query_eq do_eq start_driver_simps)

lemma start_device_made: "finishes start_driver (VulkanDevice U 100) (\<lambda>D. queueFamilyProperties D = [6, 7])"
  by (simp add: VulkanDevice_def finishes_def bindV_def thenV_def run_simps query_eq do_eq assert_eq start_driver_simps filled_array_def)

lemma start_queues:
  assumes "queueFamilyProperties D = [6, 7]"
  shows "finishes start_driver (createLogicalDevice D fs es next True VK_QUEUE_DEFAULT) (\<lambda>(r, _). r = VK_SUCCESS)"
  using assms by (simp add: createLogicalDevice_def graphics_queue_def compute_queue_def transfer_queue_def open_device_def VK_QUEUE_DEFAULT_def
      finishes_def bindV_def run_simps check_eq createCommandPool_def getQueueFamilyIndex_def family_index_def
      dedicated_compute_def dedicated_transfer_def start_driver_simps Let_def)

lemma start_logical: "finishes start_driver (open_logical U 100 A) (\<lambda>A'. starts_as (base A) (base A'))"
  unfolding open_logical_def Let_def
  by (rule finishes_bind [OF start_device_made], rule finishes_bind [OF start_queues], assumption) (auto intro!: finishes_ret)

lemma start_connect: "finishes start_driver (connect C inst pd dev) (\<lambda>C'. swapChain C' = swapChain C)"
proof -
  have l: "finishes start_driver (load_proc c n) (\<lambda>_. True)" for c n
    by (simp add: load_proc_def finishes_def bindV_def run_simps start_handle)
  show ?thesis
    unfolding connect_def
    by (rule finishes_bind [OF finishes_map [OF l]], rule finishes_bind [OF finishes_map [OF l]], rule finishes_ret) simp
qed

lemma start_frame_objects:
  "finishes start_driver (frame_objects pd A) (\<lambda>A'. starts_as (base A) (base A'))"
proof -
  have q: "finishes start_driver (callV (GetDeviceQueue dev f 0)) (\<lambda>_. True)" for dev f
    by (simp add: finishes_def run_simps)
  have f: "finishes start_driver (tools_getSupportedDepthFormat pd x) (\<lambda>(valid, _). valid)" for x
    by (simp add: tools_getSupportedDepthFormat_def finishes_def bindV_def run_simps query_eq start_driver_simps)
  have c: "finishes start_driver (VK_CHECK_RESULT (CreateSemaphore dev)) (\<lambda>_. True)" for dev
    by (rule finishes_check [OF start_successful]) simp
  show ?thesis
    unfolding frame_objects_def Let_def
    apply (rule finishes_bind [OF q], clarsimp)
    apply (rule finishes_bind [OF f], clarsimp)
    apply (rule finishes_then [OF finishes_assert], simp)
    apply (rule finishes_bind [OF start_connect], rule finishes_bind [OF c], rule finishes_bind [OF c], rule finishes_ret)
    by auto
qed

lemma start_initVulkan:
  assumes "a \<in> {''-validation'', ''-b''}"
  shows "finishes start_driver (initVulkan [''demo'', a] U A) (\<lambda>A'. benchmark_active (base A') = benchmark_active (base A) \<and>
    overlay (base A') = overlay (base A) \<and> memoryProperties (base A') = (2, [6, 7]) \<and>
    swapChain (chain (base A')) = swapChain (chain (base A)))"
  unfolding initVulkan_def
  apply (rule finishes_bind [OF start_instance], clarsimp)
  apply (rule finishes_bind [OF finishes_ret [where P = "\<lambda>x. x = _"]], rule refl, hypsubst, rule finishes_bind [OF start_physical [OF assms]])
  apply (rule finishes_bind [OF start_properties], hypsubst)
  apply (rule finishes_bind [OF start_logical])
  by (rule finishes_weaken [OF start_frame_objects]) auto

text \<open>The arguments turn validation on, and the instance is made without it.\<close>

definition asked_app :: app where
  "asked_app = demo_app\<lparr>start := demo_startup\<lparr>validation := True\<rparr>\<rparr>"

theorem validation_overwritten_witness:
  "\<exists>A' lg'. validation (start asked_app) \<and> initVulkan [''demo'', ''-validation''] demo_device asked_app start_driver [] = Inr (A', lg') \<and>
     \<not> validation (start A')"
proof -
  have "\<exists>A' lg'. initVulkan [''demo'', ''-validation''] demo_device asked_app start_driver [] = Inr (A', lg')"
    using start_initVulkan [of "''-validation''" demo_device asked_app] unfolding finishes_def by blast
  then obtain A' lg' where r: "initVulkan [''demo'', ''-validation''] demo_device asked_app start_driver [] = Inr (A', lg')" by blast
  have "\<not> validation (start A')" using validation_overwritten [OF r] by blast
  then show ?thesis using r by (auto simp: asked_app_def)
qed

end
