(* ===== verification/VkLoopLive.thy ===== *)
theory VkLoopLive
  imports VkStartRun VkTriangleRun VkDynamicRun
begin

text \<open>
  The two examples of the repository, the triangle and the dynamic uniform buffer, keep what a resize and the render loop
  ask of a derived class: their functions return, leave the window's resources and the input alone, and keep the
  members that they need themselves. Then runs of both.
\<close>

section \<open>Members of the derived class\<close>

text \<open>What is equal but for the members of the base class is an update of these.\<close>

lemma same_more:
  assumes "app.more A' = app.more A"
  shows "A' = A\<lparr>base := base A', ui := ui A', global_submit := global_submit A', imgui_data := imgui_data A', quit := quit A',
    paused := paused A', viewUpdated := viewUpdated A', button_left := button_left A', button_middle := button_middle A', button_right := button_right A',
    keys_left := keys_left A', keys_right := keys_right A', keys_up := keys_up A', keys_down := keys_down A', mousePos := mousePos A',
    camera_moves := camera_moves A', frameCounter := frameCounter A', lastFPS := lastFPS A', atom_wm_delete_window := atom_wm_delete_window A', start := start A'\<rparr>"
  using assms by (intro app.equality) simp_all

section \<open>The triangle\<close>

lemma triangle_keeps_input: "virtuals_keep_input (triangle_virtuals mats)"
proof -
  have "gives (tri_setupDepthStencil E) (\<lambda>E'. overlay E' = overlay E)" for E
    unfolding tri_setupDepthStencil_def by (intro gives_bind_any, simp add: gives_ret)+
  then show ?thesis
    by (simp add: virtuals_keep_input_def triangle_virtuals_def tri_frames_eq base_setup_keeps_overlay gives_ret same_input_def)
qed

text \<open>There is a fence for every image that may be acquired.\<close>

definition tri_keep :: "nat \<Rightarrow> triangle \<Rightarrow> bool" where
  "tri_keep m T = (m \<le> length (tri_waitFences T))"

text \<open>The triangle checks every result, so acquisitions and presentations have to succeed.\<close>

definition frames_succeed :: "driver \<Rightarrow> bool" where
  "frames_succeed d = (\<forall>lg c. frame_call c \<longrightarrow> result_of d lg c = VK_SUCCESS)"

lemma finishes_tri_draw:
  assumes "successful d" and "images_at_least d m" and "frames_succeed d" and "ready d m T" and "tri_keep m T"
  shows "finishes d (tri_draw T) (\<lambda>T'. (ready d m T' \<and> tri_keep m T') \<and> same_input T T')"
  unfolding finishes_def
proof
  fix lg
  have ok: "result_of d lg c = VK_SUCCESS" for lg c
    using assms(1,3) unfolding successful_def frames_succeed_def by blast
  let ?i = "count_of d lg (AcquireNextImage (sc_device (chain (base T))) (swapChain (chain (base T))) UINT64_MAX (presentCompleteSemaphore T))"
  have i: "unat ?i < m" using assms(2) by (simp add: images_at_least_def)
  have "unat ?i < length (tri_waitFences T)" "unat ?i < length (drawCmdBuffers (base T))"
    using i assms(4,5) by (simp_all add: tri_keep_def ready_def)
  then have "\<exists>lg'. tri_draw T d lg = Inr (T\<lparr>base := (base T)\<lparr>currentBuffer := ?i\<rparr>\<rparr>, lg')"
    by (simp add: tri_draw_def acquireNextImage_def queuePresent_def check_result_def bindV_def run_simps check_eq assert_eq index_eq
        Let_def ok)
  moreover have "ready d m (T\<lparr>base := (base T)\<lparr>currentBuffer := ?i\<rparr>\<rparr>)" "tri_keep m (T\<lparr>base := (base T)\<lparr>currentBuffer := ?i\<rparr>\<rparr>)"
      "same_input T (T\<lparr>base := (base T)\<lparr>currentBuffer := ?i\<rparr>\<rparr>)"
    using assms(4,5) by (simp_all add: ready_def memory_ready_def own_memory_def tri_keep_def same_input_def)
  ultimately show "\<exists>T' lg'. tri_draw T d lg = Inr (T', lg') \<and> (ready d m T' \<and> tri_keep m T') \<and> same_input T T'" by blast
qed

lemma triangle_more: "app.more T' = app.more T \<Longrightarrow> tri_waitFences T' = tri_waitFences (T :: triangle)"
  by (drule same_more, erule ssubst) simp

lemma triangle_returns:
  assumes "successful d" and "nonnull d" and "images_at_least d m" and "frames_succeed d"
  shows "virtuals_return d m (tri_keep m) (triangle_virtuals mats)"
  unfolding virtuals_return_def
proof (intro conjI allI impI)
  fix T :: triangle
  assume "ready d m T" "tri_keep m T"
  moreover from this have "prepared (base T)" by (simp add: ready_def)
  ultimately show "finishes d (v_render (triangle_virtuals mats) T) (\<lambda>T'. (ready d m T' \<and> tri_keep m T') \<and> same_input T T')"
    using finishes_tri_draw [OF assms(1,3,4)] by (simp add: triangle_virtuals_def tri_render_def)
next
  fix T :: triangle
  show "hooks_return d (hooks_at (triangle_virtuals mats) T)" by (rule tri_hooks_return [OF assms(1,2)])
  show "hooks_quiet (hooks_at (triangle_virtuals mats) T)" by (rule tri_hooks_quiet)
  show "finishes d (v_viewChanged (triangle_virtuals mats) T) (\<lambda>_. True)"
    by (simp add: triangle_virtuals_def finishes_tri_matrices [OF assms(1,2)])
next
  fix T T' :: triangle
  assume "app.more T' = app.more T" and k: "tri_keep m T"
  then have "tri_waitFences T' = tri_waitFences T" by (intro triangle_more)
  then show "tri_keep m T'" using k by (simp add: tri_keep_def)
qed (simp_all add: triangle_virtuals_def finishes_ret)

section \<open>The dynamic uniform buffer\<close>

lemma dynamic_keeps_input: "virtuals_keep_input (dynamic_virtuals scaling mats views)"
  by (simp add: virtuals_keep_input_def dynamic_virtuals_def base_setup_keeps_overlay gives_ret same_input_def)

text \<open>
  Both uniform buffers are mapped, and the block of the matrices has the size asked for and is not smaller than the
  buffer it is copied to.
\<close>

definition dy_keep :: "u64 \<Rightarrow> dynamic \<Rightarrow> bool" where
  "dy_keep a T =
     (buf_mapped (dy_view T) \<noteq> 0 \<and> buf_mapped (dy_dynamic T) \<noteq> 0 \<and> dynamicAlignment T = align_ubo a \<and>
      (\<exists>block. dy_model T = Some block \<and> length block = OBJECT_INSTANCES * unat (align_ubo a) \<and>
         unat (buf_size (dy_dynamic T)) \<le> length block))"

lemma dynamic_more:
  assumes "app.more T' = app.more (T :: dynamic)"
  shows "dy_view T' = dy_view T" and "dy_dynamic T' = dy_dynamic T" and "dynamicAlignment T' = dynamicAlignment T"
    and "dy_model T' = dy_model T"
  by (subst same_more [OF assms]; simp)+

lemma dy_keep_more:
  assumes "app.more T' = app.more (T :: dynamic)"
  shows "dy_keep a T' = dy_keep a T"
  unfolding dy_keep_def dynamic_more [OF assms] by (rule refl)

lemma finishes_draw_overlay: "finishes d (draw_overlay U cmd scaling data) (\<lambda>_. True)"
  by (auto simp: draw_overlay_def intro!: finishes_ret finishes_for finishes_do split: option.split)

lemma finishes_dy_build:
  assumes "successful d" and "length (drawCmdBuffers (base T)) \<le> length (frameBuffers (base T))"
  shows "finishes d (dy_buildCommandBuffers scaling T) (\<lambda>_. True)"
proof -
  have ui: "finishes d (drawUI T scaling cmd) (\<lambda>_. True)" for cmd
    by (auto simp: drawUI_def intro!: finishes_then finishes_do finishes_draw_overlay finishes_ret)
  show ?thesis unfolding dy_buildCommandBuffers_def Let_def
  proof (rule finishes_for, rule finishes_bind [OF finishes_index])
    fix i assume "i \<in> set [0 ..< length (drawCmdBuffers (base T))]"
    then show "i < length (frameBuffers (base T))" using assms(2) by simp
  qed (intro finishes_bind [OF finishes_check [OF assms(1)]] finishes_then finishes_for finishes_do finishes_ret ui, simp_all)
qed

lemma finishes_host_write: "p \<noteq> 0 \<Longrightarrow> finishes d (host_write p bytes) (\<lambda>_. True)"
  by (simp add: host_write_def finishes_ret finishes_do)

lemma dy_hooks_return:
  assumes "successful d" and "buf_mapped (dy_view T) \<noteq> 0"
  shows "hooks_return d (hooks_at (dynamic_virtuals scaling mats views) T)"
  using assms
  by (auto simp: hooks_return_def hooks_at_def dynamic_virtuals_def dy_updateUniformBuffers_def
      intro!: base_depth_returns finishes_dy_build finishes_host_write finishes_ret)

lemma dy_hooks_quiet: "hooks_quiet (hooks_at (dynamic_virtuals scaling mats views) T)"
proof -
  have "quiet (dy_buildCommandBuffers scaling T')" "quiet (dy_updateUniformBuffers views T')" for T'
    unfolding quiet_def dy_buildCommandBuffers_def drawUI_def draw_overlay_def dy_updateUniformBuffers_def host_write_def Let_def
    by (intro only_intros; simp)+
  then show ?thesis by (simp add: hooks_quiet_def hooks_at_def dynamic_virtuals_def base_sets_up_depth)
qed

lemma finishes_dy_update:
  assumes "ubo_alignment a" and "\<forall>n i. length (mats n i) = 64" and "ready d m T" and "dy_keep a T"
  shows "finishes d (updateDynamicUniformBuffer mats force T) (\<lambda>T'. (ready d m T' \<and> dy_keep a T') \<and> same_input T T')"
proof (cases "\<not> (dy_due T \<noteq> [] \<and> hd (dy_due T)) \<and> \<not> force")
  case True
  then show ?thesis using assms(3,4)
    by (auto simp: updateDynamicUniformBuffer_def ready_def dy_keep_def same_input_def Let_def intro!: finishes_ret)
next
  case False
  obtain block where k: "dy_model T = Some block" "length block = OBJECT_INSTANCES * unat (align_ubo a)"
      "unat (buf_size (dy_dynamic T)) \<le> length block" "buf_mapped (dy_dynamic T) \<noteq> 0" "buf_mapped (dy_view T) \<noteq> 0"
      "dynamicAlignment T = align_ubo a"
    using assms(4) unfolding dy_keep_def by blast
  have st: "finishes d (store_objects (mats (dy_updates T)) (dynamicAlignment T) object_indices block) (\<lambda>b. length b = length block)"
    unfolding finishes_def using update_stores [OF assms(1) k(6,1,2) assms(2)] by metis
  have rest: "finishes d (thenV (if length b < unat (buf_size (dy_dynamic T)) then failV BadIndex
        else host_write (buf_mapped (dy_dynamic T)) (take (unat (buf_size (dy_dynamic T))) b)) (
      thenV (doV (FlushMappedMemoryRanges (ex_device (base T)) (buf_memory (dy_dynamic T)) 0 (buf_size (dy_dynamic T))))
        (retV (T\<lparr>dy_due := tl (dy_due T), dy_model := Some b, dy_updates := Suc (dy_updates T)\<rparr>))))
      (\<lambda>T'. (ready d m T' \<and> dy_keep a T') \<and> same_input T T')" if "length b = length block" for b
    using that k assms(3)
    by (intro finishes_then finishes_do finishes_ret) (simp_all add: finishes_host_write ready_def dy_keep_def same_input_def)
  have "updateDynamicUniformBuffer mats force T = bindV (store_objects (mats (dy_updates T)) (dynamicAlignment T) object_indices block) (\<lambda>b.
      thenV (if length b < unat (buf_size (dy_dynamic T)) then failV BadIndex
        else host_write (buf_mapped (dy_dynamic T)) (take (unat (buf_size (dy_dynamic T))) b)) (
      thenV (doV (FlushMappedMemoryRanges (ex_device (base T)) (buf_memory (dy_dynamic T)) 0 (buf_size (dy_dynamic T))))
        (retV (T\<lparr>dy_due := tl (dy_due T), dy_model := Some b, dy_updates := Suc (dy_updates T)\<rparr>))))"
    using False k(1) by (auto simp: updateDynamicUniformBuffer_def Let_def cong: if_cong)
  then show ?thesis using finishes_bind [OF st rest] by simp
qed

text \<open>The dynamic uniform buffer renews an outdated swap chain; only other errors of a frame would end it.\<close>

definition frames_renewable :: "driver \<Rightarrow> bool" where
  "frames_renewable d =
     (\<forall>lg c. frame_call c \<longrightarrow> result_of d lg c \<in> {VK_SUCCESS, VK_ERROR_OUT_OF_DATE_KHR, VK_SUBOPTIMAL_KHR})"

lemma finishes_dy_frame:
  assumes "successful d" and "images_at_least d m" and "frames_renewable d" and "ready d m T" and "dy_keep a T"
    and "H = hooks_at (dynamic_virtuals scaling mats views)"
  shows "finishes d (on_base (prepareFrame (H T)) T) (\<lambda>T'. (ready d m T' \<and> dy_keep a T') \<and> same_input T T' \<and>
      unat (currentBuffer (base T')) < m)"
    and "finishes d (on_base (submitFrame (H T)) T) (\<lambda>T'. (ready d m T' \<and> dy_keep a T') \<and> same_input T T')"
proof -
  have H: "hooks_return d (H T)" "hooks_quiet (H T)"
    using assms(5,6) dy_hooks_return [OF assms(1)] dy_hooks_quiet by (simp_all add: dy_keep_def)
  have resize: "finishes d (on_base (windowResize (H T)) T1) (\<lambda>T'. (ready d m T' \<and> dy_keep a T') \<and> same_input T T' \<and>
      currentBuffer (base T') = i)" if T1: "T1 = T\<lparr>base := (base T)\<lparr>currentBuffer := i\<rparr>\<rparr>" for T1 i
  proof (rule finishes_weaken [OF finishes_resize_ready [OF assms(1,2) H]])
    show "ready d m T1" using assms(4) T1 by (simp add: ready_def memory_ready_def own_memory_def)
    fix T' assume r: "ready d m T' \<and> (\<exists>E. T' = T1\<lparr>base := E\<rparr> \<and> overlay E = overlay (base T1) \<and> currentBuffer E = currentBuffer (base T1))"
    then obtain E where E: "T' = T1\<lparr>base := E\<rparr>" "overlay E = overlay (base T1)" "currentBuffer E = currentBuffer (base T1)" by blast
    have "dy_keep a T'" using assms(5) dy_keep_more [of T' T a] by (simp add: E(1) T1)
    then show "(ready d m T' \<and> dy_keep a T') \<and> same_input T T' \<and> currentBuffer (base T') = i"
      using r E T1 by (simp add: same_input_def)
  qed
  let ?c = "AcquireNextImage (sc_device (chain (base T))) (swapChain (chain (base T))) UINT64_MAX (presentComplete (base T))"
  show "finishes d (on_base (prepareFrame (H T)) T) (\<lambda>T'. (ready d m T' \<and> dy_keep a T') \<and> same_input T T' \<and>
      unat (currentBuffer (base T')) < m)"
    unfolding finishes_def
  proof
    fix lg
    define i where "i = count_of d lg ?c"
    define T1 where "T1 = T\<lparr>base := (base T)\<lparr>currentBuffer := i\<rparr>\<rparr>"
    let ?lg = "lg @ [(?c, result_of d lg ?c, handle_of d lg ?c)]"
    have i: "unat i < m" using assms(2) by (simp add: images_at_least_def i_def)
    have res: "result_of d lg ?c \<in> {VK_SUCCESS, VK_ERROR_OUT_OF_DATE_KHR, VK_SUBOPTIMAL_KHR}"
      using assms(3) unfolding frames_renewable_def by (drule_tac spec [of _ lg], drule_tac spec [of _ ?c]) simp
    show "\<exists>T' lg'. on_base (prepareFrame (H T)) T d lg = Inr (T', lg') \<and> (ready d m T' \<and> dy_keep a T') \<and> same_input T T' \<and>
        unat (currentBuffer (base T')) < m"
    proof (cases "result_of d lg ?c = VK_SUCCESS")
      case True
      then have "on_base (prepareFrame (H T)) T d lg = Inr (T1, ?lg)"
        by (simp add: on_base_def prepareFrame_def acquireNextImage_def check_result_def bindV_def run_simps assert_eq Let_def
            T1_def i_def)
      moreover have "ready d m T1" "same_input T T1" "unat (currentBuffer (base T1)) < m"
        using assms(4) i by (simp_all add: T1_def ready_def memory_ready_def own_memory_def same_input_def)
      moreover have "dy_keep a T1" using assms(5) dy_keep_more [of T1 T a] by (simp add: T1_def)
      ultimately show ?thesis by blast
    next
      case False
      then have "on_base (prepareFrame (H T)) T d lg = on_base (windowResize (H T)) T1 d ?lg"
        using res by (auto simp: on_base_def prepareFrame_def acquireNextImage_def bindV_def run_simps Let_def T1_def i_def)
      then show ?thesis using resize [OF T1_def] i unfolding finishes_def by fastforce
    qed
  qed
  show "finishes d (on_base (submitFrame (H T)) T) (\<lambda>T'. (ready d m T' \<and> dy_keep a T') \<and> same_input T T')"
    unfolding finishes_def
  proof
    fix lg
    let ?p = "QueuePresent (queue (base T)) (swapChain (chain (base T))) (currentBuffer (base T))
        (if renderComplete (base T) \<noteq> VK_NULL_HANDLE then Some (renderComplete (base T)) else None)"
    let ?lg = "lg @ [(?p, result_of d lg ?p, handle_of d lg ?p)]"
    have res: "result_of d lg ?p \<in> {VK_SUCCESS, VK_ERROR_OUT_OF_DATE_KHR, VK_SUBOPTIMAL_KHR}"
      using assms(3) unfolding frames_renewable_def by (drule_tac spec [of _ lg], drule_tac spec [of _ ?p]) simp
    have idle: "result_of d lg' (QueueWaitIdle q) = VK_SUCCESS" for lg' q using assms(1) by (simp add: successful_def)
    show "\<exists>T' lg'. on_base (submitFrame (H T)) T d lg = Inr (T', lg') \<and> (ready d m T' \<and> dy_keep a T') \<and> same_input T T'"
    proof (cases "result_of d lg ?p = VK_ERROR_OUT_OF_DATE_KHR")
      case True
      then have "on_base (submitFrame (H T)) T d lg = on_base (windowResize (H T)) T d ?lg"
        by (simp add: on_base_def submitFrame_def queuePresent_def bindV_def run_simps)
      then show ?thesis using resize [of T "currentBuffer (base T)"] unfolding finishes_def by fastforce
    next
      case False
      then have "\<exists>lg'. on_base (submitFrame (H T)) T d lg = Inr (T, lg')"
        using res by (auto simp: on_base_def submitFrame_def queuePresent_def bindV_def run_simps check_eq thenV_def idle)
      then show ?thesis using assms(4,5) by (auto simp: same_input_def)
    qed
  qed
qed

lemma same_input_trans: "same_input A B \<Longrightarrow> same_input B C \<Longrightarrow> same_input A C"
  by (simp add: same_input_def)

lemma finishes_dy_draw:
  assumes "successful d" and "images_at_least d m" and "frames_renewable d" and "ready d m T" and "dy_keep a T"
    and "H = hooks_at (dynamic_virtuals scaling mats views)"
  shows "finishes d (dy_draw H T) (\<lambda>T'. (ready d m T' \<and> dy_keep a T') \<and> same_input T T')"
  unfolding dy_draw_def Let_def
proof (rule finishes_bind [OF finishes_dy_frame(1) [OF assms]], rule finishes_bind [OF finishes_index])
  fix T1
  assume T1: "(ready d m T1 \<and> dy_keep a T1) \<and> same_input T T1 \<and> unat (currentBuffer (base T1)) < m"
  then show "unat (currentBuffer (base T1)) < length (drawCmdBuffers (base T1))" by (auto simp: ready_def)
  fix cmd
  let ?T2 = "T1\<lparr>dy_submit := (dy_submit T1)\<lparr>commandBuffers := [cmd]\<rparr>\<rparr>"
  have T2: "ready d m ?T2" using T1 by (simp add: ready_def)
  have k2: "dy_keep a ?T2" using T1 by (simp add: dy_keep_def)
  have s2: "same_input T ?T2" using T1 by (simp add: same_input_def)
  have "finishes d (on_base (submitFrame (H ?T2)) ?T2) (\<lambda>T'. (ready d m T' \<and> dy_keep a T') \<and> same_input T T')"
    by (rule finishes_weaken [OF finishes_dy_frame(2) [OF assms(1-3) T2 k2 assms(6)]]) (use s2 same_input_trans in blast)
  then show "finishes d (bindV (VK_CHECK_RESULT (QueueSubmit (queue (base ?T2)) (waitSemaphores (dy_submit ?T2))
      (commandBuffers (dy_submit ?T2)) (signalSemaphores (dy_submit ?T2)) VK_NULL_HANDLE)) (\<lambda>_. on_base (submitFrame (H ?T2)) ?T2))
      (\<lambda>T'. (ready d m T' \<and> dy_keep a T') \<and> same_input T T')"
    by (intro finishes_bind [OF finishes_check [OF assms(1)]]) simp_all
qed

lemma dynamic_returns:
  assumes "successful d" and "images_at_least d m" and "frames_renewable d" and "ubo_alignment a" and "\<forall>n i. length (mats n i) = 64"
  shows "virtuals_return d m (dy_keep a) (dynamic_virtuals scaling mats views)"
  unfolding virtuals_return_def
proof (intro conjI allI impI)
  fix T :: dynamic
  assume T: "ready d m T" "dy_keep a T"
  have "finishes d (bindV (dy_draw (hooks_at (dynamic_virtuals scaling mats views)) T) (\<lambda>T1. if paused T1 then retV T1
      else updateDynamicUniformBuffer mats False T1)) (\<lambda>T'. (ready d m T' \<and> dy_keep a T') \<and> same_input T T')"
  proof (rule finishes_bind [OF finishes_dy_draw [OF assms(1-3) T refl]])
    fix T1 assume T1: "(ready d m T1 \<and> dy_keep a T1) \<and> same_input T T1"
    have "finishes d (updateDynamicUniformBuffer mats False T1) (\<lambda>T'. (ready d m T' \<and> dy_keep a T') \<and> same_input T T')"
      by (rule finishes_weaken [OF finishes_dy_update [OF assms(4,5)]]) (use T1 same_input_trans in blast)+
    then show "finishes d (if paused T1 then retV T1 else updateDynamicUniformBuffer mats False T1)
        (\<lambda>T'. (ready d m T' \<and> dy_keep a T') \<and> same_input T T')"
      using T1 by (simp add: finishes_ret)
  qed
  then have "finishes d (dy_render (dy_hooks scaling views) mats T) (\<lambda>T'. (ready d m T' \<and> dy_keep a T') \<and> same_input T T')"
    using T(1) unfolding dy_hooks_at [of scaling views mats] by (simp add: dy_render_def ready_def)
  moreover have "v_render (dynamic_virtuals scaling mats views) = dy_render (dy_hooks scaling views) mats" by (simp add: dynamic_virtuals_def)
  ultimately show "finishes d (v_render (dynamic_virtuals scaling mats views) T) (\<lambda>T'. (ready d m T' \<and> dy_keep a T') \<and> same_input T T')"
    by (simp only:)
next
  fix T :: dynamic
  assume "dy_keep a T"
  then have "buf_mapped (dy_view T) \<noteq> 0" by (simp add: dy_keep_def)
  then have "finishes d (host_write (buf_mapped (dy_view T)) bytes) (\<lambda>_. True)" for bytes by (rule finishes_host_write)
  then show "finishes d (v_viewChanged (dynamic_virtuals scaling mats views) T) (\<lambda>_. True)"
    by (simp add: dynamic_virtuals_def dy_updateUniformBuffers_def)
  show "hooks_return d (hooks_at (dynamic_virtuals scaling mats views) T)"
    using \<open>buf_mapped (dy_view T) \<noteq> 0\<close> by (rule dy_hooks_return [OF assms(1)])
  show "hooks_quiet (hooks_at (dynamic_virtuals scaling mats views) T)" by (rule dy_hooks_quiet)
next
  fix T T' :: dynamic
  assume "app.more T' = app.more T" "dy_keep a T"
  then show "dy_keep a T'" using dy_keep_more by blast
qed (simp_all add: dynamic_virtuals_def finishes_ret)

section \<open>Runs\<close>

text \<open>The two examples with a command buffer and a frame buffer for each of the two images of the driver.\<close>

definition loop_triangle :: triangle where
  "loop_triangle = demo_triangle\<lparr>base := (base demo_triangle)\<lparr>drawCmdBuffers := [5, 6]\<rparr>\<rparr>"

definition loop_dynamic :: dynamic where
  "loop_dynamic = demo_dynamic\<lparr>dy_view := no_buffer\<lparr>buf_mapped := 83\<rparr>\<rparr>"

lemma loop_bases:
  "base loop_triangle = demo_example\<lparr>overlay := False, memoryProperties := (3, [1, 6, 7])\<rparr>"
  "base loop_dynamic = demo_example\<lparr>overlay := False\<rparr>"
  by (simp_all add: loop_triangle_def loop_dynamic_def demo_app_def demo_example_def)

lemma start_ok: "nonnull start_driver" "images_at_least start_driver 2" "frames_succeed start_driver" "frames_renewable start_driver"
proof -
  show "nonnull start_driver" by (simp add: nonnull_def start_handle)
qed (simp_all add: images_at_least_def frames_succeed_def frames_renewable_def start_driver_simps)

lemma start_memory: "memory_ready start_driver (base loop_triangle)" "memory_ready start_driver (base loop_dynamic)"
proof -
  have s: "memory_ready start_driver E \<longleftrightarrow> memory_ready demo_driver E" for E
    by (simp add: memory_ready_def offers_memory_def start_driver_def)
  show "memory_ready start_driver (base loop_triangle)" "memory_ready start_driver (base loop_dynamic)"
    unfolding s loop_bases by (rule own_demo_offers; simp add: demo_example_def)+
qed

lemma loop_ready: "ready start_driver 2 loop_triangle" "ready start_driver 2 loop_dynamic"
  using start_memory unfolding ready_def loop_bases by (simp_all add: demo_example_def)

lemma loop_keep: "tri_keep 2 loop_triangle" "dy_keep 0 loop_dynamic"
  by (simp_all add: tri_keep_def loop_triangle_def dy_keep_def loop_dynamic_def no_buffer_def new_buffer_def align_ubo_def)

lemma demo_matrix_length: "\<forall>n i. length (demo_objects n i) = 64"
  by (simp add: demo_objects_def)

lemma no_requirement: "ubo_alignment 0"
  by (simp add: ubo_alignment_def)

lemmas loop_triangle_returns = triangle_returns [OF start_successful start_ok(1-3)]
lemmas loop_dynamic_returns = dynamic_returns [OF start_successful start_ok(2,4) no_requirement demo_matrix_length]


theorem resize_completes_witness:
  "(\<exists>E' lg'. windowResize (hooks_at (triangle_virtuals demo_matrices) loop_triangle) (base loop_triangle) start_driver [] = Inr (E', lg') \<and>
     prepared E' \<and> window_ok E') \<and>
   (\<exists>E' lg'. windowResize (hooks_at (dynamic_virtuals [] demo_objects (\<lambda>w h ms. replicate 128 0)) loop_dynamic) (base loop_dynamic)
       start_driver [] = Inr (E', lg') \<and> prepared E' \<and> window_ok E')"
proof
  have "\<exists>E' lg'. windowResize (hooks_at (triangle_virtuals demo_matrices) loop_triangle) (base loop_triangle) start_driver [] = Inr (E', lg') \<and>
      prepared E' \<and> window_ok E' \<and> vulkanDevice E' = vulkanDevice (base loop_triangle) \<and> memory_ready start_driver E'"
    by (rule resize_completes [OF start_successful tri_hooks_return [OF start_successful start_ok(1)] tri_hooks_quiet start_memory(1)])
      (unfold loop_bases, simp_all add: demo_example_def)
  then show "\<exists>E' lg'. windowResize (hooks_at (triangle_virtuals demo_matrices) loop_triangle) (base loop_triangle) start_driver [] = Inr (E', lg') \<and>
      prepared E' \<and> window_ok E'" by blast
  have m: "buf_mapped (dy_view loop_dynamic) \<noteq> 0" using loop_keep(2) by (simp add: dy_keep_def)
  have "\<exists>E' lg'. windowResize (hooks_at (dynamic_virtuals [] demo_objects (\<lambda>w h ms. replicate 128 0)) loop_dynamic) (base loop_dynamic)
      start_driver [] = Inr (E', lg') \<and> prepared E' \<and> window_ok E' \<and> vulkanDevice E' = vulkanDevice (base loop_dynamic) \<and>
      memory_ready start_driver E'"
    by (rule resize_completes [OF start_successful dy_hooks_return [OF start_successful m] dy_hooks_quiet start_memory(2)])
      (unfold loop_bases, simp_all add: demo_example_def)
  then show "\<exists>E' lg'. windowResize (hooks_at (dynamic_virtuals [] demo_objects (\<lambda>w h ms. replicate 128 0)) loop_dynamic) (base loop_dynamic)
      start_driver [] = Inr (E', lg') \<and> prepared E' \<and> window_ok E'" by blast
qed

text \<open>Three frames: the window is resized, then Escape is released, and the third is not reached.\<close>

definition demo_frames :: "frame_input list" where
  "demo_frames =
     [\<lparr>in_events = [(demo_key 22 0)\<lparr>ev_width := 320, ev_height := 200\<rparr>, demo_key 2 KEY_W], over_second = True, in_fps = 60, in_lists = None\<rparr>,
      \<lparr>in_events = [demo_key 3 KEY_ESCAPE], over_second = False, in_fps = 0, in_lists = None\<rparr>,
      \<lparr>in_events = [], over_second = False, in_fps = 0, in_lists = None\<rparr>]"


end
