(* ===== verification/VkLife.thy ===== *)
theory VkLife
  imports VkStartRun VkTriangleRun
begin

text \<open>
  The life of every object of the base class: what \<open>initVulkan\<close> and \<open>prepare\<close> make, what a resize exchanges, and what
  the destructor frees, for each kind of object at once.
\<close>

section \<open>Calls by kind\<close>

lemma kind_create [simp]:
  "makes k (CreateInstance i1) = (k = Instances)" "makes k (CreateDevice p2 i2) = (k = Devices)"
  "makes k (CreateCommandPool d3 f3 q3) = (k = CommandPools)" "makes k (CreateSemaphore d4) = (k = Semaphores)"
  "makes k (CreateFence d5 f5) = (k = Fences)" "makes k (CreateImage d6 i6) = (k = Images)"
  "makes k (AllocateMemory d7 s7 t7) = (k = MemoryBlocks)" "makes k (CreateImageView d8 i8) = (k = ImageViews)"
  "makes k (CreateRenderPass d9 i9) = (k = RenderPasses)" "makes k (CreatePipelineCache d10) = (k = PipelineCaches)"
  "makes k (CreateFramebuffer d11 i11) = (k = Framebuffers)" "makes k (CreateSwapchain d12 i12) = (k = Swapchains)"
  "makes k (CreateXcbSurface i13 c13 w13) = (k = Surfaces)" "makes k (CreateBuffer d14 i14) = (k = Buffers)"
  "makes k (CreateDescriptorPool d15 i15) = (k = DescriptorPools)" "makes k (CreateDescriptorSetLayout d16 b16) = (k = SetLayouts)"
  "makes k (CreatePipelineLayout d17 i17) = (k = PipelineLayouts)" "makes k (CreateGraphicsPipelines d18 c18 i18) = (k = Pipelines)"
  "makes k (CreateShaderModule d19 b19) = (k = ShaderModules)"
  by (cases k; simp)+

lemma kind_create_frees [simp]:
  "frees k (CreateInstance i1) = None" "frees k (CreateDevice p2 i2) = None"
  "frees k (CreateCommandPool d3 f3 q3) = None" "frees k (CreateSemaphore d4) = None"
  "frees k (CreateFence d5 f5) = None" "frees k (CreateImage d6 i6) = None"
  "frees k (AllocateMemory d7 s7 t7) = None" "frees k (CreateImageView d8 i8) = None"
  "frees k (CreateRenderPass d9 i9) = None" "frees k (CreatePipelineCache d10) = None"
  "frees k (CreateFramebuffer d11 i11) = None" "frees k (CreateSwapchain d12 i12) = None"
  "frees k (CreateXcbSurface i13 c13 w13) = None" "frees k (CreateBuffer d14 i14) = None"
  "frees k (CreateDescriptorPool d15 i15) = None" "frees k (CreateDescriptorSetLayout d16 b16) = None"
  "frees k (CreatePipelineLayout d17 i17) = None" "frees k (CreateGraphicsPipelines d18 c18 i18) = None"
  "frees k (CreateShaderModule d19 b19) = None"
  by (cases k; simp)+

lemma kind_destroy [simp]:
  "frees k (DestroyInstance h1) = (if k = Instances then Some h1 else None)"
  "frees k (DestroyDevice h2) = (if k = Devices then Some h2 else None)"
  "frees k (DestroyCommandPool d3 h3) = (if k = CommandPools then Some h3 else None)"
  "frees k (DestroySemaphore d4 h4) = (if k = Semaphores then Some h4 else None)"
  "frees k (DestroyFence d5 h5) = (if k = Fences then Some h5 else None)"
  "frees k (DestroyImage d6 h6) = (if k = Images then Some h6 else None)"
  "frees k (FreeMemory d7 h7) = (if k = MemoryBlocks then Some h7 else None)"
  "frees k (DestroyImageView d8 h8) = (if k = ImageViews then Some h8 else None)"
  "frees k (DestroyRenderPass d9 h9) = (if k = RenderPasses then Some h9 else None)"
  "frees k (DestroyPipelineCache d10 h10) = (if k = PipelineCaches then Some h10 else None)"
  "frees k (DestroyFramebuffer d11 h11) = (if k = Framebuffers then Some h11 else None)"
  "frees k (DestroySwapchain d12 h12) = (if k = Swapchains then Some h12 else None)"
  "frees k (DestroySurface i13 h13) = (if k = Surfaces then Some h13 else None)"
  "frees k (DestroyBuffer d14 h14) = (if k = Buffers then Some h14 else None)"
  "frees k (DestroyDescriptorPool d15 h15) = (if k = DescriptorPools then Some h15 else None)"
  "frees k (DestroyDescriptorSetLayout d16 h16) = (if k = SetLayouts then Some h16 else None)"
  "frees k (DestroyPipelineLayout d17 h17) = (if k = PipelineLayouts then Some h17 else None)"
  "frees k (DestroyPipeline d18 h18) = (if k = Pipelines then Some h18 else None)"
  "frees k (DestroyShaderModule d19 h19) = (if k = ShaderModules then Some h19 else None)"
  by (cases k; simp)+

lemma kind_destroy_makes [simp]:
  "\<not> makes k (DestroyInstance h1)" "\<not> makes k (DestroyDevice h2)" "\<not> makes k (DestroyCommandPool d3 h3)"
  "\<not> makes k (DestroySemaphore d4 h4)" "\<not> makes k (DestroyFence d5 h5)" "\<not> makes k (DestroyImage d6 h6)"
  "\<not> makes k (FreeMemory d7 h7)" "\<not> makes k (DestroyImageView d8 h8)" "\<not> makes k (DestroyRenderPass d9 h9)"
  "\<not> makes k (DestroyPipelineCache d10 h10)" "\<not> makes k (DestroyFramebuffer d11 h11)" "\<not> makes k (DestroySwapchain d12 h12)"
  "\<not> makes k (DestroySurface i13 h13)" "\<not> makes k (DestroyBuffer d14 h14)" "\<not> makes k (DestroyDescriptorPool d15 h15)"
  "\<not> makes k (DestroyDescriptorSetLayout d16 h16)" "\<not> makes k (DestroyPipelineLayout d17 h17)" "\<not> makes k (DestroyPipeline d18 h18)"
  "\<not> makes k (DestroyShaderModule d19 h19)"
  by (cases k; simp)+

declare makes.simps [simp del] frees.simps [simp del]

section \<open>Steps\<close>

lemma lives_bind_make:
  assumes "makes k c = (k = k')" and "frees k c = None" and "\<And>h. h \<noteq> VK_NULL_HANDLE \<Longrightarrow> lives k (f h) (A + made k k' [h]) Q"
  shows "lives k (bindV (VK_CHECK_RESULT c) f) A Q"
  by (rule balances_bind [OF lives_make [OF assms(1,2)]]) (use assms(3) in blast)

lemma lives_then_free:
  assumes "frees k c = (if k = k' then Some h else None)" and "\<not> makes k c" and "lives k n A Q"
  shows "lives k (thenV (doV c) n) (made k k' [h] + A) Q"
  by (rule balances_then_eq [OF _ assms(3)]) (use lives_free [OF assms(1,2), of A] in \<open>simp add: add.commute\<close>)

lemma lives_then_free_all:
  assumes "\<And>h. frees k (c h) = (if k = k' then Some h else None)" and "\<And>h. \<not> makes k (c h)" and "lives k n A Q"
  shows "lives k (thenV (forV hs (\<lambda>h. doV (c h))) n) (made k k' hs + A) Q"
  by (rule balances_then_eq [OF _ assms(3)]) (use lives_free_all [OF assms(1,2), of hs A] in \<open>simp add: add.commute\<close>)

lemma lives_call:
  assumes "makes k c = (k = k')" and "frees k c = None"
  shows "lives k (callV c) A (\<lambda>(r, h) B. (r = VK_SUCCESS \<longrightarrow> h \<noteq> VK_NULL_HANDLE) \<and>
    B = A + (if r = VK_SUCCESS then made k k' [h] else {#}))"
  unfolding balances_def
proof (intro allI impI)
  fix d lg x lg'
  assume d: "nonnull d" and "callV c d lg = Inr (x, lg')"
  then have e0: "x = (result_of d lg c, handle_of d lg c)" "lg' = lg @ [(c, result_of d lg c, handle_of d lg c)]"
    by (auto simp: run_simps)
  define r h where "r = result_of d lg c" and "h = handle_of d lg c"
  then have e: "x = (r, h)" "lg' = lg @ [(c, r, h)]" using e0 by simp_all
  have n: "r = VK_SUCCESS \<longrightarrow> h \<noteq> VK_NULL_HANDLE" using d by (simp add: nonnull_def r_def h_def)
  have "owns (made_by (makes k)) (freed_by (frees k)) [(c, r, h)] A (A + (if r = VK_SUCCESS then made k k' [h] else {#}))"
    using assms n by (simp add: owns_single made_def made_by_def freed_by_def)
  then show "\<exists>es B. lg' = lg @ es \<and> owns (made_by (makes k)) (freed_by (frees k)) es A B \<and>
      (case x of (r, h) \<Rightarrow> \<lambda>B. (r = VK_SUCCESS \<longrightarrow> h \<noteq> VK_NULL_HANDLE) \<and> B = A + (if r = VK_SUCCESS then made k k' [h] else {#})) B"
    using e n by auto
qed

lemma lives_fails [simp]: "lives k (failV e) A Q" "lives k (exitFatal msg code) A Q"
  by (simp_all add: balances_fail exitFatal_def)

section \<open>The swap chain\<close>

definition chain_objects :: "object_kind \<Rightarrow> swap_chain \<Rightarrow> handle multiset" where
  "chain_objects k C = made k Surfaces [surface C] + made k Swapchains [swapChain C] + made k ImageViews (held_views C)"

lemma made_null [simp]: "made k k' [] = {#}" "made k k' [VK_NULL_HANDLE] = {#}"
  by (simp_all add: made_def)

lemma only_select_queue [only_intros]: "only_calls P (select_queue qs)"
  by (auto simp: only_def dest: select_queue_log)

lemma only_select_format [only_intros]: "only_calls P (select_format n fs)"
  by (auto simp: only_def dest: select_format_log)

lemma lives_initSurface:
  assumes "swapChain C = VK_NULL_HANDLE"
  shows "lives k (initSurface C connection window) A (\<lambda>C' B. B = A + chain_objects k C' \<and> swap_ok C' \<and> surface C' \<noteq> VK_NULL_HANDLE)"
  unfolding initSurface_def surface_support_def Let_def thenV_def
  apply (rule balances_bind [OF lives_call [where k' = Surfaces]], simp, simp)
  apply (clarsimp split: prod.split)
  apply (rule lives_bind_calls, (intro only_intros; simp))+
  apply (clarsimp split: prod.split)
  using assms by (intro balances_ret) (simp add: chain_objects_def held_views_def swap_ok_def)

text \<open>Calls that concern no kind but the three of the swap chain.\<close>

definition of_chain :: "vk_call \<Rightarrow> bool" where
  "of_chain c = (\<forall>k. k \<in> {Surfaces, Swapchains, ImageViews} \<or> \<not> makes k c \<and> frees k c = None)"

lemma of_chain [simp]:
  "\<not> owning c \<Longrightarrow> of_chain c" "of_chain (CreateSwapchain d1 i1)" "of_chain (DestroySwapchain d2 h2)"
  "of_chain (CreateImageView d3 i3)" "of_chain (DestroyImageView d4 h4)" "of_chain (DestroySurface d5 h5)"
  using not_owning by (auto simp: of_chain_def)

lemma only_chain:
  "only_calls of_chain (create C w h v)" "only_calls of_chain (cleanup C)"
  unfolding create_def cleanup_def make_buffers_def destroy_views_def Let_def by (intro only_intros; simp)+

lemma chain_kinds:
  "makes Surfaces = makes_surface" "frees Surfaces = frees_surface" "makes Swapchains = makes_chain" "frees Swapchains = frees_chain"
  "makes ImageViews = makes_view" "frees ImageViews = frees_view"
  by (simp_all add: fun_eq_iff makes.simps frees.simps)

lemma balanced_objects:
  assumes "balanced es C C'" and "\<forall>e \<in> set es. of_chain (fst e)"
  shows "owns (made_by (makes k)) (freed_by (frees k)) es (A + chain_objects k C) (A + chain_objects k C')"
proof -
  consider "k = Surfaces" | "k = Swapchains" | "k = ImageViews" | "k \<notin> {Surfaces, Swapchains, ImageViews}" by blast
  then have "owns (made_by (makes k)) (freed_by (frees k)) es (chain_objects k C) (chain_objects k C')"
  proof cases
    case 4
    then have "\<forall>e \<in> set es. \<not> makes k (fst e) \<and> frees k (fst e) = None" using assms(2) by (auto simp: of_chain_def)
    moreover have "chain_objects k D = {#}" for D using 4 by (simp add: chain_objects_def made_def)
    ultimately show ?thesis by (simp add: owns_neither)
  qed (use assms(1) in \<open>simp_all add: balanced_def chain_kinds chain_objects_def made_def del: objects_simps\<close>)
  from owns_frame [OF this, of A] show ?thesis by (simp add: add.commute)
qed

lemma lives_create:
  assumes "surface C \<noteq> VK_NULL_HANDLE"
  shows "lives k (create C w h v) (A + chain_objects k C)
    (\<lambda>(C', _) B. B = A + chain_objects k C' \<and> swap_ok C' \<and> surface C' = surface C)"
  unfolding balances_def
proof (intro allI impI)
  fix d lg x lg'
  assume d: "nonnull d" and "create C w h v d lg = Inr (x, lg')"
  then obtain C' w' h' where x: "x = (C', w', h')" and r: "create C w h v d lg = Inr ((C', w', h'), lg')" by (cases x) auto
  obtain es where es: "swap_ok C'" "lg' = lg @ es" "balanced es C C'" using create_balance [OF r d assms] by blast
  have "surface C' = surface C" using create_InrD [OF r] by blast
  moreover obtain fs where "lg' = lg @ fs" "\<forall>e \<in> set fs. of_chain (fst e)" using only_D [OF only_chain(1) r] by blast
  ultimately show "\<exists>es B. lg' = lg @ es \<and> owns (made_by (makes k)) (freed_by (frees k)) es (A + chain_objects k C) B \<and>
      (case x of (C', _) \<Rightarrow> \<lambda>B. B = A + chain_objects k C' \<and> swap_ok C' \<and> surface C' = surface C) B"
    using balanced_objects [OF es(3)] es(1,2) x by (intro exI [of _ es] exI [of _ "A + chain_objects k C'"]) simp
qed

lemma lives_cleanup:
  assumes "swap_ok C"
  shows "lives k (cleanup C) (A + chain_objects k C) (\<lambda>_ B. B = A)"
  unfolding balances_def
proof (intro allI impI)
  fix d lg C' lg'
  assume r: "cleanup C d lg = Inr (C', lg')"
  obtain es where es: "lg' = lg @ es" "balanced es C C'" using cleanup_balance [OF r assms] by blast
  moreover obtain fs where "lg' = lg @ fs" "\<forall>e \<in> set fs. of_chain (fst e)" using only_D [OF only_chain(2) r] by blast
  moreover have "C' = C\<lparr>surface := VK_NULL_HANDLE, swapChain := VK_NULL_HANDLE\<rparr>" using cleanup_InrD [OF r] by blast
  then have "chain_objects k C' = {#}" by (simp add: chain_objects_def held_views_def)
  ultimately show "\<exists>es B. lg' = lg @ es \<and> owns (made_by (makes k)) (freed_by (frees k)) es (A + chain_objects k C) B \<and> B = A"
    using balanced_objects [of es C C' k A] by (intro exI [of _ es] exI [of _ A]) simp
qed

section \<open>What the base class holds\<close>

text \<open>
  After \<open>initVulkan\<close>; what a resize exchanges; what \<open>prepare\<close> makes once; what examples add for the destructor to free.
\<close>

definition opened_objects :: "object_kind \<Rightarrow> example \<Rightarrow> handle multiset" where
  "opened_objects k E =
     made k Semaphores [presentComplete E] + (made k Semaphores [renderComplete E] +
     (made k CommandPools [commandPool (vulkanDevice E)] + (made k Devices [logicalDevice (vulkanDevice E)] +
      made k Instances [instance_handle E])))"

definition depth_objects :: "object_kind \<Rightarrow> example \<Rightarrow> handle multiset" where
  "depth_objects k E = made k ImageViews [depth_view E] + (made k Images [depth_image E] + made k MemoryBlocks [depth_mem E])"

definition target_objects :: "object_kind \<Rightarrow> example \<Rightarrow> handle multiset" where
  "target_objects k E = chain_objects k (chain E) + depth_objects k E + made k Framebuffers (frameBuffers E)"

definition prepared_objects :: "object_kind \<Rightarrow> example \<Rightarrow> handle multiset" where
  "prepared_objects k E =
     made k RenderPasses [renderPass E] + (made k PipelineCaches [pipelineCache E] + (made k CommandPools [cmdPool E] +
     made k Fences (waitFences E)))"

definition kept_objects :: "object_kind \<Rightarrow> example \<Rightarrow> handle multiset" where
  "kept_objects k E = made k DescriptorPools [descriptorPool E] + made k ShaderModules (shaderModules E)"

definition base_objects :: "object_kind \<Rightarrow> example \<Rightarrow> handle multiset" where
  "base_objects k E = opened_objects k E + target_objects k E + prepared_objects k E + kept_objects k E"

text \<open>The state between calls, without an overlay.\<close>

definition settled :: "example \<Rightarrow> bool" where
  "settled E = (swap_ok (chain E) \<and> surface (chain E) \<noteq> VK_NULL_HANDLE \<and> \<not> overlay E)"

section \<open>Setup functions\<close>

definition makes_depth :: "(example \<Rightarrow> example vk) \<Rightarrow> bool" where
  "makes_depth f = (\<forall>k E A. lives k (f E) A (\<lambda>E' B.
     (\<exists>i m v. E' = E\<lparr>depth_image := i, depth_mem := m, depth_view := v\<rparr>) \<and> B = A + depth_objects k E'))"

definition makes_frames :: "(example \<Rightarrow> example vk) \<Rightarrow> bool" where
  "makes_frames f = (\<forall>k E A. lives k (f E) A (\<lambda>E' B.
     (\<exists>fbs. E' = E\<lparr>frameBuffers := fbs\<rparr>) \<and> B = A + made k Framebuffers (frameBuffers E')))"

definition makes_pass :: "(example \<Rightarrow> example vk) \<Rightarrow> bool" where
  "makes_pass f = (\<forall>k E A. lives k (f E) A (\<lambda>E' B.
     (\<exists>p. E' = E\<lparr>renderPass := p\<rparr>) \<and> B = A + made k RenderPasses [renderPass E']))"

lemma lives_at: "A' = A \<Longrightarrow> lives k m A Q \<Longrightarrow> lives k m A' Q"
  by simp

lemma lives_bind_at: "A' = A \<Longrightarrow> lives k m A R \<Longrightarrow> (\<And>x B. R x B \<Longrightarrow> lives k (f x) B Q) \<Longrightarrow> lives k (bindV m f) A' Q"
  by (simp add: balances_bind)

lemma base_depth: "makes_depth setupDepthStencil"
  unfolding makes_depth_def setupDepthStencil_def
  apply (intro allI, rule lives_bind_make [where k' = Images], simp, simp)
  apply (rule lives_bind_calls, (intro only_intros; simp))
  apply (rule lives_bind_calls, (intro only_intros; simp))
  apply (rule lives_bind_make [where k' = MemoryBlocks], simp, simp)
  apply (rule lives_bind_calls, (intro only_intros; simp))
  apply (rule lives_bind_make [where k' = ImageViews], simp, simp)
  apply (rule balances_ret)
  by (auto simp: depth_objects_def ac_simps)

lemma lives_bind_index: "(\<And>x. lives k (f x) A Q) \<Longrightarrow> lives k (bindV (indexV xs i) f) A Q"
  by (rule lives_bind_calls) (intro only_intros)

lemma lives_map_made:
  assumes "\<And>x A. lives k (f x) A (\<lambda>h B. B = A + made k k' [h])"
  shows "lives k (mapV f xs) A (\<lambda>hs B. B = A + made k k' hs)"
proof (induction xs arbitrary: A)
  case (Cons x xs)
  show ?case unfolding mapV.simps
  proof (rule balances_bind [OF assms], rule balances_bind [OF Cons.IH])
    fix h B hs C assume "B = A + made k k' [h]" "C = B + made k k' hs"
    then show "lives k (retV (h # hs)) C (\<lambda>hs B. B = A + made k k' hs)"
      using made_append [of k k' "[h]" hs] by (intro balances_ret) (simp add: ac_simps)
  qed
qed (simp add: balances_ret)

lemma base_frames: "makes_frames setupFrameBuffer"
proof -
  have "lives k (bindV (indexV bs i) (\<lambda>b. VK_CHECK_RESULT (CreateFramebuffer dev (info b)))) A
      (\<lambda>h B. B = A + made k Framebuffers [h])" for k bs i dev info A
    by (rule lives_bind_index, rule balances_weaken [OF lives_make [where k' = Framebuffers]]) simp_all
  note each = lives_map_made [OF this]
  show ?thesis unfolding makes_frames_def setupFrameBuffer_def
    by (intro allI, rule balances_bind [OF each], rule balances_ret) auto
qed

lemma base_pass: "makes_pass setupRenderPass"
  unfolding makes_pass_def setupRenderPass_def
  by (intro allI, rule lives_bind_make [where k' = RenderPasses], simp, simp, rule balances_ret) auto

section \<open>A resize\<close>

lemma lives_setupSwapChain:
  assumes "surface (chain E) \<noteq> VK_NULL_HANDLE"
  shows "lives k (setupSwapChain E) (A + chain_objects k (chain E)) (\<lambda>E' B.
    (\<exists>C w h. E' = E\<lparr>chain := C, width := w, height := h\<rparr>) \<and> B = A + chain_objects k (chain E') \<and> swap_ok (chain E') \<and>
    surface (chain E') \<noteq> VK_NULL_HANDLE)"
  unfolding setupSwapChain_def
  by (rule balances_bind [OF lives_create [OF assms]]) (use assms in \<open>auto intro!: balances_ret\<close>)

lemma lives_destroy_depth: "lives k n A Q \<Longrightarrow> lives k (thenV (destroy_depth E) n) (A + depth_objects k E) Q"
proof (rule balances_then_eq)
  show "lives k (destroy_depth E) (A + depth_objects k E) (\<lambda>_ B. B = A)"
    unfolding destroy_depth_def depth_objects_def
    by (rule lives_at [OF _ lives_then_free [OF _ _ lives_then_free [OF _ _ lives_free]]]) (simp_all add: ac_simps)
qed

lemma lives_destroy_frames:
  "lives k n A Q \<Longrightarrow> lives k (thenV (destroy_framebuffers E) n) (A + made k Framebuffers (frameBuffers E)) Q"
  unfolding destroy_framebuffers_def
  by (rule lives_at [OF add.commute lives_then_free_all]) simp_all

lemma same_but_targetsI:
  "same_but_targets E (E\<lparr>chain := C, width := w, height := h, depth_image := i, depth_mem := m, depth_view := v, frameBuffers := fbs\<rparr>)"
  unfolding same_but_targets_def by blast

lemma lives_resize_targets:
  assumes "makes_depth (depth_setup H)" and "makes_frames (frame_setup H)" and "surface (chain E) \<noteq> VK_NULL_HANDLE"
  shows "lives k (resize_targets H E) (A + target_objects k E) (\<lambda>E' B. same_but_targets E E' \<and> B = A + target_objects k E' \<and>
    swap_ok (chain E') \<and> surface (chain E') \<noteq> VK_NULL_HANDLE)"
  unfolding resize_targets_def
proof (rule lives_then_calls [OF only_do], simp, rule lives_bind_at)
  let ?F = "made k Framebuffers (frameBuffers E)" and ?E0 = "E\<lparr>width := destWidth E, height := destHeight E\<rparr>"
  show "A + target_objects k E = (A + depth_objects k E + ?F) + chain_objects k (chain ?E0)" by (simp add: target_objects_def ac_simps)
  show "lives k (setupSwapChain ?E0) ((A + depth_objects k E + ?F) + chain_objects k (chain ?E0)) (\<lambda>E' B.
      (\<exists>C w h. E' = ?E0\<lparr>chain := C, width := w, height := h\<rparr>) \<and> B = (A + depth_objects k E + ?F) + chain_objects k (chain E') \<and>
      swap_ok (chain E') \<and> surface (chain E') \<noteq> VK_NULL_HANDLE)"
    by (rule lives_setupSwapChain) (simp add: assms(3))
  fix E1 B assume "(\<exists>C w h. E1 = ?E0\<lparr>chain := C, width := w, height := h\<rparr>) \<and> B = (A + depth_objects k E + ?F) + chain_objects k (chain E1) \<and>
      swap_ok (chain E1) \<and> surface (chain E1) \<noteq> VK_NULL_HANDLE"
  then obtain C w h where E1: "E1 = E\<lparr>chain := C, width := w, height := h\<rparr>" and B: "B = (A + ?F + chain_objects k C) + depth_objects k E1"
      and C: "swap_ok C" "surface C \<noteq> VK_NULL_HANDLE" by (auto simp: depth_objects_def ac_simps)
  show "lives k (thenV (destroy_depth E1) (bindV (depth_setup H E1) (\<lambda>E2. thenV (destroy_framebuffers E2) (frame_setup H E2)))) B
      (\<lambda>E' B. same_but_targets E E' \<and> B = A + target_objects k E' \<and> swap_ok (chain E') \<and> surface (chain E') \<noteq> VK_NULL_HANDLE)"
    unfolding B
  proof (rule lives_destroy_depth, rule balances_bind [OF assms(1) [unfolded makes_depth_def, rule_format]])
    fix E2 B2 assume "(\<exists>i m v. E2 = E1\<lparr>depth_image := i, depth_mem := m, depth_view := v\<rparr>) \<and> B2 = A + ?F + chain_objects k C + depth_objects k E2"
    then obtain i m v where E2: "E2 = E1\<lparr>depth_image := i, depth_mem := m, depth_view := v\<rparr>"
        and B2: "B2 = (A + chain_objects k C + depth_objects k E2) + made k Framebuffers (frameBuffers E2)" by (auto simp: E1 ac_simps)
    show "lives k (thenV (destroy_framebuffers E2) (frame_setup H E2)) B2
      (\<lambda>E' B. same_but_targets E E' \<and> B = A + target_objects k E' \<and> swap_ok (chain E') \<and> surface (chain E') \<noteq> VK_NULL_HANDLE)"
      unfolding B2
      by (rule lives_destroy_frames, rule balances_weaken [OF assms(2) [unfolded makes_frames_def, rule_format]])
        (use C in \<open>auto simp: same_but_targetsI E1 E2 target_objects_def depth_objects_def ac_simps\<close>)
  qed
qed

text \<open>What the hooks of an example that calls no overlay may do: make the targets, and nothing else that is owned.\<close>

definition life_hooks :: "hooks \<Rightarrow> bool" where
  "life_hooks H =
     (makes_depth (depth_setup H) \<and> makes_frames (frame_setup H) \<and> makes_pass (pass_setup H) \<and>
      (\<forall>E. only_calls (\<lambda>c. \<not> owning c) (buildCommandBuffers H E)) \<and> (\<forall>E. only_calls (\<lambda>c. \<not> owning c) (windowResized H E)) \<and>
      (\<forall>E. only_calls (\<lambda>c. \<not> owning c) (viewChanged H E)))"

lemma only_commands: "only (\<lambda>c. \<not> owning c) (createCommandBuffers E) (\<lambda>E'. \<exists>cs. E' = E\<lparr>drawCmdBuffers := cs\<rparr>)"
  unfolding createCommandBuffers_def Let_def
  by (rule only_bind [OF only_checked_query], simp, rule only_ret) blast

lemma only_renew_commands:
  assumes "life_hooks H" and "\<not> overlay E"
  shows "only (\<lambda>c. \<not> owning c) (renew_commands H E) (\<lambda>E'. \<exists>cs. E' = E\<lparr>drawCmdBuffers := cs\<rparr>)"
proof -
  have h: "only_calls (\<lambda>c. \<not> owning c) (buildCommandBuffers H E1)" "only_calls (\<lambda>c. \<not> owning c) (windowResized H E1)"
    "only_calls (\<lambda>c. \<not> owning c) (viewChanged H E1)" for E1 using assms(1) by (simp_all add: life_hooks_def)
  show ?thesis
    unfolding renew_commands_def destroyCommandBuffers_def
    apply (rule only_then, use assms(2) in \<open>simp add: only_ret\<close>)
    apply (rule only_then [OF only_do], simp, rule only_bind [OF only_commands])
    by (rule only_then [OF h(1)], rule only_then [OF only_do], simp, rule only_then [OF h(2)], rule only_then [OF h(3)], rule only_ret)
qed

lemma targets_keep:
  assumes "same_but_targets E E'"
  shows "opened_objects k E' = opened_objects k E" "prepared_objects k E' = prepared_objects k E" "kept_objects k E' = kept_objects k E"
    "overlay E' = overlay E"
  using assms by (auto simp: same_but_targets_def opened_objects_def prepared_objects_def kept_objects_def)

lemma targets_unprepared: "target_objects k (E\<lparr>prepared := b\<rparr>) = target_objects k E"
  by (simp add: target_objects_def depth_objects_def)

lemma base_objects_other [simp]:
  "base_objects k (E\<lparr>prepared := b\<rparr>) = base_objects k E" "base_objects k (E\<lparr>drawCmdBuffers := cs\<rparr>) = base_objects k E"
  "base_objects k (E\<lparr>currentBuffer := i\<rparr>) = base_objects k E" "base_objects k (E\<lparr>destWidth := w, destHeight := h\<rparr>) = base_objects k E"
  by (simp_all add: base_objects_def opened_objects_def target_objects_def depth_objects_def prepared_objects_def kept_objects_def)

lemma settled_other [simp]:
  "settled (E\<lparr>prepared := b\<rparr>) = settled E" "settled (E\<lparr>drawCmdBuffers := cs\<rparr>) = settled E"
  "settled (E\<lparr>currentBuffer := i\<rparr>) = settled E" "settled (E\<lparr>destWidth := w, destHeight := h\<rparr>) = settled E"
  by (simp_all add: settled_def)

lemma lives_windowResize:
  assumes "life_hooks H" and "settled E"
  shows "lives k (windowResize H E) (base_objects k E) (\<lambda>E' B. B = base_objects k E' \<and> settled E')"
proof (cases "prepared E")
  case True
  let ?E = "E\<lparr>prepared := False\<rparr>" and ?A = "opened_objects k E + prepared_objects k E + kept_objects k E"
  have t: "lives k (resize_targets H ?E) (?A + target_objects k ?E) (\<lambda>E' B. same_but_targets ?E E' \<and> B = ?A + target_objects k E' \<and>
      swap_ok (chain E') \<and> surface (chain E') \<noteq> VK_NULL_HANDLE)"
    by (rule lives_resize_targets) (use assms in \<open>simp_all add: life_hooks_def settled_def\<close>)
  have "lives k (bindV (resize_targets H ?E) (\<lambda>E1. bindV (renew_commands H E1) (\<lambda>E2. retV (E2\<lparr>prepared := True\<rparr>))))
      (?A + target_objects k ?E) (\<lambda>E' B. B = base_objects k E' \<and> settled E')"
  proof (rule balances_bind [OF t])
    fix E1 B assume a: "same_but_targets ?E E1 \<and> B = ?A + target_objects k E1 \<and> swap_ok (chain E1) \<and> surface (chain E1) \<noteq> VK_NULL_HANDLE"
    note same = targets_keep [OF conjunct1 [OF a]]
    have o: "\<not> overlay E1" using same(4) assms(2) by (simp add: settled_def)
    have "B = base_objects k E1" using a same(1-3) [of k]
      by (simp add: base_objects_def opened_objects_def prepared_objects_def kept_objects_def ac_simps)
    moreover have "settled E1" using a o by (simp add: settled_def)
    ultimately show "lives k (bindV (renew_commands H E1) (\<lambda>E2. retV (E2\<lparr>prepared := True\<rparr>))) B (\<lambda>E' B. B = base_objects k E' \<and> settled E')"
      by (intro lives_bind_quiet [OF only_renew_commands [OF assms(1) o]]) (auto intro!: balances_ret)
  qed
  moreover have "?A + target_objects k ?E = base_objects k E" by (simp add: base_objects_def targets_unprepared ac_simps)
  ultimately show ?thesis using True by (simp add: windowResize_def)
next
  case False
  then show ?thesis using assms(2) by (simp add: windowResize_def balances_ret)
qed

section \<open>Preparation\<close>

text \<open>What the constructor leaves: nothing held, no swap chain, no overlay.\<close>

definition unused :: "example \<Rightarrow> bool" where
  "unused E = (swapChain (chain E) = VK_NULL_HANDLE \<and> \<not> overlay E \<and> descriptorPool E = VK_NULL_HANDLE \<and> shaderModules E = [])"

lemma lives_initSwapchain:
  assumes "swapChain (chain E) = VK_NULL_HANDLE"
  shows "lives k (initSwapchain E connection window) A (\<lambda>E' B. (\<exists>C. E' = E\<lparr>chain := C\<rparr>) \<and> B = A + chain_objects k (chain E') \<and>
    surface (chain E') \<noteq> VK_NULL_HANDLE)"
  unfolding initSwapchain_def
  by (rule balances_bind [OF lives_initSurface [OF assms]]) (auto intro!: balances_ret)

lemma lives_sync:
  "lives k (createSynchronizationPrimitives E) A (\<lambda>E' B. (\<exists>fs. E' = E\<lparr>waitFences := fs\<rparr>) \<and> B = A + made k Fences (waitFences E'))"
  unfolding createSynchronizationPrimitives_def
  by (rule balances_bind [OF lives_make_all [where k' = Fences]]) (auto intro!: balances_ret)

lemma lives_pool:
  "lives k (ex_createCommandPool E) A (\<lambda>E' B. (\<exists>p. E' = E\<lparr>cmdPool := p\<rparr>) \<and> B = A + made k CommandPools [cmdPool E'])"
  unfolding ex_createCommandPool_def
  by (rule lives_bind_make [where k' = CommandPools], simp, simp, rule balances_ret) auto

lemma lives_cache:
  "lives k (createPipelineCache E) A (\<lambda>E' B. (\<exists>p. E' = E\<lparr>pipelineCache := p\<rparr>) \<and> B = A + made k PipelineCaches [pipelineCache E'])"
  unfolding createPipelineCache_def
  by (rule lives_bind_make [where k' = PipelineCaches], simp, simp, rule balances_ret) auto

lemma only_markers: "only (\<lambda>c. \<not> owning c) (load_markers E) (\<lambda>E'. \<exists>M. E' = E\<lparr>ex_markers := M\<rparr>)"
proof -
  have p: "only (\<lambda>c. \<not> owning c) (device_proc dev name) (\<lambda>_. True)" for dev name
    unfolding device_proc_def by (rule only_bind [OF only_call]) (simp_all add: split_def only_ret)
  have m: "only (\<lambda>c. \<not> owning c) (marker_setup dev) (\<lambda>_. True)" for dev
    unfolding marker_setup_def by (intro only_bind [OF p] only_ret TrueI)
  have "E = E\<lparr>ex_markers := ex_markers E\<rparr>" by simp
  then have "\<exists>M. E = E\<lparr>ex_markers := M\<rparr>" by (rule exI)
  then show ?thesis
    unfolding load_markers_def by (cases "enableDebugMarkers (vulkanDevice E)", simp_all only: if_True if_False)
      (rule only_bind [OF m], rule only_ret, rule exI, rule refl, rule only_ret)
qed

lemma lives_prepare:
  assumes "life_hooks H" and "unused E"
  shows "lives k (prepare H E connection window) (opened_objects k E) (\<lambda>E' B. B = base_objects k E' \<and> settled E' \<and>
    descriptorPool E' = VK_NULL_HANDLE)"
proof -
  let ?Q = "\<lambda>E' B. B = base_objects k E' \<and> settled E' \<and> descriptorPool E' = VK_NULL_HANDLE" and ?A = "opened_objects k E"
  have d: "lives k (depth_setup H E1) A (\<lambda>E' B. (\<exists>i m v. E' = E1\<lparr>depth_image := i, depth_mem := m, depth_view := v\<rparr>) \<and> B = A + depth_objects k E')"
    and f: "lives k (frame_setup H E1) A (\<lambda>E' B. (\<exists>fbs. E' = E1\<lparr>frameBuffers := fbs\<rparr>) \<and> B = A + made k Framebuffers (frameBuffers E'))"
    and p: "lives k (pass_setup H E1) A (\<lambda>E' B. (\<exists>p. E' = E1\<lparr>renderPass := p\<rparr>) \<and> B = A + made k RenderPasses [renderPass E'])" for E1 A
    using assms(1) by (simp_all add: life_hooks_def makes_depth_def makes_frames_def makes_pass_def)
  have null: "swapChain (chain E) = VK_NULL_HANDLE" using assms(2) by (simp add: unused_def)
  show ?thesis
    unfolding prepare_def
  proof (rule lives_bind_quiet [OF only_markers], elim exE, rule balances_bind [OF lives_initSwapchain], simp add: null,
      elim conjE exE, rule balances_bind [OF lives_pool], elim conjE exE)
    fix E0 M E1 B1 C1 E2 B2 q
    assume 0: "E0 = E\<lparr>ex_markers := M\<rparr>"
      and 1: "E1 = E0\<lparr>chain := C1\<rparr>" "B1 = ?A + chain_objects k (chain E1)" "surface (chain E1) \<noteq> VK_NULL_HANDLE"
      and 2: "E2 = E1\<lparr>cmdPool := q\<rparr>" "B2 = B1 + made k CommandPools [cmdPool E2]"
    have B2: "B2 = (?A + made k CommandPools [q]) + chain_objects k (chain E2)" and s2: "surface (chain E2) \<noteq> VK_NULL_HANDLE"
      using 0 1 2 by (simp_all add: ac_simps)
    show "lives k (bindV (setupSwapChain E2) (\<lambda>E3. bindV (createCommandBuffers E3) (\<lambda>E4. bindV (createSynchronizationPrimitives E4)
      (\<lambda>E5. bindV (depth_setup H E5) (\<lambda>E6. bindV (pass_setup H E6) (\<lambda>E7. bindV (createPipelineCache E7) (\<lambda>E8. bindV (frame_setup H E8)
      (\<lambda>E9. retV (E9\<lparr>overlay := overlay E9 \<and> \<not> benchmark_active E9\<rparr>)))))))) ) B2 ?Q"
      unfolding B2
    proof (rule balances_bind [OF lives_setupSwapChain [OF s2]], elim conjE exE, rule lives_bind_quiet [OF only_commands], elim exE,
        rule balances_bind [OF lives_sync], elim conjE exE, rule balances_bind [OF d], elim conjE exE,
        rule balances_bind [OF p], elim conjE exE, rule balances_bind [OF lives_cache], elim conjE exE,
        rule balances_bind [OF f], elim conjE exE, rule balances_ret)
      fix E3 B3 C w h E4 cs E5 B5 fs E6 B6 i m v E7 B7 rp E8 B8 pc E9 B9 fbs
      assume e: "E3 = E2\<lparr>chain := C, width := w, height := h\<rparr>" "E4 = E3\<lparr>drawCmdBuffers := cs\<rparr>" "E5 = E4\<lparr>waitFences := fs\<rparr>"
          "E6 = E5\<lparr>depth_image := i, depth_mem := m, depth_view := v\<rparr>" "E7 = E6\<lparr>renderPass := rp\<rparr>" "E8 = E7\<lparr>pipelineCache := pc\<rparr>"
          "E9 = E8\<lparr>frameBuffers := fbs\<rparr>"
        and b: "B3 = ?A + made k CommandPools [q] + chain_objects k (chain E3)" "B5 = B3 + made k Fences (waitFences E5)"
          "B6 = B5 + depth_objects k E6" "B7 = B6 + made k RenderPasses [renderPass E7]"
          "B8 = B7 + made k PipelineCaches [pipelineCache E8]" "B9 = B8 + made k Framebuffers (frameBuffers E9)"
        and s: "swap_ok (chain E3)" "surface (chain E3) \<noteq> VK_NULL_HANDLE"
      have u: "\<not> overlay E" "descriptorPool E = VK_NULL_HANDLE" "shaderModules E = []" using assms(2) by (simp_all add: unused_def)
      have "B9 = base_objects k E9" unfolding b e 2(1) 1(1) 0
        by (simp add: base_objects_def opened_objects_def target_objects_def depth_objects_def prepared_objects_def kept_objects_def u ac_simps)
      then show "?Q (E9\<lparr>overlay := overlay E9 \<and> \<not> benchmark_active E9\<rparr>) B9"
        using s u by (simp add: e 0 1(1) 2(1) settled_def base_objects_def opened_objects_def target_objects_def depth_objects_def
            prepared_objects_def kept_objects_def)
    qed
  qed
qed

section \<open>The start\<close>

lemma lives_instance:
  assumes "unused (base A)"
  shows "lives k (createInstance ENABLE_VALIDATION A) {#} (\<lambda>(r, A1) B. r = VK_SUCCESS \<longrightarrow>
    B = made k Instances [instance_handle (base A1)] \<and> unused (base A1) \<and> \<not> validation (start A1))"
  unfolding createInstance_def ENABLE_VALIDATION_def Let_def
  apply (rule lives_bind_quiet [where R = "\<lambda>_. True"], simp add: only_ret)
  apply (rule balances_bind [OF lives_call [where k' = Instances]], simp, simp)
  using assms by (auto intro!: balances_ret simp: unused_def)

lemma only_properties:
  "only (\<lambda>c. \<not> owning c) (read_properties pd A) (\<lambda>A'. \<exists>m. base A' = (base A)\<lparr>memoryProperties := m\<rparr>)"
  unfolding read_properties_def
  by (rule only_bind [OF only_query], simp, rule only_then [OF only_do], simp, rule only_bind [OF only_query], simp, rule only_ret) auto

lemma lives_open_device:
  "lives k (open_device D infos features exts next swap) A (\<lambda>(r, D') B. r = VK_SUCCESS \<longrightarrow>
     B = A + made k Devices [logicalDevice D'] + made k CommandPools [commandPool D'])"
  unfolding open_device_def Let_def
proof (rule balances_bind [OF lives_call [where k' = Devices]], simp, simp, clarify)
  fix r dev
  let ?D = "D\<lparr>enableDebugMarkers := extensionSupported D ''VK_EXT_debug_marker'' \<or> enableDebugMarkers D\<rparr>"
  show "lives k (bindV (if r = VK_SUCCESS
        then bindV (createCommandPool (?D\<lparr>logicalDevice := dev\<rparr>) (qf_graphics (?D\<lparr>logicalDevice := dev\<rparr>))
               VK_COMMAND_POOL_CREATE_RESET_COMMAND_BUFFER_BIT) (\<lambda>p. retV (?D\<lparr>logicalDevice := dev, commandPool := p\<rparr>))
        else retV ?D) (\<lambda>D3. retV (r, D3\<lparr>enabledFeatures := features\<rparr>)))
      (A + (if r = VK_SUCCESS then made k Devices [dev] else {#}))
      (\<lambda>(r, D') B. r = VK_SUCCESS \<longrightarrow> B = A + made k Devices [logicalDevice D'] + made k CommandPools [commandPool D'])"
  proof (cases "r = VK_SUCCESS")
    case True
    then show ?thesis
      apply (simp add: createCommandPool_def)
      by (rule balances_bind [where R = "\<lambda>D3 B. B = A + made k Devices [logicalDevice D3] + made k CommandPools [commandPool D3]"],
          rule lives_bind_make [where k' = CommandPools], simp, simp, auto intro!: balances_ret)
  next
    case False
    then show ?thesis by (simp add: bindV_def run_simps balances_def)
  qed
qed

lemma lives_logical:
  "lives k (createLogicalDevice D features exts next swap req) A (\<lambda>(r, D') B. r = VK_SUCCESS \<longrightarrow>
     B = A + made k Devices [logicalDevice D'] + made k CommandPools [commandPool D'])"
  unfolding createLogicalDevice_def
  by (rule lives_bind_calls [OF only_queues(1)], clarify, rule lives_bind_calls [OF only_queues(2)], clarify,
      rule lives_bind_calls [OF only_queues(3)], clarify, rule lives_open_device)

lemma lives_open_logical:
  "lives k (open_logical U pd A) X (\<lambda>A' B. unused (base A') = unused (base A) \<and> instance_handle (base A') = instance_handle (base A) \<and>
     B = X + made k Devices [logicalDevice (vulkanDevice (base A'))] + made k CommandPools [commandPool (vulkanDevice (base A'))])"
  unfolding open_logical_def Let_def
proof (rule lives_bind_calls, intro only_startup lets_quiet, rule balances_bind [OF lives_logical], clarify)
  fix D r B and D1 :: vulkan_device
  assume "r = VK_SUCCESS \<longrightarrow> B = X + made k Devices [logicalDevice D1] + made k CommandPools [commandPool D1]"
  then show "lives k (if r \<noteq> VK_SUCCESS then exitFatal (''Could not create Vulkan device: '' @ ''\<newline>'' @ errorString r) r
      else retV (in_base (\<lambda>E. E\<lparr>vulkanDevice := D1, ex_device := logicalDevice D1\<rparr>) A)) B
      (\<lambda>A' B. unused (base A') = unused (base A) \<and> instance_handle (base A') = instance_handle (base A) \<and>
        B = X + made k Devices [logicalDevice (vulkanDevice (base A'))] + made k CommandPools [commandPool (vulkanDevice (base A'))])"
    by (auto intro!: balances_ret simp: unused_def)
qed

lemma only_connect: "only (\<lambda>c. \<not> owning c) (connect C inst pd dev) (\<lambda>C'. swapChain C' = swapChain C)"
proof -
  have l: "only_calls (\<lambda>c. \<not> owning c) (mapV (\<lambda>n. load_proc (g n) n) ns)" if "\<And>n. \<not> owning (g n)" for g :: "string \<Rightarrow> vk_call" and ns
    unfolding load_proc_def by (intro only_intros) (rule that)
  show ?thesis unfolding connect_def
    by (rule only_bind [OF l], simp, rule only_bind [OF l], simp, rule only_ret) simp
qed

lemma lives_frame_objects:
  assumes "unused (base A)"
  shows "lives k (frame_objects pd A) X (\<lambda>A' B. unused (base A') \<and> vulkanDevice (base A') = vulkanDevice (base A) \<and>
    instance_handle (base A') = instance_handle (base A) \<and>
    B = X + made k Semaphores [presentComplete (base A')] + made k Semaphores [renderComplete (base A')])"
  unfolding frame_objects_def Let_def split_beta
  apply (rule lives_bind_calls, intro only_intros, simp)
  apply (rule lives_bind_calls, intro only_startup lets_quiet)
  apply (rule lives_then_calls, intro only_intros)
  apply (rule lives_bind_quiet [OF only_connect])
  apply (rule lives_bind_make [where k' = Semaphores], simp, simp)
  apply (rule lives_bind_make [where k' = Semaphores], simp, simp)
  apply (rule balances_ret)
  using assms by (simp add: unused_def)

lemma lives_initVulkan:
  fixes A :: "'a app_scheme"
  assumes "unused (base A)"
  shows "lives k (initVulkan args U A) {#} (\<lambda>A' B. B = opened_objects k (base A') \<and> unused (base A'))"
  unfolding initVulkan_def
proof (rule balances_bind [OF lives_instance [OF assms]], clarify)
  fix r B and A1 :: "'a app_scheme"
  assume 1: "r = VK_SUCCESS \<longrightarrow> B = made k Instances [instance_handle (base A1)] \<and> unused (base A1) \<and> \<not> validation (start A1)"
  let ?Q = "\<lambda>A' B. B = opened_objects k (base A') \<and> unused (base A')"
  have "lives k (bindV (if validation (start A1) then setupDebugging (instance_handle (base A1)) A1 else retV A1) (\<lambda>A2.
      bindV (physical_device args (instance_handle (base A2))) (\<lambda>pd. bindV (read_properties pd A2) (\<lambda>A3.
      bindV (open_logical U pd A3) (\<lambda>A4. frame_objects pd A4))))) B ?Q" if "r = VK_SUCCESS"
  proof -
    note B = 1 [rule_format, OF that]
    have "lives k (bindV (open_logical U pd A3) (\<lambda>A4. frame_objects pd A4)) B ?Q" if "base A3 = (base A1)\<lparr>memoryProperties := m\<rparr>"
      for pd m and A3 :: "'a app_scheme"
    proof (rule balances_bind [OF lives_open_logical], elim conjE)
      fix C and A4 :: "'a app_scheme"
      assume 4: "C = B + made k Devices [logicalDevice (vulkanDevice (base A4))] + made k CommandPools [commandPool (vulkanDevice (base A4))]"
        "unused (base A4) = unused (base A3)" "instance_handle (base A4) = instance_handle (base A3)"
      then have "unused (base A4)" "instance_handle (base A4) = instance_handle (base A1)" using B \<open>base A3 = _\<close> by (simp_all add: unused_def)
      then show "lives k (frame_objects pd A4) C ?Q"
        by (intro balances_weaken [OF lives_frame_objects]) (use 4 B in \<open>simp_all add: opened_objects_def ac_simps\<close>)
    qed
    then have "lives k (bindV (physical_device args (instance_handle (base A1))) (\<lambda>pd. bindV (read_properties pd A1) (\<lambda>A3.
        bindV (open_logical U pd A3) (\<lambda>A4. frame_objects pd A4)))) B ?Q"
      by (intro lives_bind_calls [OF only_startup(1)] lives_bind_quiet [OF only_properties]) auto
    then show ?thesis using B by (simp add: bindV_def run_simps)
  qed
  then show "lives k (if r \<noteq> VK_SUCCESS then exitFatal (''Could not create Vulkan instance : '' @ ''\<newline>'' @ errorString r) r
      else bindV (if validation (start A1) then setupDebugging (instance_handle (base A1)) A1 else retV A1) (\<lambda>A2.
      bindV (physical_device args (instance_handle (base A2))) (\<lambda>pd. bindV (read_properties pd A2) (\<lambda>A3.
      bindV (open_logical U pd A3) (\<lambda>A4. frame_objects pd A4))))) B ?Q" by simp
qed

text \<open>The command line and the window touch nothing that is held.\<close>

lemma unused_parsed:
  fixes A :: "'a app_scheme"
  shows "unused (base (parsed args A i)) = unused (base A)"
proof -
  have "unused (base (flag_arg a A)) = unused (base A)" for a and A :: "'a app_scheme" by (simp add: flag_arg_def Let_def unused_def)
  moreover have "unused (base (sized args i A)) = unused (base A)" for A :: "'a app_scheme"
    by (simp add: sized_def Let_def unused_def split: option.split)
  moreover have "unused (base (bench_arg args i A)) = unused (base A)" for A :: "'a app_scheme" by (simp add: bench_arg_def Let_def unused_def)
  ultimately show ?thesis by (simp add: parsed_def)
qed

lemma unused_parsed_all: "unused (base (parsed_all args js A)) = unused (base A)"
  unfolding parsed_all_def by (induction js arbitrary: A) (simp_all add: unused_parsed)

lemma only_parse: "only (\<lambda>c. \<not> owning c) (parse_args args A) (\<lambda>A'. unused (base A') = unused (base A))"
  unfolding only_def parse_args_def using parse_from_eq [of 0 args A] by (auto simp: unused_parsed_all split: if_splits)

lemma only_construction:
  fixes A :: "'a app_scheme"
  shows "only (\<lambda>c. \<not> owning c) (VulkanExampleBase found args screens A) (\<lambda>A'. unused (base A') = unused (base A))"
proof -
  have "only (\<lambda>c. \<not> owning c) (initxcbConnection screens B) (\<lambda>A'. base A' = base B)" for B :: "'a app_scheme"
    unfolding initxcbConnection_def split_beta
    by (rule only_bind [OF only_query], simp, cases rule: bool.exhaust)
      (auto intro!: only_fail only_bind [OF only_index] only_ret)
  then have "only (\<lambda>c. \<not> owning c) (initxcbConnection screens B) (\<lambda>A'. unused (base A') = unused (base A))"
    if "unused (base B) = unused (base A)" for B :: "'a app_scheme"
    by (rule only_weaken) (simp_all add: that)
  then show ?thesis
    unfolding VulkanExampleBase_def by (auto intro: only_fail only_bind [OF only_parse])
qed

lemma unused_default: "unused (base (default_members A))"
  by (simp add: unused_def default_members_def)

lemma only_window:
  "only (\<lambda>c. \<not> owning c) (setupWindow A) (\<lambda>A'. (\<forall>k. opened_objects k (base A') = opened_objects k (base A)) \<and>
     unused (base A') = unused (base A))"
proof -
  have i: "only_calls (\<lambda>c. \<not> owning c) (intern_atom conn e name)" "only_calls (\<lambda>c. \<not> owning c) (the_atom a)" for conn e name a
    unfolding intern_atom_def the_atom_def by (intro only_intros; simp)+
  have f: "only_calls (\<lambda>c. \<not> owning c) (if b then full_screen conn win else retV ())" for b conn win
    unfolding full_screen_def by (intro only_intros i; simp)
  have w: "opened_objects k (base A\<lparr>width := w, destWidth := w', height := h, destHeight := h'\<rparr>) = opened_objects k (base A)"
    "unused (base A\<lparr>width := w, destWidth := w', height := h, destHeight := h'\<rparr>) = unused (base A)" for k w w' h h'
    by (simp_all add: opened_objects_def unused_def)
  show ?thesis
    unfolding setupWindow_def Let_def split_beta
    apply (rule only_bind [OF only_query], simp)
    apply (rule only_then [OF only_do], simp)
    apply (rule only_bind [OF i(1)], rule only_bind [OF i(1)], rule only_bind [OF i(2)], rule only_bind [OF i(2)])
    apply (rule only_then [OF only_do], simp)
    apply (rule only_then [OF only_do], simp)
    apply (rule only_then [OF f], rule only_then [OF only_do], simp)
    by (rule only_ret) (simp add: w)
qed

section \<open>The end\<close>

lemma lives_free_if:
  assumes "frees k c = (if k = k' then Some h else None)" and "\<not> makes k c"
  shows "lives k (if h \<noteq> VK_NULL_HANDLE then doV c else retV ()) (made k k' [h] + A) (\<lambda>_ B. B = A)"
  using lives_free [OF assms, of A] by (cases "h = VK_NULL_HANDLE") (simp_all add: balances_ret add.commute)

lemma lives_then_free_if:
  assumes "frees k c = (if k = k' then Some h else None)" and "\<not> makes k c" and "lives k n A Q"
  shows "lives k (thenV (if h \<noteq> VK_NULL_HANDLE then doV c else retV ()) n) (made k k' [h] + A) Q"
  by (rule balances_then_eq [OF lives_free_if [OF assms(1,2)] assms(3)])

lemma lives_destroy_device:
  "lives k (destroy_device D) (made k CommandPools [commandPool D] + (made k Devices [logicalDevice D] + A)) (\<lambda>_ B. B = A)"
  unfolding destroy_device_def
  by (rule lives_then_free_if, simp, simp, rule lives_free_if) simp_all

lemma lives_destroy_resources:
  assumes "settled E"
  shows "lives k (destroy_resources H E) (base_objects k E) (\<lambda>_ B. B = made k Instances [instance_handle E])"
proof -
  let ?pool = "made k DescriptorPools [descriptorPool E]" and ?mods = "made k ShaderModules (shaderModules E)"
  let ?A = "?pool + (made k RenderPasses [renderPass E] + (made k Framebuffers (frameBuffers E) + (?mods + (depth_objects k E +
    (made k PipelineCaches [pipelineCache E] + (made k CommandPools [cmdPool E] + (made k Semaphores [presentComplete E] +
    (made k Semaphores [renderComplete E] + (made k Fences (waitFences E) + (made k CommandPools [commandPool (vulkanDevice E)] +
    (made k Devices [logicalDevice (vulkanDevice E)] + made k Instances [instance_handle E])))))))))))"
  have b: "base_objects k E = ?A + chain_objects k (chain E)"
    by (simp add: base_objects_def opened_objects_def target_objects_def prepared_objects_def kept_objects_def ac_simps)
  have c: "lives k (cleanup (chain E)) (?A + chain_objects k (chain E)) (\<lambda>_ B. B = ?A)"
    by (rule lives_cleanup) (use assms in \<open>simp add: settled_def\<close>)
  have o: "\<not> overlay E" using assms by (simp add: settled_def)
  have f: "lives k n A Q \<Longrightarrow> lives k (thenV (destroy_framebuffers E) n) (made k Framebuffers (frameBuffers E) + A) Q"
    and z: "lives k n A Q \<Longrightarrow> lives k (thenV (destroy_depth E) n) (depth_objects k E + A) Q" for n A and Q :: "unit \<Rightarrow> handle multiset \<Rightarrow> bool"
    using lives_destroy_frames [of k n A Q E] lives_destroy_depth [of k n A Q E] by (simp_all add: add.commute)
  show ?thesis
    unfolding destroy_resources_def destroyCommandBuffers_def
    apply (rule lives_bind_at [OF b c], hypsubst)
    apply (rule lives_then_free_if, simp, simp, rule lives_then_calls [OF only_do], simp)
    apply (rule lives_then_free, simp, simp, rule f, rule lives_then_free_all, simp, simp, rule z)
    apply (rule lives_then_free, simp, simp)
    apply (rule lives_then_free, simp, simp)
    apply (rule lives_then_free, simp, simp)
    apply (rule lives_then_free, simp, simp)
    apply (rule lives_then_free_all, simp, simp)
    apply (rule lives_then_calls, use o in \<open>simp add: only_ret\<close>)
    by (rule lives_destroy_device)
qed

lemma lives_destroy_app:
  assumes "settled (base A)"
  shows "lives k (destroy_app V A) (base_objects k (base A)) (\<lambda>_ B. B = {#})"
proof -
  have v: "only_calls (\<lambda>c. \<not> owning c) (if validation (start A) then freeDebugCallback i (start A) else retV ())" for i
    unfolding freeDebugCallback_def by (intro only_intros; simp)
  have "lives k (thenV (doV (DestroyInstance (instance_handle (base A)))) (
         thenV (doV (XcbDestroyWindow (the_connection (start A)) (the_window (start A))))
         (doV (XcbDisconnect (the_connection (start A)))))) (made k Instances [instance_handle (base A)] + {#}) (\<lambda>_ B. B = {#})"
    by (rule lives_then_free, simp, simp, rule lives_calls, intro only_intros; simp)
  then show ?thesis
    unfolding destroy_app_def
    by (intro balances_then_eq [OF lives_destroy_resources [OF assms]] lives_then_calls [OF v]) simp
qed

end
