(* ===== verification/VkLifeRun.thy ===== *)
theory VkLifeRun
  imports VkLife
begin

text \<open>
  Whole runs of a program, from its construction to its end: the contract of a class derived from the base, the loop
  for any class that keeps it, and the triangle, whose runs free every object they make.
\<close>

section \<open>Derived classes\<close>

text \<open>What an object of a derived class holds, \<open>own\<close> giving what it adds to its base.\<close>

definition class_objects :: "(object_kind \<Rightarrow> 'a app_scheme \<Rightarrow> handle multiset) \<Rightarrow> object_kind \<Rightarrow> 'a app_scheme \<Rightarrow> handle multiset" where
  "class_objects own k A = base_objects k (base A) + own k A"

text \<open>An operation that exchanges objects, but for the state it leaves them in holds what it should.\<close>

definition settles :: "(object_kind \<Rightarrow> 'a app_scheme \<Rightarrow> handle multiset) \<Rightarrow> 'a app_scheme \<Rightarrow> 'a app_scheme vk \<Rightarrow> bool" where
  "settles own A m = (settled (base A) \<longrightarrow>
     (\<forall>k. lives k m (class_objects own k A) (\<lambda>A' B. settled (base A') \<and> B = class_objects own k A')))"

lemma settlesD: "settles own A m \<Longrightarrow> settled (base A) \<Longrightarrow>
    lives k m (class_objects own k A) (\<lambda>A' B. settled (base A') \<and> B = class_objects own k A')"
  by (simp add: settles_def)

lemma settles_bind:
  assumes "settles own A m" and "\<And>A'. settles own A' (f A')"
  shows "settles own A (bindV m f)"
  unfolding settles_def
proof (intro impI allI)
  fix k assume "settled (base A)"
  from settlesD [OF assms(1) this]
  show "lives k (bindV m f) (class_objects own k A) (\<lambda>A' B. settled (base A') \<and> B = class_objects own k A')"
    by (rule balances_bind) (use settlesD [OF assms(2)] in blast)
qed

locale derived_class =
  fixes V :: "'a virtuals"
    and own :: "object_kind \<Rightarrow> 'a app_scheme \<Rightarrow> handle multiset"
  assumes depth: "makes_depth (v_setupDepthStencil V)"
    and frames: "makes_frames (v_setupFrameBuffer V)"
    and pass: "makes_pass (v_setupRenderPass V)"
    and build: "only_calls (\<lambda>c. \<not> owning c) (v_buildCommandBuffers V A)"
    and resized: "only_calls (\<lambda>c. \<not> owning c) (v_windowResized V A)"
    and changed: "only_calls (\<lambda>c. \<not> owning c) (v_viewChanged V A)"
    and own_members: "app.more A' = app.more A \<Longrightarrow> own k A' = own k A"
    and render: "settles own A (v_render V A)"
    and key: "settles own A (v_keyPressed V A c)"
    and mouse: "settled (base A) \<Longrightarrow> lives k (v_mouseMoved V A x y b) (class_objects own k A)
      (\<lambda>(A', _) B. settled (base A') \<and> B = class_objects own k A')"
begin

lemma hooks: "life_hooks (hooks_at V A)"
  unfolding life_hooks_def hooks_at_def using depth frames pass build resized changed by simp

lemma same_members:
  assumes "base A' = base A" and "app.more A' = app.more A"
  shows "class_objects own k A' = class_objects own k A"
  unfolding class_objects_def assms(1) own_members [OF assms(2)] by (rule refl)

lemma keeps_quiet:
  assumes "only (\<lambda>c. \<not> owning c) m (\<lambda>A'. base A' = base A \<and> app.more A' = app.more A)"
  shows "settles own A m"
  unfolding settles_def
proof (intro impI allI)
  fix k assume s: "settled (base A)"
  show "lives k m (class_objects own k A) (\<lambda>A' B. settled (base A') \<and> B = class_objects own k A')"
  proof (rule balances_weaken [OF lives_quiet [OF assms]])
    fix A' B assume a: "(base A' = base A \<and> app.more A' = app.more A) \<and> B = class_objects own k A"
    then have "class_objects own k A' = class_objects own k A" by (intro same_members) simp_all
    then show "settled (base A') \<and> B = class_objects own k A'" using a s by simp
  qed
qed

lemma keeps_ret: "base A' = base A \<Longrightarrow> app.more A' = app.more A \<Longrightarrow> settles own A (retV A')"
  by (intro keeps_quiet only_ret) simp

text \<open>An operation may be started from another state with the same objects.\<close>

lemma keeps_from:
  assumes "base A1 = base A" and "app.more A1 = app.more A" and "settles own A1 m"
  shows "settles own A m"
  using assms(3) unfolding settles_def same_members [OF assms(1,2)] assms(1) .

lemma keeps_resize: "settles own A (on_base (windowResize (hooks_at V A1)) A)"
  unfolding settles_def on_base_def
proof (intro impI allI)
  fix k assume s: "settled (base A)"
  have f: "lives k (windowResize (hooks_at V A1) (base A)) (class_objects own k A)
      (\<lambda>E' C. \<exists>B. C = B + own k A \<and> B = base_objects k E' \<and> settled E')"
    unfolding class_objects_def by (rule balances_frame [OF lives_windowResize [OF hooks s]])
  show "lives k (bindV (windowResize (hooks_at V A1) (base A)) (\<lambda>E. retV (A\<lparr>base := E\<rparr>))) (class_objects own k A)
      (\<lambda>A' B. settled (base A') \<and> B = class_objects own k A')"
  proof (rule balances_bind [OF f], elim exE conjE)
    fix E C B assume "C = B + own k A" "B = base_objects k E" "settled E"
    moreover have "own k (A\<lparr>base := E\<rparr>) = own k A" by (rule own_members) (cases A, simp)
    ultimately show "lives k (retV (A\<lparr>base := E\<rparr>)) C (\<lambda>A' B. settled (base A') \<and> B = class_objects own k A')"
      by (intro balances_ret) (simp add: class_objects_def)
  qed
qed

lemma keeps_configure: "settles own A (configure V w h A)"
proof -
  have "settles own A (on_base (windowResize (hooks_at V A1)) A1)" if "A1 = A\<lparr>base := (base A)\<lparr>destWidth := w, destHeight := h\<rparr>\<rparr>" for A1
  proof -
    have "class_objects own k A1 = class_objects own k A" for k
      unfolding that class_objects_def using own_members [of "A\<lparr>base := (base A)\<lparr>destWidth := w, destHeight := h\<rparr>\<rparr>" A k] by (cases A) simp
    moreover have "settled (base A1) = settled (base A)" by (simp add: that)
    ultimately show ?thesis using keeps_resize [of A1 A1] unfolding settles_def by simp
  qed
  moreover have "settles own A (retV (A\<lparr>base := (base A)\<lparr>destWidth := w, destHeight := h\<rparr>\<rparr>))"
    unfolding settles_def class_objects_def
    using own_members [of "A\<lparr>base := (base A)\<lparr>destWidth := w, destHeight := h\<rparr>\<rparr>" A] by (cases A) (auto intro!: balances_ret)
  ultimately show ?thesis unfolding configure_def Let_def by (auto intro: keeps_ret)
qed

lemma input_members:
  "base (set_button i down A) = base A" "app.more (set_button i down A) = app.more A"
  "base (set_key c down A) = base A" "app.more (set_key c down A) = app.more A"
  by (cases A, simp add: set_button_def set_key_def)+

lemma keeps_mouse: "settles own A (handleMouseMove V b x y A)"
  unfolding settles_def handleMouseMove_def Let_def
proof (intro impI allI)
  fix k assume s: "settled (base A)"
  show "lives k (bindV (v_mouseMoved V A x y (overlay (base A) \<and> b)) (\<lambda>(A1, handled).
      retV (A1\<lparr>camera_moves := camera_moves A1 @ (if handled then [] else moves_for (fst (mousePos A) - x) (snd (mousePos A) - y) A1),
        viewUpdated := viewUpdated A1 \<or> (if handled then [] else moves_for (fst (mousePos A) - x) (snd (mousePos A) - y) A1) \<noteq> [],
        mousePos := (x, y)\<rparr>))) (class_objects own k A) (\<lambda>A' B. settled (base A') \<and> B = class_objects own k A')"
  proof (rule balances_bind [OF mouse [OF s]], clarify)
    fix handled and A1 :: "'a app_scheme"
    let ?A = "A1\<lparr>camera_moves := camera_moves A1 @ (if handled then [] else moves_for (fst (mousePos A) - x) (snd (mousePos A) - y) A1),
        viewUpdated := viewUpdated A1 \<or> (if handled then [] else moves_for (fst (mousePos A) - x) (snd (mousePos A) - y) A1) \<noteq> [],
        mousePos := (x, y)\<rparr>"
    assume "settled (base A1)"
    moreover have "class_objects own k ?A = class_objects own k A1" by (rule same_members) (cases A1, simp)+
    ultimately show "lives k (retV ?A) (class_objects own k A1) (\<lambda>A' B. settled (base A') \<and> B = class_objects own k A')"
      by (intro balances_ret) simp
  qed
qed

lemma keeps_key_press: "settles own A (retV (key_press c A))"
  unfolding settles_def
proof (intro impI allI)
  fix k assume s: "settled (base A)"
  then have "base (key_press c A) = base A" "app.more (key_press c A) = app.more A"
    by (cases A, simp add: key_press_def input_members settled_def set_key_def)+
  then show "lives k (retV (key_press c A)) (class_objects own k A) (\<lambda>A' B. settled (base A') \<and> B = class_objects own k A')"
    using same_members [of "key_press c A" A k] s by (intro balances_ret) simp
qed

lemma keeps_key_release: "settles own A (key_release V c A)"
  unfolding key_release_def
  by (rule keeps_from [OF _ _ key]) (cases A, simp add: set_key_def)+

lemma keeps_handleEvent: "settles own A (handleEvent V e A)"
  unfolding handleEvent_def Let_def
  using keeps_mouse keeps_key_press keeps_key_release keeps_configure by (auto intro!: keeps_ret simp: input_members)

lemma keeps_events: "settles own A (handle_events V es A)"
proof (induction es arbitrary: A)
  case (Cons e es)
  show ?case unfolding handle_events.simps by (rule settles_bind [OF keeps_handleEvent Cons.IH])
qed (simp add: keeps_ret)

lemma keeps_begin: "settles own A (begin_frame V A)"
  unfolding begin_frame_def Let_def
  by (rule keeps_quiet) (auto intro!: only_then [OF changed] only_ret; cases A; simp)

lemma keeps_end: "settles own A (end_frame V f A)"
proof -
  have c: "settles own A1 (count_frame f A1)" for A1
    unfolding count_frame_def show_rate_def Let_def
    by (rule keeps_quiet, cases A1) (auto intro!: only_then only_ret only_do)
  have u: "settles own A1 (updateOverlay V l A1)" for A1 l
  proof (cases "overlay (base A1)")
    case True
    then show ?thesis by (simp add: settles_def settled_def)
  next
    case False
    then show ?thesis by (simp add: updateOverlay_def keeps_ret)
  qed
  show ?thesis unfolding end_frame_def by (intro settles_bind render c u)
qed

lemma keeps_loop: "settles own A (event_loop V fs A)"
proof (induction fs arbitrary: A)
  case (Cons f fs)
  have "settles own A (loop_frame V f A)"
    unfolding loop_frame_def by (intro settles_bind keeps_begin keeps_events keeps_end)
  then show ?case by (auto intro: keeps_ret settles_bind Cons.IH)
qed (simp add: keeps_ret)

lemma keeps_renders: "settles own A (render_times V n A)"
  by (induction n arbitrary: A) (auto intro: keeps_ret settles_bind render)

lemma keeps_benchmark: "settles own A (benchmark_loop V n A)"
  unfolding benchmark_loop_def
  by (intro settles_bind keeps_renders keeps_quiet only_then only_do only_ret) simp_all

text \<open>The render loop of any such class hands back what it was given.\<close>

lemma keeps_renderLoop:
  assumes "settled (base A)"
  shows "lives k (renderLoop V n fs A) (class_objects own k A) (\<lambda>(A', _) B. settled (base A') \<and> B = class_objects own k A')"
proof (cases "benchmark_active (base A)")
  case True
  have "lives k (bindV (benchmark_loop V n A) (\<lambda>A1. retV (A1, True))) (class_objects own k A)
      (\<lambda>(A', _) B. settled (base A') \<and> B = class_objects own k A')"
    by (rule balances_bind [OF settlesD [OF keeps_benchmark assms]]) (auto intro!: balances_ret)
  then show ?thesis using True by (simp add: renderLoop_def)
next
  case False
  let ?A = "start_loop A"
  have same: "class_objects own k ?A = class_objects own k A" "settled (base ?A)"
    using assms own_members [of ?A A k] by (cases A, simp add: start_loop_def class_objects_def)+
  have "lives k (bindV (event_loop V fs ?A) (\<lambda>A1.
      if quit A1 then thenV (if ex_device (base A1) \<noteq> VK_NULL_HANDLE then doV (DeviceWaitIdle (ex_device (base A1))) else retV ()) (retV (A1, True))
      else retV (A1, False))) (class_objects own k ?A) (\<lambda>(A', _) B. settled (base A') \<and> B = class_objects own k A')"
  proof (rule balances_bind [OF settlesD [OF keeps_loop same(2)]])
    fix A1 B assume a: "settled (base A1) \<and> B = class_objects own k A1"
    have "only_calls (\<lambda>c. \<not> owning c) (if ex_device (base A1) \<noteq> VK_NULL_HANDLE then doV (DeviceWaitIdle (ex_device (base A1))) else retV ())"
      by (intro only_intros) simp
    then have "lives k (thenV (if ex_device (base A1) \<noteq> VK_NULL_HANDLE then doV (DeviceWaitIdle (ex_device (base A1))) else retV ()) (retV (A1, True)))
        B (\<lambda>(A', _) B. settled (base A') \<and> B = class_objects own k A')"
      using a by (intro lives_then_calls balances_ret) simp_all
    then show "lives k (if quit A1 then thenV (if ex_device (base A1) \<noteq> VK_NULL_HANDLE then doV (DeviceWaitIdle (ex_device (base A1))) else retV ()) (retV (A1, True))
      else retV (A1, False)) B (\<lambda>(A', _) B. settled (base A') \<and> B = class_objects own k A')"
      using a by (simp add: balances_ret)
  qed
  then show ?thesis using False same(1) by (simp add: renderLoop_def)
qed

text \<open>
  A whole run, given that the constructor leaves the base as it was, that \<open>prepare\<close> and the destructor of the class make
  and free what it holds.
\<close>

lemma main_frees:
  assumes "\<And>A. base (constructor A) = base A"
    and prep: "\<And>A. unused (base A) \<Longrightarrow> lives k (prepareV A) (opened_objects k (base A))
      (\<lambda>A' B. settled (base A') \<and> B = class_objects own k A')"
    and ends: "\<And>A. lives k (destructor A) (class_objects own k A) (\<lambda>_ B. B = base_objects k (base A))"
  shows "lives k (VULKAN_EXAMPLE_MAIN V constructor prepareV destructor found args screens U n fs A) {#} (\<lambda>r B. r \<longrightarrow> B = {#})"
  unfolding VULKAN_EXAMPLE_MAIN_def
proof (rule lives_bind_quiet [OF only_construction])
  fix A1 :: "'a app_scheme"
  assume "unused (base A1) = unused (base (default_members A))"
  then have u: "unused (base (constructor A1))" by (simp add: unused_default assms(1))
  show "lives k (bindV (initVulkan args U (constructor A1)) (\<lambda>A2. bindV (setupWindow A2) (\<lambda>A3. bindV (prepareV A3) (\<lambda>A4.
      bindV (renderLoop V n fs A4) (\<lambda>(A5, returned).
        if returned then thenV (destructor A5) (thenV (destroy_app V A5) (retV True)) else retV False))))) {#} (\<lambda>r B. r \<longrightarrow> B = {#})"
  proof (rule balances_bind [OF lives_initVulkan [OF u]], elim conjE, rule lives_bind_quiet [OF only_window], elim conjE)
    fix B and A2 A3 :: "'a app_scheme"
    assume B: "B = opened_objects k (base A2)" "unused (base A2)"
      and 3: "\<forall>k. opened_objects k (base A3) = opened_objects k (base A2)" "unused (base A3) = unused (base A2)"
    have p: "lives k (prepareV A3) B (\<lambda>A' B. settled (base A') \<and> B = class_objects own k A')"
      using prep [of A3] B 3 by simp
    show "lives k (bindV (prepareV A3) (\<lambda>A4. bindV (renderLoop V n fs A4) (\<lambda>(A5, returned).
        if returned then thenV (destructor A5) (thenV (destroy_app V A5) (retV True)) else retV False))) B (\<lambda>r B. r \<longrightarrow> B = {#})"
    proof (rule balances_bind [OF p], elim conjE)
      fix C and A4 :: "'a app_scheme"
      assume 4: "settled (base A4)" "C = class_objects own k A4"
      show "lives k (bindV (renderLoop V n fs A4) (\<lambda>(A5, returned).
          if returned then thenV (destructor A5) (thenV (destroy_app V A5) (retV True)) else retV False)) C (\<lambda>r B. r \<longrightarrow> B = {#})"
        unfolding 4(2)
      proof (rule balances_bind [OF keeps_renderLoop [OF 4(1)]], clarify)
        fix returned and A5 :: "'a app_scheme"
        assume 5: "settled (base A5)"
        have "lives k (thenV (destructor A5) (thenV (destroy_app V A5) (retV True))) (class_objects own k A5) (\<lambda>r B. r \<longrightarrow> B = {#})"
          by (intro balances_then_eq [OF ends] balances_then_eq [OF lives_destroy_app [OF 5]] balances_ret) simp
        then show "lives k (if returned then thenV (destructor A5) (thenV (destroy_app V A5) (retV True)) else retV False)
            (class_objects own k A5) (\<lambda>r B. r \<longrightarrow> B = {#})" by (simp add: balances_ret)
      qed
    qed
  qed
qed

end

end
