(* ===== verification/VkTriLife.thy ===== *)
theory VkTriLife
  imports VkLifeRun
begin

text \<open>
  The triangle from its start to its end: every object of every kind that a run makes is freed before it ends, and none
  is freed twice.
\<close>

section \<open>What the triangle holds\<close>

definition buffer_objects :: "object_kind \<Rightarrow> memory_buffer \<Rightarrow> handle multiset" where
  "buffer_objects k b = made k Buffers [mb_buffer b] + made k MemoryBlocks [mb_memory b]"

definition tri_objects :: "object_kind \<Rightarrow> triangle \<Rightarrow> handle multiset" where
  "tri_objects k T =
     made k Pipelines [tri_pipeline T] + (made k PipelineLayouts [tri_pipelineLayout T] + (made k SetLayouts [tri_setLayout T] +
     (buffer_objects k (tri_vertices T) + (buffer_objects k (tri_indices T) + (buffer_objects k (tri_uniform T) +
     (made k Semaphores [presentCompleteSemaphore T] + (made k Semaphores [renderCompleteSemaphore T] +
      made k Fences (tri_waitFences T))))))))"

lemma tri_members: "app.more T' = app.more T \<Longrightarrow> tri_objects k T' = tri_objects k T"
  by (cases T, cases T') (simp add: tri_objects_def)

section \<open>Buffers\<close>

lemma only_type_index [only_intros]: "only_calls P (getMemoryTypeIndex E tb props)"
proof -
  have "only_calls P (type_index_loop ts tb props i n)" for ts tb i n
    by (induction n arbitrary: tb i) (auto intro: only_intros)
  then show ?thesis by (simp add: getMemoryTypeIndex_def split: prod.split)
qed

lemma only_host_bytes [only_intros]: "P (HostWrite p bytes) \<Longrightarrow> only_calls P (host_write p bytes)"
  unfolding host_write_def by (intro only_intros)

lemma lives_host_buffer: "lives k (host_buffer E usage bytes whole) A (\<lambda>b B. B = A + buffer_objects k b)"
  unfolding host_buffer_def Let_def
  apply (rule lives_bind_make [where k' = Buffers], simp, simp)
  apply (rule lives_bind_calls, (intro only_intros; simp))
  apply (rule lives_bind_calls, (intro only_intros; simp))
  apply (rule lives_bind_make [where k' = MemoryBlocks], simp, simp)
  apply (rule lives_bind_calls, (intro only_intros; simp))
  apply (rule lives_then_calls, (intro only_intros; simp))
  apply (rule lives_then_calls, (intro only_intros; simp))
  apply (rule lives_bind_calls, (intro only_intros; simp))
  by (rule balances_ret) (simp add: buffer_objects_def ac_simps)

lemma lives_device_buffer: "lives k (device_buffer E usage n) A (\<lambda>b B. B = A + buffer_objects k b)"
  unfolding device_buffer_def Let_def
  apply (rule lives_bind_make [where k' = Buffers], simp, simp)
  apply (rule lives_bind_calls, (intro only_intros; simp))
  apply (rule lives_bind_calls, (intro only_intros; simp))
  apply (rule lives_bind_make [where k' = MemoryBlocks], simp, simp)
  apply (rule lives_bind_calls, (intro only_intros; simp))
  by (rule balances_ret) (simp add: buffer_objects_def ac_simps)

lemma lives_free_buffer: "lives k n A Q \<Longrightarrow> lives k (thenV (free_buffer E b) n) (buffer_objects k b + A) Q"
proof (rule balances_then_eq)
  show "lives k (free_buffer E b) (buffer_objects k b + A) (\<lambda>_ B. B = A)"
    unfolding free_buffer_def buffer_objects_def
    by (rule lives_at [OF _ lives_then_free [OF _ _ lives_free]]) (simp_all add: ac_simps)
qed

text \<open>The fence of a flush lives as long as the flush.\<close>

lemma lives_flush: "lives k n A Q \<Longrightarrow> lives k (thenV (tri_flushCommandBuffer E cmd) n) A Q"
proof (rule balances_then_eq)
  show "lives k (tri_flushCommandBuffer E cmd) A (\<lambda>_ B. B = A)"
    unfolding tri_flushCommandBuffer_def
    apply (rule lives_then_calls, (intro only_intros; simp))
    apply (rule lives_bind_calls, (intro only_intros; simp))
    apply (rule lives_bind_make [where k' = Fences], simp, simp)
    apply (rule lives_bind_calls, (intro only_intros; simp))
    apply (rule lives_bind_calls, (intro only_intros; simp))
    by (rule lives_at [OF add.commute lives_then_free]) (simp_all add: lives_calls only_do)
qed

lemma lives_vertices:
  "lives k (prepareVertices True T) A (\<lambda>T' B. (\<exists>n v i. T' = T\<lparr>tri_count := n, tri_vertices := v, tri_indices := i\<rparr>) \<and>
     B = A + buffer_objects k (tri_vertices T') + buffer_objects k (tri_indices T'))"
proof -
  have c: "only_calls (\<lambda>c. \<not> owning c) (getCommandBuffer E b)" for E b unfolding getCommandBuffer_def by (intro only_intros; simp)
  show ?thesis
    unfolding prepareVertices_def Let_def if_True
    apply (rule balances_bind [OF lives_host_buffer], hypsubst, rule balances_bind [OF lives_device_buffer], hypsubst)
    apply (rule balances_bind [OF lives_host_buffer], hypsubst, rule balances_bind [OF lives_device_buffer], hypsubst)
    apply (rule lives_bind_calls [OF c])
    apply (rule lives_then_calls, (intro only_intros; simp))
    apply (rule lives_then_calls, (intro only_intros; simp))
    apply (rule lives_flush)
    subgoal for sv C1 v C2 si C3 i
      apply (rule lives_at [where A = "buffer_objects k sv + (buffer_objects k si + (A + buffer_objects k v + buffer_objects k i))"])
      apply (simp add: ac_simps)
      by (rule lives_free_buffer, rule lives_free_buffer, rule balances_ret) auto
    done
qed

lemma lives_uniform:
  "lives k (tri_prepareUniformBuffers mats T) A (\<lambda>T' B. (\<exists>u d. T' = T\<lparr>tri_uniform := u, tri_descriptor := d\<rparr>) \<and>
     B = A + buffer_objects k (tri_uniform T'))"
  unfolding tri_prepareUniformBuffers_def Let_def tri_updateUniformBuffers_def
  apply (rule lives_bind_make [where k' = Buffers], simp, simp)
  apply (rule lives_bind_calls, (intro only_intros; simp))
  apply (rule lives_bind_calls, (intro only_intros; simp))
  apply (rule lives_bind_make [where k' = MemoryBlocks], simp, simp)
  apply (rule lives_bind_calls, (intro only_intros; simp))
  apply (rule lives_then_calls, (intro only_intros; simp))
  by (rule balances_ret) (auto simp: buffer_objects_def ac_simps)

section \<open>Fences, layouts, pipeline and descriptors\<close>

lemma lives_tri_sync:
  "lives k (prepareSynchronizationPrimitives T) A (\<lambda>T' B.
     (\<exists>p r fs. T' = T\<lparr>presentCompleteSemaphore := p, renderCompleteSemaphore := r, tri_waitFences := fs\<rparr>) \<and>
     B = A + made k Semaphores [presentCompleteSemaphore T'] + made k Semaphores [renderCompleteSemaphore T'] +
       made k Fences (tri_waitFences T'))"
  unfolding prepareSynchronizationPrimitives_def
  apply (rule lives_bind_make [where k' = Semaphores], simp, simp)
  apply (rule lives_bind_make [where k' = Semaphores], simp, simp)
  apply (rule balances_bind [OF lives_make_all [where k' = Fences]], simp, simp)
  by (rule balances_ret) auto

lemma lives_layouts:
  "lives k (tri_setupDescriptorSetLayout T) A (\<lambda>T' B. (\<exists>l p. T' = T\<lparr>tri_setLayout := l, tri_pipelineLayout := p\<rparr>) \<and>
     B = A + made k SetLayouts [tri_setLayout T'] + made k PipelineLayouts [tri_pipelineLayout T'])"
  unfolding tri_setupDescriptorSetLayout_def
  apply (rule lives_bind_make [where k' = SetLayouts], simp, simp)
  apply (rule lives_bind_make [where k' = PipelineLayouts], simp, simp)
  by (rule balances_ret) auto

lemma lives_shader: "lives k (loadSPIRVShader fs dev name) A (\<lambda>m B. B = A + made k ShaderModules [m])"
proof (cases "fs name")
  case (Some code)
  have "lives k (VK_CHECK_RESULT (CreateShaderModule dev code)) A (\<lambda>m B. B = A + made k ShaderModules [m])"
    by (rule balances_weaken [OF lives_make [where k' = ShaderModules]]) simp_all
  then show ?thesis unfolding loadSPIRVShader_def Some option.case by (intro lives_then_calls) (intro only_intros)
qed (simp add: loadSPIRVShader_def balances_ret)

text \<open>The two shader modules are freed once the pipeline is made.\<close>

lemma lives_pipeline:
  "lives k (tri_preparePipelines fs assets T) A (\<lambda>T' B. (\<exists>p. T' = T\<lparr>tri_pipeline := p\<rparr>) \<and> B = A + made k Pipelines [tri_pipeline T'])"
  unfolding tri_preparePipelines_def
  apply (rule balances_bind [OF lives_shader], hypsubst, rule lives_then_calls, intro only_intros)
  apply (rule balances_bind [OF lives_shader], hypsubst, rule lives_then_calls, intro only_intros)
  apply (rule lives_bind_make [where k' = Pipelines], simp, simp)
  subgoal for v B1 f B2 p
    apply (rule lives_at [where A = "made k ShaderModules [v] + (made k ShaderModules [f] + (A + made k Pipelines [p]))"])
    apply (simp add: ac_simps)
    apply (rule lives_then_free, simp, simp, rule lives_then_free, simp, simp)
    by (rule balances_ret) auto
  done

lemma lives_descriptor_pool:
  "lives k (tri_setupDescriptorPool T) A (\<lambda>T' B. (\<exists>p. T' = T\<lparr>base := (base T)\<lparr>descriptorPool := p\<rparr>\<rparr>) \<and>
     B = A + made k DescriptorPools [descriptorPool (base T')])"
  unfolding tri_setupDescriptorPool_def
  by (rule lives_bind_make [where k' = DescriptorPools], simp, simp, rule balances_ret) auto

lemma only_set: "only (\<lambda>c. \<not> owning c) (tri_setupDescriptorSet T) (\<lambda>T'. \<exists>s. T' = T\<lparr>tri_set := s\<rparr>)"
  unfolding tri_setupDescriptorSet_def Let_def
  by (rule only_bind [OF only_check], simp, rule only_then [OF only_do], simp, rule only_ret) blast

lemma only_tri_build: "only_calls (\<lambda>c. \<not> owning c) (tri_buildCommandBuffers T)"
  unfolding tri_buildCommandBuffers_def Let_def by (intro only_intros; simp)

section \<open>The class keeps the contract\<close>

lemma tri_depth_made: "makes_depth tri_setupDepthStencil"
  unfolding makes_depth_def tri_setupDepthStencil_def
  apply (intro allI, rule lives_bind_make [where k' = Images], simp, simp)
  apply (rule lives_bind_calls, (intro only_intros; simp))
  apply (rule lives_bind_calls, (intro only_intros; simp))
  apply (rule lives_bind_make [where k' = MemoryBlocks], simp, simp)
  apply (rule lives_bind_calls, (intro only_intros; simp))
  apply (rule lives_bind_make [where k' = ImageViews], simp, simp)
  apply (rule balances_ret)
  by (auto simp: depth_objects_def ac_simps)

lemma tri_pass_made: "makes_pass tri_setupRenderPass"
  unfolding makes_pass_def tri_setupRenderPass_def
  by (intro allI, rule lives_bind_make [where k' = RenderPasses], simp, simp, rule balances_ret) auto

lemma only_acquire [only_intros]: "P (AcquireNextImage (sc_device C) (swapChain C) UINT64_MAX sem) \<Longrightarrow> only_calls P (acquireNextImage C sem)"
  by (simp add: only_def acquireNextImage_def bindV_def run_simps)

lemma only_present: "only_calls (\<lambda>c. \<not> owning c) (queuePresent C q i sem)"
  unfolding queuePresent_def by (intro only_intros; simp)

lemma only_tri_render: "only (\<lambda>c. \<not> owning c) (tri_render T) (\<lambda>T'. T' = T \<or> (\<exists>i. T' = T\<lparr>base := (base T)\<lparr>currentBuffer := i\<rparr>\<rparr>))"
proof -
  have c: "only_calls (\<lambda>c. \<not> owning c) (check_result r)" for r unfolding check_result_def by (intro only_intros)
  have a: "only_calls (\<lambda>c. \<not> owning c) (acquireNextImage C sem)" for C sem by (intro only_intros) simp
  have "only (\<lambda>c. \<not> owning c) (tri_draw T) (\<lambda>T'. \<exists>i. T' = T\<lparr>base := (base T)\<lparr>currentBuffer := i\<rparr>\<rparr>)"
    unfolding tri_draw_def Let_def split_beta
    apply (rule only_bind [OF a], rule only_then [OF c], rule only_bind [OF only_index])
    apply (rule only_bind [OF only_check], simp, rule only_bind [OF only_check], simp, rule only_bind [OF only_index])
    apply (rule only_bind [OF only_check], simp, rule only_bind [OF only_present], rule only_then [OF c], rule only_ret)
    by blast
  then have "only (\<lambda>c. \<not> owning c) (tri_draw T) (\<lambda>T'. T' = T \<or> (\<exists>i. T' = T\<lparr>base := (base T)\<lparr>currentBuffer := i\<rparr>\<rparr>))"
    by (rule only_weaken) simp_all
  then show ?thesis by (simp add: tri_render_def only_ret)
qed

lemma tri_render_settles: "settles tri_objects T (tri_render T)"
  unfolding settles_def
proof (intro impI allI)
  fix k assume s: "settled (base T)"
  show "lives k (tri_render T) (class_objects tri_objects k T) (\<lambda>T' B. settled (base T') \<and> B = class_objects tri_objects k T')"
  proof (rule balances_weaken [OF lives_quiet [OF only_tri_render]])
    fix T' B assume a: "(T' = T \<or> (\<exists>i. T' = T\<lparr>base := (base T)\<lparr>currentBuffer := i\<rparr>\<rparr>)) \<and> B = class_objects tri_objects k T"
    moreover have "tri_objects k (T\<lparr>base := E\<rparr>) = tri_objects k T" for E by (rule tri_members) (cases T, simp)
    ultimately show "settled (base T') \<and> B = class_objects tri_objects k T'" using s by (auto simp: class_objects_def)
  qed
qed

lemma tri_settles_ret: "settles tri_objects T (retV T)"
  by (simp add: settles_def balances_ret)

interpretation tri: derived_class "triangle_virtuals mats" tri_objects
proof
  fix T T' :: triangle and k c x y b
  have u: "only_calls (\<lambda>c. \<not> owning c) (tri_updateUniformBuffers mats T)"
    unfolding tri_updateUniformBuffers_def by (intro only_intros; simp)
  show "makes_depth (v_setupDepthStencil (triangle_virtuals mats))" "makes_frames (v_setupFrameBuffer (triangle_virtuals mats))"
      "makes_pass (v_setupRenderPass (triangle_virtuals mats))"
    by (simp_all add: triangle_virtuals_def tri_depth_made tri_pass_made tri_frames_eq base_frames)
  show "only_calls (\<lambda>c. \<not> owning c) (v_buildCommandBuffers (triangle_virtuals mats) T)"
      "only_calls (\<lambda>c. \<not> owning c) (v_windowResized (triangle_virtuals mats) T)"
      "only_calls (\<lambda>c. \<not> owning c) (v_viewChanged (triangle_virtuals mats) T)"
    by (simp_all add: triangle_virtuals_def only_tri_build only_ret u)
  show "tri_objects k T' = tri_objects k T" if "app.more T' = app.more T" using that by (rule tri_members)
  show "settles tri_objects T (v_render (triangle_virtuals mats) T)" "settles tri_objects T (v_keyPressed (triangle_virtuals mats) T c)"
    by (simp_all add: triangle_virtuals_def tri_render_settles tri_settles_ret)
  show "lives k (v_mouseMoved (triangle_virtuals mats) T x y b) (class_objects tri_objects k T)
      (\<lambda>(T', _) B. settled (base T') \<and> B = class_objects tri_objects k T')" if "settled (base T)"
    using that by (simp add: triangle_virtuals_def balances_ret)
qed

section \<open>Preparation and destruction\<close>

lemma lives_prepare_base:
  assumes "unused (base T)"
  shows "lives k (prepare_app (triangle_virtuals mats) fs assets font connection window T) (opened_objects k (base T))
    (\<lambda>T' B. B = base_objects k (base T') \<and> settled (base T') \<and> descriptorPool (base T') = VK_NULL_HANDLE)"
  unfolding prepare_app_def on_base_def
proof (rule balances_bind)
  let ?Q = "\<lambda>T' B. B = base_objects k (base T') \<and> settled (base T') \<and> descriptorPool (base T') = VK_NULL_HANDLE"
  show "lives k (bindV (prepare (hooks_at (triangle_virtuals mats) T) (base T) connection window) (\<lambda>E. retV (T\<lparr>base := E\<rparr>)))
      (opened_objects k (base T)) ?Q"
    by (rule balances_bind [OF lives_prepare [OF tri.hooks assms]]) (rule balances_ret, simp)
  fix T1 B assume a: "?Q T1 B"
  then have "\<not> overlay (base T1)" by (simp add: settled_def)
  then show "lives k (if overlay (base T1) then prepare_overlay fs assets font T1 else retV T1) B ?Q" using a by (simp add: balances_ret)
qed

lemma tri_objects_of:
  assumes "tri_vertices T = v" "tri_indices T = i" "tri_uniform T = u" "tri_pipeline T = p" "tri_pipelineLayout T = l" "tri_setLayout T = s"
    "presentCompleteSemaphore T = a" "renderCompleteSemaphore T = b" "tri_waitFences T = fs"
  shows "tri_objects k T = made k Semaphores [a] + made k Semaphores [b] + made k Fences fs + buffer_objects k v + buffer_objects k i +
    buffer_objects k u + made k SetLayouts [s] + made k PipelineLayouts [l] + made k Pipelines [p]"
  unfolding tri_objects_def assms by (simp add: ac_simps)

lemma lives_tri_prepare:
  assumes "unused (base T)"
  shows "lives k (tri_prepare mats fs assets font connection window T) (opened_objects k (base T))
    (\<lambda>T' B. settled (base T') \<and> B = class_objects tri_objects k T')"
  unfolding tri_prepare_def USE_STAGING_def
proof (rule balances_bind [OF lives_prepare_base [OF assms]], elim conjE, rule balances_bind [OF lives_tri_sync], elim conjE exE,
    rule balances_bind [OF lives_vertices], elim conjE exE, rule balances_bind [OF lives_uniform], elim conjE exE,
    rule balances_bind [OF lives_layouts], elim conjE exE, rule balances_bind [OF lives_pipeline], elim conjE exE,
    rule balances_bind [OF lives_descriptor_pool], elim conjE exE, rule lives_bind_quiet [OF only_set], elim exE,
    rule lives_then_calls [OF only_tri_build], rule balances_ret)
  fix T1 T2 T3 T4 T5 T6 T7 T8 :: triangle and B1 B2 B3 B4 B5 B6 B7 pa ra wf n v i u de sl pl pi dp se
  assume t: "T2 = T1\<lparr>presentCompleteSemaphore := pa, renderCompleteSemaphore := ra, tri_waitFences := wf\<rparr>"
      "T3 = T2\<lparr>tri_count := n, tri_vertices := v, tri_indices := i\<rparr>" "T4 = T3\<lparr>tri_uniform := u, tri_descriptor := de\<rparr>"
      "T5 = T4\<lparr>tri_setLayout := sl, tri_pipelineLayout := pl\<rparr>" "T6 = T5\<lparr>tri_pipeline := pi\<rparr>"
      "T7 = T6\<lparr>base := (base T6)\<lparr>descriptorPool := dp\<rparr>\<rparr>" "T8 = T7\<lparr>tri_set := se\<rparr>"
    and b: "B1 = base_objects k (base T1)"
      "B2 = B1 + made k Semaphores [presentCompleteSemaphore T2] + made k Semaphores [renderCompleteSemaphore T2] + made k Fences (tri_waitFences T2)"
      "B3 = B2 + buffer_objects k (tri_vertices T3) + buffer_objects k (tri_indices T3)" "B4 = B3 + buffer_objects k (tri_uniform T4)"
      "B5 = B4 + made k SetLayouts [tri_setLayout T5] + made k PipelineLayouts [tri_pipelineLayout T5]"
      "B6 = B5 + made k Pipelines [tri_pipeline T6]" "B7 = B6 + made k DescriptorPools [descriptorPool (base T7)]"
    and s: "settled (base T1)" "descriptorPool (base T1) = VK_NULL_HANDLE"
  let ?T = "T8\<lparr>base := (base T8)\<lparr>prepared := True\<rparr>\<rparr>"
  have "base ?T = (base T1)\<lparr>descriptorPool := dp, prepared := True\<rparr>" by (simp add: t)
  then have e: "settled (base ?T)" "base_objects k (base ?T) = base_objects k (base T1) + made k DescriptorPools [dp]"
    using s by (simp_all add: settled_def base_objects_def opened_objects_def target_objects_def depth_objects_def prepared_objects_def
        kept_objects_def ac_simps)
  have "tri_objects k ?T = made k Semaphores [pa] + made k Semaphores [ra] + made k Fences wf + buffer_objects k v + buffer_objects k i +
    buffer_objects k u + made k SetLayouts [sl] + made k PipelineLayouts [pl] + made k Pipelines [pi]"
    by (rule tri_objects_of) (simp_all add: t)
  then have "B7 = class_objects tri_objects k ?T" unfolding class_objects_def e(2) b by (simp add: t ac_simps)
  then show "settled (base ?T) \<and> B7 = class_objects tri_objects k ?T" using e(1) by simp
qed

lemma lives_tri_destroy: "lives k (tri_destroy T) (class_objects tri_objects k T) (\<lambda>_ B. B = base_objects k (base T))"
proof -
  let ?A = "made k Pipelines [tri_pipeline T] + (made k PipelineLayouts [tri_pipelineLayout T] + (made k SetLayouts [tri_setLayout T] +
     (buffer_objects k (tri_vertices T) + (buffer_objects k (tri_indices T) + (buffer_objects k (tri_uniform T) +
     (made k Semaphores [presentCompleteSemaphore T] + (made k Semaphores [renderCompleteSemaphore T] +
      (base_objects k (base T) + made k Fences (tri_waitFences T)))))))))"
  have "class_objects tri_objects k T = ?A" by (simp add: class_objects_def tri_objects_def ac_simps)
  moreover have "lives k (tri_destroy T) ?A (\<lambda>_ B. B = base_objects k (base T))"
    unfolding tri_destroy_def Let_def
    apply (rule lives_then_free, simp, simp, rule lives_then_free, simp, simp, rule lives_then_free, simp, simp)
    apply (rule lives_free_buffer, rule lives_free_buffer, rule lives_free_buffer)
    apply (rule lives_then_free, simp, simp, rule lives_then_free, simp, simp)
    by (rule lives_free_all) simp_all
  ultimately show ?thesis by simp
qed

section \<open>Whole runs\<close>

text \<open>
  C5. A run of the triangle frees everything it makes. Whatever the command line asks for, whatever happens at the
  window and whatever the driver answers, when \<open>main\<close> comes to its end, every object that it made, of each of the
  nineteen kinds, has been freed exactly once, and at no point had more been freed than was made. The driver is one that
  writes a handle where it reports success.
\<close>

theorem triangle_frees_everything:
  assumes "VULKAN_EXAMPLE_MAIN (triangle_virtuals mats) tri_construct
      (\<lambda>T. tri_prepare mats fs assets font (the_connection (start T)) (the_window (start T)) T) tri_destroy
      found args screens U n frames T d lg = Inr (True, lg')" and "nonnull d"
  shows "\<exists>es. lg' = lg @ es \<and> (\<forall>k.
    gathered (made_by (makes k)) es = gathered (freed_by (frees k)) es \<and>
    (\<forall>i. gathered (freed_by (frees k)) (take i es) \<subseteq># gathered (made_by (makes k)) (take i es)))"
proof -
  have l: "lives k (VULKAN_EXAMPLE_MAIN (triangle_virtuals mats) tri_construct
      (\<lambda>T. tri_prepare mats fs assets font (the_connection (start T)) (the_window (start T)) T) tri_destroy
      found args screens U n frames T) {#} (\<lambda>r B. r \<longrightarrow> B = {#})" for k
    by (rule tri.main_frees [OF _ lives_tri_prepare lives_tri_destroy]) (simp_all add: tri_construct_def)
  have "\<exists>es. lg' = lg @ es \<and> owns (made_by (makes k)) (freed_by (frees k)) es {#} {#}" for k
    using balances_D [OF l assms(2,1)] by blast
  then show ?thesis unfolding owns_def by (intro exI [of _ "drop (length lg) lg'"]) fastforce
qed

end
