(* ===== verification/VkTriLive.thy ===== *)
theory VkTriLive
  imports VkTriLife
begin

text \<open>A run of the triangle from its start to its end, under a driver that succeeds: a benchmark of one frame.\<close>

section \<open>Construction and window\<close>

definition demo_screens :: "screen list" where
  "demo_screens = replicate 3 (the_screen demo_startup)"

lemma start_construction:
  fixes A :: "'a app_scheme"
  shows "finishes start_driver (VulkanExampleBase True [''demo'', ''-b''] demo_screens A) (\<lambda>A'. benchmark_active (base A') \<and>
    overlay (base A') = overlay (base A) \<and> swapChain (chain (base A')) = swapChain (chain (base A)))"
proof -
  let ?P = "parsed_all [''demo'', ''-b''] [0 ..< length [''demo'', ''-b'']] A"
  have "parse_args [''demo'', ''-b''] A d lg = Inr (?P, lg)" for d lg
    using parse_from_eq [of 0 "[''demo'', ''-b'']" A d lg] by (simp add: parse_args_def size_names_def)
  moreover have "benchmark_active (base ?P) \<and> overlay (base ?P) = overlay (base A) \<and> swapChain (chain (base ?P)) = swapChain (chain (base A))"
    by (simp add: parsed_all_def upt_rec parsed_def bench_arg_def sized_def flag_arg_def Let_def)
  ultimately show ?thesis
    by (simp add: VulkanExampleBase_def initxcbConnection_def finishes_def bindV_def run_simps query_eq index_eq start_handle
        demo_screens_def) (simp add: start_driver_simps in_start_def numeral_3_eq_3)
qed

lemma start_atoms:
  "finishes start_driver (intern_atom conn e name) (\<lambda>a. a \<noteq> None)" "a \<noteq> None \<Longrightarrow> finishes start_driver (the_atom a) (\<lambda>_. True)"
  by (auto simp: intern_atom_def the_atom_def finishes_def bindV_def run_simps query_eq start_driver_simps)

lemma start_full: "finishes start_driver (if b then full_screen conn win else retV ()) (\<lambda>_. True)"
  unfolding full_screen_def
  by (auto intro!: finishes_ret finishes_do finishes_bind [OF start_atoms(1)] finishes_bind [OF start_atoms(2)])

lemma start_window: "finishes start_driver (setupWindow A) (\<lambda>A'. starts_as (base A) (base A'))"
  unfolding setupWindow_def Let_def split_beta
  apply (rule finishes_bind [OF finishes_query])
  apply (rule finishes_then [OF finishes_do])
  apply (rule finishes_bind [OF start_atoms(1)], rule finishes_bind [OF start_atoms(1)])
  apply (rule finishes_bind [OF start_atoms(2)], assumption, rule finishes_bind [OF start_atoms(2)], assumption)
  apply (rule finishes_then [OF finishes_do])
  apply (rule finishes_then [OF finishes_do])
  apply (rule finishes_then [OF start_full], rule finishes_then [OF finishes_do])
  by (rule finishes_ret) simp

section \<open>Preparation\<close>

lemma start_surface: "finishes start_driver (initSurface C connection window) (\<lambda>C'. swapChain C' = swapChain C)"
  by (simp add: initSurface_def surface_support_def select_queue_def select_format_def finishes_def bindV_def thenV_def run_simps query_eq
      checked_query_eq assert_eq index_eq Let_def start_driver_simps written_count_def filled_array_def upt_rec)

lemma start_create:
  assumes "swapChain C = VK_NULL_HANDLE"
  shows "finishes start_driver (create C w h v) (\<lambda>(C', _). imageCount C' = 2 \<and> 2 \<le> length (buffers C'))"
  using assms
  by (simp add: create_def make_buffers_def finishes_def bindV_def thenV_def run_simps query_eq
      checked_query_eq check_eq assert_eq index_eq Let_def start_driver_simps written_count_def filled_array_def upt_rec)

text \<open>Two images, the memory types of the driver and no overlay.\<close>

definition two_images :: "example \<Rightarrow> bool" where
  [simp]: "two_images E = (memoryProperties E = (2, [6, 7]) \<and> \<not> overlay E \<and> benchmark_active E \<and>
     imageCount (chain E) = 2 \<and> 2 \<le> length (buffers (chain E)))"

lemmas start_check = finishes_check [OF start_successful]

lemma start_handle_check: "\<not> frame_call c \<Longrightarrow> finishes start_driver (VK_CHECK_RESULT c) (\<lambda>h. h \<noteq> 0)"
  using start_successful by (simp add: finishes_def check_eq successful_def start_handle)

lemma start_reqs: "finishes start_driver (queryV reqs_of c) (\<lambda>r. r_typeBits r = 7)"
  by (simp add: finishes_def query_eq start_driver_simps)

lemma start_type:
  assumes "memoryProperties E = (2, [6, 7])" and "tb = 7" and "props \<in> {1, 6}"
  shows "finishes start_driver (getMemoryTypeIndex E tb props) (\<lambda>_. True)"
proof -
  have "unat (2 :: u32) = Suc (Suc 0)" by simp
  then show ?thesis unfolding getMemoryTypeIndex_def assms(1,2) prod.case
    using assms(3) by (auto simp only: type_index_loop.simps) (auto simp: finishes_def bindV_def run_simps index_eq)
qed

lemma start_depth:
  assumes "two_images E"
  shows "finishes start_driver (tri_setupDepthStencil E) (\<lambda>E'. two_images E' \<and> drawCmdBuffers E' = drawCmdBuffers E)"
  unfolding tri_setupDepthStencil_def
  apply (rule finishes_bind [OF start_check], simp, rule finishes_bind [OF start_reqs])
  apply (rule finishes_bind [OF start_type], use assms in simp, assumption, simp)
  apply (rule finishes_bind [OF start_check], simp, rule finishes_bind [OF start_check], simp, rule finishes_bind [OF start_check], simp)
  by (rule finishes_ret) (use assms in simp)

lemma start_frames:
  assumes "two_images E" and "drawCmdBuffers E = cs"
  shows "finishes start_driver (setupFrameBuffer E) (\<lambda>E'. two_images E' \<and> drawCmdBuffers E' = cs \<and> length (frameBuffers E') = 2)"
  unfolding setupFrameBuffer_def
proof (rule finishes_bind [OF finishes_map])
  fix i assume "i \<in> set [0 ..< unat (imageCount (chain E))]"
  then have "i < length (buffers (chain E))" using assms by simp
  then show "finishes start_driver (bindV (indexV (buffers (chain E)) i) (\<lambda>b. VK_CHECK_RESULT (CreateFramebuffer (ex_device E)
      \<lparr>fb_renderPass = renderPass E, fb_attachments = [snd b, depth_view E], fb_extent = (width E, height E)\<rparr>))) (\<lambda>_. True)"
    by (rule finishes_bind [OF finishes_index]) (rule start_check, simp)
qed (use assms in \<open>simp add: finishes_ret\<close>)

lemma start_markers: "finishes start_driver (load_markers E) (\<lambda>E'. \<exists>M. E' = E\<lparr>ex_markers := M\<rparr>)"
proof -
  have "E = E\<lparr>ex_markers := ex_markers E\<rparr>" by simp
  then have "\<exists>M. E = E\<lparr>ex_markers := M\<rparr>" by (rule exI)
  then show ?thesis
    by (auto simp: load_markers_def marker_setup_def device_proc_def finishes_def bindV_def run_simps split: if_splits)
qed

lemma start_prepare:
  assumes "memoryProperties (base T) = (2, [6, 7])" "\<not> overlay (base T)" "benchmark_active (base T)" "swapChain (chain (base T)) = VK_NULL_HANDLE"
  shows "finishes start_driver (prepare_app (triangle_virtuals mats) fs assets font connection window T)
    (\<lambda>T'. two_images (base T') \<and> length (drawCmdBuffers (base T')) = 2 \<and> length (frameBuffers (base T')) = 2)"
proof -
  let ?H = "hooks_at (triangle_virtuals mats) T"
  let ?ok = "\<lambda>E. two_images E \<and> length (drawCmdBuffers E) = 2"
  have chain: "finishes start_driver (setupSwapChain E) two_images"
    if "memoryProperties E = (2, [6, 7])" "\<not> overlay E" "benchmark_active E" "swapChain (chain E) = VK_NULL_HANDLE" for E
    unfolding setupSwapChain_def using that by (intro finishes_bind [OF start_create]) (auto intro!: finishes_ret)
  have cmds: "finishes start_driver (createCommandBuffers E) ?ok" if "two_images E" for E
    unfolding createCommandBuffers_def Let_def
    by (rule finishes_bind [OF finishes_checked_query [OF start_successful]], simp, rule finishes_ret) (use that in simp)
  have sync: "finishes start_driver (createSynchronizationPrimitives E) ?ok" if "?ok E" for E
    unfolding createSynchronizationPrimitives_def
    by (rule finishes_bind [OF finishes_map [OF start_check]], simp, rule finishes_ret) (use that in simp)
  have pass: "finishes start_driver (tri_setupRenderPass E) ?ok" if "?ok E" for E
    unfolding tri_setupRenderPass_def by (rule finishes_bind [OF start_check], simp, rule finishes_ret) (use that in simp)
  have cache: "finishes start_driver (createPipelineCache E) ?ok" if "?ok E" for E
    unfolding createPipelineCache_def by (rule finishes_bind [OF start_check], simp, rule finishes_ret) (use that in simp)
  have H: "depth_setup ?H = tri_setupDepthStencil" "pass_setup ?H = tri_setupRenderPass" "frame_setup ?H = setupFrameBuffer"
    by (simp_all add: hooks_at_def triangle_virtuals_def tri_frames_eq)
  have "finishes start_driver (prepare ?H (base T) connection window) (\<lambda>E. ?ok E \<and> length (frameBuffers E) = 2)"
    unfolding prepare_def H initSwapchain_def ex_createCommandPool_def
    apply (rule finishes_bind [OF start_markers])
    apply (rule finishes_bind)
    apply (rule finishes_bind [OF start_surface], rule finishes_ret [where P = "\<lambda>E. memoryProperties E = (2, [6, 7]) \<and> \<not> overlay E \<and>
      benchmark_active E \<and> swapChain (chain E) = VK_NULL_HANDLE"], use assms in auto)
    apply (rule finishes_bind)
    apply (rule finishes_bind [OF start_check], simp, rule finishes_ret [where P = "\<lambda>E. memoryProperties E = (2, [6, 7]) \<and> \<not> overlay E \<and>
      benchmark_active E \<and> swapChain (chain E) = VK_NULL_HANDLE"], simp)
    apply (rule finishes_bind [OF chain], simp, simp, simp, simp)
    apply (rule finishes_bind [OF cmds], assumption, rule finishes_bind [OF sync], assumption)
    apply (rule finishes_bind [OF finishes_weaken [OF start_depth, where Q = ?ok]], simp, simp)
    apply (rule finishes_bind [OF pass], assumption, rule finishes_bind [OF cache], assumption)
    apply (rule finishes_bind [OF start_frames], simp, rule refl)
    by (rule finishes_ret) simp
  then have "finishes start_driver (on_base (\<lambda>E. prepare ?H E connection window) T)
      (\<lambda>T'. ?ok (base T') \<and> length (frameBuffers (base T')) = 2)"
    unfolding on_base_def by (rule finishes_bind) (simp add: finishes_ret)
  then show ?thesis unfolding prepare_app_def by (rule finishes_bind) (simp add: finishes_ret)
qed

section \<open>The triangle's own objects\<close>

text \<open>Frame buffers, command buffers and fences for the two images.\<close>

definition two_frames :: "triangle \<Rightarrow> bool" where
  [simp]: "two_frames T = (two_images (base T) \<and> length (drawCmdBuffers (base T)) = 2 \<and> length (frameBuffers (base T)) = 2 \<and>
     length (tri_waitFences T) = 2)"

lemma start_host_buffer:
  assumes "memoryProperties E = (2, [6, 7])"
  shows "finishes start_driver (host_buffer E usage bytes whole) (\<lambda>_. True)"
  unfolding host_buffer_def Let_def
  apply (rule finishes_bind [OF start_check], simp, rule finishes_bind [OF start_reqs])
  apply (rule finishes_bind [OF start_type [OF assms]], assumption, simp, rule finishes_bind [OF start_check], simp)
  apply (rule finishes_bind [OF start_handle_check], simp)
  apply (rule finishes_then, auto simp: host_write_def intro: finishes_ret finishes_do)
  by (rule finishes_then [OF finishes_do], rule finishes_bind [OF start_check], simp, rule finishes_ret) simp

lemma start_device_buffer:
  assumes "memoryProperties E = (2, [6, 7])"
  shows "finishes start_driver (device_buffer E usage n) (\<lambda>_. True)"
  unfolding device_buffer_def Let_def
  apply (rule finishes_bind [OF start_check], simp, rule finishes_bind [OF start_reqs])
  apply (rule finishes_bind [OF start_type [OF assms]], assumption, simp, rule finishes_bind [OF start_check], simp)
  by (rule finishes_bind [OF start_check], simp, rule finishes_ret) simp

lemma start_command: "finishes start_driver (getCommandBuffer E True) (\<lambda>c. c \<noteq> VK_NULL_HANDLE)"
  unfolding getCommandBuffer_def if_True
  by (rule finishes_bind [OF start_handle_check], simp, rule finishes_bind [OF start_check], simp, rule finishes_ret)

lemma start_flush: "cmd \<noteq> VK_NULL_HANDLE \<Longrightarrow> finishes start_driver (tri_flushCommandBuffer E cmd) (\<lambda>_. True)"
  unfolding tri_flushCommandBuffer_def
  apply (rule finishes_then [OF finishes_assert], assumption)
  apply (rule finishes_bind [OF start_check], simp, rule finishes_bind [OF start_check], simp)
  apply (rule finishes_bind [OF start_check], simp, rule finishes_bind [OF start_check], simp)
  by (rule finishes_then [OF finishes_do finishes_do])

lemma start_vertices:
  assumes "two_frames T"
  shows "finishes start_driver (prepareVertices True T) two_frames"
proof -
  have m: "memoryProperties (base T) = (2, [6, 7])" using assms by simp
  have f: "finishes start_driver (free_buffer E b) (\<lambda>_. True)" for E b
    unfolding free_buffer_def by (intro finishes_then finishes_do)
  show ?thesis
    unfolding prepareVertices_def Let_def if_True
    apply (rule finishes_bind [OF start_host_buffer [OF m]], rule finishes_bind [OF start_device_buffer [OF m]])
    apply (rule finishes_bind [OF start_host_buffer [OF m]], rule finishes_bind [OF start_device_buffer [OF m]])
    apply (rule finishes_bind [OF start_command], rule finishes_then [OF finishes_do], rule finishes_then [OF finishes_do])
    apply (rule finishes_then [OF start_flush], assumption, rule finishes_then [OF f], rule finishes_then [OF f])
    by (rule finishes_ret) (use assms in simp)
qed

lemma start_nonnull: "nonnull start_driver"
  by (simp add: nonnull_def start_handle)

lemma start_uniform:
  assumes "two_frames T"
  shows "finishes start_driver (tri_prepareUniformBuffers mats T) two_frames"
proof -
  have m: "memoryProperties (base T) = (2, [6, 7])" using assms by simp
  show ?thesis
    unfolding tri_prepareUniformBuffers_def Let_def
    apply (rule finishes_bind [OF start_check], simp, rule finishes_bind [OF start_reqs])
    apply (rule finishes_bind [OF start_type [OF m]], assumption, simp, rule finishes_bind [OF start_check], simp)
    apply (rule finishes_bind [OF start_check], simp)
    apply (rule finishes_then [OF finishes_tri_matrices [OF start_successful start_nonnull]])
    by (rule finishes_ret) (use assms in simp)
qed

lemma start_layouts: "two_frames T \<Longrightarrow> finishes start_driver (tri_setupDescriptorSetLayout T) two_frames"
  unfolding tri_setupDescriptorSetLayout_def
  by (rule finishes_bind [OF start_check], simp, rule finishes_bind [OF start_check], simp, rule finishes_ret) simp

lemma start_shader: "finishes start_driver (loadSPIRVShader (\<lambda>_. Some [1]) dev name) (\<lambda>m. m \<noteq> VK_NULL_HANDLE)"
  unfolding loadSPIRVShader_def option.case
  by (rule finishes_then [OF finishes_assert], simp, rule start_handle_check, simp)

lemma start_pipeline: "two_frames T \<Longrightarrow> finishes start_driver (tri_preparePipelines (\<lambda>_. Some [1]) assets T) two_frames"
  unfolding tri_preparePipelines_def
  apply (rule finishes_bind [OF start_shader], rule finishes_then [OF finishes_assert], assumption)
  apply (rule finishes_bind [OF start_shader], rule finishes_then [OF finishes_assert], assumption)
  by (rule finishes_bind [OF start_check], simp, rule finishes_then [OF finishes_do], rule finishes_then [OF finishes_do], rule finishes_ret) simp

lemma start_descriptors:
  "two_frames T \<Longrightarrow> finishes start_driver (tri_setupDescriptorPool T) two_frames"
  "two_frames T \<Longrightarrow> finishes start_driver (tri_setupDescriptorSet T) two_frames"
  unfolding tri_setupDescriptorPool_def tri_setupDescriptorSet_def Let_def
  by (rule finishes_bind [OF start_check], simp, rule finishes_ret, simp)
    (rule finishes_bind [OF start_check], simp, rule finishes_then [OF finishes_do], rule finishes_ret, simp)

lemma start_tri_prepare:
  assumes "memoryProperties (base T) = (2, [6, 7])" "\<not> overlay (base T)" "benchmark_active (base T)" "swapChain (chain (base T)) = VK_NULL_HANDLE"
  shows "finishes start_driver (tri_prepare mats (\<lambda>_. Some [1]) assets font connection window T) (\<lambda>T'. two_frames T' \<and> prepared (base T'))"
proof -
  have sync: "finishes start_driver (prepareSynchronizationPrimitives T1) two_frames"
    if "two_images (base T1) \<and> length (drawCmdBuffers (base T1)) = 2 \<and> length (frameBuffers (base T1)) = 2" for T1
    unfolding prepareSynchronizationPrimitives_def
    by (rule finishes_bind [OF start_check], simp, rule finishes_bind [OF start_check], simp,
        rule finishes_bind [OF finishes_map [OF start_check]], simp, rule finishes_ret) (use that in simp)
  show ?thesis
    unfolding tri_prepare_def USE_STAGING_def
    apply (rule finishes_bind [OF start_prepare [OF assms]], rule finishes_bind [OF sync], assumption)
    apply (rule finishes_bind [OF start_vertices], assumption, rule finishes_bind [OF start_uniform], assumption)
    apply (rule finishes_bind [OF start_layouts], assumption, rule finishes_bind [OF start_pipeline], assumption)
    apply (rule finishes_bind [OF start_descriptors(1)], assumption, rule finishes_bind [OF start_descriptors(2)], assumption)
    apply (rule finishes_then [OF finishes_tri_build [OF start_successful]], simp)
    by (rule finishes_ret) simp
qed

section \<open>The run\<close>

lemma start_frame:
  assumes "two_frames T" and "prepared (base T)"
  shows "finishes start_driver (tri_render T) two_frames"
proof -
  have a: "finishes start_driver (acquireNextImage C sem) (\<lambda>(r, i). r = VK_SUCCESS \<and> i = 1)" for C sem
    by (simp add: acquireNextImage_def finishes_def bindV_def run_simps start_driver_simps)
  have p: "finishes start_driver (queuePresent C q i sem) (\<lambda>r. r = VK_SUCCESS)" for C q i sem
    by (simp add: queuePresent_def finishes_def bindV_def run_simps start_driver_simps)
  have "finishes start_driver (tri_draw T) two_frames"
    unfolding tri_draw_def Let_def check_result_def
    apply (rule finishes_bind [OF a], clarify, rule finishes_then [OF finishes_assert], rule refl)
    apply (rule finishes_bind [OF finishes_index], use assms(1) in simp)
    apply (rule finishes_bind [OF start_check], simp, rule finishes_bind [OF start_check], simp)
    apply (rule finishes_bind [OF finishes_index], use assms(1) in simp)
    apply (rule finishes_bind [OF start_check], simp, rule finishes_bind [OF p], rule finishes_then [OF finishes_assert], assumption)
    by (rule finishes_ret) (use assms(1) in simp)
  then show ?thesis using assms(2) by (simp add: tri_render_def)
qed

lemma start_destroy: "finishes d (tri_destroy T) (\<lambda>_. True)"
  unfolding tri_destroy_def free_buffer_def Let_def by (intro finishes_then finishes_for finishes_do)

lemma start_destroy_app:
  assumes "two_images (base A)"
  shows "finishes d (destroy_app V A) (\<lambda>_. True)"
proof -
  have c: "finishes d (cleanup (chain (base A))) (\<lambda>_. True)"
    unfolding cleanup_def
    by (rule finishes_then, use assms in \<open>auto intro: finishes_destroy_views finishes_ret\<close>)
      (auto intro!: finishes_then finishes_do finishes_ret)
  have i: "finishes d (if b then doV e else retV ()) (\<lambda>_. True)" for b e by (auto intro: finishes_do finishes_ret)
  have dev: "finishes d (destroy_device D) (\<lambda>_. True)" for D unfolding destroy_device_def by (intro finishes_then i)
  have o: "finishes d (if overlay (base A) then m else retV ()) (\<lambda>_. True)" for m using assms by (simp add: finishes_ret)
  have v: "finishes d (if validation (start A) then freeDebugCallback x (start A) else retV ()) (\<lambda>_. True)" for x
    unfolding freeDebugCallback_def by (auto intro: finishes_do finishes_ret)
  show ?thesis
    unfolding destroy_app_def destroy_resources_def destroyCommandBuffers_def
    by (intro finishes_then finishes_bind [OF c] i o v dev finishes_do finishes_for finishes_destroy_depth finishes_destroy_framebuffers)
qed

lemma start_main:
  "finishes start_driver (VULKAN_EXAMPLE_MAIN (triangle_virtuals mats) tri_construct
     (\<lambda>T. tri_prepare mats (\<lambda>_. Some [1]) assets font (the_connection (start T)) (the_window (start T)) T) tri_destroy
     True [''demo'', ''-b''] demo_screens U 1 [] T) (\<lambda>r. r)"
proof -
  let ?V = "triangle_virtuals mats"
  have loop: "finishes start_driver (renderLoop ?V 1 [] T1) (\<lambda>(T', r). two_frames T' \<and> r)" if "two_frames T1 \<and> prepared (base T1)" for T1
  proof -
    have "finishes start_driver (render_times ?V 1 T1) two_frames"
      using that start_frame [of T1] by (simp add: triangle_virtuals_def finishes_bind finishes_ret del: two_frames_def)
    then have "finishes start_driver (benchmark_loop ?V 1 T1) two_frames"
      unfolding benchmark_loop_def by (rule finishes_bind) (intro finishes_then finishes_do finishes_ret)
    then have "finishes start_driver (bindV (benchmark_loop ?V 1 T1) (\<lambda>A1. retV (A1, True))) (\<lambda>(T', r). two_frames T' \<and> r)"
      by (rule finishes_bind) (rule finishes_ret, simp del: two_frames_def)
    moreover have "benchmark_active (base T1)" using that by simp
    ultimately show ?thesis by (simp only: renderLoop_def if_True)
  qed
  show ?thesis
    unfolding VULKAN_EXAMPLE_MAIN_def
    apply (rule finishes_bind [OF start_construction])
    apply (rule finishes_bind [OF start_initVulkan], simp)
    apply (rule finishes_bind [OF start_window])
    apply (rule finishes_bind [OF start_tri_prepare])
    apply (simp add: tri_construct_def default_members_def)
    apply (simp add: tri_construct_def default_members_def)
    apply (simp add: tri_construct_def default_members_def)
    apply (simp add: tri_construct_def default_members_def)
    apply (rule finishes_bind [OF loop], assumption)
    apply (clarsimp simp del: two_frames_def)
    by (rule finishes_then [OF start_destroy], rule finishes_then [OF start_destroy_app], simp, rule finishes_ret) simp
qed

theorem triangle_frees_everything_witness:
  "\<exists>es. VULKAN_EXAMPLE_MAIN (triangle_virtuals demo_matrices) tri_construct
      (\<lambda>T. tri_prepare demo_matrices (\<lambda>_. Some [1]) [] ([], 0, 0) (the_connection (start T)) (the_window (start T)) T) tri_destroy
      True [''demo'', ''-b''] demo_screens demo_device 1 [] demo_triangle start_driver [] = Inr (True, es) \<and>
    (\<forall>k. gathered (made_by (makes k)) es = gathered (freed_by (frees k)) es)"
proof -
  obtain es where r: "VULKAN_EXAMPLE_MAIN (triangle_virtuals demo_matrices) tri_construct
      (\<lambda>T. tri_prepare demo_matrices (\<lambda>_. Some [1]) [] ([], 0, 0) (the_connection (start T)) (the_window (start T)) T) tri_destroy
      True [''demo'', ''-b''] demo_screens demo_device 1 [] demo_triangle start_driver [] = Inr (True, es)"
    using start_main [of demo_matrices "[]" "([], 0, 0)" demo_device demo_triangle] unfolding finishes_def by (metis (full_types))
  from triangle_frees_everything [OF r start_nonnull] show ?thesis using r by auto
qed

end
