(* ===== verification/Spec2Isabelle.thy ===== *)
theory Spec2Isabelle
  imports LinkRun VkBufferRun VkSwapProps VkExampleLive VkOverlayOwner VkDynamicRun VkLoopLive VkTriLive
begin

text \<open>
  A verification development of DynamicVulkanConfigurator. Paths are those of the repository, with the prefix
  \<open>src/\<close> where its own directory \<open>src\<close> is meant.

  \<^bold>\<open>The program.\<close> The repository holds two programs that meet in the structures of Vulkan.

  The \<^emph>\<open>configurator\<close> (\<open>src/\<close>) fills structures of Vulkan from an XML file. At its start
  \<open>VulkanConfigurator\<close> enters every enumerator, every type and every alias of the API into \<open>StrHashTable\<close>s, whose
  entries lie in memory of an \<open>Arena\<close>. Then \<open>XmlProcessor\<close> visits the elements of the file: a structure's element makes a
  \<open>StructFieldExtractor\<close>, a field's attribute is converted by the type that the field has (text, numbers, references, and
  for enumerations the expressions of \<open>EnumBitOpSplitter\<close>) and stored into the container of its structure. When the
  structure ends its container enters the \<open>VulkanMap\<close>. A field may name another structure by an id; such references
  are kept as \<open>ParentChildFieldLink\<close>s, and the child that matches one is written into the field of its parent. Errors of
  all parts collect in the word of \<open>ErrorState\<close>.

  The \<^emph>\<open>examples\<close> (the root of the repository) draw with Vulkan. \<open>VulkanExampleBase\<close> starts the program, opens
  device, swap chain and window, runs the loop over events and frames and frees everything at the end; it owns a
  \<open>VulkanDevice\<close>, a \<open>VulkanSwapChain\<close> and a \<open>UIOverlay\<close>. \<open>triangle.cpp\<close> and \<open>dynamicuniformbuffer.cpp\<close> derive classes from it
  and override the virtual functions.

  \<^bold>\<open>The models.\<close>

  \<^item> \<^bold>\<open>Prelude\<close>: faults of C++ operations as values of a sum type, storage with checked access, the lemmas shared by
    the configurator's theories and the collection of their equations.
  \<^item> \<^bold>\<open>ErrorState\<close> (\<open>src/ErrorState.hpp\<close>): the word of error flags, and its interface as the locale \<open>error_sink\<close>.
  \<^item> \<^bold>\<open>CStrings\<close> (\<open>src/constexpr_strcpy.hpp\<close>, \<open>constexpr_trimspaces.hpp\<close>, \<open>constexpr_stoi.hpp\<close>): the copies, the
    removal of white space and the reading of numbers, on storage of a given size.
  \<^item> \<^bold>\<open>Float32\<close>, \<^bold>\<open>StringHash\<close> (\<open>src/compile_time_string_hash.hpp\<close>, \<open>get_string_hash.hpp\<close>): the FNV hash on 32-bit words
    and the index of the table, whose multiplication by a \<open>float\<close> is carried out with the rounding of single precision.
  \<^item> \<^bold>\<open>HashTable\<close>, \<^bold>\<open>HashTableSpec\<close>, \<^bold>\<open>HashTableContract\<close> (\<open>src/StrHashTable.hpp\<close>): table, chains and lookup; the invariant and
    the entries of a table; the contract \<open>string_table\<close>, a partial map, interpreted for both ways to insert.
  \<^item> \<^bold>\<open>Arena\<close> (\<open>src/folly/src/memory/Arena.h\<close>, \<open>Arena-inl.h\<close>, \<open>src/ArenaContainers.hpp\<close>): blocks, the bump pointer, and the
    pool with its free list.
  \<^item> \<^bold>\<open>EnumExpr\<close> (\<open>src/EnumBitOpSplitterBase.hpp\<close>, \<open>.cpp\<close>, \<open>src/EnumBitOpSplitter.inl\<close>): from the text of an expression of
    enumerators with bit operators to its value, by way of tokens and a stack.
  \<^item> \<^bold>\<open>TypeMaps\<close>, \<^bold>\<open>TypeHashes\<close> (\<open>src/VulkanEnumMap.hpp\<close>, \<open>VulkanTypeList.hpp\<close>, \<open>VulkanAliasList.hpp\<close>,
    \<open>VulkanConfigurator.hpp\<close>, \<open>.inl\<close>): the tables of enumerators, types and aliases with the lists of the repository.
  \<^item> \<^bold>\<open>StructMeta\<close> (\<open>src/vulkan_structs_meta.hpp\<close>): for every structure the names and types of its fields.
  \<^item> \<^bold>\<open>FieldStore\<close>, \<^bold>\<open>FieldConv\<close> (\<open>src/FieldExtractor.hpp\<close>, \<open>.inl\<close>, \<open>src/StructFieldExtractor.hpp\<close>, \<open>.inl\<close>): the container of a
    structure, the search for a field by its name and the conversions of a field's text.
  \<^item> \<^bold>\<open>ParentLink\<close> (\<open>src/ParentChildFieldLink.hpp\<close>, \<open>.cpp\<close>, \<open>src/ChildTypeParentFieldMatching.*\<close>): ids, links and the
    matching of a child with the fields that wait for it.
  \<^item> \<^bold>\<open>XmlProc\<close> (\<open>src/XmlProcessor.hpp\<close>, \<open>.cpp\<close>, \<open>src/VulkanMap.inl\<close>): the state of the visitor with its fixed arrays and
    8-bit counters, every visit and \<open>process\<close>. \<^bold>\<open>XmlInv\<close> holds its invariant, \<^bold>\<open>XmlRun\<close> and \<^bold>\<open>LinkRun\<close> its runs.
  \<^item> \<^bold>\<open>VkBase\<close>: the boundary to Vulkan and XCB. A call is a value of \<open>vk_call\<close>, the log is the list of calls made with their
    results, and a \<open>driver\<close> answers a call from the log before it; an operation is a function from driver and log to
    a fault or a value and the longer log. \<open>VK_CHECK_RESULT\<close>, \<open>assert\<close> and an index out of range are faults.
  \<^item> \<^bold>\<open>VkInit\<close>, \<^bold>\<open>VkGraphics\<close> (\<open>VulkanInitializers.hpp\<close>): the structures handed to the driver and the functions that fill them.
  \<^item> \<^bold>\<open>VkBuffer\<close> (\<open>VulkanBuffer.hpp\<close>), \<^bold>\<open>VkDevice\<close> (\<open>VulkanDevice.hpp\<close>), \<^bold>\<open>VkSwapChain\<close> (\<open>VulkanSwapChain.hpp\<close>), \<^bold>\<open>VkTools\<close>
    (\<open>VulkanTools.cpp\<close>), \<^bold>\<open>VkOverlay\<close> (\<open>VulkanUIOverlay.cpp\<close>): one record for the members of each class and one definition for
    each function.
  \<^item> \<^bold>\<open>VkDebug\<close> (\<open>VulkanDebug.cpp\<close>): the callback that prints validation messages and the markers for debuggers; nothing else
    calls the markers except that \<open>prepare\<close> loads their pointers. The messenger is part of \<open>VkStart\<close>.
  \<^item> \<^bold>\<open>VkExample\<close>, \<^bold>\<open>VkLoop\<close>, \<^bold>\<open>VkStart\<close> (\<open>vulkanexamplebase.cpp\<close>, \<open>.h\<close>): the resources of the window; events, frames and the
    render loop; command line, instance, device, window and \<open>main\<close>. Virtual functions are the fields of the records
    \<open>hooks\<close> and \<open>virtuals\<close>; a derived class extends the record \<open>app\<close> with its members.
  \<^item> \<^bold>\<open>VkTriangle\<close> (\<open>triangle.cpp\<close>) and \<^bold>\<open>VkDynamic\<close> (\<open>dynamicuniformbuffer.cpp\<close>): the two derived classes.

  \<^bold>\<open>What is shown.\<close> For the configurator: the invariant of the visitor under every visit (\<open>visits_keep_invariant\<close>), that the
  elements of a file leave the structure they describe in the map (\<open>struct_element_stored\<close>) and a child in the field of its
  parent (\<open>child_structure_stored\<close>, \<open>matching_exact\<close>), that the tables hold exactly the names of the API
  (\<open>type_map_complete\<close>, \<open>enum_map_complete\<close>) and behave as maps (\<open>table_refines_map\<close>), the value of an expression, and what
  the allocator hands out; also where limits are passed without notice (\<open>too_many_structures\<close>,
  \<open>pool_free_of_lost_block\<close>). For the examples: what is created is freed, once, by every class that owns objects (the locale
  \<open>vk_owner\<close> in \<^bold>\<open>VkOwner\<close>, interpreted for the swap chain's three kinds of objects and for the buffers and the memory of
  the overlay) and by a whole program from its first call to its last (the locale \<open>derived_class\<close> in \<^bold>\<open>VkLifeRun\<close>, the
  contract of the virtual functions, interpreted for the triangle: \<open>triangle_frees_everything\<close>), writes stay inside the memory mapped, a resize destroys each old target once, leaves consistent new ones and comes
  back when the driver succeeds, every submission of a frame of the triangle waits for its fence, the overlay draws what ImGui asked
  for, the input state follows the events, the loop ends when the window closes, the command line decides the settings; and the
  cases in which the code does not do what it means to (a stale image index after a resize, fences left behind, the overlay's
  resources lost, a copy from behind the block of the matrices). What the resize and the loop ask of a derived class
  (\<open>hooks_return\<close>, \<open>hooks_quiet\<close>, \<open>virtuals_return\<close>) is proved of the triangle and of the dynamic uniform
  buffer in \<^bold>\<open>VkLoopLive\<close>, which runs both.

  \<^bold>\<open>How.\<close> \<^bold>\<open>VkLogic\<close> has three small logics for operations of the driver monad, with a rule for each operator: \<open>finishes\<close>
  (total correctness), \<open>only\<close> (a property of every call and of the result) and \<open>balances\<close> (objects made and freed against objects
  held). \<^bold>\<open>VkKinds\<close> sorts the calls by the kind of object they make or free, and
  \<^bold>\<open>VkLife\<close> follows each kind through the base class. The theories whose names end in \<open>Run\<close>, \<open>Props\<close>,
  \<open>Owner\<close>, \<open>Life\<close>, \<open>Live\<close> and \<open>Inv\<close> hold the theorems about the model of the same stem.

  \<^bold>\<open>Bounds and fuel.\<close> Machine integers keep their width: the counters of \<open>XmlProcessor\<close>, the chain lengths and the storage
  positions are taken modulo 256 as \<open>uint8_t\<close> is, handles and sizes are words. Recursion is structural or has a measure; no
  definition runs on fuel. Where the code loops for as long as input comes, the input is a list (the visits
  of a file, the events and frames of a run, the lines of a stream), so that the number of its elements bounds the run; a run of the render loop that
  has not closed its window when the list ends says so in its result. Undefined behaviour of C++ that the code can reach (an index out of range, a
  read behind the arguments, a null pointer of a reply) is a fault.

  \<^bold>\<open>Parameters.\<close> The driver of Vulkan and the server of XCB; the file system; the memory that \<open>malloc\<close> and \<open>memalign\<close> give; the parser of XML (the visits it makes are the input); ImGui (its draw data and
  the answers of its widgets); the matrices that glm computes; the timers and the
  number of frames that a benchmark lasts. Hypotheses about them say what their
  documentation promises; those on success (\<open>successful\<close>, \<open>frames_succeed\<close>, \<open>offers_memory\<close>, \<open>images_at_least\<close>) select
  the runs in which the driver plays along. The bytes of a matrix have the size of its type. Every theorem with hypotheses has an instance.

  \<^bold>\<open>Not modelled.\<close> ImGui (\<open>external/imgui\<close>), ctre, visit_struct, magic_enum, CTTI and folly apart from its \<open>Arena\<close>: libraries of others that the
  code calls. \<open>camera.hpp\<close>: floating-point vectors and matrices of glm; the movements asked of the camera and the keys it
  holds are part of the loop. The files and measurements of \<open>benchmark.hpp\<close>: timers and text output. \<open>main.cpp\<close> and
  \<open>src/VulkanConfigurator.cpp\<close>: test drivers that print. The generators in Python, the files they wrote that the program
  does not include, and the unit tests. The branches for Windows, Android, Wayland, macOS, iOS and direct displays: the build defines
  \<open>VK_USE_PLATFORM_XCB_KHR\<close>, the others are not compiled.
\<close>

end
